(* ===== verification/WF_Prelude.thy ===== *)
theory WF_Prelude
  imports Main "HOL-Library.List_Lexorder" "HOL-Library.Char_ord" "HOL-Library.Product_Lexorder"
begin

section \<open>Shared vocabulary: results, oracles and SQL tables\<close>

text \<open>
  What every component of the model shares:
  \<^item> \<open>werror\<close>, the exceptions of \<^verbatim>\<open>packages/core_domain/errors.py\<close> together with the
    standard ones the code raises or provokes, and the sequencing of fallible calls \<open>rbind\<close>
    over \<open>werror + 'a\<close> (an exception leaves the database as \<open>unit_of_work\<close> rolls it back,
    so an erroneous result carries no new state);
  \<^item> \<open>env\<close>, the answers of the clock and of \<open>uuid4\<close> that one operation reads;
  \<^item> the SQL statements of the repositories over tables kept as lists of rows in insertion
    order: selection, \<open>ORDER BY .. DESC LIMIT 1\<close>, \<open>UPDATE .. WHERE\<close>, guarded \<open>INSERT\<close>;
  \<^item> \<open>run_events\<close>, a component run over a sequence of transactions, with its invariant rule;
  \<^item> the review policies of \<^verbatim>\<open>packages/contracts/models.py\<close>, which runs and cluster plans share;
  \<^item> two locales: \<open>repository\<close> for a table read and extended by primary key and
    \<open>mutable_repository\<close> for one whose rows are updated in place under a guard.
\<close>

named_theorems wf_defs \<open>definitions unfolded when a component's operation is evaluated\<close>

type_synonym time = int \<comment> \<open>microseconds since the epoch, UTC\<close>

subsection \<open>Exceptions\<close>

datatype werror =
    WorkflowError
  | PresetRequiredError
  | PresetNotFoundError string
  | EntityNotFoundError string string
  | InvalidStateTransitionError string string "string list" "string option"
  | UnsupportedTaskKindError string "string list"
  | CapabilityAdapterNotFoundError string string "string list"
  | WorkerAdapterUnavailableError string string
  | TaskKindNotAllowedError string string "string list"
  | ExecutionLaneNotAllowedError string string "string list"
  | UnsupportedRepairActionError string "string list"
  | RepairActionNotAvailableError string "string option" "string list"
  | RuntimeClaimConflictError string string time
  | ParallelBarrierBrokenError string string
  | BudgetExhaustedError string int int
  | MutationContractError string
  | RepoMutationScopeError string
  | PatchApplyError string
  | OperatorActionReceiptError string
  | CapabilityPolicyEnforcementError string
  | SchedulerArbitrationError string
  | RuntimeGatewayConfigurationError string
  | RuntimeGatewayExecutionError string
  | DatabaseBusyError string string
  \<comment> \<open>raised by the standard library, by pydantic and by SQLite\<close>
  | ValidationError string
  | ValueError string
  | OSError string
  | KeyError string
  | TypeError string
  | AssertionError
  | IntegrityError string

text \<open>The class attribute \<open>code\<close> of each exception class; the others have none.\<close>

fun error_code :: "werror \<Rightarrow> string option" where
  "error_code WorkflowError = Some ''workflow_error''"
| "error_code PresetRequiredError = Some ''preset_required''"
| "error_code (PresetNotFoundError _) = Some ''preset_not_found''"
| "error_code (EntityNotFoundError _ _) = Some ''entity_not_found''"
| "error_code (InvalidStateTransitionError _ _ _ _) = Some ''invalid_state_transition''"
| "error_code (UnsupportedTaskKindError _ _) = Some ''unsupported_task_kind''"
| "error_code (CapabilityAdapterNotFoundError _ _ _) = Some ''capability_adapter_not_found''"
| "error_code (WorkerAdapterUnavailableError _ _) = Some ''worker_adapter_unavailable''"
| "error_code (TaskKindNotAllowedError _ _ _) = Some ''task_kind_not_allowed''"
| "error_code (ExecutionLaneNotAllowedError _ _ _) = Some ''execution_lane_not_allowed''"
| "error_code (UnsupportedRepairActionError _ _) = Some ''unsupported_repair_action''"
| "error_code (RepairActionNotAvailableError _ _ _) = Some ''repair_action_not_available''"
| "error_code (RuntimeClaimConflictError _ _ _) = Some ''runtime_claim_conflict''"
| "error_code (ParallelBarrierBrokenError _ _) = Some ''parallel_barrier_broken''"
| "error_code (BudgetExhaustedError _ _ _) = Some ''budget_exhausted''"
| "error_code (MutationContractError _) = Some ''mutation_contract_invalid''"
| "error_code (RepoMutationScopeError _) = Some ''repo_mutation_scope_error''"
| "error_code (PatchApplyError _) = Some ''repo_patch_apply_failed''"
| "error_code (OperatorActionReceiptError _) = Some ''operator_action_receipt_invalid''"
| "error_code (CapabilityPolicyEnforcementError _) = Some ''capability_policy_denied''"
| "error_code (SchedulerArbitrationError _) = Some ''scheduler_arbitration_error''"
| "error_code (RuntimeGatewayConfigurationError _) = Some ''runtime_gateway_configuration_error''"
| "error_code (RuntimeGatewayExecutionError _) = Some ''runtime_gateway_execution_error''"
| "error_code (DatabaseBusyError _ _) = Some ''database_busy''"
| "error_code _ = None"

text \<open>The class attribute \<open>status_code\<close> (\<open>400\<close> is inherited from \<open>WorkflowError\<close>).\<close>

fun http_status :: "werror \<Rightarrow> nat option" where
  "http_status (PresetNotFoundError _) = Some 404"
| "http_status (EntityNotFoundError _ _) = Some 404"
| "http_status (InvalidStateTransitionError _ _ _ _) = Some 409"
| "http_status (UnsupportedTaskKindError _ _) = Some 422"
| "http_status (CapabilityAdapterNotFoundError _ _ _) = Some 422"
| "http_status (WorkerAdapterUnavailableError _ _) = Some 503"
| "http_status (TaskKindNotAllowedError _ _ _) = Some 409"
| "http_status (ExecutionLaneNotAllowedError _ _ _) = Some 409"
| "http_status (UnsupportedRepairActionError _ _) = Some 422"
| "http_status (RepairActionNotAvailableError _ _ _) = Some 409"
| "http_status (RuntimeClaimConflictError _ _ _) = Some 409"
| "http_status (ParallelBarrierBrokenError _ _) = Some 409"
| "http_status (BudgetExhaustedError _ _ _) = Some 409"
| "http_status (MutationContractError _) = Some 422"
| "http_status (RepoMutationScopeError _) = Some 409"
| "http_status (PatchApplyError _) = Some 409"
| "http_status (OperatorActionReceiptError _) = Some 403"
| "http_status (CapabilityPolicyEnforcementError _) = Some 403"
| "http_status (SchedulerArbitrationError _) = Some 409"
| "http_status (RuntimeGatewayConfigurationError _) = Some 422"
| "http_status (RuntimeGatewayExecutionError _) = Some 502"
| "http_status (DatabaseBusyError _ _) = Some 423"
| "http_status WorkflowError = Some 400"
| "http_status PresetRequiredError = Some 400"
| "http_status _ = None"

subsection \<open>Sequencing fallible calls\<close>

definition rbind :: "'e + 'a \<Rightarrow> ('a \<Rightarrow> 'e + 'b) \<Rightarrow> 'e + 'b" where
  "rbind m f = (case m of Inl e \<Rightarrow> Inl e | Inr x \<Rightarrow> f x)"

definition rguard :: "bool \<Rightarrow> 'e \<Rightarrow> 'e + unit" where
  "rguard b e = (if b then Inr () else Inl e)"

text \<open>A list comprehension whose element expression may raise: the first error wins.\<close>

fun rmap :: "('a \<Rightarrow> 'e + 'b) \<Rightarrow> 'a list \<Rightarrow> 'e + 'b list" where
  "rmap f [] = Inr []"
| "rmap f (x # xs) = rbind (f x) (\<lambda>y. rbind (rmap f xs) (\<lambda>ys. Inr (y # ys)))"

text \<open>\<open>None\<close> stays \<open>None\<close>, a row is validated.\<close>

definition roption :: "('a \<Rightarrow> 'e + 'b) \<Rightarrow> 'a option \<Rightarrow> 'e + 'b option" where
  "roption f r = (case r of None \<Rightarrow> Inr None | Some x \<Rightarrow> rbind (f x) (\<lambda>y. Inr (Some y)))"

lemma rbind_simps [simp]:
  "rbind (Inl e) f = Inl e"
  "rbind (Inr x) f = f x"
  by (simp_all add: rbind_def)

lemma rbind_eq_Inr: "rbind m f = Inr y \<longleftrightarrow> (\<exists>x. m = Inr x \<and> f x = Inr y)"
  by (cases m) simp_all

lemma rbind_eq_Inl: "rbind m f = Inl e \<longleftrightarrow> m = Inl e \<or> (\<exists>x. m = Inr x \<and> f x = Inl e)"
  by (cases m) simp_all

lemma rguard_simps [simp]:
  "rguard True e = Inr ()"
  "rguard False e = Inl e"
  by (simp_all add: rguard_def)

lemma rguard_eq_Inr [simp]: "rguard b e = Inr u \<longleftrightarrow> b"
  by (cases b) simp_all

lemma rguard_eq_Inl [simp]: "rguard b e = Inl e' \<longleftrightarrow> \<not> b \<and> e' = e"
  by (cases b) auto

lemma rmap_all_Inr: "(\<And>x. x \<in> set xs \<Longrightarrow> f x = Inr (g x)) \<Longrightarrow> rmap f xs = Inr (map g xs)"
  by (induction xs) simp_all

lemma rmap_id: "(\<And>x. x \<in> set xs \<Longrightarrow> f x = Inr x) \<Longrightarrow> rmap f xs = Inr xs"
  using rmap_all_Inr [of xs f "\<lambda>x. x"] by simp

lemma roption_simps [simp]:
  "roption f None = Inr None"
  "roption f (Some x) = rbind (f x) (\<lambda>y. Inr (Some y))"
  by (simp_all add: roption_def)

lemma roption_eq_Inr:
  "roption f r = Inr q \<longleftrightarrow>
     (r = None \<and> q = None) \<or> (\<exists>x y. r = Some x \<and> f x = Inr y \<and> q = Some y)"
  by (cases r) (auto simp: rbind_eq_Inr)

lemma roption_id: "(\<And>x. r = Some x \<Longrightarrow> f x = Inr x) \<Longrightarrow> roption f r = Inr r"
  by (cases r) simp_all

lemmas result_simps = rbind_eq_Inr rbind_eq_Inl roption_eq_Inr

subsection \<open>Clock and identifier oracles\<close>

text \<open>
  One operation reads the wall clock and draws identifiers several times. The model passes it
  an \<open>env\<close>: \<open>clock e k\<close> is the \<open>k\<close>-th reading of \<open>datetime.now(UTC)\<close> the operation makes
  and \<open>hex12 e k\<close> the \<open>k\<close>-th \<open>uuid4().hex[:12]\<close>; nothing is assumed of either (a theorem that
  needs the clock to advance says so). Two identifiers may collide: the primary keys of the
  tables reject the second row, as SQLite does.
\<close>

record env =
  clock :: "nat \<Rightarrow> time"
  hex12 :: "nat \<Rightarrow> string"

definition new_id :: "string \<Rightarrow> string \<Rightarrow> string" where
  "new_id pre hx = pre @ ''_'' @ hx"

definition seconds :: "int \<Rightarrow> time" where
  "seconds s = s * 1000000"

definition milliseconds :: "int \<Rightarrow> time" where
  "milliseconds s = s * 1000"

text \<open>A nested call gets the readings of the caller's \<open>env\<close> from an index on.\<close>

definition env_from :: "nat \<Rightarrow> env \<Rightarrow> env" where
  "env_from k e = \<lparr>clock = (\<lambda>i. clock e (k + i)), hex12 = (\<lambda>i. hex12 e (k + i))\<rparr>"

text \<open>Python's \<open>x or d\<close> on an optional string: \<open>None\<close> and the empty string give \<open>d\<close>.\<close>

definition str_or :: "string option \<Rightarrow> string \<Rightarrow> string" where
  "str_or x d = (case x of None \<Rightarrow> d | Some s \<Rightarrow> if s = [] then d else s)"

lemma new_id_inj [simp]: "new_id p h = new_id p h' \<longleftrightarrow> h = h'"
  by (simp add: new_id_def)

subsection \<open>SQL over lists of rows\<close>

text \<open>
  \<open>SELECT * FROM t WHERE .. ORDER BY key DESC LIMIT 1\<close>: a row with the greatest key, the one
  inserted first among several. Keys are integers, UTC timestamps or texts (compared bytewise, as
  SQLite's BINARY collation does), or lexicographic tuples of these.
\<close>

fun top_by :: "('r \<Rightarrow> 'k::linorder) \<Rightarrow> 'r list \<Rightarrow> 'r option" where
  "top_by key [] = None"
| "top_by key (r # rs) =
     (case top_by key rs of
        None \<Rightarrow> Some r
      | Some s \<Rightarrow> (if key r < key s then Some s else Some r))"

definition sql_where :: "('r \<Rightarrow> bool) \<Rightarrow> 'r list \<Rightarrow> 'r list" where
  "sql_where p rows = filter p rows"

definition sql_first :: "('r \<Rightarrow> bool) \<Rightarrow> 'r list \<Rightarrow> 'r option" where
  "sql_first p rows = List.find p rows"

definition sql_order :: "('r \<Rightarrow> 'k::linorder) \<Rightarrow> 'r list \<Rightarrow> 'r list" where
  "sql_order key rows = sort_key key rows"

definition sql_update :: "('r \<Rightarrow> bool) \<Rightarrow> ('r \<Rightarrow> 'r) \<Rightarrow> 'r list \<Rightarrow> 'r list" where
  "sql_update p f rows = map (\<lambda>r. if p r then f r else r) rows"

text \<open>\<open>INSERT\<close>: the uniqueness and foreign-key constraints of the table are checked first.\<close>

definition sql_insert :: "string \<Rightarrow> bool \<Rightarrow> 'r \<Rightarrow> 'r list \<Rightarrow> werror + 'r list" where
  "sql_insert tbl ok r rows = (if ok then Inr (rows @ [r]) else Inl (IntegrityError tbl))"

text \<open>\<open>SELECT COALESCE(MAX(x), 0)\<close>.\<close>

definition sql_max0 :: "('r \<Rightarrow> int) \<Rightarrow> 'r list \<Rightarrow> int" where
  "sql_max0 f rows = (case rows of [] \<Rightarrow> 0 | _ \<Rightarrow> Max (f ` set rows))"

lemma top_by_None [simp]: "top_by key rows = None \<longleftrightarrow> rows = []"
  by (cases rows) (auto split: option.splits)

lemma top_by_mem: "top_by key rows = Some r \<Longrightarrow> r \<in> set rows"
  by (induction rows arbitrary: r) (auto split: option.splits if_splits)

lemma top_by_max: "top_by key rows = Some r \<Longrightarrow> s \<in> set rows \<Longrightarrow> key s \<le> key r"
proof (induction rows arbitrary: r s)
  case (Cons x xs)
  then show ?case
    by (cases "top_by key xs") (fastforce split: if_splits)+
qed simp

lemma top_by_Some_ex: "rows \<noteq> [] \<Longrightarrow> \<exists>r. top_by key rows = Some r"
  using top_by_None [of key rows] by (cases "top_by key rows") auto

lemma top_by_eqI:
  assumes "r \<in> set rows" and "\<And>s. s \<in> set rows \<Longrightarrow> s \<noteq> r \<Longrightarrow> key s < key r"
  shows "top_by key rows = Some r"
proof -
  obtain q where q: "top_by key rows = Some q"
    using assms(1) top_by_Some_ex [of rows key] by fastforce
  then have "q \<in> set rows" and "key r \<le> key q"
    using assms(1) by (auto dest: top_by_mem top_by_max)
  then have "q = r"
    using assms(2) [of q] by force
  with q show ?thesis by simp
qed

lemma top_by_unique: "r \<in> set rows \<Longrightarrow> (\<And>s. s \<in> set rows \<Longrightarrow> s = r) \<Longrightarrow> top_by key rows = Some r"
  by (rule top_by_eqI) blast+

lemma sql_first_Some: "sql_first p rows = Some r \<Longrightarrow> r \<in> set rows \<and> p r"
  by (auto simp: sql_first_def find_Some_iff in_set_conv_nth)

lemma sql_first_None [simp]: "sql_first p rows = None \<longleftrightarrow> (\<forall>r\<in>set rows. \<not> p r)"
  by (auto simp: sql_first_def find_None_iff)

lemma sql_first_ex: "r \<in> set rows \<Longrightarrow> p r \<Longrightarrow> \<exists>q. sql_first p rows = Some q \<and> q \<in> set rows \<and> p q"
  using sql_first_None [of p rows] sql_first_Some [of p rows] by (cases "sql_first p rows") auto

lemma sql_first_Nil [simp]: "sql_first p [] = None"
  by (simp add: sql_first_def)

lemma sql_first_append:
  "sql_first p (xs @ ys) = (case sql_first p xs of None \<Rightarrow> sql_first p ys | Some r \<Rightarrow> Some r)"
  by (induction xs) (simp_all add: sql_first_def)

lemma sql_first_single [simp]: "sql_first p [r] = (if p r then Some r else None)"
  by (simp add: sql_first_def)

lemma sql_where_mem [simp]: "r \<in> set (sql_where p rows) \<longleftrightarrow> r \<in> set rows \<and> p r"
  by (auto simp: sql_where_def)

lemma sql_where_Nil [simp]: "sql_where p rows = [] \<longleftrightarrow> (\<forall>r\<in>set rows. \<not> p r)"
  by (auto simp: sql_where_def filter_empty_conv)

lemma sql_order_mem [simp]: "set (sql_order key rows) = set rows"
  by (simp add: sql_order_def)

lemma sql_update_mem:
  "r \<in> set (sql_update p f rows) \<longleftrightarrow>
     (\<exists>s\<in>set rows. r = (if p s then f s else s))"
  by (auto simp: sql_update_def)

lemma sql_update_image: "r \<in> set rows \<Longrightarrow> (if p r then f r else r) \<in> set (sql_update p f rows)"
  by (auto simp: sql_update_def)

lemma sql_update_map: "(\<And>r. g (f r) = g r) \<Longrightarrow> map g (sql_update p f rows) = map g rows"
  by (simp add: sql_update_def)

lemma sql_update_keys: "(\<And>r. g (f r) = g r) \<Longrightarrow> g ` set (sql_update p f rows) = g ` set rows"
  by (metis list.set_map sql_update_map)

lemma sql_update_all: "(\<And>r. Q r \<Longrightarrow> p r \<Longrightarrow> Q (f r)) \<Longrightarrow> \<forall>r\<in>set rows. Q r \<Longrightarrow> \<forall>r\<in>set (sql_update p f rows). Q r"
  by (auto simp: sql_update_mem)

lemma sql_update_none: "(\<And>r. r \<in> set rows \<Longrightarrow> \<not> p r) \<Longrightarrow> sql_update p f rows = rows"
  by (simp add: sql_update_def map_idI)

lemma sql_insert_Inr [simp]: "sql_insert tbl ok r rows = Inr rows' \<longleftrightarrow> ok \<and> rows' = rows @ [r]"
  by (auto simp: sql_insert_def)

lemma sql_insert_Inl [simp]: "sql_insert tbl ok r rows = Inl e \<longleftrightarrow> \<not> ok \<and> e = IntegrityError tbl"
  by (auto simp: sql_insert_def)

lemma sql_max0_Max: "rows \<noteq> [] \<Longrightarrow> sql_max0 f rows = Max (f ` set rows)"
  by (cases rows) (simp_all add: sql_max0_def)

lemma sql_max0_ge: "r \<in> set rows \<Longrightarrow> f r \<le> sql_max0 f rows"
  by (cases rows) (auto simp: sql_max0_def)

lemma sql_max0_nonneg: "(\<And>r. r \<in> set rows \<Longrightarrow> 0 \<le> f r) \<Longrightarrow> 0 \<le> sql_max0 f rows"
proof (cases rows)
  case (Cons x xs)
  assume nn: "\<And>r. r \<in> set rows \<Longrightarrow> 0 \<le> f r"
  have "0 \<le> f x" and "f x \<le> sql_max0 f rows"
    using nn Cons by (auto intro: sql_max0_ge)
  then show ?thesis by simp
qed (simp add: sql_max0_def)


lemma at_most_one:
  assumes "distinct xs" and "\<And>x y. x \<in> set xs \<Longrightarrow> y \<in> set xs \<Longrightarrow> x = y"
  shows "length xs \<le> 1"
proof -
  have "card (set xs) \<le> Suc 0"
    using assms(2) by (intro card_le_Suc0_iff_eq [THEN iffD2]) auto
  then show ?thesis using distinct_card [OF assms(1)] by simp
qed

subsection \<open>Sequences of transactions\<close>

text \<open>
  A component run over a list of requests: each request is one \<open>unit_of_work\<close>, so a request that
  raises leaves the state as it was.
\<close>

fun run_events :: "('ev \<Rightarrow> 'db \<Rightarrow> werror + 'db) \<Rightarrow> 'ev list \<Rightarrow> 'db \<Rightarrow> 'db" where
  "run_events step [] db = db"
| "run_events step (ev # evs) db =
     run_events step evs (case step ev db of Inl _ \<Rightarrow> db | Inr db' \<Rightarrow> db')"

lemma run_events_invariant:
  assumes "\<And>ev db db'. I db \<Longrightarrow> step ev db = Inr db' \<Longrightarrow> I db'" and "I db"
  shows "I (run_events step evs db)"
  using assms(2) by (induction evs arbitrary: db) (auto intro: assms(1) split: sum.split)

lemma run_events_append:
  "run_events step (xs @ ys) db = run_events step ys (run_events step xs db)"
  by (induction xs arbitrary: db) simp_all

subsection \<open>Calls that keep their effects\<close>

text \<open>
  A call of a service over a state \<open>'s\<close>: it returns the state it leaves also when it raises. A
  transaction that raises leaves the state as it was.
\<close>

type_synonym ('s, 'a) call = "'s \<Rightarrow> 's \<times> (werror + 'a)"

definition eret :: "'a \<Rightarrow> ('s, 'a) call" where
  "eret x s = (s, Inr x)"

definition ebind :: "('s, 'a) call \<Rightarrow> ('a \<Rightarrow> ('s, 'b) call) \<Rightarrow> ('s, 'b) call" where
  "ebind m f s = (case m s of (s', Inl e) \<Rightarrow> (s', Inl e) | (s', Inr x) \<Rightarrow> f x s')"

fun efold :: "('b \<Rightarrow> 'a \<Rightarrow> ('s, 'a) call) \<Rightarrow> 'b list \<Rightarrow> 'a \<Rightarrow> ('s, 'a) call" where
  "efold f [] a = eret a"
| "efold f (x # xs) a = ebind (f x a) (efold f xs)"

definition transaction :: "('s \<Rightarrow> werror + 'a \<times> 's) \<Rightarrow> ('s, 'a) call" where
  "transaction t s = (case t s of Inl e \<Rightarrow> (s, Inl e) | Inr (x, s') \<Rightarrow> (s', Inr x))"

lemma ebind_Inr: "ebind m f s = (s', Inr y) \<longleftrightarrow> (\<exists>x s1. m s = (s1, Inr x) \<and> f x s1 = (s', Inr y))"
  by (auto simp: ebind_def split: prod.splits sum.splits)

lemma eret_Inr [simp]: "eret x s = (s', Inr y) \<longleftrightarrow> s' = s \<and> y = x"
  by (auto simp: eret_def)

lemma efold_rule:
  assumes run: "efold f xs a s = (s', Inr a')" and start: "Q [] a"
    and step: "\<And>ys x zs b t t' b'. xs = ys @ x # zs \<Longrightarrow> Q ys b \<Longrightarrow> f x b t = (t', Inr b') \<Longrightarrow> Q (ys @ [x]) b'"
  shows "Q xs a'"
proof -
  have gen: "efold f zs b t = (s', Inr a') \<Longrightarrow> xs = ys @ zs \<Longrightarrow> Q ys b \<Longrightarrow> Q xs a'" for zs ys b t
  proof (induction zs arbitrary: ys b t)
    case (Cons x zs)
    obtain b' t' where 1: "f x b t = (t', Inr b')" and 2: "efold f zs b' t' = (s', Inr a')"
      using Cons.prems(1) by (auto simp: ebind_Inr)
    show ?case using Cons.IH [OF 2, of "ys @ [x]"] step [OF Cons.prems(2,3) 1] Cons.prems(2) by simp
  qed simp
  show ?thesis using gen [of xs a s "[]"] run start by simp
qed

lemma transaction_Inr: "transaction t s = (s', Inr x) \<longleftrightarrow> t s = Inr (x, s')"
  by (auto simp: transaction_def split: sum.splits prod.splits)

subsection \<open>Units of work that commit on their way\<close>

text \<open>
  A unit of work over a connection that also calls \<open>commit\<close>: a call over the committed state and the state the
  connection sees. \<open>inside\<close> is a step on the connection, \<open>outside\<close> what others do to the committed state, which the
  connection sees when it has nothing uncommitted. When the body raises, what was not committed is rolled back.
\<close>

type_synonym ('s, 'a) work = "('s \<times> 's, 'a) call"

definition unit_of_work :: "('s, 'a) work \<Rightarrow> ('s, 'a) call" where
  "unit_of_work m s = (case m (s, s) of ((c, w), Inl e) \<Rightarrow> (c, Inl e) | ((c, w), Inr x) \<Rightarrow> (w, Inr x))"

definition commit :: "('s, unit) work" where
  "commit cw = ((snd cw, snd cw), Inr ())"

definition inside :: "('s \<Rightarrow> werror + 'a \<times> 's) \<Rightarrow> ('s, 'a) work" where
  "inside t cw = (case t (snd cw) of Inl e \<Rightarrow> (cw, Inl e) | Inr (x, w) \<Rightarrow> ((fst cw, w), Inr x))"

definition outside :: "('s, 'a) call \<Rightarrow> ('s, 'a) work" where
  "outside g cw = (case g (fst cw) of (c, r) \<Rightarrow> ((c, c), r))"

lemma inside_Inr: "inside t cw = (cw', Inr x) \<longleftrightarrow> fst cw' = fst cw \<and> t (snd cw) = Inr (x, snd cw')"
  by (cases cw') (auto simp: inside_def split: sum.splits prod.splits)

lemma commit_simp [simp]: "commit cw = (cw', r) \<longleftrightarrow> cw' = (snd cw, snd cw) \<and> r = Inr ()"
  by (auto simp: commit_def)

lemma outside_eq: "outside g cw = (cw', r) \<longleftrightarrow> snd cw' = fst cw' \<and> g (fst cw) = (fst cw', r)"
  by (cases cw') (auto simp: outside_def split: prod.splits)

lemma unit_of_work_Inr: "unit_of_work m s = (s', Inr x) \<longleftrightarrow> (\<exists>c. m (s, s) = ((c, s'), Inr x))"
  by (auto simp: unit_of_work_def split: prod.splits sum.splits)

lemma unit_of_work_Inl: "unit_of_work m s = (s', Inl e) \<longleftrightarrow> (\<exists>w. m (s, s) = ((s', w), Inl e))"
  by (auto simp: unit_of_work_def split: prod.splits sum.splits)

subsection \<open>Review policies\<close>

datatype review_policy = auto_only | optional | recommended | human_required | mandatory

fun review_policy_name :: "review_policy \<Rightarrow> string" where
  "review_policy_name auto_only = ''auto_only''"
| "review_policy_name optional = ''optional''"
| "review_policy_name recommended = ''recommended''"
| "review_policy_name human_required = ''human_required''"
| "review_policy_name mandatory = ''mandatory''"

subsection \<open>JSON values\<close>

text \<open>The \<open>dict[str, Any]\<close> payloads: JSON values with integer numbers, objects in key order of insertion.\<close>

datatype json =
    JNull
  | JBool bool
  | JNum int
  | JStr string
  | JList "json list"
  | JObj "(string \<times> json) list"

definition jget :: "string \<Rightarrow> (string \<times> json) list \<Rightarrow> json option" where
  "jget k kvs = map_of kvs k"

subsection \<open>Repositories as interfaces\<close>

text \<open>
  What a client may rely on from a repository: \<open>create\<close> appends a row with a new primary key or
  raises, \<open>get\<close> reads the row with a key, \<open>update\<close> rewrites the rows with a key that satisfy its
  \<open>WHERE\<close> clause. The lemmas are proved once and interpreted at every table of the model.
\<close>

locale repository =
  fixes pk :: "'r \<Rightarrow> 'k"
    and create :: "'r \<Rightarrow> 'r list \<Rightarrow> werror + 'r list"
    and get :: "'k \<Rightarrow> 'r list \<Rightarrow> 'r option"
  assumes create_row: "create r rows = Inr rows' \<Longrightarrow> rows' = rows @ [r] \<and> pk r \<notin> pk ` set rows"
    and get_row: "distinct (map pk rows) \<Longrightarrow> get k rows = sql_first (\<lambda>r. pk r = k) rows"
begin

lemma create_distinct:
  "create r rows = Inr rows' \<Longrightarrow> distinct (map pk rows) \<Longrightarrow> distinct (map pk rows')"
  by (auto dest!: create_row)

lemma get_after_create:
  assumes "create r rows = Inr rows'" and "distinct (map pk rows)"
  shows "get k rows' = (if k = pk r then Some r else get k rows)"
proof -
  have rows': "rows' = rows @ [r]" and new: "pk r \<notin> pk ` set rows"
    using create_row [OF assms(1)] by auto
  have new: "sql_first (\<lambda>q. pk q = pk r) rows = None"
    using new by (force simp: image_iff)
  have "sql_first (\<lambda>q. pk q = k) (rows @ [r]) =
      (if k = pk r then Some r else sql_first (\<lambda>q. pk q = k) rows)"
    using new by (simp add: sql_first_append del: sql_first_None split: option.splits)
  then show ?thesis
    using get_row [OF assms(2)] get_row [OF create_distinct [OF assms]] by (simp add: rows')
qed

lemma create_rejects_duplicate:
  assumes "distinct (map pk rows)" and "get (pk r) rows \<noteq> None"
  shows "\<exists>e. create r rows = Inl e"
proof (cases "create r rows")
  case (Inr rows')
  then have "pk r \<notin> pk ` set rows" by (auto dest: create_row)
  with assms show ?thesis by (auto simp: get_row image_iff)
qed auto

lemma get_key: "distinct (map pk rows) \<Longrightarrow> get k rows = Some r \<Longrightarrow> pk r = k \<and> r \<in> set rows"
  by (auto simp: get_row dest: sql_first_Some)

end

locale mutable_repository = repository +
  fixes upd :: "'v \<Rightarrow> 'a \<Rightarrow> 'a"
    and cond :: "'a \<Rightarrow> bool"
    and update :: "'b \<Rightarrow> 'v \<Rightarrow> 'a list \<Rightarrow> 'a list"
  assumes update_rows: "update k v rows = sql_update (\<lambda>r. pk r = k \<and> cond r) (upd v) rows"
    and upd_pk: "pk (upd v r) = pk r"
begin

lemma update_keys: "map pk (update k v rows) = map pk rows"
  by (simp add: update_rows upd_pk sql_update_map)

lemma get_after_update:
  assumes "distinct (map pk rows)"
  shows "get k' (update k v rows) =
     map_option (\<lambda>r. if k' = k \<and> cond r then upd v r else r) (get k' rows)"
proof -
  have "sql_first (\<lambda>r. pk r = k') (sql_update (\<lambda>r. pk r = k \<and> cond r) (upd v) rows) =
     map_option (\<lambda>r. if k' = k \<and> cond r then upd v r else r) (sql_first (\<lambda>r. pk r = k') rows)"
    by (induction rows) (auto simp: sql_first_def sql_update_def upd_pk)
  then show ?thesis
    using assms update_keys [of k v rows] by (simp add: get_row update_rows)
qed

end

end
