(* ===== verification/Sched_Store.thy ===== *)
theory Sched_Store
  imports WF_Prelude
begin

section \<open>Scheduler contracts, tables and repositories\<close>

text \<open>
  The rows of the scheduler tables (the contracts of \<^verbatim>\<open>packages/contracts/models.py\<close>, with the
  \<open>ge\<close> bounds pydantic enforces when one is constructed) and the statements of
  \<open>SchedulerLeaseProposalRepository\<close>, \<open>SchedulerLeaseDecisionRepository\<close> and
  \<open>SchedulerPeerHeartbeatRepository\<close> of \<^verbatim>\<open>packages/core_domain/repositories.py\<close>. The constant
  column \<open>schema_version\<close> is left out. Uniqueness and foreign-key constraints are those of
  \<^verbatim>\<open>infra/migrations/012_m18_scheduler_authority.sql\<close> and \<^verbatim>\<open>013_m19_scheduler_cluster.sql\<close>; a
  violated one is \<open>IntegrityError\<close>. Rows were validated when they were built and no statement
  writes a bounded column out of its bounds, so reading a row back returns it as it is.
\<close>

subsection \<open>Contracts\<close>

record authority_node =
  an_node_id :: string
  an_bind_url :: string
  an_status :: string
  an_role :: string
  an_last_heartbeat_at :: time
  an_created_at :: time
  an_updated_at :: time

record consensus_term =
  tm_term_id :: string
  tm_term_no :: int
  tm_leader_node_id :: string
  tm_quorum_size :: int
  tm_commit_index :: int
  tm_status :: string
  tm_started_at :: time
  tm_last_heartbeat_at :: time
  tm_closed_at :: "time option"
  tm_close_reason :: "string option"
  tm_created_at :: time

record vote_record =
  vt_vote_id :: string
  vt_proposal_id :: string
  vt_term_no :: int
  vt_voter_node_id :: string
  vt_vote :: string
  vt_reason :: string
  vt_created_at :: time

record lease_proposal =
  pr_proposal_id :: string
  pr_control_plane_id :: string
  pr_run_id :: string
  pr_runtime_task_id :: string
  pr_domain_kind :: string
  pr_domain_key :: string
  pr_requested_lease_seconds :: int
  pr_requested_epoch :: int
  pr_status :: string
  pr_created_at :: time

record lease_decision =
  de_decision_id :: string
  de_lease_id :: string
  de_proposal_id :: string
  de_control_plane_id :: string
  de_run_id :: string
  de_runtime_task_id :: string
  de_domain_kind :: string
  de_domain_key :: string
  de_lease_epoch :: int
  de_decision :: string
  de_reason :: string
  de_lease_expires_at :: time
  de_released_at :: "time option"
  de_release_reason :: "string option"
  de_created_at :: time

record peer_heartbeat =
  hb_heartbeat_id :: string
  hb_control_plane_id :: string
  hb_status :: string
  hb_lease_count :: int
  hb_observed_at :: time
  hb_created_at :: time

record committed_lease =
  cl_committed_lease_id :: string
  cl_lease_id :: string
  cl_proposal_id :: string
  cl_decision_id :: "string option"
  cl_control_plane_id :: string
  cl_run_id :: string
  cl_runtime_task_id :: string
  cl_domain_kind :: string
  cl_domain_key :: string
  cl_term_no :: int
  cl_commit_index :: int
  cl_lease_epoch :: int
  cl_fencing_token :: string
  cl_status :: string
  cl_lease_expires_at :: time
  cl_released_at :: "time option"
  cl_release_reason :: "string option"
  cl_created_at :: time

record handoff_envelope =
  ho_envelope_id :: string
  ho_run_id :: string
  ho_runtime_task_id :: string
  ho_from_control_plane_id :: string
  ho_to_control_plane_id :: string
  ho_committed_lease_id :: string
  ho_term_no :: int
  ho_commit_index :: int
  ho_snapshot_payload :: "(string \<times> json) list"
  ho_review_state :: "(string \<times> json) list"
  ho_durable_refs :: "(string \<times> json) list"
  ho_replay_excerpt :: "(string \<times> json) list"
  ho_created_at :: time

text \<open>The scheduler tables; \<open>sd_runs\<close> holds the primary keys of table \<open>runs\<close>, the target of the foreign keys.\<close>

record sched_db =
  sd_runs :: "string list"
  sd_nodes :: "authority_node list"
  sd_terms :: "consensus_term list"
  sd_votes :: "vote_record list"
  sd_leases :: "committed_lease list"
  sd_proposals :: "lease_proposal list"
  sd_decisions :: "lease_decision list"
  sd_heartbeats :: "peer_heartbeat list"
  sd_handoffs :: "handoff_envelope list"

definition empty_sched_db :: "string list \<Rightarrow> sched_db" where
  "empty_sched_db runs =
     \<lparr>sd_runs = runs, sd_nodes = [], sd_terms = [], sd_votes = [], sd_leases = [],
      sd_proposals = [], sd_decisions = [], sd_heartbeats = [], sd_handoffs = []\<rparr>"

text \<open>The arguments of \<open>submit_proposal\<close>.\<close>

record submit_request =
  rq_control_plane_id :: string
  rq_run_id :: string
  rq_runtime_task_id :: string
  rq_domain_kind :: string
  rq_domain_key :: string
  rq_requested_lease_seconds :: int
  rq_requested_epoch :: int
  rq_authority_node_id :: "string option"
  rq_authority_bind_url :: "string option"

subsection \<open>Constructing contracts\<close>

definition new_proposal :: "time \<Rightarrow> string \<Rightarrow> submit_request \<Rightarrow> werror + lease_proposal" where
  "new_proposal created hx rq =
     rbind (rguard (rq_requested_lease_seconds rq \<ge> 1 \<and> rq_requested_epoch rq \<ge> 1)
              (ValidationError ''SchedulerLeaseProposal''))
       (\<lambda>_. Inr \<lparr>pr_proposal_id = new_id ''proposal'' hx,
                pr_control_plane_id = rq_control_plane_id rq,
                pr_run_id = rq_run_id rq,
                pr_runtime_task_id = rq_runtime_task_id rq,
                pr_domain_kind = rq_domain_kind rq,
                pr_domain_key = rq_domain_key rq,
                pr_requested_lease_seconds = rq_requested_lease_seconds rq,
                pr_requested_epoch = rq_requested_epoch rq,
                pr_status = ''pending'',
                pr_created_at = created\<rparr>)"

definition new_decision ::
  "time \<Rightarrow> string \<Rightarrow> string \<Rightarrow> lease_proposal \<Rightarrow> int \<Rightarrow> string \<Rightarrow> string \<Rightarrow> time \<Rightarrow> werror + lease_decision" where
  "new_decision created hx_decision hx_lease p epoch verdict reason expires =
     rbind (rguard (epoch \<ge> 1) (ValidationError ''SchedulerLeaseDecision''))
       (\<lambda>_. Inr \<lparr>de_decision_id = new_id ''decision'' hx_decision,
                de_lease_id = new_id ''schedlease'' hx_lease,
                de_proposal_id = pr_proposal_id p,
                de_control_plane_id = pr_control_plane_id p,
                de_run_id = pr_run_id p,
                de_runtime_task_id = pr_runtime_task_id p,
                de_domain_kind = pr_domain_kind p,
                de_domain_key = pr_domain_key p,
                de_lease_epoch = epoch,
                de_decision = verdict,
                de_reason = reason,
                de_lease_expires_at = expires,
                de_released_at = None,
                de_release_reason = None,
                de_created_at = created\<rparr>)"

definition new_committed ::
  "time \<Rightarrow> string \<Rightarrow> string \<Rightarrow> lease_proposal \<Rightarrow> lease_decision \<Rightarrow> int \<Rightarrow> int \<Rightarrow> int \<Rightarrow> werror + committed_lease" where
  "new_committed created hx_committed hx_fence p d term_no commit_index epoch =
     rbind (rguard (term_no \<ge> 1 \<and> commit_index \<ge> 1 \<and> epoch \<ge> 1)
              (ValidationError ''SchedulerCommittedLease''))
       (\<lambda>_. Inr \<lparr>cl_committed_lease_id = new_id ''committed'' hx_committed,
                cl_lease_id = de_lease_id d,
                cl_proposal_id = pr_proposal_id p,
                cl_decision_id = Some (de_decision_id d),
                cl_control_plane_id = de_control_plane_id d,
                cl_run_id = de_run_id d,
                cl_runtime_task_id = de_runtime_task_id d,
                cl_domain_kind = de_domain_kind d,
                cl_domain_key = de_domain_key d,
                cl_term_no = term_no,
                cl_commit_index = commit_index,
                cl_lease_epoch = epoch,
                cl_fencing_token = new_id ''fence'' hx_fence,
                cl_status = ''active'',
                cl_lease_expires_at = de_lease_expires_at d,
                cl_released_at = None,
                cl_release_reason = None,
                cl_created_at = created\<rparr>)"

subsection \<open>Proposals\<close>

definition proposal_create :: "lease_proposal \<Rightarrow> sched_db \<Rightarrow> werror + sched_db" where
  "proposal_create p db =
     rbind (sql_insert ''scheduler_lease_proposals''
              (pr_proposal_id p \<notin> pr_proposal_id ` set (sd_proposals db)
               \<and> pr_run_id p \<in> set (sd_runs db)) p (sd_proposals db))
       (\<lambda>rows. Inr (db\<lparr>sd_proposals := rows\<rparr>))"

definition proposal_get :: "string \<Rightarrow> sched_db \<Rightarrow> lease_proposal option" where
  "proposal_get pid db = sql_first (\<lambda>p. pr_proposal_id p = pid) (sd_proposals db)"

definition proposal_update_status :: "string \<Rightarrow> string \<Rightarrow> sched_db \<Rightarrow> lease_proposal option \<times> sched_db" where
  "proposal_update_status pid status db =
     (let db' = db\<lparr>sd_proposals :=
        sql_update (\<lambda>p. pr_proposal_id p = pid) (\<lambda>p. p\<lparr>pr_status := status\<rparr>) (sd_proposals db)\<rparr>
      in (proposal_get pid db', db'))"

definition proposal_list_for_run :: "string \<Rightarrow> sched_db \<Rightarrow> lease_proposal list" where
  "proposal_list_for_run rid db =
     sql_order (\<lambda>p. (pr_created_at p, pr_proposal_id p)) (sql_where (\<lambda>p. pr_run_id p = rid) (sd_proposals db))"

definition proposal_list_for_task :: "string \<Rightarrow> sched_db \<Rightarrow> lease_proposal list" where
  "proposal_list_for_task tid db =
     sql_order (\<lambda>p. (pr_created_at p, pr_proposal_id p))
       (sql_where (\<lambda>p. pr_runtime_task_id p = tid) (sd_proposals db))"

subsection \<open>Decisions\<close>

definition decision_create :: "lease_decision \<Rightarrow> sched_db \<Rightarrow> werror + sched_db" where
  "decision_create d db =
     rbind (sql_insert ''scheduler_lease_decisions''
              (de_decision_id d \<notin> de_decision_id ` set (sd_decisions db)
               \<and> de_lease_id d \<notin> de_lease_id ` set (sd_decisions db)
               \<and> de_run_id d \<in> set (sd_runs db)
               \<and> de_proposal_id d \<in> pr_proposal_id ` set (sd_proposals db)) d (sd_decisions db))
       (\<lambda>rows. Inr (db\<lparr>sd_decisions := rows\<rparr>))"

definition decision_get :: "string \<Rightarrow> sched_db \<Rightarrow> lease_decision option" where
  "decision_get lid db =
     top_by (\<lambda>d. (de_created_at d, de_decision_id d))
       (sql_where (\<lambda>d. de_lease_id d = lid) (sd_decisions db))"

definition decision_get_active_for_domain :: "string \<Rightarrow> string \<Rightarrow> time \<Rightarrow> sched_db \<Rightarrow> lease_decision option" where
  "decision_get_active_for_domain dk key now db =
     top_by (\<lambda>d. (de_created_at d, de_decision_id d))
       (sql_where (\<lambda>d. de_domain_kind d = dk \<and> de_domain_key d = key \<and> de_decision d = ''granted''
                       \<and> de_released_at d = None \<and> de_lease_expires_at d > now) (sd_decisions db))"

definition decision_latest_for_domain :: "string \<Rightarrow> string \<Rightarrow> sched_db \<Rightarrow> lease_decision option" where
  "decision_latest_for_domain dk key db =
     top_by (\<lambda>d. (de_created_at d, de_decision_id d))
       (sql_where (\<lambda>d. de_domain_kind d = dk \<and> de_domain_key d = key) (sd_decisions db))"

definition decision_list_for_run :: "string \<Rightarrow> sched_db \<Rightarrow> lease_decision list" where
  "decision_list_for_run rid db =
     sql_order (\<lambda>d. (de_created_at d, de_decision_id d)) (sql_where (\<lambda>d. de_run_id d = rid) (sd_decisions db))"

definition decision_release :: "string \<Rightarrow> time \<Rightarrow> string \<Rightarrow> sched_db \<Rightarrow> lease_decision option \<times> sched_db" where
  "decision_release lid at reason db =
     (let db' = db\<lparr>sd_decisions :=
        sql_update (\<lambda>d. de_lease_id d = lid \<and> de_released_at d = None)
          (\<lambda>d. d\<lparr>de_released_at := Some at, de_release_reason := Some reason\<rparr>) (sd_decisions db)\<rparr>
      in (decision_get lid db', db'))"

subsection \<open>Peer heartbeats\<close>

definition heartbeat_create :: "peer_heartbeat \<Rightarrow> sched_db \<Rightarrow> werror + sched_db" where
  "heartbeat_create h db =
     rbind (sql_insert ''scheduler_peer_heartbeats''
              (hb_heartbeat_id h \<notin> hb_heartbeat_id ` set (sd_heartbeats db)) h (sd_heartbeats db))
       (\<lambda>rows. Inr (db\<lparr>sd_heartbeats := rows\<rparr>))"

definition heartbeat_latest_for_control_plane :: "string \<Rightarrow> sched_db \<Rightarrow> peer_heartbeat option" where
  "heartbeat_latest_for_control_plane cp db =
     top_by (\<lambda>h. (hb_observed_at h, hb_heartbeat_id h))
       (sql_where (\<lambda>h. hb_control_plane_id h = cp) (sd_heartbeats db))"

definition heartbeat_list_recent :: "nat \<Rightarrow> sched_db \<Rightarrow> peer_heartbeat list" where
  "heartbeat_list_recent limit db =
     take limit (rev (sql_order (\<lambda>h. (hb_observed_at h, hb_heartbeat_id h)) (sd_heartbeats db)))"

lemmas store_defs =
  proposal_create_def proposal_get_def proposal_update_status_def decision_create_def
  decision_get_def decision_release_def new_proposal_def new_decision_def new_committed_def

end
