(* ===== verification/Lease_Ledger.thy ===== *)
theory Lease_Ledger
  imports Sched_Store
begin

section \<open>The ledger of committed leases\<close>

text \<open>
  Both scheduler-lease arbiters (\<^verbatim>\<open>local_scheduler_lease_arbiter.py\<close> and
  \<^verbatim>\<open>scheduler_authority.py\<close>) keep the leases they commit in \<open>scheduler_committed_leases\<close> with the
  same statements, modelled here once. The ledger invariant \<open>ledger_ok\<close> states what makes the
  table a ledger: commit indices are distinct and positive, a row is \<open>active\<close> exactly when it
  carries no release time, and within a domain every row but the one with the greatest commit
  index is released, with strictly growing epochs. It holds of the empty table and is kept by
  every release and every grant that follows the arbiters' protocol; at most one live lease per
  domain and growing fencing epochs are its consequences.
\<close>

subsection \<open>Statements\<close>

definition same_domain :: "string \<Rightarrow> string \<Rightarrow> committed_lease \<Rightarrow> bool" where
  "same_domain dk key l \<longleftrightarrow> cl_domain_kind l = dk \<and> cl_domain_key l = key"

definition latest_local_only_committed_lease :: "sched_db \<Rightarrow> committed_lease option" where
  "latest_local_only_committed_lease db = top_by (\<lambda>l. (cl_commit_index l, cl_created_at l)) (sd_leases db)"

definition latest_committed_lease_for_domain :: "string \<Rightarrow> string \<Rightarrow> sched_db \<Rightarrow> committed_lease option" where
  "latest_committed_lease_for_domain dk key db =
     top_by (\<lambda>l. (cl_commit_index l, cl_created_at l)) (sql_where (same_domain dk key) (sd_leases db))"

definition active_committed_lease_for_domain :: "string \<Rightarrow> string \<Rightarrow> time \<Rightarrow> sched_db \<Rightarrow> committed_lease option" where
  "active_committed_lease_for_domain dk key now db =
     top_by cl_commit_index
       (sql_where (\<lambda>l. same_domain dk key l \<and> cl_status l = ''active''
                       \<and> cl_released_at l = None \<and> cl_lease_expires_at l > now) (sd_leases db))"

definition get_committed_lease_by_lease_id :: "string \<Rightarrow> sched_db \<Rightarrow> committed_lease option" where
  "get_committed_lease_by_lease_id lid db = sql_first (\<lambda>l. cl_lease_id l = lid) (sd_leases db)"

definition mark_released :: "time \<Rightarrow> string \<Rightarrow> committed_lease \<Rightarrow> committed_lease" where
  "mark_released at reason l =
     l\<lparr>cl_status := ''released'', cl_released_at := Some at, cl_release_reason := Some reason\<rparr>"

definition release_committed_lease ::
  "time \<Rightarrow> string \<Rightarrow> committed_lease \<Rightarrow> sched_db \<Rightarrow> committed_lease \<times> sched_db" where
  "release_committed_lease at reason l db =
     (mark_released at reason l,
      db\<lparr>sd_leases := sql_update (\<lambda>q. cl_committed_lease_id q = cl_committed_lease_id l)
                        (mark_released at reason) (sd_leases db)\<rparr>)"

definition next_commit_index :: "sched_db \<Rightarrow> int" where
  "next_commit_index db = sql_max0 cl_commit_index (sd_leases db) + 1"

definition committed_create :: "committed_lease \<Rightarrow> committed_lease list \<Rightarrow> werror + committed_lease list" where
  "committed_create l rows =
     sql_insert ''scheduler_committed_leases''
       (cl_committed_lease_id l \<notin> cl_committed_lease_id ` set rows
        \<and> cl_lease_id l \<notin> cl_lease_id ` set rows
        \<and> cl_fencing_token l \<notin> cl_fencing_token ` set rows) l rows"

definition insert_committed_lease :: "committed_lease \<Rightarrow> sched_db \<Rightarrow> werror + sched_db" where
  "insert_committed_lease l db =
     rbind (committed_create l (sd_leases db)) (\<lambda>rows. Inr (db\<lparr>sd_leases := rows\<rparr>))"

text \<open>The payload of a committed lease adds the aliases of \<open>_authority_index_fields\<close>.\<close>

record lease_payload =
  lp_lease :: committed_lease
  lp_term_no :: int
  lp_authority_term_no :: int
  lp_commit_index :: int
  lp_decision_index :: int

definition committed_lease_payload :: "committed_lease \<Rightarrow> lease_payload" where
  "committed_lease_payload l =
     \<lparr>lp_lease = l, lp_term_no = cl_term_no l, lp_authority_term_no = cl_term_no l,
      lp_commit_index = cl_commit_index l, lp_decision_index = cl_commit_index l\<rparr>"

record term_payload =
  tp_term :: consensus_term
  tp_authority_node_id :: string
  tp_authority_term_no :: int
  tp_decision_index :: int

definition authority_term_payload :: "consensus_term \<Rightarrow> term_payload" where
  "authority_term_payload t =
     \<lparr>tp_term = t, tp_authority_node_id = tm_leader_node_id t,
      tp_authority_term_no = tm_term_no t, tp_decision_index = tm_commit_index t\<rparr>"

text \<open>The cluster snapshot; each node is paired with the flag \<open>active\<close> added to its dump.\<close>

record cluster_view =
  cv_enabled :: bool
  cv_mode :: string
  cv_authority_mode :: string
  cv_node_count :: nat
  cv_active_node_count :: nat
  cv_quorum_size :: int
  cv_leader_node_id :: "string option"
  cv_authority_node_id :: "string option"
  cv_term_no :: "int option"
  cv_authority_term_no :: "int option"
  cv_commit_index :: int
  cv_decision_index :: int
  cv_nodes :: "(authority_node \<times> bool) list"

text \<open>The \<open>conflict\<close> entry of a rejected submission.\<close>

record lease_conflict =
  lc_problem :: string
  lc_control_plane_id :: string
  lc_active_control_plane_id :: string
  lc_committed_lease_id :: string
  lc_lease_id :: string
  lc_fencing_token :: string
  lc_term_no :: int
  lc_authority_term_no :: int
  lc_commit_index :: int
  lc_decision_index :: int
  lc_lease_epoch :: int
  lc_lease_expires_at :: time

definition conflict_with :: "string \<Rightarrow> committed_lease \<Rightarrow> lease_conflict" where
  "conflict_with cp a =
     \<lparr>lc_problem = ''active_committed_conflict'', lc_control_plane_id = cp,
      lc_active_control_plane_id = cl_control_plane_id a,
      lc_committed_lease_id = cl_committed_lease_id a, lc_lease_id = cl_lease_id a,
      lc_fencing_token = cl_fencing_token a, lc_term_no = cl_term_no a,
      lc_authority_term_no = cl_term_no a, lc_commit_index = cl_commit_index a,
      lc_decision_index = cl_commit_index a, lc_lease_epoch = cl_lease_epoch a,
      lc_lease_expires_at = cl_lease_expires_at a\<rparr>"

text \<open>The dictionary \<open>submit_proposal\<close> returns; an absent key is \<open>None\<close> (or \<open>False\<close>).\<close>

record submit_result =
  sr_proposal :: "lease_proposal option"
  sr_decision :: "lease_decision option"
  sr_committed_lease :: "lease_payload option"
  sr_duplicate :: bool
  sr_granted :: bool
  sr_conflict :: "lease_conflict option"
  sr_votes :: "vote_record list"
  sr_term :: term_payload
  sr_cluster :: cluster_view
  sr_stale_leader :: bool
  sr_reason :: "string option"
  sr_previous_committed_lease :: "lease_payload option"

text \<open>The result of \<open>release_lease\<close>.\<close>

record release_result =
  rr_committed_lease :: lease_payload
  rr_decision :: "lease_decision option"
  rr_cluster :: cluster_view

text \<open>The result of \<open>get_lease\<close>.\<close>

record lease_view =
  lv_lease_id :: string
  lv_proposal :: "lease_proposal option"
  lv_decision :: "lease_decision option"
  lv_committed_lease :: lease_payload
  lv_votes :: "vote_record list"
  lv_cluster :: cluster_view
  lv_active :: bool
  lv_expired :: bool

subsection \<open>Granting a domain again\<close>

text \<open>An expired lease that was never released is released before the domain is granted again.\<close>

definition release_expired_before_regrant ::
  "time \<Rightarrow> time \<Rightarrow> committed_lease option \<Rightarrow> sched_db \<Rightarrow> committed_lease option \<times> sched_db" where
  "release_expired_before_regrant released_at now latest db =
     (case latest of
        None \<Rightarrow> (None, db)
      | Some l \<Rightarrow>
          if cl_released_at l = None \<and> cl_lease_expires_at l \<le> now
          then let (l', db1) = release_committed_lease released_at ''expired_before_regrant'' l db
               in (Some l',
                   (case decision_get (cl_lease_id l') db1 of
                      None \<Rightarrow> db1
                    | Some d \<Rightarrow> snd (decision_release (de_lease_id d) now ''expired_before_regrant'' db1)))
          else (Some l, db))"

definition granted_epoch :: "int \<Rightarrow> committed_lease option \<Rightarrow> int" where
  "granted_epoch requested latest =
     max requested (case latest of Some l \<Rightarrow> cl_lease_epoch l + 1 | None \<Rightarrow> 1)"

subsection \<open>The ledger invariant\<close>

definition lease_row_ok :: "committed_lease \<Rightarrow> bool" where
  "lease_row_ok l \<longleftrightarrow>
     cl_commit_index l \<ge> 1 \<and> cl_lease_epoch l \<ge> 1 \<and> cl_term_no l \<ge> 1
     \<and> (cl_status l = ''active'' \<or> cl_status l = ''released'')
     \<and> (cl_status l = ''active'' \<longleftrightarrow> cl_released_at l = None)"

definition domain_ordered :: "committed_lease list \<Rightarrow> bool" where
  "domain_ordered rows \<longleftrightarrow>
     (\<forall>l\<in>set rows. \<forall>m\<in>set rows.
        cl_domain_kind l = cl_domain_kind m \<and> cl_domain_key l = cl_domain_key m
        \<and> cl_commit_index l < cl_commit_index m
        \<longrightarrow> cl_released_at l \<noteq> None \<and> cl_lease_epoch l < cl_lease_epoch m)"

definition ledger_ok :: "committed_lease list \<Rightarrow> bool" where
  "ledger_ok rows \<longleftrightarrow>
     distinct (map cl_committed_lease_id rows) \<and> distinct (map cl_lease_id rows)
     \<and> distinct (map cl_fencing_token rows) \<and> distinct (map cl_commit_index rows)
     \<and> (\<forall>l\<in>set rows. lease_row_ok l) \<and> domain_ordered rows"

text \<open>A lease is live at \<open>now\<close> when the \<open>WHERE\<close> clause of the active-lease query selects it.\<close>

definition live_at :: "time \<Rightarrow> committed_lease \<Rightarrow> bool" where
  "live_at now l \<longleftrightarrow> cl_status l = ''active'' \<and> cl_released_at l = None \<and> cl_lease_expires_at l > now"

lemma not_live_mark_released [simp]: "\<not> live_at t (mark_released at reason l)"
  by (simp add: live_at_def mark_released_def)

lemma ledger_ok_Nil [simp]: "ledger_ok []"
  by (simp add: ledger_ok_def domain_ordered_def)

lemma mark_released_simps [simp]:
  "cl_committed_lease_id (mark_released at reason l) = cl_committed_lease_id l"
  "cl_lease_id (mark_released at reason l) = cl_lease_id l"
  "cl_proposal_id (mark_released at reason l) = cl_proposal_id l"
  "cl_fencing_token (mark_released at reason l) = cl_fencing_token l"
  "cl_commit_index (mark_released at reason l) = cl_commit_index l"
  "cl_lease_epoch (mark_released at reason l) = cl_lease_epoch l"
  "cl_term_no (mark_released at reason l) = cl_term_no l"
  "cl_control_plane_id (mark_released at reason l) = cl_control_plane_id l"
  "cl_domain_kind (mark_released at reason l) = cl_domain_kind l"
  "cl_domain_key (mark_released at reason l) = cl_domain_key l"
  "cl_lease_expires_at (mark_released at reason l) = cl_lease_expires_at l"
  "cl_created_at (mark_released at reason l) = cl_created_at l"
  "cl_status (mark_released at reason l) = ''released''"
  "cl_released_at (mark_released at reason l) = Some at"
  "cl_release_reason (mark_released at reason l) = Some reason"
  by (simp_all add: mark_released_def)

lemma lease_row_ok_mark_released [simp]: "lease_row_ok l \<Longrightarrow> lease_row_ok (mark_released at reason l)"
  by (simp add: lease_row_ok_def)

lemma same_domain_mark_released [simp]: "same_domain dk key (mark_released at reason l) = same_domain dk key l"
  by (simp add: same_domain_def)

text \<open>Releasing any set of rows keeps the ledger.\<close>

lemma ledger_ok_release:
  assumes "ledger_ok rows"
  shows "ledger_ok (sql_update p (mark_released at reason) rows)"
proof -
  have dom: "domain_ordered (sql_update p (mark_released at reason) rows)"
    using assms by (auto simp: ledger_ok_def domain_ordered_def sql_update_mem split: if_splits)
  show ?thesis
    using assms dom by (auto simp: ledger_ok_def sql_update_map sql_update_mem)
qed

text \<open>
  Appending a row keeps the ledger when its keys are new, its commit index is greater than all
  others, and every row of its domain is already released with a smaller epoch.
\<close>

lemma ledger_ok_append:
  assumes "ledger_ok rows" and "lease_row_ok l"
    and "cl_committed_lease_id l \<notin> cl_committed_lease_id ` set rows"
    and "cl_lease_id l \<notin> cl_lease_id ` set rows"
    and "cl_fencing_token l \<notin> cl_fencing_token ` set rows"
    and above: "\<And>m. m \<in> set rows \<Longrightarrow> cl_commit_index m < cl_commit_index l"
    and dom: "\<And>m. m \<in> set rows \<Longrightarrow> same_domain (cl_domain_kind l) (cl_domain_key l) m \<Longrightarrow>
                cl_released_at m \<noteq> None \<and> cl_lease_epoch m < cl_lease_epoch l"
  shows "ledger_ok (rows @ [l])"
proof -
  have "cl_commit_index l \<notin> cl_commit_index ` set rows"
    using above by force
  moreover have "domain_ordered (rows @ [l])"
    using assms(1) above dom by (fastforce simp: ledger_ok_def domain_ordered_def same_domain_def)
  ultimately show ?thesis
    using assms(1-5) by (auto simp: ledger_ok_def)
qed

subsection \<open>Consequences\<close>

lemma ledger_commit_unique:
  "ledger_ok rows \<Longrightarrow> l \<in> set rows \<Longrightarrow> m \<in> set rows \<Longrightarrow> cl_commit_index l = cl_commit_index m \<Longrightarrow> l = m"
  by (auto simp: ledger_ok_def distinct_map inj_on_def)

lemma ledger_one_unreleased:
  assumes "ledger_ok rows" and "l \<in> set rows" and "m \<in> set rows"
    and "same_domain dk key l" and "same_domain dk key m"
    and "cl_released_at l = None" and "cl_released_at m = None"
  shows "l = m"
proof -
  have "\<not> cl_commit_index l < cl_commit_index m" and "\<not> cl_commit_index m < cl_commit_index l"
    using assms by (auto simp: ledger_ok_def domain_ordered_def same_domain_def)
  then show ?thesis
    using assms(1-3) by (auto intro: ledger_commit_unique)
qed

lemma latest_is_greatest:
  assumes "latest_committed_lease_for_domain dk key db = Some l"
  shows "l \<in> set (sd_leases db)" and "same_domain dk key l"
    and "m \<in> set (sd_leases db) \<Longrightarrow> same_domain dk key m \<Longrightarrow> cl_commit_index m \<le> cl_commit_index l"
proof -
  note top = assms [unfolded latest_committed_lease_for_domain_def]
  show "l \<in> set (sd_leases db)" and "same_domain dk key l"
    using top_by_mem [OF top] by auto
  show "m \<in> set (sd_leases db) \<Longrightarrow> same_domain dk key m \<Longrightarrow> cl_commit_index m \<le> cl_commit_index l"
    using top_by_max [OF top, of m] by auto
qed

lemma latest_None_iff:
  "latest_committed_lease_for_domain dk key db = None \<longleftrightarrow>
     (\<forall>l\<in>set (sd_leases db). \<not> same_domain dk key l)"
  by (simp add: latest_committed_lease_for_domain_def)

lemma active_SomeD:
  assumes "active_committed_lease_for_domain dk key now db = Some a"
  shows "a \<in> set (sd_leases db)" and "same_domain dk key a" and "live_at now a"
  using assms by (auto simp: active_committed_lease_for_domain_def live_at_def dest!: top_by_mem)

lemma active_None_iff:
  "active_committed_lease_for_domain dk key now db = None \<longleftrightarrow>
     (\<forall>l\<in>set (sd_leases db). same_domain dk key l \<longrightarrow> \<not> live_at now l)"
  by (auto simp: active_committed_lease_for_domain_def live_at_def)

lemma active_unique:
  assumes "ledger_ok (sd_leases db)" and "l \<in> set (sd_leases db)" and "same_domain dk key l" and "live_at now l"
  shows "active_committed_lease_for_domain dk key now db = Some l"
proof -
  obtain a where a: "active_committed_lease_for_domain dk key now db = Some a"
    using assms(2-4) active_None_iff [of dk key now db] by blast
  have "a = l"
    using ledger_one_unreleased [OF assms(1)] assms(2-4) active_SomeD [OF a]
    by (auto simp: live_at_def)
  with a show ?thesis by simp
qed

lemma next_commit_index_above: "l \<in> set (sd_leases db) \<Longrightarrow> cl_commit_index l < next_commit_index db"
  using sql_max0_ge [of l "sd_leases db" cl_commit_index] by (simp add: next_commit_index_def)

lemma next_commit_index_pos: "ledger_ok (sd_leases db) \<Longrightarrow> next_commit_index db \<ge> 1"
proof -
  assume ok: "ledger_ok (sd_leases db)"
  have "0 \<le> sql_max0 cl_commit_index (sd_leases db)"
    using ok by (intro sql_max0_nonneg) (auto simp: ledger_ok_def lease_row_ok_def)
  then show ?thesis by (simp add: next_commit_index_def)
qed

lemma insert_committed_leaseD:
  assumes "insert_committed_lease l db = Inr db'"
  shows "db' = db\<lparr>sd_leases := sd_leases db @ [l]\<rparr>"
    and "cl_committed_lease_id l \<notin> cl_committed_lease_id ` set (sd_leases db)"
    and "cl_lease_id l \<notin> cl_lease_id ` set (sd_leases db)"
    and "cl_fencing_token l \<notin> cl_fencing_token ` set (sd_leases db)"
  using assms by (auto simp: insert_committed_lease_def committed_create_def result_simps)

lemma new_committedD:
  assumes "new_committed c hx hf p d term_no index epoch = Inr l"
  shows "cl_commit_index l = index" and "cl_lease_epoch l = epoch" and "cl_term_no l = term_no"
    and "cl_domain_kind l = de_domain_kind d" and "cl_domain_key l = de_domain_key d"
    and "cl_control_plane_id l = de_control_plane_id d" and "cl_lease_id l = de_lease_id d"
    and "cl_lease_expires_at l = de_lease_expires_at d"
    and "cl_status l = ''active''" and "cl_released_at l = None" and "lease_row_ok l"
  using assms by (auto simp: new_committed_def lease_row_ok_def result_simps)

lemma new_decisionD:
  assumes "new_decision c hx hl p epoch verdict reason expires = Inr d"
  shows "de_domain_kind d = pr_domain_kind p" and "de_domain_key d = pr_domain_key p"
    and "de_control_plane_id d = pr_control_plane_id p" and "de_lease_expires_at d = expires"
    and "de_lease_epoch d = epoch" and "de_decision d = verdict" and "de_reason d = reason"
    and "de_released_at d = None" and "de_proposal_id d = pr_proposal_id p" and "epoch \<ge> 1"
    and "de_lease_id d = new_id ''schedlease'' hl"
  using assms by (auto simp: new_decision_def result_simps)

lemma new_proposalD:
  assumes "new_proposal c h rq = Inr p"
  shows "pr_control_plane_id p = rq_control_plane_id rq" and "pr_domain_kind p = rq_domain_kind rq"
    and "pr_domain_key p = rq_domain_key rq" and "pr_requested_epoch p = rq_requested_epoch rq"
    and "pr_requested_lease_seconds p = rq_requested_lease_seconds rq"
    and "pr_requested_lease_seconds p \<ge> 1" and "pr_requested_epoch p \<ge> 1"
  using assms by (auto simp: new_proposal_def result_simps)

text \<open>The statements on other tables leave the ledger alone.\<close>

lemma proposal_createD:
  "proposal_create p db = Inr db' \<Longrightarrow> db' = db\<lparr>sd_proposals := sd_proposals db @ [p]\<rparr>"
  by (auto simp: proposal_create_def result_simps)

lemma proposal_update_statusD:
  "proposal_update_status pid st db = (q, db') \<Longrightarrow>
     db' = db\<lparr>sd_proposals := sd_proposals db'\<rparr>"
  by (auto simp: proposal_update_status_def Let_def)

lemma decision_createD:
  "decision_create d db = Inr db' \<Longrightarrow> db' = db\<lparr>sd_decisions := sd_decisions db @ [d]\<rparr>"
  by (auto simp: decision_create_def result_simps)

lemma decision_releaseD:
  "decision_release lid at reason db = (q, db') \<Longrightarrow> db' = db\<lparr>sd_decisions := sd_decisions db'\<rparr>"
  by (auto simp: decision_release_def Let_def)

lemma ledger_frame:
  "sd_leases db' = sd_leases db \<Longrightarrow>
     active_committed_lease_for_domain dk key now db' = active_committed_lease_for_domain dk key now db"
  "sd_leases db' = sd_leases db \<Longrightarrow>
     latest_committed_lease_for_domain dk key db' = latest_committed_lease_for_domain dk key db"
  "sd_leases db' = sd_leases db \<Longrightarrow> next_commit_index db' = next_commit_index db"
  by (simp_all add: active_committed_lease_for_domain_def latest_committed_lease_for_domain_def
      next_commit_index_def)

text \<open>Before a regrant every row of the domain is released, and the epoch granted tops them all.\<close>

lemma decision_release_leases [simp]:
  "sd_leases (snd (decision_release lid at reason db)) = sd_leases db"
  by (simp add: decision_release_def Let_def)

lemma release_expired_leases:
  "\<exists>p. sd_leases (snd (release_expired_before_regrant rt now latest db)) =
         sql_update p (mark_released rt ''expired_before_regrant'') (sd_leases db)"
proof -
  have same: "sd_leases db = sql_update (\<lambda>_. False) (mark_released rt ''expired_before_regrant'') (sd_leases db)"
    by (simp add: sql_update_none)
  show ?thesis
  proof (cases latest)
    case None
    then show ?thesis using same by (auto simp: release_expired_before_regrant_def)
  next
    case (Some l)
    show ?thesis
    proof (cases "cl_released_at l = None \<and> cl_lease_expires_at l \<le> now")
      case True
      with Some have "sd_leases (snd (release_expired_before_regrant rt now latest db)) =
          sql_update (\<lambda>q. cl_committed_lease_id q = cl_committed_lease_id l)
            (mark_released rt ''expired_before_regrant'') (sd_leases db)"
        by (simp add: release_expired_before_regrant_def release_committed_lease_def split: option.splits)
      then show ?thesis by blast
    next
      case False
      with Some same show ?thesis by (auto simp: release_expired_before_regrant_def)
    qed
  qed
qed

lemma regrant_ready:
  assumes ok: "ledger_ok (sd_leases db0)"
    and none: "active_committed_lease_for_domain dk key now db0 = None"
    and rel: "release_expired_before_regrant rt now (latest_committed_lease_for_domain dk key db0) db0 = (latest, db)"
  shows "ledger_ok (sd_leases db)"
    and "m \<in> set (sd_leases db) \<Longrightarrow> same_domain dk key m \<Longrightarrow>
           cl_released_at m \<noteq> None \<and> cl_lease_epoch m < granted_epoch req latest"
proof -
  obtain p where p: "sd_leases db = sql_update p (mark_released rt ''expired_before_regrant'') (sd_leases db0)"
    using release_expired_leases [of rt now "latest_committed_lease_for_domain dk key db0" db0] rel by auto
  show "ledger_ok (sd_leases db)"
    unfolding p by (rule ledger_ok_release [OF ok])
  assume m: "m \<in> set (sd_leases db)" "same_domain dk key m"
  show "cl_released_at m \<noteq> None \<and> cl_lease_epoch m < granted_epoch req latest"
  proof (cases "latest_committed_lease_for_domain dk key db0")
    case None
    with rel m show ?thesis
      by (simp add: release_expired_before_regrant_def latest_None_iff)
  next
    case (Some l)
    note top = latest_is_greatest [OF Some]
    have live: "\<not> live_at now l"
      using none top(1,2) by (auto simp: active_None_iff)
    have row: "lease_row_ok l"
      using ok top(1) by (auto simp: ledger_ok_def)
    \<comment> \<open>the latest row keeps its key, domain and epoch, and ends up released\<close>
    obtain l' where l': "latest = Some l'" "l' \<in> set (sd_leases db)" "same_domain dk key l'"
      "cl_commit_index l' = cl_commit_index l" "cl_released_at l' \<noteq> None"
    proof (cases "cl_released_at l = None \<and> cl_lease_expires_at l \<le> now")
      case True
      then have "latest = Some (mark_released rt ''expired_before_regrant'' l)"
        and "sd_leases db = sql_update (\<lambda>q. cl_committed_lease_id q = cl_committed_lease_id l)
               (mark_released rt ''expired_before_regrant'') (sd_leases db0)"
        using rel Some by (auto simp: release_expired_before_regrant_def release_committed_lease_def
            split: option.splits)
      moreover from this have "mark_released rt ''expired_before_regrant'' l \<in> set (sd_leases db)"
        using top(1) by (auto simp: sql_update_mem intro!: bexI [of _ l])
      ultimately show ?thesis
        using that [of "mark_released rt ''expired_before_regrant'' l"] top(2) by simp
    next
      case False
      then have eq: "latest = Some l" "db = db0"
        using rel Some by (auto simp: release_expired_before_regrant_def)
      have "cl_released_at l \<noteq> None"
        using False live row by (auto simp: live_at_def lease_row_ok_def)
      then show ?thesis
        using that [of l] eq top(1,2) by auto
    qed
    have ledger: "ledger_ok (sd_leases db)"
      unfolding p by (rule ledger_ok_release [OF ok])
    obtain m0 where m0: "m0 \<in> set (sd_leases db0)" "same_domain dk key m0"
      "cl_commit_index m0 = cl_commit_index m"
      using m by (auto simp: p sql_update_mem split: if_splits)
    have le: "cl_commit_index m \<le> cl_commit_index l'"
      using top(3) [OF m0(1,2)] m0(3) l'(4) by simp
    have "m = l' \<or> (cl_released_at m \<noteq> None \<and> cl_lease_epoch m < cl_lease_epoch l')"
    proof (cases "cl_commit_index m = cl_commit_index l'")
      case True
      then show ?thesis using ledger_commit_unique [OF ledger m(1) l'(2)] by simp
    next
      case False
      with le have "cl_commit_index m < cl_commit_index l'" by simp
      then show ?thesis
        using ledger m l'(2,3) by (auto simp: ledger_ok_def domain_ordered_def same_domain_def)
    qed
    then show ?thesis
      using l'(1,5) by (auto simp: granted_epoch_def)
  qed
qed

interpretation leases: repository cl_committed_lease_id committed_create
  "\<lambda>k rows. sql_first (\<lambda>l. cl_committed_lease_id l = k) rows"
  by unfold_locales (auto simp: committed_create_def)

end
