(* ===== verification/Lease_Contract.thy ===== *)
theory Lease_Contract
  imports Lease_Ledger
begin

section \<open>What a scheduler-lease arbiter promises\<close>

text \<open>
  The contract between the orchestrator service and whichever arbiter the configuration selects
  (\<open>scheduler_authority_cluster\<close> in the code): \<open>submit_contract\<close> says what a submission may do to
  the ledger and report, \<open>release_contract\<close> what a release does. The locale \<open>lease_authority\<close>
  states them as the laws of the interface and derives what its clients use; each arbiter is an
  interpretation in its own theory.
\<close>

definition grant_effect ::
  "string \<Rightarrow> string \<Rightarrow> string \<Rightarrow> time \<Rightarrow> committed_lease list \<Rightarrow> committed_lease list \<Rightarrow> committed_lease \<Rightarrow> bool" where
  "grant_effect dk key cp now L L' l \<longleftrightarrow>
     ledger_ok L' \<and> l \<in> set L' \<and> same_domain dk key l \<and> cl_control_plane_id l = cp \<and> live_at now l
     \<and> cl_fencing_token l \<notin> cl_fencing_token ` set L
     \<and> cl_fencing_token ` set L \<subseteq> cl_fencing_token ` set L'
     \<and> (\<forall>m\<in>set L. cl_commit_index m < cl_commit_index l)
     \<and> (\<forall>m\<in>set L. same_domain dk key m \<longrightarrow> cl_lease_epoch m < cl_lease_epoch l)
     \<and> (\<forall>m\<in>set L'. same_domain dk key m \<and> m \<noteq> l \<longrightarrow> cl_released_at m \<noteq> None)
     \<and> filter (\<lambda>m. \<not> same_domain dk key m) L' = filter (\<lambda>m. \<not> same_domain dk key m) L"

definition submit_contract :: "time \<Rightarrow> submit_request \<Rightarrow> sched_db \<Rightarrow> submit_result \<Rightarrow> sched_db \<Rightarrow> bool" where
  "submit_contract now rq db res db' \<longleftrightarrow>
     (case sr_committed_lease res of
        None \<Rightarrow> \<not> sr_granted res \<and> sd_leases db' = sd_leases db
      | Some pl \<Rightarrow>
          sr_granted res \<and> pl = committed_lease_payload (lp_lease pl)
          \<and> cl_control_plane_id (lp_lease pl) = rq_control_plane_id rq
          \<and> (if sr_duplicate res
             then sd_leases db' = sd_leases db
                  \<and> active_committed_lease_for_domain (rq_domain_kind rq) (rq_domain_key rq) now db
                      = Some (lp_lease pl)
             else active_committed_lease_for_domain (rq_domain_kind rq) (rq_domain_key rq) now db = None
                  \<and> grant_effect (rq_domain_kind rq) (rq_domain_key rq) (rq_control_plane_id rq) now
                       (sd_leases db) (sd_leases db') (lp_lease pl)))"

definition release_contract :: "string \<Rightarrow> string \<Rightarrow> sched_db \<Rightarrow> sched_db \<Rightarrow> bool" where
  "release_contract lid reason db db' \<longleftrightarrow>
     (\<exists>at. sd_leases db' = sql_update (\<lambda>l. cl_lease_id l = lid) (mark_released at reason) (sd_leases db))
     \<and> lid \<in> cl_lease_id ` set (sd_leases db)"

definition token_retired :: "string \<Rightarrow> committed_lease list \<Rightarrow> bool" where
  "token_retired tk L \<longleftrightarrow>
     tk \<in> cl_fencing_token ` set L \<and> (\<forall>l\<in>set L. cl_fencing_token l = tk \<longrightarrow> cl_released_at l \<noteq> None)"

lemma update_keeps_retired:
  "token_retired tk L \<Longrightarrow> token_retired tk (sql_update p (mark_released at reason) L)"
  by (auto simp: token_retired_def sql_update_keys sql_update_mem)

lemma grant_keeps_retired:
  assumes g: "grant_effect dk key cp now L L' l" and ret: "token_retired tk L"
  shows "token_retired tk L'"
proof -
  have "cl_released_at m \<noteq> None" if m: "m \<in> set L'" "cl_fencing_token m = tk" for m
  proof (cases "same_domain dk key m")
    case True
    moreover have "m \<noteq> l" using g ret m(2) by (auto simp: grant_effect_def token_retired_def)
    ultimately show ?thesis using g m(1) by (simp add: grant_effect_def)
  next
    case False
    then have "m \<in> set (filter (\<lambda>m. \<not> same_domain dk key m) L')" using m(1) by simp
    moreover have "filter (\<lambda>m. \<not> same_domain dk key m) L' = filter (\<lambda>m. \<not> same_domain dk key m) L"
      using g by (simp add: grant_effect_def)
    ultimately have "m \<in> set L" by (simp only: set_filter mem_Collect_eq)
    then show ?thesis using ret m(2) by (simp add: token_retired_def)
  qed
  then show ?thesis
    using g ret unfolding token_retired_def grant_effect_def by blast
qed

subsection \<open>The interface\<close>

locale lease_authority =
  fixes submit :: "env \<Rightarrow> submit_request \<Rightarrow> sched_db \<Rightarrow> werror + submit_result \<times> sched_db"
    and release :: "env \<Rightarrow> string \<Rightarrow> string \<Rightarrow> sched_db \<Rightarrow> werror + release_result \<times> sched_db"
  assumes submit_law: "ledger_ok (sd_leases db) \<Longrightarrow> submit e rq db = Inr (res, db') \<Longrightarrow>
      submit_contract (clock e 0) rq db res db'"
    and release_law: "ledger_ok (sd_leases db) \<Longrightarrow> release e lid reason db = Inr (rr, db') \<Longrightarrow>
      release_contract lid reason db db'"
begin

lemma submit_keeps_ledger:
  "ledger_ok (sd_leases db) \<Longrightarrow> submit e rq db = Inr (res, db') \<Longrightarrow> ledger_ok (sd_leases db')"
  by (frule (1) submit_law) (auto simp: submit_contract_def grant_effect_def split: option.splits if_splits)

lemma release_keeps_ledger:
  "ledger_ok (sd_leases db) \<Longrightarrow> release e lid reason db = Inr (rr, db') \<Longrightarrow> ledger_ok (sd_leases db')"
  by (frule (1) release_law) (auto simp: release_contract_def intro: ledger_ok_release)

text \<open>A granted submission is answered with the lease that is active for its domain afterwards.\<close>

lemma granted_is_active:
  assumes "ledger_ok (sd_leases db)" and "submit e rq db = Inr (res, db')" and "sr_granted res"
  obtains l where "sr_committed_lease res = Some (committed_lease_payload l)"
    and "cl_control_plane_id l = rq_control_plane_id rq"
    and "active_committed_lease_for_domain (rq_domain_kind rq) (rq_domain_key rq) (clock e 0) db' = Some l"
proof -
  note c = submit_law [OF assms(1,2), unfolded submit_contract_def]
  obtain pl where pl: "sr_committed_lease res = Some pl"
    using c assms(3) by (cases "sr_committed_lease res") auto
  have act: "active_committed_lease_for_domain (rq_domain_kind rq) (rq_domain_key rq) (clock e 0) db' = Some (lp_lease pl)"
  proof (cases "sr_duplicate res")
    case True
    then show ?thesis using c pl by (simp add: ledger_frame(1) [of db' db])
  next
    case False
    then show ?thesis using c pl by (auto simp: grant_effect_def intro: active_unique)
  qed
  show thesis
    using that [of "lp_lease pl"] pl act c by auto
qed

text \<open>Mutual exclusion: nobody is granted a domain while another control plane's lease is live.\<close>

lemma granted_excludes_others:
  assumes "ledger_ok (sd_leases db)" and "submit e rq db = Inr (res, db')" and "sr_granted res"
    and "m \<in> set (sd_leases db)" and "same_domain (rq_domain_kind rq) (rq_domain_key rq) m"
    and "live_at (clock e 0) m"
  shows "cl_control_plane_id m = rq_control_plane_id rq"
proof -
  note c = submit_law [OF assms(1,2), unfolded submit_contract_def]
  have "active_committed_lease_for_domain (rq_domain_kind rq) (rq_domain_key rq) (clock e 0) db = Some m"
    using assms(1,4,5,6) by (rule active_unique)
  then show ?thesis
    using c assms(3) by (auto split: option.splits if_splits)
qed

text \<open>Fencing: a fresh grant outranks every lease its domain ever had.\<close>

lemma grant_outranks:
  assumes "ledger_ok (sd_leases db)" and "submit e rq db = Inr (res, db')"
    and "sr_committed_lease res = Some pl" and "\<not> sr_duplicate res"
    and "m \<in> set (sd_leases db)" and "same_domain (rq_domain_kind rq) (rq_domain_key rq) m"
  shows "cl_lease_epoch m < cl_lease_epoch (lp_lease pl) \<and> cl_commit_index m < cl_commit_index (lp_lease pl)
         \<and> cl_fencing_token m \<noteq> cl_fencing_token (lp_lease pl)"
  using submit_law [OF assms(1,2)] assms(3-6)
  by (auto simp: submit_contract_def grant_effect_def image_iff)

text \<open>A released lease is no longer live at any time, and other leases keep their state.\<close>

lemma released_not_live:
  assumes "ledger_ok (sd_leases db)" and "release e lid reason db = Inr (rr, db')"
    and "m \<in> set (sd_leases db')" and "cl_lease_id m = lid"
  shows "\<not> live_at t m"
proof -
  obtain at where "sd_leases db' = sql_update (\<lambda>l. cl_lease_id l = lid) (mark_released at reason) (sd_leases db)"
    using release_law [OF assms(1,2)] by (auto simp: release_contract_def)
  with assms(3) obtain s where "s \<in> set (sd_leases db)"
    and m: "m = (if cl_lease_id s = lid then mark_released at reason s else s)"
    by (auto simp only: sql_update_mem)
  with assms(4) have "m = mark_released at reason s"
    by (cases "cl_lease_id s = lid") simp_all
  then show ?thesis by (simp only: not_live_mark_released not_False_eq_True)
qed

lemma release_frame:
  assumes "ledger_ok (sd_leases db)" and "release e lid reason db = Inr (rr, db')"
  shows "filter (\<lambda>l. cl_lease_id l \<noteq> lid) (sd_leases db') = filter (\<lambda>l. cl_lease_id l \<noteq> lid) (sd_leases db)"
proof -
  have "filter (\<lambda>l. cl_lease_id l \<noteq> lid) (sql_update (\<lambda>l. cl_lease_id l = lid) (mark_released at reason) L)
      = filter (\<lambda>l. cl_lease_id l \<noteq> lid) L" for at and L :: "committed_lease list"
    by (induction L) (auto simp: sql_update_def)
  then show ?thesis
    using release_law [OF assms] by (auto simp: release_contract_def)
qed

text \<open>
  A fencing token is retired once every row that carries it is released. A retired token stays
  retired: a new lease takes a fresh token and no statement reopens a released row.
\<close>

lemma submit_keeps_retired:
  assumes "ledger_ok (sd_leases db)" and "submit e rq db = Inr (res, db')" and ret: "token_retired tk (sd_leases db)"
  shows "token_retired tk (sd_leases db')"
proof -
  note c = submit_law [OF assms(1,2), unfolded submit_contract_def]
  show ?thesis
  proof (cases "sr_committed_lease res = None \<or> sr_duplicate res")
    case True
    then have "sd_leases db' = sd_leases db" using c by (auto split: option.splits if_splits)
    then show ?thesis using ret by simp
  next
    case False
    then obtain l where g: "grant_effect (rq_domain_kind rq) (rq_domain_key rq) (rq_control_plane_id rq) (clock e 0)
        (sd_leases db) (sd_leases db') l"
      using c by (auto split: option.splits)
    then show ?thesis using ret by (rule grant_keeps_retired)
  qed
qed

lemma release_keeps_retired:
  assumes "ledger_ok (sd_leases db)" and "release e lid reason db = Inr (rr, db')" and "token_retired tk (sd_leases db)"
  shows "token_retired tk (sd_leases db')"
  using release_law [OF assms(1,2)] assms(3) by (auto simp: release_contract_def intro: update_keeps_retired)

end

subsection \<open>The grant both arbiters perform\<close>

text \<open>
  The common tail of the two \<open>_submit_proposal\<close> methods: expire the previous lease, take the next
  commit index and a greater epoch, insert. It has the effect the contract asks for.
\<close>

lemma release_expired_other_domains:
  assumes "ledger_ok (sd_leases db0)"
    and "release_expired_before_regrant rt now (latest_committed_lease_for_domain dk key db0) db0 = (latest, db)"
  shows "filter (\<lambda>m. \<not> same_domain dk key m) (sd_leases db) = filter (\<lambda>m. \<not> same_domain dk key m) (sd_leases db0)"
proof (cases "latest_committed_lease_for_domain dk key db0")
  case None
  with assms(2) show ?thesis by (simp add: release_expired_before_regrant_def)
next
  case (Some l)
  note top = latest_is_greatest [OF Some]
  have uniq: "m = l" if "m \<in> set (sd_leases db0)" "cl_committed_lease_id m = cl_committed_lease_id l" for m
    using assms(1) top(1) that by (auto simp: ledger_ok_def distinct_map inj_on_def)
  have flt: "filter (\<lambda>m. \<not> same_domain dk key m)
       (sql_update (\<lambda>q. cl_committed_lease_id q = cl_committed_lease_id l) (mark_released rt r) L)
     = filter (\<lambda>m. \<not> same_domain dk key m) L"
    if "\<And>m. m \<in> set L \<Longrightarrow> cl_committed_lease_id m = cl_committed_lease_id l \<Longrightarrow> m = l" for L r
    using that top(2) by (induction L) (auto simp: sql_update_def)
  show ?thesis
  proof (cases "cl_released_at l = None \<and> cl_lease_expires_at l \<le> now")
    case True
    then have "sd_leases db = sql_update (\<lambda>q. cl_committed_lease_id q = cl_committed_lease_id l)
             (mark_released rt ''expired_before_regrant'') (sd_leases db0)"
      using assms(2) Some
      by (auto simp: release_expired_before_regrant_def release_committed_lease_def split: option.splits)
    then show ?thesis using flt [of "sd_leases db0" "''expired_before_regrant''"] uniq by simp
  next
    case False
    then show ?thesis using assms(2) Some by (auto simp: release_expired_before_regrant_def)
  qed
qed

lemma regrant_effect:
  assumes ok: "ledger_ok (sd_leases db0)"
    and none: "active_committed_lease_for_domain dk key now db0 = None"
    and rel: "release_expired_before_regrant rt now (latest_committed_lease_for_domain dk key db0) db0 = (latest, db)"
    and same: "sd_leases db1 = sd_leases db"
    and new: "new_committed c hc hf p d term_no (next_commit_index db1) (granted_epoch req latest) = Inr l"
    and dom: "de_domain_kind d = dk" "de_domain_key d = key" "de_control_plane_id d = cp"
      "de_lease_expires_at d > now"
    and ins: "insert_committed_lease l db1 = Inr db2"
  shows "grant_effect dk key cp now (sd_leases db0) (sd_leases db2) l"
proof -
  note ready = regrant_ready(1) [OF ok none rel] regrant_ready(2) [OF ok none rel, where req = req]
  note l = new_committedD [OF new]
  note inserted = insert_committed_leaseD [OF ins]
  have L2: "sd_leases db2 = sd_leases db @ [l]"
    using inserted(1) same by simp
  have above: "cl_commit_index m < cl_commit_index l" if "m \<in> set (sd_leases db)" for m
    using next_commit_index_above [of m db1] that l(1) same by simp
  obtain q where q: "sd_leases db = sql_update q (mark_released rt ''expired_before_regrant'') (sd_leases db0)"
    using release_expired_leases [of rt now "latest_committed_lease_for_domain dk key db0" db0] rel by auto
  have old: "\<exists>m'\<in>set (sd_leases db). cl_commit_index m' = cl_commit_index m \<and> cl_lease_epoch m' = cl_lease_epoch m
        \<and> cl_fencing_token m' = cl_fencing_token m \<and> same_domain dk key m' = same_domain dk key m"
    if "m \<in> set (sd_leases db0)" for m
  proof -
    let ?m = "if q m then mark_released rt ''expired_before_regrant'' m else m"
    have "?m \<in> set (sd_leases db)"
      unfolding q by (rule sql_update_image [OF that])
    moreover have "cl_commit_index ?m = cl_commit_index m \<and> cl_lease_epoch ?m = cl_lease_epoch m
        \<and> cl_fencing_token ?m = cl_fencing_token m \<and> same_domain dk key ?m = same_domain dk key m"
      by simp
    ultimately show ?thesis by blast
  qed
  have ledger: "ledger_ok (sd_leases db2)"
    unfolding L2
    by (rule ledger_ok_append [OF ready(1) l(11)]) (use inserted same above ready(2) l dom in auto)
  have here: "same_domain dk key l"
    using l dom by (simp add: same_domain_def)
  have others: "filter (\<lambda>m. \<not> same_domain dk key m) (sd_leases db2) = filter (\<lambda>m. \<not> same_domain dk key m) (sd_leases db0)"
    using release_expired_other_domains [OF ok rel] here by (simp add: L2)
  have tok: "cl_fencing_token l \<notin> cl_fencing_token ` set (sd_leases db0)"
  proof
    assume "cl_fencing_token l \<in> cl_fencing_token ` set (sd_leases db0)"
    then obtain m where "m \<in> set (sd_leases db0)" and "cl_fencing_token m = cl_fencing_token l"
      by auto
    with old [of m] inserted(4) same show False by (metis imageI)
  qed
  have comm: "\<forall>m\<in>set (sd_leases db0). cl_commit_index m < cl_commit_index l"
    using old above by force
  have ep: "\<forall>m\<in>set (sd_leases db0). same_domain dk key m \<longrightarrow> cl_lease_epoch m < cl_lease_epoch l"
    using old ready(2) l(2) by force
  have rest: "\<forall>m\<in>set (sd_leases db2). same_domain dk key m \<and> m \<noteq> l \<longrightarrow> cl_released_at m \<noteq> None"
    using ready(2) by (auto simp: L2)
  have keep: "cl_fencing_token ` set (sd_leases db0) \<subseteq> cl_fencing_token ` set (sd_leases db2)"
    unfolding L2 q by (auto simp: sql_update_keys)
  show ?thesis
    unfolding grant_effect_def
    using ledger here others tok comm ep rest l dom keep by (auto simp: L2 live_at_def)
qed

end
