(* ===== verification/Local_Arbiter.thy ===== *)
theory Local_Arbiter
  imports Lease_Contract
begin

section \<open>The local scheduler-lease arbiter\<close>

text \<open>
  \<open>LocalSchedulerLeaseArbiter\<close> of \<^verbatim>\<open>packages/core_domain/local_scheduler_lease_arbiter.py\<close>, the
  single-control-plane arbiter used while the scheduler cluster is disabled, with the handoff
  envelopes of \<^verbatim>\<open>local_scheduler_handoffs.py\<close>. Each operation is the code of its private method
  on an open connection; the public wrapper only opens a \<open>unit_of_work\<close>, whose rollback is the
  absence of a new state in an erroneous result. Clock readings and identifiers come from the
  \<open>env\<close> argument, every reading of one operation at an index of its own.
\<close>

record arbiter_cfg =
  ac_node_id :: string
  ac_bind_url :: string
  ac_quorum_size :: int
  ac_election_timeout_ms :: int
  ac_heartbeat_interval_ms :: int

definition local_arbiter_init :: "string \<Rightarrow> string \<Rightarrow> int \<Rightarrow> int \<Rightarrow> int \<Rightarrow> arbiter_cfg" where
  "local_arbiter_init node_id bind_url quorum election heartbeat =
     \<lparr>ac_node_id = node_id, ac_bind_url = bind_url, ac_quorum_size = max quorum 1,
      ac_election_timeout_ms = max election 1, ac_heartbeat_interval_ms = max heartbeat 1\<rparr>"

subsection \<open>Synthetic term and snapshot\<close>

definition synthetic_local_only_term ::
  "arbiter_cfg \<Rightarrow> time \<Rightarrow> string \<Rightarrow> time \<Rightarrow> committed_lease option \<Rightarrow> int option \<Rightarrow> sched_db \<Rightarrow> consensus_term" where
  "synthetic_local_only_term cfg created hx observed latest commit_index db =
     (let current = (case latest of Some l \<Rightarrow> Some l | None \<Rightarrow> latest_local_only_committed_lease db);
          term_no = (case current of Some l \<Rightarrow> cl_term_no l | None \<Rightarrow> 1);
          index = (case commit_index of Some i \<Rightarrow> i
                   | None \<Rightarrow> (case current of Some l \<Rightarrow> cl_commit_index l | None \<Rightarrow> 0));
          started = (case current of Some l \<Rightarrow> cl_created_at l | None \<Rightarrow> observed)
      in \<lparr>tm_term_id = new_id ''term'' hx, tm_term_no = max term_no 1,
          tm_leader_node_id = ac_node_id cfg, tm_quorum_size = 1, tm_commit_index = max index 0,
          tm_status = ''active'', tm_started_at = started, tm_last_heartbeat_at = observed,
          tm_closed_at = None, tm_close_reason = None, tm_created_at = created\<rparr>)"

definition local_node_payload :: "arbiter_cfg \<Rightarrow> time \<Rightarrow> time \<Rightarrow> authority_node \<times> bool" where
  "local_node_payload cfg created observed =
     (\<lparr>an_node_id = ac_node_id cfg, an_bind_url = ac_bind_url cfg, an_status = ''active'',
       an_role = ''control_plane'', an_last_heartbeat_at = observed,
       an_created_at = created, an_updated_at = created\<rparr>, True)"

definition local_cluster_snapshot :: "arbiter_cfg \<Rightarrow> time \<Rightarrow> consensus_term \<Rightarrow> time \<Rightarrow> cluster_view" where
  "local_cluster_snapshot cfg created term observed =
     \<lparr>cv_enabled = False, cv_mode = ''local_only'',
      cv_authority_mode = ''single_control_plane_local_only'',
      cv_node_count = 1, cv_active_node_count = 1, cv_quorum_size = 1,
      cv_leader_node_id = Some (ac_node_id cfg), cv_authority_node_id = Some (ac_node_id cfg),
      cv_term_no = Some (tm_term_no term), cv_authority_term_no = Some (tm_term_no term),
      cv_commit_index = tm_commit_index term, cv_decision_index = tm_commit_index term,
      cv_nodes = [local_node_payload cfg created observed]\<rparr>"

definition local_snapshot_now :: "arbiter_cfg \<Rightarrow> env \<Rightarrow> nat \<Rightarrow> sched_db \<Rightarrow> cluster_view" where
  "local_snapshot_now cfg e k db =
     (let observed = clock e k
      in local_cluster_snapshot cfg (clock e (k + 2))
           (synthetic_local_only_term cfg (clock e (k + 1)) (hex12 e k) observed None None db) observed)"

text \<open>\<open>heartbeat_node\<close> ignores the peer it is told about; it reports the local node only.\<close>

definition local_heartbeat_node ::
  "arbiter_cfg \<Rightarrow> env \<Rightarrow> time option \<Rightarrow> sched_db \<Rightarrow> (authority_node \<times> bool) \<times> cluster_view" where
  "local_heartbeat_node cfg e observed_at db =
     (let at = (case observed_at of Some t \<Rightarrow> t | None \<Rightarrow> clock e 0);
          term = synthetic_local_only_term cfg (clock e 1) (hex12 e 0) at None None db
      in (local_node_payload cfg (clock e 2) at, local_cluster_snapshot cfg (clock e 3) term at))"

subsection \<open>Submitting a proposal\<close>

definition disabled_remote_proposal :: "arbiter_cfg \<Rightarrow> env \<Rightarrow> sched_db \<Rightarrow> submit_result" where
  "disabled_remote_proposal cfg e db =
     (let term = synthetic_local_only_term cfg (clock e 2) (hex12 e 0) (clock e 1) None None db
      in \<lparr>sr_proposal = None, sr_decision = None, sr_committed_lease = None,
          sr_duplicate = False, sr_granted = False, sr_conflict = None, sr_votes = [],
          sr_term = authority_term_payload term,
          sr_cluster = local_cluster_snapshot cfg (clock e 3) term (clock e 4),
          sr_stale_leader = False,
          sr_reason = Some ''scheduler_authority_cluster_disabled_local_only'',
          sr_previous_committed_lease = None\<rparr>)"

text \<open>The domain already holds a live lease of the requesting control plane.\<close>

definition local_accept_existing ::
  "arbiter_cfg \<Rightarrow> env \<Rightarrow> time \<Rightarrow> lease_proposal \<Rightarrow> committed_lease \<Rightarrow> committed_lease option \<Rightarrow> sched_db
   \<Rightarrow> submit_result \<times> sched_db" where
  "local_accept_existing cfg e now p active latest db =
     (let latest_decision = decision_get (cl_lease_id active) db;
          (updated, db') = proposal_update_status (pr_proposal_id p) ''accepted_existing'' db;
          term = synthetic_local_only_term cfg (clock e 2) (hex12 e 1) now (Some active) None db'
      in (\<lparr>sr_proposal = Some (case updated of Some q \<Rightarrow> q | None \<Rightarrow> p),
           sr_decision = latest_decision,
           sr_committed_lease = Some (committed_lease_payload active),
           sr_duplicate = True, sr_granted = True, sr_conflict = None, sr_votes = [],
           sr_term = authority_term_payload term,
           sr_cluster = local_cluster_snapshot cfg (clock e 3) term now,
           sr_stale_leader = False, sr_reason = None,
           sr_previous_committed_lease = map_option committed_lease_payload latest\<rparr>, db'))"

text \<open>The domain holds a live lease of another control plane.\<close>

definition local_reject_conflict ::
  "arbiter_cfg \<Rightarrow> env \<Rightarrow> time \<Rightarrow> lease_proposal \<Rightarrow> committed_lease \<Rightarrow> committed_lease option \<Rightarrow> sched_db
   \<Rightarrow> werror + submit_result \<times> sched_db" where
  "local_reject_conflict cfg e now p active latest db =
     rbind (new_decision (clock e 2) (hex12 e 1) (hex12 e 2) p (cl_lease_epoch active) ''rejected''
              ''conflict_active_committed_lease_owned_by_other_control_plane''
              (cl_lease_expires_at active)) (\<lambda>d.
     rbind (decision_create d db) (\<lambda>db1.
       let (updated, db2) = proposal_update_status (pr_proposal_id p) ''rejected'' db1;
           term = synthetic_local_only_term cfg (clock e 3) (hex12 e 3) now latest None db
       in Inr (\<lparr>sr_proposal = Some (case updated of Some q \<Rightarrow> q | None \<Rightarrow> p),
                sr_decision = Some d, sr_committed_lease = None,
                sr_duplicate = False, sr_granted = False,
                sr_conflict = Some (conflict_with (pr_control_plane_id p) active), sr_votes = [],
                sr_term = authority_term_payload term,
                sr_cluster = local_cluster_snapshot cfg (clock e 4) term now,
                sr_stale_leader = False, sr_reason = None,
                sr_previous_committed_lease = map_option committed_lease_payload latest\<rparr>, db2)))"

definition local_grant ::
  "arbiter_cfg \<Rightarrow> env \<Rightarrow> time \<Rightarrow> lease_proposal \<Rightarrow> committed_lease option \<Rightarrow> sched_db
   \<Rightarrow> werror + submit_result \<times> sched_db" where
  "local_grant cfg e now p latest0 db0 =
     (let (latest, db) = release_expired_before_regrant (clock e 2) now latest0 db0;
          epoch = granted_epoch (pr_requested_epoch p) latest
      in
     rbind (new_decision (clock e 3) (hex12 e 1) (hex12 e 2) p epoch ''granted''
              ''local_control_plane_committed''
              (now + seconds (pr_requested_lease_seconds p))) (\<lambda>d.
     rbind (decision_create d db) (\<lambda>db1.
       let index = next_commit_index db1;
           term = synthetic_local_only_term cfg (clock e 4) (hex12 e 3) now latest (Some index) db1
       in
     rbind (new_committed (clock e 5) (hex12 e 4) (hex12 e 5) p d (tm_term_no term) index epoch) (\<lambda>l.
     rbind (insert_committed_lease l db1) (\<lambda>db2.
       let (updated, db3) = proposal_update_status (pr_proposal_id p) ''granted'' db2
       in Inr (\<lparr>sr_proposal = Some (case updated of Some q \<Rightarrow> q | None \<Rightarrow> p),
                sr_decision = Some d,
                sr_committed_lease = Some (committed_lease_payload l),
                sr_duplicate = False, sr_granted = True, sr_conflict = None, sr_votes = [],
                sr_term = authority_term_payload term,
                sr_cluster = local_cluster_snapshot cfg (clock e 6) term now,
                sr_stale_leader = False, sr_reason = None,
                sr_previous_committed_lease = map_option committed_lease_payload latest\<rparr>, db3))))))"

definition local_submit_proposal ::
  "arbiter_cfg \<Rightarrow> env \<Rightarrow> submit_request \<Rightarrow> sched_db \<Rightarrow> werror + submit_result \<times> sched_db" where
  "local_submit_proposal cfg e rq db =
     (let now = clock e 0 in
      if rq_control_plane_id rq \<noteq> ac_node_id cfg then Inr (disabled_remote_proposal cfg e db, db)
      else
        rbind (new_proposal (clock e 1) (hex12 e 0) rq) (\<lambda>p.
        rbind (proposal_create p db) (\<lambda>db1.
          let active = active_committed_lease_for_domain (rq_domain_kind rq) (rq_domain_key rq) now db1;
              latest = latest_committed_lease_for_domain (rq_domain_kind rq) (rq_domain_key rq) db1
          in case active of
               Some a \<Rightarrow>
                 if cl_control_plane_id a = rq_control_plane_id rq
                 then Inr (local_accept_existing cfg e now p a latest db1)
                 else local_reject_conflict cfg e now p a latest db1
             | None \<Rightarrow> local_grant cfg e now p latest db1)))"

subsection \<open>Releasing and reading a lease\<close>

definition local_release_lease ::
  "arbiter_cfg \<Rightarrow> env \<Rightarrow> string \<Rightarrow> string \<Rightarrow> sched_db \<Rightarrow> werror + release_result \<times> sched_db" where
  "local_release_lease cfg e lid reason db =
     (case get_committed_lease_by_lease_id lid db of
        None \<Rightarrow> Inl (EntityNotFoundError ''scheduler_committed_lease'' lid)
      | Some l0 \<Rightarrow>
          (let (l, db1) = release_committed_lease (clock e 0) reason l0 db;
               (d, db2) = decision_release lid (clock e 1) reason db1
           in Inr (\<lparr>rr_committed_lease = committed_lease_payload l, rr_decision = d,
                    rr_cluster = local_snapshot_now cfg e 2 db2\<rparr>, db2)))"

definition local_get_lease :: "arbiter_cfg \<Rightarrow> env \<Rightarrow> string \<Rightarrow> sched_db \<Rightarrow> werror + lease_view" where
  "local_get_lease cfg e lid db =
     (case get_committed_lease_by_lease_id lid db of
        None \<Rightarrow> Inl (EntityNotFoundError ''scheduler_committed_lease'' lid)
      | Some l \<Rightarrow>
          (let now = clock e 0
           in Inr \<lparr>lv_lease_id = lid, lv_proposal = proposal_get (cl_proposal_id l) db,
                   lv_decision = decision_get lid db,
                   lv_committed_lease = committed_lease_payload l, lv_votes = [],
                   lv_cluster = local_snapshot_now cfg e 1 db,
                   lv_active = (cl_status l = ''active'' \<and> cl_released_at l = None \<and> cl_lease_expires_at l > now),
                   lv_expired = (cl_lease_expires_at l \<le> now)\<rparr>))"

subsection \<open>Handoff envelopes\<close>

definition create_handoff_envelope ::
  "env \<Rightarrow> string \<Rightarrow> string \<Rightarrow> string \<Rightarrow> string \<Rightarrow> string \<Rightarrow> int \<Rightarrow> int
   \<Rightarrow> (string \<times> json) list \<Rightarrow> (string \<times> json) list \<Rightarrow> (string \<times> json) list \<Rightarrow> (string \<times> json) list
   \<Rightarrow> sched_db \<Rightarrow> werror + handoff_envelope \<times> sched_db" where
  "create_handoff_envelope e run task from_cp to_cp committed term_no index snapshot review refs replay db =
     rbind (rguard (term_no \<ge> 1 \<and> index \<ge> 1) (ValidationError ''ControlPlaneHandoffEnvelope'')) (\<lambda>_.
       let env = \<lparr>ho_envelope_id = new_id ''handoffenv'' (hex12 e 0), ho_run_id = run,
                  ho_runtime_task_id = task, ho_from_control_plane_id = from_cp,
                  ho_to_control_plane_id = to_cp, ho_committed_lease_id = committed,
                  ho_term_no = term_no, ho_commit_index = index, ho_snapshot_payload = snapshot,
                  ho_review_state = review, ho_durable_refs = refs, ho_replay_excerpt = replay,
                  ho_created_at = clock e 0\<rparr>
       in rbind (sql_insert ''control_plane_handoff_envelopes''
                   (ho_envelope_id env \<notin> ho_envelope_id ` set (sd_handoffs db)) env (sd_handoffs db))
            (\<lambda>rows. Inr (env, db\<lparr>sd_handoffs := rows\<rparr>)))"

definition list_handoff_envelopes_for_run :: "string \<Rightarrow> sched_db \<Rightarrow> handoff_envelope list" where
  "list_handoff_envelopes_for_run run db =
     sql_order (\<lambda>h. (ho_created_at h, ho_envelope_id h)) (sql_where (\<lambda>h. ho_run_id h = run) (sd_handoffs db))"


subsection \<open>The arbiter keeps the contract\<close>

lemma local_submit_contract:
  assumes ok: "ledger_ok (sd_leases db)" and sub: "local_submit_proposal cfg e rq db = Inr (res, db')"
  shows "submit_contract (clock e 0) rq db res db'"
proof (cases "rq_control_plane_id rq = ac_node_id cfg")
  case False
  with sub show ?thesis
    by (auto simp: local_submit_proposal_def disabled_remote_proposal_def submit_contract_def Let_def)
next
  case True
  let ?now = "clock e 0" and ?dk = "rq_domain_kind rq" and ?key = "rq_domain_key rq"
  obtain p db1 where p: "new_proposal (clock e 1) (hex12 e 0) rq = Inr p" "proposal_create p db = Inr db1"
    using sub True by (auto simp: local_submit_proposal_def Let_def result_simps)
  have L1: "sd_leases db1 = sd_leases db"
    using proposal_createD [OF p(2)] by simp
  note pd = new_proposalD [OF p(1)]
  note frame = ledger_frame [OF L1]
  show ?thesis
  proof (cases "active_committed_lease_for_domain ?dk ?key ?now db")
    case (Some a)
    show ?thesis
    proof (cases "cl_control_plane_id a = rq_control_plane_id rq")
      case same: True
      then have "local_accept_existing cfg e ?now p a (latest_committed_lease_for_domain ?dk ?key db1) db1 = (res, db')"
        using sub True p Some frame by (simp add: local_submit_proposal_def Let_def)
      then have "sr_committed_lease res = Some (committed_lease_payload a)" "sr_granted res" "sr_duplicate res"
        "sd_leases db' = sd_leases db1"
        by (auto simp: local_accept_existing_def Let_def proposal_update_status_def)
      then show ?thesis
        using Some same L1 by (simp add: submit_contract_def committed_lease_payload_def)
    next
      case other: False
      then have "local_reject_conflict cfg e ?now p a (latest_committed_lease_for_domain ?dk ?key db1) db1 = Inr (res, db')"
        using sub True p Some frame by (simp add: local_submit_proposal_def Let_def)
      then have "sr_committed_lease res = None" "\<not> sr_granted res" "sd_leases db' = sd_leases db1"
        by (auto simp: local_reject_conflict_def Let_def proposal_update_status_def result_simps
            dest!: decision_createD)
      then show ?thesis
        using L1 by (simp add: submit_contract_def)
    qed
  next
    case None
    obtain latest dbr where rel: "release_expired_before_regrant (clock e 2) ?now
        (latest_committed_lease_for_domain ?dk ?key db1) db1 = (latest, dbr)"
      by (metis surj_pair)
    have grant: "local_grant cfg e ?now p (latest_committed_lease_for_domain ?dk ?key db1) db1 = Inr (res, db')"
      using sub True p None frame by (simp add: local_submit_proposal_def Let_def)
    then obtain d db2 term_no l db3 where
      d: "new_decision (clock e 3) (hex12 e 1) (hex12 e 2) p (granted_epoch (pr_requested_epoch p) latest) ''granted''
            ''local_control_plane_committed'' (?now + seconds (pr_requested_lease_seconds p)) = Inr d"
        "decision_create d dbr = Inr db2"
      and l: "new_committed (clock e 5) (hex12 e 4) (hex12 e 5) p d term_no (next_commit_index db2)
            (granted_epoch (pr_requested_epoch p) latest) = Inr l"
        "insert_committed_lease l db2 = Inr db3"
      and res: "sr_committed_lease res = Some (committed_lease_payload l)" "sr_granted res" "\<not> sr_duplicate res"
        "sd_leases db' = sd_leases db3"
      by (fastforce simp: local_grant_def rel Let_def result_simps proposal_update_status_def)
    have "grant_effect ?dk ?key (rq_control_plane_id rq) ?now (sd_leases db1) (sd_leases db3) l"
    proof (rule regrant_effect [OF _ _ rel _ l(1) _ _ _ _ l(2)])
      show "ledger_ok (sd_leases db1)" using ok L1 by simp
      show "active_committed_lease_for_domain ?dk ?key ?now db1 = None" using None frame by simp
      show "sd_leases db2 = sd_leases dbr" using decision_createD [OF d(2)] by simp
    qed (use new_decisionD [OF d(1)] pd in \<open>auto simp: seconds_def\<close>)
    then show ?thesis
      using None res L1 new_committedD [OF l(1)] new_decisionD [OF d(1)] pd
      by (simp add: submit_contract_def committed_lease_payload_def)
  qed
qed

lemma release_by_either_key:
  assumes "ledger_ok rows" and "l \<in> set rows"
  shows "sql_update (\<lambda>q. cl_committed_lease_id q = cl_committed_lease_id l) f rows
       = sql_update (\<lambda>q. cl_lease_id q = cl_lease_id l) f rows"
  using assms by (auto simp: sql_update_def ledger_ok_def distinct_map inj_on_def)

lemma local_release_contract:
  assumes ok: "ledger_ok (sd_leases db)" and rel: "local_release_lease cfg e lid reason db = Inr (rr, db')"
  shows "release_contract lid reason db db'"
proof -
  obtain l where l: "get_committed_lease_by_lease_id lid db = Some l"
    using rel by (auto simp: local_release_lease_def split: option.splits)
  then have mem: "l \<in> set (sd_leases db)" "cl_lease_id l = lid"
    by (auto simp: get_committed_lease_by_lease_id_def dest: sql_first_Some)
  have "sd_leases db' = sql_update (\<lambda>q. cl_committed_lease_id q = cl_committed_lease_id l)
      (mark_released (clock e 0) reason) (sd_leases db)"
    using rel l by (auto simp: local_release_lease_def release_committed_lease_def decision_release_def Let_def)
  then show ?thesis
    using release_by_either_key [OF ok mem(1)] mem by (auto simp: release_contract_def)
qed

interpretation local_arbiter: lease_authority "local_submit_proposal cfg" "local_release_lease cfg" for cfg
  by unfold_locales (rule local_submit_contract local_release_contract; assumption)+

subsection \<open>The arbiter answers\<close>

text \<open>The identifiers one local submission draws do not collide with those in the tables.\<close>

definition lease_ids_fresh :: "env \<Rightarrow> sched_db \<Rightarrow> bool" where
  "lease_ids_fresh e db \<longleftrightarrow>
     new_id ''decision'' (hex12 e 1) \<notin> de_decision_id ` set (sd_decisions db)
     \<and> new_id ''schedlease'' (hex12 e 2) \<notin> de_lease_id ` set (sd_decisions db)
     \<and> new_id ''schedlease'' (hex12 e 2) \<notin> cl_lease_id ` set (sd_leases db)
     \<and> new_id ''committed'' (hex12 e 4) \<notin> cl_committed_lease_id ` set (sd_leases db)
     \<and> new_id ''fence'' (hex12 e 5) \<notin> cl_fencing_token ` set (sd_leases db)"

definition local_ids_fresh :: "env \<Rightarrow> sched_db \<Rightarrow> bool" where
  "local_ids_fresh e db \<longleftrightarrow>
     new_id ''proposal'' (hex12 e 0) \<notin> pr_proposal_id ` set (sd_proposals db) \<and> lease_ids_fresh e db"

lemma decision_step:
  assumes "lease_ids_fresh e db" and "ep \<ge> 1" and "pr_run_id p \<in> set (sd_runs db)"
    and "p \<in> set (sd_proposals db)"
  shows "\<exists>d. new_decision c (hex12 e 1) (hex12 e 2) p ep v r ex = Inr d
     \<and> decision_create d db = Inr (db\<lparr>sd_decisions := sd_decisions db @ [d]\<rparr>)"
  using assms by (auto simp: new_decision_def decision_create_def lease_ids_fresh_def sql_insert_def)

lemma release_expired_ids:
  "cl_lease_id ` set (sd_leases (snd (release_expired_before_regrant rt now latest db))) = cl_lease_id ` set (sd_leases db)"
  "cl_committed_lease_id ` set (sd_leases (snd (release_expired_before_regrant rt now latest db))) = cl_committed_lease_id ` set (sd_leases db)"
  "cl_fencing_token ` set (sd_leases (snd (release_expired_before_regrant rt now latest db))) = cl_fencing_token ` set (sd_leases db)"
  "de_decision_id ` set (sd_decisions (snd (release_expired_before_regrant rt now latest db))) = de_decision_id ` set (sd_decisions db)"
  "de_lease_id ` set (sd_decisions (snd (release_expired_before_regrant rt now latest db))) = de_lease_id ` set (sd_decisions db)"
  "sd_proposals (snd (release_expired_before_regrant rt now latest db)) = sd_proposals db"
  "sd_runs (snd (release_expired_before_regrant rt now latest db)) = sd_runs db"
  by (auto simp: release_expired_before_regrant_def release_committed_lease_def decision_release_def Let_def sql_update_keys
      split: option.splits)

lemma fresh_after_release:
  "lease_ids_fresh e db \<Longrightarrow> lease_ids_fresh e (snd (release_expired_before_regrant rt now latest db))"
  by (simp add: lease_ids_fresh_def release_expired_ids)

lemma local_grant_returns:
  assumes fresh: "lease_ids_fresh e db" and p: "p \<in> set (sd_proposals db)" "pr_run_id p \<in> set (sd_runs db)"
    "pr_requested_epoch p \<ge> 1" and ok: "ledger_ok (sd_leases db)"
  shows "\<exists>res db'. local_grant cfg e now p latest db = Inr (res, db') \<and> sr_granted res"
proof -
  obtain lt dbr where rel: "release_expired_before_regrant (clock e 2) now latest db = (lt, dbr)"
    by (metis surj_pair)
  note ids = release_expired_ids [of "clock e 2" now latest db, unfolded rel snd_conv]
  have fr: "lease_ids_fresh e dbr" using fresh_after_release [OF fresh, of "clock e 2" now latest] rel by simp
  let ?ep = "granted_epoch (pr_requested_epoch p) lt"
  have ep: "?ep \<ge> 1" using p(3) by (simp add: granted_epoch_def)
  obtain d where d: "new_decision (clock e 3) (hex12 e 1) (hex12 e 2) p ?ep ''granted'' ''local_control_plane_committed''
        (now + seconds (pr_requested_lease_seconds p)) = Inr d"
      "decision_create d dbr = Inr (dbr\<lparr>sd_decisions := sd_decisions dbr @ [d]\<rparr>)"
    using decision_step [OF fr ep, of p "clock e 3" "''granted''" "''local_control_plane_committed''"
        "now + seconds (pr_requested_lease_seconds p)"] p ids by auto
  let ?db1 = "dbr\<lparr>sd_decisions := sd_decisions dbr @ [d]\<rparr>"
  have okr: "ledger_ok (sd_leases dbr)"
    using release_expired_leases [of "clock e 2" now latest db] rel ok by (auto intro: ledger_ok_release)
  then have idx: "next_commit_index ?db1 \<ge> 1"
    using next_commit_index_pos [of ?db1] by simp
  let ?t = "synthetic_local_only_term cfg (clock e 4) (hex12 e 3) now lt (Some (next_commit_index ?db1)) ?db1"
  have tn: "tm_term_no ?t \<ge> 1"
    by (simp add: synthetic_local_only_term_def Let_def)
  obtain l where l: "new_committed (clock e 5) (hex12 e 4) (hex12 e 5) p d (tm_term_no ?t) (next_commit_index ?db1) ?ep = Inr l"
    "cl_committed_lease_id l = new_id ''committed'' (hex12 e 4)" "cl_lease_id l = de_lease_id d"
    "cl_fencing_token l = new_id ''fence'' (hex12 e 5)"
    using tn idx ep by (simp add: new_committed_def)
  have "de_lease_id d = new_id ''schedlease'' (hex12 e 2)"
    by (rule new_decisionD(11) [OF d(1)])
  then have ins: "insert_committed_lease l ?db1 = Inr (?db1\<lparr>sd_leases := sd_leases dbr @ [l]\<rparr>)"
    using fr l by (simp add: insert_committed_lease_def committed_create_def lease_ids_fresh_def sql_insert_def)
  show ?thesis
    by (simp add: local_grant_def rel d l(1) ins Let_def proposal_update_status_def del: One_nat_def)
qed

text \<open>A refusal records its decision and names the owner.\<close>

lemma local_reject_returns:
  assumes fresh: "lease_ids_fresh e db" and p: "p \<in> set (sd_proposals db)" "pr_run_id p \<in> set (sd_runs db)"
    and a: "cl_lease_epoch a \<ge> 1"
  shows "\<exists>res db'. local_reject_conflict cfg e now p a latest db = Inr (res, db') \<and> \<not> sr_granted res
     \<and> sd_leases db' = sd_leases db \<and> sr_conflict res = Some (conflict_with (pr_control_plane_id p) a)"
proof -
  obtain d where d: "new_decision (clock e 2) (hex12 e 1) (hex12 e 2) p (cl_lease_epoch a) ''rejected''
      ''conflict_active_committed_lease_owned_by_other_control_plane'' (cl_lease_expires_at a) = Inr d"
    "decision_create d db = Inr (db\<lparr>sd_decisions := sd_decisions db @ [d]\<rparr>)"
    using decision_step [OF fresh a p(2,1), of "clock e 2" "''rejected''"
        "''conflict_active_committed_lease_owned_by_other_control_plane''" "cl_lease_expires_at a"] by blast
  show ?thesis
    by (simp add: local_reject_conflict_def d Let_def proposal_update_status_def del: One_nat_def)
qed

lemma local_submit_returns:
  assumes ok: "ledger_ok (sd_leases db)" and own: "rq_control_plane_id rq = ac_node_id cfg"
    and rq: "rq_requested_lease_seconds rq \<ge> 1" "rq_requested_epoch rq \<ge> 1" "rq_run_id rq \<in> set (sd_runs db)"
    and fresh: "local_ids_fresh e db"
  shows "\<exists>res db'. local_submit_proposal cfg e rq db = Inr (res, db')
     \<and> (case active_committed_lease_for_domain (rq_domain_kind rq) (rq_domain_key rq) (clock e 0) db of
          None \<Rightarrow> sr_granted res
        | Some a \<Rightarrow> if cl_control_plane_id a = rq_control_plane_id rq then sr_granted res
            else \<not> sr_granted res \<and> sd_leases db' = sd_leases db
                 \<and> sr_conflict res = Some (conflict_with (rq_control_plane_id rq) a))"
proof -
  let ?dk = "rq_domain_kind rq" and ?key = "rq_domain_key rq"
  obtain p where p: "new_proposal (clock e 1) (hex12 e 0) rq = Inr p" "pr_proposal_id p = new_id ''proposal'' (hex12 e 0)"
    "pr_run_id p = rq_run_id rq"
    using rq by (simp add: new_proposal_def)
  note pd = new_proposalD [OF p(1)]
  let ?db1 = "db\<lparr>sd_proposals := sd_proposals db @ [p]\<rparr>"
  let ?l = "latest_committed_lease_for_domain ?dk ?key ?db1"
  have c: "proposal_create p db = Inr ?db1"
    using rq fresh p by (simp add: proposal_create_def local_ids_fresh_def sql_insert_def)
  have act: "active_committed_lease_for_domain ?dk ?key (clock e 0) ?db1 = active_committed_lease_for_domain ?dk ?key (clock e 0) db"
    by (simp add: active_committed_lease_for_domain_def)
  show ?thesis
  proof (cases "active_committed_lease_for_domain ?dk ?key (clock e 0) db")
    case None
    have "\<exists>res db'. local_grant cfg e (clock e 0) p ?l ?db1 = Inr (res, db') \<and> sr_granted res"
      by (rule local_grant_returns) (use fresh p pd rq ok in \<open>simp_all add: local_ids_fresh_def lease_ids_fresh_def\<close>)
    then show ?thesis
      using own None act c p(1) by (simp add: local_submit_proposal_def Let_def del: One_nat_def)
  next
    case (Some a)
    have row: "cl_lease_epoch a \<ge> 1"
      using active_SomeD(1) [OF Some] ok by (simp add: ledger_ok_def lease_row_ok_def)
    show ?thesis
    proof (cases "cl_control_plane_id a = rq_control_plane_id rq")
      case True
      then show ?thesis
        using own Some act c p(1)
        by (simp add: local_submit_proposal_def Let_def local_accept_existing_def proposal_update_status_def del: One_nat_def)
    next
      case False
      have "\<exists>res db'. local_reject_conflict cfg e (clock e 0) p a ?l ?db1 = Inr (res, db') \<and> \<not> sr_granted res
          \<and> sd_leases db' = sd_leases ?db1 \<and> sr_conflict res = Some (conflict_with (pr_control_plane_id p) a)"
        by (rule local_reject_returns) (use fresh p pd rq row in \<open>simp_all add: local_ids_fresh_def lease_ids_fresh_def\<close>)
      then show ?thesis
        using own Some False act c p(1) pd(1) by (simp add: local_submit_proposal_def Let_def del: One_nat_def)
    qed
  qed
qed

end
