(* ===== verification/Quorum_Authority.thy ===== *)
theory Quorum_Authority
  imports Local_Arbiter
begin

section \<open>The quorum scheduler authority\<close>

text \<open>
  \<open>SchedulerAuthorityClusterService\<close> of \<^verbatim>\<open>packages/core_domain/scheduler_authority.py\<close>: node
  heartbeats, leader terms, votes, and lease submissions that need a quorum of votes, all in one
  SQLite store. The lease statements it shares with the local arbiter are those of
  \<open>Lease_Ledger\<close>. The
  class \<open>NullSchedulerAuthorityCluster\<close> of the same file repeats the local arbiter's code and is
  not modelled a second time.
\<close>

definition quorum_authority_init :: "string \<Rightarrow> string \<Rightarrow> int \<Rightarrow> int \<Rightarrow> int \<Rightarrow> arbiter_cfg" where
  "quorum_authority_init node_id bind_url quorum election heartbeat =
     \<lparr>ac_node_id = node_id, ac_bind_url = bind_url, ac_quorum_size = max quorum 0,
      ac_election_timeout_ms = max election 1, ac_heartbeat_interval_ms = max heartbeat 1\<rparr>"

subsection \<open>Nodes\<close>

definition effective_quorum_size :: "arbiter_cfg \<Rightarrow> nat \<Rightarrow> int" where
  "effective_quorum_size cfg active_count =
     (if ac_quorum_size cfg > 0 then ac_quorum_size cfg else max 1 (int active_count div 2 + 1))"

definition active_node_threshold :: "arbiter_cfg \<Rightarrow> time \<Rightarrow> time" where
  "active_node_threshold cfg reference = reference - milliseconds (ac_election_timeout_ms cfg)"

definition upsert_node ::
  "env \<Rightarrow> string \<Rightarrow> string \<Rightarrow> string \<Rightarrow> string \<Rightarrow> time \<Rightarrow> sched_db \<Rightarrow> authority_node \<times> sched_db" where
  "upsert_node e nid url status role observed db =
     (case sql_first (\<lambda>n. an_node_id n = nid) (sd_nodes db) of
        None \<Rightarrow>
          let n = \<lparr>an_node_id = nid, an_bind_url = url, an_status = status, an_role = role,
                   an_last_heartbeat_at = observed, an_created_at = clock e 0, an_updated_at = clock e 0\<rparr>
          in (n, db\<lparr>sd_nodes := sd_nodes db @ [n]\<rparr>)
      | Some n \<Rightarrow>
          let upd = (\<lambda>q. q\<lparr>an_bind_url := url, an_status := status, an_role := role,
                           an_last_heartbeat_at := observed, an_updated_at := clock e 0\<rparr>)
          in ((upd n)\<lparr>an_updated_at := an_updated_at n\<rparr>, db\<lparr>sd_nodes := sql_update (\<lambda>q. an_node_id q = nid) upd (sd_nodes db)\<rparr>))"

definition list_nodes :: "sched_db \<Rightarrow> authority_node list" where
  "list_nodes db = sql_order an_node_id (sd_nodes db)"

definition active_nodes :: "arbiter_cfg \<Rightarrow> time \<Rightarrow> sched_db \<Rightarrow> authority_node list" where
  "active_nodes cfg now db =
     sql_order an_node_id
       (sql_where (\<lambda>n. an_status n = ''active'' \<and> an_last_heartbeat_at n \<ge> active_node_threshold cfg now)
          (sd_nodes db))"

subsection \<open>Terms\<close>

definition latest_authority_term :: "sched_db \<Rightarrow> consensus_term option" where
  "latest_authority_term db = top_by tm_term_no (sd_terms db)"

definition active_authority_term :: "sched_db \<Rightarrow> consensus_term option" where
  "active_authority_term db = top_by tm_term_no (sql_where (\<lambda>t. tm_status t = ''active'') (sd_terms db))"

definition close_authority_term :: "time \<Rightarrow> consensus_term \<Rightarrow> string \<Rightarrow> sched_db \<Rightarrow> consensus_term \<times> sched_db" where
  "close_authority_term closed_at t reason db =
     (let upd = (\<lambda>q. q\<lparr>tm_status := ''closed'', tm_closed_at := Some closed_at, tm_close_reason := Some reason\<rparr>)
      in (upd t, db\<lparr>sd_terms := sql_update (\<lambda>q. tm_term_id q = tm_term_id t) upd (sd_terms db)\<rparr>))"

definition open_authority_term ::
  "env \<Rightarrow> int \<Rightarrow> string \<Rightarrow> int \<Rightarrow> sched_db \<Rightarrow> werror + consensus_term \<times> sched_db" where
  "open_authority_term e term_no leader quorum db =
     rbind (rguard (term_no \<ge> 1 \<and> quorum \<ge> 1) (ValidationError ''SchedulerConsensusTerm'')) (\<lambda>_.
       let t = \<lparr>tm_term_id = new_id ''term'' (hex12 e 0), tm_term_no = term_no,
                tm_leader_node_id = leader, tm_quorum_size = quorum, tm_commit_index = 0,
                tm_status = ''active'', tm_started_at = clock e 1, tm_last_heartbeat_at = clock e 2,
                tm_closed_at = None, tm_close_reason = None, tm_created_at = clock e 0\<rparr>
       in rbind (sql_insert ''scheduler_consensus_terms''
                   (tm_term_id t \<notin> tm_term_id ` set (sd_terms db)
                    \<and> tm_term_no t \<notin> tm_term_no ` set (sd_terms db)) t (sd_terms db))
            (\<lambda>rows. Inr (t, db\<lparr>sd_terms := rows\<rparr>)))"

definition desired_leader :: "arbiter_cfg \<Rightarrow> authority_node list \<Rightarrow> string" where
  "desired_leader cfg active =
     (case sort (map an_node_id active) of [] \<Rightarrow> ac_node_id cfg | i # _ \<Rightarrow> i)"

definition ensure_active_term ::
  "arbiter_cfg \<Rightarrow> env \<Rightarrow> time \<Rightarrow> sched_db \<Rightarrow> werror + consensus_term \<times> sched_db" where
  "ensure_active_term cfg e observed db0 =
     (let db = snd (upsert_node e (ac_node_id cfg) (ac_bind_url cfg) ''active'' ''peer'' observed db0);
          active = active_nodes cfg observed db;
          leader = desired_leader cfg active;
          quorum = effective_quorum_size cfg (length active);
          current = active_authority_term db;
          rotate = (\<lambda>_::unit.
            let latest = (case current of Some t \<Rightarrow> Some t | None \<Rightarrow> latest_authority_term db);
                db' = (case current of
                         Some t \<Rightarrow> snd (close_authority_term (clock e 1) t ''leader_rotated_or_expired'' db)
                       | None \<Rightarrow> db);
                next_no = (case latest of Some t \<Rightarrow> tm_term_no t + 1 | None \<Rightarrow> 1)
            in open_authority_term (env_from 2 e) next_no leader quorum db')
      in case current of
           Some t \<Rightarrow>
             if tm_leader_node_id t = leader
             then let upd = (\<lambda>q. q\<lparr>tm_quorum_size := quorum, tm_last_heartbeat_at := observed\<rparr>)
                  in Inr (upd t, db\<lparr>sd_terms := sql_update (\<lambda>q. tm_term_id q = tm_term_id t) upd (sd_terms db)\<rparr>)
             else rotate ()
         | None \<Rightarrow> rotate ())"

definition quorum_cluster_snapshot :: "arbiter_cfg \<Rightarrow> consensus_term option \<Rightarrow> time \<Rightarrow> sched_db \<Rightarrow> cluster_view" where
  "quorum_cluster_snapshot cfg current_term observed db =
     (let nodes = list_nodes db;
          active_ids = set (map an_node_id (active_nodes cfg observed db));
          term = (case current_term of Some t \<Rightarrow> Some t | None \<Rightarrow>
                   (case active_authority_term db of Some t \<Rightarrow> Some t | None \<Rightarrow> latest_authority_term db))
      in \<lparr>cv_enabled = True, cv_mode = ''quorum'', cv_authority_mode = ''single_store_quorum'',
          cv_node_count = length nodes, cv_active_node_count = card active_ids,
          cv_quorum_size = (case term of Some t \<Rightarrow> tm_quorum_size t
             | None \<Rightarrow> effective_quorum_size cfg (if card active_ids = 0 then 1 else card active_ids)),
          cv_leader_node_id = map_option tm_leader_node_id term,
          cv_authority_node_id = map_option tm_leader_node_id term,
          cv_term_no = map_option tm_term_no term, cv_authority_term_no = map_option tm_term_no term,
          cv_commit_index = (case term of Some t \<Rightarrow> tm_commit_index t | None \<Rightarrow> 0),
          cv_decision_index = (case term of Some t \<Rightarrow> tm_commit_index t | None \<Rightarrow> 0),
          cv_nodes = map (\<lambda>n. (n, an_node_id n \<in> active_ids)) nodes\<rparr>)"

definition quorum_heartbeat_node ::
  "arbiter_cfg \<Rightarrow> env \<Rightarrow> string option \<Rightarrow> string option \<Rightarrow> string \<Rightarrow> string \<Rightarrow> time option \<Rightarrow> sched_db
   \<Rightarrow> werror + (authority_node \<times> cluster_view) \<times> sched_db" where
  "quorum_heartbeat_node cfg e nid url status role observed_at db =
     (let at = (case observed_at of Some t \<Rightarrow> t | None \<Rightarrow> clock e 0);
          (node, db1) = upsert_node (env_from 1 e) (str_or nid (ac_node_id cfg))
                          (str_or url (ac_bind_url cfg)) status role at db
      in rbind (ensure_active_term cfg (env_from 2 e) at db1) (\<lambda>(term, db2).
           Inr ((node, quorum_cluster_snapshot cfg (Some term) at db2), db2)))"

subsection \<open>Votes\<close>

definition create_vote ::
  "env \<Rightarrow> string \<Rightarrow> int \<Rightarrow> string \<Rightarrow> string \<Rightarrow> string \<Rightarrow> sched_db \<Rightarrow> werror + vote_record \<times> sched_db" where
  "create_vote e pid term_no voter vote reason db =
     (case sql_first (\<lambda>v. vt_proposal_id v = pid \<and> vt_voter_node_id v = voter) (sd_votes db) of
        Some v \<Rightarrow> Inr (v, db)
      | None \<Rightarrow>
          rbind (rguard (term_no \<ge> 1) (ValidationError ''SchedulerVoteRecord'')) (\<lambda>_.
            let v = \<lparr>vt_vote_id = new_id ''vote'' (hex12 e 0), vt_proposal_id = pid, vt_term_no = term_no,
                     vt_voter_node_id = voter, vt_vote = vote, vt_reason = reason, vt_created_at = clock e 0\<rparr>
            in rbind (sql_insert ''scheduler_vote_records''
                        (vt_vote_id v \<notin> vt_vote_id ` set (sd_votes db)) v (sd_votes db))
                 (\<lambda>rows. Inr (v, db\<lparr>sd_votes := rows\<rparr>))))"

definition votes_for_proposal :: "string \<Rightarrow> sched_db \<Rightarrow> vote_record list" where
  "votes_for_proposal pid db =
     sql_order (\<lambda>v. (vt_created_at v, vt_vote_id v)) (sql_where (\<lambda>v. vt_proposal_id v = pid) (sd_votes db))"

text \<open>The loop of \<open>_submit_proposal\<close> that records a granting vote for every active node.\<close>

fun collect_votes :: "env \<Rightarrow> string \<Rightarrow> int \<Rightarrow> authority_node list \<Rightarrow> sched_db \<Rightarrow> werror + sched_db" where
  "collect_votes e pid term_no [] db = Inr db"
| "collect_votes e pid term_no (n # ns) db =
     rbind (create_vote e pid term_no (an_node_id n) ''granted'' ''leader_collected_peer_vote'' db)
       (\<lambda>(_, db'). collect_votes (env_from 1 e) pid term_no ns db')"

definition record_vote ::
  "arbiter_cfg \<Rightarrow> env \<Rightarrow> string \<Rightarrow> string \<Rightarrow> string \<Rightarrow> string \<Rightarrow> sched_db
   \<Rightarrow> werror + (lease_proposal \<times> vote_record \<times> vote_record list \<times> cluster_view) \<times> sched_db" where
  "record_vote cfg e pid voter vote reason db =
     (case proposal_get pid db of
        None \<Rightarrow> Inl (EntityNotFoundError ''scheduler_proposal'' pid)
      | Some p \<Rightarrow>
          rbind (ensure_active_term cfg (env_from 1 e) (clock e 0) db) (\<lambda>(term, db1).
            let (node, db2) = upsert_node (env_from 10 e) voter (''internal://'' @ voter) ''active'' ''peer''
                                (clock e 10) db1
            in rbind (create_vote (env_from 20 e) pid (tm_term_no term) (an_node_id node) vote reason db2)
                 (\<lambda>(v, db3). Inr ((p, v, votes_for_proposal pid db3,
                     quorum_cluster_snapshot cfg (Some term) (clock e 30) db3), db3))))"

subsection \<open>Submitting a proposal\<close>

definition create_committed_lease ::
  "env \<Rightarrow> lease_proposal \<Rightarrow> lease_decision \<Rightarrow> consensus_term \<Rightarrow> int \<Rightarrow> int \<Rightarrow> sched_db
   \<Rightarrow> werror + committed_lease \<times> sched_db" where
  "create_committed_lease e p d t index epoch db =
     rbind (new_committed (clock e 0) (hex12 e 0) (hex12 e 1) p d (tm_term_no t) index epoch) (\<lambda>l.
     rbind (insert_committed_lease l db) (\<lambda>db1.
       Inr (l, db1\<lparr>sd_terms := sql_update (\<lambda>q. tm_term_id q = tm_term_id t)
                    (\<lambda>q. q\<lparr>tm_commit_index := index, tm_last_heartbeat_at := clock e 1\<rparr>) (sd_terms db1)\<rparr>)))"

text \<open>A rejection: the decision is recorded, the proposal becomes \<open>rejected\<close>, nothing is committed.\<close>

definition quorum_reject ::
  "arbiter_cfg \<Rightarrow> env \<Rightarrow> time \<Rightarrow> lease_proposal \<Rightarrow> int \<Rightarrow> string \<Rightarrow> time \<Rightarrow> consensus_term
   \<Rightarrow> lease_conflict option \<Rightarrow> vote_record list \<Rightarrow> bool \<Rightarrow> committed_lease option \<Rightarrow> sched_db
   \<Rightarrow> werror + submit_result \<times> sched_db" where
  "quorum_reject cfg e now p epoch reason expires term conflict votes stale latest db =
     rbind (new_decision (clock e 0) (hex12 e 0) (hex12 e 1) p epoch ''rejected'' reason expires) (\<lambda>d.
     rbind (decision_create d db) (\<lambda>db1.
       let (updated, db2) = proposal_update_status (pr_proposal_id p) ''rejected'' db1
       in Inr (\<lparr>sr_proposal = Some (case updated of Some q \<Rightarrow> q | None \<Rightarrow> p),
                sr_decision = Some d, sr_committed_lease = None,
                sr_duplicate = False, sr_granted = False, sr_conflict = conflict, sr_votes = votes,
                sr_term = authority_term_payload term,
                sr_cluster = quorum_cluster_snapshot cfg (Some term) now db2,
                sr_stale_leader = stale, sr_reason = None,
                sr_previous_committed_lease = map_option committed_lease_payload latest\<rparr>, db2)))"

definition quorum_accept_existing ::
  "arbiter_cfg \<Rightarrow> time \<Rightarrow> lease_proposal \<Rightarrow> committed_lease \<Rightarrow> consensus_term \<Rightarrow> committed_lease option \<Rightarrow> sched_db
   \<Rightarrow> submit_result \<times> sched_db" where
  "quorum_accept_existing cfg now p active term latest db =
     (let (updated, db') = proposal_update_status (pr_proposal_id p) ''accepted_existing'' db;
          p' = (case updated of Some q \<Rightarrow> q | None \<Rightarrow> p)
      in (\<lparr>sr_proposal = Some p', sr_decision = decision_get (cl_lease_id active) db,
           sr_committed_lease = Some (committed_lease_payload active),
           sr_duplicate = True, sr_granted = True, sr_conflict = None,
           sr_votes = votes_for_proposal (pr_proposal_id p') db',
           sr_term = authority_term_payload term,
           sr_cluster = quorum_cluster_snapshot cfg (Some term) now db',
           sr_stale_leader = False, sr_reason = None,
           sr_previous_committed_lease = map_option committed_lease_payload latest\<rparr>, db'))"

definition quorum_grant ::
  "arbiter_cfg \<Rightarrow> env \<Rightarrow> time \<Rightarrow> lease_proposal \<Rightarrow> consensus_term \<Rightarrow> vote_record list \<Rightarrow> committed_lease option \<Rightarrow> sched_db
   \<Rightarrow> werror + submit_result \<times> sched_db" where
  "quorum_grant cfg e now p term votes latest0 db0 =
     (let (latest, db) = release_expired_before_regrant (clock e 0) now latest0 db0;
          epoch = granted_epoch (pr_requested_epoch p) latest
      in
     rbind (new_decision (clock e 1) (hex12 e 0) (hex12 e 1) p epoch ''granted'' ''quorum_committed''
              (now + seconds (pr_requested_lease_seconds p))) (\<lambda>d.
     rbind (decision_create d db) (\<lambda>db1.
       let index = next_commit_index db1 in
     rbind (create_committed_lease (env_from 2 e) p d term index epoch db1) (\<lambda>(l, db2).
       let (updated, db3) = proposal_update_status (pr_proposal_id p) ''granted'' db2;
           granted_term = term\<lparr>tm_commit_index := index\<rparr>
       in Inr (\<lparr>sr_proposal = Some (case updated of Some q \<Rightarrow> q | None \<Rightarrow> p),
                sr_decision = Some d, sr_committed_lease = Some (committed_lease_payload l),
                sr_duplicate = False, sr_granted = True, sr_conflict = None, sr_votes = votes,
                sr_term = authority_term_payload granted_term,
                sr_cluster = quorum_cluster_snapshot cfg (Some granted_term) now db3,
                sr_stale_leader = False, sr_reason = None,
                sr_previous_committed_lease = map_option committed_lease_payload latest\<rparr>, db3)))))"

text \<open>The vote on a free domain.\<close>

definition quorum_vote_and_grant ::
  "arbiter_cfg \<Rightarrow> env \<Rightarrow> time \<Rightarrow> lease_proposal \<Rightarrow> consensus_term \<Rightarrow> committed_lease option \<Rightarrow> sched_db
   \<Rightarrow> werror + submit_result \<times> sched_db" where
  "quorum_vote_and_grant cfg e now p term latest db =
     (let voters = active_nodes cfg now db in
     rbind (collect_votes e (pr_proposal_id p) (tm_term_no term) voters db) (\<lambda>db1.
       let votes = votes_for_proposal (pr_proposal_id p) db1;
           granted = filter (\<lambda>v. vt_vote v = ''granted'') votes;
           e' = env_from (length voters) e
       in if int (length granted) < tm_quorum_size term
          then quorum_reject cfg e' now p (granted_epoch (pr_requested_epoch p) latest) ''quorum_unavailable'' now
                 term None votes False latest db1
          else quorum_grant cfg e' now p term votes latest db1))"

text \<open>The node the submission names (by default the term's leader) is registered as active first.\<close>

definition quorum_resolve_authority ::
  "arbiter_cfg \<Rightarrow> env \<Rightarrow> time \<Rightarrow> submit_request \<Rightarrow> sched_db \<Rightarrow> werror + (string \<times> consensus_term) \<times> sched_db" where
  "quorum_resolve_authority cfg e now rq db0 =
     (let db = snd (upsert_node e (ac_node_id cfg) (ac_bind_url cfg) ''active'' ''peer'' now db0) in
     rbind (ensure_active_term cfg (env_from 1 e) now db) (\<lambda>(term, db1).
       let aid = str_or (rq_authority_node_id rq) (tm_leader_node_id term);
           url = str_or (rq_authority_bind_url rq)
                   (if aid = ac_node_id cfg then ac_bind_url cfg else ''internal://'' @ aid)
       in if aid \<noteq> ac_node_id cfg
          then let db2 = snd (upsert_node (env_from 10 e) aid url ''active'' ''peer'' now db1)
               in rbind (ensure_active_term cfg (env_from 11 e) now db2) (\<lambda>(term', db3). Inr ((aid, term'), db3))
          else Inr ((aid, term), db1)))"

text \<open>The outcome for a proposal just recorded.\<close>

definition quorum_decide ::
  "arbiter_cfg \<Rightarrow> env \<Rightarrow> time \<Rightarrow> submit_request \<Rightarrow> string \<Rightarrow> consensus_term \<Rightarrow> lease_proposal \<Rightarrow> sched_db
   \<Rightarrow> werror + submit_result \<times> sched_db" where
  "quorum_decide cfg e now rq aid term p db =
     (let active = active_committed_lease_for_domain (rq_domain_kind rq) (rq_domain_key rq) now db;
          latest = latest_committed_lease_for_domain (rq_domain_kind rq) (rq_domain_key rq) db
      in case active of
           Some a \<Rightarrow>
             if cl_control_plane_id a = rq_control_plane_id rq
             then Inr (quorum_accept_existing cfg now p a term latest db)
             else quorum_reject cfg e now p (cl_lease_epoch a)
                    ''conflict_active_committed_lease_owned_by_other_control_plane'' (cl_lease_expires_at a)
                    term (Some (conflict_with (rq_control_plane_id rq) a)) [] False latest db
         | None \<Rightarrow>
             if aid \<noteq> tm_leader_node_id term
             then quorum_reject cfg e now p (granted_epoch (pr_requested_epoch p) latest)
                    ''stale_leader_or_non_leader_authority_node'' now term None [] True latest db
             else quorum_vote_and_grant cfg e now p term latest db)"

definition quorum_submit_proposal ::
  "arbiter_cfg \<Rightarrow> env \<Rightarrow> submit_request \<Rightarrow> sched_db \<Rightarrow> werror + submit_result \<times> sched_db" where
  "quorum_submit_proposal cfg e rq db0 =
     (let now = clock e 0 in
     rbind (quorum_resolve_authority cfg (env_from 1 e) now rq db0) (\<lambda>((aid, term), db1).
     rbind (new_proposal (clock e 40) (hex12 e 40) rq) (\<lambda>p.
     rbind (proposal_create p db1) (\<lambda>db2.
       quorum_decide cfg (env_from 41 e) now rq aid term p db2))))"

subsection \<open>Releasing and reading a lease\<close>

definition quorum_release_lease ::
  "arbiter_cfg \<Rightarrow> env \<Rightarrow> string \<Rightarrow> string \<Rightarrow> sched_db \<Rightarrow> werror + release_result \<times> sched_db" where
  "quorum_release_lease cfg e lid reason db =
     (case get_committed_lease_by_lease_id lid db of
        None \<Rightarrow> Inl (EntityNotFoundError ''scheduler_committed_lease'' lid)
      | Some l0 \<Rightarrow>
          (let (l, db1) = release_committed_lease (clock e 0) reason l0 db;
               (d, db2) = decision_release lid (clock e 1) reason db1
           in Inr (\<lparr>rr_committed_lease = committed_lease_payload l, rr_decision = d,
                    rr_cluster = quorum_cluster_snapshot cfg None (clock e 2) db2\<rparr>, db2)))"

definition quorum_get_lease :: "arbiter_cfg \<Rightarrow> env \<Rightarrow> string \<Rightarrow> sched_db \<Rightarrow> werror + lease_view" where
  "quorum_get_lease cfg e lid db =
     (case get_committed_lease_by_lease_id lid db of
        None \<Rightarrow> Inl (EntityNotFoundError ''scheduler_committed_lease'' lid)
      | Some l \<Rightarrow>
          Inr \<lparr>lv_lease_id = lid, lv_proposal = proposal_get (cl_proposal_id l) db,
               lv_decision = decision_get lid db,
               lv_committed_lease = committed_lease_payload l,
               lv_votes = votes_for_proposal (cl_proposal_id l) db,
               lv_cluster = quorum_cluster_snapshot cfg None (clock e 0) db,
               lv_active = (cl_status l = ''active'' \<and> cl_released_at l = None \<and> cl_lease_expires_at l > clock e 1),
               lv_expired = (cl_lease_expires_at l \<le> clock e 2)\<rparr>)"

subsection \<open>What each step leaves alone\<close>

text \<open>Heartbeats and term rotation touch the tables of nodes and terms only.\<close>

definition same_but_cluster :: "sched_db \<Rightarrow> sched_db \<Rightarrow> bool" where
  "same_but_cluster db db' \<longleftrightarrow>
     sd_runs db' = sd_runs db \<and> sd_votes db' = sd_votes db \<and> sd_leases db' = sd_leases db
     \<and> sd_proposals db' = sd_proposals db \<and> sd_decisions db' = sd_decisions db
     \<and> sd_heartbeats db' = sd_heartbeats db \<and> sd_handoffs db' = sd_handoffs db"

lemma same_but_cluster_refl [simp]: "same_but_cluster db db"
  by (simp add: same_but_cluster_def)

lemma same_but_cluster_trans:
  "same_but_cluster db1 db2 \<Longrightarrow> same_but_cluster db2 db3 \<Longrightarrow> same_but_cluster db1 db3"
  by (simp add: same_but_cluster_def)

lemma upsert_node_frame:
  "same_but_cluster db (snd (upsert_node e nid url st role obs db))"
  "sd_terms (snd (upsert_node e nid url st role obs db)) = sd_terms db"
  by (auto simp: upsert_node_def same_but_cluster_def Let_def split: option.splits)

lemma open_authority_termD:
  assumes "open_authority_term e no leader quorum db = Inr (t, db')"
  shows "db' = db\<lparr>sd_terms := sd_terms db @ [t]\<rparr>" and "tm_term_no t = no" and "tm_leader_node_id t = leader"
    and "tm_quorum_size t = quorum" and "tm_status t = ''active''" and "tm_closed_at t = None"
    and "no \<ge> 1" and "quorum \<ge> 1"
    and "tm_term_id t \<notin> tm_term_id ` set (sd_terms db)" and "no \<notin> tm_term_no ` set (sd_terms db)"
  using assms by (auto simp: open_authority_term_def Let_def result_simps)

lemma ensure_active_term_frame:
  "ensure_active_term cfg e obs db = Inr (t, db') \<Longrightarrow> same_but_cluster db db'"
  using upsert_node_frame(1) [of db e "ac_node_id cfg" "ac_bind_url cfg" "''active''" "''peer''" obs]
  by (auto simp: ensure_active_term_def close_authority_term_def Let_def same_but_cluster_def
      split: option.splits if_splits dest!: open_authority_termD(1))

lemma create_vote_frame:
  "create_vote e pid no voter vote reason db = Inr (v, db') \<Longrightarrow> \<exists>rows. db' = db\<lparr>sd_votes := sd_votes db @ rows\<rparr>"
  by (auto simp: create_vote_def Let_def result_simps split: option.splits intro: exI [of _ "[]"])

lemma collect_votes_frame:
  "collect_votes e pid no ns db = Inr db' \<Longrightarrow> \<exists>rows. db' = db\<lparr>sd_votes := sd_votes db @ rows\<rparr>"
proof (induction ns arbitrary: e db)
  case (Cons n ns)
  then obtain v db1 where one: "create_vote e pid no (an_node_id n) ''granted'' ''leader_collected_peer_vote'' db = Inr (v, db1)"
    and rest: "collect_votes (env_from 1 e) pid no ns db1 = Inr db'"
    by (auto simp: result_simps)
  show ?case
    using create_vote_frame [OF one] Cons.IH [OF rest] by auto
qed (auto intro: exI [of _ "[]"])

lemma quorum_resolveD:
  assumes "quorum_resolve_authority cfg e now rq db = Inr ((aid, t), db')"
  obtains (own) "ensure_active_term cfg (env_from 1 e) now
        (snd (upsert_node e (ac_node_id cfg) (ac_bind_url cfg) ''active'' ''peer'' now db)) = Inr (t, db')"
      "aid = ac_node_id cfg"
    | (other) t1 db1 url where "ensure_active_term cfg (env_from 1 e) now
        (snd (upsert_node e (ac_node_id cfg) (ac_bind_url cfg) ''active'' ''peer'' now db)) = Inr (t1, db1)"
      "ensure_active_term cfg (env_from 11 e) now
        (snd (upsert_node (env_from 10 e) aid url ''active'' ''peer'' now db1)) = Inr (t, db')"
      "aid \<noteq> ac_node_id cfg"
proof -
  let ?db = "snd (upsert_node e (ac_node_id cfg) (ac_bind_url cfg) ''active'' ''peer'' now db)"
  obtain t1 db1 where one: "ensure_active_term cfg (env_from 1 e) now ?db = Inr (t1, db1)"
    using assms by (auto simp: quorum_resolve_authority_def Let_def rbind_eq_Inr)
  let ?aid = "str_or (rq_authority_node_id rq) (tm_leader_node_id t1)"
  let ?url = "str_or (rq_authority_bind_url rq) (if ?aid = ac_node_id cfg then ac_bind_url cfg else ''internal://'' @ ?aid)"
  show thesis
  proof (cases "?aid = ac_node_id cfg")
    case True
    then show thesis using assms one own by (simp add: quorum_resolve_authority_def Let_def)
  next
    case False
    then have "ensure_active_term cfg (env_from 11 e) now
        (snd (upsert_node (env_from 10 e) ?aid ?url ''active'' ''peer'' now db1)) = Inr (t, db')" and "aid = ?aid"
      using assms one by (auto simp: quorum_resolve_authority_def Let_def rbind_eq_Inr)
    then show thesis using other [OF one] False by metis
  qed
qed

lemma quorum_resolve_frame:
  assumes "quorum_resolve_authority cfg e now rq db = Inr ((aid, t), db')"
  shows "same_but_cluster db db'"
  using assms
proof (cases rule: quorum_resolveD)
  case own
  show ?thesis
    using upsert_node_frame(1) ensure_active_term_frame [OF own(1)] by (rule same_but_cluster_trans)
next
  case (other t1 db1 url)
  have "same_but_cluster db db1"
    using upsert_node_frame(1) ensure_active_term_frame [OF other(1)] by (rule same_but_cluster_trans)
  moreover have "same_but_cluster db1 db'"
    using upsert_node_frame(1) ensure_active_term_frame [OF other(2)] by (rule same_but_cluster_trans)
  ultimately show ?thesis by (rule same_but_cluster_trans)
qed

subsection \<open>The authority keeps the contract\<close>

lemma quorum_rejectD:
  assumes "quorum_reject cfg e now p epoch reason expires term conflict votes stale latest db = Inr (res, db')"
  shows "sr_committed_lease res = None" and "\<not> sr_granted res" and "\<not> sr_duplicate res" and "sr_stale_leader res = stale"
    and "sd_leases db' = sd_leases db" and "sd_terms db' = sd_terms db" and "sd_votes db' = sd_votes db"
    and "sr_votes res = votes" and "sr_conflict res = conflict"
    and "\<exists>d. sr_decision res = Some d \<and> de_decision d = ''rejected'' \<and> de_reason d = reason \<and> de_lease_epoch d = epoch
           \<and> d \<in> set (sd_decisions db')"
    and "sd_nodes db' = sd_nodes db" and "map pr_proposal_id (sd_proposals db') = map pr_proposal_id (sd_proposals db)"
  using assms new_decisionD(5-7)
  by (auto simp: quorum_reject_def Let_def proposal_update_status_def result_simps sql_update_map dest!: decision_createD)

lemma create_committed_leaseD:
  assumes "create_committed_lease e p d t index epoch db = Inr (l, db')"
  obtains db1 where "new_committed (clock e 0) (hex12 e 0) (hex12 e 1) p d (tm_term_no t) index epoch = Inr l"
    and "insert_committed_lease l db = Inr db1" and "sd_leases db' = sd_leases db1"
    and "sd_terms db' = sql_update (\<lambda>q. tm_term_id q = tm_term_id t)
           (\<lambda>q. q\<lparr>tm_commit_index := index, tm_last_heartbeat_at := clock e 1\<rparr>) (sd_terms db)"
    and "sd_votes db' = sd_votes db" and "sd_nodes db' = sd_nodes db" and "sd_proposals db' = sd_proposals db"
proof -
  obtain db1 where one: "new_committed (clock e 0) (hex12 e 0) (hex12 e 1) p d (tm_term_no t) index epoch = Inr l"
    "insert_committed_lease l db = Inr db1"
    and db': "db' = db1\<lparr>sd_terms := sql_update (\<lambda>q. tm_term_id q = tm_term_id t)
           (\<lambda>q. q\<lparr>tm_commit_index := index, tm_last_heartbeat_at := clock e 1\<rparr>) (sd_terms db1)\<rparr>"
    using assms by (auto simp: create_committed_lease_def result_simps)
  show thesis
    using that [OF one] db' insert_committed_leaseD(1) [OF one(2)] by simp
qed

lemma release_expired_other_tables:
  "sd_terms (snd (release_expired_before_regrant rt now latest db)) = sd_terms db"
  "sd_votes (snd (release_expired_before_regrant rt now latest db)) = sd_votes db"
  "sd_nodes (snd (release_expired_before_regrant rt now latest db)) = sd_nodes db"
  "sd_proposals (snd (release_expired_before_regrant rt now latest db)) = sd_proposals db"
  by (auto simp: release_expired_before_regrant_def release_committed_lease_def decision_release_def Let_def
      split: option.splits)

lemma quorum_grant_effect:
  assumes g: "quorum_grant cfg e now p term votes (latest_committed_lease_for_domain dk key db0) db0 = Inr (res, db')"
    and ok: "ledger_ok (sd_leases db0)" and none: "active_committed_lease_for_domain dk key now db0 = None"
    and pd: "pr_domain_kind p = dk" "pr_domain_key p = key" "pr_requested_lease_seconds p \<ge> 1"
  obtains l where "sr_committed_lease res = Some (committed_lease_payload l)" and "sr_granted res" and "\<not> sr_duplicate res"
    and "sr_votes res = votes"
    and "grant_effect dk key (pr_control_plane_id p) now (sd_leases db0) (sd_leases db') l"
    and "cl_term_no l = tm_term_no term" and "sd_votes db' = sd_votes db0"
    and "\<exists>at. sd_terms db' = sql_update (\<lambda>q. tm_term_id q = tm_term_id term)
           (\<lambda>q. q\<lparr>tm_commit_index := cl_commit_index l, tm_last_heartbeat_at := at\<rparr>) (sd_terms db0)"
    and "\<not> sr_stale_leader res" and "sd_nodes db' = sd_nodes db0"
    and "map pr_proposal_id (sd_proposals db') = map pr_proposal_id (sd_proposals db0)"
    and "\<exists>q at. sd_leases db' = sql_update q (mark_released at ''expired_before_regrant'') (sd_leases db0) @ [l]"
proof -
  obtain latest db where rel: "release_expired_before_regrant (clock e 0) now
      (latest_committed_lease_for_domain dk key db0) db0 = (latest, db)"
    by (metis surj_pair)
  note same = release_expired_other_tables [of "clock e 0" now "latest_committed_lease_for_domain dk key db0" db0,
      unfolded rel snd_conv]
  obtain d db1 l db2 where
    d: "new_decision (clock e 1) (hex12 e 0) (hex12 e 1) p (granted_epoch (pr_requested_epoch p) latest) ''granted''
          ''quorum_committed'' (now + seconds (pr_requested_lease_seconds p)) = Inr d"
      "decision_create d db = Inr db1"
    and l: "create_committed_lease (env_from 2 e) p d term (next_commit_index db1)
          (granted_epoch (pr_requested_epoch p) latest) db1 = Inr (l, db2)"
    and res: "sr_committed_lease res = Some (committed_lease_payload l)" "sr_granted res" "\<not> sr_duplicate res"
      "sr_votes res = votes" "\<not> sr_stale_leader res"
    and db': "db' = snd (proposal_update_status (pr_proposal_id p) ''granted'' db2)"
    using g by (fastforce simp: quorum_grant_def rel Let_def result_simps proposal_update_status_def)
  from l obtain db1' where
    c: "new_committed (clock (env_from 2 e) 0) (hex12 (env_from 2 e) 0) (hex12 (env_from 2 e) 1) p d (tm_term_no term)
          (next_commit_index db1) (granted_epoch (pr_requested_epoch p) latest) = Inr l"
    and ins: "insert_committed_lease l db1 = Inr db1'"
    and eq: "sd_leases db2 = sd_leases db1'" "sd_votes db2 = sd_votes db1" "sd_nodes db2 = sd_nodes db1"
      "sd_proposals db2 = sd_proposals db1"
      "sd_terms db2 = sql_update (\<lambda>q. tm_term_id q = tm_term_id term)
           (\<lambda>q. q\<lparr>tm_commit_index := next_commit_index db1, tm_last_heartbeat_at := clock (env_from 2 e) 1\<rparr>) (sd_terms db1)"
    by (rule create_committed_leaseD)
  have keep: "sd_leases db' = sd_leases db2" "sd_terms db' = sd_terms db2" "sd_votes db' = sd_votes db2"
    "sd_nodes db' = sd_nodes db2" "map pr_proposal_id (sd_proposals db') = map pr_proposal_id (sd_proposals db2)"
    by (simp_all add: db' proposal_update_status_def Let_def sql_update_map)
  obtain q where upd: "sd_leases db = sql_update q (mark_released (clock e 0) ''expired_before_regrant'') (sd_leases db0)"
    using release_expired_leases [of "clock e 0" now "latest_committed_lease_for_domain dk key db0" db0] rel by auto
  note dd = new_decisionD [OF d(1)] and dc = decision_createD [OF d(2)] and ld = new_committedD [OF c]
  have "grant_effect dk key (pr_control_plane_id p) now (sd_leases db0) (sd_leases db1') l"
    by (rule regrant_effect [OF ok none rel _ c _ _ _ _ ins]) (use dd dc pd in \<open>auto simp: seconds_def\<close>)
  then have eff: "grant_effect dk key (pr_control_plane_id p) now (sd_leases db0) (sd_leases db') l"
    by (simp add: keep eq)
  have "sd_leases db' = sd_leases db @ [l]"
    using insert_committed_leaseD(1) [OF ins] dc by (simp add: keep eq)
  then have app: "\<exists>q at. sd_leases db' = sql_update q (mark_released at ''expired_before_regrant'') (sd_leases db0) @ [l]"
    using upd by auto
  show thesis
    by (rule that [OF res(1-4) eff _ _ _ _ _ _ app]) (use res(5) ld dc keep eq same in \<open>auto intro: exI [of _ "clock (env_from 2 e) 1"]\<close>)
qed

text \<open>The three outcomes of the vote on a free domain share their first step.\<close>

lemma quorum_vote_and_grantD:
  assumes "quorum_vote_and_grant cfg e now p term latest db = Inr (res, db')"
  obtains db1 votes where
    "collect_votes e (pr_proposal_id p) (tm_term_no term) (active_nodes cfg now db) db = Inr db1"
    "votes = votes_for_proposal (pr_proposal_id p) db1"
    "if int (length (filter (\<lambda>v. vt_vote v = ''granted'') votes)) < tm_quorum_size term
     then quorum_reject cfg (env_from (length (active_nodes cfg now db)) e) now p
            (granted_epoch (pr_requested_epoch p) latest) ''quorum_unavailable'' now term None votes False latest db1
            = Inr (res, db')
     else quorum_grant cfg (env_from (length (active_nodes cfg now db)) e) now p term votes latest db1
            = Inr (res, db')"
  using assms by (fastforce simp: quorum_vote_and_grant_def Let_def rbind_eq_Inr split: if_splits)

lemma quorum_submitD:
  assumes "quorum_submit_proposal cfg e rq db0 = Inr (res, db')"
  obtains aid trm db1 p db2 where
    "quorum_resolve_authority cfg (env_from 1 e) (clock e 0) rq db0 = Inr ((aid, trm), db1)"
    "new_proposal (clock e 40) (hex12 e 40) rq = Inr p" "proposal_create p db1 = Inr db2"
    "sd_leases db2 = sd_leases db0" "sd_terms db2 = sd_terms db1" "sd_nodes db2 = sd_nodes db1"
    "sd_votes db2 = sd_votes db0"
    "quorum_decide cfg (env_from 41 e) (clock e 0) rq aid trm p db2 = Inr (res, db')"
proof -
  obtain aid trm db1 p db2 where
    a: "quorum_resolve_authority cfg (env_from 1 e) (clock e 0) rq db0 = Inr ((aid, trm), db1)"
    and b: "new_proposal (clock e 40) (hex12 e 40) rq = Inr p" "proposal_create p db1 = Inr db2"
    and c: "quorum_decide cfg (env_from 41 e) (clock e 0) rq aid trm p db2 = Inr (res, db')"
    using assms by (auto simp: quorum_submit_proposal_def Let_def rbind_eq_Inr)
  note same = quorum_resolve_frame [OF a] proposal_createD [OF b(2)]
  show thesis
    by (rule that [OF a b _ _ _ _ c]) (use same in \<open>simp_all add: same_but_cluster_def\<close>)
qed

lemma quorum_vote_contract:
  assumes v: "quorum_vote_and_grant cfg e now p trm (latest_committed_lease_for_domain dk key db) db = Inr (res, db')"
    and ok: "ledger_ok (sd_leases db)" and none: "active_committed_lease_for_domain dk key now db = None"
    and pd: "pr_domain_kind p = dk" "pr_domain_key p = key" "pr_requested_lease_seconds p \<ge> 1"
  shows "(sr_committed_lease res = None \<and> \<not> sr_granted res \<and> sd_leases db' = sd_leases db)
       \<or> (\<exists>l. sr_committed_lease res = Some (committed_lease_payload l) \<and> sr_granted res \<and> \<not> sr_duplicate res
            \<and> grant_effect dk key (pr_control_plane_id p) now (sd_leases db) (sd_leases db') l)"
proof -
  let ?e = "env_from (length (active_nodes cfg now db)) e"
  from v obtain db1 votes where
    cv: "collect_votes e (pr_proposal_id p) (tm_term_no trm) (active_nodes cfg now db) db = Inr db1"
    and alt: "if int (length (filter (\<lambda>v. vt_vote v = ''granted'') votes)) < tm_quorum_size trm
       then quorum_reject cfg ?e now p
              (granted_epoch (pr_requested_epoch p) (latest_committed_lease_for_domain dk key db)) ''quorum_unavailable''
              now trm None votes False (latest_committed_lease_for_domain dk key db) db1 = Inr (res, db')
       else quorum_grant cfg ?e now p trm votes (latest_committed_lease_for_domain dk key db) db1 = Inr (res, db')"
    by (rule quorum_vote_and_grantD)
  have L1: "sd_leases db1 = sd_leases db"
    using collect_votes_frame [OF cv] by auto
  note frame = ledger_frame [OF L1]
  show ?thesis
  proof (cases "int (length (filter (\<lambda>v. vt_vote v = ''granted'') votes)) < tm_quorum_size trm")
    case True
    with alt show ?thesis using L1 by (auto dest: quorum_rejectD)
  next
    case False
    with alt have "quorum_grant cfg ?e now p trm votes (latest_committed_lease_for_domain dk key db1) db1 = Inr (res, db')"
      by (simp add: frame)
    from quorum_grant_effect [OF this _ _ pd] ok none show ?thesis
      by (metis L1 frame(1))
  qed
qed

lemma quorum_submit_contract:
  assumes ok: "ledger_ok (sd_leases db)" and sub: "quorum_submit_proposal cfg e rq db = Inr (res, db')"
  shows "submit_contract (clock e 0) rq db res db'"
proof -
  let ?now = "clock e 0" and ?dk = "rq_domain_kind rq" and ?key = "rq_domain_key rq"
  from sub obtain aid trm db1 p db2 where p: "new_proposal (clock e 40) (hex12 e 40) rq = Inr p"
    and L2: "sd_leases db2 = sd_leases db"
    and dec: "quorum_decide cfg (env_from 41 e) ?now rq aid trm p db2 = Inr (res, db')"
    by (rule quorum_submitD)
  note pd = new_proposalD [OF p] and frame = ledger_frame [OF L2]
  have refused: ?thesis if "sr_committed_lease res = None" "\<not> sr_granted res" "sd_leases db' = sd_leases db"
    using that by (simp add: submit_contract_def)
  show ?thesis
  proof (cases "active_committed_lease_for_domain ?dk ?key ?now db")
    case (Some a)
    show ?thesis
    proof (cases "cl_control_plane_id a = rq_control_plane_id rq")
      case True
      with dec Some have "quorum_accept_existing cfg ?now p a trm (latest_committed_lease_for_domain ?dk ?key db2) db2 = (res, db')"
        by (simp add: quorum_decide_def frame Let_def)
      then have "sr_committed_lease res = Some (committed_lease_payload a)" "sr_granted res"
        "sr_duplicate res" "sd_leases db' = sd_leases db"
        using L2 by (auto simp: quorum_accept_existing_def Let_def proposal_update_status_def)
      then show ?thesis
        using Some True by (simp add: submit_contract_def committed_lease_payload_def)
    next
      case False
      with dec Some show ?thesis
        using L2 by (intro refused) (auto simp: quorum_decide_def frame Let_def dest: quorum_rejectD)
    qed
  next
    case None
    show ?thesis
    proof (cases "aid = tm_leader_node_id trm")
      case True
      with dec None have "quorum_vote_and_grant cfg (env_from 41 e) ?now p trm
                 (latest_committed_lease_for_domain ?dk ?key db2) db2 = Inr (res, db')"
        by (simp add: quorum_decide_def frame Let_def)
      from quorum_vote_contract [OF this] ok None pd show ?thesis
        by (fastforce simp: L2 frame submit_contract_def committed_lease_payload_def grant_effect_def)
    next
      case False
      with dec None show ?thesis
        using L2 by (intro refused) (auto simp: quorum_decide_def frame Let_def dest: quorum_rejectD)
    qed
  qed
qed

lemma quorum_release_contract:
  assumes ok: "ledger_ok (sd_leases db)" and rel: "quorum_release_lease cfg e lid reason db = Inr (rr, db')"
  shows "release_contract lid reason db db'"
proof -
  obtain l where l: "get_committed_lease_by_lease_id lid db = Some l"
    using rel by (auto simp: quorum_release_lease_def split: option.splits)
  then have mem: "l \<in> set (sd_leases db)" "cl_lease_id l = lid"
    by (auto simp: get_committed_lease_by_lease_id_def dest: sql_first_Some)
  have "sd_leases db' = sql_update (\<lambda>q. cl_committed_lease_id q = cl_committed_lease_id l)
      (mark_released (clock e 0) reason) (sd_leases db)"
    using rel l by (auto simp: quorum_release_lease_def release_committed_lease_def decision_release_def Let_def)
  then show ?thesis
    using release_by_either_key [OF ok mem(1)] mem by (auto simp: release_contract_def)
qed

interpretation quorum_arbiter: lease_authority "quorum_submit_proposal cfg" "quorum_release_lease cfg" for cfg
  by unfold_locales (rule quorum_submit_contract quorum_release_contract; assumption)+

end
