(* ===== verification/Quorum_Terms.thy ===== *)
theory Quorum_Terms
  imports Quorum_Authority
begin

section \<open>Terms, leaders and votes of the quorum authority\<close>

text \<open>
  The invariant \<open>cluster_ok\<close> of the authority's own tables and what every operation of
  \<open>SchedulerAuthorityClusterService\<close> does to it: term numbers are unique, at most one term is
  active and it carries the greatest number, a node votes at most once per proposal, lease terms
  never decrease along the commit order. On it rest the election result (the leader is the least
  active node id), the reachability of the \<open>UNIQUE(term_no)\<close> constraint (never hit) and the meaning
  of the quorum (as many distinct active voters as the term asks for).
\<close>

subsection \<open>The invariant\<close>

definition term_row_ok :: "consensus_term \<Rightarrow> bool" where
  "term_row_ok t \<longleftrightarrow>
     tm_term_no t \<ge> 1 \<and> tm_quorum_size t \<ge> 1
     \<and> (tm_status t = ''active'' \<or> tm_status t = ''closed'') \<and> (tm_status t = ''active'' \<longleftrightarrow> tm_closed_at t = None)"

definition terms_ok :: "consensus_term list \<Rightarrow> bool" where
  "terms_ok ts \<longleftrightarrow>
     distinct (map tm_term_id ts) \<and> distinct (map tm_term_no ts) \<and> (\<forall>t\<in>set ts. term_row_ok t)
     \<and> (\<forall>t\<in>set ts. tm_status t = ''active'' \<longrightarrow> (\<forall>n\<in>tm_term_no ` set ts. n \<le> tm_term_no t))"

definition votes_ok :: "lease_proposal list \<Rightarrow> vote_record list \<Rightarrow> bool" where
  "votes_ok ps vs \<longleftrightarrow>
     distinct (map (\<lambda>v. (vt_proposal_id v, vt_voter_node_id v)) vs)
     \<and> vt_proposal_id ` set vs \<subseteq> pr_proposal_id ` set ps"

definition lease_terms_ok :: "consensus_term list \<Rightarrow> committed_lease list \<Rightarrow> bool" where
  "lease_terms_ok ts ls \<longleftrightarrow>
     (\<forall>l\<in>set ls. \<forall>m\<in>set ls. cl_commit_index l < cl_commit_index m \<longrightarrow> cl_term_no l \<le> cl_term_no m)
     \<and> (\<forall>l\<in>set ls. \<exists>n\<in>tm_term_no ` set ts. cl_term_no l \<le> n)"

definition cluster_ok :: "sched_db \<Rightarrow> bool" where
  "cluster_ok db \<longleftrightarrow>
     distinct (map an_node_id (sd_nodes db)) \<and> terms_ok (sd_terms db)
     \<and> votes_ok (sd_proposals db) (sd_votes db) \<and> lease_terms_ok (sd_terms db) (sd_leases db)
     \<and> ledger_ok (sd_leases db)"

lemma cluster_ok_empty [simp]: "cluster_ok (empty_sched_db runs)"
  by (simp add: cluster_ok_def terms_ok_def votes_ok_def lease_terms_ok_def empty_sched_db_def)

text \<open>Rewriting a row in columns other than its keys keeps the invariant of the terms.\<close>

lemma terms_ok_update:
  assumes ok: "terms_ok ts"
    and keys: "\<And>t. tm_term_id (f t) = tm_term_id t" "\<And>t. tm_term_no (f t) = tm_term_no t"
    and row: "\<And>t. term_row_ok t \<Longrightarrow> p t \<Longrightarrow> term_row_ok (f t)"
    and act: "\<And>t. tm_status (f t) = ''active'' \<Longrightarrow> tm_status t = ''active''"
  shows "terms_ok (sql_update p f ts)"
proof -
  note nos = sql_update_keys [of tm_term_no f, OF keys(2)]
  have "\<forall>t\<in>set (sql_update p f ts). term_row_ok t"
    using ok row by (intro sql_update_all) (auto simp: terms_ok_def)
  moreover have "\<forall>t\<in>set (sql_update p f ts). tm_status t = ''active'' \<longrightarrow> (\<forall>n\<in>tm_term_no ` set ts. n \<le> tm_term_no t)"
    by (rule sql_update_all) (use ok keys act in \<open>auto simp: terms_ok_def\<close>)
  ultimately show ?thesis
    using ok by (simp add: terms_ok_def nos sql_update_map keys)
qed

lemma lease_terms_ok_update:
  "(\<And>t. tm_term_no (f t) = tm_term_no t) \<Longrightarrow>
     lease_terms_ok (sql_update p f ts) ls = lease_terms_ok ts ls"
  unfolding lease_terms_ok_def by (subst sql_update_keys) simp_all

subsection \<open>Leader election\<close>

lemma active_authority_termD:
  assumes "active_authority_term db = Some t"
  shows "t \<in> set (sd_terms db)" and "tm_status t = ''active''"
  using assms by (auto simp: active_authority_term_def dest!: top_by_mem)

lemma latest_authority_termD:
  assumes "latest_authority_term db = Some t"
  shows "t \<in> set (sd_terms db)" and "u \<in> set (sd_terms db) \<Longrightarrow> tm_term_no u \<le> tm_term_no t"
  using assms by (auto simp: latest_authority_term_def dest: top_by_mem top_by_max)

lemma desired_leader_least:
  "active \<noteq> [] \<Longrightarrow> desired_leader cfg active = Min (set (map an_node_id active))"
proof -
  assume "active \<noteq> []"
  then have ne: "map an_node_id active \<noteq> []" by simp
  then obtain i ids where s: "sort (map an_node_id active) = i # ids"
    by (metis list.exhaust sort_key_const set_empty set_sort)
  have "sorted (i # ids)" using s by (metis sorted_sort)
  then have "\<forall>x\<in>set (map an_node_id active). i \<le> x"
    by (metis s set_sort set_ConsD sorted_simps(2) order_refl)
  moreover have "i \<in> set (map an_node_id active)"
    by (metis s set_sort list.set_intros(1))
  ultimately have "Min (set (map an_node_id active)) = i"
    by (intro Min_eqI) auto
  then show ?thesis by (simp add: desired_leader_def s)
qed

lemma effective_quorum_pos: "effective_quorum_size cfg n \<ge> 1"
  by (simp add: effective_quorum_size_def)

lemma dynamic_quorum_majority:
  "ac_quorum_size cfg \<le> 0 \<Longrightarrow> n \<ge> 1 \<Longrightarrow>
     effective_quorum_size cfg n \<le> int n \<and> 2 * effective_quorum_size cfg n > int n"
  by (simp add: effective_quorum_size_def max_def) linarith

text \<open>Opening a term above all others, once none of them is active.\<close>

lemma open_term_ok:
  assumes "open_authority_term e no leader quorum db = Inr (t, db')" and "terms_ok (sd_terms db)"
    and "\<forall>u\<in>set (sd_terms db). tm_status u \<noteq> ''active'' \<and> tm_term_no u < no"
  shows "terms_ok (sd_terms db')" and "t \<in> set (sd_terms db')"
  using open_authority_termD [OF assms(1)] assms(2,3)
  by (auto simp: terms_ok_def term_row_ok_def)

lemma close_term_ok:
  assumes ok: "terms_ok (sd_terms db)" and t: "t \<in> set (sd_terms db)" "tm_status t = ''active''"
  shows "terms_ok (sd_terms (snd (close_authority_term at t reason db)))"
    and "\<forall>u\<in>set (sd_terms (snd (close_authority_term at t reason db))).
           tm_status u \<noteq> ''active'' \<and> tm_term_no u < tm_term_no t + 1"
    and "tm_term_no ` set (sd_terms (snd (close_authority_term at t reason db))) = tm_term_no ` set (sd_terms db)"
proof -
  let ?upd = "\<lambda>q. q\<lparr>tm_status := ''closed'', tm_closed_at := Some at, tm_close_reason := Some reason\<rparr>"
  have eq: "sd_terms (snd (close_authority_term at t reason db)) =
      sql_update (\<lambda>q. tm_term_id q = tm_term_id t) ?upd (sd_terms db)"
    by (simp add: close_authority_term_def Let_def)
  show "terms_ok (sd_terms (snd (close_authority_term at t reason db)))"
    unfolding eq by (rule terms_ok_update [OF ok]) (auto simp: term_row_ok_def)
  show "tm_term_no ` set (sd_terms (snd (close_authority_term at t reason db))) = tm_term_no ` set (sd_terms db)"
    unfolding eq by (rule sql_update_keys) simp
  have only: "tm_term_id u = tm_term_id t" if "u \<in> set (sd_terms db)" "tm_status u = ''active''" for u
  proof -
    have "tm_term_no u = tm_term_no t"
      using ok t that by (intro antisym) (auto simp: terms_ok_def)
    then show ?thesis using ok t that by (auto simp: terms_ok_def distinct_map inj_on_def)
  qed
  show "\<forall>u\<in>set (sd_terms (snd (close_authority_term at t reason db))).
           tm_status u \<noteq> ''active'' \<and> tm_term_no u < tm_term_no t + 1"
  proof
    fix u
    assume "u \<in> set (sd_terms (snd (close_authority_term at t reason db)))"
    then obtain v where v: "v \<in> set (sd_terms db)" and u: "u = (if tm_term_id v = tm_term_id t then ?upd v else v)"
      unfolding eq sql_update_mem by blast
    have "tm_term_no v \<le> tm_term_no t" using ok t v by (auto simp: terms_ok_def)
    moreover have "tm_term_id v = tm_term_id t" if "tm_status v = ''active''" using only v that by simp
    ultimately show "tm_status u \<noteq> ''active'' \<and> tm_term_no u < tm_term_no t + 1" using u by auto
  qed
qed

text \<open>The result of \<open>_ensure_active_term\<close>.\<close>

lemma ensure_active_term_effect:
  assumes ens: "ensure_active_term cfg e obs db = Inr (t, db')" and ok: "terms_ok (sd_terms db)"
  shows "terms_ok (sd_terms db')" and "t \<in> set (sd_terms db')" and "tm_status t = ''active''"
    and "sd_nodes db' = sd_nodes (snd (upsert_node e (ac_node_id cfg) (ac_bind_url cfg) ''active'' ''peer'' obs db))"
    and "tm_leader_node_id t = desired_leader cfg (active_nodes cfg obs db')"
    and "tm_quorum_size t = effective_quorum_size cfg (length (active_nodes cfg obs db'))"
    and "tm_term_no ` set (sd_terms db) \<subseteq> tm_term_no ` set (sd_terms db')"
proof -
  let ?db = "snd (upsert_node e (ac_node_id cfg) (ac_bind_url cfg) ''active'' ''peer'' obs db)"
  let ?act = "active_nodes cfg obs ?db"
  let ?leader = "desired_leader cfg ?act" and ?q = "effective_quorum_size cfg (length ?act)"
  have okd: "terms_ok (sd_terms ?db)" and same: "sd_terms ?db = sd_terms db"
    using ok by (simp_all add: upsert_node_frame(2))
  have act: "active_nodes cfg obs db' = active_nodes cfg obs ?db" if "sd_nodes db' = sd_nodes ?db"
    using that by (simp add: active_nodes_def)
  consider (keep) c where "active_authority_term ?db = Some c" "tm_leader_node_id c = ?leader"
    | (rotate) c where "active_authority_term ?db = Some c" "tm_leader_node_id c \<noteq> ?leader"
    | (first) "active_authority_term ?db = None"
    by (cases "active_authority_term ?db") auto
  then have "terms_ok (sd_terms db') \<and> t \<in> set (sd_terms db') \<and> tm_status t = ''active'' \<and> sd_nodes db' = sd_nodes ?db
      \<and> tm_leader_node_id t = ?leader \<and> tm_quorum_size t = ?q
      \<and> tm_term_no ` set (sd_terms db) \<subseteq> tm_term_no ` set (sd_terms db')"
  proof cases
    case keep
    let ?f = "\<lambda>q. q\<lparr>tm_quorum_size := ?q, tm_last_heartbeat_at := obs\<rparr>"
    note cD = active_authority_termD [OF keep(1)]
    have t: "t = ?f c" and db': "db' = ?db\<lparr>sd_terms := sql_update (\<lambda>q. tm_term_id q = tm_term_id c) ?f (sd_terms ?db)\<rparr>"
      using ens keep by (auto simp: ensure_active_term_def Let_def)
    have "terms_ok (sql_update (\<lambda>q. tm_term_id q = tm_term_id c) ?f (sd_terms ?db))"
      by (rule terms_ok_update [OF okd]) (auto simp: term_row_ok_def effective_quorum_pos)
    moreover have "?f c \<in> set (sql_update (\<lambda>q. tm_term_id q = tm_term_id c) ?f (sd_terms ?db))"
      using sql_update_image [OF cD(1), of "\<lambda>q. tm_term_id q = tm_term_id c" ?f] by simp
    moreover have "tm_term_no ` set (sql_update (\<lambda>q. tm_term_id q = tm_term_id c) ?f (sd_terms ?db)) = tm_term_no ` set (sd_terms db)"
      by (subst sql_update_keys) (simp_all add: same)
    ultimately show ?thesis using t db' cD(2) keep(2) by simp
  next
    case rotate
    note cD = active_authority_termD [OF rotate(1)]
    let ?dbc = "snd (close_authority_term (clock e 1) c ''leader_rotated_or_expired'' ?db)"
    note cl = close_term_ok [OF okd cD, of "clock e 1" "''leader_rotated_or_expired''"]
    have op: "open_authority_term (env_from 2 e) (tm_term_no c + 1) ?leader ?q ?dbc = Inr (t, db')"
      using ens rotate by (auto simp: ensure_active_term_def Let_def)
    have "sd_nodes ?dbc = sd_nodes ?db" by (simp add: close_authority_term_def Let_def)
    then show ?thesis
      using open_term_ok [OF op cl(1,2)] open_authority_termD [OF op] cl(3) same by auto
  next
    case first
    let ?no = "case latest_authority_term ?db of Some u \<Rightarrow> tm_term_no u + 1 | None \<Rightarrow> 1"
    have op: "open_authority_term (env_from 2 e) ?no ?leader ?q ?db = Inr (t, db')"
      using ens first by (auto simp: ensure_active_term_def Let_def)
    have "tm_status u \<noteq> ''active''" if "u \<in> set (sd_terms ?db)" for u
      using first that by (auto simp: active_authority_term_def)
    moreover have "tm_term_no u < ?no" if "u \<in> set (sd_terms ?db)" for u
      using that by (cases "latest_authority_term ?db")
        (auto dest: latest_authority_termD(2), simp add: latest_authority_term_def)
    ultimately show ?thesis
      using open_term_ok [OF op okd] open_authority_termD [OF op] same by auto
  qed
  then show "terms_ok (sd_terms db')" and "t \<in> set (sd_terms db')" and "tm_status t = ''active''"
    and "sd_nodes db' = sd_nodes ?db"
    and "tm_leader_node_id t = desired_leader cfg (active_nodes cfg obs db')"
    and "tm_quorum_size t = effective_quorum_size cfg (length (active_nodes cfg obs db'))"
    and "tm_term_no ` set (sd_terms db) \<subseteq> tm_term_no ` set (sd_terms db')"
    using act by simp_all
qed

subsection \<open>Nodes\<close>

lemma upsert_node_row:
  obtains n where "n \<in> set (sd_nodes (snd (upsert_node e nid url st role obs db)))"
    and "an_node_id n = nid" and "an_status n = st" and "an_last_heartbeat_at n = obs"
proof (cases "sql_first (\<lambda>n. an_node_id n = nid) (sd_nodes db)")
  case None
  show thesis
    by (rule that [of "\<lparr>an_node_id = nid, an_bind_url = url, an_status = st, an_role = role,
          an_last_heartbeat_at = obs, an_created_at = clock e 0, an_updated_at = clock e 0\<rparr>"])
      (use None in \<open>simp_all add: upsert_node_def Let_def del: sql_first_None\<close>)
next
  case (Some n)
  let ?upd = "\<lambda>q. q\<lparr>an_bind_url := url, an_status := st, an_role := role,
                           an_last_heartbeat_at := obs, an_updated_at := clock e 0\<rparr>"
  have n: "n \<in> set (sd_nodes db)" "an_node_id n = nid"
    using sql_first_Some [OF Some] by auto
  have "?upd n \<in> set (sql_update (\<lambda>q. an_node_id q = nid) ?upd (sd_nodes db))"
    using sql_update_image [OF n(1), of "\<lambda>q. an_node_id q = nid" ?upd] n(2) by simp
  then show thesis
    using n(2) Some by (intro that [of "?upd n"]) (simp_all add: upsert_node_def Let_def)
qed

text \<open>A node that has just been registered as active is among the active nodes.\<close>

lemma upsert_node_active:
  assumes "0 \<le> ac_election_timeout_ms cfg"
  shows "nid \<in> an_node_id ` set (active_nodes cfg obs (snd (upsert_node e nid url ''active'' role obs db)))"
proof -
  obtain n where "n \<in> set (sd_nodes (snd (upsert_node e nid url ''active'' role obs db)))"
    "an_node_id n = nid" "an_status n = ''active''" "an_last_heartbeat_at n = obs"
    by (rule upsert_node_row)
  with assms show ?thesis
    by (force simp: active_nodes_def active_node_threshold_def milliseconds_def)
qed

lemma upsert_node_distinct:
  "distinct (map an_node_id (sd_nodes db)) \<Longrightarrow>
     distinct (map an_node_id (sd_nodes (snd (upsert_node e nid url st role obs db))))"
  by (auto simp: upsert_node_def Let_def sql_update_map split: option.splits)

lemma active_nodes_distinct:
  "distinct (map an_node_id (sd_nodes db)) \<Longrightarrow> distinct (map an_node_id (active_nodes cfg obs db))"
  by (simp add: active_nodes_def sql_order_def sql_where_def distinct_map inj_on_def)

lemma ensure_keeps_cluster:
  assumes "cluster_ok db" and "ensure_active_term cfg e obs db = Inr (t, db')"
  shows "cluster_ok db'"
proof -
  have tok: "terms_ok (sd_terms db)" using assms(1) by (simp add: cluster_ok_def)
  note eff = ensure_active_term_effect [OF assms(2) tok] and fr = ensure_active_term_frame [OF assms(2)]
  have "lease_terms_ok (sd_terms db') (sd_leases db)"
    using assms(1) eff(7) by (meson cluster_ok_def lease_terms_ok_def subsetD)
  then show ?thesis
    using assms(1) eff fr by (simp add: cluster_ok_def same_but_cluster_def upsert_node_distinct)
qed

lemma upsert_keeps_cluster:
  "cluster_ok db \<Longrightarrow> cluster_ok (snd (upsert_node e nid url st role obs db))"
  using upsert_node_frame(1) [of db e nid url st role obs] upsert_node_distinct [of db e nid url st role obs]
  by (simp add: cluster_ok_def same_but_cluster_def upsert_node_frame(2))

text \<open>What \<open>submit_proposal\<close> knows once it has resolved the authority.\<close>

lemma quorum_resolve_effect:
  assumes ok: "cluster_ok db" and res: "quorum_resolve_authority cfg e now rq db = Inr ((aid, t), db')"
  shows "cluster_ok db'" and "t \<in> set (sd_terms db')" and "tm_status t = ''active''"
    and "tm_leader_node_id t = desired_leader cfg (active_nodes cfg now db')"
    and "tm_quorum_size t = effective_quorum_size cfg (length (active_nodes cfg now db'))"
    and "0 \<le> ac_election_timeout_ms cfg \<Longrightarrow> ac_node_id cfg \<in> an_node_id ` set (active_nodes cfg now db')"
proof -
  obtain dbx ex where last: "ensure_active_term cfg ex now dbx = Inr (t, db')" and okx: "cluster_ok dbx"
    using res
  proof (cases rule: quorum_resolveD)
    case own
    then show thesis using that upsert_keeps_cluster [OF ok] by blast
  next
    case (other t1 db1 url)
    have "cluster_ok db1"
      by (rule ensure_keeps_cluster [OF _ other(1)]) (rule upsert_keeps_cluster [OF ok])
    then show thesis using that other(2) upsert_keeps_cluster by blast
  qed
  have tx: "terms_ok (sd_terms dbx)" using okx by (simp add: cluster_ok_def)
  note eff = ensure_active_term_effect [OF last tx]
  show "cluster_ok db'" by (rule ensure_keeps_cluster [OF okx last])
  show "t \<in> set (sd_terms db')" "tm_status t = ''active''"
    "tm_leader_node_id t = desired_leader cfg (active_nodes cfg now db')"
    "tm_quorum_size t = effective_quorum_size cfg (length (active_nodes cfg now db'))"
    using eff by simp_all
  show "ac_node_id cfg \<in> an_node_id ` set (active_nodes cfg now db')" if "0 \<le> ac_election_timeout_ms cfg"
    using upsert_node_active [OF that, of "ac_node_id cfg" now ex "ac_bind_url cfg" "''peer''" dbx] eff(4)
    by (simp add: active_nodes_def)
qed

subsection \<open>Votes\<close>

definition voted :: "string \<Rightarrow> string \<Rightarrow> vote_record list \<Rightarrow> bool" where
  "voted pid nid vs \<longleftrightarrow> (pid, nid) \<in> (\<lambda>v. (vt_proposal_id v, vt_voter_node_id v)) ` set vs"

lemma create_vote_fresh:
  assumes "create_vote e pid no voter vote reason db = Inr (v, db')" and "\<not> voted pid voter (sd_votes db)"
  shows "db' = db\<lparr>sd_votes := sd_votes db @ [v]\<rparr>" and "vt_proposal_id v = pid" and "vt_voter_node_id v = voter"
    and "vt_vote v = vote" and "vt_term_no v = no"
proof -
  have none: "sql_first (\<lambda>v. vt_proposal_id v = pid \<and> vt_voter_node_id v = voter) (sd_votes db) = None"
    using assms(2) by (force simp: voted_def)
  show "db' = db\<lparr>sd_votes := sd_votes db @ [v]\<rparr>" "vt_proposal_id v = pid" "vt_voter_node_id v = voter"
    "vt_vote v = vote" "vt_term_no v = no"
    using assms(1) none by (auto simp: create_vote_def Let_def rbind_eq_Inr simp del: sql_first_None)
qed

lemma create_vote_repeat:
  assumes "create_vote e pid no voter vote reason db = Inr (v, db')" and "voted pid voter (sd_votes db)"
  shows "db' = db" and "v \<in> set (sd_votes db)" and "vt_proposal_id v = pid" and "vt_voter_node_id v = voter"
proof -
  obtain w where w: "sql_first (\<lambda>v. vt_proposal_id v = pid \<and> vt_voter_node_id v = voter) (sd_votes db) = Some w"
    using assms(2) sql_first_None [of "\<lambda>v. vt_proposal_id v = pid \<and> vt_voter_node_id v = voter" "sd_votes db"]
    by (cases "sql_first (\<lambda>v. vt_proposal_id v = pid \<and> vt_voter_node_id v = voter) (sd_votes db)")
      (auto simp: voted_def)
  then show "db' = db" "v \<in> set (sd_votes db)" "vt_proposal_id v = pid" "vt_voter_node_id v = voter"
    using assms(1) sql_first_Some [OF w] by (auto simp: create_vote_def)
qed

text \<open>A node votes at most once: the second vote returns the first record unchanged.\<close>

lemma create_vote_ok:
  assumes "create_vote e pid no voter vote reason db = Inr (v, db')"
    and "votes_ok (sd_proposals db) (sd_votes db)" and "pid \<in> pr_proposal_id ` set (sd_proposals db)"
  shows "votes_ok (sd_proposals db') (sd_votes db')"
proof (cases "voted pid voter (sd_votes db)")
  case True
  then show ?thesis using create_vote_repeat [OF assms(1)] assms(2) by simp
next
  case False
  then show ?thesis
    using create_vote_fresh [OF assms(1) False] assms(2,3) by (auto simp: votes_ok_def voted_def)
qed

lemma collect_votes_ok:
  assumes "collect_votes e pid no ns db = Inr db'"
    and "votes_ok (sd_proposals db) (sd_votes db)" and "pid \<in> pr_proposal_id ` set (sd_proposals db)"
  shows "votes_ok (sd_proposals db') (sd_votes db')"
  using assms
proof (induction ns arbitrary: e db)
  case (Cons n ns)
  then obtain v db1 where one: "create_vote e pid no (an_node_id n) ''granted'' ''leader_collected_peer_vote'' db = Inr (v, db1)"
    and rest: "collect_votes (env_from 1 e) pid no ns db1 = Inr db'"
    by (auto simp: rbind_eq_Inr)
  have "sd_proposals db1 = sd_proposals db"
    using create_vote_frame [OF one] by auto
  then show ?case
    using Cons.IH [OF rest] create_vote_ok [OF one] Cons.prems(2,3) by simp
qed simp

text \<open>On a proposal nobody has voted on, the leader collects one granting vote per node.\<close>

lemma collect_votes_fresh:
  assumes "collect_votes e pid no ns db = Inr db'" and "distinct (map an_node_id ns)"
    and "\<forall>n\<in>set ns. \<not> voted pid (an_node_id n) (sd_votes db)"
  shows "\<exists>rows. db' = db\<lparr>sd_votes := sd_votes db @ rows\<rparr> \<and> map vt_voter_node_id rows = map an_node_id ns
     \<and> (\<forall>v\<in>set rows. vt_proposal_id v = pid \<and> vt_vote v = ''granted'' \<and> vt_term_no v = no)"
  using assms
proof (induction ns arbitrary: e db)
  case (Cons n ns)
  then obtain v db1 where one: "create_vote e pid no (an_node_id n) ''granted'' ''leader_collected_peer_vote'' db = Inr (v, db1)"
    and rest: "collect_votes (env_from 1 e) pid no ns db1 = Inr db'"
    by (auto simp: rbind_eq_Inr)
  have "\<not> voted pid (an_node_id n) (sd_votes db)" using Cons.prems(3) by simp
  note v = create_vote_fresh [OF one this]
  have "\<forall>m\<in>set ns. \<not> voted pid (an_node_id m) (sd_votes db1)"
  proof
    fix m
    assume m: "m \<in> set ns"
    then have "an_node_id m \<noteq> an_node_id n" and "\<not> voted pid (an_node_id m) (sd_votes db)"
      using Cons.prems(2,3) by (auto simp: image_iff)
    then show "\<not> voted pid (an_node_id m) (sd_votes db1)"
      using v by (simp add: voted_def)
  qed
  then obtain rows where "db' = db1\<lparr>sd_votes := sd_votes db1 @ rows\<rparr>" "map vt_voter_node_id rows = map an_node_id ns"
    "\<forall>v\<in>set rows. vt_proposal_id v = pid \<and> vt_vote v = ''granted'' \<and> vt_term_no v = no"
    using Cons.IH [OF rest] Cons.prems(2) by auto
  then show ?case
    using v by (intro exI [of _ "v # rows"]) simp
qed simp

text \<open>The votes gathered for a new proposal: one granting vote of each active node.\<close>

lemma votes_gathered:
  assumes cv: "collect_votes e pid no (active_nodes cfg now db) db = Inr db1"
    and nodes: "distinct (map an_node_id (sd_nodes db))" and new: "pid \<notin> vt_proposal_id ` set (sd_votes db)"
  shows "length (filter (\<lambda>v. vt_vote v = ''granted'') (votes_for_proposal pid db1)) = length (active_nodes cfg now db)"
    and "vt_voter_node_id ` set (votes_for_proposal pid db1) = an_node_id ` set (active_nodes cfg now db)"
    and "\<forall>v\<in>set (votes_for_proposal pid db1). vt_vote v = ''granted'' \<and> vt_term_no v = no"
proof -
  have "\<forall>n\<in>set (active_nodes cfg now db). \<not> voted pid (an_node_id n) (sd_votes db)"
    using new by (auto simp: voted_def)
  from collect_votes_fresh [OF cv active_nodes_distinct [OF nodes] this]
  obtain rows where rows: "db1 = db\<lparr>sd_votes := sd_votes db @ rows\<rparr>"
    "map vt_voter_node_id rows = map an_node_id (active_nodes cfg now db)"
    "\<forall>v\<in>set rows. vt_proposal_id v = pid \<and> vt_vote v = ''granted'' \<and> vt_term_no v = no"
    by auto
  have flt: "sql_where (\<lambda>v. vt_proposal_id v = pid) (sd_votes db1) = rows"
  proof -
    have "filter (\<lambda>v. vt_proposal_id v = pid) (sd_votes db) = []"
      using new by (auto simp: filter_empty_conv)
    moreover have "filter (\<lambda>v. vt_proposal_id v = pid) rows = rows"
      using rows(3) by (simp add: filter_id_conv)
    ultimately show ?thesis by (simp add: sql_where_def rows(1))
  qed
  have set_v: "set (votes_for_proposal pid db1) = set rows"
    by (simp add: votes_for_proposal_def flt)
  have len: "length (votes_for_proposal pid db1) = length rows"
    by (simp add: votes_for_proposal_def flt sql_order_def)
  show "\<forall>v\<in>set (votes_for_proposal pid db1). vt_vote v = ''granted'' \<and> vt_term_no v = no"
    using rows(3) by (simp add: set_v)
  have "filter (\<lambda>v. vt_vote v = ''granted'') (votes_for_proposal pid db1) = votes_for_proposal pid db1"
    using rows(3) set_v by (simp add: filter_id_conv)
  then show "length (filter (\<lambda>v. vt_vote v = ''granted'') (votes_for_proposal pid db1)) = length (active_nodes cfg now db)"
    using len arg_cong [OF rows(2), of length] by simp
  show "vt_voter_node_id ` set (votes_for_proposal pid db1) = an_node_id ` set (active_nodes cfg now db)"
    unfolding set_v using arg_cong [OF rows(2), of set] by simp
qed

text \<open>The outcome of the vote: granted exactly when enough nodes are active.\<close>

lemma vote_outcome:
  assumes v: "quorum_vote_and_grant cfg e now p trm (latest_committed_lease_for_domain dk key db) db = Inr (res, db')"
    and ok: "cluster_ok db" and new: "pr_proposal_id p \<notin> vt_proposal_id ` set (sd_votes db)"
    and none: "active_committed_lease_for_domain dk key now db = None"
    and pd: "pr_domain_kind p = dk" "pr_domain_key p = key" "pr_requested_lease_seconds p \<ge> 1"
  shows "sr_granted res \<longleftrightarrow> tm_quorum_size trm \<le> int (length (active_nodes cfg now db))"
    and "\<not> sr_duplicate res" and "\<not> sr_stale_leader res"
    and "vt_voter_node_id ` set (sr_votes res) = an_node_id ` set (active_nodes cfg now db)"
    and "\<forall>v\<in>set (sr_votes res). vt_vote v = ''granted'' \<and> vt_term_no v = tm_term_no trm"
    and "sd_nodes db' = sd_nodes db"
proof -
  let ?e = "env_from (length (active_nodes cfg now db)) e" and ?l = "latest_committed_lease_for_domain dk key db"
  from v obtain db1 votes where
    cv: "collect_votes e (pr_proposal_id p) (tm_term_no trm) (active_nodes cfg now db) db = Inr db1"
    and vs: "votes = votes_for_proposal (pr_proposal_id p) db1"
    and alt: "if int (length (filter (\<lambda>v. vt_vote v = ''granted'') votes)) < tm_quorum_size trm
       then quorum_reject cfg ?e now p (granted_epoch (pr_requested_epoch p) ?l) ''quorum_unavailable''
              now trm None votes False ?l db1 = Inr (res, db')
       else quorum_grant cfg ?e now p trm votes ?l db1 = Inr (res, db')"
    by (rule quorum_vote_and_grantD)
  have nodes: "distinct (map an_node_id (sd_nodes db))" using ok by (simp add: cluster_ok_def)
  note got = votes_gathered [OF cv nodes new, folded vs]
  have L1: "sd_leases db1 = sd_leases db" "sd_nodes db1 = sd_nodes db"
    using collect_votes_frame [OF cv] by auto
  have "(sr_granted res \<longleftrightarrow> tm_quorum_size trm \<le> int (length (active_nodes cfg now db)))
      \<and> \<not> sr_duplicate res \<and> \<not> sr_stale_leader res \<and> sr_votes res = votes \<and> sd_nodes db' = sd_nodes db"
  proof (cases "int (length (active_nodes cfg now db)) < tm_quorum_size trm")
    case True
    with alt got(1) have r: "quorum_reject cfg ?e now p (granted_epoch (pr_requested_epoch p) ?l) ''quorum_unavailable''
              now trm None votes False ?l db1 = Inr (res, db')" by simp
    show ?thesis using True quorum_rejectD(2,3,4,8,11) [OF r] L1(2) by simp
  next
    case False
    with alt got(1) have g: "quorum_grant cfg ?e now p trm votes (latest_committed_lease_for_domain dk key db1) db1 = Inr (res, db')"
      by (simp add: ledger_frame [OF L1(1)])
    have "sr_granted res \<and> \<not> sr_duplicate res \<and> sr_votes res = votes \<and> \<not> sr_stale_leader res \<and> sd_nodes db' = sd_nodes db"
      by (rule quorum_grant_effect [OF g _ _ pd]) (use ok none in \<open>simp_all add: L1 ledger_frame [OF L1(1)] cluster_ok_def\<close>)
    then show ?thesis using False by simp
  qed
  then show "sr_granted res \<longleftrightarrow> tm_quorum_size trm \<le> int (length (active_nodes cfg now db))"
    and "\<not> sr_duplicate res" and "\<not> sr_stale_leader res"
    and "vt_voter_node_id ` set (sr_votes res) = an_node_id ` set (active_nodes cfg now db)"
    and "\<forall>v\<in>set (sr_votes res). vt_vote v = ''granted'' \<and> vt_term_no v = tm_term_no trm"
    and "sd_nodes db' = sd_nodes db"
    using got(2,3) by auto
qed

subsection \<open>Every operation keeps the invariant\<close>

text \<open>An update that touches the decisions and the status of proposals keeps \<open>cluster_ok\<close>.\<close>

lemma cluster_ok_cong:
  assumes "cluster_ok db" and "sd_nodes db' = sd_nodes db" and "sd_terms db' = sd_terms db"
    and "sd_votes db' = sd_votes db" and "sd_leases db' = sd_leases db"
    and "pr_proposal_id ` set (sd_proposals db) \<subseteq> pr_proposal_id ` set (sd_proposals db')"
  shows "cluster_ok db'"
  using assms unfolding cluster_ok_def votes_ok_def by (metis subset_trans)

lemma map_ids_image: "map f xs = map f ys \<Longrightarrow> f ` set xs = f ` set ys"
  by (metis list.set_map)

lemma quorum_reject_keeps:
  assumes "quorum_reject cfg e now p epoch reason expires trm conflict votes stale latest db = Inr (res, db')"
    and "cluster_ok db"
  shows "cluster_ok db'"
  using quorum_rejectD(5-7,11,12) [OF assms(1)]
  by (intro cluster_ok_cong [OF assms(2)]) (auto dest: map_ids_image)

lemma lease_terms_ok_grant:
  assumes ok: "lease_terms_ok ts ls" and top: "trm \<in> set ts" "\<forall>n\<in>tm_term_no ` set ts. n \<le> tm_term_no trm"
    and new: "cl_term_no l = tm_term_no trm" "\<forall>m\<in>set ls. cl_commit_index m < cl_commit_index l"
  shows "lease_terms_ok ts (sql_update q (mark_released at reason) ls @ [l])"
proof -
  let ?ls = "sql_update q (mark_released at reason) ls"
  have old: "\<exists>m0\<in>set ls. cl_commit_index m0 = cl_commit_index m \<and> cl_term_no m0 = cl_term_no m" if "m \<in> set ?ls" for m
    using that by (auto simp: sql_update_mem split: if_splits)
  have le: "cl_term_no m \<le> tm_term_no trm" if "m \<in> set ?ls" for m
    using old [OF that] ok top(2) unfolding lease_terms_ok_def by (metis order_trans)
  have lt: "cl_commit_index m < cl_commit_index l" if "m \<in> set ?ls" for m
    using old [OF that] new(2) by auto
  have pair: "cl_term_no x \<le> cl_term_no y" if "x \<in> set ?ls" "y \<in> set ?ls" "cl_commit_index x < cl_commit_index y" for x y
    using old [OF that(1)] old [OF that(2)] that(3) ok unfolding lease_terms_ok_def by metis
  show ?thesis
    unfolding lease_terms_ok_def
  proof (intro conjI ballI impI)
    fix x y
    assume xy: "x \<in> set (?ls @ [l])" "y \<in> set (?ls @ [l])" "cl_commit_index x < cl_commit_index y"
    show "cl_term_no x \<le> cl_term_no y"
    proof (cases "x = l")
      case True
      then have "y \<in> set ?ls" using xy by auto
      then show ?thesis using lt [of y] xy(3) True by simp
    next
      case False
      then have x: "x \<in> set ?ls" using xy(1) by simp
      show ?thesis
        using xy(2,3) x le [OF x] pair [OF x] new(1) by auto
    qed
  next
    fix x
    assume "x \<in> set (?ls @ [l])"
    then have "cl_term_no x \<le> tm_term_no trm" using le new(1) by auto
    then show "\<exists>n\<in>tm_term_no ` set ts. cl_term_no x \<le> n" using top(1) by blast
  qed
qed

lemma quorum_grant_keeps:
  assumes g: "quorum_grant cfg e now p trm votes (latest_committed_lease_for_domain dk key db) db = Inr (res, db')"
    and ok: "cluster_ok db" and none: "active_committed_lease_for_domain dk key now db = None"
    and pd: "pr_domain_kind p = dk" "pr_domain_key p = key" "pr_requested_lease_seconds p \<ge> 1"
    and trm: "trm \<in> set (sd_terms db)" "tm_status trm = ''active''"
  shows "cluster_ok db'"
proof (rule quorum_grant_effect [OF g _ none pd])
  show "ledger_ok (sd_leases db)" using ok by (simp add: cluster_ok_def)
  fix l
  assume eff: "grant_effect dk key (pr_control_plane_id p) now (sd_leases db) (sd_leases db') l"
    and tn: "cl_term_no l = tm_term_no trm" and same: "sd_votes db' = sd_votes db" "sd_nodes db' = sd_nodes db"
    "map pr_proposal_id (sd_proposals db') = map pr_proposal_id (sd_proposals db)"
    and tms: "\<exists>at. sd_terms db' = sql_update (\<lambda>q. tm_term_id q = tm_term_id trm)
           (\<lambda>q. q\<lparr>tm_commit_index := cl_commit_index l, tm_last_heartbeat_at := at\<rparr>) (sd_terms db)"
    and app: "\<exists>q at. sd_leases db' = sql_update q (mark_released at ''expired_before_regrant'') (sd_leases db) @ [l]"
  have top: "\<forall>n\<in>tm_term_no ` set (sd_terms db). n \<le> tm_term_no trm"
    using ok trm by (simp add: cluster_ok_def terms_ok_def)
  have "terms_ok (sd_terms db')"
    using tms ok by (auto simp: cluster_ok_def term_row_ok_def intro!: terms_ok_update)
  moreover have "lease_terms_ok (sd_terms db) (sd_leases db')"
    using app ok eff lease_terms_ok_grant [OF _ trm(1) top tn] by (auto simp: cluster_ok_def grant_effect_def)
  then have "lease_terms_ok (sd_terms db') (sd_leases db')"
    using tms by (auto simp: lease_terms_ok_update)
  ultimately show "cluster_ok db'"
    using ok eff same map_ids_image [OF same(3)] by (simp add: cluster_ok_def votes_ok_def grant_effect_def)
qed

lemma quorum_decide_keeps:
  assumes dec: "quorum_decide cfg e now rq aid trm p db = Inr (res, db')" and ok: "cluster_ok db"
    and p: "p \<in> set (sd_proposals db)" "pr_domain_kind p = rq_domain_kind rq" "pr_domain_key p = rq_domain_key rq"
      "pr_requested_lease_seconds p \<ge> 1"
    and trm: "trm \<in> set (sd_terms db)" "tm_status trm = ''active''"
  shows "cluster_ok db'"
proof -
  let ?dk = "rq_domain_kind rq" and ?key = "rq_domain_key rq"
  let ?latest = "latest_committed_lease_for_domain ?dk ?key db"
  consider (same) a where "active_committed_lease_for_domain ?dk ?key now db = Some a"
      "quorum_accept_existing cfg now p a trm ?latest db = (res, db')"
    | (refused) ex epoch reason expires conflict stale where
      "quorum_reject cfg ex now p epoch reason expires trm conflict [] stale ?latest db = Inr (res, db')"
    | (vote) "active_committed_lease_for_domain ?dk ?key now db = None"
      "quorum_vote_and_grant cfg e now p trm ?latest db = Inr (res, db')"
  proof (cases "active_committed_lease_for_domain ?dk ?key now db")
    case None
    then show thesis using dec vote refused
      by (cases "aid = tm_leader_node_id trm") (simp_all add: quorum_decide_def Let_def)
  next
    case (Some a)
    then show thesis using dec same refused
      by (cases "cl_control_plane_id a = rq_control_plane_id rq") (simp_all add: quorum_decide_def Let_def)
  qed
  then show ?thesis
  proof cases
    case same
    have "db' = snd (proposal_update_status (pr_proposal_id p) ''accepted_existing'' db)"
      using same(2) by (auto simp: quorum_accept_existing_def Let_def split: prod.splits)
    then show ?thesis
      by (intro cluster_ok_cong [OF ok]) (simp_all add: proposal_update_status_def Let_def sql_update_keys)
  next
    case refused
    then show ?thesis using ok by (rule quorum_reject_keeps)
  next
    case vote
    let ?e = "env_from (length (active_nodes cfg now db)) e"
    from vote(2) obtain db1 votes where
      cv: "collect_votes e (pr_proposal_id p) (tm_term_no trm) (active_nodes cfg now db) db = Inr db1"
      and alt: "if int (length (filter (\<lambda>v. vt_vote v = ''granted'') votes)) < tm_quorum_size trm
       then quorum_reject cfg ?e now p (granted_epoch (pr_requested_epoch p) ?latest) ''quorum_unavailable''
              now trm None votes False ?latest db1 = Inr (res, db')
       else quorum_grant cfg ?e now p trm votes ?latest db1 = Inr (res, db')"
      by (rule quorum_vote_and_grantD)
    obtain rows where db1: "db1 = db\<lparr>sd_votes := sd_votes db @ rows\<rparr>"
      using collect_votes_frame [OF cv] by blast
    have ok1: "cluster_ok db1"
      using collect_votes_ok [OF cv] ok p(1) by (auto simp: cluster_ok_def db1)
    have fr: "latest_committed_lease_for_domain ?dk ?key db1 = ?latest"
      "active_committed_lease_for_domain ?dk ?key now db1 = None"
      using vote(1) ledger_frame [of db1 db] by (simp_all add: db1)
    show ?thesis
    proof (cases "int (length (filter (\<lambda>v. vt_vote v = ''granted'') votes)) < tm_quorum_size trm")
      case True
      with alt have "quorum_reject cfg ?e now p (granted_epoch (pr_requested_epoch p) ?latest) ''quorum_unavailable''
              now trm None votes False ?latest db1 = Inr (res, db')" by simp
      then show ?thesis using ok1 by (rule quorum_reject_keeps)
    next
      case False
      with alt fr(1) have "quorum_grant cfg ?e now p trm votes (latest_committed_lease_for_domain ?dk ?key db1) db1 = Inr (res, db')"
        by simp
      then show ?thesis
        by (rule quorum_grant_keeps) (use ok1 fr(2) p trm in \<open>simp_all add: db1\<close>)
    qed
  qed
qed

lemma quorum_submit_keeps:
  assumes ok: "cluster_ok db" and sub: "quorum_submit_proposal cfg e rq db = Inr (res, db')"
  shows "cluster_ok db'"
proof -
  from sub obtain aid trm db1 p db2 where
    r: "quorum_resolve_authority cfg (env_from 1 e) (clock e 0) rq db = Inr ((aid, trm), db1)"
    and p: "new_proposal (clock e 40) (hex12 e 40) rq = Inr p" and c: "proposal_create p db1 = Inr db2"
    and dec: "quorum_decide cfg (env_from 41 e) (clock e 0) rq aid trm p db2 = Inr (res, db')"
    by (rule quorum_submitD)
  note rs = quorum_resolve_effect [OF ok r] and pd = new_proposalD [OF p] and cd = proposal_createD [OF c]
  have "cluster_ok db2"
    by (rule cluster_ok_cong [OF rs(1)]) (auto simp: cd)
  then show ?thesis
    by (rule quorum_decide_keeps [OF dec]) (use rs pd in \<open>simp_all add: cd\<close>)
qed

lemma lease_terms_ok_release:
  "lease_terms_ok ts ls \<Longrightarrow> lease_terms_ok ts (sql_update p (mark_released at reason) ls)"
  unfolding lease_terms_ok_def by (auto simp: sql_update_mem split: if_splits)

lemma quorum_release_keeps:
  assumes ok: "cluster_ok db" and rel: "quorum_release_lease cfg e lid reason db = Inr (rr, db')"
  shows "cluster_ok db'"
proof -
  have led: "ledger_ok (sd_leases db)" using ok by (simp add: cluster_ok_def)
  have upd: "\<exists>at. sd_leases db' = sql_update (\<lambda>l. cl_lease_id l = lid) (mark_released at reason) (sd_leases db)"
    using quorum_release_contract [OF led rel] by (simp add: release_contract_def)
  have same: "sd_nodes db' = sd_nodes db" "sd_terms db' = sd_terms db" "sd_votes db' = sd_votes db"
    "sd_proposals db' = sd_proposals db"
    using rel by (auto simp: quorum_release_lease_def release_committed_lease_def decision_release_def Let_def
        split: option.splits)
  show ?thesis
    using ok upd same by (auto simp: cluster_ok_def intro: lease_terms_ok_release ledger_ok_release)
qed

lemma quorum_heartbeat_keeps:
  assumes ok: "cluster_ok db" and hb: "quorum_heartbeat_node cfg e nid url status role obs db = Inr (r, db')"
  shows "cluster_ok db'"
proof -
  obtain e1 at nid' url' e2 t where "ensure_active_term cfg e2 at (snd (upsert_node e1 nid' url' status role at db)) = Inr (t, db')"
    using hb by (auto simp: quorum_heartbeat_node_def Let_def rbind_eq_Inr split: prod.splits)
       (metis snd_conv)
  then show ?thesis
    using ensure_keeps_cluster [OF upsert_keeps_cluster [OF ok]] by blast
qed

lemma record_vote_keeps:
  assumes ok: "cluster_ok db" and rv: "record_vote cfg e pid voter vote reason db = Inr (r, db')"
  shows "cluster_ok db'"
proof -
  obtain p where p: "proposal_get pid db = Some p"
    using rv by (auto simp: record_vote_def split: option.splits)
  then have mem: "pid \<in> pr_proposal_id ` set (sd_proposals db)"
    by (auto simp: proposal_get_def dest!: sql_first_Some)
  obtain t db1 where en: "ensure_active_term cfg (env_from 1 e) (clock e 0) db = Inr (t, db1)"
    using rv p by (auto simp: record_vote_def rbind_eq_Inr)
  let ?db2 = "snd (upsert_node (env_from 10 e) voter (''internal://'' @ voter) ''active'' ''peer'' (clock e 10) db1)"
  have ok2: "cluster_ok ?db2"
    by (rule upsert_keeps_cluster [OF ensure_keeps_cluster [OF ok en]])
  have props: "sd_proposals ?db2 = sd_proposals db"
    using ensure_active_term_frame [OF en] upsert_node_frame(1) [of db1] by (simp add: same_but_cluster_def)
  obtain n dbn where up: "upsert_node (env_from 10 e) voter (''internal://'' @ voter) ''active'' ''peer'' (clock e 10) db1 = (n, dbn)"
    by (metis surj_pair)
  obtain v where "create_vote (env_from 20 e) pid (tm_term_no t) (an_node_id n) vote reason dbn = Inr (v, db')"
    using rv p en up by (auto simp: record_vote_def rbind_eq_Inr simp del: append.simps append_Cons)
  then have cv: "create_vote (env_from 20 e) pid (tm_term_no t) (an_node_id n) vote reason ?db2 = Inr (v, db')"
    by (simp only: up snd_conv)
  obtain rows where "db' = ?db2\<lparr>sd_votes := sd_votes ?db2 @ rows\<rparr>"
    using create_vote_frame [OF cv] by blast
  then show ?thesis
    using ok2 create_vote_ok [OF cv] mem props by (auto simp: cluster_ok_def)
qed

subsection \<open>Outcome of a submission\<close>

text \<open>A submission on a free domain that is not refused as stale is decided by the count of active nodes.\<close>

lemma quorum_outcome:
  assumes ok: "cluster_ok db" and sub: "quorum_submit_proposal cfg e rq db = Inr (res, db')"
    and none: "active_committed_lease_for_domain (rq_domain_kind rq) (rq_domain_key rq) (clock e 0) db = None"
    and fresh: "\<not> sr_stale_leader res"
  shows "sr_granted res \<longleftrightarrow>
           effective_quorum_size cfg (length (active_nodes cfg (clock e 0) db')) \<le> int (length (active_nodes cfg (clock e 0) db'))"
    and "vt_voter_node_id ` set (sr_votes res) = an_node_id ` set (active_nodes cfg (clock e 0) db')"
    and "\<forall>v\<in>set (sr_votes res). vt_vote v = ''granted''"
    and "0 \<le> ac_election_timeout_ms cfg \<Longrightarrow> active_nodes cfg (clock e 0) db' \<noteq> []"
    and "distinct (map an_node_id (active_nodes cfg (clock e 0) db'))"
proof -
  let ?dk = "rq_domain_kind rq" and ?key = "rq_domain_key rq" and ?now = "clock e 0"
  from sub obtain aid trm db1 p db2 where
    r: "quorum_resolve_authority cfg (env_from 1 e) ?now rq db = Inr ((aid, trm), db1)"
    and p: "new_proposal (clock e 40) (hex12 e 40) rq = Inr p" and c: "proposal_create p db1 = Inr db2"
    and L2: "sd_leases db2 = sd_leases db" and N2: "sd_nodes db2 = sd_nodes db1"
    and dec: "quorum_decide cfg (env_from 41 e) ?now rq aid trm p db2 = Inr (res, db')"
    by (rule quorum_submitD)
  note rs = quorum_resolve_effect [OF ok r] and pd = new_proposalD [OF p] and cd = proposal_createD [OF c]
  note fr = ledger_frame [OF L2]
  have ok2: "cluster_ok db2"
    by (rule cluster_ok_cong [OF rs(1)]) (auto simp: cd)
  have new: "pr_proposal_id p \<notin> vt_proposal_id ` set (sd_votes db2)"
  proof -
    have "pr_proposal_id p \<notin> pr_proposal_id ` set (sd_proposals db1)"
      using c by (auto simp: proposal_create_def rbind_eq_Inr)
    moreover have "vt_proposal_id ` set (sd_votes db1) \<subseteq> pr_proposal_id ` set (sd_proposals db1)"
      using rs(1) by (simp add: cluster_ok_def votes_ok_def)
    ultimately show ?thesis using cd by auto
  qed
  have leader: "aid = tm_leader_node_id trm"
  proof (rule ccontr)
    assume "aid \<noteq> tm_leader_node_id trm"
    then have "sr_stale_leader res"
      using dec none fr by (auto simp: quorum_decide_def Let_def dest: quorum_rejectD(4))
    with fresh show False by simp
  qed
  have v: "quorum_vote_and_grant cfg (env_from 41 e) ?now p trm (latest_committed_lease_for_domain ?dk ?key db2) db2 = Inr (res, db')"
    using dec none fr leader by (simp add: quorum_decide_def Let_def)
  note out = vote_outcome [OF v ok2 new _ pd(2,3)]
  have none2: "active_committed_lease_for_domain ?dk ?key ?now db2 = None" using none fr by simp
  have secs: "pr_requested_lease_seconds p \<ge> 1" using pd by simp
  have same: "active_nodes cfg ?now db' = active_nodes cfg ?now db1" "active_nodes cfg ?now db2 = active_nodes cfg ?now db1"
    using out(6) [OF none2 secs] N2 by (simp_all add: active_nodes_def)
  show "sr_granted res \<longleftrightarrow> effective_quorum_size cfg (length (active_nodes cfg ?now db')) \<le> int (length (active_nodes cfg ?now db'))"
    using out(1) [OF none2 secs] rs(5) same by simp
  show "vt_voter_node_id ` set (sr_votes res) = an_node_id ` set (active_nodes cfg ?now db')"
    using out(4) [OF none2 secs] same by simp
  show "\<forall>v\<in>set (sr_votes res). vt_vote v = ''granted''"
    using out(5) [OF none2 secs] by simp
  show "active_nodes cfg ?now db' \<noteq> []" if "0 \<le> ac_election_timeout_ms cfg"
    using rs(6) [OF that] same by auto
  show "distinct (map an_node_id (active_nodes cfg ?now db'))"
    using rs(1) same by (simp add: cluster_ok_def active_nodes_distinct)
qed

text \<open>The uniqueness of term numbers is never violated: the next term always opens, up to an id collision.\<close>

lemma open_term_returns:
  assumes "terms_ok ts" and "\<forall>n\<in>tm_term_no ` set ts. n < no" and "no \<ge> 1" and "quorum \<ge> 1"
    and "new_id ''term'' (hex12 e 0) \<notin> tm_term_id ` set ts" and "sd_terms db = ts"
  shows "\<exists>t db'. open_authority_term e no leader quorum db = Inr (t, db')"
  using assms by (force simp: open_authority_term_def Let_def sql_insert_def)

lemma ensure_active_term_returns:
  assumes ok: "terms_ok (sd_terms db)" and new: "new_id ''term'' (hex12 e 2) \<notin> tm_term_id ` set (sd_terms db)"
  shows "\<exists>t db'. ensure_active_term cfg e obs db = Inr (t, db')"
proof -
  let ?db = "snd (upsert_node e (ac_node_id cfg) (ac_bind_url cfg) ''active'' ''peer'' obs db)"
  let ?leader = "desired_leader cfg (active_nodes cfg obs ?db)"
  let ?q = "effective_quorum_size cfg (length (active_nodes cfg obs ?db))"
  have same: "sd_terms ?db = sd_terms db" by (rule upsert_node_frame(2))
  have h: "hex12 (env_from 2 e) 0 = hex12 e 2" by (simp add: env_from_def numeral_2_eq_2)
  show ?thesis
  proof (cases "active_authority_term ?db")
    case (Some c)
    note cD = active_authority_termD [OF Some]
    have okd: "terms_ok (sd_terms ?db)" using ok same by simp
    note cl = close_term_ok [OF okd cD, of "clock e 1" "''leader_rotated_or_expired''"]
    let ?dbc = "snd (close_authority_term (clock e 1) c ''leader_rotated_or_expired'' ?db)"
    have ids: "tm_term_id ` set (sd_terms ?dbc) = tm_term_id ` set (sd_terms db)"
      by (simp add: close_authority_term_def Let_def sql_update_keys same)
    have no: "tm_term_no c \<ge> 1" using okd cD by (auto simp: terms_ok_def term_row_ok_def)
    have "\<exists>t db'. open_authority_term (env_from 2 e) (tm_term_no c + 1) ?leader ?q ?dbc = Inr (t, db')"
      by (rule open_term_returns [OF cl(1)])
        (use cl(2) no effective_quorum_pos new ids in \<open>auto simp: h\<close>)
    then show ?thesis using Some by (auto simp: ensure_active_term_def Let_def)
  next
    case None
    let ?no = "case latest_authority_term ?db of Some u \<Rightarrow> tm_term_no u + 1 | None \<Rightarrow> 1"
    have below: "\<forall>n\<in>tm_term_no ` set (sd_terms ?db). n < ?no"
      by (cases "latest_authority_term ?db")
        (auto dest: latest_authority_termD(2), simp add: latest_authority_term_def)
    have pos: "?no \<ge> 1"
      using ok same by (fastforce split: option.splits dest!: latest_authority_termD(1) simp: terms_ok_def term_row_ok_def)
    have "\<exists>t db'. open_authority_term (env_from 2 e) ?no ?leader ?q ?db = Inr (t, db')"
      by (rule open_term_returns [OF _ below pos effective_quorum_pos]) (use ok new same in \<open>auto simp: h\<close>)
    then show ?thesis using None by (auto simp: ensure_active_term_def Let_def)
  qed
qed

end
