(* ===== verification/Sched_Service.thy ===== *)
theory Sched_Service
  imports Quorum_Terms
begin

section \<open>The orchestrator's use of the arbiter\<close>

text \<open>
  \<open>SchedulerServiceMixin\<close> of \<^verbatim>\<open>packages/core_domain/service_scheduler.py\<close>: the choice of the
  arbiter (\<^verbatim>\<open>services.py\<close>, \<open>OrchestratorService.__init__\<close>), the lease a dispatch needs, the check
  of a worker callback against the committed lease, the peer heartbeat and the release of a lease.
  The runtime state reference the facade also rewrites is not part of the scheduler tables and is
  left out. Both arbiters run behind \<open>arbiter_submit\<close> and \<open>arbiter_release\<close>, an interpretation of
  \<open>lease_authority\<close>; \<open>sched_step\<close> is one transaction of any process on the shared store.
\<close>

subsection \<open>Choosing the arbiter\<close>

datatype arbiter = LocalArbiter arbiter_cfg | ClusterArbiter arbiter_cfg

definition select_arbiter :: "bool \<Rightarrow> string \<Rightarrow> string \<Rightarrow> int \<Rightarrow> int \<Rightarrow> int \<Rightarrow> arbiter" where
  "select_arbiter enabled node_id bind_url quorum election heartbeat =
     (if enabled then ClusterArbiter (quorum_authority_init node_id bind_url quorum election heartbeat)
      else LocalArbiter (local_arbiter_init node_id bind_url quorum election heartbeat))"

fun arbiter_submit :: "arbiter \<Rightarrow> env \<Rightarrow> submit_request \<Rightarrow> sched_db \<Rightarrow> werror + submit_result \<times> sched_db" where
  "arbiter_submit (LocalArbiter cfg) = local_submit_proposal cfg"
| "arbiter_submit (ClusterArbiter cfg) = quorum_submit_proposal cfg"

fun arbiter_release :: "arbiter \<Rightarrow> env \<Rightarrow> string \<Rightarrow> string \<Rightarrow> sched_db \<Rightarrow> werror + release_result \<times> sched_db" where
  "arbiter_release (LocalArbiter cfg) = local_release_lease cfg"
| "arbiter_release (ClusterArbiter cfg) = quorum_release_lease cfg"

interpretation any_arbiter: lease_authority "arbiter_submit a" "arbiter_release a" for a
proof (cases a)
  case (LocalArbiter cfg)
  then show "lease_authority (arbiter_submit a) (arbiter_release a)"
    using local_arbiter.lease_authority_axioms [of cfg] by simp
next
  case (ClusterArbiter cfg)
  then show "lease_authority (arbiter_submit a) (arbiter_release a)"
    using quorum_arbiter.lease_authority_axioms [of cfg] by simp
qed

subsection \<open>The lease of a dispatch\<close>

text \<open>
  The payloads of a handoff envelope come from the snapshot, review, runtime-state and replay
  components; here they are one record per run and task.
\<close>

record handoff_sources =
  hs_snapshot_payload :: "(string \<times> json) list"
  hs_review_state :: "(string \<times> json) list"
  hs_durable_refs :: "(string \<times> json) list"
  hs_replay_excerpt :: "(string \<times> json) list"

definition create_control_plane_handoff ::
  "env \<Rightarrow> string \<Rightarrow> string \<Rightarrow> string \<Rightarrow> string \<Rightarrow> committed_lease \<Rightarrow> handoff_sources \<Rightarrow> sched_db
   \<Rightarrow> werror + handoff_envelope \<times> sched_db" where
  "create_control_plane_handoff e run task from_cp to_cp l hs db =
     create_handoff_envelope e run task from_cp to_cp (cl_committed_lease_id l) (cl_term_no l) (cl_commit_index l)
       (hs_snapshot_payload hs) (hs_review_state hs) (hs_durable_refs hs) (hs_replay_excerpt hs) db"

text \<open>The arguments \<open>_ensure_committed_scheduler_lease\<close> passes; the others keep their defaults.\<close>

definition dispatch_request :: "string \<Rightarrow> string \<Rightarrow> string \<Rightarrow> submit_request" where
  "dispatch_request cp run task =
     \<lparr>rq_control_plane_id = cp, rq_run_id = run, rq_runtime_task_id = task,
      rq_domain_kind = ''runtime_task'', rq_domain_key = task, rq_requested_lease_seconds = 300,
      rq_requested_epoch = 1, rq_authority_node_id = None, rq_authority_bind_url = None\<rparr>"

definition ensure_committed_scheduler_lease ::
  "arbiter \<Rightarrow> string \<Rightarrow> env \<Rightarrow> env \<Rightarrow> string \<Rightarrow> string \<Rightarrow> handoff_sources \<Rightarrow> sched_db
   \<Rightarrow> werror + (submit_result \<times> handoff_envelope option) \<times> sched_db" where
  "ensure_committed_scheduler_lease a cp e eh run task hs db =
     rbind (arbiter_submit a e (dispatch_request cp run task) db) (\<lambda>(res, db1).
       if \<not> sr_granted res
       then Inl (SchedulerArbitrationError ''control plane does not own a committed scheduler lease for the runtime task'')
       else
         (case (sr_previous_committed_lease res, sr_committed_lease res) of
            (Some previous, Some current) \<Rightarrow>
              if cl_control_plane_id (lp_lease previous) \<noteq> cl_control_plane_id (lp_lease current)
              then rbind (create_control_plane_handoff eh run task (cl_control_plane_id (lp_lease previous))
                            (cl_control_plane_id (lp_lease current)) (lp_lease current) hs db1)
                     (\<lambda>(h, db2). Inr ((res, Some h), db2))
              else Inr ((res, None), db1)
          | _ \<Rightarrow> Inr ((res, None), db1)))"

subsection \<open>Dispatch context and callbacks\<close>

text \<open>\<open>scheduler_context_for_dispatch\<close>: what the worker receives and sends back as \<open>execution_target\<close>.\<close>

record dispatch_context =
  dc_control_plane_id :: string
  dc_committed_lease_id :: string
  dc_fencing_token :: string
  dc_term_no :: int
  dc_authority_term_no :: int
  dc_commit_index :: int
  dc_decision_index :: int
  dc_lease_epoch :: int

definition scheduler_context_for_dispatch :: "lease_payload option \<Rightarrow> dispatch_context option" where
  "scheduler_context_for_dispatch p =
     map_option (\<lambda>pl. \<lparr>dc_control_plane_id = cl_control_plane_id (lp_lease pl),
        dc_committed_lease_id = cl_committed_lease_id (lp_lease pl),
        dc_fencing_token = cl_fencing_token (lp_lease pl),
        dc_term_no = lp_term_no pl, dc_authority_term_no = lp_authority_term_no pl,
        dc_commit_index = lp_commit_index pl, dc_decision_index = lp_decision_index pl,
        dc_lease_epoch = cl_lease_epoch (lp_lease pl)\<rparr>) p"

text \<open>The two keys of \<open>execution_target\<close> the validation reads; an absent key is \<open>None\<close>.\<close>

record callback_target =
  ct_committed_lease_id :: "string option"
  ct_fencing_token :: "string option"

definition echo_target :: "dispatch_context \<Rightarrow> callback_target" where
  "echo_target c = \<lparr>ct_committed_lease_id = Some (dc_committed_lease_id c), ct_fencing_token = Some (dc_fencing_token c)\<rparr>"

definition mismatches :: "string option \<Rightarrow> string \<Rightarrow> bool" where
  "mismatches sent current \<longleftrightarrow> (case sent of None \<Rightarrow> False | Some s \<Rightarrow> s \<noteq> [] \<and> s \<noteq> current)"

definition validate_callback_scheduler_context ::
  "string \<Rightarrow> time \<Rightarrow> string \<Rightarrow> callback_target option \<Rightarrow> sched_db \<Rightarrow> werror + committed_lease" where
  "validate_callback_scheduler_context cp now task target db =
     (case active_committed_lease_for_domain ''runtime_task'' task now db of
        None \<Rightarrow> Inl (SchedulerArbitrationError ''worker callback arrived without an active committed scheduler lease'')
      | Some l \<Rightarrow>
          if cl_control_plane_id l \<noteq> cp
          then Inl (SchedulerArbitrationError ''worker callback was received by a stale control plane'')
          else
            let t = (case target of Some t \<Rightarrow> t | None \<Rightarrow> \<lparr>ct_committed_lease_id = None, ct_fencing_token = None\<rparr>)
            in if mismatches (ct_committed_lease_id t) (cl_committed_lease_id l)
               then Inl (SchedulerArbitrationError ''worker callback committed lease does not match the active committed lease'')
               else if mismatches (ct_fencing_token t) (cl_fencing_token l)
               then Inl (SchedulerArbitrationError ''worker callback fencing token does not match the active committed lease'')
               else Inr l)"

subsection \<open>Heartbeats and releases of the facade\<close>

text \<open>\<open>heartbeat_node\<close> of the configured arbiter; the local one writes nothing.\<close>

fun arbiter_heartbeat ::
  "arbiter \<Rightarrow> env \<Rightarrow> string option \<Rightarrow> string option \<Rightarrow> string \<Rightarrow> string \<Rightarrow> time option \<Rightarrow> sched_db
   \<Rightarrow> werror + cluster_view \<times> sched_db" where
  "arbiter_heartbeat (LocalArbiter cfg) e nid url status role observed db =
     Inr (snd (local_heartbeat_node cfg e observed db), db)"
| "arbiter_heartbeat (ClusterArbiter cfg) e nid url status role observed db =
     rbind (quorum_heartbeat_node cfg e nid url status role observed db) (\<lambda>((_, view), db'). Inr (view, db'))"

text \<open>
  \<open>record_scheduler_peer_heartbeat\<close> is two transactions: the heartbeat row stays when the arbiter's
  own heartbeat raises, so the new state is returned beside the result.
\<close>

definition record_scheduler_peer_heartbeat ::
  "arbiter \<Rightarrow> env \<Rightarrow> env \<Rightarrow> string \<Rightarrow> string \<Rightarrow> int \<Rightarrow> time option \<Rightarrow> sched_db
   \<Rightarrow> (werror + peer_heartbeat \<times> cluster_view) \<times> sched_db" where
  "record_scheduler_peer_heartbeat a e eh cp status lease_count observed_at db =
     (if lease_count < 0 then (Inl (ValidationError ''SchedulerPeerHeartbeat''), db)
      else
        let h = \<lparr>hb_heartbeat_id = new_id ''peerhb'' (hex12 e 0), hb_control_plane_id = cp, hb_status = status,
                 hb_lease_count = lease_count,
                 hb_observed_at = (case observed_at of Some t \<Rightarrow> t | None \<Rightarrow> clock e 1),
                 hb_created_at = clock e 0\<rparr>
        in case heartbeat_create h db of
             Inl err \<Rightarrow> (Inl err, db)
           | Inr db1 \<Rightarrow>
               (case arbiter_heartbeat a eh (Some cp) (Some (''internal://'' @ cp)) status ''control_plane''
                       (Some (hb_observed_at h)) db1 of
                  Inl err \<Rightarrow> (Inl err, db1)
                | Inr (view, db2) \<Rightarrow> (Inr (h, view), db2)))"

text \<open>\<open>release_scheduler_lease\<close>: no decision for the lease id is an error, and nothing is released then.\<close>

definition release_scheduler_lease ::
  "arbiter \<Rightarrow> env \<Rightarrow> string \<Rightarrow> string \<Rightarrow> sched_db
   \<Rightarrow> werror + (lease_decision \<times> lease_payload \<times> cluster_view \<times> peer_heartbeat option) \<times> sched_db" where
  "release_scheduler_lease a e lease_id reason db =
     rbind (arbiter_release a e lease_id reason db) (\<lambda>(released, db1).
       case rr_decision released of
         None \<Rightarrow> Inl (EntityNotFoundError ''scheduler_lease'' lease_id)
       | Some d \<Rightarrow>
           Inr ((d, rr_committed_lease released, rr_cluster released,
                 heartbeat_latest_for_control_plane (de_control_plane_id d) db1), db1))"

subsection \<open>Any process, any order\<close>

text \<open>
  One transaction on the shared store. Every event names the arbiter (and so the node) of the
  process that runs it and its own clock readings, so clocks of different processes may disagree
  and run backwards.
\<close>

datatype sched_event =
    EvSubmit arbiter env submit_request
  | EvEnsure arbiter string env env string string handoff_sources
  | EvRelease arbiter env string string
  | EvServiceRelease arbiter env string string
  | EvHeartbeat arbiter env "string option" "string option" string string "time option"
  | EvPeerHeartbeat peer_heartbeat
  | EvVote arbiter_cfg env string string string string

fun sched_step :: "sched_event \<Rightarrow> sched_db \<Rightarrow> werror + sched_db" where
  "sched_step (EvSubmit a e rq) db = rbind (arbiter_submit a e rq db) (\<lambda>(_, db'). Inr db')"
| "sched_step (EvEnsure a cp e eh run task hs) db =
     rbind (ensure_committed_scheduler_lease a cp e eh run task hs db) (\<lambda>(_, db'). Inr db')"
| "sched_step (EvRelease a e lid reason) db = rbind (arbiter_release a e lid reason db) (\<lambda>(_, db'). Inr db')"
| "sched_step (EvServiceRelease a e lid reason) db =
     rbind (release_scheduler_lease a e lid reason db) (\<lambda>(_, db'). Inr db')"
| "sched_step (EvHeartbeat a e nid url status role obs) db =
     rbind (arbiter_heartbeat a e nid url status role obs db) (\<lambda>(_, db'). Inr db')"
| "sched_step (EvPeerHeartbeat h) db = heartbeat_create h db"
| "sched_step (EvVote cfg e pid voter vote reason) db =
     rbind (record_vote cfg e pid voter vote reason db) (\<lambda>(_, db'). Inr db')"

definition sched_run :: "sched_event list \<Rightarrow> sched_db \<Rightarrow> sched_db" where
  "sched_run = run_events sched_step"

text \<open>The events of a store whose every process runs the quorum authority.\<close>

fun clustered :: "sched_event \<Rightarrow> bool" where
  "clustered (EvSubmit (LocalArbiter _) _ _) = False"
| "clustered (EvEnsure (LocalArbiter _) _ _ _ _ _ _) = False"
| "clustered _ = True"

subsection \<open>Frames\<close>

lemma create_handoff_envelopeD:
  "create_handoff_envelope e run task f t c tn ci s rv rf rp db = Inr (h, db') \<Longrightarrow>
     db' = db\<lparr>sd_handoffs := sd_handoffs db @ [h]\<rparr> \<and> ho_from_control_plane_id h = f \<and> ho_to_control_plane_id h = t
     \<and> ho_committed_lease_id h = c \<and> ho_term_no h = tn \<and> ho_commit_index h = ci
     \<and> ho_run_id h = run \<and> ho_runtime_task_id h = task"
  by (auto simp: create_handoff_envelope_def Let_def result_simps)

lemma heartbeat_createD:
  "heartbeat_create h db = Inr db' \<Longrightarrow> db' = db\<lparr>sd_heartbeats := sd_heartbeats db @ [h]\<rparr>"
  by (auto simp: heartbeat_create_def result_simps)

lemma ensure_leaseD:
  assumes "ensure_committed_scheduler_lease a cp e eh run task hs db = Inr ((res, h), db')"
  obtains db1 where "arbiter_submit a e (dispatch_request cp run task) db = Inr (res, db1)" and "sr_granted res"
    and "\<exists>rows. db' = db1\<lparr>sd_handoffs := sd_handoffs db1 @ rows\<rparr>"
proof -
  obtain db1 where one: "arbiter_submit a e (dispatch_request cp run task) db = Inr (res, db1)" "sr_granted res"
    and rest: "(case (sr_previous_committed_lease res, sr_committed_lease res) of
            (Some previous, Some current) \<Rightarrow>
              if cl_control_plane_id (lp_lease previous) \<noteq> cl_control_plane_id (lp_lease current)
              then rbind (create_control_plane_handoff eh run task (cl_control_plane_id (lp_lease previous))
                            (cl_control_plane_id (lp_lease current)) (lp_lease current) hs db1)
                     (\<lambda>(h, db2). Inr ((res, Some h), db2))
              else Inr ((res, None), db1)
          | _ \<Rightarrow> Inr ((res, None), db1)) = Inr ((res, h), db')"
    using assms unfolding ensure_committed_scheduler_lease_def rbind_eq_Inr
    by (force split: if_splits option.splits simp: rbind_eq_Inr)
  show thesis
  proof (rule that [OF one])
    show "\<exists>rows. db' = db1\<lparr>sd_handoffs := sd_handoffs db1 @ rows\<rparr>"
      using rest by (auto split: option.splits if_splits simp: rbind_eq_Inr create_control_plane_handoff_def
          dest!: create_handoff_envelopeD intro: exI [of _ "[]"])
  qed
qed

lemma release_scheduler_leaseD:
  "release_scheduler_lease a e lid reason db = Inr (r, db') \<Longrightarrow>
     \<exists>rr. arbiter_release a e lid reason db = Inr (rr, db') \<and> rr_decision rr = Some (fst r)"
  by (auto simp: release_scheduler_lease_def rbind_eq_Inr split: option.splits)

lemma arbiter_heartbeat_frame:
  "arbiter_heartbeat a e nid url status role obs db = Inr (v, db') \<Longrightarrow> same_but_cluster db db'"
proof (cases a)
  case (ClusterArbiter cfg)
  assume "arbiter_heartbeat a e nid url status role obs db = Inr (v, db')"
  then obtain n where hb: "quorum_heartbeat_node cfg e nid url status role obs db = Inr ((n, v), db')"
    using ClusterArbiter by (auto simp: rbind_eq_Inr)
  obtain e1 at nid' url' e2 t where "ensure_active_term cfg e2 at (snd (upsert_node e1 nid' url' status role at db)) = Inr (t, db')"
    using hb by (auto simp: quorum_heartbeat_node_def Let_def rbind_eq_Inr split: prod.splits)
       (metis snd_conv)
  then show ?thesis
    using upsert_node_frame(1) ensure_active_term_frame by (blast intro: same_but_cluster_trans)
qed auto

lemma record_vote_leases:
  assumes rv: "record_vote cfg e pid voter vote reason db = Inr (r, db')"
  shows "sd_leases db' = sd_leases db"
proof -
  obtain p where p: "proposal_get pid db = Some p"
    using rv by (auto simp: record_vote_def split: option.splits)
  obtain t db1 where en: "ensure_active_term cfg (env_from 1 e) (clock e 0) db = Inr (t, db1)"
    using rv p by (auto simp: record_vote_def rbind_eq_Inr)
  obtain n dbn where up: "upsert_node (env_from 10 e) voter (''internal://'' @ voter) ''active'' ''peer'' (clock e 10) db1 = (n, dbn)"
    by (metis surj_pair)
  obtain v where cv: "create_vote (env_from 20 e) pid (tm_term_no t) (an_node_id n) vote reason dbn = Inr (v, db')"
    using rv p en up by (auto simp: record_vote_def rbind_eq_Inr simp del: append.simps append_Cons)
  have "sd_leases dbn = sd_leases db1"
    using upsert_node_frame(1) [of db1 "env_from 10 e" voter "''internal://'' @ voter" "''active''" "''peer''" "clock e 10"] up
    by (simp add: same_but_cluster_def)
  moreover have "sd_leases db' = sd_leases dbn" using create_vote_frame [OF cv] by auto
  ultimately show ?thesis using ensure_active_term_frame [OF en] by (simp add: same_but_cluster_def)
qed

text \<open>A transaction changes the ledger through a submission, through a release, or not at all.\<close>

lemma sched_step_cases:
  assumes "sched_step ev db = Inr db'"
  obtains (quiet) "sd_leases db' = sd_leases db"
    | (submitted) a e rq res dbx where "arbiter_submit a e rq db = Inr (res, dbx)" "sd_leases db' = sd_leases dbx"
    | (freed) a e lid reason rr where "arbiter_release a e lid reason db = Inr (rr, db')"
proof (cases ev)
  case (EvSubmit a e rq)
  then show thesis using assms submitted by (auto simp: rbind_eq_Inr)
next
  case (EvEnsure a cp e eh run task hs)
  then obtain res h where "ensure_committed_scheduler_lease a cp e eh run task hs db = Inr ((res, h), db')"
    using assms by (auto simp: rbind_eq_Inr)
  then show thesis
    by (rule ensure_leaseD) (use submitted in \<open>auto\<close>)
next
  case (EvRelease a e lid reason)
  then show thesis using assms freed by (auto simp: rbind_eq_Inr)
next
  case (EvServiceRelease a e lid reason)
  then show thesis using assms freed by (auto simp: rbind_eq_Inr dest!: release_scheduler_leaseD)
next
  case (EvHeartbeat a e nid url status role obs)
  then show thesis using assms quiet by (auto simp: rbind_eq_Inr same_but_cluster_def dest!: arbiter_heartbeat_frame)
next
  case (EvPeerHeartbeat h)
  then show thesis using assms quiet by (auto dest!: heartbeat_createD)
next
  case (EvVote cfg e pid voter vote reason)
  then show thesis using assms quiet by (auto simp: rbind_eq_Inr dest!: record_vote_leases)
qed

lemma sched_step_ledger:
  assumes "ledger_ok (sd_leases db)" and "sched_step ev db = Inr db'"
  shows "ledger_ok (sd_leases db')"
  using assms(2)
  by (cases rule: sched_step_cases)
    (use assms(1) in \<open>auto dest: any_arbiter.submit_keeps_ledger any_arbiter.release_keeps_ledger\<close>)

lemma sched_step_retired:
  assumes "ledger_ok (sd_leases db) \<and> token_retired tk (sd_leases db)" and "sched_step ev db = Inr db'"
  shows "ledger_ok (sd_leases db') \<and> token_retired tk (sd_leases db')"
proof
  show "ledger_ok (sd_leases db')" using assms sched_step_ledger by blast
  show "token_retired tk (sd_leases db')"
    using assms(2)
  proof (cases rule: sched_step_cases)
    case quiet
    then show ?thesis using assms(1) by simp
  next
    case (submitted a e rq res dbx)
    then show ?thesis using assms(1) any_arbiter.submit_keeps_retired [OF _ submitted(1)] by simp
  next
    case (freed a e lid reason rr)
    then show ?thesis using assms(1) any_arbiter.release_keeps_retired by blast
  qed
qed

lemma sched_run_ledger: "ledger_ok (sd_leases db) \<Longrightarrow> ledger_ok (sd_leases (sched_run evs db))"
  unfolding sched_run_def
  by (rule run_events_invariant [where I = "\<lambda>db. ledger_ok (sd_leases db)"]) (auto intro: sched_step_ledger)

lemma sched_run_retired:
  "ledger_ok (sd_leases db) \<Longrightarrow> token_retired tk (sd_leases db) \<Longrightarrow> token_retired tk (sd_leases (sched_run evs db))"
  unfolding sched_run_def
  using run_events_invariant [of "\<lambda>db. ledger_ok (sd_leases db) \<and> token_retired tk (sd_leases db)" sched_step db evs]
    sched_step_retired
  by blast

lemma sched_step_cluster:
  assumes ok: "cluster_ok db" and "clustered ev" and st: "sched_step ev db = Inr db'"
  shows "cluster_ok db'"
proof (cases ev)
  case (EvSubmit a e rq)
  then show ?thesis using assms by (cases a) (auto simp: rbind_eq_Inr intro: quorum_submit_keeps)
next
  case (EvEnsure a cp e eh run task hs)
  then obtain cfg where a: "a = ClusterArbiter cfg" using assms(2) by (cases a) auto
  obtain res h where "ensure_committed_scheduler_lease a cp e eh run task hs db = Inr ((res, h), db')"
    using st EvEnsure by (auto simp: rbind_eq_Inr)
  then obtain db1 rows where sub: "quorum_submit_proposal cfg e (dispatch_request cp run task) db = Inr (res, db1)"
    and db': "db' = db1\<lparr>sd_handoffs := sd_handoffs db1 @ rows\<rparr>"
    using a by (elim ensure_leaseD) auto
  show ?thesis
    by (rule cluster_ok_cong [OF quorum_submit_keeps [OF ok sub]]) (simp_all add: db')
next
  case (EvRelease a e lid reason)
  show ?thesis
  proof (cases a)
    case (LocalArbiter cfg)
    with st EvRelease obtain rr where "quorum_release_lease cfg e lid reason db = Inr (rr, db')"
      by (auto simp: rbind_eq_Inr local_release_lease_def quorum_release_lease_def Let_def
          split: option.splits prod.splits)
    then show ?thesis using quorum_release_keeps [OF ok] by blast
  next
    case (ClusterArbiter cfg)
    then show ?thesis using st EvRelease quorum_release_keeps [OF ok] by (auto simp: rbind_eq_Inr)
  qed
next
  case (EvServiceRelease a e lid reason)
  show ?thesis
  proof (cases a)
    case (LocalArbiter cfg)
    with st EvServiceRelease obtain rr where "quorum_release_lease cfg e lid reason db = Inr (rr, db')"
      by (auto simp: rbind_eq_Inr local_release_lease_def quorum_release_lease_def Let_def
          split: option.splits prod.splits dest!: release_scheduler_leaseD)
    then show ?thesis using quorum_release_keeps [OF ok] by blast
  next
    case (ClusterArbiter cfg)
    then show ?thesis using st EvServiceRelease quorum_release_keeps [OF ok]
      by (auto simp: rbind_eq_Inr dest!: release_scheduler_leaseD)
  qed
next
  case (EvHeartbeat a e nid url status role obs)
  then show ?thesis using assms by (cases a) (auto simp: rbind_eq_Inr intro: quorum_heartbeat_keeps)
next
  case (EvPeerHeartbeat h)
  then have db': "db' = db\<lparr>sd_heartbeats := sd_heartbeats db @ [h]\<rparr>"
    using st by (auto dest!: heartbeat_createD)
  show ?thesis by (rule cluster_ok_cong [OF ok]) (simp_all add: db')
next
  case (EvVote cfg e pid voter vote reason)
  then show ?thesis using st record_vote_keeps [OF ok] by (auto simp: rbind_eq_Inr)
qed

lemma sched_run_cluster:
  "cluster_ok db \<Longrightarrow> \<forall>ev\<in>set evs. clustered ev \<Longrightarrow> cluster_ok (sched_run evs db)"
  unfolding sched_run_def
proof (induction evs arbitrary: db)
  case (Cons ev evs)
  then show ?case
    using sched_step_cluster [of db ev] by (auto split: sum.splits)
qed simp

end
