(* ===== verification/Quorum_Election.thy ===== *)
theory Quorum_Election
  imports Quorum_Terms
begin

section \<open>Who leads, and what the leader obtains\<close>

text \<open>
  The leader after a submission's nodes were registered is the least active node, so a submission is refused as stale exactly
  when it names another node. And a submission always comes to an answer, unless random identifiers collide.
\<close>

subsection \<open>The leader\<close>

definition active_ids :: "arbiter_cfg \<Rightarrow> time \<Rightarrow> sched_db \<Rightarrow> string set" where
  "active_ids cfg now db = an_node_id ` set (active_nodes cfg now db)"

lemma active_ids_mem:
  "x \<in> active_ids cfg now db \<longleftrightarrow>
     (\<exists>n\<in>set (sd_nodes db). an_node_id n = x \<and> an_status n = ''active'' \<and> active_node_threshold cfg now \<le> an_last_heartbeat_at n)"
  by (auto simp: active_ids_def active_nodes_def)

lemma upsert_active_ids:
  assumes "0 \<le> ac_election_timeout_ms cfg"
  shows "active_ids cfg now (snd (upsert_node e nid url ''active'' role now db)) = insert nid (active_ids cfg now db)"
proof -
  have now: "active_node_threshold cfg now \<le> now" using assms by (simp add: active_node_threshold_def milliseconds_def)
  show ?thesis
  proof (cases "sql_first (\<lambda>n. an_node_id n = nid) (sd_nodes db)")
    case None
    then have up: "sd_nodes (snd (upsert_node e nid url ''active'' role now db)) =
        sd_nodes db @ [\<lparr>an_node_id = nid, an_bind_url = url, an_status = ''active'', an_role = role,
          an_last_heartbeat_at = now, an_created_at = clock e 0, an_updated_at = clock e 0\<rparr>]"
      by (simp add: upsert_node_def Let_def del: sql_first_None)
    show ?thesis using now by (auto simp: up active_ids_def active_nodes_def sql_where_def)
  next
    case (Some n)
    have n: "n \<in> set (sd_nodes db)" "an_node_id n = nid" using sql_first_Some [OF Some] by auto
    let ?upd = "\<lambda>q. q\<lparr>an_bind_url := url, an_status := ''active'', an_role := role, an_last_heartbeat_at := now, an_updated_at := clock e 0\<rparr>"
    have up: "sd_nodes (snd (upsert_node e nid url ''active'' role now db)) = map (\<lambda>q. if an_node_id q = nid then ?upd q else q) (sd_nodes db)"
      using Some by (simp add: upsert_node_def Let_def sql_update_def)
    show ?thesis
    proof (rule set_eqI)
      fix x
      show "x \<in> active_ids cfg now (snd (upsert_node e nid url ''active'' role now db)) \<longleftrightarrow> x \<in> insert nid (active_ids cfg now db)"
      proof (cases "x = nid")
        case True
        have "?upd n \<in> set (map (\<lambda>q. if an_node_id q = nid then ?upd q else q) (sd_nodes db))" using n by force
        then show ?thesis using now n(2) True unfolding active_ids_mem up by (intro iffI insertI1) (auto intro!: bexI [of _ "?upd n"])
      next
        case False
        then show ?thesis by (auto simp: active_ids_mem up)
      qed
    qed
  qed
qed

lemma ensure_active_ids:
  assumes "0 \<le> ac_election_timeout_ms cfg" and "ensure_active_term cfg e now db = Inr (t, db')" and "terms_ok (sd_terms db)"
  shows "active_ids cfg now db' = insert (ac_node_id cfg) (active_ids cfg now db)"
    and "tm_leader_node_id t = Min (active_ids cfg now db')"
proof -
  note eff = ensure_active_term_effect [OF assms(2,3)]
  show ids: "active_ids cfg now db' = insert (ac_node_id cfg) (active_ids cfg now db)"
    using eff(4) upsert_active_ids [OF assms(1)] by (simp add: active_ids_def active_nodes_def)
  then have "active_nodes cfg now db' \<noteq> []" by (auto simp: active_ids_def)
  then show "tm_leader_node_id t = Min (active_ids cfg now db')"
    using eff(5) desired_leader_least by (simp add: active_ids_def)
qed

text \<open>The node that submits is the one the request names, and by default the leader.\<close>

lemma quorum_resolve_leader:
  assumes ok: "cluster_ok db" and to: "0 \<le> ac_election_timeout_ms cfg"
    and res: "quorum_resolve_authority cfg e now rq db = Inr ((aid, t), db')"
  shows "tm_leader_node_id t = Min (active_ids cfg now db')" and "aid = str_or (rq_authority_node_id rq) (tm_leader_node_id t)"
proof -
  let ?db = "snd (upsert_node e (ac_node_id cfg) (ac_bind_url cfg) ''active'' ''peer'' now db)"
  have ok0: "cluster_ok ?db" by (rule upsert_keeps_cluster [OF ok])
  obtain t1 db1 where one: "ensure_active_term cfg (env_from 1 e) now ?db = Inr (t1, db1)"
    using res by (auto simp: quorum_resolve_authority_def Let_def rbind_eq_Inr)
  note ids1 = ensure_active_ids [OF to one]
  have ok1: "cluster_ok db1" by (rule ensure_keeps_cluster [OF ok0 one])
  let ?aid = "str_or (rq_authority_node_id rq) (tm_leader_node_id t1)"
  let ?url = "str_or (rq_authority_bind_url rq) (if ?aid = ac_node_id cfg then ac_bind_url cfg else ''internal://'' @ ?aid)"
  have "tm_leader_node_id t = Min (active_ids cfg now db') \<and> aid = str_or (rq_authority_node_id rq) (tm_leader_node_id t)"
  proof (cases "?aid = ac_node_id cfg")
    case True
    then have "t = t1" "db' = db1" "aid = ?aid" using res one by (auto simp: quorum_resolve_authority_def Let_def)
    then show ?thesis using ids1(2) ok0 by (simp add: cluster_ok_def)
  next
    case False
    let ?db2 = "snd (upsert_node (env_from 10 e) ?aid ?url ''active'' ''peer'' now db1)"
    have two: "ensure_active_term cfg (env_from 11 e) now ?db2 = Inr (t, db')" and aid: "aid = ?aid"
      using res one False by (auto simp: quorum_resolve_authority_def Let_def rbind_eq_Inr)
    have tok: "terms_ok (sd_terms ?db)" "terms_ok (sd_terms ?db2)"
      using ok0 upsert_keeps_cluster [OF ok1] by (simp_all add: cluster_ok_def)
    note ids2 = ensure_active_ids [OF to two tok(2)]
    have "aid = str_or (rq_authority_node_id rq) (tm_leader_node_id t)"
    proof (cases "str_or (rq_authority_node_id rq) [] = []")
      case True
      then have "?aid = tm_leader_node_id t1" by (auto simp: str_or_def split: option.splits if_splits)
      moreover have "tm_leader_node_id t1 \<in> active_ids cfg now db1"
        unfolding ids1(2) [OF tok(1)] by (rule Min_in) (use ids1(1) [OF tok(1)] in \<open>auto simp: active_ids_def\<close>)
      ultimately have "active_ids cfg now db' = active_ids cfg now db1"
        using ids2(1) ids1(1) [OF tok(1)] upsert_active_ids [OF to] by auto
      then have "tm_leader_node_id t = tm_leader_node_id t1" using ids2(2) ids1(2) [OF tok(1)] by simp
      then show ?thesis using aid by simp
    qed (use aid in \<open>auto simp: str_or_def split: option.splits if_splits\<close>)
    then show ?thesis using ids2(2) by simp
  qed
  then show "tm_leader_node_id t = Min (active_ids cfg now db')" and "aid = str_or (rq_authority_node_id rq) (tm_leader_node_id t)"
    by simp_all
qed

text \<open>On a free domain a submission is stale exactly when it names a node that does not lead.\<close>

lemma quorum_stale:
  assumes ok: "cluster_ok db" and to: "0 \<le> ac_election_timeout_ms cfg"
    and sub: "quorum_submit_proposal cfg e rq db = Inr (res, db')"
    and none: "active_committed_lease_for_domain (rq_domain_kind rq) (rq_domain_key rq) (clock e 0) db = None"
  shows "sr_stale_leader res \<longleftrightarrow>
           str_or (rq_authority_node_id rq) (Min (active_ids cfg (clock e 0) db')) \<noteq> Min (active_ids cfg (clock e 0) db')"
    and "sr_stale_leader res \<Longrightarrow> \<not> sr_granted res \<and> sr_votes res = [] \<and> sd_leases db' = sd_leases db"
    and "ac_node_id cfg \<in> active_ids cfg (clock e 0) db'"
proof -
  let ?now = "clock e 0" and ?latest = "latest_committed_lease_for_domain (rq_domain_kind rq) (rq_domain_key rq)"
  from sub obtain aid trm db1 p db2 where
    r: "quorum_resolve_authority cfg (env_from 1 e) ?now rq db = Inr ((aid, trm), db1)"
    and p: "new_proposal (clock e 40) (hex12 e 40) rq = Inr p" and c: "proposal_create p db1 = Inr db2"
    and L2: "sd_leases db2 = sd_leases db" and N2: "sd_nodes db2 = sd_nodes db1"
    and dec: "quorum_decide cfg (env_from 41 e) ?now rq aid trm p db2 = Inr (res, db')"
    by (rule quorum_submitD)
  note rs = quorum_resolve_effect [OF ok r] and lead = quorum_resolve_leader [OF ok to r]
  note pd = new_proposalD [OF p] and cd = proposal_createD [OF c] and fr = ledger_frame [OF L2]
  have none2: "active_committed_lease_for_domain (rq_domain_kind rq) (rq_domain_key rq) ?now db2 = None" using none fr by simp
  have ok2: "cluster_ok db2" by (rule cluster_ok_cong [OF rs(1)]) (auto simp: cd)
  have "pr_proposal_id p \<notin> pr_proposal_id ` set (sd_proposals db1)" using c by (auto simp: proposal_create_def rbind_eq_Inr)
  moreover have "vt_proposal_id ` set (sd_votes db1) \<subseteq> pr_proposal_id ` set (sd_proposals db1)"
    using rs(1) by (simp add: cluster_ok_def votes_ok_def)
  ultimately have new: "pr_proposal_id p \<notin> vt_proposal_id ` set (sd_votes db2)" using cd by auto
  have main: "(sr_stale_leader res \<longleftrightarrow> aid \<noteq> tm_leader_node_id trm) \<and> sd_nodes db' = sd_nodes db2
      \<and> (sr_stale_leader res \<longrightarrow> \<not> sr_granted res \<and> sr_votes res = [] \<and> sd_leases db' = sd_leases db2)"
  proof (cases "aid = tm_leader_node_id trm")
    case True
    then have v: "quorum_vote_and_grant cfg (env_from 41 e) ?now p trm (?latest db2) db2 = Inr (res, db')"
      using dec none2 by (simp add: quorum_decide_def Let_def)
    show ?thesis using vote_outcome(3,6) [OF v ok2 new none2 pd(2,3)] True pd by simp
  next
    case False
    then have "quorum_reject cfg (env_from 41 e) ?now p (granted_epoch (pr_requested_epoch p) (?latest db2))
        ''stale_leader_or_non_leader_authority_node'' ?now trm None [] True (?latest db2) db2 = Inr (res, db')"
      using dec none2 by (simp add: quorum_decide_def Let_def)
    from quorum_rejectD(2,4,5,8,11) [OF this] False show ?thesis by simp
  qed
  have ids: "active_ids cfg ?now db' = active_ids cfg ?now db1"
    using main N2 by (simp add: active_ids_def active_nodes_def)
  show "sr_stale_leader res \<longleftrightarrow>
           str_or (rq_authority_node_id rq) (Min (active_ids cfg (clock e 0) db')) \<noteq> Min (active_ids cfg (clock e 0) db')"
    using main lead ids by simp
  show "\<not> sr_granted res \<and> sr_votes res = [] \<and> sd_leases db' = sd_leases db" if "sr_stale_leader res"
    using main that L2 by simp
  show "ac_node_id cfg \<in> active_ids cfg (clock e 0) db'"
    using rs(6) [OF to] ids by (simp add: active_ids_def)
qed

subsection \<open>A submission is answered\<close>

text \<open>The identifiers an environment draws are new to the store, and no two of them are equal.\<close>

definition lease_ids_unused :: "env \<Rightarrow> sched_db \<Rightarrow> bool" where
  "lease_ids_unused e db \<longleftrightarrow>
     (\<forall>i. new_id ''decision'' (hex12 e i) \<notin> de_decision_id ` set (sd_decisions db)
        \<and> new_id ''schedlease'' (hex12 e i) \<notin> de_lease_id ` set (sd_decisions db)
        \<and> new_id ''schedlease'' (hex12 e i) \<notin> cl_lease_id ` set (sd_leases db)
        \<and> new_id ''committed'' (hex12 e i) \<notin> cl_committed_lease_id ` set (sd_leases db)
        \<and> new_id ''fence'' (hex12 e i) \<notin> cl_fencing_token ` set (sd_leases db))"

definition ids_unused :: "env \<Rightarrow> sched_db \<Rightarrow> bool" where
  "ids_unused e db \<longleftrightarrow> inj (hex12 e) \<and> lease_ids_unused e db \<and>
     (\<forall>i. new_id ''proposal'' (hex12 e i) \<notin> pr_proposal_id ` set (sd_proposals db)
        \<and> new_id ''term'' (hex12 e i) \<notin> tm_term_id ` set (sd_terms db)
        \<and> new_id ''vote'' (hex12 e i) \<notin> vt_vote_id ` set (sd_votes db))"

lemma lease_ids_unused_cong:
  "lease_ids_unused e db \<Longrightarrow> sd_decisions db' = sd_decisions db \<Longrightarrow> sd_leases db' = sd_leases db \<Longrightarrow> lease_ids_unused (env_from k e) db'"
  by (simp add: lease_ids_unused_def env_from_def)

lemma inj_env_from: "inj (hex12 e) \<Longrightarrow> inj (hex12 (env_from k e))"
  unfolding env_from_def by (rule injI) (simp add: inj_eq)

lemma ensure_term_ids:
  assumes "ensure_active_term cfg e obs db = Inr (t, db')"
  shows "tm_term_id ` set (sd_terms db') \<subseteq> insert (new_id ''term'' (hex12 e 2)) (tm_term_id ` set (sd_terms db))"
proof -
  let ?db = "snd (upsert_node e (ac_node_id cfg) (ac_bind_url cfg) ''active'' ''peer'' obs db)"
  have same: "sd_terms ?db = sd_terms db" by (rule upsert_node_frame(2))
  have h: "hex12 (env_from 2 e) 0 = hex12 e 2" by (simp add: env_from_def numeral_2_eq_2)
  have op: "tm_term_id ` set (sd_terms db') \<subseteq> insert (new_id ''term'' (hex12 e 2)) (tm_term_id ` set (sd_terms d))"
    if "open_authority_term (env_from 2 e) no ld q d = Inr (t, db')" for no ld q d
    using that by (auto simp: open_authority_term_def Let_def rbind_eq_Inr h)
  have cl: "tm_term_id ` set (sd_terms (snd (close_authority_term c tt r ?db))) = tm_term_id ` set (sd_terms db)" for c tt r
    by (simp add: close_authority_term_def Let_def sql_update_keys same)
  show ?thesis
  proof (cases "active_authority_term ?db")
    case None
    then show ?thesis using assms op [of _ _ _ ?db] by (simp add: ensure_active_term_def Let_def same)
  next
    case (Some c)
    show ?thesis
    proof (cases "tm_leader_node_id c = desired_leader cfg (active_nodes cfg obs ?db)")
      case True
      let ?u = "\<lambda>q. q\<lparr>tm_quorum_size := effective_quorum_size cfg (length (active_nodes cfg obs ?db)), tm_last_heartbeat_at := obs\<rparr>"
      have "db' = ?db\<lparr>sd_terms := sql_update (\<lambda>q. tm_term_id q = tm_term_id c) ?u (sd_terms ?db)\<rparr>"
        using assms Some True by (simp add: ensure_active_term_def Let_def)
      then have "tm_term_id ` set (sd_terms db') = tm_term_id ` set (sd_terms db)" by (simp add: sql_update_keys same)
      then show ?thesis by blast
    next
      case False
      then show ?thesis
        using assms Some op [of _ _ _ "snd (close_authority_term (clock e 1) c ''leader_rotated_or_expired'' ?db)"]
        by (simp add: ensure_active_term_def Let_def cl)
    qed
  qed
qed

lemma resolve_returns:
  assumes ok: "cluster_ok db" and fresh: "\<forall>i. new_id ''term'' (hex12 e i) \<notin> tm_term_id ` set (sd_terms db)" and inj: "inj (hex12 e)"
  shows "\<exists>aid t db'. quorum_resolve_authority cfg e now rq db = Inr ((aid, t), db')"
proof -
  let ?db = "snd (upsert_node e (ac_node_id cfg) (ac_bind_url cfg) ''active'' ''peer'' now db)"
  have ok0: "cluster_ok ?db" by (rule upsert_keeps_cluster [OF ok])
  have h: "hex12 (env_from k e) 2 = hex12 e (k + 2)" for k by (simp add: env_from_def)
  have "\<exists>t db1. ensure_active_term cfg (env_from 1 e) now ?db = Inr (t, db1)"
    by (rule ensure_active_term_returns) (use ok0 fresh in \<open>simp_all add: cluster_ok_def upsert_node_frame(2) h\<close>)
  then obtain t1 db1 where one: "ensure_active_term cfg (env_from 1 e) now ?db = Inr (t1, db1)" by blast
  have ok1: "cluster_ok db1" by (rule ensure_keeps_cluster [OF ok0 one])
  have two: "\<exists>t db3. ensure_active_term cfg (env_from 11 e) now (snd (upsert_node (env_from 10 e) aid url ''active'' ''peer'' now db1)) = Inr (t, db3)"
    for aid url
  proof (rule ensure_active_term_returns)
    show "terms_ok (sd_terms (snd (upsert_node (env_from 10 e) aid url ''active'' ''peer'' now db1)))"
      using upsert_keeps_cluster [OF ok1] by (simp add: cluster_ok_def)
    have "new_id ''term'' (hex12 e 13) \<notin> insert (new_id ''term'' (hex12 e 3)) (tm_term_id ` set (sd_terms db))"
      using inj fresh by (simp add: inj_eq)
    moreover have "tm_term_id ` set (sd_terms db1) \<subseteq> insert (new_id ''term'' (hex12 e 3)) (tm_term_id ` set (sd_terms db))"
      using ensure_term_ids [OF one] by (simp add: upsert_node_frame(2) h numeral_3_eq_3)
    ultimately show "new_id ''term'' (hex12 (env_from 11 e) 2)
        \<notin> tm_term_id ` set (sd_terms (snd (upsert_node (env_from 10 e) aid url ''active'' ''peer'' now db1)))"
      by (auto simp: upsert_node_frame(2) h)
  qed
  let ?aid = "str_or (rq_authority_node_id rq) (tm_leader_node_id t1)"
  let ?url = "str_or (rq_authority_bind_url rq) (if ?aid = ac_node_id cfg then ac_bind_url cfg else ''internal://'' @ ?aid)"
  show ?thesis
  proof (cases "?aid = ac_node_id cfg")
    case False
    obtain t db3 where "ensure_active_term cfg (env_from 11 e) now
        (snd (upsert_node (env_from 10 e) ?aid ?url ''active'' ''peer'' now db1)) = Inr (t, db3)"
      using two by blast
    then have "quorum_resolve_authority cfg e now rq db = Inr ((?aid, t), db3)"
      using False one by (simp add: quorum_resolve_authority_def Let_def del: One_nat_def)
    then show ?thesis by blast
  qed (use one in \<open>simp add: quorum_resolve_authority_def Let_def del: One_nat_def\<close>)
qed

lemma collect_votes_returns:
  assumes "no \<ge> 1" and "inj (hex12 e)" and "\<forall>i. new_id ''vote'' (hex12 e i) \<notin> vt_vote_id ` set (sd_votes db)"
  shows "\<exists>db'. collect_votes e pid no ns db = Inr db'"
  using assms
proof (induction ns arbitrary: e db)
  case (Cons n ns)
  have "\<exists>v db1. create_vote e pid no (an_node_id n) ''granted'' ''leader_collected_peer_vote'' db = Inr (v, db1)
      \<and> vt_vote_id ` set (sd_votes db1) \<subseteq> insert (new_id ''vote'' (hex12 e 0)) (vt_vote_id ` set (sd_votes db))"
    using Cons.prems by (auto simp: create_vote_def Let_def sql_insert_def split: option.split)
  then obtain v db1 where one: "create_vote e pid no (an_node_id n) ''granted'' ''leader_collected_peer_vote'' db = Inr (v, db1)"
    and ids: "vt_vote_id ` set (sd_votes db1) \<subseteq> insert (new_id ''vote'' (hex12 e 0)) (vt_vote_id ` set (sd_votes db))" by blast
  have "new_id ''vote'' (hex12 e (Suc i)) \<noteq> new_id ''vote'' (hex12 e 0)" for i using Cons.prems(2) by (simp add: inj_eq)
  then have new: "new_id ''vote'' (hex12 e (Suc i)) \<notin> vt_vote_id ` set (sd_votes db1)" for i
    using ids Cons.prems(3) by blast
  have "\<exists>db'. collect_votes (env_from 1 e) pid no ns db1 = Inr db'"
  proof (rule Cons.IH)
    show "\<forall>i. new_id ''vote'' (hex12 (env_from 1 e) i) \<notin> vt_vote_id ` set (sd_votes db1)"
      using new by (simp add: env_from_def)
  qed (use Cons.prems inj_env_from in auto)
  then show ?case by (auto simp: one)
qed simp

lemma quorum_decision_step:
  assumes "ep \<ge> 1" and "pr_run_id p \<in> set (sd_runs db)" and "pr_proposal_id p \<in> pr_proposal_id ` set (sd_proposals db)"
    and "new_id ''decision'' h1 \<notin> de_decision_id ` set (sd_decisions db)" and "new_id ''schedlease'' h2 \<notin> de_lease_id ` set (sd_decisions db)"
  shows "\<exists>d. new_decision c h1 h2 p ep v r ex = Inr d \<and> de_lease_id d = new_id ''schedlease'' h2
     \<and> decision_create d db = Inr (db\<lparr>sd_decisions := sd_decisions db @ [d]\<rparr>)"
  using assms by (auto simp: new_decision_def decision_create_def sql_insert_def)

lemma quorum_reject_returns:
  assumes "epoch \<ge> 1" and "pr_run_id p \<in> set (sd_runs db)" and "pr_proposal_id p \<in> pr_proposal_id ` set (sd_proposals db)"
    and "lease_ids_unused e db"
  shows "\<exists>res db'. quorum_reject cfg e now p epoch reason expires term conflict votes stale latest db = Inr (res, db')"
  using quorum_decision_step [OF assms(1-3), of "hex12 e 0" "hex12 e 1" "clock e 0" "''rejected''" reason expires] assms(4)
  by (auto simp: quorum_reject_def Let_def lease_ids_unused_def split: prod.split)

lemma quorum_grant_returns:
  assumes led: "ledger_ok (sd_leases db)" and p: "pr_requested_epoch p \<ge> 1" "pr_run_id p \<in> set (sd_runs db)"
      "pr_proposal_id p \<in> pr_proposal_id ` set (sd_proposals db)" and fresh: "lease_ids_unused e db" and tn: "tm_term_no trm \<ge> 1"
  shows "\<exists>res db'. quorum_grant cfg e now p trm votes latest db = Inr (res, db')"
proof -
  obtain lt dbr where rel: "release_expired_before_regrant (clock e 0) now latest db = (lt, dbr)" by (metis surj_pair)
  note ids = release_expired_ids [of "clock e 0" now latest db, unfolded rel snd_conv]
  let ?ep = "granted_epoch (pr_requested_epoch p) lt"
  have ep: "?ep \<ge> 1" using p(1) by (simp add: granted_epoch_def)
  have "\<exists>d. new_decision (clock e 1) (hex12 e 0) (hex12 e 1) p ?ep ''granted'' ''quorum_committed''
        (now + seconds (pr_requested_lease_seconds p)) = Inr d \<and> de_lease_id d = new_id ''schedlease'' (hex12 e 1)
      \<and> decision_create d dbr = Inr (dbr\<lparr>sd_decisions := sd_decisions dbr @ [d]\<rparr>)"
    by (rule quorum_decision_step [OF ep]) (use p fresh ids in \<open>simp_all add: lease_ids_unused_def\<close>)
  then obtain d where d: "new_decision (clock e 1) (hex12 e 0) (hex12 e 1) p ?ep ''granted'' ''quorum_committed''
        (now + seconds (pr_requested_lease_seconds p)) = Inr d" "de_lease_id d = new_id ''schedlease'' (hex12 e 1)"
      "decision_create d dbr = Inr (dbr\<lparr>sd_decisions := sd_decisions dbr @ [d]\<rparr>)"
    by blast
  let ?db1 = "dbr\<lparr>sd_decisions := sd_decisions dbr @ [d]\<rparr>"
  have okr: "ledger_ok (sd_leases dbr)"
    using release_expired_leases [of "clock e 0" now latest db] rel led by (auto intro: ledger_ok_release)
  then have idx: "next_commit_index ?db1 \<ge> 1" using next_commit_index_pos [of ?db1] by simp
  obtain l where l: "new_committed (clock (env_from 2 e) 0) (hex12 (env_from 2 e) 0) (hex12 (env_from 2 e) 1) p d
        (tm_term_no trm) (next_commit_index ?db1) ?ep = Inr l"
    "cl_committed_lease_id l = new_id ''committed'' (hex12 (env_from 2 e) 0)" "cl_lease_id l = de_lease_id d"
    "cl_fencing_token l = new_id ''fence'' (hex12 (env_from 2 e) 1)"
    using tn idx ep by (simp add: new_committed_def)
  have ins: "insert_committed_lease l ?db1 = Inr (?db1\<lparr>sd_leases := sd_leases dbr @ [l]\<rparr>)"
    using fresh ids l d(2) by (simp add: insert_committed_lease_def committed_create_def sql_insert_def lease_ids_unused_def env_from_def)
  show ?thesis
    by (simp add: quorum_grant_def rel d l(1) ins Let_def create_committed_lease_def proposal_update_status_def del: One_nat_def)
qed

text \<open>Unless identifiers collide, a well-formed submission on a free domain is answered.\<close>

lemma quorum_submit_returns:
  assumes ok: "cluster_ok db" and rq: "rq_requested_lease_seconds rq \<ge> 1" "rq_requested_epoch rq \<ge> 1" "rq_run_id rq \<in> set (sd_runs db)"
    and fresh: "ids_unused e db"
    and none: "active_committed_lease_for_domain (rq_domain_kind rq) (rq_domain_key rq) (clock e 0) db = None"
  shows "\<exists>res db'. quorum_submit_proposal cfg e rq db = Inr (res, db')"
proof -
  let ?now = "clock e 0" and ?e = "env_from 41 e" and ?latest = "latest_committed_lease_for_domain (rq_domain_kind rq) (rq_domain_key rq)"
  have "\<exists>aid t db1. quorum_resolve_authority cfg (env_from 1 e) ?now rq db = Inr ((aid, t), db1)"
    by (rule resolve_returns [OF ok]) (use fresh inj_env_from [of e 1] in \<open>simp_all add: ids_unused_def env_from_def\<close>)
  then obtain aid t db1 where r: "quorum_resolve_authority cfg (env_from 1 e) ?now rq db = Inr ((aid, t), db1)" by blast
  note rs = quorum_resolve_effect [OF ok r] and same = quorum_resolve_frame [OF r, unfolded same_but_cluster_def]
  obtain p where p: "new_proposal (clock e 40) (hex12 e 40) rq = Inr p" "pr_proposal_id p = new_id ''proposal'' (hex12 e 40)"
    "pr_run_id p = rq_run_id rq" "pr_requested_epoch p = rq_requested_epoch rq"
    using rq by (simp add: new_proposal_def)
  define db2 where "db2 = db1\<lparr>sd_proposals := sd_proposals db1 @ [p]\<rparr>"
  have c: "proposal_create p db1 = Inr db2"
    using fresh rq p same by (simp add: proposal_create_def sql_insert_def ids_unused_def db2_def)
  have pd: "pr_run_id p \<in> set (sd_runs db2)" "pr_proposal_id p \<in> pr_proposal_id ` set (sd_proposals db2)" "pr_requested_epoch p \<ge> 1"
    using p rq same by (simp_all add: db2_def)
  have tn: "tm_term_no t \<ge> 1" using rs(1,2) by (auto simp: cluster_ok_def terms_ok_def term_row_ok_def)
  have ep: "granted_epoch (pr_requested_epoch p) lt \<ge> 1" for lt using pd(3) by (simp add: granted_epoch_def)
  have none2: "active_committed_lease_for_domain (rq_domain_kind rq) (rq_domain_key rq) ?now db2 = None"
    using none ledger_frame [of db2 db] same by (simp add: db2_def)
  have votes: "\<forall>i. new_id ''vote'' (hex12 ?e i) \<notin> vt_vote_id ` set (sd_votes db2)"
    using fresh same by (simp add: ids_unused_def env_from_def db2_def)
  have inj: "inj (hex12 ?e)" using fresh inj_env_from by (simp add: ids_unused_def)
  have lu: "lease_ids_unused ?e db2"
    by (rule lease_ids_unused_cong [of e db]) (use fresh same in \<open>simp_all add: ids_unused_def db2_def\<close>)
  have "\<exists>res db'. quorum_decide cfg ?e ?now rq aid t p db2 = Inr (res, db')"
  proof (cases "aid = tm_leader_node_id t")
    case False
    then show ?thesis
      using quorum_reject_returns [OF ep pd(1,2) lu] none2 by (simp add: quorum_decide_def Let_def)
  next
    case True
    obtain db3 where cv: "collect_votes ?e (pr_proposal_id p) (tm_term_no t) (active_nodes cfg ?now db2) db2 = Inr db3"
      using collect_votes_returns [OF tn inj votes] by blast
    obtain rows where db3: "db3 = db2\<lparr>sd_votes := sd_votes db2 @ rows\<rparr>" using collect_votes_frame [OF cv] by blast
    let ?e' = "env_from (length (active_nodes cfg ?now db2)) ?e"
    have lu': "lease_ids_unused ?e' db3" by (rule lease_ids_unused_cong [OF lu]) (simp_all add: db3)
    have pd3: "pr_run_id p \<in> set (sd_runs db3)" "pr_proposal_id p \<in> pr_proposal_id ` set (sd_proposals db3)"
      using pd by (simp_all add: db3)
    have led: "ledger_ok (sd_leases db3)" using ok same by (simp add: cluster_ok_def db3 db2_def)
    show ?thesis
      using True none2 quorum_reject_returns [OF ep pd3 lu'] quorum_grant_returns [OF led pd(3) pd3 lu' tn]
      by (simp add: quorum_decide_def Let_def quorum_vote_and_grant_def cv)
  qed
  then show ?thesis by (simp add: quorum_submit_proposal_def Let_def r p(1) c del: One_nat_def)
qed

end
