(* ===== verification/Sched_Properties.thy ===== *)
theory Sched_Properties
  imports Sched_Service Quorum_Election
begin

section \<open>Properties of the scheduler\<close>

text \<open>
  The properties of scheduler leases on the shared store, over every sequence of transactions of
  any processes (\<open>sched_run\<close>), with the client lemmas of the dispatcher proved once inside
  \<open>lease_authority\<close> and reached through its interpretation \<open>any_arbiter\<close>. The witnesses run the
  model from the empty store with the fixtures of the last section before them.
\<close>

subsection \<open>What a dispatcher gets from any arbiter\<close>

context lease_authority begin

lemma dispatch_then_callback:
  assumes ok: "ledger_ok (sd_leases db)" and sub: "submit e rq db = Inr (res, db')" and g: "sr_granted res"
    and rt: "rq_domain_kind rq = ''runtime_task''"
  shows "\<exists>l. sr_committed_lease res = Some (committed_lease_payload l) \<and> l \<in> set (sd_leases db')
           \<and> cl_control_plane_id l = rq_control_plane_id rq \<and> live_at (clock e 0) l
           \<and> (\<forall>now < cl_lease_expires_at l.
                validate_callback_scheduler_context (rq_control_plane_id rq) now (rq_domain_key rq)
                  (map_option echo_target (scheduler_context_for_dispatch (sr_committed_lease res))) db' = Inr l)"
proof -
  obtain l where l: "sr_committed_lease res = Some (committed_lease_payload l)"
    "cl_control_plane_id l = rq_control_plane_id rq"
    and act: "active_committed_lease_for_domain (rq_domain_kind rq) (rq_domain_key rq) (clock e 0) db' = Some l"
    by (rule granted_is_active [OF ok sub g])
  note a = active_SomeD [OF act]
  have ok': "ledger_ok (sd_leases db')" by (rule submit_keeps_ledger [OF ok sub])
  have "validate_callback_scheduler_context (rq_control_plane_id rq) now (rq_domain_key rq)
          (map_option echo_target (scheduler_context_for_dispatch (sr_committed_lease res))) db' = Inr l"
    if "now < cl_lease_expires_at l" for now
  proof -
    have "live_at now l" using a(3) that by (simp add: live_at_def)
    then have "active_committed_lease_for_domain ''runtime_task'' (rq_domain_key rq) now db' = Some l"
      using active_unique [OF ok' a(1,2)] rt by simp
    then show ?thesis
      using l by (simp add: validate_callback_scheduler_context_def scheduler_context_for_dispatch_def echo_target_def
          mismatches_def committed_lease_payload_def)
  qed
  then show ?thesis using l a by blast
qed

end

lemma validate_callback_accepts_iff:
  "validate_callback_scheduler_context cp now task target db = Inr l \<longleftrightarrow>
     active_committed_lease_for_domain ''runtime_task'' task now db = Some l \<and> cl_control_plane_id l = cp
     \<and> (\<forall>t. target = Some t \<longrightarrow> \<not> mismatches (ct_committed_lease_id t) (cl_committed_lease_id l)
                             \<and> \<not> mismatches (ct_fencing_token t) (cl_fencing_token l))"
proof (cases "active_committed_lease_for_domain ''runtime_task'' task now db")
  case (Some a)
  have none: "\<not> mismatches None x" for x by (simp add: mismatches_def)
  show ?thesis
    using Some by (cases target) (auto simp: validate_callback_scheduler_context_def none)
qed (simp add: validate_callback_scheduler_context_def)

subsection \<open>Fixtures\<close>

definition demo_env :: "time \<Rightarrow> string \<Rightarrow> env" where
  "demo_env t tag = \<lparr>clock = (\<lambda>i. t), hex12 = (\<lambda>i. tag @ replicate i CHR ''x'')\<rparr>"

definition demo_cfg :: arbiter_cfg where
  "demo_cfg = local_arbiter_init ''a'' ''u'' 1 1500 500"

definition demo_dyn :: arbiter_cfg where
  "demo_dyn = quorum_authority_init ''a'' ''u'' 0 1500 500"

definition demo_db :: sched_db where
  "demo_db = empty_sched_db [''r'']"

text \<open>Plane \<open>a\<close> takes the domain, lets the lease expire, takes it again.\<close>

definition demo_local :: "sched_event list" where
  "demo_local =
     [EvSubmit (LocalArbiter demo_cfg) (demo_env 5 ''p'') (dispatch_request ''a'' ''r'' ''t''),
      EvSubmit (LocalArbiter demo_cfg) (demo_env 400000000 ''q'') (dispatch_request ''a'' ''r'' ''t'')]"

definition demo_quorum :: "sched_event list" where
  "demo_quorum =
     [EvSubmit (ClusterArbiter demo_dyn) (demo_env 5 ''p'') (dispatch_request ''a'' ''r'' ''t''),
      EvSubmit (ClusterArbiter demo_dyn) (demo_env 400000000 ''q'') (dispatch_request ''b'' ''r'' ''t'')]"

definition result_of :: "werror + 'a \<times> 'b \<Rightarrow> 'a option" where
  "result_of m = (case m of Inr (x, _) \<Rightarrow> Some x | Inl _ \<Rightarrow> None)"

definition state_of :: "werror + 'a \<times> 'b \<Rightarrow> 'b option" where
  "state_of m = (case m of Inr (_, s) \<Rightarrow> Some s | Inl _ \<Rightarrow> None)"

lemma result_state: "result_of m = Some x \<Longrightarrow> state_of m = Some s \<Longrightarrow> m = Inr (x, s)"
  by (auto simp: result_of_def state_of_def split: sum.splits)

lemma ledger_demo_db [simp]: "ledger_ok (sd_leases demo_db)"
  by (simp add: demo_db_def empty_sched_db_def)

lemma cluster_demo_db [simp]: "cluster_ok demo_db"
  by (simp add: demo_db_def)

subsection \<open>At most one owner\<close>

text \<open>C1: In every state reachable on the shared scheduler store, by any interleaving of submissions,
dispatches, releases, heartbeats and votes of any processes with any clocks, a lease domain has at
most one committed lease that has not been released.\<close>

theorem one_unreleased_lease_per_domain:
  "length (filter (\<lambda>l. same_domain dk key l \<and> cl_released_at l = None)
     (sd_leases (sched_run evs (empty_sched_db runs)))) \<le> 1"
proof -
  let ?L = "sd_leases (sched_run evs (empty_sched_db runs))"
  let ?F = "filter (\<lambda>l. same_domain dk key l \<and> cl_released_at l = None) ?L"
  have ok: "ledger_ok ?L"
    by (rule sched_run_ledger) (simp add: empty_sched_db_def)
  have "distinct ?L"
    using ok by (simp add: ledger_ok_def distinct_map)
  then show ?thesis
    by (intro at_most_one) (auto intro: ledger_one_unreleased [OF ok])
qed

text \<open>C2: Fencing. Among the leases a domain has ever had in a reachable state, a later commit means
a strictly greater epoch, a different fencing token, and that the earlier lease is released.\<close>

theorem later_lease_fences_earlier:
  assumes "l \<in> set (sd_leases (sched_run evs (empty_sched_db runs)))"
    and "m \<in> set (sd_leases (sched_run evs (empty_sched_db runs)))"
    and "same_domain dk key l" and "same_domain dk key m" and "cl_commit_index l < cl_commit_index m"
  shows "cl_lease_epoch l < cl_lease_epoch m \<and> cl_fencing_token l \<noteq> cl_fencing_token m
         \<and> cl_status l = ''released'' \<and> cl_released_at l \<noteq> None"
proof -
  have ok: "ledger_ok (sd_leases (sched_run evs (empty_sched_db runs)))"
    by (rule sched_run_ledger) (simp add: empty_sched_db_def)
  then have "cl_released_at l \<noteq> None \<and> cl_lease_epoch l < cl_lease_epoch m"
    using assms by (auto simp: ledger_ok_def domain_ordered_def same_domain_def)
  moreover have "cl_fencing_token l \<noteq> cl_fencing_token m"
    using ok assms(1,2,5) by (auto simp: ledger_ok_def distinct_map inj_on_def)
  moreover have "cl_status l = ''active'' \<longleftrightarrow> cl_released_at l = None" "cl_status l = ''active'' \<or> cl_status l = ''released''"
    using ok assms(1) by (auto simp: ledger_ok_def lease_row_ok_def)
  ultimately show ?thesis by auto
qed

theorem later_lease_fences_earlier_witness:
  "\<exists>l m. l \<in> set (sd_leases (sched_run demo_local demo_db)) \<and> m \<in> set (sd_leases (sched_run demo_local demo_db))
     \<and> cl_lease_epoch l < cl_lease_epoch m \<and> cl_fencing_token l \<noteq> cl_fencing_token m"
proof -
  let ?L = "sd_leases (sched_run demo_local demo_db)"
  have len: "length ?L = 2" and dom: "list_all (same_domain ''runtime_task'' ''t'') ?L"
    and idx: "map cl_commit_index ?L = [1, 2]"
    by code_simp+
  have lt: "cl_commit_index (?L ! 0) < cl_commit_index (?L ! 1)"
    using arg_cong [OF idx, of "\<lambda>xs. xs ! 0"] arg_cong [OF idx, of "\<lambda>xs. xs ! 1"] len by simp
  have mem: "?L ! 0 \<in> set ?L" "?L ! 1 \<in> set ?L" using len by simp_all
  show ?thesis
    using later_lease_fences_earlier [of "?L ! 0" demo_local "[''r'']" "?L ! 1" "''runtime_task''" "''t''"] mem lt dom
    unfolding demo_db_def list_all_iff by blast
qed

text \<open>C3: Mutual exclusion. In a reachable state, a submission to either arbiter is granted only
when every lease of the domain that is live at that moment belongs to the requesting control plane;
a fresh grant then outranks every lease the domain ever had, in commit index and in epoch.\<close>

theorem grant_excludes_other_planes:
  assumes "arbiter_submit a e rq (sched_run evs (empty_sched_db runs)) = Inr (res, db')" and "sr_granted res"
    and "m \<in> set (sd_leases (sched_run evs (empty_sched_db runs)))"
    and "same_domain (rq_domain_kind rq) (rq_domain_key rq) m"
  shows "(live_at (clock e 0) m \<longrightarrow> cl_control_plane_id m = rq_control_plane_id rq)
         \<and> (\<forall>pl. sr_committed_lease res = Some pl \<and> \<not> sr_duplicate res \<longrightarrow>
              cl_commit_index m < cl_commit_index (lp_lease pl) \<and> cl_lease_epoch m < cl_lease_epoch (lp_lease pl))"
proof -
  have ok: "ledger_ok (sd_leases (sched_run evs (empty_sched_db runs)))"
    by (rule sched_run_ledger) (simp add: empty_sched_db_def)
  show ?thesis
    using any_arbiter.granted_excludes_others [OF ok assms(1,2,3,4)] any_arbiter.grant_outranks [OF ok assms(1) _ _ assms(3,4)]
    by blast
qed

definition demo_take :: "sched_event list" where
  "demo_take = [EvSubmit (LocalArbiter demo_cfg) (demo_env 5 ''p'') (dispatch_request ''a'' ''r'' ''t'')]"

theorem grant_excludes_other_planes_witness:
  "\<exists>m \<in> set (sd_leases (sched_run demo_take demo_db)). cl_control_plane_id m = ''a''"
proof -
  let ?db = "sched_run demo_take demo_db"
  let ?m = "sd_leases ?db ! 0"
  let ?out = "arbiter_submit (LocalArbiter demo_cfg) (demo_env 9 ''q'') (dispatch_request ''a'' ''r'' ''t'') ?db"
  have len: "length (sd_leases ?db) = 1" and dom: "same_domain ''runtime_task'' ''t'' ?m" and live: "live_at 9 ?m"
    and g: "map_option sr_granted (result_of ?out) = Some True"
    by code_simp+
  obtain res db' where out: "?out = Inr (res, db')" "sr_granted res"
    using g by (auto simp: result_of_def split: sum.splits)
  have mem: "?m \<in> set (sd_leases ?db)" using len by simp
  have "cl_control_plane_id ?m = ''a''"
    using grant_excludes_other_planes [of "LocalArbiter demo_cfg" "demo_env 9 ''q''" "dispatch_request ''a'' ''r'' ''t''"
        demo_take "[''r'']" res db' ?m] out mem dom live
    by (simp add: demo_db_def dispatch_request_def demo_env_def)
  with mem show ?thesis by blast
qed

subsection \<open>Dispatch and callback\<close>

text \<open>C4: A dispatch whose lease was granted hands the worker a context with which its callback
is accepted by the same control plane at every moment before the lease expires, and the lease the
callback is checked against is the one that was granted.\<close>

theorem dispatch_context_round_trip:
  assumes "arbiter_submit a e (dispatch_request cp run task) (sched_run evs (empty_sched_db runs)) = Inr (res, db')"
    and "sr_granted res"
  shows "\<exists>l. sr_committed_lease res = Some (committed_lease_payload l) \<and> cl_control_plane_id l = cp
           \<and> live_at (clock e 0) l
           \<and> (\<forall>now < cl_lease_expires_at l.
                validate_callback_scheduler_context cp now task
                  (map_option echo_target (scheduler_context_for_dispatch (sr_committed_lease res))) db' = Inr l)"
proof -
  have ok: "ledger_ok (sd_leases (sched_run evs (empty_sched_db runs)))"
    by (rule sched_run_ledger) (simp add: empty_sched_db_def)
  show ?thesis
    using any_arbiter.dispatch_then_callback [OF ok assms] by (auto simp: dispatch_request_def)
qed

theorem dispatch_context_round_trip_witness:
  "\<exists>l db'. state_of (arbiter_submit (ClusterArbiter demo_dyn) (demo_env 9 ''q'') (dispatch_request ''a'' ''r'' ''t'')
              (sched_run demo_take demo_db)) = Some db'
     \<and> cl_control_plane_id l = ''a'' \<and> live_at 9 l"
proof -
  let ?out = "arbiter_submit (ClusterArbiter demo_dyn) (demo_env 9 ''q'') (dispatch_request ''a'' ''r'' ''t'')
     (sched_run demo_take demo_db)"
  have "map_option sr_granted (result_of ?out) = Some True"
    by code_simp
  then obtain res db' where out: "?out = Inr (res, db')" "sr_granted res"
    by (auto simp: result_of_def split: sum.splits)
  show ?thesis
    using dispatch_context_round_trip [of "ClusterArbiter demo_dyn" "demo_env 9 ''q''" "''a''" "''r''" "''t''" demo_take
        "[''r'']" res db'] out
    by (auto simp: demo_db_def state_of_def demo_env_def)
qed

text \<open>C5: A callback is never accepted on a fenced token: once every lease that carries a token is
released, no later history of the store, whatever the clocks, makes a callback with that token pass
the check on any control plane.\<close>

theorem retired_token_never_accepted:
  assumes "token_retired tk (sd_leases (sched_run evs (empty_sched_db runs)))" and "tk \<noteq> []"
  shows "\<exists>err. validate_callback_scheduler_context cp now task
            (Some \<lparr>ct_committed_lease_id = cid, ct_fencing_token = Some tk\<rparr>)
            (sched_run (evs @ later) (empty_sched_db runs)) = Inl err"
proof (rule ccontr)
  let ?db = "sched_run (evs @ later) (empty_sched_db runs)"
  assume "\<not> ?thesis"
  then obtain l where "validate_callback_scheduler_context cp now task
      (Some \<lparr>ct_committed_lease_id = cid, ct_fencing_token = Some tk\<rparr>) ?db = Inr l"
    by (metis sum.exhaust)
  then have act: "active_committed_lease_for_domain ''runtime_task'' task now ?db = Some l" and tk: "cl_fencing_token l = tk"
    using assms(2) by (auto simp: validate_callback_accepts_iff mismatches_def)
  have "ledger_ok (sd_leases (sched_run evs (empty_sched_db runs)))"
    by (rule sched_run_ledger) (simp add: empty_sched_db_def)
  then have "token_retired tk (sd_leases ?db)"
    using sched_run_retired assms(1) by (simp add: sched_run_def run_events_append)
  then show False
    using active_SomeD [OF act] tk by (auto simp: token_retired_def live_at_def)
qed

theorem retired_token_never_accepted_witness:
  "\<exists>err. validate_callback_scheduler_context ''a'' 400000001 ''t''
     (Some \<lparr>ct_committed_lease_id = None, ct_fencing_token = Some (new_id ''fence'' ''pxxxxx'')\<rparr>)
     (sched_run (demo_local @ demo_take) demo_db) = Inl err"
proof -
  have ret: "token_retired (new_id ''fence'' ''pxxxxx'') (sd_leases (sched_run demo_local demo_db))"
    by code_simp
  show ?thesis
    unfolding demo_db_def
    by (rule retired_token_never_accepted) (use ret in \<open>simp_all add: demo_db_def new_id_def\<close>)
qed

text \<open>What a granted submission reports of the lease before it, and that it leaves the handoffs alone.\<close>

definition previous_holder :: "submit_result \<Rightarrow> string option" where
  "previous_holder res = map_option (\<lambda>p. cl_control_plane_id (lp_lease p)) (sr_previous_committed_lease res)"

lemma released_latest:
  assumes "release_expired_before_regrant rt now latest db = (lt, db')"
  shows "map_option cl_control_plane_id lt = map_option cl_control_plane_id latest" and "sd_handoffs db' = sd_handoffs db"
  using assms by (auto simp: release_expired_before_regrant_def release_committed_lease_def decision_release_def Let_def
      split: option.splits if_splits prod.splits)

lemma map_payload_holder:
  "map_option (\<lambda>p. cl_control_plane_id (lp_lease p)) (map_option committed_lease_payload x) = map_option cl_control_plane_id x"
  by (cases x) (simp_all add: committed_lease_payload_def)

lemma local_previous_holder:
  assumes sub: "local_submit_proposal cfg e rq db = Inr (res, db')" and g: "sr_granted res"
  shows "previous_holder res = map_option cl_control_plane_id (latest_committed_lease_for_domain (rq_domain_kind rq) (rq_domain_key rq) db)
     \<and> sd_handoffs db' = sd_handoffs db"
proof -
  let ?dk = "rq_domain_kind rq" and ?key = "rq_domain_key rq"
  have cp: "rq_control_plane_id rq = ac_node_id cfg"
    using sub g by (auto simp: local_submit_proposal_def disabled_remote_proposal_def Let_def split: if_splits)
  then obtain p db1 where p: "proposal_create p db = Inr db1"
    and out: "(case active_committed_lease_for_domain ?dk ?key (clock e 0) db1 of
          Some a \<Rightarrow> if cl_control_plane_id a = rq_control_plane_id rq
                    then Inr (local_accept_existing cfg e (clock e 0) p a (latest_committed_lease_for_domain ?dk ?key db1) db1)
                    else local_reject_conflict cfg e (clock e 0) p a (latest_committed_lease_for_domain ?dk ?key db1) db1
        | None \<Rightarrow> local_grant cfg e (clock e 0) p (latest_committed_lease_for_domain ?dk ?key db1) db1) = Inr (res, db')"
    using sub by (auto simp: local_submit_proposal_def Let_def rbind_eq_Inr)
  have h: "sd_handoffs db1 = sd_handoffs db" and l: "sd_leases db1 = sd_leases db" using proposal_createD [OF p] by simp_all
  note fr = ledger_frame [OF l]
  show ?thesis
  proof (cases "active_committed_lease_for_domain ?dk ?key (clock e 0) db1")
    case None
    obtain lt dbr where rel: "release_expired_before_regrant (clock e 2) (clock e 0) (latest_committed_lease_for_domain ?dk ?key db1) db1 = (lt, dbr)"
      by (metis surj_pair)
    have "previous_holder res = map_option cl_control_plane_id lt \<and> sd_handoffs db' = sd_handoffs dbr"
      using out None
      by (auto simp: local_grant_def rel Let_def rbind_eq_Inr previous_holder_def map_payload_holder proposal_update_status_def
          dest!: decision_createD insert_committed_leaseD(1))
    then show ?thesis using released_latest [OF rel] h fr by simp
  next
    case (Some a)
    then have "local_accept_existing cfg e (clock e 0) p a (latest_committed_lease_for_domain ?dk ?key db1) db1 = (res, db')"
      using out g by (auto simp: local_reject_conflict_def Let_def rbind_eq_Inr proposal_update_status_def split: if_splits)
    then show ?thesis using h fr
      by (auto simp: local_accept_existing_def Let_def previous_holder_def map_payload_holder proposal_update_status_def)
  qed
qed

lemma quorum_previous_holder:
  assumes sub: "quorum_submit_proposal cfg e rq db = Inr (res, db')" and g: "sr_granted res"
  shows "previous_holder res = map_option cl_control_plane_id (latest_committed_lease_for_domain (rq_domain_kind rq) (rq_domain_key rq) db)
     \<and> sd_handoffs db' = sd_handoffs db"
proof -
  let ?dk = "rq_domain_kind rq" and ?key = "rq_domain_key rq" and ?now = "clock e 0"
  obtain aid trm db1 p db2 where
    r: "quorum_resolve_authority cfg (env_from 1 e) ?now rq db = Inr ((aid, trm), db1)" and c: "proposal_create p db1 = Inr db2"
    and dec: "quorum_decide cfg (env_from 41 e) ?now rq aid trm p db2 = Inr (res, db')"
    using sub by (auto simp: quorum_submit_proposal_def Let_def rbind_eq_Inr)
  note same = quorum_resolve_frame [OF r, unfolded same_but_cluster_def]
  have h: "sd_handoffs db2 = sd_handoffs db" and l: "sd_leases db2 = sd_leases db" using proposal_createD [OF c] same by simp_all
  note fr = ledger_frame [OF l]
  show ?thesis
  proof (cases "active_committed_lease_for_domain ?dk ?key ?now db2")
    case (Some a)
    then have "quorum_accept_existing cfg ?now p a trm (latest_committed_lease_for_domain ?dk ?key db2) db2 = (res, db')"
      using dec g by (auto simp: quorum_decide_def Let_def split: if_splits dest: quorum_rejectD(2))
    then show ?thesis using h fr
      by (auto simp: quorum_accept_existing_def Let_def previous_holder_def map_payload_holder proposal_update_status_def)
  next
    case None
    then have v: "quorum_vote_and_grant cfg (env_from 41 e) ?now p trm (latest_committed_lease_for_domain ?dk ?key db2) db2 = Inr (res, db')"
      using dec g by (auto simp: quorum_decide_def Let_def split: if_splits dest: quorum_rejectD(2))
    then obtain db3 votes e' where cv: "collect_votes (env_from 41 e) (pr_proposal_id p) (tm_term_no trm) (active_nodes cfg ?now db2) db2 = Inr db3"
      and gr: "quorum_grant cfg e' ?now p trm votes (latest_committed_lease_for_domain ?dk ?key db2) db3 = Inr (res, db')"
      using g by (elim quorum_vote_and_grantD) (auto split: if_splits dest: quorum_rejectD(2))
    have h3: "sd_handoffs db3 = sd_handoffs db2" using collect_votes_frame [OF cv] by auto
    obtain lt dbr where rel: "release_expired_before_regrant (clock e' 0) ?now (latest_committed_lease_for_domain ?dk ?key db2) db3 = (lt, dbr)"
      by (metis surj_pair)
    have "previous_holder res = map_option cl_control_plane_id lt \<and> sd_handoffs db' = sd_handoffs dbr"
      using gr
      by (auto simp: quorum_grant_def rel Let_def rbind_eq_Inr previous_holder_def map_payload_holder proposal_update_status_def
          create_committed_lease_def dest!: decision_createD insert_committed_leaseD(1))
    then show ?thesis using released_latest [OF rel] h3 h fr by simp
  qed
qed

lemma submit_previous_holder:
  "arbiter_submit a e rq db = Inr (res, db') \<Longrightarrow> sr_granted res \<Longrightarrow>
     previous_holder res = map_option cl_control_plane_id (latest_committed_lease_for_domain (rq_domain_kind rq) (rq_domain_key rq) db)
     \<and> sd_handoffs db' = sd_handoffs db"
  by (cases a) (simp_all add: local_previous_holder quorum_previous_holder)

text \<open>The lease of a task that was committed last, read off the rows of the ledger.\<close>

definition last_lease_of_task :: "string \<Rightarrow> committed_lease list \<Rightarrow> committed_lease \<Rightarrow> bool" where
  "last_lease_of_task task rows l \<longleftrightarrow>
     l \<in> set rows \<and> same_domain ''runtime_task'' task l
     \<and> (\<forall>m\<in>set rows. same_domain ''runtime_task'' task m \<longrightarrow> cl_commit_index m \<le> cl_commit_index l)"

lemma last_lease_latest:
  assumes "ledger_ok (sd_leases db)"
  shows "last_lease_of_task task (sd_leases db) l \<longleftrightarrow> latest_committed_lease_for_domain ''runtime_task'' task db = Some l"
proof
  assume last: "last_lease_of_task task (sd_leases db) l"
  then obtain m where m: "latest_committed_lease_for_domain ''runtime_task'' task db = Some m"
    using latest_None_iff [of "''runtime_task''" task db] by (cases "latest_committed_lease_for_domain ''runtime_task'' task db")
      (auto simp: last_lease_of_task_def)
  have "cl_commit_index m = cl_commit_index l"
    using latest_is_greatest [OF m] last by (auto simp: last_lease_of_task_def intro: antisym)
  then show "latest_committed_lease_for_domain ''runtime_task'' task db = Some l"
    using m ledger_commit_unique [OF assms] latest_is_greatest(1) [OF m] last by (auto simp: last_lease_of_task_def)
qed (auto simp: last_lease_of_task_def dest: latest_is_greatest)

text \<open>C6: A dispatch that goes through records a handoff exactly when the task's last committed lease, as the ledger had it
before, belongs to another control plane: then exactly one envelope is added, which names both planes and the committed lease,
term and commit index of the new owner; otherwise the handoffs stay as they are.\<close>

theorem takeover_records_handoff:
  assumes "ensure_committed_scheduler_lease a cp e eh run task hs (sched_run evs (empty_sched_db runs)) = Inr ((res, h), db')"
  shows "\<exists>cur. sr_committed_lease res = Some (committed_lease_payload cur) \<and> cl_control_plane_id cur = cp \<and> cur \<in> set (sd_leases db')
     \<and> (if \<exists>prev. last_lease_of_task task (sd_leases (sched_run evs (empty_sched_db runs))) prev \<and> cl_control_plane_id prev \<noteq> cp
        then \<exists>prev env. last_lease_of_task task (sd_leases (sched_run evs (empty_sched_db runs))) prev
               \<and> h = Some env \<and> sd_handoffs db' = sd_handoffs (sched_run evs (empty_sched_db runs)) @ [env]
               \<and> ho_from_control_plane_id env = cl_control_plane_id prev \<and> ho_to_control_plane_id env = cp
               \<and> ho_runtime_task_id env = task \<and> ho_run_id env = run
               \<and> ho_committed_lease_id env = cl_committed_lease_id cur \<and> ho_term_no env = cl_term_no cur
               \<and> ho_commit_index env = cl_commit_index cur
        else h = None \<and> sd_handoffs db' = sd_handoffs (sched_run evs (empty_sched_db runs)))"
proof -
  let ?db = "sched_run evs (empty_sched_db runs)"
  have ok: "ledger_ok (sd_leases ?db)"
    by (rule sched_run_ledger) (simp add: empty_sched_db_def)
  obtain db1 where sub: "arbiter_submit a e (dispatch_request cp run task) ?db = Inr (res, db1)"
    and g: "sr_granted res" and same: "\<exists>rows. db' = db1\<lparr>sd_handoffs := sd_handoffs db1 @ rows\<rparr>"
    using assms by (rule ensure_leaseD)
  obtain cur where cur: "sr_committed_lease res = Some (committed_lease_payload cur)" "cl_control_plane_id cur = cp" "cur \<in> set (sd_leases db1)"
    by (rule any_arbiter.granted_is_active [OF ok sub g]) (auto simp: dispatch_request_def dest: active_SomeD(1))
  have lp: "lp_lease (committed_lease_payload cur) = cur" by (simp add: committed_lease_payload_def)
  have before: "previous_holder res = map_option cl_control_plane_id (latest_committed_lease_for_domain ''runtime_task'' task ?db)"
    and quiet: "sd_handoffs db1 = sd_handoffs ?db"
    using submit_previous_holder [OF sub g] by (simp_all add: dispatch_request_def)
  note out = assms [unfolded ensure_committed_scheduler_lease_def sub]
  show ?thesis
  proof (intro exI [of _ cur] conjI cur(1,2), goal_cases)
    case 1
    show ?case using same cur(3) by auto
  next
    case 2
    show ?case
    proof (cases "latest_committed_lease_for_domain ''runtime_task'' task ?db")
      case None
      then have "sr_previous_committed_lease res = None" using before by (simp add: previous_holder_def)
      then show ?thesis using out g None quiet by (simp add: last_lease_latest [OF ok])
    next
      case (Some prev)
      then obtain pl where pl: "sr_previous_committed_lease res = Some pl" "cl_control_plane_id (lp_lease pl) = cl_control_plane_id prev"
        using before by (auto simp: previous_holder_def)
      show ?thesis
        using out g cur lp pl Some quiet
        by (auto simp: last_lease_latest [OF ok] create_control_plane_handoff_def rbind_eq_Inr split: if_splits
            dest!: create_handoff_envelopeD)
    qed
  qed
qed

theorem takeover_records_handoff_witness:
  "\<exists>res h db'. ensure_committed_scheduler_lease (ClusterArbiter demo_dyn) ''b'' (demo_env 400000000 ''q'') (demo_env 400000000 ''h'')
       ''r'' ''t'' \<lparr>hs_snapshot_payload = [], hs_review_state = [], hs_durable_refs = [], hs_replay_excerpt = []\<rparr>
       (sched_run demo_take demo_db) = Inr ((res, Some h), db')
     \<and> ho_to_control_plane_id h = ''b'' \<and> ho_runtime_task_id h = ''t''"
proof -
  let ?out = "ensure_committed_scheduler_lease (ClusterArbiter demo_dyn) ''b'' (demo_env 400000000 ''q'') (demo_env 400000000 ''h'')
       ''r'' ''t'' \<lparr>hs_snapshot_payload = [], hs_review_state = [], hs_durable_refs = [], hs_replay_excerpt = []\<rparr>
       (sched_run demo_take demo_db)"
  have "map_option (\<lambda>x. snd x \<noteq> None) (result_of ?out) = Some True"
    by code_simp
  then obtain res h db' where out: "?out = Inr ((res, Some h), db')"
    by (auto simp: result_of_def split: sum.splits)
  show ?thesis
    using takeover_records_handoff [OF out [unfolded demo_db_def]] out by (auto split: if_split_asm)
qed

subsection \<open>Quorum and terms\<close>

text \<open>C7: On a store run by quorum authorities, the outcome of a submission on a free domain, whose election timeout is not
negative as the constructor makes it, is decided by the nodes active afterwards. The leader is the least of them. The
submission is refused as stale, without a vote, exactly when the request names another node; otherwise the votes are granting
ones, by exactly the active nodes. A lease is granted exactly when the request is not stale and the effective quorum is at
most the number of active nodes.\<close>

theorem quorum_decides:
  assumes "\<forall>ev\<in>set evs. clustered ev" and "0 \<le> ac_election_timeout_ms cfg"
    and "quorum_submit_proposal cfg e rq (sched_run evs (empty_sched_db runs)) = Inr (res, db')"
    and "active_committed_lease_for_domain (rq_domain_kind rq) (rq_domain_key rq) (clock e 0)
           (sched_run evs (empty_sched_db runs)) = None"
  shows "ac_node_id cfg \<in> active_ids cfg (clock e 0) db'
     \<and> (sr_stale_leader res \<longleftrightarrow>
          rq_authority_node_id rq \<notin> {None, Some [], Some (Min (active_ids cfg (clock e 0) db'))})
     \<and> (sr_granted res \<longleftrightarrow> \<not> sr_stale_leader res
          \<and> effective_quorum_size cfg (card (active_ids cfg (clock e 0) db')) \<le> int (card (active_ids cfg (clock e 0) db')))
     \<and> vt_voter_node_id ` set (sr_votes res) = (if sr_stale_leader res then {} else active_ids cfg (clock e 0) db')
     \<and> (\<forall>v\<in>set (sr_votes res). vt_vote v = ''granted'')"
proof -
  have ok: "cluster_ok (sched_run evs (empty_sched_db runs))"
    using assms(1) by (intro sched_run_cluster) simp_all
  note st = quorum_stale [OF ok assms(2-4)]
  have named: "str_or x d \<noteq> d \<longleftrightarrow> x \<notin> {None, Some [], Some d}" for x d
    by (auto simp: str_or_def split: option.split)
  show ?thesis
  proof (cases "sr_stale_leader res")
    case True
    then show ?thesis using st by (simp add: named)
  next
    case False
    note out = quorum_outcome [OF ok assms(3,4) False]
    have "card (active_ids cfg (clock e 0) db') = length (active_nodes cfg (clock e 0) db')"
      using out(5) unfolding active_ids_def by (metis distinct_card length_map list.set_map)
    then show ?thesis using out(1-3) st(1,3) False by (simp add: named active_ids_def)
  qed
qed

definition naming :: "string \<Rightarrow> submit_request \<Rightarrow> submit_request" where
  "naming node rq = rq\<lparr>rq_authority_node_id := Some node\<rparr>"

theorem quorum_decides_witness:
  "\<exists>res db'. quorum_submit_proposal demo_dyn (demo_env 400000000 ''q'') (naming ''z'' (dispatch_request ''b'' ''r'' ''t''))
      (sched_run [EvSubmit (ClusterArbiter demo_dyn) (demo_env 5 ''p'') (dispatch_request ''a'' ''r'' ''t'')] demo_db) = Inr (res, db')
    \<and> active_ids demo_dyn 400000000 db' = {''a'', ''z''} \<and> sr_stale_leader res \<and> \<not> sr_granted res"
proof -
  let ?evs = "[EvSubmit (ClusterArbiter demo_dyn) (demo_env 5 ''p'') (dispatch_request ''a'' ''r'' ''t'')]"
  let ?out = "quorum_submit_proposal demo_dyn (demo_env 400000000 ''q'') (naming ''z'' (dispatch_request ''b'' ''r'' ''t'')) (sched_run ?evs demo_db)"
  have n: "map_option (\<lambda>db. map an_node_id (active_nodes demo_dyn 400000000 db)) (state_of ?out) = Some [''a'', ''z'']" by code_simp
  have f: "active_committed_lease_for_domain ''runtime_task'' ''t'' 400000000 (sched_run ?evs demo_db) = None" by code_simp
  obtain res db' where out: "?out = Inr (res, db')" and ids: "map an_node_id (active_nodes demo_dyn 400000000 db') = [''a'', ''z'']"
    using n by (auto simp: state_of_def split: sum.splits)
  have act: "active_ids demo_dyn 400000000 db' = {''a'', ''z''}"
    using arg_cong [OF ids, of set] by (simp add: active_ids_def)
  have "0 \<le> ac_election_timeout_ms demo_dyn" and "Min {''a'', ''z''} = ''a''" by code_simp+
  then show ?thesis
    using quorum_decides [of ?evs demo_dyn "demo_env 400000000 ''q''" "naming ''z'' (dispatch_request ''b'' ''r'' ''t'')" "[''r'']" res db']
      out f act by (simp add: demo_db_def dispatch_request_def demo_env_def naming_def)
qed

text \<open>C8: With the dynamic quorum (\<open>quorum_size = 0\<close>) and the positive election timeout of the constructor, a well-formed
submission on a free domain for a known run is always answered, unless random identifiers collide, and it is granted exactly
when it names no node, or names the leader: the least of the active nodes, the authority itself among them. So neither
\<open>quorum_unavailable\<close> nor a conflict ever keeps the leader from the lease.\<close>

theorem dynamic_quorum_always_available:
  assumes "\<forall>ev\<in>set evs. clustered ev" and "ac_quorum_size cfg = 0" and "0 \<le> ac_election_timeout_ms cfg"
    and "rq_requested_lease_seconds rq \<ge> 1" and "rq_requested_epoch rq \<ge> 1"
    and "rq_run_id rq \<in> set (sd_runs (sched_run evs (empty_sched_db runs)))"
    and "ids_unused e (sched_run evs (empty_sched_db runs))"
    and "active_committed_lease_for_domain (rq_domain_kind rq) (rq_domain_key rq) (clock e 0)
           (sched_run evs (empty_sched_db runs)) = None"
  shows "\<exists>res db'. quorum_submit_proposal cfg e rq (sched_run evs (empty_sched_db runs)) = Inr (res, db')
     \<and> ac_node_id cfg \<in> active_ids cfg (clock e 0) db'
     \<and> (sr_granted res \<longleftrightarrow> rq_authority_node_id rq \<in> {None, Some [], Some (Min (active_ids cfg (clock e 0) db'))})"
proof -
  have ok: "cluster_ok (sched_run evs (empty_sched_db runs))"
    using assms(1) by (intro sched_run_cluster) simp_all
  obtain res db' where out: "quorum_submit_proposal cfg e rq (sched_run evs (empty_sched_db runs)) = Inr (res, db')"
    using quorum_submit_returns [OF ok assms(4-8)] by blast
  note st = quorum_stale [OF ok assms(3) out assms(8)]
  have named: "str_or x d = d \<longleftrightarrow> x \<in> {None, Some [], Some d}" for x d
    by (auto simp: str_or_def split: option.split)
  have "sr_granted res \<longleftrightarrow> \<not> sr_stale_leader res"
  proof (cases "sr_stale_leader res")
    case False
    have "length (active_nodes cfg (clock e 0) db') \<ge> 1"
      using st(3) by (cases "active_nodes cfg (clock e 0) db'") (auto simp: active_ids_def)
    then show ?thesis
      using quorum_outcome(1) [OF ok out assms(8) False] dynamic_quorum_majority [of cfg] assms(2) False by simp
  qed (use st(2) in simp)
  then show ?thesis using out st by (auto simp: named)
qed

theorem dynamic_quorum_always_available_witness:
  "\<exists>res db'. quorum_submit_proposal demo_dyn (demo_env 400000000 ''q'') (dispatch_request ''b'' ''r'' ''t'')
      (sched_run [EvSubmit (ClusterArbiter demo_dyn) (demo_env 5 ''p'') (dispatch_request ''a'' ''r'' ''t'')] demo_db) = Inr (res, db')
    \<and> sr_granted res"
proof -
  let ?evs = "[EvSubmit (ClusterArbiter demo_dyn) (demo_env 5 ''p'') (dispatch_request ''a'' ''r'' ''t'')]"
  let ?db = "sched_run ?evs demo_db"
  have f: "active_committed_lease_for_domain ''runtime_task'' ''t'' 400000000 ?db = None" by code_simp
  have c: "ac_quorum_size demo_dyn = 0" "0 \<le> ac_election_timeout_ms demo_dyn" "''r'' \<in> set (sd_runs ?db)" by code_simp+
  have ids: "map pr_proposal_id (sd_proposals ?db) = [''proposal_p'' @ replicate 40 CHR ''x'']"
    "map tm_term_id (sd_terms ?db) = [''term_p'' @ replicate 4 CHR ''x'']" "map vt_vote_id (sd_votes ?db) = [''vote_p'' @ replicate 41 CHR ''x'']"
    "map de_decision_id (sd_decisions ?db) = [''decision_p'' @ replicate 42 CHR ''x'']"
    "map de_lease_id (sd_decisions ?db) = [''schedlease_p'' @ replicate 43 CHR ''x'']"
    "map cl_lease_id (sd_leases ?db) = [''schedlease_p'' @ replicate 43 CHR ''x'']"
    "map cl_committed_lease_id (sd_leases ?db) = [''committed_p'' @ replicate 44 CHR ''x'']"
    "map cl_fencing_token (sd_leases ?db) = [''fence_p'' @ replicate 45 CHR ''x'']"
    by code_simp+
  note img = ids [THEN arg_cong [where f = set], unfolded list.set_map]
  have "inj (hex12 (demo_env 400000000 ''q''))" by (rule injI) (simp add: demo_env_def)
  then have u: "ids_unused (demo_env 400000000 ''q'') ?db"
    unfolding ids_unused_def lease_ids_unused_def img by (simp add: demo_env_def new_id_def)
  show ?thesis
    using dynamic_quorum_always_available [of ?evs demo_dyn "dispatch_request ''b'' ''r'' ''t''" "[''r'']" "demo_env 400000000 ''q''"]
      f c u by (simp add: demo_db_def dispatch_request_def demo_env_def) blast
qed

text \<open>C9: In every state reachable with quorum authorities at most one consensus term is active and it
carries the greatest term number, term numbers are unique, no node votes twice on a proposal, and lease
terms never decrease along the commit order, so (term, commit index) is a fencing order.\<close>

theorem cluster_invariant:
  assumes "\<forall>ev\<in>set evs. clustered ev"
  shows "length (filter (\<lambda>t. tm_status t = ''active'') (sd_terms (sched_run evs (empty_sched_db runs)))) \<le> 1
     \<and> distinct (map tm_term_no (sd_terms (sched_run evs (empty_sched_db runs))))
     \<and> (\<forall>t\<in>set (sd_terms (sched_run evs (empty_sched_db runs))).
          \<forall>u\<in>set (sd_terms (sched_run evs (empty_sched_db runs))). tm_status t = ''active'' \<longrightarrow> tm_term_no u \<le> tm_term_no t)
     \<and> distinct (map (\<lambda>v. (vt_proposal_id v, vt_voter_node_id v)) (sd_votes (sched_run evs (empty_sched_db runs))))
     \<and> (\<forall>l\<in>set (sd_leases (sched_run evs (empty_sched_db runs))).
          \<forall>m\<in>set (sd_leases (sched_run evs (empty_sched_db runs))).
            cl_commit_index l < cl_commit_index m \<longrightarrow> cl_term_no l \<le> cl_term_no m)"
proof -
  let ?db = "sched_run evs (empty_sched_db runs)"
  have ok: "cluster_ok ?db"
    using assms by (intro sched_run_cluster) simp_all
  have ts: "distinct (map tm_term_no (sd_terms ?db))"
    and top: "\<And>t u. t \<in> set (sd_terms ?db) \<Longrightarrow> u \<in> set (sd_terms ?db) \<Longrightarrow> tm_status t = ''active'' \<Longrightarrow> tm_term_no u \<le> tm_term_no t"
    using ok by (auto simp: cluster_ok_def terms_ok_def)
  have "length (filter (\<lambda>t. tm_status t = ''active'') (sd_terms ?db)) \<le> 1"
  proof (rule at_most_one)
    show "distinct (filter (\<lambda>t. tm_status t = ''active'') (sd_terms ?db))" using ts by (simp add: distinct_map)
    fix t u
    assume "t \<in> set (filter (\<lambda>t. tm_status t = ''active'') (sd_terms ?db))"
      "u \<in> set (filter (\<lambda>t. tm_status t = ''active'') (sd_terms ?db))"
    then have "t \<in> set (sd_terms ?db)" "u \<in> set (sd_terms ?db)" "tm_term_no t = tm_term_no u"
      using top by (auto intro: antisym)
    then show "t = u" using ts by (auto simp: distinct_map inj_on_def)
  qed
  then show ?thesis
    using ok ts top by (simp add: cluster_ok_def votes_ok_def lease_terms_ok_def)
qed

theorem cluster_invariant_witness:
  "sd_terms (sched_run demo_quorum demo_db) \<noteq> []
   \<and> length (filter (\<lambda>t. tm_status t = ''active'') (sd_terms (sched_run demo_quorum demo_db))) \<le> 1"
proof -
  have "sd_terms (sched_run demo_quorum demo_db) \<noteq> []" by code_simp
  then show ?thesis
    using cluster_invariant [of demo_quorum "[''r'']"] by (simp add: demo_quorum_def demo_db_def)
qed

text \<open>C10: Whatever happened before, \<open>_ensure_active_term\<close> produces an active term (it never violates
\<open>UNIQUE(term_no)\<close>, only a collision of the random term id can make it raise), whose leader is the least
id among the nodes active at that moment and whose quorum is that of their number; term numbers never
go back.\<close>

theorem ensure_term_elects_least_node:
  assumes "\<forall>ev\<in>set evs. clustered ev" and "0 \<le> ac_election_timeout_ms cfg"
    and "new_id ''term'' (hex12 e 2) \<notin> tm_term_id ` set (sd_terms (sched_run evs (empty_sched_db runs)))"
  shows "\<exists>t db'. ensure_active_term cfg e obs (sched_run evs (empty_sched_db runs)) = Inr (t, db')
     \<and> t \<in> set (sd_terms db') \<and> tm_status t = ''active''
     \<and> tm_leader_node_id t = Min (an_node_id ` set (active_nodes cfg obs db'))
     \<and> ac_node_id cfg \<in> an_node_id ` set (active_nodes cfg obs db')
     \<and> tm_quorum_size t = effective_quorum_size cfg (length (active_nodes cfg obs db'))
     \<and> (\<forall>u\<in>set (sd_terms (sched_run evs (empty_sched_db runs))). tm_term_no u \<le> tm_term_no t)"
proof -
  let ?db = "sched_run evs (empty_sched_db runs)"
  have ok: "cluster_ok ?db"
    using assms by (intro sched_run_cluster) simp_all
  then have tok: "terms_ok (sd_terms ?db)" by (simp add: cluster_ok_def)
  obtain t db' where en: "ensure_active_term cfg e obs ?db = Inr (t, db')"
    using ensure_active_term_returns [OF tok assms(3)] by blast
  note eff = ensure_active_term_effect [OF en tok]
  have self: "ac_node_id cfg \<in> an_node_id ` set (active_nodes cfg obs db')"
    using upsert_node_active [OF assms(2), of "ac_node_id cfg" obs e "ac_bind_url cfg" "''peer''" ?db] eff(4)
    by (simp add: active_nodes_def)
  then have ne: "active_nodes cfg obs db' \<noteq> []" by auto
  have "tm_leader_node_id t = Min (an_node_id ` set (active_nodes cfg obs db'))"
    using eff(5) desired_leader_least [OF ne] by simp
  moreover have "tm_term_no u \<le> tm_term_no t" if "u \<in> set (sd_terms ?db)" for u
  proof -
    have "tm_term_no u \<in> tm_term_no ` set (sd_terms db')" using eff(7) that by blast
    then show ?thesis using eff(1,2,3) unfolding terms_ok_def by blast
  qed
  ultimately show ?thesis
    using en eff(2,3,6) self by blast
qed

theorem ensure_term_elects_least_node_witness:
  "\<exists>t db'. ensure_active_term demo_dyn (demo_env 9 ''z'') 9 (sched_run demo_quorum demo_db) = Inr (t, db')
     \<and> tm_status t = ''active''"
proof -
  have "new_id ''term'' (hex12 (demo_env 9 ''z'') 2) \<notin> tm_term_id ` set (sd_terms (sched_run demo_quorum demo_db))"
    by code_simp
  then show ?thesis
    using ensure_term_elects_least_node [of demo_quorum demo_dyn "demo_env 9 ''z''" "[''r'']" 9]
    by (auto simp: demo_quorum_def demo_db_def demo_dyn_def quorum_authority_init_def)
qed

subsection \<open>The local arbiter and releases\<close>

text \<open>C11: The local arbiter answers every well-formed request of its own control plane: unless random
identifiers collide the call returns, and it grants exactly when no other plane holds a live lease of the
domain; a refusal commits nothing and reports the owning plane and its fencing token.\<close>

theorem local_submit_decides:
  assumes "rq_control_plane_id rq = ac_node_id cfg" and "rq_requested_lease_seconds rq \<ge> 1" and "rq_requested_epoch rq \<ge> 1"
    and "rq_run_id rq \<in> set (sd_runs (sched_run evs (empty_sched_db runs)))"
    and "local_ids_fresh e (sched_run evs (empty_sched_db runs))"
  shows "\<exists>res db'. local_submit_proposal cfg e rq (sched_run evs (empty_sched_db runs)) = Inr (res, db')
     \<and> (sr_granted res \<longleftrightarrow>
          (\<forall>m\<in>set (sd_leases (sched_run evs (empty_sched_db runs))).
             same_domain (rq_domain_kind rq) (rq_domain_key rq) m \<and> live_at (clock e 0) m
             \<longrightarrow> cl_control_plane_id m = rq_control_plane_id rq))
     \<and> (\<not> sr_granted res \<longrightarrow>
          sd_leases db' = sd_leases (sched_run evs (empty_sched_db runs))
          \<and> (\<exists>c. \<exists>m\<in>set (sd_leases db'). sr_conflict res = Some c \<and> live_at (clock e 0) m
               \<and> lc_active_control_plane_id c = cl_control_plane_id m \<and> lc_fencing_token c = cl_fencing_token m))"
proof -
  let ?db = "sched_run evs (empty_sched_db runs)" and ?dk = "rq_domain_kind rq" and ?key = "rq_domain_key rq"
  have ok: "ledger_ok (sd_leases ?db)"
    by (rule sched_run_ledger) (simp add: empty_sched_db_def)
  obtain res db' where out: "local_submit_proposal cfg e rq ?db = Inr (res, db')"
    and br: "case active_committed_lease_for_domain ?dk ?key (clock e 0) ?db of
          None \<Rightarrow> sr_granted res
        | Some a \<Rightarrow> if cl_control_plane_id a = rq_control_plane_id rq then sr_granted res
            else \<not> sr_granted res \<and> sd_leases db' = sd_leases ?db
                 \<and> sr_conflict res = Some (conflict_with (rq_control_plane_id rq) a)"
    using local_submit_returns [OF ok assms] by blast
  show ?thesis
  proof (intro exI conjI, rule out, goal_cases)
    case 1
    show ?case
    proof (cases "active_committed_lease_for_domain ?dk ?key (clock e 0) ?db")
      case None
      then have "sr_granted res" using br by simp
      then show ?thesis using None by (auto simp: active_None_iff)
    next
      case (Some a)
      have sole: "m = a" if "m \<in> set (sd_leases ?db)" "same_domain ?dk ?key m" "live_at (clock e 0) m" for m
        using active_unique [OF ok that] Some by simp
      have "(\<forall>m\<in>set (sd_leases ?db). same_domain ?dk ?key m \<and> live_at (clock e 0) m \<longrightarrow>
          cl_control_plane_id m = rq_control_plane_id rq) \<longleftrightarrow> cl_control_plane_id a = rq_control_plane_id rq"
        using sole active_SomeD [OF Some] by blast
      moreover have "sr_granted res \<longleftrightarrow> cl_control_plane_id a = rq_control_plane_id rq"
        using br Some by (simp split: if_splits)
      ultimately show ?thesis by simp
    qed
  next
    case 2
    show ?case
    proof (cases "active_committed_lease_for_domain ?dk ?key (clock e 0) ?db")
      case None
      then show ?thesis using br by simp
    next
      case (Some a)
      then show ?thesis using br active_SomeD [OF Some] by (auto simp: conflict_with_def split: if_splits)
    qed
  qed
qed

theorem local_submit_decides_witness:
  "\<exists>res db'. local_submit_proposal demo_cfg (demo_env 7 ''z'') (dispatch_request ''a'' ''r'' ''t'') (sched_run demo_take demo_db)
      = Inr (res, db')"
proof -
  have f: "local_ids_fresh (demo_env 7 ''z'') (sched_run demo_take demo_db)" and r: "''r'' \<in> set (sd_runs (sched_run demo_take demo_db))"
    by code_simp+
  show ?thesis
    using local_submit_decides [of "dispatch_request ''a'' ''r'' ''t''" demo_cfg demo_take "[''r'']" "demo_env 7 ''z''"] f r
    by (auto simp: demo_db_def dispatch_request_def demo_cfg_def local_arbiter_init_def)
qed

text \<open>Releasing a lease that exists always returns; afterwards that lease is live at no time, every
other lease is untouched, and if it was the open lease of its domain the domain is free at every moment.\<close>

theorem release_frees_domain:
  assumes "m \<in> set (sd_leases (sched_run evs (empty_sched_db runs)))"
  shows "\<exists>rr db'. arbiter_release a e (cl_lease_id m) reason (sched_run evs (empty_sched_db runs)) = Inr (rr, db')
     \<and> (\<forall>l\<in>set (sd_leases db'). cl_lease_id l = cl_lease_id m \<longrightarrow> (\<forall>t. \<not> live_at t l))
     \<and> filter (\<lambda>l. cl_lease_id l \<noteq> cl_lease_id m) (sd_leases db')
         = filter (\<lambda>l. cl_lease_id l \<noteq> cl_lease_id m) (sd_leases (sched_run evs (empty_sched_db runs)))
     \<and> (cl_released_at m = None \<longrightarrow>
          (\<forall>t. active_committed_lease_for_domain (cl_domain_kind m) (cl_domain_key m) t db' = None))"
proof -
  let ?db = "sched_run evs (empty_sched_db runs)"
  have ok: "ledger_ok (sd_leases ?db)"
    by (rule sched_run_ledger) (simp add: empty_sched_db_def)
  have "get_committed_lease_by_lease_id (cl_lease_id m) ?db \<noteq> None"
    using assms by (auto simp: get_committed_lease_by_lease_id_def)
  then have "\<exists>rr db'. arbiter_release a e (cl_lease_id m) reason ?db = Inr (rr, db')"
    by (cases a) (auto simp: local_release_lease_def quorum_release_lease_def split: option.splits prod.splits)
  then obtain rr db' where out: "arbiter_release a e (cl_lease_id m) reason ?db = Inr (rr, db')" by blast
  have dead: "\<not> live_at t l" if "l \<in> set (sd_leases db')" "cl_lease_id l = cl_lease_id m" for t l
    by (rule any_arbiter.released_not_live [OF ok out that])
  have frame: "filter (\<lambda>l. cl_lease_id l \<noteq> cl_lease_id m) (sd_leases db')
         = filter (\<lambda>l. cl_lease_id l \<noteq> cl_lease_id m) (sd_leases ?db)"
    by (rule any_arbiter.release_frame [OF ok out])
  have "\<not> live_at t l" if l: "l \<in> set (sd_leases db')" "same_domain (cl_domain_kind m) (cl_domain_key m) l"
    and open_m: "cl_released_at m = None" for t l
  proof (cases "cl_lease_id l = cl_lease_id m")
    case True
    then show ?thesis using dead l(1) by simp
  next
    case False
    then have "l \<in> set (filter (\<lambda>l. cl_lease_id l \<noteq> cl_lease_id m) (sd_leases db'))" using l(1) by simp
    then have "l \<in> set (sd_leases ?db)" by (simp only: frame) simp
    then have "cl_released_at l \<noteq> None"
      using ledger_one_unreleased [OF ok _ assms l(2)] open_m False by (auto simp: same_domain_def)
    then show ?thesis by (auto simp: live_at_def)
  qed
  then show ?thesis
    using out dead frame by (auto simp: active_None_iff)
qed

theorem release_frees_domain_witness:
  "\<exists>(m :: committed_lease) rr db'. arbiter_release (LocalArbiter demo_cfg) (demo_env 7 ''z'') (cl_lease_id m) ''done'' (sched_run demo_take demo_db)
      = Inr (rr, db')"
proof -
  have "length (sd_leases (sched_run demo_take demo_db)) = 1" by code_simp
  then have "sd_leases (sched_run demo_take demo_db) ! 0 \<in> set (sd_leases (sched_run demo_take demo_db))" by simp
  then obtain rr db' where "arbiter_release (LocalArbiter demo_cfg) (demo_env 7 ''z'')
      (cl_lease_id (sd_leases (sched_run demo_take demo_db) ! 0)) ''done'' (sched_run demo_take demo_db) = Inr (rr, db')"
    using release_frees_domain [of _ demo_take "[''r'']" "LocalArbiter demo_cfg" "demo_env 7 ''z''" "''done''"]
    unfolding demo_db_def by meson
  then show ?thesis by blast
qed

end
