(* ===== verification/Run_Contracts.thy ===== *)
theory Run_Contracts
  imports WF_Prelude
begin

section \<open>Run contracts\<close>

text \<open>
  The enumerations and rows of a run's lifecycle: \<open>RunStatus\<close> with its transition table
  (\<^verbatim>\<open>packages/contracts/models.py\<close>), and \<open>RuntimeClaim\<close>, \<open>WorkerLease\<close>, \<open>RuntimeAttempt\<close> and
  \<open>RuntimeStateRef\<close> with the validators pydantic runs whenever a row is built or read back
  (\<^verbatim>\<open>packages/contracts/runtime.py\<close>). The constant column \<open>schema_version\<close> is left out.
\<close>

subsection \<open>Run status\<close>

datatype run_status = pending | prepared | running | awaiting_review | completed | failed | cancelled

fun run_status_name :: "run_status \<Rightarrow> string" where
  "run_status_name pending = ''pending''"
| "run_status_name prepared = ''prepared''"
| "run_status_name running = ''running''"
| "run_status_name awaiting_review = ''awaiting_review''"
| "run_status_name completed = ''completed''"
| "run_status_name failed = ''failed''"
| "run_status_name cancelled = ''cancelled''"

lemma run_status_name_inj [simp]: "run_status_name s = run_status_name t \<longleftrightarrow> s = t"
  by (cases s; cases t; simp)

text \<open>Statuses are ordered by their names, as \<open>sorted(.., key=str)\<close> orders them.\<close>

instantiation run_status :: linorder
begin

definition less_eq_run_status :: "run_status \<Rightarrow> run_status \<Rightarrow> bool" where
  "less_eq_run_status s t \<longleftrightarrow> run_status_name s \<le> run_status_name t"

definition less_run_status :: "run_status \<Rightarrow> run_status \<Rightarrow> bool" where
  "less_run_status s t \<longleftrightarrow> run_status_name s < run_status_name t"

instance
  by standard (auto simp: less_eq_run_status_def less_run_status_def order_less_le)

end

text \<open>\<open>RunStatus(x)\<close> on a string.\<close>

definition all_run_statuses :: "run_status list" where
  "all_run_statuses = [pending, prepared, running, awaiting_review, completed, failed, cancelled]"

definition run_status_of :: "string \<Rightarrow> werror + run_status" where
  "run_status_of x =
     (case sql_first (\<lambda>s. run_status_name s = x) all_run_statuses of
        None \<Rightarrow> Inl (ValueError ''RunStatus'')
      | Some s \<Rightarrow> Inr s)"

fun run_status_transitions :: "run_status \<Rightarrow> run_status set" where
  "run_status_transitions pending = {prepared, cancelled}"
| "run_status_transitions prepared = {prepared, running, cancelled}"
| "run_status_transitions running = {awaiting_review, completed, failed}"
| "run_status_transitions awaiting_review = {completed, failed, cancelled}"
| "run_status_transitions completed = {completed}"
| "run_status_transitions failed = {failed}"
| "run_status_transitions cancelled = {cancelled}"

definition allowed_run_status_transitions :: "run_status \<Rightarrow> run_status list" where
  "allowed_run_status_transitions s = filter (\<lambda>t. t \<in> run_status_transitions s) (sort all_run_statuses)"

definition can_transition_run_status :: "run_status \<Rightarrow> run_status \<Rightarrow> bool" where
  "can_transition_run_status s t \<longleftrightarrow> t \<in> run_status_transitions s"

definition terminal_run_status :: "run_status \<Rightarrow> bool" where
  "terminal_run_status s \<longleftrightarrow> s \<in> {completed, failed, cancelled}"

inductive run_status_step :: "run_status \<Rightarrow> run_status \<Rightarrow> bool" where
  "can_transition_run_status s t \<Longrightarrow> run_status_step s t"

inductive_simps run_status_step_iff: "run_status_step s t"
inductive_cases run_status_stepE: "run_status_step s t"

lemma run_status_of_name [simp]: "run_status_of (run_status_name s) = Inr s"
  by (cases s) (simp_all add: run_status_of_def all_run_statuses_def sql_first_def)

lemma run_status_of_Inr: "run_status_of x = Inr s \<Longrightarrow> x = run_status_name s"
  by (auto simp: run_status_of_def split: option.splits dest!: sql_first_Some)

lemma all_run_statuses_UNIV [simp]: "set all_run_statuses = UNIV"
  by (auto simp: all_run_statuses_def) (metis run_status.exhaust)

lemma allowed_transitions_set [simp]: "set (allowed_run_status_transitions s) = run_status_transitions s"
  by (auto simp: allowed_run_status_transitions_def)

lemma allowed_transitions_sorted: "sorted (allowed_run_status_transitions s)"
  by (simp add: allowed_run_status_transitions_def sorted_wrt_filter)

subsection \<open>Runtime enumerations\<close>

datatype graph_step = gs_compiled | gs_resuming | gs_awaiting_review | gs_completed | gs_failed | gs_cancelled

definition is_terminal_runtime_graph_step :: "graph_step \<Rightarrow> bool" where
  "is_terminal_runtime_graph_step g \<longleftrightarrow> g \<in> {gs_completed, gs_failed, gs_cancelled}"

datatype claim_status = cs_active | cs_released | cs_expired

text \<open>\<open>WorkerLeaseStatus\<close> has the members of \<open>RuntimeClaimStatus\<close>.\<close>

datatype worker_lease_status = ws_active | ws_released | ws_expired

datatype actor_kind = ak_control_plane | ak_worker

datatype domain_kind = dk_runtime_task | dk_batch_barrier

datatype attempt_trigger = at_compile | at_recompile | at_resume | at_repair

datatype attempt_status = as_current | as_superseded | as_interrupted | as_completed | as_failed | as_cancelled

datatype snapshot_stage = ss_compiled | ss_awaiting_review | ss_completed | ss_failed | ss_cancelled | ss_repaired

subsection \<open>Rows and their validators\<close>

record run_row =
  ru_run_id :: string
  ru_goal :: string
  ru_preset_id :: string
  ru_status :: run_status
  ru_updated_at :: time
  ru_created_at :: time

record state_ref =
  st_state_ref_id :: string
  st_run_id :: string
  st_runtime_task_id :: string
  st_graph_step :: graph_step
  st_state_payload :: "(string \<times> json) list"
  st_is_terminal :: bool
  st_updated_at :: time
  st_created_at :: time

definition validate_state_ref :: "state_ref \<Rightarrow> werror + state_ref" where
  "validate_state_ref s =
     rbind (rguard (st_is_terminal s = is_terminal_runtime_graph_step (st_graph_step s))
              (ValidationError ''RuntimeStateRef'')) (\<lambda>_. Inr s)"

record runtime_claim =
  rc_claim_id :: string
  rc_run_id :: string
  rc_runtime_task_id :: string
  rc_owner :: string
  rc_owner_kind :: actor_kind
  rc_owner_id :: string
  rc_domain_kind :: domain_kind
  rc_domain_key :: "string option"
  rc_attempt_id :: "string option"
  rc_status :: claim_status
  rc_lease_expires_at :: time
  rc_released_at :: "time option"
  rc_release_reason :: "string option"
  rc_created_at :: time

definition truthy :: "string option \<Rightarrow> bool" where
  "truthy x \<longleftrightarrow> x \<noteq> None \<and> x \<noteq> Some []"

definition validate_runtime_claim :: "runtime_claim \<Rightarrow> werror + runtime_claim" where
  "validate_runtime_claim c =
     (let c' = (if rc_domain_key c = None then c\<lparr>rc_domain_key := Some (rc_runtime_task_id c)\<rparr> else c)
      in if rc_status c' = cs_active
         then rbind (rguard (rc_released_at c' = None \<and> rc_release_reason c' = None)
                       (ValidationError ''RuntimeClaim'')) (\<lambda>_. Inr c')
         else rbind (rguard (rc_released_at c' \<noteq> None) (ValidationError ''RuntimeClaim'')) (\<lambda>_.
              rbind (rguard (truthy (rc_release_reason c')) (ValidationError ''RuntimeClaim'')) (\<lambda>_. Inr c')))"

record worker_lease =
  wl_lease_id :: string
  wl_run_id :: string
  wl_runtime_task_id :: string
  wl_worker_name :: string
  wl_worker_kind :: actor_kind
  wl_worker_id :: string
  wl_domain_kind :: domain_kind
  wl_domain_key :: "string option"
  wl_claim_id :: "string option"
  wl_attempt_id :: "string option"
  wl_adapter_name :: string
  wl_status :: worker_lease_status
  wl_heartbeat_at :: time
  wl_lease_expires_at :: time
  wl_released_at :: "time option"
  wl_release_reason :: "string option"
  wl_created_at :: time

definition validate_worker_lease :: "worker_lease \<Rightarrow> werror + worker_lease" where
  "validate_worker_lease l =
     (let l' = (if wl_domain_key l = None then l\<lparr>wl_domain_key := Some (wl_runtime_task_id l)\<rparr> else l)
      in if wl_status l' = ws_active
         then rbind (rguard (wl_released_at l' = None \<and> wl_release_reason l' = None)
                       (ValidationError ''WorkerLease'')) (\<lambda>_. Inr l')
         else rbind (rguard (wl_released_at l' \<noteq> None) (ValidationError ''WorkerLease'')) (\<lambda>_.
              rbind (rguard (truthy (wl_release_reason l')) (ValidationError ''WorkerLease'')) (\<lambda>_. Inr l')))"

record runtime_attempt =
  ra_attempt_id :: string
  ra_run_id :: string
  ra_runtime_task_id :: string
  ra_sequence_no :: int
  ra_trigger :: attempt_trigger
  ra_status :: attempt_status
  ra_superseded_by_attempt_id :: "string option"
  ra_superseded_at :: "time option"
  ra_supersede_reason :: "string option"
  ra_closed_at :: "time option"
  ra_close_reason :: "string option"
  ra_created_at :: time

definition validate_runtime_attempt :: "runtime_attempt \<Rightarrow> werror + runtime_attempt" where
  "validate_runtime_attempt a =
     rbind (rguard (ra_sequence_no a > 0) (ValidationError ''RuntimeAttempt'')) (\<lambda>_.
       if ra_status a = as_current
       then rbind (rguard (ra_superseded_by_attempt_id a = None \<and> ra_superseded_at a = None \<and> ra_supersede_reason a = None
                           \<and> ra_closed_at a = None \<and> ra_close_reason a = None)
                     (ValidationError ''RuntimeAttempt'')) (\<lambda>_. Inr a)
       else if ra_status a = as_superseded
       then rbind (rguard (truthy (ra_superseded_by_attempt_id a) \<and> ra_superseded_at a \<noteq> None \<and> truthy (ra_supersede_reason a))
                     (ValidationError ''RuntimeAttempt'')) (\<lambda>_.
            rbind (rguard (ra_closed_at a = None \<and> ra_close_reason a = None)
                     (ValidationError ''RuntimeAttempt'')) (\<lambda>_. Inr a))
       else rbind (rguard (ra_superseded_by_attempt_id a = None \<and> ra_superseded_at a = None \<and> ra_supersede_reason a = None)
                     (ValidationError ''RuntimeAttempt'')) (\<lambda>_.
            rbind (rguard (ra_closed_at a \<noteq> None \<and> truthy (ra_close_reason a))
                     (ValidationError ''RuntimeAttempt'')) (\<lambda>_. Inr a)))"

record budget_ledger =
  bl_ledger_id :: string
  bl_run_id :: string
  bl_preset_id :: string
  bl_max_retries :: int
  bl_timeout_seconds :: int
  bl_compile_count :: int
  bl_recompile_count :: int
  bl_execution_count :: int
  bl_total_runtime_ms :: int
  bl_last_return_code :: "int option"
  bl_updated_at :: time
  bl_created_at :: time

definition validate_budget_ledger :: "budget_ledger \<Rightarrow> werror + budget_ledger" where
  "validate_budget_ledger b =
     rbind (rguard (bl_max_retries b \<ge> 0 \<and> bl_timeout_seconds b > 0 \<and> bl_compile_count b \<ge> 0
                    \<and> bl_recompile_count b \<ge> 0 \<and> bl_execution_count b \<ge> 0 \<and> bl_total_runtime_ms b \<ge> 0)
              (ValidationError ''BudgetLedger'')) (\<lambda>_. Inr b)"

text \<open>The columns of a run event; the payload, built from the columns of its object, is left out.\<close>

record run_event =
  re_event_id :: string
  re_run_id :: string
  re_event_type :: string
  re_object_type :: string
  re_object_id :: string
  re_summary :: string
  re_created_at :: time

lemma validate_runtime_claimD:
  "validate_runtime_claim c = Inr c' \<Longrightarrow>
     c' = c\<lparr>rc_domain_key := rc_domain_key c'\<rparr> \<and> rc_domain_key c' \<noteq> None
     \<and> (rc_status c = cs_active \<longleftrightarrow> rc_released_at c = None)"
  by (auto simp: validate_runtime_claim_def Let_def rbind_eq_Inr split: if_splits)

lemma validate_worker_leaseD:
  "validate_worker_lease l = Inr l' \<Longrightarrow>
     l' = l\<lparr>wl_domain_key := wl_domain_key l'\<rparr> \<and> wl_domain_key l' \<noteq> None
     \<and> (wl_status l = ws_active \<longleftrightarrow> wl_released_at l = None)"
  by (auto simp: validate_worker_lease_def Let_def rbind_eq_Inr split: if_splits)

lemma validate_runtime_attemptD:
  "validate_runtime_attempt a = Inr a' \<Longrightarrow> a' = a \<and> ra_sequence_no a > 0
     \<and> (ra_status a = as_current \<longleftrightarrow> ra_superseded_at a = None \<and> ra_closed_at a = None)"
  by (auto simp: validate_runtime_attempt_def rbind_eq_Inr split: if_splits)

end
