(* ===== verification/Run_Store.thy ===== *)
theory Run_Store
  imports Run_Contracts
begin

section \<open>Run tables and repositories\<close>

text \<open>
  \<open>RunRepository\<close>, \<open>EventRepository\<close>, \<open>RuntimeClaimRepository\<close>, \<open>RuntimeAttemptRepository\<close>,
  \<open>BudgetLedgerRepository\<close> and \<open>WorkerLeaseRepository\<close> of \<^verbatim>\<open>packages/core_domain/repositories.py\<close>.
  Primary keys, foreign keys and unique indexes are those of the migrations: one active claim per
  task (\<^verbatim>\<open>003\<close>), one ledger per run (\<^verbatim>\<open>005\<close>), one current attempt per run and distinct sequence
  numbers within a run (\<^verbatim>\<open>007\<close>); an \<open>INSERT\<close> or \<open>UPDATE\<close> that breaks one raises \<open>IntegrityError\<close>.
  Every row read is validated again.
\<close>

record run_db =
  rd_runs :: "run_row list"
  rd_tasks :: "string list" \<comment> \<open>primary keys of \<open>runtime_tasks\<close>\<close>
  rd_claims :: "runtime_claim list"
  rd_worker_leases :: "worker_lease list"
  rd_attempts :: "runtime_attempt list"
  rd_budgets :: "budget_ledger list"
  rd_events :: "run_event list"

definition known_run :: "string \<Rightarrow> run_db \<Rightarrow> bool" where
  "known_run rid db \<longleftrightarrow> rid \<in> ru_run_id ` set (rd_runs db)"

subsection \<open>Runs\<close>

definition run_create :: "run_row \<Rightarrow> run_db \<Rightarrow> werror + run_db" where
  "run_create r db =
     rbind (sql_insert ''runs'' (\<not> known_run (ru_run_id r) db) r (rd_runs db)) (\<lambda>rows. Inr (db\<lparr>rd_runs := rows\<rparr>))"

definition run_get :: "string \<Rightarrow> run_db \<Rightarrow> run_row option" where
  "run_get rid db = sql_first (\<lambda>r. ru_run_id r = rid) (rd_runs db)"

definition run_list :: "nat option \<Rightarrow> run_status option \<Rightarrow> string option \<Rightarrow> run_db \<Rightarrow> run_row list" where
  "run_list limit status preset db =
     (let rows = rev (sql_order (\<lambda>r. (ru_updated_at r, ru_created_at r, ru_run_id r))
            (sql_where (\<lambda>r. (\<forall>s\<in>set_option status. ru_status r = s) \<and> (\<forall>p\<in>set_option preset. ru_preset_id r = p))
               (rd_runs db)))
      in case limit of None \<Rightarrow> rows | Some n \<Rightarrow> take n rows)"

definition run_update_status :: "string \<Rightarrow> run_status \<Rightarrow> time \<Rightarrow> run_db \<Rightarrow> run_row option \<times> run_db" where
  "run_update_status rid status now db =
     (let db' = db\<lparr>rd_runs := sql_update (\<lambda>r. ru_run_id r = rid)
                     (\<lambda>r. r\<lparr>ru_status := status, ru_updated_at := now\<rparr>) (rd_runs db)\<rparr>
      in (run_get rid db', db'))"

subsection \<open>Events\<close>

definition event_append ::
  "env \<Rightarrow> nat \<Rightarrow> string \<Rightarrow> string \<Rightarrow> string \<Rightarrow> string \<Rightarrow> string \<Rightarrow> run_db \<Rightarrow> werror + run_db" where
  "event_append e k rid typ obj oid summary db =
     (let ev = \<lparr>re_event_id = new_id ''event'' (hex12 e k), re_run_id = rid, re_event_type = typ,
                re_object_type = obj, re_object_id = oid, re_summary = summary, re_created_at = clock e k\<rparr>
      in rbind (sql_insert ''run_events''
                  (re_event_id ev \<notin> re_event_id ` set (rd_events db) \<and> known_run rid db) ev (rd_events db))
           (\<lambda>rows. Inr (db\<lparr>rd_events := rows\<rparr>)))"

definition event_list_for_run :: "string \<Rightarrow> run_db \<Rightarrow> run_event list" where
  "event_list_for_run rid db =
     sql_order (\<lambda>v. (re_created_at v, re_event_id v)) (sql_where (\<lambda>v. re_run_id v = rid) (rd_events db))"

subsection \<open>Claims\<close>

definition claims_unique :: "runtime_claim list \<Rightarrow> bool" where
  "claims_unique cs \<longleftrightarrow>
     distinct (map rc_claim_id cs)
     \<and> distinct (map rc_runtime_task_id (filter (\<lambda>c. rc_status c = cs_active) cs))"

definition claim_create :: "runtime_claim \<Rightarrow> run_db \<Rightarrow> werror + run_db" where
  "claim_create c db =
     rbind (sql_insert ''runtime_claims'' (claims_unique (rd_claims db @ [c]) \<and> known_run (rc_run_id c) db) c (rd_claims db))
       (\<lambda>rows. Inr (db\<lparr>rd_claims := rows\<rparr>))"

definition claim_get :: "string \<Rightarrow> run_db \<Rightarrow> werror + runtime_claim option" where
  "claim_get cid db = roption validate_runtime_claim (sql_first (\<lambda>c. rc_claim_id c = cid) (rd_claims db))"

definition claim_get_active_for_task :: "string \<Rightarrow> run_db \<Rightarrow> werror + runtime_claim option" where
  "claim_get_active_for_task tid db =
     roption validate_runtime_claim
       (top_by (\<lambda>c. (rc_created_at c, rc_claim_id c))
          (sql_where (\<lambda>c. rc_runtime_task_id c = tid \<and> rc_status c = cs_active) (rd_claims db)))"

definition claim_list_active_for_run :: "string \<Rightarrow> run_db \<Rightarrow> werror + runtime_claim list" where
  "claim_list_active_for_run rid db =
     rmap validate_runtime_claim
       (sql_order (\<lambda>c. (rc_created_at c, rc_claim_id c))
          (sql_where (\<lambda>c. rc_run_id c = rid \<and> rc_status c = cs_active) (rd_claims db)))"

definition claim_list_for_run :: "string \<Rightarrow> run_db \<Rightarrow> werror + runtime_claim list" where
  "claim_list_for_run rid db =
     rmap validate_runtime_claim
       (sql_order (\<lambda>c. (rc_created_at c, rc_claim_id c)) (sql_where (\<lambda>c. rc_run_id c = rid) (rd_claims db)))"

definition claim_latest_for_run :: "string \<Rightarrow> run_db \<Rightarrow> werror + runtime_claim option" where
  "claim_latest_for_run rid db =
     roption validate_runtime_claim
       (top_by (\<lambda>c. (rc_created_at c, rc_claim_id c)) (sql_where (\<lambda>c. rc_run_id c = rid) (rd_claims db)))"

definition set_claim_status :: "claim_status \<Rightarrow> time \<Rightarrow> string \<Rightarrow> runtime_claim \<Rightarrow> runtime_claim" where
  "set_claim_status status at reason c =
     c\<lparr>rc_status := status, rc_released_at := Some at, rc_release_reason := Some reason\<rparr>"

definition claim_release ::
  "string \<Rightarrow> time \<Rightarrow> string \<Rightarrow> claim_status \<Rightarrow> run_db \<Rightarrow> werror + runtime_claim option \<times> run_db" where
  "claim_release cid at reason status db =
     (let rows = sql_update (\<lambda>c. rc_claim_id c = cid) (set_claim_status status at reason) (rd_claims db);
          db' = db\<lparr>rd_claims := rows\<rparr>
      in rbind (rguard (claims_unique rows) (IntegrityError ''runtime_claims'')) (\<lambda>_.
         rbind (claim_get cid db') (\<lambda>c. Inr (c, db'))))"

subsection \<open>Worker leases\<close>

definition worker_lease_create :: "worker_lease \<Rightarrow> run_db \<Rightarrow> werror + run_db" where
  "worker_lease_create l db =
     rbind (sql_insert ''worker_leases''
              (wl_lease_id l \<notin> wl_lease_id ` set (rd_worker_leases db) \<and> known_run (wl_run_id l) db
               \<and> wl_runtime_task_id l \<in> set (rd_tasks db)) l (rd_worker_leases db))
       (\<lambda>rows. Inr (db\<lparr>rd_worker_leases := rows\<rparr>))"

definition worker_lease_get :: "string \<Rightarrow> run_db \<Rightarrow> werror + worker_lease option" where
  "worker_lease_get lid db = roption validate_worker_lease (sql_first (\<lambda>l. wl_lease_id l = lid) (rd_worker_leases db))"

definition worker_lease_get_active_for_task :: "string \<Rightarrow> run_db \<Rightarrow> werror + worker_lease option" where
  "worker_lease_get_active_for_task tid db =
     roption validate_worker_lease
       (top_by (\<lambda>l. (wl_created_at l, wl_lease_id l))
          (sql_where (\<lambda>l. wl_runtime_task_id l = tid \<and> wl_status l = ws_active) (rd_worker_leases db)))"

definition worker_lease_list_active_for_run :: "string \<Rightarrow> run_db \<Rightarrow> werror + worker_lease list" where
  "worker_lease_list_active_for_run rid db =
     rmap validate_worker_lease
       (sql_order (\<lambda>l. (wl_created_at l, wl_lease_id l))
          (sql_where (\<lambda>l. wl_run_id l = rid \<and> wl_status l = ws_active) (rd_worker_leases db)))"

definition worker_lease_list_for_run :: "string \<Rightarrow> run_db \<Rightarrow> werror + worker_lease list" where
  "worker_lease_list_for_run rid db =
     rmap validate_worker_lease
       (sql_order (\<lambda>l. (wl_created_at l, wl_lease_id l)) (sql_where (\<lambda>l. wl_run_id l = rid) (rd_worker_leases db)))"

definition worker_lease_latest_for_run :: "string \<Rightarrow> run_db \<Rightarrow> werror + worker_lease option" where
  "worker_lease_latest_for_run rid db =
     roption validate_worker_lease
       (top_by (\<lambda>l. (wl_created_at l, wl_lease_id l)) (sql_where (\<lambda>l. wl_run_id l = rid) (rd_worker_leases db)))"

definition set_lease_status :: "worker_lease_status \<Rightarrow> time \<Rightarrow> string \<Rightarrow> worker_lease \<Rightarrow> worker_lease" where
  "set_lease_status status at reason l =
     l\<lparr>wl_status := status, wl_released_at := Some at, wl_release_reason := Some reason\<rparr>"

definition worker_lease_release ::
  "string \<Rightarrow> time \<Rightarrow> string \<Rightarrow> worker_lease_status \<Rightarrow> run_db \<Rightarrow> werror + worker_lease option \<times> run_db" where
  "worker_lease_release lid at reason status db =
     (let db' = db\<lparr>rd_worker_leases :=
            sql_update (\<lambda>l. wl_lease_id l = lid) (set_lease_status status at reason) (rd_worker_leases db)\<rparr>
      in rbind (worker_lease_get lid db') (\<lambda>l. Inr (l, db')))"

definition worker_lease_touch ::
  "string \<Rightarrow> time \<Rightarrow> time \<Rightarrow> run_db \<Rightarrow> werror + worker_lease option \<times> run_db" where
  "worker_lease_touch lid heartbeat expires db =
     (let db' = db\<lparr>rd_worker_leases :=
            sql_update (\<lambda>l. wl_lease_id l = lid \<and> wl_status l = ws_active)
              (\<lambda>l. l\<lparr>wl_heartbeat_at := heartbeat, wl_lease_expires_at := expires\<rparr>) (rd_worker_leases db)\<rparr>
      in rbind (worker_lease_get lid db') (\<lambda>l. Inr (l, db')))"

subsection \<open>Attempts\<close>

definition attempts_unique :: "runtime_attempt list \<Rightarrow> bool" where
  "attempts_unique xs \<longleftrightarrow>
     distinct (map ra_attempt_id xs) \<and> distinct (map (\<lambda>a. (ra_run_id a, ra_sequence_no a)) xs)
     \<and> distinct (map ra_run_id (filter (\<lambda>a. ra_status a = as_current) xs))"

definition attempt_create :: "runtime_attempt \<Rightarrow> run_db \<Rightarrow> werror + run_db" where
  "attempt_create a db =
     rbind (sql_insert ''runtime_attempts'' (attempts_unique (rd_attempts db @ [a]) \<and> known_run (ra_run_id a) db)
              a (rd_attempts db))
       (\<lambda>rows. Inr (db\<lparr>rd_attempts := rows\<rparr>))"

definition attempt_get :: "string \<Rightarrow> run_db \<Rightarrow> werror + runtime_attempt option" where
  "attempt_get aid db = roption validate_runtime_attempt (sql_first (\<lambda>a. ra_attempt_id a = aid) (rd_attempts db))"

definition attempt_list_for_run :: "string \<Rightarrow> run_db \<Rightarrow> werror + runtime_attempt list" where
  "attempt_list_for_run rid db =
     rmap validate_runtime_attempt
       (sql_order (\<lambda>a. (ra_sequence_no a, ra_created_at a, ra_attempt_id a))
          (sql_where (\<lambda>a. ra_run_id a = rid) (rd_attempts db)))"

definition attempt_list_for_task :: "string \<Rightarrow> run_db \<Rightarrow> werror + runtime_attempt list" where
  "attempt_list_for_task tid db =
     rmap validate_runtime_attempt
       (sql_order (\<lambda>a. (ra_sequence_no a, ra_created_at a, ra_attempt_id a))
          (sql_where (\<lambda>a. ra_runtime_task_id a = tid) (rd_attempts db)))"

definition attempt_latest_for_run :: "string \<Rightarrow> run_db \<Rightarrow> werror + runtime_attempt option" where
  "attempt_latest_for_run rid db =
     roption validate_runtime_attempt
       (top_by (\<lambda>a. (ra_sequence_no a, ra_created_at a, ra_attempt_id a))
          (sql_where (\<lambda>a. ra_run_id a = rid) (rd_attempts db)))"

definition attempt_current_for_run :: "string \<Rightarrow> run_db \<Rightarrow> werror + runtime_attempt option" where
  "attempt_current_for_run rid db =
     roption validate_runtime_attempt
       (top_by (\<lambda>a. (ra_sequence_no a, ra_created_at a, ra_attempt_id a))
          (sql_where (\<lambda>a. ra_run_id a = rid \<and> ra_status a = as_current) (rd_attempts db)))"

definition attempt_list_superseded_for_run :: "string \<Rightarrow> run_db \<Rightarrow> werror + runtime_attempt list" where
  "attempt_list_superseded_for_run rid db =
     rmap validate_runtime_attempt
       (sql_order (\<lambda>a. (ra_sequence_no a, ra_created_at a, ra_attempt_id a))
          (sql_where (\<lambda>a. ra_run_id a = rid \<and> ra_status a = as_superseded) (rd_attempts db)))"

definition next_sequence_for_run :: "string \<Rightarrow> run_db \<Rightarrow> int" where
  "next_sequence_for_run rid db = sql_max0 ra_sequence_no (sql_where (\<lambda>a. ra_run_id a = rid) (rd_attempts db)) + 1"

definition set_superseded :: "string \<Rightarrow> time \<Rightarrow> string \<Rightarrow> runtime_attempt \<Rightarrow> runtime_attempt" where
  "set_superseded by at reason a =
     a\<lparr>ra_status := as_superseded, ra_superseded_by_attempt_id := Some by, ra_superseded_at := Some at,
       ra_supersede_reason := Some reason, ra_closed_at := None, ra_close_reason := None\<rparr>"

definition set_closed :: "attempt_status \<Rightarrow> time \<Rightarrow> string \<Rightarrow> runtime_attempt \<Rightarrow> runtime_attempt" where
  "set_closed status at reason a =
     a\<lparr>ra_status := status, ra_closed_at := Some at, ra_close_reason := Some reason,
       ra_superseded_by_attempt_id := None, ra_superseded_at := None, ra_supersede_reason := None\<rparr>"

definition attempt_supersede ::
  "string \<Rightarrow> string \<Rightarrow> time \<Rightarrow> string \<Rightarrow> run_db \<Rightarrow> werror + runtime_attempt option \<times> run_db" where
  "attempt_supersede aid by at reason db =
     (let rows = sql_update (\<lambda>a. ra_attempt_id a = aid) (set_superseded by at reason) (rd_attempts db);
          db' = db\<lparr>rd_attempts := rows\<rparr>
      in rbind (rguard (attempts_unique rows) (IntegrityError ''runtime_attempts'')) (\<lambda>_.
         rbind (attempt_get aid db') (\<lambda>a. Inr (a, db'))))"

definition attempt_close ::
  "string \<Rightarrow> attempt_status \<Rightarrow> time \<Rightarrow> string \<Rightarrow> run_db \<Rightarrow> werror + runtime_attempt option \<times> run_db" where
  "attempt_close aid status at reason db =
     (let rows = sql_update (\<lambda>a. ra_attempt_id a = aid) (set_closed status at reason) (rd_attempts db);
          db' = db\<lparr>rd_attempts := rows\<rparr>
      in rbind (rguard (attempts_unique rows) (IntegrityError ''runtime_attempts'')) (\<lambda>_.
         rbind (attempt_get aid db') (\<lambda>a. Inr (a, db'))))"

subsection \<open>Budgets\<close>

definition budget_create :: "budget_ledger \<Rightarrow> run_db \<Rightarrow> werror + run_db" where
  "budget_create b db =
     rbind (sql_insert ''budget_ledgers''
              (bl_ledger_id b \<notin> bl_ledger_id ` set (rd_budgets db) \<and> bl_run_id b \<notin> bl_run_id ` set (rd_budgets db)
               \<and> known_run (bl_run_id b) db) b (rd_budgets db))
       (\<lambda>rows. Inr (db\<lparr>rd_budgets := rows\<rparr>))"

definition budget_get_by_run :: "string \<Rightarrow> run_db \<Rightarrow> werror + budget_ledger option" where
  "budget_get_by_run rid db = roption validate_budget_ledger (sql_first (\<lambda>b. bl_run_id b = rid) (rd_budgets db))"

text \<open>\<open>UPDATE .. WHERE run_id = ?\<close> writes every column but the key, the run and the creation time.\<close>

definition budget_update :: "budget_ledger \<Rightarrow> run_db \<Rightarrow> werror + budget_ledger \<times> run_db" where
  "budget_update b db =
     (let db' = db\<lparr>rd_budgets := sql_update (\<lambda>r. bl_run_id r = bl_run_id b)
            (\<lambda>r. b\<lparr>bl_ledger_id := bl_ledger_id r, bl_run_id := bl_run_id r, bl_created_at := bl_created_at r\<rparr>)
            (rd_budgets db)\<rparr>
      in rbind (budget_get_by_run (bl_run_id b) db') (\<lambda>stored.
           case stored of None \<Rightarrow> Inl AssertionError | Some s \<Rightarrow> Inr (s, db')))"

subsection \<open>The tables as repositories\<close>

text \<open>Claims, leases, attempts and runs are repositories; an update keeps the primary key.\<close>

interpretation claims: repository rc_claim_id
  "\<lambda>c rows. sql_insert ''runtime_claims'' (claims_unique (rows @ [c])) c rows"
  "\<lambda>k rows. sql_first (\<lambda>c. rc_claim_id c = k) rows"
  by unfold_locales (auto simp: claims_unique_def)

interpretation claim_table: mutable_repository rc_claim_id
  "\<lambda>c rows. sql_insert ''runtime_claims'' (claims_unique (rows @ [c])) c rows"
  "\<lambda>k rows. sql_first (\<lambda>c. rc_claim_id c = k) rows"
  "\<lambda>(s, at, r). set_claim_status s at r" "\<lambda>_. True"
  "\<lambda>k v rows. sql_update (\<lambda>c. rc_claim_id c = k) (case v of (s, at, r) \<Rightarrow> set_claim_status s at r) rows"
  by unfold_locales (auto simp: set_claim_status_def split: prod.splits)

interpretation lease_table: mutable_repository wl_lease_id
  "\<lambda>l rows. sql_insert ''worker_leases'' (wl_lease_id l \<notin> wl_lease_id ` set rows) l rows"
  "\<lambda>k rows. sql_first (\<lambda>l. wl_lease_id l = k) rows"
  "\<lambda>(hb, ex) l. l\<lparr>wl_heartbeat_at := hb, wl_lease_expires_at := ex\<rparr>" "\<lambda>l. wl_status l = ws_active"
  "\<lambda>k v rows. sql_update (\<lambda>l. wl_lease_id l = k \<and> wl_status l = ws_active)
     (\<lambda>l. case v of (hb, ex) \<Rightarrow> l\<lparr>wl_heartbeat_at := hb, wl_lease_expires_at := ex\<rparr>) rows"
  by unfold_locales (auto split: prod.splits)

interpretation attempt_table: mutable_repository ra_attempt_id
  "\<lambda>a rows. sql_insert ''runtime_attempts'' (attempts_unique (rows @ [a])) a rows"
  "\<lambda>k rows. sql_first (\<lambda>a. ra_attempt_id a = k) rows"
  "\<lambda>(by, at, r). set_superseded by at r" "\<lambda>_. True"
  "\<lambda>k v rows. sql_update (\<lambda>a. ra_attempt_id a = k) (case v of (by, at, r) \<Rightarrow> set_superseded by at r) rows"
  by unfold_locales (auto simp: set_superseded_def attempts_unique_def split: prod.splits)

end
