(* ===== verification/Run_Ownership.thy ===== *)
theory Run_Ownership
  imports Run_Store
begin

section \<open>Ownership of runtime tasks\<close>

text \<open>
  The ownership operations of \<open>OrchestratorService\<close> (\<^verbatim>\<open>packages/core_domain/services.py\<close> and
  \<^verbatim>\<open>service_core_helpers.py\<close>): runtime claims, worker leases, runtime attempts, the budget ledger
  and the run-status transition. Each is the code of the method on an open connection; its writes
  and its run event are one transaction. A claim, lease, attempt or run that the caller passes is the
  row the caller read earlier, which may be stale.
\<close>

definition claim_lease_seconds :: int where
  "claim_lease_seconds = 300"

definition worker_lease_seconds :: int where
  "worker_lease_seconds = 300"

definition ownership_domain_for :: "string \<Rightarrow> domain_kind \<Rightarrow> string option \<Rightarrow> domain_kind \<times> string" where
  "ownership_domain_for task kind key = (kind, str_or key task)"

subsection \<open>Run status\<close>

definition require_status :: "run_row \<Rightarrow> string \<Rightarrow> run_status list \<Rightarrow> werror + unit" where
  "require_status r action allowed =
     rguard (ru_status r \<in> set allowed)
       (InvalidStateTransitionError action (run_status_name (ru_status r)) (map run_status_name allowed) None)"

definition transition_run_status :: "env \<Rightarrow> run_row \<Rightarrow> string \<Rightarrow> run_status \<Rightarrow> run_db \<Rightarrow> werror + run_row \<times> run_db" where
  "transition_run_status e r action target db =
     rbind (rguard (can_transition_run_status (ru_status r) target)
              (InvalidStateTransitionError action (run_status_name (ru_status r))
                 (map run_status_name (allowed_run_status_transitions (ru_status r))) (Some (run_status_name target)))) (\<lambda>_.
       let (stored, db') = run_update_status (ru_run_id r) target (clock e 0) db
       in case stored of None \<Rightarrow> Inl AssertionError | Some r' \<Rightarrow> Inr (r', db'))"

definition next_action_for :: "run_status \<Rightarrow> string" where
  "next_action_for s =
     (if s = pending then ''compile'' else if s = prepared then ''resume''
      else if s = awaiting_review then ''human_review'' else if s = running then ''observe'' else ''none'')"

subsection \<open>Budget\<close>

definition remaining_retries :: "budget_ledger option \<Rightarrow> int option" where
  "remaining_retries b = map_option (\<lambda>l. max (bl_max_retries l - bl_recompile_count l) 0) b"

definition ensure_budget_ledger ::
  "env \<Rightarrow> string \<Rightarrow> string \<Rightarrow> int \<Rightarrow> int \<Rightarrow> int \<Rightarrow> run_db \<Rightarrow> werror + budget_ledger \<times> run_db" where
  "ensure_budget_ledger e rid preset max_retries timeout compile_count db =
     rbind (budget_get_by_run rid db) (\<lambda>stored.
       case stored of
         Some l \<Rightarrow> Inr (l, db)
       | None \<Rightarrow>
           rbind (validate_budget_ledger
                    \<lparr>bl_ledger_id = new_id ''ledger'' (hex12 e 0), bl_run_id = rid, bl_preset_id = preset,
                     bl_max_retries = max_retries, bl_timeout_seconds = timeout, bl_compile_count = compile_count,
                     bl_recompile_count = 0, bl_execution_count = 0, bl_total_runtime_ms = 0,
                     bl_last_return_code = None, bl_updated_at = clock e 1, bl_created_at = clock e 0\<rparr>) (\<lambda>l.
           rbind (budget_create l db) (\<lambda>db'. Inr (l, db'))))"

subsection \<open>Claims\<close>

definition acquire_runtime_claim ::
  "env \<Rightarrow> string \<Rightarrow> string \<Rightarrow> string \<Rightarrow> actor_kind \<Rightarrow> string \<Rightarrow> domain_kind \<Rightarrow> string option \<Rightarrow> string option
   \<Rightarrow> run_db \<Rightarrow> werror + runtime_claim \<times> run_db" where
  "acquire_runtime_claim e rid task owner okind oid dkind dkey attempt db =
     rbind (claim_get_active_for_task task db) (\<lambda>active.
       case active of
         Some a \<Rightarrow> Inl (RuntimeClaimConflictError task (rc_claim_id a) (rc_lease_expires_at a))
       | None \<Rightarrow>
           rbind (validate_runtime_claim
                    \<lparr>rc_claim_id = new_id ''claim'' (hex12 e 0), rc_run_id = rid, rc_runtime_task_id = task,
                     rc_owner = owner, rc_owner_kind = okind, rc_owner_id = oid,
                     rc_domain_kind = fst (ownership_domain_for task dkind dkey),
                     rc_domain_key = Some (snd (ownership_domain_for task dkind dkey)),
                     rc_attempt_id = attempt, rc_status = cs_active,
                     rc_lease_expires_at = clock e 0 + seconds claim_lease_seconds,
                     rc_released_at = None, rc_release_reason = None, rc_created_at = clock e 1\<rparr>) (\<lambda>c.
           rbind (claim_create c db) (\<lambda>db1.
           rbind (event_append e 2 rid ''claim_acquired'' ''runtime_claim'' (rc_claim_id c) ''Runtime claim acquired'' db1)
             (\<lambda>db2. Inr (c, db2)))))"

fun claim_status_name :: "claim_status \<Rightarrow> string" where
  "claim_status_name cs_active = ''active''"
| "claim_status_name cs_released = ''released''"
| "claim_status_name cs_expired = ''expired''"

definition release_runtime_claim ::
  "env \<Rightarrow> runtime_claim \<Rightarrow> claim_status \<Rightarrow> string \<Rightarrow> run_db \<Rightarrow> werror + runtime_claim \<times> run_db" where
  "release_runtime_claim e c status reason db =
     rbind (claim_release (rc_claim_id c) (clock e 0) reason status db) (\<lambda>(released, db1).
       case released of
         None \<Rightarrow> Inl AssertionError
       | Some r \<Rightarrow>
           rbind (event_append e 1 (rc_run_id c) ''claim_released'' ''runtime_claim'' (rc_claim_id c)
                    (''Runtime claim '' @ claim_status_name status) db1)
             (\<lambda>db2. Inr (r, db2)))"

fun release_claims_loop ::
  "env \<Rightarrow> claim_status \<Rightarrow> string \<Rightarrow> runtime_claim list \<Rightarrow> run_db \<Rightarrow> werror + runtime_claim list \<times> run_db" where
  "release_claims_loop e status reason [] db = Inr ([], db)"
| "release_claims_loop e status reason (c # cs) db =
     rbind (release_runtime_claim e c status reason db) (\<lambda>(r, db1).
     rbind (release_claims_loop (env_from 2 e) status reason cs db1) (\<lambda>(rs, db2). Inr (r # rs, db2)))"

definition release_active_claims_for_run ::
  "env \<Rightarrow> string \<Rightarrow> claim_status \<Rightarrow> string \<Rightarrow> run_db \<Rightarrow> werror + runtime_claim list \<times> run_db" where
  "release_active_claims_for_run e rid status reason db =
     rbind (claim_list_active_for_run rid db) (\<lambda>cs. release_claims_loop e status reason cs db)"

subsection \<open>Worker leases\<close>

definition acquire_worker_lease ::
  "env \<Rightarrow> string \<Rightarrow> string \<Rightarrow> string \<Rightarrow> string \<Rightarrow> actor_kind \<Rightarrow> string \<Rightarrow> domain_kind \<Rightarrow> string option \<Rightarrow> string option
   \<Rightarrow> string option \<Rightarrow> run_db \<Rightarrow> werror + worker_lease \<times> run_db" where
  "acquire_worker_lease e rid task adapter wname wkind wid dkind dkey claim attempt db =
     rbind (validate_worker_lease
              \<lparr>wl_lease_id = new_id ''lease'' (hex12 e 0), wl_run_id = rid, wl_runtime_task_id = task,
               wl_worker_name = wname, wl_worker_kind = wkind, wl_worker_id = wid,
               wl_domain_kind = fst (ownership_domain_for task dkind dkey),
               wl_domain_key = Some (snd (ownership_domain_for task dkind dkey)),
               wl_claim_id = claim, wl_attempt_id = attempt, wl_adapter_name = adapter, wl_status = ws_active,
               wl_heartbeat_at = clock e 0, wl_lease_expires_at = clock e 1 + seconds worker_lease_seconds,
               wl_released_at = None, wl_release_reason = None, wl_created_at = clock e 2\<rparr>) (\<lambda>l.
     rbind (worker_lease_create l db) (\<lambda>db1.
     rbind (event_append e 3 rid ''worker_lease_acquired'' ''worker_lease'' (wl_lease_id l) ''Worker lease acquired'' db1)
       (\<lambda>db2. Inr (l, db2))))"

fun worker_lease_status_name :: "worker_lease_status \<Rightarrow> string" where
  "worker_lease_status_name ws_active = ''active''"
| "worker_lease_status_name ws_released = ''released''"
| "worker_lease_status_name ws_expired = ''expired''"

definition release_worker_lease ::
  "env \<Rightarrow> worker_lease \<Rightarrow> worker_lease_status \<Rightarrow> string \<Rightarrow> run_db \<Rightarrow> werror + worker_lease \<times> run_db" where
  "release_worker_lease e l status reason db =
     rbind (worker_lease_release (wl_lease_id l) (clock e 0) reason status db) (\<lambda>(released, db1).
       case released of
         None \<Rightarrow> Inl AssertionError
       | Some r \<Rightarrow>
           rbind (event_append e 1 (wl_run_id l) ''worker_lease_released'' ''worker_lease'' (wl_lease_id l)
                    (''Worker lease '' @ worker_lease_status_name status) db1)
             (\<lambda>db2. Inr (r, db2)))"

fun release_leases_loop ::
  "env \<Rightarrow> worker_lease_status \<Rightarrow> string \<Rightarrow> worker_lease list \<Rightarrow> run_db \<Rightarrow> werror + worker_lease list \<times> run_db" where
  "release_leases_loop e status reason [] db = Inr ([], db)"
| "release_leases_loop e status reason (l # ls) db =
     rbind (release_worker_lease e l status reason db) (\<lambda>(r, db1).
     rbind (release_leases_loop (env_from 2 e) status reason ls db1) (\<lambda>(rs, db2). Inr (r # rs, db2)))"

definition release_active_worker_leases_for_run ::
  "env \<Rightarrow> string \<Rightarrow> worker_lease_status \<Rightarrow> string \<Rightarrow> run_db \<Rightarrow> werror + worker_lease list \<times> run_db" where
  "release_active_worker_leases_for_run e rid status reason db =
     rbind (worker_lease_list_active_for_run rid db) (\<lambda>ls. release_leases_loop e status reason ls db)"

text \<open>The two flags of \<open>_ownership_topology_projection\<close>.\<close>

definition topology_aligned :: "runtime_claim option \<Rightarrow> worker_lease option \<Rightarrow> bool" where
  "topology_aligned claim lease =
     (case (claim, lease) of
        (Some c, Some l) \<Rightarrow> rc_domain_kind c = wl_domain_kind l \<and> rc_domain_key c = wl_domain_key l
                            \<and> wl_claim_id l = Some (rc_claim_id c)
      | _ \<Rightarrow> False)"

definition attempt_aligned :: "runtime_claim option \<Rightarrow> worker_lease option \<Rightarrow> runtime_attempt option \<Rightarrow> bool" where
  "attempt_aligned claim lease attempt =
     (case (attempt, claim, lease) of
        (Some a, Some c, Some l) \<Rightarrow> rc_attempt_id c = Some (ra_attempt_id a) \<and> wl_attempt_id l = Some (ra_attempt_id a)
      | _ \<Rightarrow> False)"

subsection \<open>Attempts\<close>

definition new_attempt :: "env \<Rightarrow> string \<Rightarrow> string \<Rightarrow> attempt_trigger \<Rightarrow> run_db \<Rightarrow> werror + runtime_attempt" where
  "new_attempt e rid task trigger db =
     validate_runtime_attempt
       \<lparr>ra_attempt_id = new_id ''attempt'' (hex12 e 0), ra_run_id = rid, ra_runtime_task_id = task,
        ra_sequence_no = next_sequence_for_run rid db, ra_trigger = trigger, ra_status = as_current,
        ra_superseded_by_attempt_id = None, ra_superseded_at = None, ra_supersede_reason = None,
        ra_closed_at = None, ra_close_reason = None, ra_created_at = clock e 0\<rparr>"

definition store_attempt :: "env \<Rightarrow> nat \<Rightarrow> runtime_attempt \<Rightarrow> run_db \<Rightarrow> werror + run_db" where
  "store_attempt e k a db =
     rbind (attempt_create a db) (\<lambda>db1.
       event_append e k (ra_run_id a) ''runtime_attempt_created'' ''runtime_attempt'' (ra_attempt_id a)
         ''Runtime attempt created'' db1)"

definition create_runtime_attempt ::
  "env \<Rightarrow> string \<Rightarrow> string \<Rightarrow> attempt_trigger \<Rightarrow> run_db \<Rightarrow> werror + runtime_attempt \<times> run_db" where
  "create_runtime_attempt e rid task trigger db =
     rbind (new_attempt e rid task trigger db) (\<lambda>a. rbind (store_attempt e 1 a db) (\<lambda>db'. Inr (a, db')))"

definition supersede_runtime_attempt ::
  "env \<Rightarrow> nat \<Rightarrow> runtime_attempt \<Rightarrow> string \<Rightarrow> string \<Rightarrow> run_db \<Rightarrow> werror + runtime_attempt \<times> run_db" where
  "supersede_runtime_attempt e k a by reason db =
     rbind (attempt_supersede (ra_attempt_id a) by (clock e k) reason db) (\<lambda>(superseded, db1).
       case superseded of
         None \<Rightarrow> Inl AssertionError
       | Some s \<Rightarrow>
           rbind (event_append e (k + 1) (ra_run_id a) ''runtime_attempt_superseded'' ''runtime_attempt'' (ra_attempt_id a)
                    ''Runtime attempt superseded'' db1)
             (\<lambda>db2. Inr (s, db2)))"

fun attempt_status_name :: "attempt_status \<Rightarrow> string" where
  "attempt_status_name as_current = ''current''"
| "attempt_status_name as_superseded = ''superseded''"
| "attempt_status_name as_interrupted = ''interrupted''"
| "attempt_status_name as_completed = ''completed''"
| "attempt_status_name as_failed = ''failed''"
| "attempt_status_name as_cancelled = ''cancelled''"

definition close_runtime_attempt ::
  "env \<Rightarrow> runtime_attempt \<Rightarrow> attempt_status \<Rightarrow> string \<Rightarrow> run_db \<Rightarrow> werror + runtime_attempt \<times> run_db" where
  "close_runtime_attempt e a status reason db =
     rbind (attempt_close (ra_attempt_id a) status (clock e 0) reason db) (\<lambda>(closed, db1).
       case closed of
         None \<Rightarrow> Inl AssertionError
       | Some c \<Rightarrow>
           rbind (event_append e 1 (ra_run_id a) ''runtime_attempt_closed'' ''runtime_attempt'' (ra_attempt_id a)
                    (''Runtime attempt '' @ attempt_status_name status) db1)
             (\<lambda>db2. Inr (c, db2)))"

text \<open>The new attempt of \<open>_ensure_current_runtime_attempt\<close>, which supersedes the one that was current.\<close>

definition advance_runtime_attempt ::
  "env \<Rightarrow> string \<Rightarrow> string \<Rightarrow> attempt_trigger \<Rightarrow> string \<Rightarrow> runtime_attempt option \<Rightarrow> run_db
   \<Rightarrow> werror + runtime_attempt \<times> run_db" where
  "advance_runtime_attempt e rid task trigger reason current db =
     rbind (new_attempt e rid task trigger db) (\<lambda>a.
     rbind (case current of
              None \<Rightarrow> Inr db
            | Some c \<Rightarrow> rbind (supersede_runtime_attempt e 1 c (ra_attempt_id a) reason db) (\<lambda>(_, db1). Inr db1)) (\<lambda>db1.
     rbind (store_attempt e 3 a db1) (\<lambda>db2. Inr (a, db2))))"

definition ensure_current_runtime_attempt ::
  "env \<Rightarrow> string \<Rightarrow> string \<Rightarrow> attempt_trigger \<Rightarrow> string \<Rightarrow> bool \<Rightarrow> run_db \<Rightarrow> werror + runtime_attempt \<times> run_db" where
  "ensure_current_runtime_attempt e rid task trigger reason force_new db =
     rbind (attempt_current_for_run rid db) (\<lambda>current.
       if \<not> force_new \<and> current \<noteq> None \<and> ra_runtime_task_id (the current) = task
       then Inr (the current, db)
       else advance_runtime_attempt e rid task trigger reason current db)"

end
