(* ===== verification/Run_Laws.thy ===== *)
theory Run_Laws
  imports Run_Ownership
begin

section \<open>Invariants of ownership\<close>

text \<open>
  \<open>own_ok\<close> states what the tables of claims, worker leases and attempts always satisfy: rows are
  valid contracts, a task has at most one active claim, a run at most one current attempt, the
  attempts of a run are numbered 1, 2, 3, .. in order of creation and the current one is the last.
  Every ownership operation keeps it (\<open>own_step_ok\<close>), whatever stale row its caller passes.
\<close>

definition claims_ok :: "runtime_claim list \<Rightarrow> bool" where
  "claims_ok cs \<longleftrightarrow> claims_unique cs \<and> (\<forall>c\<in>set cs. validate_runtime_claim c = Inr c)"

definition leases_ok :: "worker_lease list \<Rightarrow> bool" where
  "leases_ok ls \<longleftrightarrow> distinct (map wl_lease_id ls) \<and> (\<forall>l\<in>set ls. validate_worker_lease l = Inr l)"

definition run_attempts :: "string \<Rightarrow> runtime_attempt list \<Rightarrow> runtime_attempt list" where
  "run_attempts rid xs = filter (\<lambda>a. ra_run_id a = rid) xs"

definition seqs_ok :: "runtime_attempt list \<Rightarrow> bool" where
  "seqs_ok xs \<longleftrightarrow> (\<forall>rid. map ra_sequence_no (run_attempts rid xs) = map int [1..<Suc (length (run_attempts rid xs))])"

definition current_last :: "runtime_attempt list \<Rightarrow> bool" where
  "current_last xs \<longleftrightarrow>
     (\<forall>a\<in>set xs. ra_status a = as_current \<longrightarrow>
        (\<forall>b\<in>set xs. ra_run_id b = ra_run_id a \<longrightarrow> ra_sequence_no b \<le> ra_sequence_no a))"

definition attempts_ok :: "runtime_attempt list \<Rightarrow> bool" where
  "attempts_ok xs \<longleftrightarrow>
     attempts_unique xs \<and> (\<forall>a\<in>set xs. validate_runtime_attempt a = Inr a) \<and> seqs_ok xs \<and> current_last xs"

definition own_ok :: "run_db \<Rightarrow> bool" where
  "own_ok db \<longleftrightarrow> claims_ok (rd_claims db) \<and> leases_ok (rd_worker_leases db) \<and> attempts_ok (rd_attempts db)"

subsection \<open>Validators\<close>

lemma validate_claim_idem: "validate_runtime_claim c = Inr c' \<Longrightarrow> validate_runtime_claim c' = Inr c'"
  by (auto simp: validate_runtime_claim_def Let_def rbind_eq_Inr split: if_splits)

lemma validate_claim_self: "validate_runtime_claim c = Inr c' \<Longrightarrow> rc_domain_key c \<noteq> None \<Longrightarrow> c' = c"
  by (auto simp: validate_runtime_claim_def Let_def rbind_eq_Inr split: if_splits)

lemma validate_claim_key: "validate_runtime_claim c = Inr c \<Longrightarrow> rc_domain_key c \<noteq> None"
  using validate_runtime_claimD [of c c] by simp

lemma validate_lease_idem: "validate_worker_lease l = Inr l' \<Longrightarrow> validate_worker_lease l' = Inr l'"
  by (auto simp: validate_worker_lease_def Let_def rbind_eq_Inr split: if_splits)

lemma validate_lease_self: "validate_worker_lease l = Inr l' \<Longrightarrow> wl_domain_key l \<noteq> None \<Longrightarrow> l' = l"
  by (auto simp: validate_worker_lease_def Let_def rbind_eq_Inr split: if_splits)

lemma validate_lease_key: "validate_worker_lease l = Inr l \<Longrightarrow> wl_domain_key l \<noteq> None"
  using validate_worker_leaseD [of l l] by simp

lemma validate_attempt_self: "validate_runtime_attempt a = Inr a' \<Longrightarrow> a' = a"
  by (auto dest: validate_runtime_attemptD)

text \<open>Reading valid rows back raises nothing.\<close>

lemma claim_reads:
  assumes "claims_ok (rd_claims db)"
  shows "claim_get_active_for_task tid db =
           Inr (top_by (\<lambda>c. (rc_created_at c, rc_claim_id c))
             (sql_where (\<lambda>c. rc_runtime_task_id c = tid \<and> rc_status c = cs_active) (rd_claims db)))"
    and "claim_list_active_for_run rid db =
           Inr (sql_order (\<lambda>c. (rc_created_at c, rc_claim_id c))
             (sql_where (\<lambda>c. rc_run_id c = rid \<and> rc_status c = cs_active) (rd_claims db)))"
  using assms
  by (auto simp: claims_ok_def claim_get_active_for_task_def claim_list_active_for_run_def
      intro!: roption_id rmap_id dest!: top_by_mem)

lemma attempt_reads:
  assumes "attempts_ok (rd_attempts db)"
  shows "attempt_current_for_run rid db =
           Inr (top_by (\<lambda>a. (ra_sequence_no a, ra_created_at a, ra_attempt_id a))
             (sql_where (\<lambda>a. ra_run_id a = rid \<and> ra_status a = as_current) (rd_attempts db)))"
  using assms by (auto simp: attempts_ok_def attempt_current_for_run_def intro!: roption_id dest!: top_by_mem)

subsection \<open>Primitive writes keep the tables\<close>

lemma event_append_frame:
  "event_append e k rid typ obj oid summary db = Inr db' \<Longrightarrow>
     rd_claims db' = rd_claims db \<and> rd_worker_leases db' = rd_worker_leases db \<and> rd_attempts db' = rd_attempts db
     \<and> rd_runs db' = rd_runs db \<and> rd_tasks db' = rd_tasks db \<and> rd_budgets db' = rd_budgets db"
  by (auto simp: event_append_def Let_def rbind_eq_Inr)

lemma claim_create_ok:
  "claims_ok (rd_claims db) \<Longrightarrow> validate_runtime_claim c = Inr c \<Longrightarrow> claim_create c db = Inr db' \<Longrightarrow>
     claims_ok (rd_claims db') \<and> db' = db\<lparr>rd_claims := rd_claims db @ [c]\<rparr>"
  by (auto simp: claim_create_def claims_ok_def rbind_eq_Inr)

lemma claim_release_ok:
  assumes ok: "claims_ok (rd_claims db)" and rel: "claim_release cid at reason status db = Inr (r, db')"
  shows "claims_ok (rd_claims db')"
    and "db' = db\<lparr>rd_claims := sql_update (\<lambda>c. rc_claim_id c = cid) (set_claim_status status at reason) (rd_claims db)\<rparr>"
proof -
  let ?rows = "sql_update (\<lambda>c. rc_claim_id c = cid) (set_claim_status status at reason) (rd_claims db)"
  have db': "db' = db\<lparr>rd_claims := ?rows\<rparr>" and uniq: "claims_unique ?rows" and get: "claim_get cid (db\<lparr>rd_claims := ?rows\<rparr>) = Inr r"
    using rel by (auto simp: claim_release_def Let_def rbind_eq_Inr)
  show "db' = db\<lparr>rd_claims := ?rows\<rparr>" by (rule db')
  have "validate_runtime_claim c = Inr c" if c: "c \<in> set ?rows" for c
  proof -
    obtain s where s: "s \<in> set (rd_claims db)" "c = (if rc_claim_id s = cid then set_claim_status status at reason s else s)"
      using c by (auto simp: sql_update_mem)
    have vs: "validate_runtime_claim s = Inr s" using ok s(1) by (simp add: claims_ok_def)
    show ?thesis
    proof (cases "rc_claim_id s = cid")
      case False
      then show ?thesis using s vs by simp
    next
      case True
      then have cc: "c = set_claim_status status at reason s" "rc_claim_id c = cid" using s(2) by (auto simp: set_claim_status_def)
      obtain q where q: "sql_first (\<lambda>c. rc_claim_id c = cid) ?rows = Some q"
        using c cc(2) sql_first_None [of "\<lambda>c. rc_claim_id c = cid" ?rows] by (cases "sql_first (\<lambda>c. rc_claim_id c = cid) ?rows") auto
      then have "q = c"
        using sql_first_Some [OF q] uniq c cc(2) by (auto simp: claims_unique_def distinct_map inj_on_def)
      then obtain c' where "validate_runtime_claim c = Inr c'"
        using get q by (auto simp: claim_get_def rbind_eq_Inr)
      moreover have "rc_domain_key c \<noteq> None" using validate_claim_key [OF vs] cc(1) by (simp add: set_claim_status_def)
      ultimately show ?thesis using validate_claim_self by blast
    qed
  qed
  then show "claims_ok (rd_claims db')" using uniq by (simp add: claims_ok_def db')
qed

lemma worker_lease_create_ok:
  "leases_ok (rd_worker_leases db) \<Longrightarrow> validate_worker_lease l = Inr l \<Longrightarrow> worker_lease_create l db = Inr db' \<Longrightarrow>
     leases_ok (rd_worker_leases db') \<and> db' = db\<lparr>rd_worker_leases := rd_worker_leases db @ [l]\<rparr>"
  by (auto simp: worker_lease_create_def leases_ok_def rbind_eq_Inr)

text \<open>An update of the row with one key, whose result validates when read back, keeps the table.\<close>

lemma lease_update_ok:
  assumes ok: "leases_ok (rd_worker_leases db)"
    and keys: "\<And>l. wl_lease_id (f l) = wl_lease_id l" "\<And>l. wl_domain_key (f l) = wl_domain_key l"
    and rows: "rows = sql_update (\<lambda>l. wl_lease_id l = lid \<and> p l) f (rd_worker_leases db)"
    and get: "worker_lease_get lid (db\<lparr>rd_worker_leases := rows\<rparr>) = Inr r"
  shows "leases_ok rows"
proof -
  have dist: "distinct (map wl_lease_id rows)"
    using ok by (simp add: rows leases_ok_def sql_update_map keys)
  have "validate_worker_lease c = Inr c" if c: "c \<in> set rows" for c
  proof -
    obtain s where s: "s \<in> set (rd_worker_leases db)" "c = (if wl_lease_id s = lid \<and> p s then f s else s)"
      using c unfolding rows sql_update_mem by blast
    have vs: "validate_worker_lease s = Inr s" using ok s(1) by (simp add: leases_ok_def)
    show ?thesis
    proof (cases "wl_lease_id s = lid \<and> p s")
      case False
      then show ?thesis using s vs by auto
    next
      case True
      then have cc: "c = f s" "wl_lease_id c = lid" using s(2) keys(1) by auto
      obtain q where q: "sql_first (\<lambda>c. wl_lease_id c = lid) rows = Some q"
        using c cc(2) sql_first_None [of "\<lambda>c. wl_lease_id c = lid" rows] by (cases "sql_first (\<lambda>c. wl_lease_id c = lid) rows") auto
      then have "q = c"
        using sql_first_Some [OF q] dist c cc(2) by (auto simp: distinct_map inj_on_def)
      then obtain c' where "validate_worker_lease c = Inr c'"
        using get q by (auto simp: worker_lease_get_def rbind_eq_Inr)
      moreover have "wl_domain_key c \<noteq> None" using validate_lease_key [OF vs] cc(1) keys(2) by simp
      ultimately show ?thesis using validate_lease_self by blast
    qed
  qed
  then show ?thesis using dist by (simp add: leases_ok_def)
qed

subsection \<open>Attempts\<close>

lemma max_of_upto: "n > 0 \<Longrightarrow> Max (int ` {1..<Suc n}) = int n"
  by (rule Max_eqI) auto

lemma next_sequence_length:
  assumes "seqs_ok (rd_attempts db)"
  shows "next_sequence_for_run rid db = int (length (run_attempts rid (rd_attempts db))) + 1"
proof -
  let ?xs = "run_attempts rid (rd_attempts db)"
  have w: "sql_where (\<lambda>a. ra_run_id a = rid) (rd_attempts db) = ?xs"
    by (simp add: sql_where_def run_attempts_def)
  have m: "map ra_sequence_no ?xs = map int [1..<Suc (length ?xs)]"
    using assms by (simp add: seqs_ok_def)
  show ?thesis
  proof (cases "?xs = []")
    case True
    then show ?thesis by (simp add: next_sequence_for_run_def w sql_max0_def)
  next
    case False
    have "ra_sequence_no ` set ?xs = int ` {1..<Suc (length ?xs)}"
      using arg_cong [OF m, of set] by (simp del: upt_Suc)
    then have "sql_max0 ra_sequence_no ?xs = int (length ?xs)"
      using False max_of_upto [of "length ?xs"] by (simp add: sql_max0_Max)
    then show ?thesis by (simp add: next_sequence_for_run_def w)
  qed
qed

lemma seqs_ok_le:
  assumes "seqs_ok xs" and "b \<in> set xs"
  shows "ra_sequence_no b \<le> int (length (run_attempts (ra_run_id b) xs))"
proof -
  let ?ys = "run_attempts (ra_run_id b) xs"
  have "ra_sequence_no b \<in> ra_sequence_no ` set ?ys" using assms(2) by (simp add: run_attempts_def)
  also have "\<dots> = set (map int [1..<Suc (length ?ys)])"
    using assms(1) by (metis list.set_map seqs_ok_def)
  finally show ?thesis by auto
qed

lemma attempt_create_ok:
  assumes ok: "attempts_ok (rd_attempts db)" and v: "validate_runtime_attempt a = Inr a"
    and cur: "ra_status a = as_current" and seq: "ra_sequence_no a = next_sequence_for_run (ra_run_id a) db" and cr: "attempt_create a db = Inr db'"
  shows "attempts_ok (rd_attempts db')" and "db' = db\<lparr>rd_attempts := rd_attempts db @ [a]\<rparr>"
proof -
  let ?xs = "rd_attempts db"
  show db': "db' = db\<lparr>rd_attempts := ?xs @ [a]\<rparr>"
    using cr by (auto simp: attempt_create_def rbind_eq_Inr)
  have uniq: "attempts_unique (?xs @ [a])"
    using cr by (auto simp: attempt_create_def rbind_eq_Inr)
  have so: "seqs_ok ?xs" using ok by (simp add: attempts_ok_def)
  have n: "ra_sequence_no a = int (length (run_attempts (ra_run_id a) ?xs)) + 1"
    using seq next_sequence_length [OF so] by simp
  have seqs: "seqs_ok (?xs @ [a])"
    using so n by (auto simp: seqs_ok_def run_attempts_def)
  have "current_last (?xs @ [a])"
    unfolding current_last_def
  proof (intro ballI impI)
    fix x b
    assume x: "x \<in> set (?xs @ [a])" "ra_status x = as_current" and b: "b \<in> set (?xs @ [a])" "ra_run_id b = ra_run_id x"
    show "ra_sequence_no b \<le> ra_sequence_no x"
    proof (cases "x = a")
      case True
      then show ?thesis using b n seqs_ok_le [OF so, of b] by auto
    next
      case False
      then have xm: "x \<in> set ?xs" using x(1) by simp
      show ?thesis
      proof (cases "b = a \<and> b \<notin> set ?xs")
        case True
        \<comment> \<open>then the run of \<open>x\<close> would have two current attempts\<close>
        have "ra_run_id a \<in> ra_run_id ` set (filter (\<lambda>a. ra_status a = as_current) ?xs)"
          using xm x(2) b(2) True by (auto simp: image_iff)
        then show ?thesis using uniq cur by (simp add: attempts_unique_def)
      next
        case False
        then have "b \<in> set ?xs" using b(1) by auto
        then show ?thesis using ok xm x(2) b(2) by (auto simp: attempts_ok_def current_last_def)
      qed
    qed
  qed
  then show "attempts_ok (rd_attempts db')"
    using ok uniq seqs v by (simp add: attempts_ok_def db')
qed

lemma run_attempts_update:
  assumes "\<And>a. ra_run_id (f a) = ra_run_id a" and "\<And>a. ra_sequence_no (f a) = ra_sequence_no a"
  shows "map ra_sequence_no (run_attempts rid (sql_update p f xs)) = map ra_sequence_no (run_attempts rid xs)"
  by (induction xs) (simp_all add: assms sql_update_def run_attempts_def)

text \<open>An update of one attempt that keeps its keys and ends in a status other than \<open>current\<close>.\<close>

lemma attempt_update_ok:
  assumes ok: "attempts_ok (rd_attempts db)"
    and keys: "\<And>a. ra_attempt_id (f a) = ra_attempt_id a" "\<And>a. ra_run_id (f a) = ra_run_id a"
      "\<And>a. ra_sequence_no (f a) = ra_sequence_no a"
    and notcur: "\<And>a. validate_runtime_attempt (f a) = Inr (f a) \<Longrightarrow> ra_status (f a) \<noteq> as_current"
    and rows: "rows = sql_update (\<lambda>a. ra_attempt_id a = aid) f (rd_attempts db)"
    and uniq: "attempts_unique rows" and get: "attempt_get aid (db\<lparr>rd_attempts := rows\<rparr>) = Inr r"
  shows "attempts_ok rows"
proof -
  let ?xs = "rd_attempts db"
  have from_old: "\<exists>s\<in>set ?xs. ra_run_id s = ra_run_id c \<and> ra_sequence_no s = ra_sequence_no c
      \<and> validate_runtime_attempt c = Inr c \<and> (ra_status c = as_current \<longrightarrow> s = c)" if c: "c \<in> set rows" for c
  proof -
    obtain s where s: "s \<in> set ?xs" "c = (if ra_attempt_id s = aid then f s else s)"
      using c unfolding rows sql_update_mem by blast
    show ?thesis
    proof (cases "ra_attempt_id s = aid")
      case False
      then show ?thesis using s ok by (intro bexI [of _ s]) (auto simp: attempts_ok_def)
    next
      case True
      then have cc: "c = f s" "ra_attempt_id c = aid" using s(2) keys(1) by auto
      obtain q where q: "sql_first (\<lambda>c. ra_attempt_id c = aid) rows = Some q"
        using c cc(2) sql_first_None [of "\<lambda>c. ra_attempt_id c = aid" rows]
        by (cases "sql_first (\<lambda>c. ra_attempt_id c = aid) rows") auto
      then have "q = c"
        using sql_first_Some [OF q] uniq c cc(2) by (auto simp: attempts_unique_def distinct_map inj_on_def)
      then obtain c' where "validate_runtime_attempt c = Inr c'"
        using get q by (auto simp: attempt_get_def rbind_eq_Inr)
      then have v: "validate_runtime_attempt c = Inr c" using validate_attempt_self by blast
      then show ?thesis using s(1) cc(1) keys notcur [of s] by (intro bexI [of _ s]) auto
    qed
  qed
  have m: "map ra_sequence_no (run_attempts rid rows) = map ra_sequence_no (run_attempts rid ?xs)" for rid
    unfolding rows by (rule run_attempts_update) (simp_all add: keys)
  have seqs: "seqs_ok rows"
    using ok m unfolding attempts_ok_def seqs_ok_def by (metis length_map)
  have "current_last rows"
    unfolding current_last_def
  proof (intro ballI impI)
    fix x b
    assume x: "x \<in> set rows" "ra_status x = as_current" and b: "b \<in> set rows" "ra_run_id b = ra_run_id x"
    have xs: "x \<in> set ?xs" using from_old [OF x(1)] x(2) by auto
    obtain s where "s \<in> set ?xs" "ra_run_id s = ra_run_id b" "ra_sequence_no s = ra_sequence_no b"
      using from_old [OF b(1)] by auto
    then show "ra_sequence_no b \<le> ra_sequence_no x"
      using ok xs x(2) b(2) unfolding attempts_ok_def current_last_def by metis
  qed
  then show ?thesis
    using uniq seqs from_old by (auto simp: attempts_ok_def)
qed

lemma attempt_supersede_ok:
  assumes ok: "attempts_ok (rd_attempts db)" and up: "attempt_supersede aid by at reason db = Inr (r, db')"
  shows "attempts_ok (rd_attempts db')"
    and "db' = db\<lparr>rd_attempts := sql_update (\<lambda>a. ra_attempt_id a = aid) (set_superseded by at reason) (rd_attempts db)\<rparr>"
proof -
  let ?rows = "sql_update (\<lambda>a. ra_attempt_id a = aid) (set_superseded by at reason) (rd_attempts db)"
  have db': "db' = db\<lparr>rd_attempts := ?rows\<rparr>" and u: "attempts_unique ?rows"
    and g: "attempt_get aid (db\<lparr>rd_attempts := ?rows\<rparr>) = Inr r"
    using up by (auto simp: attempt_supersede_def Let_def rbind_eq_Inr)
  show "db' = db\<lparr>rd_attempts := ?rows\<rparr>" by (rule db')
  have "attempts_ok ?rows"
    by (rule attempt_update_ok [OF ok _ _ _ _ refl u g]) (simp_all add: set_superseded_def)
  then show "attempts_ok (rd_attempts db')" by (simp add: db')
qed

lemma attempt_close_ok:
  assumes ok: "attempts_ok (rd_attempts db)" and up: "attempt_close aid status at reason db = Inr (r, db')"
  shows "attempts_ok (rd_attempts db')"
    and "db' = db\<lparr>rd_attempts := sql_update (\<lambda>a. ra_attempt_id a = aid) (set_closed status at reason) (rd_attempts db)\<rparr>"
proof -
  let ?rows = "sql_update (\<lambda>a. ra_attempt_id a = aid) (set_closed status at reason) (rd_attempts db)"
  have db': "db' = db\<lparr>rd_attempts := ?rows\<rparr>" and u: "attempts_unique ?rows"
    and g: "attempt_get aid (db\<lparr>rd_attempts := ?rows\<rparr>) = Inr r"
    using up by (auto simp: attempt_close_def Let_def rbind_eq_Inr)
  show "db' = db\<lparr>rd_attempts := ?rows\<rparr>" by (rule db')
  have "attempts_ok ?rows"
    by (rule attempt_update_ok [OF ok _ _ _ _ refl u g])
      (auto simp: set_closed_def dest!: validate_runtime_attemptD)
  then show "attempts_ok (rd_attempts db')" by (simp add: db')
qed

end
