(* ===== verification/Py_Path.thy ===== *)
theory Py_Path
  imports Py_Text
begin

section \<open>Paths and path patterns\<close>

text \<open>
  \<open>pathlib\<close> paths as \<^verbatim>\<open>packages/core_domain/repo_mutation.py\<close> uses them, on a POSIX file system without
  symbolic links: an absolute resolved path is the list of its components, \<open>resolve_onto\<close> is
  \<open>(base / raw).resolve()\<close>. Then the path tests of that file: \<open>_normalize_rel_path\<close>,
  \<open>normalize_allowed_paths\<close> and \<open>is_path_allowed\<close>, with \<open>fnmatch.fnmatchcase\<close>.
\<close>

type_synonym apath = "string list" \<comment> \<open>absolute, resolved\<close>

definition is_absolute :: "string \<Rightarrow> bool" where
  "is_absolute s \<longleftrightarrow> starts_with ''/'' s"

text \<open>The parts of a path: empty and \<open>.\<close> components vanish, \<open>..\<close> stays until the path is resolved.\<close>

definition path_parts :: "string \<Rightarrow> string list" where
  "path_parts s = filter (\<lambda>p. p \<noteq> [] \<and> p \<noteq> ''.'') (split_at (CHR ''/'') s)"

fun resolve_step :: "apath \<Rightarrow> string \<Rightarrow> apath" where
  "resolve_step acc p = (if p = ''..'' then butlast acc else acc @ [p])"

definition resolve_onto :: "apath \<Rightarrow> string \<Rightarrow> apath" where
  "resolve_onto base s = foldl resolve_step (if is_absolute s then [] else base) (path_parts s)"

definition posix_rel :: "string list \<Rightarrow> string" where
  "posix_rel ps = (if ps = [] then ''.'' else join ''/'' ps)"

definition posix_abs :: "apath \<Rightarrow> string" where
  "posix_abs ps = ''/'' @ join ''/'' ps"

definition path_is_under :: "apath \<Rightarrow> apath \<Rightarrow> bool" where
  "path_is_under p root \<longleftrightarrow> prefix root p"

definition normalize_external_roots :: "apath \<Rightarrow> string list \<Rightarrow> apath list" where
  "normalize_external_roots cwd raws =
     foldl (\<lambda>roots raw. let r = resolve_onto cwd raw in if r \<in> set roots then roots else roots @ [r]) [] raws"

definition absolute_for_normalized_path :: "apath \<Rightarrow> string \<Rightarrow> apath" where
  "absolute_for_normalized_path root s = resolve_onto root s"

definition normalize_rel_path :: "apath \<Rightarrow> apath list \<Rightarrow> string \<Rightarrow> werror + string" where
  "normalize_rel_path root ext raw =
     (let r = resolve_onto root raw
      in if path_is_under r root then Inr (posix_rel (drop (length root) r))
         else if list_ex (path_is_under r) ext then Inr (posix_abs r)
         else Inl (ValueError ''path is outside the workspace root''))"

fun add_normalized :: "apath \<Rightarrow> apath list \<Rightarrow> string list \<Rightarrow> string list \<Rightarrow> werror + string list" where
  "add_normalized root ext [] acc = Inr acc"
| "add_normalized root ext (item # items) acc =
     rbind (normalize_rel_path root ext item) (\<lambda>rel.
       add_normalized root ext items (if rel \<in> set acc then acc else acc @ [rel]))"

definition normalize_allowed_paths :: "apath \<Rightarrow> apath list \<Rightarrow> string list \<Rightarrow> werror + string list" where
  "normalize_allowed_paths root ext write_set = add_normalized root ext write_set []"

subsection \<open>\<open>fnmatch.fnmatchcase\<close>\<close>

datatype glob = GStar | GAny | GLit char | GClass bool "(char \<times> char) list"

text \<open>The members of a bracket expression: \<open>a-z\<close> is a range (empty when the ends are out of order).\<close>

fun class_members :: "string \<Rightarrow> (char \<times> char) list" where
  "class_members [] = []"
| "class_members [a] = [(a, a)]"
| "class_members [a, b] = [(a, a), (b, b)]"
| "class_members (a # b # c # cs) =
     (if b = CHR ''-'' then (a, c) # class_members cs else (a, a) # class_members (b # c # cs))"

text \<open>After an opening bracket: the bracket expression and what follows its closing bracket.\<close>

definition class_body :: "string \<Rightarrow> (bool \<times> string \<times> string) option" where
  "class_body s =
     (let neg = starts_with ''!'' s;
          s1 = (if neg then tl s else s);
          first = (if starts_with '']'' s1 then [hd s1] else []);
          s2 = (if starts_with '']'' s1 then tl s1 else s1)
      in case dropWhile (\<lambda>c. c \<noteq> CHR '']'') s2 of
           [] \<Rightarrow> None
         | _ # rest \<Rightarrow> Some (neg, first @ takeWhile (\<lambda>c. c \<noteq> CHR '']'') s2, rest))"

lemma class_body_shorter [termination_simp]: "class_body s = Some (neg, body, rest) \<Longrightarrow> length rest < Suc (length s)"
proof -
  have shrink: "length r < length t" if "dropWhile p t = x # r" for p t and x :: char and r
    using that length_dropWhile_le [of p t] by simp
  show "class_body s = Some (neg, body, rest) \<Longrightarrow> length rest < Suc (length s)"
    by (cases s) (auto simp: class_body_def Let_def split: list.splits if_splits dest!: shrink)
qed

fun parse_glob :: "string \<Rightarrow> glob list" where
  "parse_glob [] = []"
| "parse_glob (c # cs) =
     (if c = CHR ''*'' then GStar # parse_glob cs
      else if c = CHR ''?'' then GAny # parse_glob cs
      else if c = CHR ''['' then
        (case class_body cs of
           None \<Rightarrow> GLit c # parse_glob cs
         | Some (neg, body, rest) \<Rightarrow> GClass neg (class_members body) # parse_glob rest)
      else GLit c # parse_glob cs)"

fun glob_char :: "glob \<Rightarrow> char \<Rightarrow> bool" where
  "glob_char GStar c \<longleftrightarrow> False"
| "glob_char GAny c \<longleftrightarrow> True"
| "glob_char (GLit d) c \<longleftrightarrow> c = d"
| "glob_char (GClass neg ranges) c \<longleftrightarrow> (neg \<noteq> list_ex (\<lambda>(a, b). of_char a \<le> (of_char c :: nat) \<and> of_char c \<le> (of_char b :: nat)) ranges)"

fun glob_match :: "glob list \<Rightarrow> string \<Rightarrow> bool" where
  "glob_match [] s \<longleftrightarrow> s = []"
| "glob_match (GStar # gs) [] \<longleftrightarrow> glob_match gs []"
| "glob_match (GStar # gs) (c # cs) \<longleftrightarrow> glob_match gs (c # cs) \<or> glob_match (GStar # gs) cs"
| "glob_match (g # gs) [] \<longleftrightarrow> False"
| "glob_match (g # gs) (c # cs) \<longleftrightarrow> glob_char g c \<and> glob_match gs cs"

definition fnmatchcase :: "string \<Rightarrow> string \<Rightarrow> bool" where
  "fnmatchcase name pat = glob_match (parse_glob pat) name"

subsection \<open>The scope of a write set\<close>

definition has_glob_marker :: "string \<Rightarrow> bool" where
  "has_glob_marker s \<longleftrightarrow> CHR ''*'' \<in> set s \<or> CHR ''?'' \<in> set s \<or> CHR ''['' \<in> set s"

definition slashed :: "string \<Rightarrow> string" where
  "slashed s = replace_char (CHR 0x5C) (CHR ''/'') (strip_both (\<lambda>c. c = CHR ''/'') s)"

definition under_path :: "string \<Rightarrow> string \<Rightarrow> bool" where
  "under_path dir p \<longleftrightarrow> p = dir \<or> starts_with (strip_right (\<lambda>c. c = CHR ''/'') dir @ ''/'') p"

definition allowed_by :: "string \<Rightarrow> string \<Rightarrow> bool" where
  "allowed_by normalized candidate \<longleftrightarrow>
     (if has_glob_marker candidate
      then (ends_with ''/**'' candidate
              \<and> under_path (strip_right (\<lambda>c. c = CHR ''/'') (take (length candidate - 3) candidate)) normalized)
           \<or> fnmatchcase normalized candidate
      else False)
     \<or> under_path candidate normalized"

definition is_path_allowed :: "string \<Rightarrow> string list \<Rightarrow> bool" where
  "is_path_allowed path allowed = list_ex (\<lambda>a. allowed_by (slashed path) (slashed a)) allowed"

subsection \<open>Lemmas\<close>

definition component :: "string \<Rightarrow> bool" where
  "component p \<longleftrightarrow> p \<noteq> [] \<and> p \<noteq> ''.'' \<and> p \<noteq> ''..'' \<and> CHR ''/'' \<notin> set p"

definition clean :: "apath \<Rightarrow> bool" where
  "clean ps \<longleftrightarrow> list_all component ps"

lemma resolve_fold_clean:
  "clean base \<Longrightarrow> (\<forall>p\<in>set ps. p = ''..'' \<or> component p) \<Longrightarrow> clean (foldl resolve_step base ps)"
proof (induction ps arbitrary: base)
  case (Cons p ps)
  have "clean (resolve_step base p)"
    using Cons.prems by (auto simp: clean_def list_all_iff dest: in_set_butlastD)
  then show ?case using Cons by simp
qed simp

lemma path_parts_parts: "p \<in> set (path_parts s) \<Longrightarrow> p = ''..'' \<or> component p"
  by (auto simp: path_parts_def component_def dest: split_at_no_sep)

lemma resolve_clean: "clean base \<Longrightarrow> clean (resolve_onto base s)"
  unfolding resolve_onto_def by (rule resolve_fold_clean) (auto simp: clean_def dest: path_parts_parts)

lemma foldl_clean: "clean ps \<Longrightarrow> foldl resolve_step base ps = base @ ps"
  by (induction ps arbitrary: base) (simp_all add: clean_def component_def)

lemma path_parts_join:
  assumes "clean ps"
  shows "path_parts (join ''/'' ps) = ps"
proof (cases "ps = []")
  case True
  then show ?thesis by (simp add: path_parts_def)
next
  case False
  then have "split_at (CHR ''/'') (join ''/'' ps) = ps"
    using assms by (intro split_join) (auto simp: clean_def component_def list_all_iff)
  then show ?thesis using assms by (simp add: path_parts_def clean_def list_all_iff component_def)
qed

lemma join_not_absolute: "clean ps \<Longrightarrow> \<not> is_absolute (join ''/'' ps)"
proof -
  assume "clean ps"
  then have "\<not> prefix ''/'' (p @ t)" if "ps = p # qs" for p qs t
    using that by (cases p) (auto simp: clean_def component_def)
  then show ?thesis
    by (cases ps; cases "tl ps") (simp_all add: is_absolute_def starts_with_def, metis append_Nil2)
qed

text \<open>Normalising a path and reading it again gives the resolved path.\<close>

lemma resolve_posix_rel: "clean ps \<Longrightarrow> resolve_onto root (posix_rel ps) = root @ ps"
  by (cases "ps = []")
    (simp_all add: resolve_onto_def posix_rel_def join_not_absolute path_parts_join foldl_clean,
     simp add: is_absolute_def starts_with_def path_parts_def)

lemma resolve_posix_abs: "clean ps \<Longrightarrow> resolve_onto root (posix_abs ps) = ps"
proof -
  assume c: "clean ps"
  have "path_parts (''/'' @ join ''/'' ps) = path_parts (join ''/'' ps)"
    by (simp add: path_parts_def)
  then show ?thesis using c by (simp add: resolve_onto_def posix_abs_def path_parts_join foldl_clean is_absolute_def starts_with_def)
qed

lemma normalize_absolute:
  assumes root: "clean root" and n: "normalize_rel_path root ext raw = Inr rel"
  shows "absolute_for_normalized_path root rel = resolve_onto root raw"
    and "path_is_under (resolve_onto root raw) root \<or> list_ex (path_is_under (resolve_onto root raw)) ext"
proof -
  let ?r = "resolve_onto root raw"
  have c: "clean ?r" using root by (rule resolve_clean)
  show "absolute_for_normalized_path root rel = ?r"
  proof (cases "path_is_under ?r root")
    case True
    then obtain q where q: "?r = root @ q" by (auto simp: path_is_under_def prefix_def)
    then have "clean q" using c by (simp add: clean_def)
    then have "resolve_onto root (posix_rel q) = root @ q" by (rule resolve_posix_rel)
    then show ?thesis using n True q by (auto simp: normalize_rel_path_def Let_def absolute_for_normalized_path_def)
  next
    case False
    then have "rel = posix_abs ?r" using n by (simp add: normalize_rel_path_def Let_def split: if_splits)
    then show ?thesis by (simp add: absolute_for_normalized_path_def resolve_posix_abs [OF c])
  qed
  show "path_is_under ?r root \<or> list_ex (path_is_under ?r) ext"
    using n by (auto simp: normalize_rel_path_def Let_def split: if_splits)
qed

end
