(* ===== verification/Py_Json.thy ===== *)
theory Py_Json
  imports Py_Path
begin

section \<open>Values, their texts and the canonical scope\<close>

text \<open>
  The values of a scope payload, \<open>str\<close> and \<open>repr\<close> of a JSON value, \<open>json.dumps\<close> with
  \<open>separators=(",", ":")\<close> and \<open>ensure_ascii=False\<close>, and \<open>canonicalize_operator_action_scope\<close> of
  \<^verbatim>\<open>packages/core_domain/service_operator_action_guard.py\<close>. A string is a list of Latin-1 characters.
\<close>

datatype pyvalue =
    PyNone
  | PyBool bool
  | PyInt int
  | PyStr string
  | PyPath string
  | PySeq "pyvalue list" \<comment> \<open>list, tuple, or set in its order of iteration\<close>
  | PyDict "(string \<times> pyvalue) list"

fun of_json :: "json \<Rightarrow> pyvalue" where
  "of_json JNull = PyNone"
| "of_json (JBool b) = PyBool b"
| "of_json (JNum i) = PyInt i"
| "of_json (JStr s) = PyStr s"
| "of_json (JList xs) = PySeq (map of_json xs)"
| "of_json (JObj kvs) = PyDict (map (\<lambda>(k, v). (k, of_json v)) kvs)"

subsection \<open>\<open>str\<close> and \<open>json.dumps\<close>\<close>

definition hex_digit :: "nat \<Rightarrow> char" where
  "hex_digit n = (if n < 10 then char_of (48 + n) else char_of (87 + n))"

definition hex2 :: "char \<Rightarrow> string" where
  "hex2 c = [hex_digit (of_char c div 16), hex_digit (of_char c mod 16)]"

definition printable :: "char \<Rightarrow> bool" where
  "printable c \<longleftrightarrow> (let n = (of_char c :: nat) in (32 \<le> n \<and> n < 127) \<or> (160 < n \<and> n \<noteq> 173))"

definition repr_char :: "char \<Rightarrow> char \<Rightarrow> string" where
  "repr_char quote c =
     (if c = quote \<or> c = CHR 0x5C then [CHR 0x5C, c]
      else if c = LF then [CHR 0x5C, CHR ''n'']
      else if c = CR then [CHR 0x5C, CHR ''r'']
      else if c = TAB then [CHR 0x5C, CHR ''t'']
      else if printable c then [c]
      else [CHR 0x5C, CHR ''x''] @ hex2 c)"

definition repr_str :: "string \<Rightarrow> string" where
  "repr_str s =
     (let quote = (if CHR 0x27 \<in> set s \<and> CHR 0x22 \<notin> set s then CHR 0x22 else CHR 0x27)
      in quote # concat (map (repr_char quote) s) @ [quote])"

fun py_repr :: "json \<Rightarrow> string" where
  "py_repr JNull = ''None''"
| "py_repr (JBool b) = (if b then ''True'' else ''False'')"
| "py_repr (JNum i) = show_int i"
| "py_repr (JStr s) = repr_str s"
| "py_repr (JList xs) = ''['' @ join '', '' (map py_repr xs) @ '']''"
| "py_repr (JObj kvs) = ''{'' @ join '', '' (map (\<lambda>(k, v). repr_str k @ '': '' @ py_repr v) kvs) @ ''}''"

definition py_str :: "json \<Rightarrow> string" where
  "py_str v = (case v of JStr s \<Rightarrow> s | _ \<Rightarrow> py_repr v)"

definition json_char :: "char \<Rightarrow> string" where
  "json_char c =
     (if c = CHR 0x22 \<or> c = CHR 0x5C then [CHR 0x5C, c]
      else if c = LF then [CHR 0x5C, CHR ''n'']
      else if c = CR then [CHR 0x5C, CHR ''r'']
      else if c = TAB then [CHR 0x5C, CHR ''t'']
      else if c = CHR 0x08 then [CHR 0x5C, CHR ''b'']
      else if c = CHR 0x0C then [CHR 0x5C, CHR ''f'']
      else if of_char c < (32 :: nat) then [CHR 0x5C, CHR ''u'', CHR ''0'', CHR ''0''] @ hex2 c
      else [c])"

definition json_str :: "string \<Rightarrow> string" where
  "json_str s = CHR 0x22 # concat (map json_char s) @ [CHR 0x22]"

fun json_text :: "json \<Rightarrow> string" where
  "json_text JNull = ''null''"
| "json_text (JBool b) = (if b then ''true'' else ''false'')"
| "json_text (JNum i) = show_int i"
| "json_text (JStr s) = json_str s"
| "json_text (JList xs) = ''['' @ join '','' (map json_text xs) @ '']''"
| "json_text (JObj kvs) =
     ''{'' @ join '','' (map (\<lambda>(k, t). json_str k @ '':'' @ t) (sort_key fst (map (\<lambda>(k, v). (k, json_text v)) kvs))) @ ''}''"

subsection \<open>The canonical scope\<close>

definition order_insensitive_scope_lists :: "string list" where
  "order_insensitive_scope_lists = [''requested_write_set'', ''run_ids'', ''write_set'', ''read_set'']"

text \<open>\<open>_normalize_scope_value\<close>; paths are resolved from the working directory.\<close>

fun normalize_scope_value :: "apath \<Rightarrow> string option \<Rightarrow> pyvalue \<Rightarrow> json" where
  "normalize_scope_value cwd key PyNone = JNull"
| "normalize_scope_value cwd key (PyBool b) = JBool b"
| "normalize_scope_value cwd key (PyInt i) = JNum i"
| "normalize_scope_value cwd key (PyStr s) = JStr s"
| "normalize_scope_value cwd key (PyPath p) = JStr (posix_abs (resolve_onto cwd p))"
| "normalize_scope_value cwd key (PySeq xs) =
     (let normalized = map (normalize_scope_value cwd None) xs
      in if (case key of None \<Rightarrow> False | Some k \<Rightarrow> k \<in> set order_insensitive_scope_lists)
         then JList (map JStr (sort (map py_str normalized)))
         else JList normalized)"
| "normalize_scope_value cwd key (PyDict kvs) =
     JObj (sort_key fst (map (\<lambda>(k, v). (k, normalize_scope_value cwd (Some k) v)) kvs))"

definition canonicalize_operator_action_scope :: "apath \<Rightarrow> (string \<times> pyvalue) list \<Rightarrow> (string \<times> json) list" where
  "canonicalize_operator_action_scope cwd kvs =
     sort_key fst (map (\<lambda>(k, v). (k, normalize_scope_value cwd (Some k) v)) kvs)"

text \<open>Canonical values are left as they are.\<close>

lemma py_str_JStr [simp]: "py_str (JStr s) = s"
  by (simp add: py_str_def)

lemma sort_key_idem: "sort_key f (sort_key f xs) = sort_key f xs"
  by (rule sort_key_id_if_sorted) simp

lemma sort_key_map_fst: "(\<And>k v. g (k, v) = (k, h k v)) \<Longrightarrow> sort_key fst (map g kvs) = map g (sort_key fst kvs)"
proof (induction kvs)
  case (Cons x xs)
  have "fst (g y) = fst y" for y by (cases y) (simp add: Cons.prems)
  then have "insort_key fst (g y) (map g ys) = map g (insort_key fst y ys)" for y ys
    by (induction ys) auto
  then show ?case using Cons by simp
qed simp

lemma normalize_idem: "normalize_scope_value cwd key (of_json (normalize_scope_value cwd key v)) = normalize_scope_value cwd key v"
proof (induction cwd key v rule: normalize_scope_value.induct)
  case (6 cwd key xs)
  then show ?case by (auto simp: Let_def comp_def sort_key_idem split: option.splits)
next
  case (7 cwd key kvs)
  let ?n = "\<lambda>(k, v). (k, normalize_scope_value cwd (Some k) v)"
  let ?m = "\<lambda>(k, v). (k, normalize_scope_value cwd (Some k) (of_json v))"
  have "map ?m (sort_key fst (map ?n kvs)) = sort_key fst (map ?m (map ?n kvs))"
    by (rule sort_key_map_fst [symmetric, where h = "\<lambda>k v. normalize_scope_value cwd (Some k) (of_json v)"]) simp
  moreover have "map ?m (map ?n kvs) = map ?n kvs" using 7 by (auto simp: prod.case_eq_if)
  ultimately have "map ?m (sort_key fst (map ?n kvs)) = sort_key fst (map ?n kvs)" by (simp only:)
  then show ?case by (simp add: sort_key_idem case_prod_unfold comp_def)
qed auto

lemma canonical_scope_idem:
  "canonicalize_operator_action_scope cwd (map (\<lambda>(k, v). (k, of_json v)) (canonicalize_operator_action_scope cwd kvs))
     = canonicalize_operator_action_scope cwd kvs"
proof -
  have "normalize_scope_value cwd None (of_json (normalize_scope_value cwd None (PyDict kvs))) = normalize_scope_value cwd None (PyDict kvs)"
    by (rule normalize_idem)
  then show ?thesis by (simp add: canonicalize_operator_action_scope_def)
qed

end
