(* ===== verification/Worker_Callbacks.thy ===== *)
theory Worker_Callbacks
  imports Sched_Service Run_Laws Py_Json "HOL-Library.AList"
begin

section \<open>Callbacks of remote workers\<close>

text \<open>
  \<open>WorkerCallbackServiceMixin\<close> of \<^verbatim>\<open>packages/core_domain/service_worker_callbacks.py\<close>: heartbeats and completions of a
  remote worker, over the scheduler's store, the run tables and the runtime states
  (\<open>RuntimeStateRepository\<close> of \<^verbatim>\<open>repositories.py\<close>). Each callback is one transaction: when it raises, nothing is
  written. A time stamp of a callback is a text with what \<open>datetime.fromisoformat\<close> makes of it; the two renderings
  of an instant, \<open>isoformat\<close> and pydantic's JSON mode, are functions of the control plane's record.
\<close>

subsection \<open>Runtime states\<close>

definition state_get_by_task :: "string \<Rightarrow> state_ref list \<Rightarrow> werror + state_ref option" where
  "state_get_by_task task rows = roption validate_state_ref (sql_first (\<lambda>s. st_runtime_task_id s = task) rows)"

text \<open>\<open>INSERT .. ON CONFLICT(runtime_task_id) DO UPDATE\<close>: the run and the creation time of an old row stay.\<close>

definition overwrite_state :: "state_ref \<Rightarrow> state_ref \<Rightarrow> state_ref" where
  "overwrite_state s old =
     old\<lparr>st_state_ref_id := st_state_ref_id s, st_graph_step := st_graph_step s, st_state_payload := st_state_payload s,
         st_is_terminal := st_is_terminal s, st_updated_at := st_updated_at s\<rparr>"

definition state_upsert :: "state_ref \<Rightarrow> run_db \<Rightarrow> state_ref list \<Rightarrow> werror + state_ref \<times> state_ref list" where
  "state_upsert s db rows =
     (let known = st_runtime_task_id s \<in> st_runtime_task_id ` set rows;
          rows' = (if known then sql_update (\<lambda>r. st_runtime_task_id r = st_runtime_task_id s) (overwrite_state s) rows
                   else rows @ [s])
      in rbind (rguard (distinct (map st_state_ref_id rows')
                        \<and> (known \<or> known_run (st_run_id s) db \<and> st_runtime_task_id s \<in> set (rd_tasks db)))
                 (IntegrityError ''runtime_state_refs'')) (\<lambda>_.
         rbind (state_get_by_task (st_runtime_task_id s) rows') (\<lambda>stored.
           case stored of None \<Rightarrow> Inl AssertionError | Some s' \<Rightarrow> Inr (s', rows'))))"

subsection \<open>Dictionaries of JSON values\<close>

fun json_truthy :: "json \<Rightarrow> bool" where
  "json_truthy JNull = False"
| "json_truthy (JBool b) = b"
| "json_truthy (JNum i) = (i \<noteq> 0)"
| "json_truthy (JStr s) = (s \<noteq> [])"
| "json_truthy (JList xs) = (xs \<noteq> [])"
| "json_truthy (JObj kvs) = (kvs \<noteq> [])"

fun is_dict :: "json \<Rightarrow> bool" where
  "is_dict (JObj _) = True"
| "is_dict _ = False"

text \<open>\<open>{**a, **b}\<close>.\<close>

definition dict_merge :: "(string \<times> json) list \<Rightarrow> (string \<times> json) list \<Rightarrow> (string \<times> json) list" where
  "dict_merge a b = foldl (\<lambda>d (k, v). AList.update k v d) a b"

text \<open>\<open>value.get(key)\<close> of a dictionary; an absent key gives \<open>None\<close>.\<close>

definition dict_get :: "string \<Rightarrow> json \<Rightarrow> json" where
  "dict_get k v =
     (case v of JObj kvs \<Rightarrow> (case jget k kvs of Some x \<Rightarrow> x | None \<Rightarrow> JNull) | _ \<Rightarrow> JNull)"

text \<open>\<open>list(value or [])\<close>.\<close>

fun py_list :: "json \<Rightarrow> werror + json list" where
  "py_list (JList xs) = Inr xs"
| "py_list (JStr s) = Inr (map (\<lambda>c. JStr [c]) s)"
| "py_list (JObj kvs) = Inr (map (\<lambda>(k, _). JStr k) kvs)"
| "py_list v = (if json_truthy v then Inl (TypeError ''object is not iterable'') else Inr [])"

text \<open>The element a value is in a set: \<open>True\<close> and \<open>1\<close> are one element; lists and dictionaries cannot be hashed.\<close>

fun hashed :: "json \<Rightarrow> werror + json" where
  "hashed (JList _) = Inl (TypeError ''unhashable type: list'')"
| "hashed (JObj _) = Inl (TypeError ''unhashable type: dict'')"
| "hashed (JBool b) = Inr (JNum (if b then 1 else 0))"
| "hashed v = Inr v"

definition last_20 :: "'a list \<Rightarrow> 'a list" where
  "last_20 xs = drop (length xs - 20) xs"

subsection \<open>The registry of callbacks\<close>

datatype callback_kind = Heartbeat | Completion

fun callback_kind_name :: "callback_kind \<Rightarrow> string" where
  "callback_kind_name Heartbeat = ''heartbeat''"
| "callback_kind_name Completion = ''completion''"

record callback_registry =
  reg_heartbeat :: "string list"
  reg_completion :: "string list"

fun registered_ids :: "callback_kind \<Rightarrow> callback_registry \<Rightarrow> string list" where
  "registered_ids Heartbeat r = reg_heartbeat r"
| "registered_ids Completion r = reg_completion r"

definition string_list :: "json \<Rightarrow> string list" where
  "string_list v = (case v of JList xs \<Rightarrow> map py_str xs | _ \<Rightarrow> [])"

definition worker_callback_registry :: "(string \<times> json) list \<Rightarrow> callback_registry" where
  "worker_callback_registry payload =
     (let callbacks = dict_get ''worker_callbacks'' (JObj payload)
      in \<lparr>reg_heartbeat = string_list (dict_get ''heartbeat'' callbacks),
          reg_completion = string_list (dict_get ''completion'' callbacks)\<rparr>)"

fun add_callback :: "callback_kind \<Rightarrow> string \<Rightarrow> callback_registry \<Rightarrow> callback_registry" where
  "add_callback Heartbeat c r = (if c \<in> set (reg_heartbeat r) then r else r\<lparr>reg_heartbeat := reg_heartbeat r @ [c]\<rparr>)"
| "add_callback Completion c r = (if c \<in> set (reg_completion r) then r else r\<lparr>reg_completion := reg_completion r @ [c]\<rparr>)"

definition registry_json :: "callback_registry \<Rightarrow> json" where
  "registry_json r =
     JObj [(''heartbeat'', JList (map JStr (reg_heartbeat r))), (''completion'', JList (map JStr (reg_completion r)))]"

definition state_with_payload_updates :: "state_ref \<Rightarrow> (string \<times> json) list \<Rightarrow> werror + state_ref" where
  "state_with_payload_updates s updates = validate_state_ref (s\<lparr>st_state_payload := dict_merge (st_state_payload s) updates\<rparr>)"

definition append_worker_callback ::
  "state_ref \<Rightarrow> callback_kind \<Rightarrow> string \<Rightarrow> (string \<times> json) list \<Rightarrow> werror + state_ref" where
  "append_worker_callback s kind cid payload =
     rbind (py_list (dict_get ''worker_callback_history'' (JObj (st_state_payload s)))) (\<lambda>history.
       state_with_payload_updates s
         [(''worker_callbacks'', registry_json (add_callback kind cid (worker_callback_registry (st_state_payload s)))),
          (''worker_callback_history'',
           JList (last_20 (history @
             [JObj (dict_merge [(''type'', JStr (callback_kind_name kind)), (''callback_id'', JStr cid)] payload)])))])"

text \<open>\<open>_lease_renewals_for(state_ref, None)\<close>.\<close>

definition lease_renewals_for :: "state_ref \<Rightarrow> json list" where
  "lease_renewals_for s =
     (case dict_get ''lease_renewals'' (JObj (st_state_payload s)) of JList xs \<Rightarrow> filter is_dict xs | _ \<Rightarrow> [])"

subsection \<open>Callbacks\<close>

record callback_db =
  cb_sched :: sched_db
  cb_runs :: run_db
  cb_states :: "state_ref list"

record callback_plane =
  pl_control_plane_id :: string
  pl_isoformat :: "time \<Rightarrow> string" \<comment> \<open>\<open>datetime.isoformat\<close>\<close>
  pl_json_time :: "time \<Rightarrow> string" \<comment> \<open>a time stamp in \<open>model_dump(mode="json")\<close>\<close>
  pl_reads_int :: "string \<Rightarrow> bool" \<comment> \<open>texts pydantic takes for an integer\<close>

record stamp =
  ts_text :: string
  ts_time :: "time option" \<comment> \<open>\<open>datetime.fromisoformat\<close>, \<open>None\<close> when it raises\<close>

record heartbeat_callback =
  hc_callback_id :: string
  hc_dispatch_id :: string
  hc_run_id :: string
  hc_runtime_task_id :: string
  hc_lease_id :: string
  hc_worker_pool_id :: string
  hc_heartbeat_at :: stamp
  hc_lease_expires_at :: stamp
  hc_execution_target :: "(string \<times> json) list option"

record completion_callback =
  kc_callback_id :: string
  kc_dispatch_id :: string
  kc_run_id :: string
  kc_runtime_task_id :: string
  kc_lease_id :: string
  kc_worker_pool_id :: string
  kc_execution_target :: "(string \<times> json) list"
  kc_lease_renewals :: "json list option"
  kc_execution_result :: "(string \<times> json) list option"

record callback_reply =
  cy_duplicate :: bool
  cy_callback_id :: string

text \<open>The two keys the validation reads: \<open>str(target.get(key))\<close> when the value is true.\<close>

definition target_text :: "string \<Rightarrow> (string \<times> json) list \<Rightarrow> string option" where
  "target_text k target = (let v = dict_get k (JObj target) in if json_truthy v then Some (py_str v) else None)"

definition callback_target_of :: "(string \<times> json) list option \<Rightarrow> callback_target option" where
  "callback_target_of target =
     map_option (\<lambda>t. \<lparr>ct_committed_lease_id = target_text ''committed_lease_id'' t,
                      ct_fencing_token = target_text ''fencing_token'' t\<rparr>) target"

definition opt_json :: "('a \<Rightarrow> json) \<Rightarrow> 'a option \<Rightarrow> json" where
  "opt_json f x = (case x of None \<Rightarrow> JNull | Some y \<Rightarrow> f y)"

text \<open>\<open>committed_lease_payload\<close>: the dump of the lease with the aliases of the term number and the commit index.\<close>

definition committed_lease_json :: "callback_plane \<Rightarrow> committed_lease \<Rightarrow> json" where
  "committed_lease_json p l =
     JObj [(''schema_version'', JStr ''v1''), (''created_at'', JStr (pl_json_time p (cl_created_at l))),
           (''committed_lease_id'', JStr (cl_committed_lease_id l)), (''lease_id'', JStr (cl_lease_id l)),
           (''proposal_id'', JStr (cl_proposal_id l)), (''decision_id'', opt_json JStr (cl_decision_id l)),
           (''control_plane_id'', JStr (cl_control_plane_id l)), (''run_id'', JStr (cl_run_id l)),
           (''runtime_task_id'', JStr (cl_runtime_task_id l)), (''domain_kind'', JStr (cl_domain_kind l)),
           (''domain_key'', JStr (cl_domain_key l)), (''term_no'', JNum (cl_term_no l)),
           (''commit_index'', JNum (cl_commit_index l)), (''lease_epoch'', JNum (cl_lease_epoch l)),
           (''fencing_token'', JStr (cl_fencing_token l)), (''status'', JStr (cl_status l)),
           (''lease_expires_at'', JStr (pl_json_time p (cl_lease_expires_at l))),
           (''released_at'', opt_json (\<lambda>t. JStr (pl_json_time p t)) (cl_released_at l)),
           (''release_reason'', opt_json JStr (cl_release_reason l)),
           (''authority_term_no'', JNum (cl_term_no l)), (''decision_index'', JNum (cl_commit_index l))]"

definition renewal_json :: "callback_plane \<Rightarrow> env \<Rightarrow> heartbeat_callback \<Rightarrow> time \<Rightarrow> time \<Rightarrow> json" where
  "renewal_json p e h renewed expires =
     JObj ([(''renewal_id'', JStr (new_id ''renewal'' (hex12 e 0))), (''run_id'', JStr (hc_run_id h)),
            (''runtime_task_id'', JStr (hc_runtime_task_id h)), (''worker_pool_id'', JStr (hc_worker_pool_id h)),
            (''lease_id'', JStr (hc_lease_id h)), (''status'', JStr ''renewed''),
            (''renewed_at'', JStr (pl_json_time p renewed)), (''lease_expires_at'', JStr (pl_json_time p expires)),
            (''callback_id'', JStr (hc_callback_id h)), (''heartbeat_at'', JStr (pl_json_time p renewed)),
            (''source'', JStr ''worker_callback'')]
           @ map (\<lambda>k. (k, JNull)) [''control_plane_id'', ''committed_lease_id'', ''fencing_token'', ''term_no'',
                                     ''authority_term_no'', ''commit_index'', ''decision_index''])"

text \<open>
  \<open>WorkerLeaseRepository.touch\<close> with the texts of the callback: an active lease whose time stamps cannot be read back
  fails the validation of the row.
\<close>

definition touch_lease :: "heartbeat_callback \<Rightarrow> run_db \<Rightarrow> werror + worker_lease option \<times> run_db" where
  "touch_lease h db =
     (case (ts_time (hc_heartbeat_at h), ts_time (hc_lease_expires_at h)) of
        (Some at, Some expires) \<Rightarrow> worker_lease_touch (hc_lease_id h) at expires db
      | _ \<Rightarrow>
          if list_ex (\<lambda>l. wl_lease_id l = hc_lease_id h \<and> wl_status l = ws_active) (rd_worker_leases db)
          then Inl (ValidationError ''WorkerLease'')
          else rbind (worker_lease_get (hc_lease_id h) db) (\<lambda>l. Inr (l, db)))"

definition from_iso :: "stamp \<Rightarrow> werror + time" where
  "from_iso s = (case ts_time s of Some t \<Rightarrow> Inr t | None \<Rightarrow> Inl (ValueError ''Invalid isoformat string''))"

definition heartbeat_updates ::
  "callback_plane \<Rightarrow> heartbeat_callback \<Rightarrow> committed_lease \<Rightarrow> json list \<Rightarrow> (string \<times> json) list" where
  "heartbeat_updates p h l renewals =
     (''lease_renewals'', JList (last_20 renewals))
     # (case hc_execution_target h of
          None \<Rightarrow> []
        | Some t \<Rightarrow>
            [(''execution_target'', JObj (dict_merge t [(''last_callback_at'', JStr (ts_text (hc_heartbeat_at h)))])),
             (''committed_scheduler_lease'', committed_lease_json p l)])"

text \<open>The event of a completion has an integer return code.\<close>

definition return_code_of :: "(string \<times> json) list option \<Rightarrow> json" where
  "return_code_of r = (case r of None \<Rightarrow> JNull | Some r \<Rightarrow> dict_get ''return_code'' (JObj r))"

definition valid_int :: "callback_plane \<Rightarrow> json \<Rightarrow> bool" where
  "valid_int p v = (case v of JNum _ \<Rightarrow> True | JBool _ \<Rightarrow> True | JStr s \<Rightarrow> pl_reads_int p s | _ \<Rightarrow> False)"

text \<open>The effect of a callback that is not a duplicate, in the state row and the event table; \<open>ok\<close> is the validation of the event.\<close>

definition store_callback ::
  "env \<Rightarrow> state_ref \<Rightarrow> bool \<Rightarrow> string \<Rightarrow> string \<Rightarrow> string \<Rightarrow> string \<Rightarrow> string \<Rightarrow> callback_db \<Rightarrow> werror + callback_db" where
  "store_callback e s ok run typ obj oid summary db =
     rbind (state_upsert s (cb_runs db) (cb_states db)) (\<lambda>(_, states).
     rbind (rguard ok (ValidationError typ)) (\<lambda>_.
     rbind (event_append e 1 run typ obj oid summary (cb_runs db)) (\<lambda>runs.
       Inr (db\<lparr>cb_runs := runs, cb_states := states\<rparr>))))"

definition record_worker_heartbeat ::
  "callback_plane \<Rightarrow> env \<Rightarrow> heartbeat_callback \<Rightarrow> callback_db \<Rightarrow> werror + callback_reply \<times> callback_db" where
  "record_worker_heartbeat p e h db =
     rbind (state_get_by_task (hc_runtime_task_id h) (cb_states db)) (\<lambda>found.
       case found of
         None \<Rightarrow> Inl (EntityNotFoundError ''runtime_state_ref'' (hc_runtime_task_id h))
       | Some s \<Rightarrow>
           if hc_callback_id h \<in> set (reg_heartbeat (worker_callback_registry (st_state_payload s)))
           then Inr (\<lparr>cy_duplicate = True, cy_callback_id = hc_callback_id h\<rparr>, db)
           else
             rbind (validate_callback_scheduler_context (pl_control_plane_id p) (clock e 0) (hc_runtime_task_id h)
                      (callback_target_of (hc_execution_target h)) (cb_sched db)) (\<lambda>committed.
             rbind (touch_lease h (cb_runs db)) (\<lambda>(lease, runs).
             if lease = None then Inl (EntityNotFoundError ''worker_lease'' (hc_lease_id h))
             else
               rbind (from_iso (hc_heartbeat_at h)) (\<lambda>renewed.
               rbind (from_iso (hc_lease_expires_at h)) (\<lambda>expires.
               rbind (rmap (\<lambda>r. hashed (dict_get ''callback_id'' r)) (lease_renewals_for s)) (\<lambda>seen.
               let renewals = lease_renewals_for s
                     @ (if JStr (hc_callback_id h) \<in> set seen then [] else [renewal_json p e h renewed expires])
               in rbind (state_with_payload_updates s (heartbeat_updates p h committed renewals)) (\<lambda>s1.
                  rbind (append_worker_callback s1 Heartbeat (hc_callback_id h)
                           [(''dispatch_id'', JStr (hc_dispatch_id h)), (''lease_id'', JStr (hc_lease_id h)),
                            (''heartbeat_at'', JStr (ts_text (hc_heartbeat_at h))),
                            (''lease_expires_at'', JStr (ts_text (hc_lease_expires_at h)))]) (\<lambda>s2.
                  rbind (store_callback e s2 True (hc_run_id h) ''worker_heartbeat_received'' ''worker_lease'' (hc_lease_id h)
                           ''Worker heartbeat received'' (db\<lparr>cb_runs := runs\<rparr>)) (\<lambda>db'.
                    Inr (\<lparr>cy_duplicate = False, cy_callback_id = hc_callback_id h\<rparr>, db'))))))))))"

text \<open>The loop that merges the renewals a completion brings; \<open>seen\<close> is the set of known callback ids.\<close>

fun merge_renewals :: "json list \<Rightarrow> json list \<Rightarrow> json list \<Rightarrow> werror + json list" where
  "merge_renewals [] seen merged = Inr merged"
| "merge_renewals (r # rs) seen merged =
     (let ref = dict_get ''callback_id'' r
      in if \<not> json_truthy ref then merge_renewals rs seen (if is_dict r then merged @ [r] else merged)
         else rbind (hashed ref) (\<lambda>k.
                if k \<in> set seen then merge_renewals rs seen merged
                else merge_renewals rs (k # seen) (merged @ [r])))"

definition completion_updates ::
  "callback_plane \<Rightarrow> env \<Rightarrow> completion_callback \<Rightarrow> committed_lease \<Rightarrow> json list option \<Rightarrow> (string \<times> json) list" where
  "completion_updates p e k l merged =
     [(''execution_target'', JObj (dict_merge (kc_execution_target k) [(''last_callback_at'', JStr (pl_isoformat p (clock e 2)))])),
      (''committed_scheduler_lease'', committed_lease_json p l)]
     @ (case merged of None \<Rightarrow> [] | Some rs \<Rightarrow> [(''lease_renewals'', JList (last_20 rs))])
     @ (case kc_execution_result k of None \<Rightarrow> [] | Some r \<Rightarrow> [(''remote_execution_result'', JObj r)])"

definition record_worker_completion ::
  "callback_plane \<Rightarrow> env \<Rightarrow> completion_callback \<Rightarrow> callback_db \<Rightarrow> werror + callback_reply \<times> callback_db" where
  "record_worker_completion p e k db =
     rbind (state_get_by_task (kc_runtime_task_id k) (cb_states db)) (\<lambda>found.
       case found of
         None \<Rightarrow> Inl (EntityNotFoundError ''runtime_state_ref'' (kc_runtime_task_id k))
       | Some s \<Rightarrow>
           if kc_callback_id k \<in> set (reg_completion (worker_callback_registry (st_state_payload s)))
           then Inr (\<lparr>cy_duplicate = True, cy_callback_id = kc_callback_id k\<rparr>, db)
           else
             rbind (validate_callback_scheduler_context (pl_control_plane_id p) (clock e 0) (kc_runtime_task_id k)
                      (callback_target_of (Some (kc_execution_target k))) (cb_sched db)) (\<lambda>committed.
             rbind (case kc_lease_renewals k of
                      None \<Rightarrow> Inr None
                    | Some rs \<Rightarrow>
                        rbind (rmap (\<lambda>r. hashed (dict_get ''callback_id'' r)) (lease_renewals_for s)) (\<lambda>seen.
                        rbind (merge_renewals rs seen (lease_renewals_for s)) (\<lambda>merged. Inr (Some merged)))) (\<lambda>merged.
             rbind (state_with_payload_updates s (completion_updates p e k committed merged)) (\<lambda>s1.
             rbind (append_worker_callback s1 Completion (kc_callback_id k)
                      [(''dispatch_id'', JStr (kc_dispatch_id k)), (''lease_id'', JStr (kc_lease_id k)),
                       (''return_code'', return_code_of (kc_execution_result k))]) (\<lambda>s2.
             rbind (store_callback e s2 (valid_int p (return_code_of (kc_execution_result k))) (kc_run_id k)
                      ''worker_completion_recorded'' ''runtime_task'' (kc_runtime_task_id k)
                      ''Worker completion callback recorded'' db) (\<lambda>db'.
               Inr (\<lparr>cy_duplicate = False, cy_callback_id = kc_callback_id k\<rparr>, db')))))))"

subsection \<open>Sequences of callbacks\<close>

datatype callback_event =
    EvHeartbeatCallback callback_plane env heartbeat_callback
  | EvCompletionCallback callback_plane env completion_callback
  | EvScheduler sched_event

fun callback_step :: "callback_event \<Rightarrow> callback_db \<Rightarrow> werror + callback_db" where
  "callback_step (EvHeartbeatCallback p e h) db = rbind (record_worker_heartbeat p e h db) (\<lambda>(_, db'). Inr db')"
| "callback_step (EvCompletionCallback p e k) db = rbind (record_worker_completion p e k db) (\<lambda>(_, db'). Inr db')"
| "callback_step (EvScheduler ev) db = rbind (sched_step ev (cb_sched db)) (\<lambda>s. Inr (db\<lparr>cb_sched := s\<rparr>))"

definition callback_run :: "callback_event list \<Rightarrow> callback_db \<Rightarrow> callback_db" where
  "callback_run = run_events callback_step"

end
