(* ===== verification/Sched_Projection.thy ===== *)
theory Sched_Projection
  imports Worker_Callbacks
begin

section \<open>The scheduler lease in a runtime state\<close>

text \<open>
  \<open>SchedulerLeaseProjectionService\<close> of \<^verbatim>\<open>packages/core_domain/service_scheduler_lease_projection.py\<close>, which keeps what the
  arbiter decided in the payload of a runtime state, and the release of the lease a state records
  (\<open>_scheduler_lease_id_from_state\<close>, \<open>_release_scheduler_lease_for_state\<close> of \<^verbatim>\<open>service_lifecycle.py\<close>). A dictionary is the
  association list of a \<open>JObj\<close>. The record \<open>orchestrator\<close> holds what the service reads from its configuration and the
  library functions on texts.
\<close>

type_synonym jdict = "(string \<times> json) list"

record orchestrator =
  fc_plane :: callback_plane
  fc_arbiter :: arbiter
  fc_enabled :: json \<comment> \<open>\<open>effective_config["scheduler_authority"]["enabled"]\<close> and the next four\<close>
  fc_mode :: json
  fc_authority_mode :: json
  fc_node_id :: json
  fc_bind_url :: json
  fc_from_iso :: "string \<Rightarrow> time option" \<comment> \<open>\<open>datetime.fromisoformat\<close>\<close>
  fc_read_int :: "string \<Rightarrow> int option" \<comment> \<open>\<open>int(text)\<close>\<close>

definition dget :: "string \<Rightarrow> jdict \<Rightarrow> json" where
  "dget k d = (case jget k d of Some v \<Rightarrow> v | None \<Rightarrow> JNull)"

definition dput :: "string \<Rightarrow> json \<Rightarrow> jdict \<Rightarrow> jdict" where
  "dput k v d = AList.update k v d"

fun as_dict :: "json \<Rightarrow> jdict option" where
  "as_dict (JObj d) = Some d"
| "as_dict _ = None"

text \<open>\<open>[dict(item) for item in value if isinstance(item, dict)] if isinstance(value, list) else []\<close>.\<close>

definition dict_items :: "json \<Rightarrow> jdict list" where
  "dict_items v = (case v of JList xs \<Rightarrow> List.map_filter as_dict xs | _ \<Rightarrow> [])"

definition dict_json :: "jdict option \<Rightarrow> json" where
  "dict_json d = (case d of None \<Rightarrow> JNull | Some kvs \<Rightarrow> JObj kvs)"

subsection \<open>The rows as dictionaries\<close>

definition decision_json :: "callback_plane \<Rightarrow> lease_decision \<Rightarrow> jdict" where
  "decision_json p d =
     [(''schema_version'', JStr ''v1''), (''created_at'', JStr (pl_json_time p (de_created_at d))),
      (''decision_id'', JStr (de_decision_id d)), (''lease_id'', JStr (de_lease_id d)), (''proposal_id'', JStr (de_proposal_id d)),
      (''control_plane_id'', JStr (de_control_plane_id d)), (''run_id'', JStr (de_run_id d)),
      (''runtime_task_id'', JStr (de_runtime_task_id d)), (''domain_kind'', JStr (de_domain_kind d)),
      (''domain_key'', JStr (de_domain_key d)), (''lease_epoch'', JNum (de_lease_epoch d)), (''decision'', JStr (de_decision d)),
      (''reason'', JStr (de_reason d)), (''lease_expires_at'', JStr (pl_json_time p (de_lease_expires_at d))),
      (''released_at'', opt_json (\<lambda>t. JStr (pl_json_time p t)) (de_released_at d)),
      (''release_reason'', opt_json JStr (de_release_reason d))]"

definition node_json :: "callback_plane \<Rightarrow> authority_node \<times> bool \<Rightarrow> json" where
  "node_json p na =
     (let (n, active) = na
      in JObj [(''schema_version'', JStr ''v1''), (''created_at'', JStr (pl_json_time p (an_created_at n))),
               (''node_id'', JStr (an_node_id n)), (''bind_url'', JStr (an_bind_url n)), (''status'', JStr (an_status n)),
               (''role'', JStr (an_role n)), (''last_heartbeat_at'', JStr (pl_json_time p (an_last_heartbeat_at n))),
               (''active'', JBool active)])"

definition cluster_json :: "callback_plane \<Rightarrow> cluster_view \<Rightarrow> jdict" where
  "cluster_json p c =
     [(''enabled'', JBool (cv_enabled c)), (''mode'', JStr (cv_mode c)), (''authority_mode'', JStr (cv_authority_mode c)),
      (''node_count'', JNum (int (cv_node_count c))), (''active_node_count'', JNum (int (cv_active_node_count c))),
      (''quorum_size'', JNum (cv_quorum_size c)), (''leader_node_id'', opt_json JStr (cv_leader_node_id c)),
      (''authority_node_id'', opt_json JStr (cv_authority_node_id c)), (''term_no'', opt_json JNum (cv_term_no c)),
      (''authority_term_no'', opt_json JNum (cv_authority_term_no c)), (''commit_index'', JNum (cv_commit_index c)),
      (''decision_index'', JNum (cv_decision_index c)), (''nodes'', JList (map (node_json p) (cv_nodes c)))]"

subsection \<open>Aliases and summaries\<close>

definition alias_field :: "string \<Rightarrow> string \<Rightarrow> jdict \<Rightarrow> jdict" where
  "alias_field k source d = (if dget k d = JNull \<and> dget source d \<noteq> JNull then dput k (dget source d) d else d)"

definition with_authority_aliases :: "jdict \<Rightarrow> jdict" where
  "with_authority_aliases d =
     alias_field ''decision_index'' ''commit_index''
       (alias_field ''authority_term_no'' ''term_no'' (alias_field ''authority_node_id'' ''leader_node_id'' d))"

definition committed_lease_payload_of :: "json \<Rightarrow> jdict option" where
  "committed_lease_payload_of v = map_option with_authority_aliases (as_dict v)"

definition handoff_envelope_payload :: "json \<Rightarrow> jdict option" where
  "handoff_envelope_payload v = map_option with_authority_aliases (as_dict v)"

fun first_non_none :: "json list \<Rightarrow> json" where
  "first_non_none [] = JNull"
| "first_non_none (v # vs) = (if v = JNull then first_non_none vs else v)"

text \<open>\<open>value or default\<close>.\<close>

definition json_or :: "json \<Rightarrow> json \<Rightarrow> json" where
  "json_or v d = (if json_truthy v then v else d)"

definition cluster_summary_payload :: "orchestrator \<Rightarrow> jdict option \<Rightarrow> jdict option \<Rightarrow> jdict option" where
  "cluster_summary_payload f cluster term =
     (if cluster = None \<and> term = None then None
      else
        let t = map_option with_authority_aliases term; tm = (case t of None \<Rightarrow> [] | Some x \<Rightarrow> x);
            c = with_authority_aliases (case cluster of None \<Rightarrow> [] | Some x \<Rightarrow> x)
        in Some
          [(''enabled'', case jget ''enabled'' c of Some v \<Rightarrow> v | None \<Rightarrow> fc_enabled f),
           (''mode'', json_or (dget ''mode'' c) (fc_mode f)), (''authority_mode'', json_or (dget ''authority_mode'' c) (fc_authority_mode f)),
           (''node_id'', fc_node_id f), (''bind_url'', fc_bind_url f), (''quorum_size'', dget ''quorum_size'' c),
           (''leader_node_id'', dget ''leader_node_id'' c),
           (''authority_node_id'', first_non_none [dget ''authority_node_id'' c, dget ''leader_node_id'' c]),
           (''term_no'', first_non_none [dget ''term_no'' c, dget ''term_no'' tm]),
           (''authority_term_no'', first_non_none [dget ''authority_term_no'' c, dget ''term_no'' c, dget ''authority_term_no'' tm, dget ''term_no'' tm]),
           (''commit_index'', first_non_none [dget ''commit_index'' c, dget ''commit_index'' tm]),
           (''decision_index'', first_non_none [dget ''decision_index'' c, dget ''commit_index'' c, dget ''decision_index'' tm, dget ''commit_index'' tm]),
           (''cluster'', JObj c), (''term'', dict_json t)])"

subsection \<open>The payload\<close>

definition decision_history :: "jdict \<Rightarrow> jdict list" where
  "decision_history d = dict_items (dget ''decision_history'' d)"

definition conflicts_of :: "jdict \<Rightarrow> jdict list" where
  "conflicts_of d = dict_items (dget ''conflicts'' d)"

definition handoff_history :: "jdict \<Rightarrow> jdict list" where
  "handoff_history d = dict_items (dget ''handoff_history'' d)"

definition local_control_plane :: "orchestrator \<Rightarrow> string" where
  "local_control_plane f = pl_control_plane_id (fc_plane f)"

definition active_owner :: "jdict option \<Rightarrow> string option" where
  "active_owner active =
     (case active of
        None \<Rightarrow> None
      | Some a \<Rightarrow> if dget ''control_plane_id'' a = JNull then None else Some (py_str (dget ''control_plane_id'' a)))"

definition takeover_state :: "orchestrator \<Rightarrow> string option \<Rightarrow> nat \<Rightarrow> json" where
  "takeover_state f owner handoffs =
     JObj [(''local_control_plane_id'', JStr (local_control_plane f)), (''active_control_plane_id'', opt_json JStr owner),
           (''active_owner_is_local'', opt_json (\<lambda>x. JBool (x = local_control_plane f)) owner), (''handoff_count'', JNum (int handoffs))]"

definition summarized :: "orchestrator \<Rightarrow> jdict \<Rightarrow> jdict" where
  "summarized f d =
     (case dget ''cluster_summary'' d of
        JObj cs \<Rightarrow>
          dput ''cluster_summary''
            (dict_json (cluster_summary_payload f (Some (case dget ''cluster'' cs of JObj c \<Rightarrow> c | _ \<Rightarrow> cs)) (as_dict (dget ''term'' cs)))) d
      | _ \<Rightarrow> d)"

definition authority_payload :: "orchestrator \<Rightarrow> state_ref option \<Rightarrow> jdict" where
  "authority_payload f s =
     (case s of
        None \<Rightarrow> []
      | Some s \<Rightarrow>
          let p0 = (case dget ''scheduler_authority'' (st_state_payload s) of JObj d \<Rightarrow> d | _ \<Rightarrow> []);
              active = committed_lease_payload_of (dget ''active_committed_lease'' p0);
              p1 = summarized f (case active of None \<Rightarrow> p0 | Some a \<Rightarrow> dput ''active_committed_lease'' (JObj a) p0);
              p2 = dput ''handoff_history'' (JList (map (\<lambda>h. JObj (with_authority_aliases h)) (handoff_history p1))) p1;
              owner = active_owner active;
              p3 = dput ''stale_plane_detected'' (JBool (owner \<noteq> None \<and> owner \<noteq> Some (local_control_plane f)))
                     (dput ''local_control_plane_id'' (JStr (local_control_plane f)) p2)
          in dput ''takeover_state'' (takeover_state f owner (length (handoff_history p3))) p3)"

definition scheduler_context_for_dispatch :: "json \<Rightarrow> jdict option" where
  "scheduler_context_for_dispatch v =
     map_option (\<lambda>p. map (\<lambda>k. (k, dget k p))
         [''control_plane_id'', ''committed_lease_id'', ''fencing_token'', ''term_no'', ''authority_term_no'', ''commit_index'',
          ''decision_index'', ''lease_epoch''])
       (committed_lease_payload_of v)"

subsection \<open>Arbitration\<close>

text \<open>The dictionaries that describe a decision; the proposal, the votes and the heartbeat are dumped by the caller.\<close>

record arbitration =
  ar_proposal :: "json option"
  ar_decision :: "lease_decision option"
  ar_committed_lease :: json
  ar_term :: "jdict option"
  ar_votes :: "json list"
  ar_handoff :: json
  ar_heartbeat :: "json option"
  ar_cluster :: "jdict option"
  ar_conflict :: "json option"

definition current_active_decision :: "orchestrator \<Rightarrow> jdict \<Rightarrow> lease_decision option \<Rightarrow> json" where
  "current_active_decision f current decision =
     (let active = dget ''active_decision'' current; kept = (if is_dict active then active else JNull)
      in case decision of
           None \<Rightarrow> kept
         | Some d \<Rightarrow>
             if de_decision d = ''granted'' \<and> de_released_at d = None then JObj (decision_json (fc_plane f) d)
             else if kept \<noteq> JNull \<and> dict_get ''lease_id'' kept = JStr (de_lease_id d) then JNull
             else kept)"

definition arbitration_committed :: "arbitration \<Rightarrow> jdict \<Rightarrow> jdict option" where
  "arbitration_committed a current =
     (case committed_lease_payload_of (ar_committed_lease a) of
        Some (kv # kvs) \<Rightarrow> Some (kv # kvs)
      | _ \<Rightarrow> committed_lease_payload_of (dget ''active_committed_lease'' current))"

definition committed_field :: "string \<Rightarrow> jdict option \<Rightarrow> json" where
  "committed_field k c = (case c of None \<Rightarrow> JNull | Some d \<Rightarrow> dget k d)"

definition authority_entry :: "orchestrator \<Rightarrow> arbitration \<Rightarrow> jdict \<Rightarrow> jdict option \<Rightarrow> jdict" where
  "authority_entry f a current committed =
     (let dump = map_option (\<lambda>d. JObj (decision_json (fc_plane f) d)) (ar_decision a);
          kept = (\<lambda>k v. case v of Some x \<Rightarrow> x | None \<Rightarrow> dget k current);
          added = (\<lambda>v. case v of Some x \<Rightarrow> [x] | None \<Rightarrow> [])
      in [(''authority_control_plane_id'', JStr (local_control_plane f)), (''authority_mode'', fc_authority_mode f),
          (''latest_proposal'', kept ''latest_proposal'' (ar_proposal a)), (''latest_decision'', kept ''latest_decision'' dump),
          (''active_decision'', current_active_decision f current (ar_decision a)), (''active_committed_lease'', dict_json committed),
          (''cluster_summary'', case cluster_summary_payload f (ar_cluster a) (ar_term a) of
                                  Some c \<Rightarrow> JObj c | None \<Rightarrow> dget ''cluster_summary'' current),
          (''vote_records'', if ar_votes a \<noteq> [] then JList (ar_votes a) else dget ''vote_records'' current),
          (''decision_history'', JList (last_20 (map JObj (decision_history current) @ added dump))),
          (''handoff_history'', JList (last_20 (map JObj (handoff_history current)
                                 @ added (map_option JObj (handoff_envelope_payload (ar_handoff a)))))),
          (''conflicts'', JList (last_20 (map JObj (conflicts_of current) @ added (ar_conflict a)))),
          (''last_peer_heartbeat'', kept ''last_peer_heartbeat'' (ar_heartbeat a))])"

definition decision_updates :: "orchestrator \<Rightarrow> lease_decision \<Rightarrow> jdict option \<Rightarrow> jdict" where
  "decision_updates f d committed =
     (let time = (\<lambda>t. JStr (pl_isoformat (fc_plane f) t))
      in [(''lease_epoch'', JNum (de_lease_epoch d)), (''scheduler_decision_ref'', JStr (de_decision_id d)),
          (''scheduler_lease_id'', JStr (de_lease_id d)),
          (''arbitration_provenance'', JObj
            ([(''decision_id'', JStr (de_decision_id d)), (''lease_id'', JStr (de_lease_id d)), (''lease_epoch'', JNum (de_lease_epoch d)),
              (''control_plane_id'', JStr (de_control_plane_id d)), (''authority_control_plane_id'', JStr (local_control_plane f)),
              (''decision'', JStr (de_decision d)), (''reason'', JStr (de_reason d)), (''lease_expires_at'', time (de_lease_expires_at d)),
              (''released_at'', opt_json time (de_released_at d)), (''release_reason'', opt_json JStr (de_release_reason d))]
             @ map (\<lambda>k. (k, committed_field k committed))
                 [''committed_lease_id'', ''fencing_token'', ''term_no'', ''authority_term_no'', ''commit_index'', ''decision_index'']))])"

definition arbitration_updates :: "orchestrator \<Rightarrow> state_ref option \<Rightarrow> string \<Rightarrow> arbitration \<Rightarrow> jdict" where
  "arbitration_updates f s control_plane a =
     (let current = authority_payload f s; committed = arbitration_committed a current
      in [(''control_plane_id'', JStr control_plane), (''scheduler_authority'', JObj (authority_entry f a current committed))]
         @ (case ar_decision a of None \<Rightarrow> [] | Some d \<Rightarrow> decision_updates f d committed))"

subsection \<open>Releasing the lease of a state\<close>

definition recorded_lease :: "json \<Rightarrow> string option" where
  "recorded_lease v =
     (case v of
        JObj d \<Rightarrow> if json_truthy (dget ''lease_id'' d) \<and> dget ''released_at'' d = JNull then Some (py_str (dget ''lease_id'' d)) else None
      | _ \<Rightarrow> None)"

definition scheduler_lease_id_from_state :: "state_ref option \<Rightarrow> string option" where
  "scheduler_lease_id_from_state s =
     (case s of
        None \<Rightarrow> None
      | Some s \<Rightarrow>
          (case dget ''scheduler_authority'' (st_state_payload s) of
             JObj d \<Rightarrow>
               (case recorded_lease (dget ''active_decision'' d) of
                  Some l \<Rightarrow> Some l
                | None \<Rightarrow> recorded_lease (dget ''latest_decision'' d))
           | _ \<Rightarrow> None))"

definition release_scheduler_lease_for_state ::
  "orchestrator \<Rightarrow> env \<Rightarrow> state_ref \<Rightarrow> string option \<Rightarrow> string \<Rightarrow> sched_db \<Rightarrow> werror + state_ref \<times> sched_db" where
  "release_scheduler_lease_for_state f e s lease_id reason db =
     (if str_or lease_id [] = [] then Inr (s, db)
      else
        rbind (arbiter_release (fc_arbiter f) e (str_or lease_id []) reason db) (\<lambda>(released, db1).
          case rr_decision released of
            None \<Rightarrow> Inr (s, db1)
          | Some d \<Rightarrow>
              rbind (state_with_payload_updates s
                       (arbitration_updates f (Some s) (de_control_plane_id d)
                          \<lparr>ar_proposal = None, ar_decision = Some d,
                           ar_committed_lease = committed_lease_json (fc_plane f) (lp_lease (rr_committed_lease released)),
                           ar_term = None, ar_votes = [], ar_handoff = JNull, ar_heartbeat = None,
                           ar_cluster = Some (cluster_json (fc_plane f) (rr_cluster released)), ar_conflict = None\<rparr>)) (\<lambda>s1.
                Inr (s1, db1))))"

end
