(* ===== verification/Run_Diagnostics.thy ===== *)
theory Run_Diagnostics
  imports Sched_Projection
begin

section \<open>The diagnostic context of a run and its inspection\<close>

text \<open>
  \<open>_load_run_context\<close> with the selections on it, the durable lineage of a runtime state
  (\<^verbatim>\<open>packages/core_domain/services.py\<close>, \<^verbatim>\<open>service_core_helpers.py\<close>), the snapshots of a run (\<^verbatim>\<open>service_repair.py\<close>) and
  \<open>_inspect_context\<close> of \<^verbatim>\<open>service_inspection.py\<close>, which lists what is inconsistent in a run's rows. To the tables of the
  callbacks come phases, task cards, handoffs, runtime tasks (the identifiers of \<open>rd_tasks\<close> with their columns), packets,
  evidence, verdicts and snapshots, with the columns the services read; texts that are only shown are left out. An
  inspection is read at one instant; time stamps carry their zone.
\<close>

subsection \<open>Tables\<close>

datatype task_status = tk_pending | tk_ready | tk_running | tk_completed | tk_failed | tk_cancelled

record phase_row =
  ph_phase_id :: string
  ph_run_id :: string

record card_row =
  kd_card_id :: string
  kd_run_id :: string
  kd_status :: string
  kd_metadata :: jdict
  kd_created_at :: time

record handoff_row =
  hf_handoff_id :: string
  hf_run_id :: string
  hf_from_phase :: string
  hf_to_phase :: string

record task_row =
  tr_run_id :: string
  tr_phase_id :: string
  tr_task_card_id :: string
  tr_task_kind :: string
  tr_status :: task_status
  tr_created_at :: time

record packet_contract =
  pc_task_card_ref :: "string option"
  pc_task_card_path :: "string option"
  pc_patch_apply :: bool \<comment> \<open>\<open>mutation_mode\<close>\<close>

record packet_row =
  pk_packet_id :: string
  pk_runtime_task_id :: string
  pk_run_id :: string
  pk_env :: "(string \<times> string) list"
  pk_contract :: "packet_contract option"

record evidence_row =
  ev_evidence_id :: string
  ev_run_id :: string
  ev_runtime_task_id :: string
  ev_summary :: string
  ev_return_code :: int
  ev_metadata :: jdict \<comment> \<open>of \<open>raw_execution\<close>\<close>
  ev_created_at :: time

datatype review_decision = rd_pass | rd_fail

record verdict_row =
  rv_verdict_id :: string
  rv_run_id :: string
  rv_evidence_id :: string
  rv_decision :: review_decision
  rv_rationale :: string
  rv_human :: bool \<comment> \<open>\<open>reviewer_type\<close>\<close>
  rv_reviewed_at :: time

record durable_lineage =
  ln_current_refs :: jdict
  ln_history :: "jdict list"
  ln_checkpoint_count :: int
  ln_review_decision_count :: int
  ln_latest_reason :: json
  ln_latest_transition_at :: json

record snapshot_row =
  sn_snapshot_id :: string
  sn_run_id :: string
  sn_stage :: snapshot_stage
  sn_run_status :: run_status
  sn_runtime_task_id :: "string option"
  sn_summary :: string
  sn_effective_review_state :: string \<comment> \<open>from here the payload\<close>
  sn_review_policy :: string
  sn_task_ids :: "string list"
  sn_latest_state :: "(graph_step \<times> string) option"
  sn_durable_lineage :: "durable_lineage option"
  sn_latest_attempt :: "string option"
  sn_current_attempt :: "string option"
  sn_latest_verdict :: "string option"
  sn_latest_claim :: "string option"
  sn_active_claims :: "string list"
  sn_latest_lease :: "string option"
  sn_active_leases :: "string list"
  sn_extra :: jdict
  sn_created_at :: time

record preset_row =
  pre_review_policy :: review_policy
  pre_max_retries :: int
  pre_timeout_seconds :: int

record diag_db =
  dd_sched :: sched_db
  dd_runs :: run_db
  dd_states :: "state_ref list"
  dd_task :: "string \<Rightarrow> task_row"
  dd_phases :: "phase_row list"
  dd_task_cards :: "card_row list"
  dd_handoffs :: "handoff_row list"
  dd_packets :: "packet_row list"
  dd_evidence :: "evidence_row list"
  dd_verdicts :: "verdict_row list"
  dd_snapshots :: "snapshot_row list"
  dd_presets :: "string \<Rightarrow> preset_row option"

definition list_runtime_tasks_for_run :: "string \<Rightarrow> diag_db \<Rightarrow> string list" where
  "list_runtime_tasks_for_run rid db =
     sql_order (\<lambda>t. (tr_created_at (dd_task db t), t)) (sql_where (\<lambda>t. tr_run_id (dd_task db t) = rid) (rd_tasks (dd_runs db)))"

definition update_runtime_task_status :: "string \<Rightarrow> task_status \<Rightarrow> diag_db \<Rightarrow> diag_db" where
  "update_runtime_task_status task status db = db\<lparr>dd_task := (dd_task db)(task := (dd_task db task)\<lparr>tr_status := status\<rparr>)\<rparr>"

definition get_task_packet :: "string \<Rightarrow> diag_db \<Rightarrow> packet_row option" where
  "get_task_packet task db = sql_first (\<lambda>p. pk_runtime_task_id p = task) (dd_packets db)"

definition evidence_get_by_task :: "string \<Rightarrow> diag_db \<Rightarrow> evidence_row option" where
  "evidence_get_by_task task db = sql_first (\<lambda>v. ev_runtime_task_id v = task) (dd_evidence db)"

definition verdict_latest_for_run :: "string \<Rightarrow> diag_db \<Rightarrow> verdict_row option" where
  "verdict_latest_for_run rid db = top_by (\<lambda>v. (rv_reviewed_at v, rv_verdict_id v)) (sql_where (\<lambda>v. rv_run_id v = rid) (dd_verdicts db))"

definition verdict_create :: "verdict_row \<Rightarrow> diag_db \<Rightarrow> werror + diag_db" where
  "verdict_create v db =
     rbind (sql_insert ''review_verdicts''
              (rv_verdict_id v \<notin> rv_verdict_id ` set (dd_verdicts db) \<and> known_run (rv_run_id v) (dd_runs db)
               \<and> rv_evidence_id v \<in> ev_evidence_id ` set (dd_evidence db)) v (dd_verdicts db))
       (\<lambda>rows. Inr (db\<lparr>dd_verdicts := rows\<rparr>))"

definition state_list_for_run :: "string \<Rightarrow> state_ref list \<Rightarrow> werror + state_ref list" where
  "state_list_for_run rid rows =
     rmap validate_state_ref (sql_order (\<lambda>s. (st_updated_at s, st_state_ref_id s)) (sql_where (\<lambda>s. st_run_id s = rid) rows))"

definition state_list_live_for_run :: "string \<Rightarrow> state_ref list \<Rightarrow> werror + state_ref list" where
  "state_list_live_for_run rid rows =
     rmap validate_state_ref
       (sql_order (\<lambda>s. (st_updated_at s, st_state_ref_id s)) (sql_where (\<lambda>s. st_run_id s = rid \<and> \<not> st_is_terminal s) rows))"

definition snapshot_list_for_run :: "string \<Rightarrow> diag_db \<Rightarrow> snapshot_row list" where
  "snapshot_list_for_run rid db = sql_order (\<lambda>s. (sn_created_at s, sn_snapshot_id s)) (sql_where (\<lambda>s. sn_run_id s = rid) (dd_snapshots db))"

definition snapshot_create :: "snapshot_row \<Rightarrow> diag_db \<Rightarrow> werror + diag_db" where
  "snapshot_create s db =
     rbind (sql_insert ''run_snapshots''
              (sn_snapshot_id s \<notin> sn_snapshot_id ` set (dd_snapshots db) \<and> known_run (sn_run_id s) (dd_runs db)
               \<and> (\<forall>t\<in>set_option (sn_runtime_task_id s). t \<in> set (rd_tasks (dd_runs db)))) s (dd_snapshots db))
       (\<lambda>rows. Inr (db\<lparr>dd_snapshots := rows\<rparr>))"

subsection \<open>The context\<close>

record run_context =
  cx_run :: run_row
  cx_preset_policy :: "string option"
  cx_phases :: nat
  cx_task_cards :: nat
  cx_tasks :: "string list"
  cx_handoffs :: nat
  cx_states :: "state_ref list"
  cx_snapshots :: "snapshot_row list"
  cx_attempts :: "runtime_attempt list"
  cx_claims :: "runtime_claim list"
  cx_worker_leases :: "worker_lease list"
  cx_evidence :: "(string \<times> evidence_row option) list"
  cx_verdict :: "verdict_row option"

definition get_run :: "string \<Rightarrow> diag_db \<Rightarrow> werror + run_row" where
  "get_run rid db = (case run_get rid (dd_runs db) of None \<Rightarrow> Inl (EntityNotFoundError ''run'' rid) | Some r \<Rightarrow> Inr r)"

definition load_run_context :: "string \<Rightarrow> diag_db \<Rightarrow> werror + run_context" where
  "load_run_context rid db =
     rbind (get_run rid db) (\<lambda>run.
     rbind (state_list_for_run rid (dd_states db)) (\<lambda>states.
     rbind (attempt_list_for_run rid (dd_runs db)) (\<lambda>attempts.
     rbind (claim_list_for_run rid (dd_runs db)) (\<lambda>claims.
     rbind (worker_lease_list_for_run rid (dd_runs db)) (\<lambda>leases.
       let tasks = list_runtime_tasks_for_run rid db
       in Inr \<lparr>cx_run = run, cx_preset_policy = map_option (\<lambda>p. review_policy_name (pre_review_policy p)) (dd_presets db (ru_preset_id run)),
               cx_phases = length (filter (\<lambda>p. ph_run_id p = rid) (dd_phases db)),
               cx_task_cards = length (filter (\<lambda>c. kd_run_id c = rid) (dd_task_cards db)),
               cx_tasks = tasks, cx_handoffs = length (filter (\<lambda>h. hf_run_id h = rid) (dd_handoffs db)), cx_states = states,
               cx_snapshots = snapshot_list_for_run rid db, cx_attempts = attempts, cx_claims = claims, cx_worker_leases = leases,
               cx_evidence = map (\<lambda>t. (t, evidence_get_by_task t db)) tasks, cx_verdict = verdict_latest_for_run rid db\<rparr>)))))"

definition last_runtime_state :: "run_context \<Rightarrow> state_ref option" where
  "last_runtime_state cx = top_by (\<lambda>s. (st_updated_at s, st_state_ref_id s)) (cx_states cx)"

definition last_attempt :: "run_context \<Rightarrow> runtime_attempt option" where
  "last_attempt cx = top_by (\<lambda>a. (ra_sequence_no a, ra_created_at a, ra_attempt_id a)) (cx_attempts cx)"

definition current_attempt :: "run_context \<Rightarrow> runtime_attempt option" where
  "current_attempt cx =
     top_by (\<lambda>a. (ra_sequence_no a, ra_created_at a, ra_attempt_id a)) (filter (\<lambda>a. ra_status a = as_current) (cx_attempts cx))"

definition last_claim :: "run_context \<Rightarrow> runtime_claim option" where
  "last_claim cx = top_by (\<lambda>c. (rc_created_at c, rc_claim_id c)) (cx_claims cx)"

definition last_worker_lease :: "run_context \<Rightarrow> worker_lease option" where
  "last_worker_lease cx = top_by (\<lambda>l. (wl_created_at l, wl_lease_id l)) (cx_worker_leases cx)"

definition active_claims_for :: "run_context \<Rightarrow> runtime_claim list" where
  "active_claims_for cx = filter (\<lambda>c. rc_status c = cs_active) (cx_claims cx)"

definition expired_active_claims :: "time \<Rightarrow> run_context \<Rightarrow> runtime_claim list" where
  "expired_active_claims now cx = filter (\<lambda>c. rc_lease_expires_at c \<le> now) (active_claims_for cx)"

definition active_worker_leases_for :: "run_context \<Rightarrow> worker_lease list" where
  "active_worker_leases_for cx = filter (\<lambda>l. wl_status l = ws_active) (cx_worker_leases cx)"

definition expired_active_worker_leases :: "time \<Rightarrow> run_context \<Rightarrow> worker_lease list" where
  "expired_active_worker_leases now cx = filter (\<lambda>l. wl_lease_expires_at l \<le> now) (active_worker_leases_for cx)"

text \<open>The context lists the tasks by creation, so the least one is the first.\<close>

definition runtime_task_for_context :: "run_context \<Rightarrow> string option" where
  "runtime_task_for_context cx = (case cx_tasks cx of [] \<Rightarrow> None | t # _ \<Rightarrow> Some t)"

definition execution_lane_for_context :: "run_context \<Rightarrow> diag_db \<Rightarrow> string" where
  "execution_lane_for_context cx db =
     (let lane = (case last_runtime_state cx of None \<Rightarrow> JNull | Some s \<Rightarrow> dget ''execution_lane'' (st_state_payload s))
      in if json_truthy lane then py_str lane
         else case runtime_task_for_context cx of
                None \<Rightarrow> ''native_deterministic''
              | Some t \<Rightarrow>
                  (case get_task_packet t db of
                     None \<Rightarrow> ''native_deterministic''
                   | Some p \<Rightarrow> (case map_of (pk_env p) ''WORKFLOW_EXECUTION_LANE'' of Some l \<Rightarrow> l | None \<Rightarrow> ''native_deterministic'')))"

subsection \<open>Review state\<close>

definition review_policy_for_context :: "run_context \<Rightarrow> string" where
  "review_policy_for_context cx =
     (case cx_preset_policy cx of
        Some p \<Rightarrow> p
      | None \<Rightarrow>
          (case last_runtime_state cx of
             None \<Rightarrow> ''auto_only''
           | Some s \<Rightarrow>
               let p = dget ''review_policy'' (st_state_payload s)
               in if json_truthy p then py_str p else ''auto_only''))"

definition effective_review_state :: "run_status \<Rightarrow> verdict_row option \<Rightarrow> string \<Rightarrow> string" where
  "effective_review_state status verdict policy =
     (case verdict of
        None \<Rightarrow> if status = awaiting_review then ''human_pending'' else ''not_requested''
      | Some v \<Rightarrow>
          if status = awaiting_review \<and> \<not> rv_human v then ''human_pending''
          else if rv_human v then (if rv_decision v = rd_pass then ''human_approved'' else ''human_rejected'')
          else if policy = ''optional'' then (if rv_decision v = rd_pass then ''advisory_passed'' else ''advisory_failed'')
          else (if rv_decision v = rd_pass then ''auto_passed'' else ''auto_failed''))"

subsection \<open>Durable lineage\<close>

definition durable_keys :: "string list" where
  "durable_keys = [''thread_id'', ''checkpoint_id'', ''assistant_id'']"

text \<open>\<open>{key: value for .. if value}\<close> over the three keys.\<close>

definition refs_in :: "jdict \<Rightarrow> jdict" where
  "refs_in d = filter (\<lambda>(_, v). json_truthy v) (map (\<lambda>k. (k, dget k d)) durable_keys)"

definition durable_refs_for_state :: "state_ref option \<Rightarrow> jdict" where
  "durable_refs_for_state s =
     (case s of
        None \<Rightarrow> []
      | Some s \<Rightarrow>
          let nested = (case dget ''durable_runtime'' (st_state_payload s) of
                          JObj d \<Rightarrow> (case dget ''current_refs'' d of JObj refs \<Rightarrow> refs_in refs | _ \<Rightarrow> [])
                        | _ \<Rightarrow> [])
          in if nested \<noteq> [] then nested else refs_in (st_state_payload s))"

text \<open>\<open>dict(item)\<close> of an entry of a stored history, and \<open>int(value or 0)\<close>.\<close>

fun dict_entry :: "json \<Rightarrow> werror + jdict" where
  "dict_entry (JObj d) = Inr d"
| "dict_entry (JList []) = Inr []"
| "dict_entry (JStr []) = Inr []"
| "dict_entry _ = Inl (TypeError ''cannot convert to a dictionary'')"

fun int_or_0 :: "orchestrator \<Rightarrow> json \<Rightarrow> werror + int" where
  "int_or_0 f (JNum i) = Inr i"
| "int_or_0 f (JBool b) = Inr (if b then 1 else 0)"
| "int_or_0 f (JStr s) =
     (if s = [] then Inr 0 else case fc_read_int f s of Some i \<Rightarrow> Inr i | None \<Rightarrow> Inl (ValueError ''invalid literal for int()''))"
| "int_or_0 f v = (if json_truthy v then Inl (TypeError ''int() argument'') else Inr 0)"

definition durable_lineage_for_state :: "orchestrator \<Rightarrow> state_ref option \<Rightarrow> werror + durable_lineage option" where
  "durable_lineage_for_state f s =
     (case s of
        None \<Rightarrow> Inr None
      | Some st \<Rightarrow>
          let refs = durable_refs_for_state s
          in case dget ''durable_runtime'' (st_state_payload st) of
               JObj d \<Rightarrow>
                 rbind (case dget ''history'' d of JList xs \<Rightarrow> rmap dict_entry xs | _ \<Rightarrow> Inr []) (\<lambda>history.
                 rbind (int_or_0 f (dget ''checkpoint_count'' d)) (\<lambda>checkpoints.
                 rbind (int_or_0 f (dget ''review_decision_count'' d)) (\<lambda>decisions.
                   Inr (Some \<lparr>ln_current_refs = refs, ln_history = history, ln_checkpoint_count = checkpoints,
                              ln_review_decision_count = decisions, ln_latest_reason = dget ''latest_reason'' d,
                              ln_latest_transition_at = dget ''latest_transition_at'' d\<rparr>))))
             | _ \<Rightarrow>
                 Inr (if refs = [] then None
                      else Some \<lparr>ln_current_refs = refs, ln_history = [], ln_checkpoint_count = 0, ln_review_decision_count = 0,
                                 ln_latest_reason = JNull, ln_latest_transition_at = JNull\<rparr>))"

fun graph_step_name :: "graph_step \<Rightarrow> string" where
  "graph_step_name gs_compiled = ''compiled''"
| "graph_step_name gs_resuming = ''resuming''"
| "graph_step_name gs_awaiting_review = ''awaiting_review''"
| "graph_step_name gs_completed = ''completed''"
| "graph_step_name gs_failed = ''failed''"
| "graph_step_name gs_cancelled = ''cancelled''"

definition durable_transition :: "orchestrator \<Rightarrow> state_ref \<Rightarrow> string \<Rightarrow> jdict \<Rightarrow> jdict \<Rightarrow> nat \<Rightarrow> jdict" where
  "durable_transition f s reason refs metadata index =
     [(''index'', JNum (int index)), (''reason'', JStr reason), (''graph_step'', JStr (graph_step_name (st_graph_step s))),
      (''is_terminal'', JBool (st_is_terminal s)), (''at'', JStr (pl_isoformat (fc_plane f) (st_updated_at s))), (''refs'', JObj refs)]
     @ (if metadata = [] then [] else [(''metadata'', JObj metadata)])"

definition state_ref_with_durable_transition ::
  "orchestrator \<Rightarrow> state_ref \<Rightarrow> string \<Rightarrow> jdict option \<Rightarrow> jdict \<Rightarrow> werror + state_ref" where
  "state_ref_with_durable_transition f s reason refs metadata =
     rbind (durable_lineage_for_state f (Some s)) (\<lambda>previous.
       let old = (case previous of None \<Rightarrow> [] | Some l \<Rightarrow> ln_current_refs l);
           given = (case refs of None \<Rightarrow> old | Some [] \<Rightarrow> old | Some r \<Rightarrow> r);
           resolved = filter (\<lambda>(k, v). k \<in> set durable_keys \<and> json_truthy v) given;
           history = (case previous of None \<Rightarrow> [] | Some l \<Rightarrow> ln_history l);
           history' = history @ [durable_transition f s reason resolved metadata (length history + 1)];
           checkpoint = dget ''checkpoint_id'' resolved;
           checkpoints = (case previous of None \<Rightarrow> 0 | Some l \<Rightarrow> ln_checkpoint_count l)
                         + (if json_truthy checkpoint \<and> checkpoint \<noteq> dget ''checkpoint_id'' old then 1 else 0);
           decisions = (case previous of None \<Rightarrow> 0 | Some l \<Rightarrow> ln_review_decision_count l)
                       + (if dget ''review_decision'' metadata \<noteq> JNull then 1 else 0)
       in if resolved = [] \<and> previous = None then Inr s
          else state_with_payload_updates s
                 (resolved @
                  [(''durable_runtime'', JObj
                      [(''current_refs'', JObj resolved), (''history'', JList (map JObj history')),
                       (''transition_count'', JNum (int (length history'))), (''checkpoint_count'', JNum checkpoints),
                       (''review_decision_count'', JNum decisions), (''latest_reason'', JStr reason),
                       (''latest_transition_at'', JStr (pl_isoformat (fc_plane f) (st_updated_at s)))])]))"

subsection \<open>Snapshots\<close>

definition context_snapshot ::
  "env \<Rightarrow> nat \<Rightarrow> string \<Rightarrow> snapshot_stage \<Rightarrow> string \<Rightarrow> string option \<Rightarrow> jdict \<Rightarrow> durable_lineage option \<Rightarrow> run_context \<Rightarrow> snapshot_row" where
  "context_snapshot e k rid stage summary task extra lineage cx =
     \<lparr>sn_snapshot_id = new_id ''snapshot'' (hex12 e k), sn_run_id = rid, sn_stage = stage, sn_run_status = ru_status (cx_run cx),
      sn_runtime_task_id = (if str_or task [] \<noteq> [] then task else case cx_tasks cx of [] \<Rightarrow> None | t # _ \<Rightarrow> Some t), sn_summary = summary,
      sn_effective_review_state = effective_review_state (ru_status (cx_run cx)) (cx_verdict cx) (review_policy_for_context cx),
      sn_review_policy = review_policy_for_context cx, sn_task_ids = cx_tasks cx,
      sn_latest_state = map_option (\<lambda>s. (st_graph_step s, st_state_ref_id s)) (last_runtime_state cx), sn_durable_lineage = lineage,
      sn_latest_attempt = map_option ra_attempt_id (last_attempt cx), sn_current_attempt = map_option ra_attempt_id (current_attempt cx),
      sn_latest_verdict = map_option rv_verdict_id (cx_verdict cx), sn_latest_claim = map_option rc_claim_id (last_claim cx),
      sn_active_claims = map rc_claim_id (active_claims_for cx), sn_latest_lease = map_option wl_lease_id (last_worker_lease cx),
      sn_active_leases = map wl_lease_id (active_worker_leases_for cx), sn_extra = extra, sn_created_at = clock e k\<rparr>"

definition capture_run_snapshot ::
  "orchestrator \<Rightarrow> env \<Rightarrow> nat \<Rightarrow> string \<Rightarrow> snapshot_stage \<Rightarrow> string \<Rightarrow> string option \<Rightarrow> jdict \<Rightarrow> diag_db \<Rightarrow> werror + snapshot_row \<times> diag_db" where
  "capture_run_snapshot f e k rid stage summary task extra db =
     rbind (load_run_context rid db) (\<lambda>cx.
     rbind (durable_lineage_for_state f (last_runtime_state cx)) (\<lambda>lineage.
       let s = context_snapshot e k rid stage summary task extra lineage cx
       in rbind (snapshot_create s db) (\<lambda>db1.
          rbind (event_append e (k + 1) rid ''run_snapshot_created'' ''run_snapshot'' (sn_snapshot_id s) summary (dd_runs db1)) (\<lambda>runs.
            Inr (s, db1\<lparr>dd_runs := runs\<rparr>)))))"

subsection \<open>Inspection\<close>

text \<open>A problem without its explanation and its details, which are for display.\<close>

record problem =
  pb_problem :: string
  pb_severity :: string
  pb_next_action :: string
  pb_repairable :: bool
  pb_repair_action :: "string option"

definition repairable :: "string \<Rightarrow> string \<Rightarrow> string \<Rightarrow> problem" where
  "repairable p next_action action =
     \<lparr>pb_problem = p, pb_severity = ''error'', pb_next_action = next_action, pb_repairable = True, pb_repair_action = Some action\<rparr>"

definition unrepairable :: "string \<Rightarrow> string \<Rightarrow> string \<Rightarrow> problem" where
  "unrepairable p severity next_action =
     \<lparr>pb_problem = p, pb_severity = severity, pb_next_action = next_action, pb_repairable = False, pb_repair_action = None\<rparr>"

definition found :: "bool \<Rightarrow> problem \<Rightarrow> problem list" where
  "found c p = (if c then [p] else [])"

definition ownership_problems :: "time \<Rightarrow> time \<Rightarrow> run_context \<Rightarrow> state_ref list \<Rightarrow> problem list" where
  "ownership_problems now1 now2 cx live =
     (let status = ru_status (cx_run cx); current = current_attempt cx; tasks = cx_tasks cx;
          claims = active_claims_for cx; leases = active_worker_leases_for cx;
          expired_claims = expired_active_claims now1 cx; expired_leases = expired_active_worker_leases now2 cx
      in found (status \<in> {prepared, running, awaiting_review} \<and> tasks \<noteq> [] \<and> current = None)
           (repairable ''missing_current_runtime_attempt'' ''create_repair_runtime_attempt'' ''create_repair_runtime_attempt'')
       @ found (case current of None \<Rightarrow> False | Some a \<Rightarrow> ra_runtime_task_id a \<notin> set tasks)
           (repairable ''current_runtime_attempt_task_missing'' ''interrupt_current_runtime_attempt'' ''interrupt_current_runtime_attempt'')
       @ found (status = completed \<and> live \<noteq> [])
           (repairable ''completed_runtime_non_terminal'' ''reconcile_runtime_state_ref'' ''align_completed_runtime_state'')
       @ found (terminal_run_status status \<and> current \<noteq> None)
           (repairable ''terminal_run_has_current_runtime_attempt'' ''close_current_runtime_attempt_terminal'' ''close_current_runtime_attempt_terminal'')
       @ found (status = awaiting_review \<and> \<not> list_ex (\<lambda>(_, v). v \<noteq> None) (cx_evidence cx))
           (unrepairable ''awaiting_review_missing_evidence'' ''error'' ''rebuild_or_replay_evidence'')
       @ found (current \<noteq> None \<and> (expired_claims \<noteq> [] \<or> expired_leases \<noteq> []))
           (repairable ''current_runtime_attempt_interrupted'' ''interrupt_current_runtime_attempt'' ''interrupt_current_runtime_attempt'')
       @ found (status = cancelled \<and> live \<noteq> [])
           (repairable ''cancelled_with_live_runtime'' ''terminate_or_reconcile_runtime'' ''align_cancelled_runtime_state'')
       @ found (expired_claims \<noteq> []) (repairable ''runtime_claim_expired'' ''expire_runtime_claim'' ''expire_runtime_claim'')
       @ found (status \<noteq> running \<and> claims \<noteq> []) (repairable ''non_running_run_has_active_claim'' ''release_runtime_claim'' ''release_runtime_claim'')
       @ found (expired_leases \<noteq> []) (repairable ''worker_lease_expired'' ''expire_worker_lease'' ''expire_worker_lease'')
       @ found (status \<noteq> running \<and> leases \<noteq> [])
           (repairable ''non_running_run_has_active_worker_lease'' ''release_worker_lease'' ''release_worker_lease''))"

text \<open>\<open>_parse_iso_datetime\<close>.\<close>

definition parse_iso_datetime :: "orchestrator \<Rightarrow> json \<Rightarrow> time option" where
  "parse_iso_datetime f v =
     (if json_truthy v then fc_from_iso f (concat (map (\<lambda>c. if c = CHR ''Z'' then ''+00:00'' else [c]) (py_str v))) else None)"

definition authority_problems :: "orchestrator \<Rightarrow> time \<Rightarrow> run_context \<Rightarrow> problem list" where
  "authority_problems f now cx =
     (let authority = authority_payload f (last_runtime_state cx)
      in found (case dget ''active_decision'' authority of
                  JObj d \<Rightarrow> parse_iso_datetime f (dget ''released_at'' d) = None
                            \<and> (case parse_iso_datetime f (dget ''lease_expires_at'' d) of None \<Rightarrow> False | Some t \<Rightarrow> t \<le> now)
                | _ \<Rightarrow> False)
           (repairable ''scheduler_authority_lease_expired'' ''submit_scheduler_proposal_or_release_scheduler_lease'' ''release_scheduler_lease'')
       @ found (case dget ''conflicts'' authority of JList xs \<Rightarrow> xs \<noteq> [] | _ \<Rightarrow> False)
           (unrepairable ''scheduler_authority_conflict'' ''warning'' ''inspect_scheduler_authority_conflicts'')
       @ found (json_truthy (dget ''stale_plane_detected'' authority) \<and> is_dict (dget ''active_committed_lease'' authority))
           (unrepairable ''scheduler_authority_stale_control_plane'' ''warning'' ''inspect_scheduler_authority_takeover''))"

definition missing_components :: "run_context \<Rightarrow> diag_db \<Rightarrow> string list" where
  "missing_components cx db =
     (if cx_phases cx < 2 then [''phases''] else []) @ (if cx_task_cards cx = 0 then [''task_cards''] else [])
     @ (if cx_tasks cx = [] then [''runtime_tasks''] else []) @ (if cx_handoffs cx = 0 then [''handoffs''] else [])
     @ (if cx_states cx = [] then [''runtime_state_refs''] else [])
     @ map (\<lambda>t. ''task_packet:'' @ t) (filter (\<lambda>t. get_task_packet t db = None) (cx_tasks cx))"

definition durable_problems :: "orchestrator \<Rightarrow> run_context \<Rightarrow> werror + problem list" where
  "durable_problems f cx =
     (let refs = durable_refs_for_state (last_runtime_state cx)
      in rbind (durable_lineage_for_state f (last_runtime_state cx)) (\<lambda>lineage.
           Inr (case last_runtime_state cx of
                  None \<Rightarrow> [repairable ''durable_runtime_state_missing'' ''recompile_run'' ''recompile_prepared_run'']
                | Some s \<Rightarrow>
                    if refs = [] then [unrepairable ''durable_refs_missing'' ''error'' ''inspect_durable_lineage'']
                    else case lineage of
                           None \<Rightarrow> [unrepairable ''durable_lineage_missing'' ''error'' ''inspect_durable_lineage'']
                         | Some l \<Rightarrow>
                             found (ln_current_refs l \<noteq> refs_in (st_state_payload s))
                               (unrepairable ''durable_lineage_refs_mismatch'' ''error'' ''inspect_durable_lineage'')
                             @ found (ln_history l = []) (unrepairable ''durable_lineage_history_empty'' ''error'' ''inspect_durable_lineage''))))"

definition inspect_context :: "orchestrator \<Rightarrow> env \<Rightarrow> run_context \<Rightarrow> diag_db \<Rightarrow> werror + problem list" where
  "inspect_context f e cx db =
     rbind (state_list_live_for_run (ru_run_id (cx_run cx)) (dd_states db)) (\<lambda>live.
     rbind (if execution_lane_for_context cx db = ''durable_incremental'' then durable_problems f cx else Inr []) (\<lambda>durable.
       Inr (ownership_problems (clock e 0) (clock e 1) cx live @ authority_problems f (clock e 2) cx
            @ found (ru_status (cx_run cx) = prepared \<and> missing_components cx db \<noteq> [])
                (repairable ''prepared_compile_snapshot_incomplete'' ''recompile_run'' ''recompile_prepared_run'')
            @ durable)))"

text \<open>The problems of \<open>inspect_run_state\<close>.\<close>

definition inspect_run_state :: "orchestrator \<Rightarrow> env \<Rightarrow> string \<Rightarrow> diag_db \<Rightarrow> werror + problem list" where
  "inspect_run_state f e rid db = rbind (load_run_context rid db) (\<lambda>cx. inspect_context f e cx db)"

end
