(* ===== verification/Run_Repair.thy ===== *)
theory Run_Repair
  imports Run_Diagnostics
begin

section \<open>Ending, reviewing and repairing a run\<close>

text \<open>
  \<open>RepairServiceMixin\<close> of \<^verbatim>\<open>packages/core_domain/service_repair.py\<close>, and \<open>cancel_run\<close> and \<open>_finalize_human_review\<close> of
  \<^verbatim>\<open>service_lifecycle.py\<close>. Each \<open>_apply_*\<close> method is a transaction; \<open>apply_run_repair\<close> is the sequence of an
  inspection, a transaction, the snapshot and another inspection, so that an exception of a later part leaves the
  repair in the store. The snapshot and its event, which outside of a transaction are two commits, are one here.
  Compiling a run again, the pilot of durable runs, the export of a trace and the record of a
  simulation belong to other components and are functions of the record \<open>hooks\<close>.
\<close>

subsection \<open>Hints\<close>

definition recoverability_hint_for :: "run_status \<Rightarrow> problem list \<Rightarrow> string" where
  "recoverability_hint_for status problems =
     (case problems of
        p # _ \<Rightarrow> pb_next_action p
      | [] \<Rightarrow>
          if status = pending then ''compile_run'' else if status = prepared then ''resume_run''
          else if status = awaiting_review then ''approve_or_reject_review''
          else if status = failed then ''inspect_evidence_then_recompile''
          else if status = cancelled then ''create_new_run'' else ''none'')"

definition available_repair_actions :: "problem list \<Rightarrow> string list" where
  "available_repair_actions problems = List.map_filter (\<lambda>p. if pb_repairable p then pb_repair_action p else None) problems"

record taxonomy =
  tx_category :: string
  tx_primary_reason :: string
  tx_is_failure :: bool
  tx_is_terminal :: bool
  tx_problem_codes :: "string list"

text \<open>The arguments are the status, the failure and waiting reasons and the next action of the status detail.\<close>

definition failure_taxonomy_for :: "run_status \<Rightarrow> string option \<Rightarrow> string option \<Rightarrow> string option \<Rightarrow> problem list \<Rightarrow> taxonomy" where
  "failure_taxonomy_for status failure waiting next_action problems =
     (let codes = map pb_problem problems;
          (category, reason, is_failure) =
            (case codes of
               c # _ \<Rightarrow> (''inconsistent_state'', c, True)
             | [] \<Rightarrow>
                 if status = completed then (''success'', ''completed'', False)
                 else if status = failed
                 then (if failure \<in> {Some ''human_review_rejected'', Some ''auto_review_failed''} then ''review_failure'' else ''runtime_failure'',
                       str_or failure ''run_failed'', True)
                 else if status = cancelled then (''operator_cancelled'', ''cancelled_by_operator'', True)
                 else if status = awaiting_review then (''review_pending'', str_or waiting ''awaiting_human_review'', False)
                 else (''pending_work'', str_or waiting (str_or next_action ''awaiting_progress''), False))
      in \<lparr>tx_category = category, tx_primary_reason = reason, tx_is_failure = is_failure, tx_is_terminal = terminal_run_status status,
          tx_problem_codes = codes\<rparr>)"

definition supported_repair_actions :: "string list" where
  "supported_repair_actions =
     [''align_cancelled_runtime_state'', ''align_completed_runtime_state'', ''close_current_runtime_attempt_terminal'',
      ''create_repair_runtime_attempt'', ''expire_runtime_claim'', ''interrupt_current_runtime_attempt'', ''expire_worker_lease'',
      ''recompile_prepared_run'', ''release_runtime_claim'', ''release_scheduler_lease'', ''release_worker_lease'']"

definition select_repair_problem :: "string \<Rightarrow> problem list \<Rightarrow> string option \<Rightarrow> werror + problem" where
  "select_repair_problem rid problems action =
     (let available = available_repair_actions problems
      in if (case action of None \<Rightarrow> False | Some a \<Rightarrow> a \<notin> set supported_repair_actions)
         then Inl (UnsupportedRepairActionError (case action of None \<Rightarrow> [] | Some a \<Rightarrow> a) supported_repair_actions)
         else
           case available of
             [] \<Rightarrow> Inl (RepairActionNotAvailableError rid action available)
           | first # _ \<Rightarrow>
               let selected = (case action of Some a \<Rightarrow> a | None \<Rightarrow> first)
               in case sql_first (\<lambda>p. pb_repairable p \<and> pb_repair_action p = Some selected) problems of
                    None \<Rightarrow> Inl (RepairActionNotAvailableError rid (Some selected) available)
                  | Some p \<Rightarrow> Inr p)"

fun terminal_graph_step :: "run_status \<Rightarrow> werror + graph_step" where
  "terminal_graph_step completed = Inr gs_completed"
| "terminal_graph_step failed = Inr gs_failed"
| "terminal_graph_step cancelled = Inr gs_cancelled"
| "terminal_graph_step s = Inl (KeyError (run_status_name s))"

fun terminal_task_status :: "run_status \<Rightarrow> werror + task_status" where
  "terminal_task_status completed = Inr tk_completed"
| "terminal_task_status failed = Inr tk_failed"
| "terminal_task_status cancelled = Inr tk_cancelled"
| "terminal_task_status s = Inl (KeyError (run_status_name s))"

fun terminal_attempt_status :: "run_status \<Rightarrow> werror + attempt_status" where
  "terminal_attempt_status completed = Inr as_completed"
| "terminal_attempt_status failed = Inr as_failed"
| "terminal_attempt_status cancelled = Inr as_cancelled"
| "terminal_attempt_status s = Inl (KeyError (run_status_name s))"

subsection \<open>The repairs\<close>

definition upsert_state :: "state_ref \<Rightarrow> diag_db \<Rightarrow> werror + diag_db" where
  "upsert_state s db = rbind (state_upsert s (dd_runs db) (dd_states db)) (\<lambda>(_, rows). Inr (db\<lparr>dd_states := rows\<rparr>))"

definition on_runs :: "(run_db \<Rightarrow> werror + 'a \<times> run_db) \<Rightarrow> diag_db \<Rightarrow> werror + 'a \<times> diag_db" where
  "on_runs op db = rbind (op (dd_runs db)) (\<lambda>(x, runs). Inr (x, db\<lparr>dd_runs := runs\<rparr>))"

definition append_event :: "env \<Rightarrow> nat \<Rightarrow> string \<Rightarrow> string \<Rightarrow> string \<Rightarrow> string \<Rightarrow> string \<Rightarrow> diag_db \<Rightarrow> werror + diag_db" where
  "append_event e k rid typ obj oid summary db =
     rbind (event_append e k rid typ obj oid summary (dd_runs db)) (\<lambda>runs. Inr (db\<lparr>dd_runs := runs\<rparr>))"

definition append_repair_event :: "env \<Rightarrow> nat \<Rightarrow> string \<Rightarrow> string \<Rightarrow> diag_db \<Rightarrow> werror + diag_db" where
  "append_repair_event e k rid action db = append_event e k rid ''repair_applied'' ''run'' rid (''Repair applied: '' @ action) db"

definition not_available :: "string \<Rightarrow> string \<Rightarrow> werror" where
  "not_available rid action = RepairActionNotAvailableError rid (Some action) [action]"

text \<open>\<open>{**payload, **entries}\<close> in a terminal state; a new row is stamped when it is built.\<close>

definition ended_state :: "env \<Rightarrow> graph_step \<Rightarrow> jdict \<Rightarrow> state_ref \<Rightarrow> state_ref" where
  "ended_state e g entries s =
     s\<lparr>st_graph_step := g, st_state_payload := dict_merge (st_state_payload s) entries, st_is_terminal := True, st_updated_at := clock e 0\<rparr>"

fun align_states :: "env \<Rightarrow> graph_step \<Rightarrow> task_status \<Rightarrow> jdict \<Rightarrow> state_ref list \<Rightarrow> diag_db \<Rightarrow> werror + diag_db" where
  "align_states e g status entries [] db = Inr db"
| "align_states e g status entries (s # ss) db =
     rbind (upsert_state (ended_state e g entries s) db) (\<lambda>db1.
       align_states (env_from 1 e) g status entries ss (update_runtime_task_status (st_runtime_task_id s) status db1))"

definition apply_align_terminal_runtime_state ::
  "env \<Rightarrow> run_row \<Rightarrow> string \<Rightarrow> string \<Rightarrow> diag_db \<Rightarrow> werror + string list \<times> diag_db" where
  "apply_align_terminal_runtime_state e run action problem db =
     rbind (state_list_live_for_run (ru_run_id run) (dd_states db)) (\<lambda>live.
     rbind (rguard (live \<noteq> []) (not_available (ru_run_id run) action)) (\<lambda>_.
     rbind (terminal_graph_step (ru_status run)) (\<lambda>g.
     rbind (terminal_task_status (ru_status run)) (\<lambda>status.
     rbind (align_states e g status [(''repaired_action'', JStr action), (''repaired_problem'', JStr problem)] live db) (\<lambda>db1.
     rbind (append_repair_event (env_from (length live) e) 0 (ru_run_id run) action db1) (\<lambda>db2.
       Inr (map st_runtime_task_id live, db2)))))))"

definition apply_claim_release_repair ::
  "env \<Rightarrow> string \<Rightarrow> string \<Rightarrow> claim_status \<Rightarrow> string \<Rightarrow> diag_db \<Rightarrow> werror + string list \<times> diag_db" where
  "apply_claim_release_repair e rid action status reason db =
     rbind (claim_list_active_for_run rid (dd_runs db)) (\<lambda>claims.
     rbind (rguard (claims \<noteq> []) (not_available rid action)) (\<lambda>_.
     rbind (on_runs (release_claims_loop e status reason claims) db) (\<lambda>(_, db1).
     rbind (append_repair_event (env_from (2 * length claims) e) 0 rid action db1) (\<lambda>db2.
       Inr (map rc_runtime_task_id claims, db2)))))"

definition apply_worker_lease_release_repair ::
  "env \<Rightarrow> string \<Rightarrow> string \<Rightarrow> worker_lease_status \<Rightarrow> string \<Rightarrow> diag_db \<Rightarrow> werror + string list \<times> diag_db" where
  "apply_worker_lease_release_repair e rid action status reason db =
     rbind (worker_lease_list_active_for_run rid (dd_runs db)) (\<lambda>leases.
     rbind (rguard (leases \<noteq> []) (not_available rid action)) (\<lambda>_.
     rbind (on_runs (release_leases_loop e status reason leases) db) (\<lambda>(_, db1).
     rbind (append_repair_event (env_from (2 * length leases) e) 0 rid action db1) (\<lambda>db2.
       Inr (map wl_runtime_task_id leases, db2)))))"

text \<open>A release reads the clock at most eight times.\<close>

fun release_recorded_leases ::
  "orchestrator \<Rightarrow> env \<Rightarrow> string \<Rightarrow> state_ref list \<Rightarrow> diag_db \<Rightarrow> werror + string list \<times> diag_db" where
  "release_recorded_leases f e reason [] db = Inr ([], db)"
| "release_recorded_leases f e reason (s # ss) db =
     (case scheduler_lease_id_from_state (Some s) of
        None \<Rightarrow> release_recorded_leases f e reason ss db
      | Some lid \<Rightarrow>
          rbind (release_scheduler_lease_for_state f e s (Some lid) reason (dd_sched db)) (\<lambda>(s', sched).
          rbind (upsert_state s' (db\<lparr>dd_sched := sched\<rparr>)) (\<lambda>db1.
          rbind (release_recorded_leases f (env_from 8 e) reason ss db1) (\<lambda>(tasks, db2).
            Inr (st_runtime_task_id s # tasks, db2)))))"

definition apply_scheduler_lease_release_repair ::
  "orchestrator \<Rightarrow> env \<Rightarrow> string \<Rightarrow> string \<Rightarrow> string \<Rightarrow> diag_db \<Rightarrow> werror + string list \<times> diag_db" where
  "apply_scheduler_lease_release_repair f e rid action problem db =
     rbind (load_run_context rid db) (\<lambda>cx.
     rbind (release_recorded_leases f e (''reconciled_'' @ problem) (cx_states cx) db) (\<lambda>(tasks, db1).
     rbind (rguard (tasks \<noteq> []) (not_available rid action)) (\<lambda>_.
     rbind (append_repair_event (env_from (8 * length (cx_states cx)) e) 0 rid action db1) (\<lambda>db2. Inr (tasks, db2)))))"

definition close_current :: "env \<Rightarrow> string \<Rightarrow> string \<Rightarrow> attempt_status \<Rightarrow> string \<Rightarrow> runtime_attempt \<Rightarrow> diag_db \<Rightarrow> werror + string list \<times> diag_db" where
  "close_current e rid action status reason a db =
     rbind (on_runs (close_runtime_attempt e a status reason) db) (\<lambda>(_, db1).
     rbind (append_repair_event (env_from 2 e) 0 rid action db1) (\<lambda>db2. Inr ([ra_runtime_task_id a], db2)))"

definition apply_close_current_attempt_terminal :: "env \<Rightarrow> run_row \<Rightarrow> string \<Rightarrow> diag_db \<Rightarrow> werror + string list \<times> diag_db" where
  "apply_close_current_attempt_terminal e run action db =
     rbind (attempt_current_for_run (ru_run_id run) (dd_runs db)) (\<lambda>current.
       case current of
         None \<Rightarrow> Inl (not_available (ru_run_id run) action)
       | Some a \<Rightarrow>
           rbind (terminal_attempt_status (ru_status run)) (\<lambda>status.
             close_current e (ru_run_id run) action status (''reconciled_terminal_run_'' @ run_status_name (ru_status run)) a db))"

definition apply_interrupt_current_attempt :: "env \<Rightarrow> string \<Rightarrow> string \<Rightarrow> string \<Rightarrow> diag_db \<Rightarrow> werror + string list \<times> diag_db" where
  "apply_interrupt_current_attempt e rid action problem db =
     rbind (attempt_current_for_run rid (dd_runs db)) (\<lambda>current.
       case current of
         None \<Rightarrow> Inl (not_available rid action)
       | Some a \<Rightarrow> close_current e rid action as_interrupted (''reconciled_'' @ problem) a db)"

text \<open>The method ends without a \<open>return\<close>: its caller gets \<open>None\<close>.\<close>

definition apply_create_repair_attempt :: "env \<Rightarrow> string \<Rightarrow> string \<Rightarrow> diag_db \<Rightarrow> werror + diag_db" where
  "apply_create_repair_attempt e rid action db =
     rbind (load_run_context rid db) (\<lambda>cx.
       case cx_tasks cx of
         [] \<Rightarrow> Inl (not_available rid action)
       | task # _ \<Rightarrow>
           rbind (rguard (current_attempt cx = None) (not_available rid action)) (\<lambda>_.
           rbind (on_runs (ensure_current_runtime_attempt e rid task at_repair ''repair_recreated_current_attempt'' False) db) (\<lambda>(_, db1).
             append_repair_event (env_from 5 e) 0 rid action db1)))"

subsection \<open>Applying a repair\<close>

record hooks =
  hk_recompile :: "string \<Rightarrow> (diag_db, string) call" \<comment> \<open>\<open>recompile_run(ignore_budget=True)\<close>: the new runtime task\<close>
  hk_review_decision :: "jdict \<Rightarrow> string \<Rightarrow> werror + jdict" \<comment> \<open>\<open>durable_runtime_pilot.review_decision\<close>\<close>
  hk_export_trace :: "string \<Rightarrow> string \<Rightarrow> string option"
  hk_record_simulation :: "string \<Rightarrow> (diag_db, unit) call"

definition some_tasks :: "(diag_db \<Rightarrow> werror + string list \<times> diag_db) \<Rightarrow> diag_db \<Rightarrow> werror + string list option \<times> diag_db" where
  "some_tasks t db = rbind (t db) (\<lambda>(tasks, db'). Inr (Some tasks, db'))"

definition repair_recompile :: "hooks \<Rightarrow> env \<Rightarrow> string \<Rightarrow> string \<Rightarrow> (diag_db, string list option) call" where
  "repair_recompile h e rid action =
     ebind (hk_recompile h rid) (\<lambda>task.
     ebind (transaction (\<lambda>db. rbind (append_repair_event e 0 rid action db) (\<lambda>db'. Inr ((), db')))) (\<lambda>_. eret (Some [task])))"

definition dispatch_repair ::
  "orchestrator \<Rightarrow> hooks \<Rightarrow> env \<Rightarrow> run_row \<Rightarrow> string \<Rightarrow> string \<Rightarrow> (diag_db, string list option) call" where
  "dispatch_repair f h e run action problem =
     (let rid = ru_run_id run
      in if action \<in> {''align_completed_runtime_state'', ''align_cancelled_runtime_state''}
         then transaction (some_tasks (apply_align_terminal_runtime_state e run action problem))
         else if action = ''close_current_runtime_attempt_terminal''
         then transaction (some_tasks (apply_close_current_attempt_terminal e run action))
         else if action = ''create_repair_runtime_attempt''
         then transaction (\<lambda>db. rbind (apply_create_repair_attempt e rid action db) (\<lambda>db'. Inr (None, db')))
         else if action = ''recompile_prepared_run'' then repair_recompile h e rid action
         else if action = ''interrupt_current_runtime_attempt''
         then transaction (some_tasks (apply_interrupt_current_attempt e rid action problem))
         else if action = ''release_runtime_claim''
         then transaction (some_tasks (apply_claim_release_repair e rid action cs_released ''reconciled_non_running_active_claim''))
         else if action = ''expire_runtime_claim''
         then transaction (some_tasks (apply_claim_release_repair e rid action cs_expired ''reconciled_expired_claim''))
         else if action = ''release_worker_lease''
         then transaction (some_tasks (apply_worker_lease_release_repair e rid action ws_released ''reconciled_non_running_active_worker_lease''))
         else if action = ''expire_worker_lease''
         then transaction (some_tasks (apply_worker_lease_release_repair e rid action ws_expired ''reconciled_expired_worker_lease''))
         else if action = ''release_scheduler_lease''
         then transaction (some_tasks (apply_scheduler_lease_release_repair f e rid action problem))
         else (\<lambda>db. (db, Inl (UnsupportedRepairActionError action supported_repair_actions))))"

record repair_report =
  rp_run :: run_row
  rp_action :: string
  rp_problem :: string
  rp_repaired :: "string list option"
  rp_before :: "problem list"
  rp_after :: "problem list"

definition reading :: "('s \<Rightarrow> werror + 'a) \<Rightarrow> ('s, 'a) call" where
  "reading q s = (s, q s)"

text \<open>An environment for each of the four parts.\<close>

definition apply_run_repair ::
  "orchestrator \<Rightarrow> hooks \<Rightarrow> env \<times> env \<times> env \<times> env \<Rightarrow> string \<Rightarrow> string option \<Rightarrow> (diag_db, repair_report) call" where
  "apply_run_repair f h es rid action =
     (let (e1, e2, e3, e4) = es
      in ebind (reading (get_run rid)) (\<lambda>run.
         ebind (reading (inspect_run_state f e1 rid)) (\<lambda>reported.
         ebind (reading (\<lambda>_. select_repair_problem rid reported action)) (\<lambda>p.
         ebind (dispatch_repair f h e2 run (str_or (pb_repair_action p) []) (pb_problem p)) (\<lambda>tasks.
         ebind (transaction (capture_run_snapshot f e3 0 rid ss_repaired (''Repair snapshot captured: '' @ str_or (pb_repair_action p) [])
                  None [(''repair_action'', JStr (str_or (pb_repair_action p) [])), (''problem'', JStr (pb_problem p))])) (\<lambda>_.
         ebind (reading (inspect_run_state f e4 rid)) (\<lambda>remaining.
         ebind (reading (get_run rid)) (\<lambda>updated.
           eret \<lparr>rp_run = updated, rp_action = str_or (pb_repair_action p) [], rp_problem = pb_problem p, rp_repaired = tasks,
                 rp_before = reported, rp_after = remaining\<rparr>))))))))"

subsection \<open>Cancelling a run\<close>

fun cancel_states :: "orchestrator \<Rightarrow> env \<Rightarrow> state_ref list \<Rightarrow> diag_db \<Rightarrow> werror + diag_db" where
  "cancel_states f e [] db = Inr db"
| "cancel_states f e (s # ss) db =
     rbind (state_ref_with_durable_transition f (ended_state e gs_cancelled [(''reason'', JStr ''cancelled_by_operator'')] s)
              ''cancelled'' None [(''reason'', JStr ''cancelled_by_operator'')]) (\<lambda>s'.
     rbind (upsert_state s' db) (\<lambda>db1. cancel_states f (env_from 1 e) ss db1))"

definition close_attempt_of :: "env \<Rightarrow> string \<Rightarrow> attempt_status \<Rightarrow> string \<Rightarrow> diag_db \<Rightarrow> werror + diag_db" where
  "close_attempt_of e rid status reason db =
     rbind (attempt_current_for_run rid (dd_runs db)) (\<lambda>current.
       case current of
         None \<Rightarrow> Inr db
       | Some a \<Rightarrow> rbind (on_runs (close_runtime_attempt e a status reason) db) (\<lambda>(_, db1). Inr db1))"

text \<open>The transaction of \<open>cancel_run\<close>; each part has an environment of its own.\<close>

definition cancel_transaction :: "orchestrator \<Rightarrow> (nat \<Rightarrow> env) \<Rightarrow> run_row \<Rightarrow> diag_db \<Rightarrow> werror + run_row \<times> diag_db" where
  "cancel_transaction f es run db =
     (let rid = ru_run_id run
      in rbind (state_list_for_run rid (dd_states db)) (\<lambda>states.
         rbind (cancel_states f (es 0) states db) (\<lambda>db1.
         rbind (close_attempt_of (es 1) rid as_cancelled ''run_cancelled'' db1) (\<lambda>db2.
         rbind (on_runs (release_active_claims_for_run (es 2) rid cs_released ''run_cancelled'') db2) (\<lambda>(_, db3).
         rbind (on_runs (release_active_worker_leases_for_run (es 3) rid ws_released ''run_cancelled'') db3) (\<lambda>(_, db4).
         rbind (on_runs (transition_run_status (es 4) run ''cancel'' cancelled) db4) (\<lambda>(updated, db5).
         rbind (append_event (es 5) 0 rid ''run_cancelled'' ''run'' rid ''Run cancelled'' db5) (\<lambda>db6.
         rbind (capture_run_snapshot f (es 5) 1 rid ss_cancelled ''Cancelled snapshot captured'' None [] db6) (\<lambda>(_, db7).
           Inr (updated, db7))))))))))"

definition cancel_run :: "orchestrator \<Rightarrow> hooks \<Rightarrow> (nat \<Rightarrow> env) \<Rightarrow> string \<Rightarrow> (diag_db, run_row) call" where
  "cancel_run f h es rid =
     ebind (reading (get_run rid)) (\<lambda>run.
       if ru_status run = cancelled then eret run
       else
         ebind (reading (\<lambda>_. require_status run ''cancel'' [pending, prepared, awaiting_review])) (\<lambda>_.
         ebind (transaction (cancel_transaction f es run)) (\<lambda>updated.
         ebind (hk_record_simulation h rid) (\<lambda>_. eret updated))))"

subsection \<open>Human review\<close>

definition review_decision_name :: "review_decision \<Rightarrow> string" where
  "review_decision_name d = (case d of rd_pass \<Rightarrow> ''pass'' | rd_fail \<Rightarrow> ''fail'')"

definition review_step :: "review_decision \<Rightarrow> graph_step" where
  "review_step d = (case d of rd_pass \<Rightarrow> gs_completed | rd_fail \<Rightarrow> gs_failed)"

text \<open>The terminal state of the reviewed task.\<close>

definition reviewed_state ::
  "orchestrator \<Rightarrow> hooks \<Rightarrow> env \<Rightarrow> review_decision \<Rightarrow> string \<Rightarrow> state_ref \<Rightarrow> werror + state_ref" where
  "reviewed_state f h e d verdict s =
     (let refs = durable_refs_for_state (Some s)
      in rbind (if refs = [] then Inr [] else hk_review_decision h refs (review_decision_name d)) (\<lambda>updated.
         let ended = ended_state e (review_step d) ((''human_review_decision'', JStr (review_decision_name d)) # updated) s
         in rbind (case hk_export_trace h (st_run_id s) ''human_review_finalize'' of
                     None \<Rightarrow> Inr ended
                   | Some trace \<Rightarrow> state_with_payload_updates ended [(''external_trace_id'', JStr trace)]) (\<lambda>traced.
            state_ref_with_durable_transition f traced ''human_review_terminal''
              (if updated \<noteq> [] then Some updated else if refs \<noteq> [] then Some refs else None)
              [(''review_decision'', JStr (review_decision_name d)), (''verdict_id'', JStr verdict), (''reviewer_type'', JStr ''human'')])))"

definition review_state_of ::
  "orchestrator \<Rightarrow> hooks \<Rightarrow> env \<Rightarrow> env \<Rightarrow> review_decision \<Rightarrow> string \<Rightarrow> string \<Rightarrow> diag_db \<Rightarrow> werror + diag_db" where
  "review_state_of f h e1 e2 d verdict task db =
     rbind (state_get_by_task task (dd_states db)) (\<lambda>found.
       case found of
         None \<Rightarrow> Inr db
       | Some s \<Rightarrow>
           rbind (release_scheduler_lease_for_state f e1 s (scheduler_lease_id_from_state (Some s)) ''human_review_terminal'' (dd_sched db)) (\<lambda>(s1, sched).
           rbind (reviewed_state f h e2 d verdict s1) (\<lambda>s2. upsert_state s2 (db\<lparr>dd_sched := sched\<rparr>))))"

definition human_verdict :: "env \<Rightarrow> run_row \<Rightarrow> evidence_row \<Rightarrow> review_decision \<Rightarrow> string \<Rightarrow> verdict_row" where
  "human_verdict e run ev d rationale =
     \<lparr>rv_verdict_id = new_id ''verdict'' (hex12 e 0), rv_run_id = ru_run_id run, rv_evidence_id = ev_evidence_id ev, rv_decision = d,
      rv_rationale = rationale, rv_human = True, rv_reviewed_at = clock e 1\<rparr>"

definition review_transaction ::
  "orchestrator \<Rightarrow> hooks \<Rightarrow> (nat \<Rightarrow> env) \<Rightarrow> run_row \<Rightarrow> string \<Rightarrow> evidence_row \<Rightarrow> review_decision \<Rightarrow> string \<Rightarrow> diag_db
   \<Rightarrow> werror + (run_row \<times> verdict_row) \<times> diag_db" where
  "review_transaction f h es run task ev d rationale db =
     (let rid = ru_run_id run; v = human_verdict (es 0) run ev d rationale;
          target = (case d of rd_pass \<Rightarrow> completed | rd_fail \<Rightarrow> failed)
      in rbind (verdict_create v db) (\<lambda>db1.
         rbind (append_event (es 0) 2 rid ''review_submitted'' ''review_verdict'' (rv_verdict_id v)
                  (''Review verdict: '' @ review_decision_name d) db1) (\<lambda>db2.
         rbind (review_state_of f h (es 1) (es 2) d (rv_verdict_id v) task db2) (\<lambda>db3.
         rbind (close_attempt_of (es 3) rid (if d = rd_pass then as_completed else as_failed)
                  (if d = rd_pass then ''human_review_approved'' else ''human_review_rejected'') db3) (\<lambda>db4.
         rbind (on_runs (release_active_worker_leases_for_run (es 4) rid ws_released ''run_terminal'') db4) (\<lambda>(_, db5).
         rbind (on_runs (transition_run_status (es 5) run ''human_review'' target) db5) (\<lambda>(updated, db6).
         rbind (append_event (es 6) 0 rid (if d = rd_pass then ''run_completed'' else ''run_failed'') ''run'' rid
                  (if d = rd_pass then ''Run completed'' else ''Run failed review'') db6) (\<lambda>db7.
         rbind (capture_run_snapshot f (es 6) 1 rid (if d = rd_pass then ss_completed else ss_failed)
                  ''Human review terminal snapshot captured'' (Some task) [(''decision'', JStr (review_decision_name d))] db7) (\<lambda>(_, db8).
           Inr ((updated, v), db8))))))))))"

definition finalize_human_review ::
  "orchestrator \<Rightarrow> hooks \<Rightarrow> (nat \<Rightarrow> env) \<Rightarrow> string \<Rightarrow> review_decision \<Rightarrow> string \<Rightarrow> (diag_db, run_row \<times> evidence_row \<times> verdict_row) call" where
  "finalize_human_review f h es rid d rationale =
     ebind (reading (get_run rid)) (\<lambda>run.
     ebind (reading (\<lambda>_. require_status run ''human_review'' [awaiting_review])) (\<lambda>_.
     ebind (reading (\<lambda>db. case list_runtime_tasks_for_run rid db of
                            [] \<Rightarrow> Inl (EntityNotFoundError ''runtime_task'' rid)
                          | t # _ \<Rightarrow> Inr t)) (\<lambda>task.
     ebind (reading (\<lambda>db. case evidence_get_by_task task db of
                            None \<Rightarrow> Inl (EntityNotFoundError ''evidence'' task)
                          | Some v \<Rightarrow> Inr v)) (\<lambda>ev.
     ebind (transaction (review_transaction f h es run task ev d rationale)) (\<lambda>(updated, v).
     ebind (hk_record_simulation h rid) (\<lambda>_. eret (updated, ev, v)))))))"

definition approve_run_review :: "orchestrator \<Rightarrow> hooks \<Rightarrow> (nat \<Rightarrow> env) \<Rightarrow> string \<Rightarrow> string \<Rightarrow> (diag_db, run_row \<times> evidence_row \<times> verdict_row) call" where
  "approve_run_review f h es rid rationale = finalize_human_review f h es rid rd_pass rationale"

definition reject_run_review :: "orchestrator \<Rightarrow> hooks \<Rightarrow> (nat \<Rightarrow> env) \<Rightarrow> string \<Rightarrow> string \<Rightarrow> (diag_db, run_row \<times> evidence_row \<times> verdict_row) call" where
  "reject_run_review f h es rid rationale = finalize_human_review f h es rid rd_fail rationale"

end
