(* ===== verification/Run_Effects.thy ===== *)
theory Run_Effects
  imports Run_Laws
begin

section \<open>Effects of the ownership operations\<close>

text \<open>
  What each ownership operation does to the tables of a store that satisfies \<open>own_ok\<close>, and the
  operations run in any order by any callers (\<open>own_run\<close>) with the invariant they keep.
\<close>

subsection \<open>Effects of the operations\<close>

lemma acquire_claimD:
  assumes ok: "claims_ok (rd_claims db)"
    and "acquire_runtime_claim e rid task owner okind oid dkind dkey attempt db = Inr (c, db')"
  shows "claims_ok (rd_claims db')" and "rd_claims db' = rd_claims db @ [c]" and "rd_worker_leases db' = rd_worker_leases db"
    and "rd_attempts db' = rd_attempts db" and "rd_runs db' = rd_runs db" and "rd_budgets db' = rd_budgets db"
    and "rc_runtime_task_id c = task" and "rc_run_id c = rid" and "rc_status c = cs_active"
    and "rc_domain_key c = Some (str_or dkey task)" and "rc_lease_expires_at c = clock e 0 + seconds claim_lease_seconds"
    and "\<forall>q\<in>set (rd_claims db). rc_runtime_task_id q = task \<longrightarrow> rc_status q \<noteq> cs_active"
proof -
  obtain db1 where none: "claim_get_active_for_task task db = Inr None" and cr: "claim_create c db = Inr db1"
    and ev: "event_append e 2 rid ''claim_acquired'' ''runtime_claim'' (rc_claim_id c) ''Runtime claim acquired'' db1 = Inr db'"
    and c: "c = \<lparr>rc_claim_id = new_id ''claim'' (hex12 e 0), rc_run_id = rid, rc_runtime_task_id = task,
                     rc_owner = owner, rc_owner_kind = okind, rc_owner_id = oid, rc_domain_kind = dkind,
                     rc_domain_key = Some (str_or dkey task),
                     rc_attempt_id = attempt, rc_status = cs_active,
                     rc_lease_expires_at = clock e 0 + seconds claim_lease_seconds,
                     rc_released_at = None, rc_release_reason = None, rc_created_at = clock e 1\<rparr>"
    using assms(2)
    by (auto simp: acquire_runtime_claim_def rbind_eq_Inr ownership_domain_for_def validate_runtime_claim_def Let_def
        split: option.splits)
  have v: "validate_runtime_claim c = Inr c" by (simp add: c validate_runtime_claim_def)
  note k = claim_create_ok [OF ok v cr] and f = event_append_frame [OF ev]
  show "claims_ok (rd_claims db')" "rd_claims db' = rd_claims db @ [c]" "rd_worker_leases db' = rd_worker_leases db"
    "rd_attempts db' = rd_attempts db" "rd_runs db' = rd_runs db" "rd_budgets db' = rd_budgets db"
    using k f by auto
  show "rc_runtime_task_id c = task" "rc_run_id c = rid" "rc_status c = cs_active"
    "rc_domain_key c = Some (str_or dkey task)" "rc_lease_expires_at c = clock e 0 + seconds claim_lease_seconds"
    by (simp_all add: c)
  show "\<forall>q\<in>set (rd_claims db). rc_runtime_task_id q = task \<longrightarrow> rc_status q \<noteq> cs_active"
    using none by (auto simp: claim_reads(1) [OF ok])
qed

lemma release_claimD:
  assumes ok: "claims_ok (rd_claims db)" and "release_runtime_claim e c status reason db = Inr (r, db')"
  shows "claims_ok (rd_claims db')"
    and "rd_claims db' = sql_update (\<lambda>q. rc_claim_id q = rc_claim_id c) (set_claim_status status (clock e 0) reason) (rd_claims db)"
    and "rd_worker_leases db' = rd_worker_leases db" and "rd_attempts db' = rd_attempts db"
    and "rd_runs db' = rd_runs db" and "rd_budgets db' = rd_budgets db"
proof -
  obtain db1 where rel: "claim_release (rc_claim_id c) (clock e 0) reason status db = Inr (Some r, db1)"
    and ev: "event_append e 1 (rc_run_id c) ''claim_released'' ''runtime_claim'' (rc_claim_id c)
               (''Runtime claim '' @ claim_status_name status) db1 = Inr db'"
    using assms(2) by (auto simp: release_runtime_claim_def rbind_eq_Inr split: option.splits)
  note k = claim_release_ok [OF ok rel] and f = event_append_frame [OF ev]
  show "claims_ok (rd_claims db')" "rd_claims db' = sql_update (\<lambda>q. rc_claim_id q = rc_claim_id c) (set_claim_status status (clock e 0) reason) (rd_claims db)"
    "rd_worker_leases db' = rd_worker_leases db" "rd_attempts db' = rd_attempts db" "rd_runs db' = rd_runs db" "rd_budgets db' = rd_budgets db"
    using k f by auto
qed

lemma release_claims_loopD:
  assumes "release_claims_loop e status reason cs db = Inr (rs, db')" and "claims_ok (rd_claims db)"
  shows "claims_ok (rd_claims db') \<and> rd_worker_leases db' = rd_worker_leases db \<and> rd_attempts db' = rd_attempts db
     \<and> rd_runs db' = rd_runs db \<and> rd_budgets db' = rd_budgets db
     \<and> map rc_claim_id (rd_claims db') = map rc_claim_id (rd_claims db)
     \<and> (\<forall>q\<in>set (rd_claims db'). rc_claim_id q \<in> rc_claim_id ` set cs \<longrightarrow> rc_status q = status)
     \<and> (\<forall>q\<in>set (rd_claims db'). rc_claim_id q \<notin> rc_claim_id ` set cs \<longrightarrow> q \<in> set (rd_claims db))
     \<and> (\<forall>q\<in>set (rd_claims db'). \<exists>s\<in>set (rd_claims db). rc_claim_id s = rc_claim_id q \<and> rc_run_id s = rc_run_id q
           \<and> rc_runtime_task_id s = rc_runtime_task_id q)"
  using assms
proof (induction cs arbitrary: e db rs)
  case (Cons c cs)
  then obtain r db1 rs' where one: "release_runtime_claim e c status reason db = Inr (r, db1)"
    and rest: "release_claims_loop (env_from 2 e) status reason cs db1 = Inr (rs', db')"
    by (auto simp: rbind_eq_Inr)
  note d = release_claimD [OF Cons.prems(2) one] and ih = Cons.IH [OF rest d(1)]
  have keys: "map rc_claim_id (rd_claims db1) = map rc_claim_id (rd_claims db)"
    by (simp add: d(2) set_claim_status_def sql_update_map)
  have old: "\<exists>s\<in>set (rd_claims db). rc_claim_id s = rc_claim_id q \<and> rc_run_id s = rc_run_id q
           \<and> rc_runtime_task_id s = rc_runtime_task_id q
           \<and> (if rc_claim_id q = rc_claim_id c then rc_status q = status else q = s)" if m: "q \<in> set (rd_claims db1)" for q
  proof -
    obtain s where "s \<in> set (rd_claims db)"
      "q = (if rc_claim_id s = rc_claim_id c then set_claim_status status (clock e 0) reason s else s)"
      using m unfolding d(2) sql_update_mem by blast
    then show ?thesis
      by (intro bexI [of _ s]) (auto simp: set_claim_status_def)
  qed
  have st: "rc_status q = status" if q: "q \<in> set (rd_claims db')" "rc_claim_id q \<in> rc_claim_id ` set (c # cs)" for q
  proof (cases "rc_claim_id q \<in> rc_claim_id ` set cs")
    case True
    then show ?thesis using ih q(1) by blast
  next
    case False
    then have m: "q \<in> set (rd_claims db1)" using ih q(1) by blast
    have "rc_claim_id q = rc_claim_id c" using False q(2) by simp
    then show ?thesis using old [OF m] by auto
  qed
  have fr: "q \<in> set (rd_claims db)" if q: "q \<in> set (rd_claims db')" "rc_claim_id q \<notin> rc_claim_id ` set (c # cs)" for q
  proof -
    have n: "rc_claim_id q \<notin> rc_claim_id ` set cs" "rc_claim_id q \<noteq> rc_claim_id c" using q(2) by auto
    then have "q \<in> set (rd_claims db1)" using ih q(1) by blast
    then obtain s where "s \<in> set (rd_claims db)" "if rc_claim_id q = rc_claim_id c then rc_status q = status else q = s"
      using old by blast
    then show ?thesis using n(2) by simp
  qed
  have src: "\<exists>s\<in>set (rd_claims db). rc_claim_id s = rc_claim_id q \<and> rc_run_id s = rc_run_id q
           \<and> rc_runtime_task_id s = rc_runtime_task_id q" if m: "q \<in> set (rd_claims db')" for q
  proof -
    obtain t where t: "t \<in> set (rd_claims db1)" "rc_claim_id t = rc_claim_id q" "rc_run_id t = rc_run_id q"
      "rc_runtime_task_id t = rc_runtime_task_id q"
      using ih m by blast
    obtain s where "s \<in> set (rd_claims db)" "rc_claim_id s = rc_claim_id t" "rc_run_id s = rc_run_id t"
      "rc_runtime_task_id s = rc_runtime_task_id t"
      using old [OF t(1)] by blast
    then show ?thesis using t by (intro bexI [of _ s]) simp_all
  qed
  have "claims_ok (rd_claims db')" "rd_worker_leases db' = rd_worker_leases db" "rd_attempts db' = rd_attempts db"
    "rd_runs db' = rd_runs db" "rd_budgets db' = rd_budgets db" "map rc_claim_id (rd_claims db') = map rc_claim_id (rd_claims db)"
    using ih d(3-6) keys by simp_all
  then show ?case using st fr src by blast
qed auto

lemma acquire_leaseD:
  assumes ok: "leases_ok (rd_worker_leases db)"
    and "acquire_worker_lease e rid task ad wn wk wi dk key claim attempt db = Inr (l, db')"
  shows "leases_ok (rd_worker_leases db')" and "rd_claims db' = rd_claims db" and "rd_attempts db' = rd_attempts db"
proof -
  obtain db1 where v: "validate_worker_lease l = Inr l" and cr: "worker_lease_create l db = Inr db1"
    and ev: "event_append e 3 rid ''worker_lease_acquired'' ''worker_lease'' (wl_lease_id l) ''Worker lease acquired'' db1 = Inr db'"
    using assms(2) by (auto simp: acquire_worker_lease_def rbind_eq_Inr intro: validate_lease_idem)
  show "leases_ok (rd_worker_leases db')" "rd_claims db' = rd_claims db" "rd_attempts db' = rd_attempts db"
    using worker_lease_create_ok [OF ok v cr] event_append_frame [OF ev] by auto
qed

lemma worker_lease_updateD:
  assumes ok: "leases_ok (rd_worker_leases db)"
  shows "worker_lease_release lid at reason status db = Inr (r, db') \<Longrightarrow>
           leases_ok (rd_worker_leases db') \<and> rd_claims db' = rd_claims db \<and> rd_attempts db' = rd_attempts db"
    and "worker_lease_touch lid hb ex db = Inr (r, db') \<Longrightarrow>
           leases_ok (rd_worker_leases db') \<and> rd_claims db' = rd_claims db \<and> rd_attempts db' = rd_attempts db"
proof -
  let ?rows = "sql_update (\<lambda>l. wl_lease_id l = lid \<and> True) (set_lease_status status at reason) (rd_worker_leases db)"
  assume "worker_lease_release lid at reason status db = Inr (r, db')"
  then have db': "db' = db\<lparr>rd_worker_leases := ?rows\<rparr>" and g: "worker_lease_get lid (db\<lparr>rd_worker_leases := ?rows\<rparr>) = Inr r"
    by (auto simp: worker_lease_release_def Let_def rbind_eq_Inr)
  have "leases_ok ?rows"
    by (rule lease_update_ok [OF ok _ _ refl g]) (simp_all add: set_lease_status_def)
  then show "leases_ok (rd_worker_leases db') \<and> rd_claims db' = rd_claims db \<and> rd_attempts db' = rd_attempts db"
    by (simp add: db')
next
  let ?rows = "sql_update (\<lambda>l. wl_lease_id l = lid \<and> wl_status l = ws_active)
     (\<lambda>l. l\<lparr>wl_heartbeat_at := hb, wl_lease_expires_at := ex\<rparr>) (rd_worker_leases db)"
  assume "worker_lease_touch lid hb ex db = Inr (r, db')"
  then have db': "db' = db\<lparr>rd_worker_leases := ?rows\<rparr>" and g: "worker_lease_get lid (db\<lparr>rd_worker_leases := ?rows\<rparr>) = Inr r"
    by (auto simp: worker_lease_touch_def Let_def rbind_eq_Inr)
  have "leases_ok ?rows"
    by (rule lease_update_ok [OF ok _ _ refl g]) simp_all
  then show "leases_ok (rd_worker_leases db') \<and> rd_claims db' = rd_claims db \<and> rd_attempts db' = rd_attempts db"
    by (simp add: db')
qed

lemma release_worker_leaseD:
  assumes ok: "leases_ok (rd_worker_leases db)" and "release_worker_lease e l status reason db = Inr (r, db')"
  shows "leases_ok (rd_worker_leases db') \<and> rd_claims db' = rd_claims db \<and> rd_attempts db' = rd_attempts db"
proof -
  obtain db1 where rel: "worker_lease_release (wl_lease_id l) (clock e 0) reason status db = Inr (Some r, db1)"
    and ev: "event_append e 1 (wl_run_id l) ''worker_lease_released'' ''worker_lease'' (wl_lease_id l)
               (''Worker lease '' @ worker_lease_status_name status) db1 = Inr db'"
    using assms(2) by (auto simp: release_worker_lease_def rbind_eq_Inr split: option.splits)
  show ?thesis using worker_lease_updateD(1) [OF ok rel] event_append_frame [OF ev] by simp
qed

lemma release_leases_loopD:
  "release_leases_loop e status reason ls db = Inr (rs, db') \<Longrightarrow> leases_ok (rd_worker_leases db) \<Longrightarrow>
     leases_ok (rd_worker_leases db') \<and> rd_claims db' = rd_claims db \<and> rd_attempts db' = rd_attempts db"
proof (induction ls arbitrary: e db rs)
  case (Cons l ls)
  then obtain r db1 rs' where one: "release_worker_lease e l status reason db = Inr (r, db1)"
    and rest: "release_leases_loop (env_from 2 e) status reason ls db1 = Inr (rs', db')"
    by (auto simp: rbind_eq_Inr)
  show ?case using release_worker_leaseD [OF Cons.prems(2) one] Cons.IH [OF rest] by simp
qed simp

lemma store_attemptD:
  assumes "store_attempt e k a db = Inr db'" and "attempts_ok (rd_attempts db)" and "validate_runtime_attempt a = Inr a"
    and "ra_status a = as_current" and "ra_sequence_no a = next_sequence_for_run (ra_run_id a) db"
  shows "attempts_ok (rd_attempts db')" and "rd_attempts db' = rd_attempts db @ [a]" and "rd_claims db' = rd_claims db"
    and "rd_worker_leases db' = rd_worker_leases db"
proof -
  obtain db1 where cr: "attempt_create a db = Inr db1"
    and ev: "event_append e k (ra_run_id a) ''runtime_attempt_created'' ''runtime_attempt'' (ra_attempt_id a)
         ''Runtime attempt created'' db1 = Inr db'"
    using assms(1) by (auto simp: store_attempt_def rbind_eq_Inr)
  show "attempts_ok (rd_attempts db')" "rd_attempts db' = rd_attempts db @ [a]" "rd_claims db' = rd_claims db"
    "rd_worker_leases db' = rd_worker_leases db"
    using attempt_create_ok [OF assms(2-5) cr] event_append_frame [OF ev] by simp_all
qed

lemma new_attemptD:
  assumes "new_attempt e rid task trigger db = Inr a"
  shows "validate_runtime_attempt a = Inr a" and "ra_status a = as_current" and "ra_run_id a = rid"
    and "ra_runtime_task_id a = task" and "ra_sequence_no a = next_sequence_for_run rid db"
    and "ra_attempt_id a = new_id ''attempt'' (hex12 e 0)" and "ra_trigger a = trigger"
proof -
  have "a = \<lparr>ra_attempt_id = new_id ''attempt'' (hex12 e 0), ra_run_id = rid, ra_runtime_task_id = task,
        ra_sequence_no = next_sequence_for_run rid db, ra_trigger = trigger, ra_status = as_current,
        ra_superseded_by_attempt_id = None, ra_superseded_at = None, ra_supersede_reason = None,
        ra_closed_at = None, ra_close_reason = None, ra_created_at = clock e 0\<rparr>"
    using assms validate_attempt_self by (auto simp: new_attempt_def)
  then show "validate_runtime_attempt a = Inr a" "ra_status a = as_current" "ra_run_id a = rid"
    "ra_runtime_task_id a = task" "ra_sequence_no a = next_sequence_for_run rid db"
    "ra_attempt_id a = new_id ''attempt'' (hex12 e 0)" "ra_trigger a = trigger"
    using assms by (simp_all add: new_attempt_def)
qed

lemma supersede_attemptD:
  assumes ok: "attempts_ok (rd_attempts db)" and "supersede_runtime_attempt e k a by reason db = Inr (r, db')"
  shows "attempts_ok (rd_attempts db')" and "rd_claims db' = rd_claims db" and "rd_worker_leases db' = rd_worker_leases db"
    and "rd_attempts db' = sql_update (\<lambda>q. ra_attempt_id q = ra_attempt_id a) (set_superseded by (clock e k) reason) (rd_attempts db)"
    and "next_sequence_for_run rid db' = next_sequence_for_run rid db"
proof -
  obtain db1 where up: "attempt_supersede (ra_attempt_id a) by (clock e k) reason db = Inr (Some r, db1)"
    and ev: "event_append e (k + 1) (ra_run_id a) ''runtime_attempt_superseded'' ''runtime_attempt'' (ra_attempt_id a)
                    ''Runtime attempt superseded'' db1 = Inr db'"
    using assms(2) by (auto simp: supersede_runtime_attempt_def rbind_eq_Inr split: option.splits)
  note u = attempt_supersede_ok [OF ok up] and f = event_append_frame [OF ev]
  show ok': "attempts_ok (rd_attempts db')" "rd_claims db' = rd_claims db" "rd_worker_leases db' = rd_worker_leases db"
    and eq: "rd_attempts db' = sql_update (\<lambda>q. ra_attempt_id q = ra_attempt_id a) (set_superseded by (clock e k) reason) (rd_attempts db)"
    using u f by simp_all
  have "length (run_attempts rid (rd_attempts db')) = length (run_attempts rid (rd_attempts db))"
    unfolding eq using arg_cong [OF run_attempts_update [of "set_superseded by (clock e k) reason" rid], of length]
    by (simp add: set_superseded_def)
  then show "next_sequence_for_run rid db' = next_sequence_for_run rid db"
    using next_sequence_length ok ok'(1) by (simp add: attempts_ok_def)
qed

lemma close_attemptD:
  assumes ok: "attempts_ok (rd_attempts db)" and "close_runtime_attempt e a status reason db = Inr (r, db')"
  shows "attempts_ok (rd_attempts db')" and "rd_claims db' = rd_claims db" and "rd_worker_leases db' = rd_worker_leases db"
proof -
  obtain db1 where up: "attempt_close (ra_attempt_id a) status (clock e 0) reason db = Inr (Some r, db1)"
    and ev: "event_append e 1 (ra_run_id a) ''runtime_attempt_closed'' ''runtime_attempt'' (ra_attempt_id a)
                    (''Runtime attempt '' @ attempt_status_name status) db1 = Inr db'"
    using assms(2) by (auto simp: close_runtime_attempt_def rbind_eq_Inr split: option.splits)
  show "attempts_ok (rd_attempts db')" "rd_claims db' = rd_claims db" "rd_worker_leases db' = rd_worker_leases db"
    using attempt_close_ok [OF ok up] event_append_frame [OF ev] by simp_all
qed

lemma advance_attemptD:
  assumes ok: "attempts_ok (rd_attempts db)"
    and adv: "advance_runtime_attempt e rid task trigger reason current db = Inr (a, db')"
  shows "attempts_ok (rd_attempts db')" and "rd_claims db' = rd_claims db" and "rd_worker_leases db' = rd_worker_leases db"
    and "a \<in> set (rd_attempts db')" and "ra_status a = as_current" and "ra_run_id a = rid" and "ra_runtime_task_id a = task"
    and "ra_sequence_no a = next_sequence_for_run rid db" and "ra_attempt_id a = new_id ''attempt'' (hex12 e 0)"
    and "\<exists>at. rd_attempts db' = (case current of None \<Rightarrow> rd_attempts db
           | Some c \<Rightarrow> sql_update (\<lambda>q. ra_attempt_id q = ra_attempt_id c) (set_superseded (ra_attempt_id a) at reason) (rd_attempts db)) @ [a]"
proof -
  obtain db1 where n: "new_attempt e rid task trigger db = Inr a"
    and sup: "(case current of None \<Rightarrow> Inr db
          | Some c \<Rightarrow> rbind (supersede_runtime_attempt e 1 c (ra_attempt_id a) reason db) (\<lambda>(_, db1). Inr db1)) = Inr db1"
    and sto: "store_attempt e 3 a db1 = Inr db'"
    using adv by (auto simp: advance_runtime_attempt_def rbind_eq_Inr)
  note nd = new_attemptD [OF n]
  have mid: "attempts_ok (rd_attempts db1) \<and> rd_claims db1 = rd_claims db \<and> rd_worker_leases db1 = rd_worker_leases db
        \<and> next_sequence_for_run rid db1 = next_sequence_for_run rid db
        \<and> (\<exists>at. rd_attempts db1 = (case current of None \<Rightarrow> rd_attempts db
           | Some c \<Rightarrow> sql_update (\<lambda>q. ra_attempt_id q = ra_attempt_id c) (set_superseded (ra_attempt_id a) at reason) (rd_attempts db)))"
  proof (cases current)
    case None
    then show ?thesis using sup ok by simp
  next
    case (Some c)
    then obtain x where up: "supersede_runtime_attempt e 1 c (ra_attempt_id a) reason db = Inr (x, db1)"
      using sup by (auto simp: rbind_eq_Inr)
    show ?thesis
      using supersede_attemptD(1-3,5) [OF ok up] supersede_attemptD(4) [OF ok up] Some by auto
  qed
  have seq: "ra_sequence_no a = next_sequence_for_run (ra_run_id a) db1" using nd mid by simp
  note st = store_attemptD [OF sto _ nd(1,2) seq]
  show "attempts_ok (rd_attempts db')" "rd_claims db' = rd_claims db" "rd_worker_leases db' = rd_worker_leases db"
    "a \<in> set (rd_attempts db')" "ra_status a = as_current" "ra_run_id a = rid" "ra_runtime_task_id a = task"
    "ra_sequence_no a = next_sequence_for_run rid db" "ra_attempt_id a = new_id ''attempt'' (hex12 e 0)"
    using st mid nd by auto
  show "\<exists>at. rd_attempts db' = (case current of None \<Rightarrow> rd_attempts db
           | Some c \<Rightarrow> sql_update (\<lambda>q. ra_attempt_id q = ra_attempt_id c) (set_superseded (ra_attempt_id a) at reason) (rd_attempts db)) @ [a]"
    using st(2) mid by auto
qed

text \<open>The attempt returned is the run's current one, for the task asked for.\<close>

lemma ensure_attemptD:
  assumes ok: "attempts_ok (rd_attempts db)"
    and en: "ensure_current_runtime_attempt e rid task trigger reason force db = Inr (a, db')"
  obtains (kept) "db' = db" and "\<not> force" and "a \<in> set (rd_attempts db)" and "ra_status a = as_current"
      and "ra_run_id a = rid" and "ra_runtime_task_id a = task"
    | (made) current where "advance_runtime_attempt e rid task trigger reason current db = Inr (a, db')"
      and "attempt_current_for_run rid db = Inr current"
proof -
  obtain current where rd: "attempt_current_for_run rid db = Inr current"
    using en by (auto simp: ensure_current_runtime_attempt_def rbind_eq_Inr)
  have curD: "c \<in> set (rd_attempts db) \<and> ra_run_id c = rid \<and> ra_status c = as_current" if "current = Some c" for c
    using rd that by (auto simp: attempt_reads [OF ok] dest: top_by_mem)
  show thesis
  proof (cases "\<not> force \<and> current \<noteq> None \<and> ra_runtime_task_id (the current) = task")
    case True
    then obtain c where "current = Some c" by blast
    then show thesis using en True kept curD by (auto simp: ensure_current_runtime_attempt_def rd)
  next
    case False
    have "advance_runtime_attempt e rid task trigger reason current db = Inr (a, db')"
      using en by (simp only: ensure_current_runtime_attempt_def rd rbind_simps if_not_P [OF False])
    then show thesis using made rd by blast
  qed
qed

subsection \<open>Any callers, any order\<close>

datatype own_event =
    OwAcquire env string string string actor_kind string domain_kind "string option" "string option"
  | OwRelease env runtime_claim claim_status string
  | OwReleaseRun env string claim_status string
  | OwLease env string string string string actor_kind string domain_kind "string option" "string option" "string option"
  | OwUnlease env worker_lease worker_lease_status string
  | OwUnleaseRun env string worker_lease_status string
  | OwTouch string time time
  | OwCreateAttempt env string string attempt_trigger
  | OwEnsureAttempt env string string attempt_trigger string bool
  | OwSupersede env runtime_attempt string string
  | OwClose env runtime_attempt attempt_status string
  | OwBudget env string string int int int
  | OwTransition env run_row string run_status

fun own_step :: "own_event \<Rightarrow> run_db \<Rightarrow> werror + run_db" where
  "own_step (OwAcquire e r t ow ok oi dk key a) db = rbind (acquire_runtime_claim e r t ow ok oi dk key a db) (\<lambda>(_, db'). Inr db')"
| "own_step (OwRelease e c st reason) db = rbind (release_runtime_claim e c st reason db) (\<lambda>(_, db'). Inr db')"
| "own_step (OwReleaseRun e r st reason) db = rbind (release_active_claims_for_run e r st reason db) (\<lambda>(_, db'). Inr db')"
| "own_step (OwLease e r t ad wn wk wi dk key c a) db = rbind (acquire_worker_lease e r t ad wn wk wi dk key c a db) (\<lambda>(_, db'). Inr db')"
| "own_step (OwUnlease e l st reason) db = rbind (release_worker_lease e l st reason db) (\<lambda>(_, db'). Inr db')"
| "own_step (OwUnleaseRun e r st reason) db = rbind (release_active_worker_leases_for_run e r st reason db) (\<lambda>(_, db'). Inr db')"
| "own_step (OwTouch l hb ex) db = rbind (worker_lease_touch l hb ex db) (\<lambda>(_, db'). Inr db')"
| "own_step (OwCreateAttempt e r t tr) db = rbind (create_runtime_attempt e r t tr db) (\<lambda>(_, db'). Inr db')"
| "own_step (OwEnsureAttempt e r t tr reason force) db = rbind (ensure_current_runtime_attempt e r t tr reason force db) (\<lambda>(_, db'). Inr db')"
| "own_step (OwSupersede e a by reason) db = rbind (supersede_runtime_attempt e 0 a by reason db) (\<lambda>(_, db'). Inr db')"
| "own_step (OwClose e a st reason) db = rbind (close_runtime_attempt e a st reason db) (\<lambda>(_, db'). Inr db')"
| "own_step (OwBudget e r p mr ts cc) db = rbind (ensure_budget_ledger e r p mr ts cc db) (\<lambda>(_, db'). Inr db')"
| "own_step (OwTransition e r action target) db = rbind (transition_run_status e r action target db) (\<lambda>(_, db'). Inr db')"

definition own_run :: "own_event list \<Rightarrow> run_db \<Rightarrow> run_db" where
  "own_run = run_events own_step"

text \<open>The store before any ownership operation: runs and tasks exist, nothing is owned.\<close>

definition unowned_db :: "run_row list \<Rightarrow> string list \<Rightarrow> run_db" where
  "unowned_db runs tasks =
     \<lparr>rd_runs = runs, rd_tasks = tasks, rd_claims = [], rd_worker_leases = [], rd_attempts = [], rd_budgets = [], rd_events = []\<rparr>"

lemma own_ok_unowned [simp]: "own_ok (unowned_db runs tasks)"
  by (simp add: own_ok_def unowned_db_def claims_ok_def claims_unique_def leases_ok_def attempts_ok_def
      attempts_unique_def seqs_ok_def current_last_def run_attempts_def)

lemma budget_frame:
  "ensure_budget_ledger e r p mr ts cc db = Inr (l, db') \<Longrightarrow>
     rd_claims db' = rd_claims db \<and> rd_worker_leases db' = rd_worker_leases db \<and> rd_attempts db' = rd_attempts db"
  by (auto simp: ensure_budget_ledger_def budget_create_def rbind_eq_Inr split: option.splits)

lemma transition_frame:
  "transition_run_status e r action target db = Inr (r', db') \<Longrightarrow>
     rd_claims db' = rd_claims db \<and> rd_worker_leases db' = rd_worker_leases db \<and> rd_attempts db' = rd_attempts db"
  by (auto simp: transition_run_status_def run_update_status_def Let_def rbind_eq_Inr split: option.splits)

lemma own_step_ok:
  assumes ok: "own_ok db" and st: "own_step ev db = Inr db'"
  shows "own_ok db'"
proof -
  have c: "claims_ok (rd_claims db)" and l: "leases_ok (rd_worker_leases db)" and a: "attempts_ok (rd_attempts db)"
    using ok by (simp_all add: own_ok_def)
  show ?thesis
  proof (cases ev)
    case (OwAcquire e r t ow ok oi dk key at)
    then obtain x where "acquire_runtime_claim e r t ow ok oi dk key at db = Inr (x, db')"
      using st by (auto simp: rbind_eq_Inr)
    then show ?thesis using acquire_claimD(1,3,4) [OF c] l a by (simp add: own_ok_def)
  next
    case (OwRelease e cl s reason)
    then obtain x where "release_runtime_claim e cl s reason db = Inr (x, db')"
      using st by (auto simp: rbind_eq_Inr)
    then show ?thesis using release_claimD(1,3,4) [OF c] l a by (simp add: own_ok_def)
  next
    case (OwReleaseRun e r s reason)
    then obtain cs rs where "release_claims_loop e s reason cs db = Inr (rs, db')"
      using st by (auto simp: release_active_claims_for_run_def rbind_eq_Inr)
    then show ?thesis using release_claims_loopD [OF _ c] l a by (simp add: own_ok_def)
  next
    case (OwLease e r t ad wn wk wi dk key cl at)
    then obtain x where "acquire_worker_lease e r t ad wn wk wi dk key cl at db = Inr (x, db')"
      using st by (auto simp: rbind_eq_Inr)
    then show ?thesis using acquire_leaseD [OF l] c a by (simp add: own_ok_def)
  next
    case (OwUnlease e wl s reason)
    then obtain x where "release_worker_lease e wl s reason db = Inr (x, db')"
      using st by (auto simp: rbind_eq_Inr)
    then show ?thesis using release_worker_leaseD [OF l] c a by (simp add: own_ok_def)
  next
    case (OwUnleaseRun e r s reason)
    then obtain ls rs where "release_leases_loop e s reason ls db = Inr (rs, db')"
      using st by (auto simp: release_active_worker_leases_for_run_def rbind_eq_Inr)
    then show ?thesis using release_leases_loopD [OF _ l] c a by (simp add: own_ok_def)
  next
    case (OwTouch lid hb ex)
    then obtain x where "worker_lease_touch lid hb ex db = Inr (x, db')"
      using st by (auto simp: rbind_eq_Inr)
    then show ?thesis using worker_lease_updateD(2) [OF l] c a by (simp add: own_ok_def)
  next
    case (OwCreateAttempt e r t tr)
    then obtain x where n: "new_attempt e r t tr db = Inr x" and s: "store_attempt e 1 x db = Inr db'"
      using st by (auto simp: create_runtime_attempt_def rbind_eq_Inr)
    show ?thesis
      using store_attemptD [OF s a new_attemptD(1,2) [OF n]] new_attemptD [OF n] c l by (simp add: own_ok_def)
  next
    case (OwEnsureAttempt e r t tr reason force)
    then obtain x where "ensure_current_runtime_attempt e r t tr reason force db = Inr (x, db')"
      using st by (auto simp: rbind_eq_Inr)
    with a show ?thesis
    proof (cases rule: ensure_attemptD)
      case kept
      then show ?thesis using ok by simp
    next
      case (made current)
      then show ?thesis using advance_attemptD(1-3) [OF a made(1)] c l by (simp add: own_ok_def)
    qed
  next
    case (OwSupersede e at by' reason)
    then obtain x where "supersede_runtime_attempt e 0 at by' reason db = Inr (x, db')"
      using st by (auto simp: rbind_eq_Inr)
    then show ?thesis using supersede_attemptD [OF a] c l by (simp add: own_ok_def)
  next
    case (OwClose e at s reason)
    then obtain x where "close_runtime_attempt e at s reason db = Inr (x, db')"
      using st by (auto simp: rbind_eq_Inr)
    then show ?thesis using close_attemptD [OF a] c l by (simp add: own_ok_def)
  next
    case (OwBudget e r p mr ts cc)
    then show ?thesis using st c l a by (auto simp: rbind_eq_Inr own_ok_def dest!: budget_frame)
  next
    case (OwTransition e r action target)
    then show ?thesis using st c l a by (auto simp: rbind_eq_Inr own_ok_def dest!: transition_frame)
  qed
qed

lemma own_run_ok: "own_ok db \<Longrightarrow> own_ok (own_run evs db)"
  unfolding own_run_def by (rule run_events_invariant) (auto intro: own_step_ok)

end
