(* ===== verification/Run_Properties.thy ===== *)
theory Run_Properties
  imports Run_Effects
begin

section \<open>Properties of runs and their ownership\<close>

text \<open>
  What the ownership operations promise their callers, the status machine of a run, the budget of
  recompilations, and what a status transition decided on a stale run row does.
\<close>

subsection \<open>Exclusive ownership\<close>

lemma own_run_unowned_ok [simp]: "own_ok (own_run evs (unowned_db runs tasks))"
  by (simp add: own_run_ok)

lemma current_is_last:
  assumes ok: "attempts_ok xs"
  shows "set (filter (\<lambda>a. ra_status a = as_current) (run_attempts rid xs)) \<subseteq> {last (run_attempts rid xs)}"
proof
  let ?ys = "run_attempts rid xs" and ?n = "length (run_attempts rid xs)"
  fix a assume "a \<in> set (filter (\<lambda>a. ra_status a = as_current) ?ys)"
  then have a: "a \<in> set ?ys" "ra_status a = as_current" "a \<in> set xs" "ra_run_id a = rid"
    by (auto simp: run_attempts_def)
  have seq: "map ra_sequence_no ?ys = map int [1..<Suc ?n]"
    using ok by (simp add: attempts_ok_def seqs_ok_def)
  have nth: "ra_sequence_no (?ys ! i) = int i + 1" if "i < ?n" for i
    using arg_cong [OF seq, of "\<lambda>zs. zs ! i"] that by (simp del: upt_Suc)
  obtain i where i: "i < ?n" "a = ?ys ! i" using a(1) by (auto simp: in_set_conv_nth)
  have ne: "?ys \<noteq> []" using i by auto
  have "last ?ys \<in> set xs" "ra_run_id (last ?ys) = rid"
    using last_in_set [OF ne] by (auto simp: run_attempts_def)
  then have "ra_sequence_no (last ?ys) \<le> ra_sequence_no a"
    using ok a by (auto simp: attempts_ok_def current_last_def)
  then have "int (?n - 1) + 1 \<le> int i + 1"
    using nth [OF i(1)] nth [of "?n - 1"] i ne by (simp add: last_conv_nth)
  then have "i = ?n - 1" using i(1) by simp
  then show "a \<in> {last ?ys}" using i(2) ne by (simp add: last_conv_nth)
qed

text \<open>C12: whatever ownership operations callers issue, in whatever order and with whatever stale
  rows, a runtime task has at most one active claim, a run at most one current attempt, the attempts
  of a run are numbered 1, 2, 3, .. and the current one is the last.\<close>

theorem ownership_exclusive:
  "distinct (map rc_runtime_task_id (filter (\<lambda>c. rc_status c = cs_active) (rd_claims (own_run evs (unowned_db runs tasks)))))
   \<and> distinct (map ra_run_id (filter (\<lambda>a. ra_status a = as_current) (rd_attempts (own_run evs (unowned_db runs tasks)))))
   \<and> map ra_sequence_no (run_attempts rid (rd_attempts (own_run evs (unowned_db runs tasks))))
       = map int [1..<Suc (length (run_attempts rid (rd_attempts (own_run evs (unowned_db runs tasks)))))]
   \<and> set (filter (\<lambda>a. ra_status a = as_current) (run_attempts rid (rd_attempts (own_run evs (unowned_db runs tasks)))))
       \<subseteq> {last (run_attempts rid (rd_attempts (own_run evs (unowned_db runs tasks))))}"
  using own_run_unowned_ok [of evs runs tasks] current_is_last [of "rd_attempts (own_run evs (unowned_db runs tasks))" rid]
  by (simp add: own_ok_def claims_ok_def claims_unique_def attempts_ok_def attempts_unique_def seqs_ok_def del: upt_Suc)

subsection \<open>Claims\<close>

definition claim_ids_fresh :: "env \<Rightarrow> run_db \<Rightarrow> bool" where
  "claim_ids_fresh e db \<longleftrightarrow>
     new_id ''claim'' (hex12 e 0) \<notin> rc_claim_id ` set (rd_claims db)
     \<and> new_id ''event'' (hex12 e 2) \<notin> re_event_id ` set (rd_events db)"

text \<open>The active claim of a task is the only one, so reading it finds exactly it.\<close>

lemma active_claim_read:
  assumes ok: "claims_ok (rd_claims db)" and a: "a \<in> set (rd_claims db)" "rc_runtime_task_id a = task" "rc_status a = cs_active"
  shows "claim_get_active_for_task task db = Inr (Some a)"
proof -
  let ?rows = "sql_where (\<lambda>c. rc_runtime_task_id c = task \<and> rc_status c = cs_active) (rd_claims db)"
  have inj: "inj_on rc_runtime_task_id (set (filter (\<lambda>c. rc_status c = cs_active) (rd_claims db)))"
    using ok by (simp add: claims_ok_def claims_unique_def distinct_map)
  have "top_by (\<lambda>c. (rc_created_at c, rc_claim_id c)) ?rows = Some a"
  proof (rule top_by_unique)
    show "a \<in> set ?rows" using a by simp
  next
    fix s assume "s \<in> set ?rows"
    then show "s = a" using inj_onD [OF inj, of s a] a by simp
  qed
  then show ?thesis by (simp add: claim_reads(1) [OF ok])
qed

lemma no_active_claim_read:
  assumes ok: "claims_ok (rd_claims db)"
    and none: "\<And>a. a \<in> set (rd_claims db) \<Longrightarrow> rc_runtime_task_id a = task \<Longrightarrow> rc_status a \<noteq> cs_active"
  shows "claim_get_active_for_task task db = Inr None"
  using none by (auto simp: claim_reads(1) [OF ok])

lemma acquire_conflict:
  assumes "claims_ok (rd_claims db)" and "a \<in> set (rd_claims db)" "rc_runtime_task_id a = task" "rc_status a = cs_active"
  shows "acquire_runtime_claim e rid task owner okind oid dkind dkey attempt db
           = Inl (RuntimeClaimConflictError task (rc_claim_id a) (rc_lease_expires_at a))"
  by (simp add: acquire_runtime_claim_def active_claim_read [OF assms])

lemma acquire_free:
  assumes ok: "claims_ok (rd_claims db)"
    and none: "\<And>a. a \<in> set (rd_claims db) \<Longrightarrow> rc_runtime_task_id a = task \<Longrightarrow> rc_status a \<noteq> cs_active"
    and fresh: "claim_ids_fresh e db" and run: "known_run rid db"
  shows "\<exists>c db'. acquire_runtime_claim e rid task owner okind oid dkind dkey attempt db = Inr (c, db')"
proof -
  let ?c = "\<lparr>rc_claim_id = new_id ''claim'' (hex12 e 0), rc_run_id = rid, rc_runtime_task_id = task,
                     rc_owner = owner, rc_owner_kind = okind, rc_owner_id = oid, rc_domain_kind = dkind,
                     rc_domain_key = Some (str_or dkey task),
                     rc_attempt_id = attempt, rc_status = cs_active,
                     rc_lease_expires_at = clock e 0 + seconds claim_lease_seconds,
                     rc_released_at = None, rc_release_reason = None, rc_created_at = clock e 1\<rparr>"
  let ?db1 = "db\<lparr>rd_claims := rd_claims db @ [?c]\<rparr>"
  have v: "validate_runtime_claim ?c = Inr ?c" by (simp add: validate_runtime_claim_def)
  have "claims_unique (rd_claims db @ [?c])"
    using ok none fresh by (auto simp: claims_ok_def claims_unique_def claim_ids_fresh_def)
  then have cr: "claim_create ?c db = Inr ?db1" using run by (simp add: claim_create_def sql_insert_def)
  have "\<exists>db'. event_append e 2 rid ''claim_acquired'' ''runtime_claim'' (rc_claim_id ?c) ''Runtime claim acquired'' ?db1 = Inr db'"
    using fresh run by (simp add: event_append_def sql_insert_def claim_ids_fresh_def known_run_def)
  then show ?thesis
    by (auto simp: acquire_runtime_claim_def no_active_claim_read [OF ok none] ownership_domain_for_def v cr simp del: One_nat_def)
qed

text \<open>C13: acquiring a claim of a task is decided by its active claim alone: while one exists the request
  fails with the conflict error that names it and its expiry (an expired clock does not free it), and
  without one the request is granted, for a known run and ids that do not collide; nothing else in the
  store of claims changes.\<close>

theorem acquire_claim_decides:
  assumes db: "db = own_run evs (unowned_db runs tasks)" and run: "known_run rid db" and fresh: "claim_ids_fresh e db"
  shows "(\<exists>a\<in>set (rd_claims db). rc_runtime_task_id a = task \<and> rc_status a = cs_active
            \<and> acquire_runtime_claim e rid task owner okind oid dkind dkey attempt db
                = Inl (RuntimeClaimConflictError task (rc_claim_id a) (rc_lease_expires_at a)))
       \<or> (filter (\<lambda>a. rc_runtime_task_id a = task \<and> rc_status a = cs_active) (rd_claims db) = []
          \<and> (\<exists>c db'. acquire_runtime_claim e rid task owner okind oid dkind dkey attempt db = Inr (c, db')
               \<and> rd_claims db' = rd_claims db @ [c] \<and> rc_run_id c = rid \<and> rc_runtime_task_id c = task
               \<and> rc_status c = cs_active \<and> rc_lease_expires_at c = clock e 0 + seconds 300
               \<and> rd_attempts db' = rd_attempts db \<and> rd_worker_leases db' = rd_worker_leases db))"
proof -
  have ok: "claims_ok (rd_claims db)" using db by (metis own_ok_def own_run_unowned_ok)
  show ?thesis
  proof (cases "\<exists>a\<in>set (rd_claims db). rc_runtime_task_id a = task \<and> rc_status a = cs_active")
    case True
    then show ?thesis using acquire_conflict [OF ok] by blast
  next
    case False
    then obtain c db' where acq: "acquire_runtime_claim e rid task owner okind oid dkind dkey attempt db = Inr (c, db')"
      using acquire_free [OF ok _ fresh run] by blast
    have "filter (\<lambda>a. rc_runtime_task_id a = task \<and> rc_status a = cs_active) (rd_claims db) = []"
      using False by (simp add: filter_empty_conv)
    moreover note acq acquire_claimD(2-4,7-9,11) [OF ok acq]
    ultimately show ?thesis by (simp add: claim_lease_seconds_def)
  qed
qed

text \<open>The runs and ids of the witnesses.\<close>

definition demo_run :: run_row where
  "demo_run = \<lparr>ru_run_id = ''r'', ru_goal = ''g'', ru_preset_id = ''p'', ru_status = pending,
                ru_updated_at = 0, ru_created_at = 0\<rparr>"

definition stamp :: "time \<Rightarrow> string \<Rightarrow> env" where
  "stamp t tag = \<lparr>clock = (\<lambda>i. t), hex12 = (\<lambda>i. tag @ replicate i CHR ''x'')\<rparr>"

definition demo_owned :: "own_event list" where
  "demo_owned =
     [OwAcquire (stamp 1 ''p'') ''r'' ''t'' ''o'' ak_control_plane ''i'' dk_runtime_task None None,
      OwEnsureAttempt (stamp 2 ''q'') ''r'' ''t'' at_compile ''recompile'' False]"

definition demo_store :: run_db where
  "demo_store = own_run demo_owned (unowned_db [demo_run] [''t''])"

theorem acquire_claim_decides_witness:
  "acquire_runtime_claim (stamp 999999999 ''s'') ''r'' ''t'' ''o'' ak_control_plane ''j'' dk_runtime_task None None demo_store
     = Inl (RuntimeClaimConflictError ''t'' ''claim_p'' 300000001)"
proof -
  have run: "known_run ''r'' demo_store" and fresh: "claim_ids_fresh (stamp 999999999 ''s'') demo_store"
    and one: "map (\<lambda>c. (rc_claim_id c, rc_lease_expires_at c)) (rd_claims demo_store) = [(''claim_p'', 300000001)]"
    and held: "filter (\<lambda>a. rc_runtime_task_id a = ''t'' \<and> rc_status a = cs_active) (rd_claims demo_store) \<noteq> []"
    by code_simp+
  have nice: "rc_claim_id a = ''claim_p'' \<and> rc_lease_expires_at a = 300000001" if "a \<in> set (rd_claims demo_store)" for a
    using one that by (auto simp: map_eq_Cons_conv)
  obtain a where "a \<in> set (rd_claims demo_store)"
    "acquire_runtime_claim (stamp 999999999 ''s'') ''r'' ''t'' ''o'' ak_control_plane ''j'' dk_runtime_task None None demo_store
       = Inl (RuntimeClaimConflictError ''t'' (rc_claim_id a) (rc_lease_expires_at a))"
    using acquire_claim_decides [OF demo_store_def run fresh, of "''t''" "''o''" ak_control_plane "''j''" dk_runtime_task None None]
      held by blast
  then show ?thesis using nice [of a] by (simp only:)
qed

subsection \<open>Releasing the claims of a run\<close>

lemma released_unique:
  assumes u: "claims_unique xs" and s: "status \<noteq> cs_active"
  shows "claims_unique (sql_update (\<lambda>c. rc_claim_id c = cid) (set_claim_status status at reason) xs)"
proof -
  have "filter (\<lambda>c. rc_status c = cs_active) (sql_update (\<lambda>c. rc_claim_id c = cid) (set_claim_status status at reason) xs)
      = filter (\<lambda>c. rc_claim_id c \<noteq> cid) (filter (\<lambda>c. rc_status c = cs_active) xs)"
    using s by (induction xs) (simp_all add: sql_update_def set_claim_status_def)
  moreover have "map rc_claim_id (sql_update (\<lambda>c. rc_claim_id c = cid) (set_claim_status status at reason) xs) = map rc_claim_id xs"
    by (simp add: sql_update_map set_claim_status_def)
  ultimately show ?thesis
    using u distinct_map_filter [of rc_runtime_task_id "filter (\<lambda>c. rc_status c = cs_active) xs" "\<lambda>c. rc_claim_id c \<noteq> cid"]
    by (simp only: claims_unique_def)
qed

lemma claim_status_keeps_id: "rc_claim_id (set_claim_status status at reason c) = rc_claim_id c"
  by (simp add: set_claim_status_def)

text \<open>Releasing a stored claim with a proper status and reason fails only when an event id collides.\<close>

lemma release_claim_total:
  assumes ok: "claims_ok (rd_claims db)" and c: "rc_claim_id c \<in> rc_claim_id ` set (rd_claims db)"
    and s: "status \<noteq> cs_active" and r: "reason \<noteq> []"
  obtains (returned) x db' where "release_runtime_claim e c status reason db = Inr (x, db')"
    | (clash) "release_runtime_claim e c status reason db = Inl (IntegrityError ''run_events'')"
proof -
  let ?rows = "sql_update (\<lambda>q. rc_claim_id q = rc_claim_id c) (set_claim_status status (clock e 0) reason) (rd_claims db)"
  have u: "claims_unique ?rows" using ok s by (intro released_unique) (simp_all add: claims_ok_def)
  obtain q where q: "sql_first (\<lambda>q. rc_claim_id q = rc_claim_id c) ?rows = Some q"
  proof -
    have "rc_claim_id c \<in> rc_claim_id ` set ?rows"
      using c sql_update_keys [of rc_claim_id "set_claim_status status (clock e 0) reason"] by (simp add: set_claim_status_def)
    then have "sql_first (\<lambda>q. rc_claim_id q = rc_claim_id c) ?rows \<noteq> None" by (auto simp: image_iff)
    then show thesis using that by blast
  qed
  have qs: "q \<in> set ?rows" "rc_claim_id q = rc_claim_id c" using sql_first_Some [OF q] by auto
  then obtain p where p: "p \<in> set (rd_claims db)" "q = set_claim_status status (clock e 0) reason p"
    unfolding sql_update_mem by (metis claim_status_keeps_id)
  have "rc_domain_key p \<noteq> None" using ok p(1) validate_claim_key by (auto simp: claims_ok_def)
  then have "validate_runtime_claim q = Inr q"
    using p(2) s r by (auto simp: validate_runtime_claim_def set_claim_status_def truthy_def)
  then have "claim_release (rc_claim_id c) (clock e 0) reason status db = Inr (Some q, db\<lparr>rd_claims := ?rows\<rparr>)"
    using u q by (simp add: claim_release_def claim_get_def Let_def)
  then show thesis
    using returned clash
    by (cases "event_append e 1 (rc_run_id c) ''claim_released'' ''runtime_claim'' (rc_claim_id c)
                    (''Runtime claim '' @ claim_status_name status) (db\<lparr>rd_claims := ?rows\<rparr>)")
      (auto simp: release_runtime_claim_def event_append_def Let_def rbind_eq_Inl)
qed

lemma release_loop_total:
  assumes "claims_ok (rd_claims db)" and "rc_claim_id ` set cs \<subseteq> rc_claim_id ` set (rd_claims db)"
    and s: "status \<noteq> cs_active" and r: "reason \<noteq> []"
  shows "(\<exists>rs db'. release_claims_loop e status reason cs db = Inr (rs, db') \<and> length rs = length cs)
       \<or> release_claims_loop e status reason cs db = Inl (IntegrityError ''run_events'')"
  using assms(1,2)
proof (induction cs arbitrary: e db)
  case (Cons c cs)
  have c: "rc_claim_id c \<in> rc_claim_id ` set (rd_claims db)" using Cons.prems(2) by simp
  show ?case
  proof (rule release_claim_total [OF Cons.prems(1) c s r, of e])
    fix x db1 assume one: "release_runtime_claim e c status reason db = Inr (x, db1)"
    note d = release_claimD [OF Cons.prems(1) one]
    have "rc_claim_id ` set (rd_claims db1) = rc_claim_id ` set (rd_claims db)"
      by (simp add: d(2) sql_update_keys set_claim_status_def)
    then have "rc_claim_id ` set cs \<subseteq> rc_claim_id ` set (rd_claims db1)" using Cons.prems(2) by simp
    from Cons.IH [OF d(1) this, of "env_from 2 e"] one show ?thesis by auto
  qed simp
qed simp

lemma release_loop_effect:
  assumes ok: "claims_ok (rd_claims db)" and run: "release_claims_loop e status reason cs db = Inr (rs, db')"
    and s: "status \<noteq> cs_active"
    and cs: "\<And>c. c \<in> set cs \<longleftrightarrow> c \<in> set (rd_claims db) \<and> rc_run_id c = rid \<and> rc_status c = cs_active"
  shows "filter (\<lambda>c. rc_run_id c = rid \<and> rc_status c = cs_active) (rd_claims db') = []"
    and "{q \<in> set (rd_claims db'). rc_run_id q \<noteq> rid} = {q \<in> set (rd_claims db). rc_run_id q \<noteq> rid}"
proof -
  note D = release_claims_loopD [OF run ok]
  have gone: "rc_status q = status" if "q \<in> set (rd_claims db')" "rc_claim_id q \<in> rc_claim_id ` set cs" for q
    using D that by blast
  have kept: "q \<in> set (rd_claims db)" if "q \<in> set (rd_claims db')" "rc_claim_id q \<notin> rc_claim_id ` set cs" for q
    using D that by blast
  have inj: "inj_on rc_claim_id (set (rd_claims db))"
    using ok by (simp add: claims_ok_def claims_unique_def distinct_map)
  have other: "rc_claim_id q \<notin> rc_claim_id ` set cs" if q: "q \<in> set (rd_claims db)" "rc_run_id q \<noteq> rid" for q
  proof
    assume "rc_claim_id q \<in> rc_claim_id ` set cs"
    then obtain x where "x \<in> set (rd_claims db)" "rc_run_id x = rid" "rc_claim_id q = rc_claim_id x" using cs by blast
    then show False using inj_onD [OF inj, of q x] q by simp
  qed
  have "rc_status q \<noteq> cs_active" if q: "q \<in> set (rd_claims db')" "rc_run_id q = rid" for q
    using gone [OF q(1)] kept [OF q(1)] cs [of q] q s by (cases "rc_claim_id q \<in> rc_claim_id ` set cs") auto
  then show "filter (\<lambda>c. rc_run_id c = rid \<and> rc_status c = cs_active) (rd_claims db') = []"
    by (simp add: filter_empty_conv)
  have src: "\<exists>x\<in>set (rd_claims db). rc_claim_id x = rc_claim_id q \<and> rc_run_id x = rc_run_id q" if "q \<in> set (rd_claims db')" for q
    using D that by blast
  have "q \<in> set (rd_claims db)" if q: "q \<in> set (rd_claims db')" "rc_run_id q \<noteq> rid" for q
    using src [OF q(1)] other q by (metis kept)
  moreover have "q \<in> set (rd_claims db')" if q: "q \<in> set (rd_claims db)" "rc_run_id q \<noteq> rid" for q
  proof -
    have "rc_claim_id q \<in> set (map rc_claim_id (rd_claims db))" using q(1) by simp
    then have "rc_claim_id q \<in> set (map rc_claim_id (rd_claims db'))" using D by presburger
    then obtain p where p: "p \<in> set (rd_claims db')" "rc_claim_id p = rc_claim_id q" by auto
    then have "p \<in> set (rd_claims db)" using kept [OF p(1)] other [OF q] by simp
    then show ?thesis using inj_onD [OF inj p(2) _ q(1)] p(1) by simp
  qed
  ultimately show "{q \<in> set (rd_claims db'). rc_run_id q \<noteq> rid} = {q \<in> set (rd_claims db). rc_run_id q \<noteq> rid}" by blast
qed

text \<open>Releasing the active claims of a run of any reachable store, with a status other than
  \<open>active\<close> and a reason, leaves no active claim in the run and every claim of another run as it was;
  the only way it can fail is an event id that collides, and then nothing is written.\<close>

theorem release_run_frees_claims:
  assumes db: "db = own_run evs (unowned_db runs tasks)" and s: "status \<noteq> cs_active" and r: "reason \<noteq> []"
  shows "(\<exists>rs db'. release_active_claims_for_run e rid status reason db = Inr (rs, db')
            \<and> length rs = length (filter (\<lambda>c. rc_run_id c = rid \<and> rc_status c = cs_active) (rd_claims db))
            \<and> filter (\<lambda>c. rc_run_id c = rid \<and> rc_status c = cs_active) (rd_claims db') = []
            \<and> {q \<in> set (rd_claims db'). rc_run_id q \<noteq> rid} = {q \<in> set (rd_claims db). rc_run_id q \<noteq> rid})
       \<or> release_active_claims_for_run e rid status reason db = Inl (IntegrityError ''run_events'')"
proof -
  let ?act = "sql_where (\<lambda>c. rc_run_id c = rid \<and> rc_status c = cs_active) (rd_claims db)"
  let ?cs = "sql_order (\<lambda>c. (rc_created_at c, rc_claim_id c)) ?act"
  have ok: "claims_ok (rd_claims db)" using db by (metis own_ok_def own_run_unowned_ok)
  have red: "release_active_claims_for_run e rid status reason db = release_claims_loop e status reason ?cs db"
    by (simp add: release_active_claims_for_run_def claim_reads(2) [OF ok])
  have len: "length ?cs = length (filter (\<lambda>c. rc_run_id c = rid \<and> rc_status c = cs_active) (rd_claims db))"
    by (simp add: sql_order_def sql_where_def)
  have ids: "rc_claim_id ` set ?cs \<subseteq> rc_claim_id ` set (rd_claims db)" by auto
  show ?thesis
  proof (cases "release_claims_loop e status reason ?cs db")
    case (Inl err)
    then show ?thesis using release_loop_total [OF ok ids s r, of e] red by auto
  next
    case (Inr res)
    obtain rs db' where run: "release_claims_loop e status reason ?cs db = Inr (rs, db')"
      using Inr by (cases res) auto
    have n: "length rs = length ?cs" using release_loop_total [OF ok ids s r, of e] run by auto
    have mem: "c \<in> set ?cs \<longleftrightarrow> c \<in> set (rd_claims db) \<and> rc_run_id c = rid \<and> rc_status c = cs_active" for c by simp
    show ?thesis
      using run red n len release_loop_effect [OF ok run s mem] by (intro disjI1 exI [of _ rs] exI [of _ db']) (simp only: simp_thms)
  qed
qed

theorem release_run_frees_claims_witness:
  "\<exists>rs db'. release_active_claims_for_run (stamp 9 ''s'') ''r'' cs_released ''done'' demo_store = Inr (rs, db') \<and> length rs = 1"
proof -
  have n: "length (filter (\<lambda>c. rc_run_id c = ''r'' \<and> rc_status c = cs_active) (rd_claims demo_store)) = 1"
    and ok: "release_active_claims_for_run (stamp 9 ''s'') ''r'' cs_released ''done'' demo_store \<noteq> Inl (IntegrityError ''run_events'')"
    by code_simp+
  show ?thesis
    using release_run_frees_claims [OF demo_store_def, of cs_released "''done''" "stamp 9 ''s''" "''r''"] n ok by force
qed

subsection \<open>Attempts\<close>

definition attempt_ids_fresh :: "env \<Rightarrow> run_db \<Rightarrow> bool" where
  "attempt_ids_fresh e db \<longleftrightarrow>
     new_id ''attempt'' (hex12 e 0) \<notin> ra_attempt_id ` set (rd_attempts db)
     \<and> new_id ''event'' (hex12 e 2) \<notin> re_event_id ` set (rd_events db)
     \<and> new_id ''event'' (hex12 e 3) \<notin> re_event_id ` set (rd_events db) \<and> hex12 e 2 \<noteq> hex12 e 3"

lemma attempt_status_keeps_keys [simp]:
  "ra_attempt_id (set_superseded by at reason a) = ra_attempt_id a"
  "ra_run_id (set_superseded by at reason a) = ra_run_id a"
  "ra_runtime_task_id (set_superseded by at reason a) = ra_runtime_task_id a"
  "ra_sequence_no (set_superseded by at reason a) = ra_sequence_no a"
  "ra_status (set_superseded by at reason a) = as_superseded"
  by (simp_all add: set_superseded_def)

lemma superseded_filter:
  "filter (\<lambda>a. ra_status a = as_current) (sql_update (\<lambda>a. ra_attempt_id a = aid) (set_superseded by at reason) xs)
     = filter (\<lambda>a. ra_attempt_id a \<noteq> aid) (filter (\<lambda>a. ra_status a = as_current) xs)"
  by (induction xs) (simp_all add: sql_update_def)

lemma superseded_filter_run:
  "filter (\<lambda>a. ra_run_id a = rid \<and> ra_status a = as_current) (sql_update (\<lambda>a. ra_attempt_id a = aid) (set_superseded by at reason) xs)
     = filter (\<lambda>a. ra_attempt_id a \<noteq> aid) (filter (\<lambda>a. ra_run_id a = rid \<and> ra_status a = as_current) xs)"
  by (induction xs) (simp_all add: sql_update_def)

lemma superseded_unique:
  assumes u: "attempts_unique xs"
  shows "attempts_unique (sql_update (\<lambda>a. ra_attempt_id a = aid) (set_superseded by at reason) xs)"
  using u distinct_map_filter [of ra_run_id "filter (\<lambda>a. ra_status a = as_current) xs" "\<lambda>a. ra_attempt_id a \<noteq> aid"]
  by (simp only: attempts_unique_def superseded_filter sql_update_map attempt_status_keeps_keys)

text \<open>The current attempt of a run, when there is one, is the one read.\<close>

lemma current_attempt_read:
  assumes ok: "attempts_ok (rd_attempts db)"
  obtains (none) "attempt_current_for_run rid db = Inr None"
      "filter (\<lambda>a. ra_run_id a = rid \<and> ra_status a = as_current) (rd_attempts db) = []"
    | (one) c where "attempt_current_for_run rid db = Inr (Some c)"
      "filter (\<lambda>a. ra_run_id a = rid \<and> ra_status a = as_current) (rd_attempts db) = [c]"
proof -
  let ?rows = "filter (\<lambda>a. ra_run_id a = rid \<and> ra_status a = as_current) (rd_attempts db)"
  have "distinct (map ra_run_id (filter (\<lambda>a. ra_run_id a = rid) (filter (\<lambda>a. ra_status a = as_current) (rd_attempts db))))"
    by (rule distinct_map_filter) (use ok in \<open>simp add: attempts_ok_def attempts_unique_def\<close>)
  then have d: "distinct (map ra_run_id ?rows)" by (simp add: conj_commute)
  have "length ?rows \<le> 1"
  proof (rule at_most_one)
    show "distinct ?rows" using d by (simp add: distinct_map)
  next
    fix x y assume "x \<in> set ?rows" "y \<in> set ?rows"
    then show "x = y" using d by (auto simp: distinct_map inj_on_def)
  qed
  then consider "?rows = []" | c where "?rows = [c]" by (cases ?rows) auto
  then show thesis
    by cases (use none one attempt_reads [OF ok, of rid] in \<open>simp_all add: sql_where_def\<close>)
qed

lemma store_attempt_total:
  assumes u: "attempts_unique (rd_attempts db @ [a])" and r: "known_run (ra_run_id a) db"
    and f: "new_id ''event'' (hex12 e k) \<notin> re_event_id ` set (rd_events db)"
  shows "\<exists>db'. store_attempt e k a db = Inr db'"
  using assms by (simp add: store_attempt_def attempt_create_def sql_insert_def event_append_def Let_def known_run_def)

lemma supersede_total:
  assumes ok: "attempts_ok (rd_attempts db)" and c: "c \<in> set (rd_attempts db)" and r: "known_run (ra_run_id c) db"
    and bn: "by \<noteq> []" and reason: "reason \<noteq> []"
    and f: "new_id ''event'' (hex12 e (k + 1)) \<notin> re_event_id ` set (rd_events db)"
  shows "\<exists>x db'. supersede_runtime_attempt e k c by reason db = Inr (x, db')
     \<and> rd_runs db' = rd_runs db \<and> re_event_id ` set (rd_events db') = insert (new_id ''event'' (hex12 e (k + 1))) (re_event_id ` set (rd_events db))"
proof -
  let ?rows = "sql_update (\<lambda>q. ra_attempt_id q = ra_attempt_id c) (set_superseded by (clock e k) reason) (rd_attempts db)"
  have u: "attempts_unique ?rows" using ok by (intro superseded_unique) (simp add: attempts_ok_def)
  have "set_superseded by (clock e k) reason c \<in> set ?rows"
    using sql_update_image [OF c, of "\<lambda>q. ra_attempt_id q = ra_attempt_id c" "set_superseded by (clock e k) reason"] by simp
  from sql_first_ex [OF this, of "\<lambda>q. ra_attempt_id q = ra_attempt_id c"]
  obtain q where q: "sql_first (\<lambda>q. ra_attempt_id q = ra_attempt_id c) ?rows = Some q"
    and qs: "q \<in> set ?rows" "ra_attempt_id q = ra_attempt_id c"
    by auto
  from qs obtain p where p: "p \<in> set (rd_attempts db)" "q = set_superseded by (clock e k) reason p"
    unfolding sql_update_mem by (metis attempt_status_keeps_keys(1))
  have "ra_sequence_no p > 0" using ok p(1) validate_runtime_attemptD by (fastforce simp: attempts_ok_def)
  then have v: "validate_runtime_attempt q = Inr q"
    using p(2) bn reason by (simp add: validate_runtime_attempt_def set_superseded_def truthy_def)
  have "attempt_supersede (ra_attempt_id c) by (clock e k) reason db = Inr (Some q, db\<lparr>rd_attempts := ?rows\<rparr>)"
    using u q v by (simp add: attempt_supersede_def attempt_get_def Let_def)
  then show ?thesis using r f
    by (auto simp: supersede_runtime_attempt_def event_append_def sql_insert_def known_run_def Let_def)
qed

text \<open>Superseding the attempt read is superseding whatever attempt of the run is current.\<close>

lemma superseded_is_current:
  assumes ok: "attempts_ok (rd_attempts db)" and rd: "attempt_current_for_run rid db = Inr current"
  shows "(case current of None \<Rightarrow> rd_attempts db
           | Some c \<Rightarrow> sql_update (\<lambda>q. ra_attempt_id q = ra_attempt_id c) f (rd_attempts db))
         = sql_update (\<lambda>q. ra_run_id q = rid \<and> ra_status q = as_current) f (rd_attempts db)"
proof (cases rule: current_attempt_read [OF ok, of rid])
  case 1
  then show ?thesis using rd by (auto simp: filter_empty_conv sql_update_none)
next
  case (2 c)
  have m: "q \<in> set (rd_attempts db) \<and> ra_run_id q = rid \<and> ra_status q = as_current \<longleftrightarrow> q = c" for q
    using arg_cong [OF 2(2), of set] by auto
  have inj: "inj_on ra_attempt_id (set (rd_attempts db))"
    using ok by (simp add: attempts_ok_def attempts_unique_def distinct_map)
  have "ra_attempt_id q = ra_attempt_id c \<longleftrightarrow> ra_run_id q = rid \<and> ra_status q = as_current" if "q \<in> set (rd_attempts db)" for q
    using m [of q] m [of c] inj_onD [OF inj, of q c] that by metis
  moreover have "current = Some c" using rd 2(1) by simp
  ultimately show ?thesis by (simp add: sql_update_def)
qed

lemma advance_attempt_total:
  assumes ok: "attempts_ok (rd_attempts db)" and fresh: "attempt_ids_fresh e db" and run: "known_run rid db"
    and reason: "reason \<noteq> []" and rd: "attempt_current_for_run rid db = Inr current"
  shows "\<exists>a db'. advance_runtime_attempt e rid task trigger reason current db = Inr (a, db')"
proof -
  have seq: "next_sequence_for_run rid db > 0"
    using next_sequence_length [of db rid] ok by (simp add: attempts_ok_def)
  then obtain a where n: "new_attempt e rid task trigger db = Inr a"
    by (auto simp: new_attempt_def validate_runtime_attempt_def)
  note nd = new_attemptD [OF n]
  have uniq: "attempts_unique (xs @ [a])" if xs: "attempts_unique xs" "filter (\<lambda>q. ra_run_id q = rid \<and> ra_status q = as_current) xs = []"
      "ra_attempt_id ` set xs = ra_attempt_id ` set (rd_attempts db)"
      "\<forall>q\<in>set xs. ra_run_id q = rid \<longrightarrow> ra_sequence_no q < next_sequence_for_run rid db" for xs
  proof -
    have "ra_attempt_id a \<notin> ra_attempt_id ` set xs" using xs(3) fresh nd(6) by (simp add: attempt_ids_fresh_def)
    moreover have "(ra_run_id a, ra_sequence_no a) \<notin> (\<lambda>q. (ra_run_id q, ra_sequence_no q)) ` set xs"
      using xs(4) nd(3,5) by fastforce
    moreover have "ra_run_id a \<notin> ra_run_id ` set (filter (\<lambda>q. ra_status q = as_current) xs)"
      using xs(2) nd(3) by (auto simp: filter_empty_conv)
    ultimately show ?thesis using xs(1) nd(2) by (simp add: attempts_unique_def)
  qed
  have below: "\<forall>q\<in>set (rd_attempts db). ra_run_id q = rid \<longrightarrow> ra_sequence_no q < next_sequence_for_run rid db"
    using seqs_ok_le [of "rd_attempts db"] next_sequence_length [of db rid] ok by (fastforce simp: attempts_ok_def)
  have u0: "attempts_unique (rd_attempts db)" using ok by (simp add: attempts_ok_def)
  show ?thesis
  proof (cases rule: current_attempt_read [OF ok, of rid])
    case 1
    have "\<exists>db'. store_attempt e 3 a db = Inr db'"
      by (rule store_attempt_total) (use uniq [OF u0 1(2) refl below] nd(3) run fresh in \<open>simp_all add: attempt_ids_fresh_def\<close>)
    then show ?thesis using rd 1(1) n by (auto simp: advance_runtime_attempt_def)
  next
    case (2 c)
    then have c: "c \<in> set (rd_attempts db)" "ra_run_id c = rid" by (auto simp: filter_eq_Cons_iff)
    have f2: "new_id ''event'' (hex12 e (1 + 1)) \<notin> re_event_id ` set (rd_events db)"
      using fresh by (simp add: attempt_ids_fresh_def numeral_2_eq_2)
    obtain x db1 where sup: "supersede_runtime_attempt e 1 c (ra_attempt_id a) reason db = Inr (x, db1)"
      and runs: "rd_runs db1 = rd_runs db"
      and ev: "re_event_id ` set (rd_events db1) = insert (new_id ''event'' (hex12 e (1 + 1))) (re_event_id ` set (rd_events db))"
      using supersede_total [OF ok c(1) _ _ reason f2, of "ra_attempt_id a"] run c(2) nd(6) by (auto simp: new_id_def)
    note sd = supersede_attemptD [OF ok sup]
    have "attempts_unique (rd_attempts db1 @ [a])"
    proof (rule uniq)
      show "attempts_unique (rd_attempts db1)" using sd(1) by (simp add: attempts_ok_def)
      show "ra_attempt_id ` set (rd_attempts db1) = ra_attempt_id ` set (rd_attempts db)"
        unfolding sd(4) by (rule sql_update_keys) simp
      show "\<forall>q\<in>set (rd_attempts db1). ra_run_id q = rid \<longrightarrow> ra_sequence_no q < next_sequence_for_run rid db"
        unfolding sd(4) by (rule sql_update_all [OF _ below]) simp
      have "filter (\<lambda>q. ra_run_id q = rid \<and> ra_status q = as_current) (rd_attempts db1)
          = filter (\<lambda>q. ra_attempt_id q \<noteq> ra_attempt_id c) (filter (\<lambda>q. ra_run_id q = rid \<and> ra_status q = as_current) (rd_attempts db))"
        unfolding sd(4) by (rule superseded_filter_run)
      then show "filter (\<lambda>q. ra_run_id q = rid \<and> ra_status q = as_current) (rd_attempts db1) = []" using 2(2) by simp
    qed
    moreover have "new_id ''event'' (hex12 e 3) \<notin> re_event_id ` set (rd_events db1)"
      using fresh ev by (simp add: attempt_ids_fresh_def numeral_2_eq_2 eq_commute)
    ultimately have "\<exists>db'. store_attempt e 3 a db1 = Inr db'"
      using run runs nd(3) by (intro store_attempt_total) (simp_all add: known_run_def)
    then show ?thesis using rd 2(1) n sup by (auto simp: advance_runtime_attempt_def)
  qed
qed

lemma sole_current:
  assumes ok: "attempts_ok xs" and a: "a \<in> set xs" "ra_run_id a = rid" "ra_status a = as_current"
  shows "filter (\<lambda>q. ra_run_id q = rid \<and> ra_status q = as_current) xs = [a]"
proof -
  let ?db = "(unowned_db [] [])\<lparr>rd_attempts := xs\<rparr>"
  have ok': "attempts_ok (rd_attempts ?db)" using ok by simp
  show ?thesis
  proof (cases rule: current_attempt_read [OF ok', of rid])
    case 1
    then show ?thesis using a by (simp add: filter_empty_conv)
  next
    case (2 c)
    moreover have "a \<in> set (filter (\<lambda>q. ra_run_id q = rid \<and> ra_status q = as_current) xs)" using a by simp
    ultimately show ?thesis by simp
  qed
qed

text \<open>Asking for the current attempt of a run's task always succeeds, up to id collisions. The answer
  is the one current attempt of the run, for the task asked for; asking again, without forcing,
  returns it and writes nothing. The store changes only when the run had no current attempt for the
  task or a new one was forced: then the new attempt gets the next number and the one that was
  current is superseded, naming its successor.\<close>

theorem ensure_attempt_gives_current:
  assumes db: "db = own_run evs (unowned_db runs tasks)" and fresh: "attempt_ids_fresh e db" and run: "known_run rid db"
    and reason: "reason \<noteq> []"
  shows "\<exists>a db'. ensure_current_runtime_attempt e rid task trigger reason force db = Inr (a, db')
     \<and> filter (\<lambda>q. ra_run_id q = rid \<and> ra_status q = as_current) (rd_attempts db') = [a]
     \<and> ra_runtime_task_id a = task
     \<and> ensure_current_runtime_attempt e' rid task trigger' reason' False db' = Inr (a, db')
     \<and> (db' = db \<and> \<not> force
        \<or> ra_sequence_no a = int (length (run_attempts rid (rd_attempts db))) + 1 \<and> ra_trigger a = trigger
          \<and> (\<exists>at. rd_attempts db' = sql_update (\<lambda>q. ra_run_id q = rid \<and> ra_status q = as_current)
                      (set_superseded (ra_attempt_id a) at reason) (rd_attempts db) @ [a]))"
proof -
  have ok: "attempts_ok (rd_attempts db)" using db by (metis own_ok_def own_run_unowned_ok)
  obtain cur where rd: "attempt_current_for_run rid db = Inr cur" by (rule current_attempt_read [OF ok, of rid]) blast+
  have ret: "\<exists>a db'. ensure_current_runtime_attempt e rid task trigger reason force db = Inr (a, db')"
    using advance_attempt_total [OF ok fresh run reason rd] by (simp add: ensure_current_runtime_attempt_def rd)
  then obtain a db' where en: "ensure_current_runtime_attempt e rid task trigger reason force db = Inr (a, db')" by blast
  have again: "ensure_current_runtime_attempt e' rid task trigger' reason' False db' = Inr (a, db')"
    if "attempts_ok (rd_attempts db')" "filter (\<lambda>q. ra_run_id q = rid \<and> ra_status q = as_current) (rd_attempts db') = [a]"
      "ra_runtime_task_id a = task"
    using that by (cases rule: current_attempt_read [OF that(1), of rid]) (simp_all add: ensure_current_runtime_attempt_def)
  show ?thesis
  proof (cases rule: ensure_attemptD [OF ok en])
    case 1
    have one: "filter (\<lambda>q. ra_run_id q = rid \<and> ra_status q = as_current) (rd_attempts db') = [a]"
      using sole_current [OF ok 1(3,5,4)] 1(1) by simp
    show ?thesis using en one 1 again [OF _ one 1(6)] ok by blast
  next
    case (2 c)
    note ad = advance_attemptD [OF ok 2(1)]
    have one: "filter (\<lambda>q. ra_run_id q = rid \<and> ra_status q = as_current) (rd_attempts db') = [a]"
      using sole_current [OF ad(1,4,6,5)] .
    have seq: "ra_sequence_no a = int (length (run_attempts rid (rd_attempts db))) + 1"
      using ad(8) next_sequence_length [of db rid] ok by (simp add: attempts_ok_def)
    have trig: "ra_trigger a = trigger"
      using 2(1) new_attemptD(7) by (fastforce simp: advance_runtime_attempt_def rbind_eq_Inr)
    have "\<exists>at. rd_attempts db' = sql_update (\<lambda>q. ra_run_id q = rid \<and> ra_status q = as_current)
            (set_superseded (ra_attempt_id a) at reason) (rd_attempts db) @ [a]"
      using ad(10) superseded_is_current [OF ok 2(2)] by (simp split: option.splits)
    then show ?thesis using en one again [OF ad(1) one ad(7)] ad(7) seq trig by blast
  qed
qed

theorem ensure_attempt_gives_current_witness:
  "\<exists>a db'. ensure_current_runtime_attempt (stamp 9 ''s'') ''r'' ''t'' at_recompile ''recompile'' True demo_store = Inr (a, db')
     \<and> ra_sequence_no a = 2"
proof -
  have f: "attempt_ids_fresh (stamp 9 ''s'') demo_store" and k: "known_run ''r'' demo_store"
    and l: "length (run_attempts ''r'' (rd_attempts demo_store)) = 1"
    by code_simp+
  show ?thesis
    using ensure_attempt_gives_current [OF demo_store_def f k, of "''recompile''" "''t''" at_recompile True] l by fastforce
qed

subsection \<open>Rejected requests\<close>

lemma release_needs_end_status:
  assumes "status = cs_active \<or> reason = []"
  shows "isl (release_runtime_claim e c status reason db)"
proof -
  let ?f = "set_claim_status status (clock e 0) reason"
  let ?rows = "sql_update (\<lambda>q. rc_claim_id q = rc_claim_id c) ?f (rd_claims db)"
  have "isl (validate_runtime_claim (?f p))" for p
    using assms by (auto simp: validate_runtime_claim_def set_claim_status_def truthy_def Let_def)
  moreover have "\<exists>p. q = ?f p" if "sql_first (\<lambda>q. rc_claim_id q = rc_claim_id c) ?rows = Some q" for q
    using sql_first_Some [OF that] unfolding sql_update_mem by (metis claim_status_keeps_id)
  ultimately have bad: "isl (validate_runtime_claim q)" if "sql_first (\<lambda>q. rc_claim_id q = rc_claim_id c) ?rows = Some q" for q
    using that by metis
  show ?thesis
    using bad
    by (auto simp: release_runtime_claim_def claim_release_def claim_get_def Let_def isl_def rbind_def rguard_def roption_def
        split: sum.splits option.splits)
qed

lemma close_needs_end_status:
  assumes "status = as_current \<or> status = as_superseded \<or> reason = []"
  shows "isl (close_runtime_attempt e a status reason db)"
proof -
  let ?f = "set_closed status (clock e 0) reason"
  let ?rows = "sql_update (\<lambda>q. ra_attempt_id q = ra_attempt_id a) ?f (rd_attempts db)"
  have "isl (validate_runtime_attempt (?f p))" for p
    using assms by (auto simp: validate_runtime_attempt_def set_closed_def truthy_def rbind_def rguard_def)
  moreover have "\<exists>p. q = ?f p" if "sql_first (\<lambda>q. ra_attempt_id q = ra_attempt_id a) ?rows = Some q" for q
  proof -
    have keeps: "ra_attempt_id (?f p) = ra_attempt_id p" for p by (simp add: set_closed_def)
    show ?thesis using sql_first_Some [OF that] unfolding sql_update_mem by (metis keeps)
  qed
  ultimately have bad: "isl (validate_runtime_attempt q)" if "sql_first (\<lambda>q. ra_attempt_id q = ra_attempt_id a) ?rows = Some q" for q
    using that by metis
  show ?thesis
    using bad
    by (auto simp: close_runtime_attempt_def attempt_close_def attempt_get_def Let_def isl_def rbind_def rguard_def roption_def
        split: sum.splits option.splits)
qed

text \<open>On any store, and for any row the caller holds, a claim cannot be released into the status
  \<open>active\<close> or without a reason, and an attempt cannot be closed as current, as superseded or without
  a reason: each of these raises, so nothing is written.\<close>

theorem improper_release_raises:
  "isl (release_runtime_claim e c cs_active reason db) \<and> isl (release_runtime_claim e c status [] db)
   \<and> isl (close_runtime_attempt e a as_current reason db) \<and> isl (close_runtime_attempt e a as_superseded reason db)
   \<and> isl (close_runtime_attempt e a end_status [] db)"
  by (simp add: release_needs_end_status close_needs_end_status)

subsection \<open>The status of a run\<close>

lemma transitions_eq: "can_transition_run_status s t \<longleftrightarrow> t \<in> run_status_transitions s"
  by (simp add: can_transition_run_status_def)

lemma run_get_after_update:
  "run_get q (snd (run_update_status rid status now db))
     = map_option (\<lambda>r. if q = rid then r\<lparr>ru_status := status, ru_updated_at := now\<rparr> else r) (run_get q db)"
proof -
  have "sql_first (\<lambda>r. ru_run_id r = q) (sql_update (\<lambda>r. ru_run_id r = rid) (\<lambda>r. r\<lparr>ru_status := status, ru_updated_at := now\<rparr>) rows)
     = map_option (\<lambda>r. if q = rid then r\<lparr>ru_status := status, ru_updated_at := now\<rparr> else r) (sql_first (\<lambda>r. ru_run_id r = q) rows)" for rows
    by (induction rows) (auto simp: sql_first_def sql_update_def)
  then show ?thesis by (simp add: run_get_def run_update_status_def Let_def)
qed

text \<open>All operations but a transition leave the runs alone.\<close>

lemma event_append_runs: "event_append e k rid typ obj oid summary db = Inr db' \<Longrightarrow> rd_runs db' = rd_runs db"
  by (auto simp: event_append_def Let_def rbind_eq_Inr)

lemma release_claim_runs: "release_runtime_claim e c st reason db = Inr (r, db') \<Longrightarrow> rd_runs db' = rd_runs db"
proof -
  assume "release_runtime_claim e c st reason db = Inr (r, db')"
  then obtain db1 x k kind obj oid rid summary where "claim_release (rc_claim_id c) (clock e 0) reason st db = Inr (x, db1)" and "event_append e k rid kind obj oid summary db1 = Inr db'"
    by (auto simp: release_runtime_claim_def rbind_eq_Inr split: option.splits)
  moreover have "rd_runs db1 = rd_runs db" using calculation(1) by (auto simp: claim_release_def Let_def rbind_eq_Inr)
  ultimately show ?thesis using event_append_runs by simp
qed

lemma release_claims_runs: "release_claims_loop e st reason cs db = Inr (r, db') \<Longrightarrow> rd_runs db' = rd_runs db"
proof (induction cs arbitrary: e db r)
  case (Cons c cs)
  then obtain x db1 xs where "release_runtime_claim e c st reason db = Inr (x, db1)"
    and "release_claims_loop (env_from 2 e) st reason cs db1 = Inr (xs, db')" by (auto simp: rbind_eq_Inr)
  from release_claim_runs [OF this(1)] Cons.IH [OF this(2)] show ?case by simp
qed simp

lemma release_lease_runs: "release_worker_lease e l st reason db = Inr (r, db') \<Longrightarrow> rd_runs db' = rd_runs db"
proof -
  assume "release_worker_lease e l st reason db = Inr (r, db')"
  then obtain db1 x k kind obj oid rid summary where "worker_lease_release (wl_lease_id l) (clock e 0) reason st db = Inr (x, db1)" and "event_append e k rid kind obj oid summary db1 = Inr db'"
    by (auto simp: release_worker_lease_def rbind_eq_Inr split: option.splits)
  moreover have "rd_runs db1 = rd_runs db" using calculation(1) by (auto simp: worker_lease_release_def Let_def rbind_eq_Inr)
  ultimately show ?thesis using event_append_runs by simp
qed

lemma release_leases_runs: "release_leases_loop e st reason ls db = Inr (r, db') \<Longrightarrow> rd_runs db' = rd_runs db"
proof (induction ls arbitrary: e db r)
  case (Cons l ls)
  then obtain x db1 xs where "release_worker_lease e l st reason db = Inr (x, db1)"
    and "release_leases_loop (env_from 2 e) st reason ls db1 = Inr (xs, db')" by (auto simp: rbind_eq_Inr)
  from release_lease_runs [OF this(1)] Cons.IH [OF this(2)] show ?case by simp
qed simp

lemma store_attempt_runs: "store_attempt e k a db = Inr db' \<Longrightarrow> rd_runs db' = rd_runs db"
  by (auto simp: store_attempt_def attempt_create_def rbind_eq_Inr dest!: event_append_runs)

lemma supersede_runs: "supersede_runtime_attempt e n a by' reason db = Inr (r, db') \<Longrightarrow> rd_runs db' = rd_runs db"
proof -
  assume "supersede_runtime_attempt e n a by' reason db = Inr (r, db')"
  then obtain db1 x k kind obj oid rid summary where "attempt_supersede (ra_attempt_id a) by' (clock e n) reason db = Inr (x, db1)" and "event_append e k rid kind obj oid summary db1 = Inr db'"
    by (auto simp: supersede_runtime_attempt_def rbind_eq_Inr split: option.splits)
  moreover have "rd_runs db1 = rd_runs db" using calculation(1) by (auto simp: attempt_supersede_def Let_def rbind_eq_Inr)
  ultimately show ?thesis using event_append_runs by simp
qed

lemma close_runs: "close_runtime_attempt e a st reason db = Inr (r, db') \<Longrightarrow> rd_runs db' = rd_runs db"
proof -
  assume "close_runtime_attempt e a st reason db = Inr (r, db')"
  then obtain db1 x k kind obj oid rid summary where "attempt_close (ra_attempt_id a) st (clock e 0) reason db = Inr (x, db1)" and "event_append e k rid kind obj oid summary db1 = Inr db'"
    by (auto simp: close_runtime_attempt_def rbind_eq_Inr split: option.splits)
  moreover have "rd_runs db1 = rd_runs db" using calculation(1) by (auto simp: attempt_close_def Let_def rbind_eq_Inr)
  ultimately show ?thesis using event_append_runs by simp
qed

lemma advance_runs: "advance_runtime_attempt e rid task tr reason cur db = Inr (r, db') \<Longrightarrow> rd_runs db' = rd_runs db"
proof (cases cur)
  case None
  moreover assume "advance_runtime_attempt e rid task tr reason cur db = Inr (r, db')"
  ultimately show ?thesis by (auto simp: advance_runtime_attempt_def rbind_eq_Inr dest: store_attempt_runs)
next
  case (Some c)
  assume "advance_runtime_attempt e rid task tr reason cur db = Inr (r, db')"
  then obtain x db1 where "supersede_runtime_attempt e 1 c (ra_attempt_id r) reason db = Inr (x, db1)" and "store_attempt e 3 r db1 = Inr db'"
    using Some by (auto simp: advance_runtime_attempt_def rbind_eq_Inr)
  from supersede_runs [OF this(1)] store_attempt_runs [OF this(2)] show ?thesis by simp
qed

lemma own_step_runs:
  assumes "own_step ev db = Inr db'" and "\<And>e r action target. ev \<noteq> OwTransition e r action target"
  shows "rd_runs db' = rd_runs db"
proof (cases ev)
  case OwAcquire
  then show ?thesis
    using assms(1)
    by (auto simp: acquire_runtime_claim_def claim_create_def rbind_eq_Inr simp del: append.simps split: option.splits dest!: event_append_runs)
next
  case OwLease
  then show ?thesis
    using assms(1)
    by (auto simp: acquire_worker_lease_def worker_lease_create_def rbind_eq_Inr simp del: append.simps dest!: event_append_runs)
next
  case OwTouch
  then show ?thesis using assms(1) by (auto simp: worker_lease_touch_def Let_def rbind_eq_Inr)
next
  case OwCreateAttempt
  then show ?thesis using assms(1) by (auto simp: create_runtime_attempt_def rbind_eq_Inr dest!: store_attempt_runs)
next
  case (OwEnsureAttempt e r t tr reason force)
  then show ?thesis
    using assms(1) by (auto simp: ensure_current_runtime_attempt_def rbind_eq_Inr split: if_splits dest!: advance_runs)
next
  case (OwClose e a st reason)
  then show ?thesis
    using assms(1) by (auto simp: rbind_eq_Inr dest!: close_runs)
next
  case (OwBudget e r p mr ts cc)
  then show ?thesis
    using assms(1) by (auto simp: ensure_budget_ledger_def budget_create_def rbind_eq_Inr split: option.splits)
next
  case OwRelease
  then show ?thesis using assms(1) by (auto simp: rbind_eq_Inr dest!: release_claim_runs)
next
  case OwReleaseRun
  then show ?thesis using assms(1) by (auto simp: release_active_claims_for_run_def rbind_eq_Inr dest!: release_claims_runs)
next
  case OwUnlease
  then show ?thesis using assms(1) by (auto simp: rbind_eq_Inr dest!: release_lease_runs)
next
  case OwUnleaseRun
  then show ?thesis using assms(1) by (auto simp: release_active_worker_leases_for_run_def rbind_eq_Inr dest!: release_leases_runs)
next
  case OwSupersede
  then show ?thesis using assms(1) by (auto simp: rbind_eq_Inr dest!: supersede_runs)
next
  case OwTransition
  then show ?thesis using assms(2) by blast
qed

text \<open>The status the store has of a run, and the histories in which every caller of a transition holds the run's current status.\<close>

definition stored_status :: "string \<Rightarrow> run_db \<Rightarrow> run_status option" where
  "stored_status q db = map_option ru_status (run_get q db)"

fun current_caller :: "own_event \<Rightarrow> run_db \<Rightarrow> bool" where
  "current_caller (OwTransition e r action target) db \<longleftrightarrow> stored_status (ru_run_id r) db \<in> {None, Some (ru_status r)}"
| "current_caller _ db \<longleftrightarrow> True"

fun current_callers :: "own_event list \<Rightarrow> run_db \<Rightarrow> bool" where
  "current_callers [] db \<longleftrightarrow> True"
| "current_callers (ev # evs) db \<longleftrightarrow> current_caller ev db \<and> current_callers evs (own_run [ev] db)"

lemma own_run_Cons: "own_run (ev # evs) db = own_run evs (own_run [ev] db)"
  by (simp add: own_run_def)

lemma own_run_step: "own_run [ev] db = (case own_step ev db of Inl _ \<Rightarrow> db | Inr db' \<Rightarrow> db')"
  by (simp add: own_run_def split: sum.split)

text \<open>One event moves a run along the table or leaves it where it is.\<close>

lemma stored_status_step:
  assumes "current_caller ev db" and "stored_status q db = Some s"
  shows "\<exists>t. stored_status q (own_run [ev] db) = Some t \<and> (t = s \<or> t \<in> run_status_transitions s)"
proof (cases "own_step ev db")
  case (Inl err)
  then show ?thesis using assms(2) by (simp add: own_run_step)
next
  case (Inr db')
  show ?thesis
  proof (cases "\<exists>e r action target. ev = OwTransition e r action target")
    case False
    then have "rd_runs db' = rd_runs db" using own_step_runs [OF Inr] by blast
    then have "stored_status q db' = stored_status q db" by (simp add: stored_status_def run_get_def)
    then show ?thesis using assms(2) Inr by (simp add: own_run_step)
  next
    case True
    then obtain e r action target r' where ev: "ev = OwTransition e r action target"
      and tr: "transition_run_status e r action target db = Inr (r', db')"
      using Inr by (auto simp: rbind_eq_Inr)
    have g: "can_transition_run_status (ru_status r) target" and db': "db' = snd (run_update_status (ru_run_id r) target (clock e 0) db)"
      using tr by (auto simp: transition_run_status_def run_update_status_def Let_def rbind_eq_Inr split: option.splits)
    have after: "stored_status q db' = map_option (\<lambda>x. if q = ru_run_id r then target else ru_status x) (run_get q db)"
      unfolding stored_status_def db' run_get_after_update by (cases "run_get q db") auto
    have "s = ru_status r" if "q = ru_run_id r" using assms that by (simp add: ev)
    then have "stored_status q db' = Some s \<or> stored_status q db' = Some target \<and> target \<in> run_status_transitions s"
      using assms(2) after g by (auto simp: stored_status_def transitions_eq)
    then show ?thesis using Inr by (auto simp: own_run_step)
  qed
qed

lemma stored_status_path:
  assumes "current_callers evs db" and "stored_status q db = Some s"
  shows "\<exists>t. stored_status q (own_run evs db) = Some t \<and> run_status_step\<^sup>*\<^sup>* s t"
  using assms
proof (induction evs arbitrary: db s)
  case (Cons ev evs)
  obtain u where u: "stored_status q (own_run [ev] db) = Some u" "u = s \<or> u \<in> run_status_transitions s"
    using stored_status_step [of ev db q s] Cons.prems by auto
  obtain t where "stored_status q (own_run evs (own_run [ev] db)) = Some t" "run_status_step\<^sup>*\<^sup>* u t"
    using Cons.IH [OF _ u(1)] Cons.prems(1) by auto
  then show ?case
    using u(2) converse_rtranclp_into_rtranclp [of run_status_step s u t, unfolded run_status_step_iff [of s u] transitions_eq]
    by (auto simp: own_run_Cons [of ev evs])
qed (simp add: own_run_def)

lemma terminal_absorbing: "run_status_step\<^sup>*\<^sup>* s t \<Longrightarrow> terminal_run_status s \<Longrightarrow> t = s"
proof (induction rule: rtranclp_induct)
  case (step u v)
  then show ?case by (auto simp: run_status_step_iff transitions_eq terminal_run_status_def)
qed simp

text \<open>Whoever leaves a set of statuses that leads to \<open>completed\<close> only through \<open>via\<close> has been in \<open>via\<close>.\<close>

lemma status_visits:
  assumes "current_callers evs db" and "stored_status q db = Some s" and "s \<in> from" and "completed \<notin> from"
    and "stored_status q (own_run evs db) = Some completed"
    and out: "\<And>u v. u \<in> from \<Longrightarrow> u \<noteq> via \<Longrightarrow> v \<in> run_status_transitions u \<Longrightarrow> v \<in> from \<or> v = cancelled"
  shows "\<exists>a c. evs = a @ c \<and> stored_status q (own_run a db) = Some via \<and> current_callers c (own_run a db)"
  using assms(1-3,5)
proof (induction evs arbitrary: db s)
  case Nil
  then show ?case using assms(4) by (auto simp: own_run_def)
next
  case (Cons ev evs)
  show ?case
  proof (cases "s = via")
    case True
    then show ?thesis using Cons.prems by (intro exI [of _ "[]"] exI [of _ "ev # evs"]) (simp add: own_run_def)
  next
    case False
    obtain u where u: "stored_status q (own_run [ev] db) = Some u" "u = s \<or> u \<in> run_status_transitions s"
      using stored_status_step [of ev db q s] Cons.prems by auto
    have rest: "current_callers evs (own_run [ev] db)" "stored_status q (own_run evs (own_run [ev] db)) = Some completed"
      using Cons.prems by (simp_all add: own_run_Cons [of ev evs])
    have "u \<noteq> cancelled"
      using stored_status_path [OF rest(1) u(1)] rest(2) terminal_absorbing by (auto simp: terminal_run_status_def)
    then have "u \<in> from" using u(2) out [OF Cons.prems(3) False] Cons.prems(3) by auto
    then obtain a c where "evs = a @ c" "stored_status q (own_run a (own_run [ev] db)) = Some via"
      "current_callers c (own_run a (own_run [ev] db))"
      using Cons.IH [OF rest(1) u(1) _ rest(2)] by blast
    then show ?thesis by (intro exI [of _ "ev # a"] exI [of _ c]) (simp add: own_run_Cons [of ev a])
  qed
qed

text \<open>C16: Along any history of claims, leases, attempts, budgets and status transitions of any runs, in which each caller of a
transition holds the run's current status, the status the store has of a run moves along the transition table; a run in a
terminal status stays in it; and a run that was pending and is completed had been prepared, and running after that. The
condition on the callers is needed: \<open>transition_decided_by_callers_row\<close>.\<close>

theorem run_status_paths:
  assumes "current_callers evs db" and "stored_status q db = Some s"
  shows "\<exists>t. stored_status q (own_run evs db) = Some t \<and> run_status_step\<^sup>*\<^sup>* s t
     \<and> (terminal_run_status s \<longrightarrow> t = s)
     \<and> (s = pending \<and> t = completed \<longrightarrow>
          (\<exists>a b c. evs = a @ b @ c \<and> stored_status q (own_run a db) = Some prepared
             \<and> stored_status q (own_run (a @ b) db) = Some running))"
proof -
  obtain t where t: "stored_status q (own_run evs db) = Some t" "run_status_step\<^sup>*\<^sup>* s t"
    using stored_status_path [OF assms] by blast
  have "\<exists>a b c. evs = a @ b @ c \<and> stored_status q (own_run a db) = Some prepared
      \<and> stored_status q (own_run (a @ b) db) = Some running" if st: "s = pending" "t = completed"
  proof -
    have "\<exists>a c. evs = a @ c \<and> stored_status q (own_run a db) = Some prepared \<and> current_callers c (own_run a db)"
      by (rule status_visits [OF assms, of "{pending, prepared}"]) (use st t in auto)
    then obtain a c where a: "evs = a @ c" "stored_status q (own_run a db) = Some prepared" "current_callers c (own_run a db)"
      by blast
    have run: "own_run (a @ xs) db = own_run xs (own_run a db)" for xs by (simp add: own_run_def run_events_append)
    have "\<exists>b d. c = b @ d \<and> stored_status q (own_run b (own_run a db)) = Some running \<and> current_callers d (own_run b (own_run a db))"
      by (rule status_visits [OF a(3,2), of "{prepared, running}"]) (use st t a(1) run in auto)
    then obtain b d where "c = b @ d" "stored_status q (own_run b (own_run a db)) = Some running" by blast
    then show ?thesis using a(1,2) run by (intro exI [of _ a] exI [of _ b] exI [of _ d]) simp
  qed
  then show ?thesis using t terminal_absorbing by blast
qed

definition demo_life :: "own_event list" where
  "demo_life =
     [OwTransition (stamp 1 ''c'') demo_run ''compile'' prepared,
      OwAcquire (stamp 2 ''a'') ''r'' ''t'' ''o'' ak_worker ''o'' dk_runtime_task None None,
      OwTransition (stamp 3 ''s'') (demo_run\<lparr>ru_status := prepared\<rparr>) ''resume'' running,
      OwTransition (stamp 4 ''f'') (demo_run\<lparr>ru_status := running\<rparr>) ''auto_review_finalize'' completed]"

theorem run_status_paths_witness:
  "stored_status ''r'' demo_store = Some pending \<and> stored_status ''r'' (own_run demo_life demo_store) = Some completed
   \<and> (\<exists>a b c. demo_life = a @ b @ c \<and> stored_status ''r'' (own_run a demo_store) = Some prepared
        \<and> stored_status ''r'' (own_run (a @ b) demo_store) = Some running)"
proof -
  have st: "stored_status ''r'' demo_store = Some pending" "stored_status ''r'' (own_run demo_life demo_store) = Some completed"
    "current_callers demo_life demo_store"
    by code_simp+
  show ?thesis using run_status_paths [OF st(3,1)] st(1,2) by auto
qed

text \<open>A status transition is decided by the row its caller holds. With an allowed target it succeeds
  whatever status the store has by now, which is overwritten; other runs keep theirs. With a
  disallowed one it raises the error that names the allowed statuses. Only a caller whose row is
  current gets the transition table enforced on the store.\<close>

theorem transition_decided_by_callers_row:
  assumes stored: "run_get (ru_run_id r) db = Some now"
  shows "transition_run_status e r action target db =
     (if target \<in> run_status_transitions (ru_status r)
      then Inr (now\<lparr>ru_status := target, ru_updated_at := clock e 0\<rparr>, snd (run_update_status (ru_run_id r) target (clock e 0) db))
      else Inl (InvalidStateTransitionError action (run_status_name (ru_status r))
                  (map run_status_name (allowed_run_status_transitions (ru_status r))) (Some (run_status_name target))))
     \<and> run_get q (snd (run_update_status (ru_run_id r) target (clock e 0) db))
        = (if q = ru_run_id r then Some (now\<lparr>ru_status := target, ru_updated_at := clock e 0\<rparr>) else run_get q db)"
proof -
  have g: "run_get q (snd (run_update_status (ru_run_id r) target (clock e 0) db))
      = (if q = ru_run_id r then Some (now\<lparr>ru_status := target, ru_updated_at := clock e 0\<rparr>) else run_get q db)" for q
    using stored by (auto simp: run_get_after_update option.map_id0 [unfolded id_def])
  obtain st where u: "run_update_status (ru_run_id r) target (clock e 0) db = (st, snd (run_update_status (ru_run_id r) target (clock e 0) db))"
    by (metis surjective_pairing)
  have st: "st = run_get (ru_run_id r) (snd (run_update_status (ru_run_id r) target (clock e 0) db))"
    using u by (auto simp: run_update_status_def Let_def)
  have "transition_run_status e r action target db =
     (if target \<in> run_status_transitions (ru_status r)
      then Inr (now\<lparr>ru_status := target, ru_updated_at := clock e 0\<rparr>, snd (run_update_status (ru_run_id r) target (clock e 0) db))
      else Inl (InvalidStateTransitionError action (run_status_name (ru_status r))
                  (map run_status_name (allowed_run_status_transitions (ru_status r))) (Some (run_status_name target))))"
    using st g [of "ru_run_id r"] by (subst transition_run_status_def, subst u) (simp add: transitions_eq)
  with g show ?thesis by blast
qed

text \<open>The race: a caller that read the run as pending compiles it after another has cancelled it.\<close>

theorem transition_decided_by_callers_row_witness:
  "\<exists>db1. own_step (OwTransition (stamp 1 ''c'') demo_run ''cancel'' cancelled) demo_store = Inr db1
     \<and> map_option ru_status (run_get ''r'' db1) = Some cancelled
     \<and> (\<exists>r' db2. transition_run_status (stamp 2 ''d'') demo_run ''compile'' prepared db1 = Inr (r', db2) \<and> ru_status r' = prepared)"
proof -
  let ?db1 = "snd (run_update_status ''r'' cancelled 1 demo_store)"
  have st: "own_step (OwTransition (stamp 1 ''c'') demo_run ''cancel'' cancelled) demo_store = Inr ?db1"
    and m: "map_option ru_status (run_get ''r'' ?db1) = Some cancelled"
    by code_simp+
  then obtain now where now: "run_get (ru_run_id demo_run) ?db1 = Some now" by (auto simp: demo_run_def)
  have "ru_status demo_run = pending" by (simp add: demo_run_def)
  then show ?thesis
    using st m transition_decided_by_callers_row [OF now, of "stamp 2 ''d''" "''compile''" prepared] by auto
qed

end
