(* ===== verification/Run_Budget.thy ===== *)
theory Run_Budget
  imports Run_Repair Run_Properties
begin

section \<open>The budget of recompilations\<close>

text \<open>
  \<open>recompile_run\<close> of \<^verbatim>\<open>service_lifecycle.py\<close> up to the ledger: a recompilation is charged to the run's ledger, unless the
  task cards of a commercial production are to be kept. The ledger of a run bounds its recompilations, whatever the order
  of requests and whatever happens to its task cards in between.
\<close>

definition list_task_cards_for_run :: "string \<Rightarrow> diag_db \<Rightarrow> card_row list" where
  "list_task_cards_for_run rid db =
     sql_order (\<lambda>c. (kd_created_at c, kd_card_id c)) (sql_where (\<lambda>c. kd_run_id c = rid) (dd_task_cards db))"

text \<open>Cards that the task card agent has generated and that are active or approved are authoritative.\<close>

definition authoritative_card :: "card_row \<Rightarrow> bool" where
  "authoritative_card c \<longleftrightarrow>
     lower (kd_status c) \<in> {''active'', ''approved''} \<and> jget ''generated_by'' (kd_metadata c) = Some (JStr ''task_card_generation_agent'')"

definition guard_commercial_recompile_task_cards :: "string \<Rightarrow> string \<Rightarrow> diag_db \<Rightarrow> werror + unit" where
  "guard_commercial_recompile_task_cards rid preset db =
     (if preset \<noteq> ''commercial_game_production'' then Inr ()
      else rguard (filter authoritative_card (list_task_cards_for_run rid db) = []) WorkflowError)"

definition spend_recompile ::
  "env \<Rightarrow> bool \<Rightarrow> string \<Rightarrow> string \<Rightarrow> budget_ledger \<Rightarrow> diag_db \<Rightarrow> werror + budget_ledger \<times> diag_db" where
  "spend_recompile e ignore_budget rid preset l db =
     (let remaining = max (bl_max_retries l - bl_recompile_count l) 0
      in rbind (rguard (ignore_budget \<or> remaining > 0) (BudgetExhaustedError rid remaining (bl_max_retries l))) (\<lambda>_.
         rbind (guard_commercial_recompile_task_cards rid preset db) (\<lambda>_.
         rbind (validate_budget_ledger (l\<lparr>bl_compile_count := bl_compile_count l + 1,
              bl_recompile_count := (if ignore_budget then bl_recompile_count l else bl_recompile_count l + 1),
              bl_updated_at := clock e 0\<rparr>)) (\<lambda>l'. on_runs (budget_update l') db))))"

text \<open>\<open>recompile_run\<close> inside its transaction, up to the ledger: the run's ledger is read, or created on first use, and charged.\<close>

definition recompile_ledger ::
  "env \<Rightarrow> bool \<Rightarrow> string \<Rightarrow> string \<Rightarrow> int \<Rightarrow> int \<Rightarrow> diag_db \<Rightarrow> werror + budget_ledger \<times> diag_db" where
  "recompile_ledger e ignore_budget rid preset max_retries timeout db =
     rbind (on_runs (ensure_budget_ledger e rid preset max_retries timeout 1) db)
       (\<lambda>(l, db1). spend_recompile (env_from 2 e) ignore_budget rid preset l db1)"

text \<open>A request to recompile a run, or any change of the task cards by the rest of the program.\<close>

datatype recompile_request = RecompileRequest env bool string string int int | WriteCards "card_row list"

fun recompile_step :: "recompile_request \<Rightarrow> diag_db \<Rightarrow> werror + diag_db" where
  "recompile_step (RecompileRequest e ig rid preset mr ts) db =
     rbind (recompile_ledger e ig rid preset mr ts db) (\<lambda>(_, db'). Inr db')"
| "recompile_step (WriteCards cards) db = Inr (db\<lparr>dd_task_cards := cards\<rparr>)"

definition budgets_ok :: "run_db \<Rightarrow> bool" where
  "budgets_ok db \<longleftrightarrow> distinct (map bl_run_id (rd_budgets db))
     \<and> (\<forall>b\<in>set (rd_budgets db). 0 \<le> bl_recompile_count b \<and> bl_recompile_count b \<le> bl_max_retries b
          \<and> bl_recompile_count b < bl_compile_count b \<and> validate_budget_ledger b = Inr b)"

lemma validate_ledger_self: "validate_budget_ledger b = Inr b' \<Longrightarrow> b' = b"
  by (auto simp: validate_budget_ledger_def rbind_eq_Inr)

lemma budget_getD:
  assumes "budget_get_by_run rid db = Inr (Some l)"
  shows "l \<in> set (rd_budgets db)" and "bl_run_id l = rid"
  using assms sql_first_Some [of "\<lambda>b. bl_run_id b = rid" "rd_budgets db"]
  by (auto simp: budget_get_by_run_def roption_eq_Inr dest!: validate_ledger_self)

lemma ensure_ledger_ok:
  assumes ok: "budgets_ok db" and en: "ensure_budget_ledger e rid preset mr ts 1 db = Inr (l, db')"
  shows "budgets_ok db' \<and> l \<in> set (rd_budgets db') \<and> bl_run_id l = rid"
proof (cases "budget_get_by_run rid db")
  case (Inr stored)
  show ?thesis
  proof (cases stored)
    case (Some s)
    then show ?thesis using en ok budget_getD [of rid db s] Inr by (simp add: ensure_budget_ledger_def)
  next
    case None
    then show ?thesis using en ok Inr
      by (auto simp: ensure_budget_ledger_def rbind_eq_Inr budget_create_def budgets_ok_def validate_budget_ledger_def)
  qed
qed (use en in \<open>simp add: ensure_budget_ledger_def\<close>)

lemma same_key_row:
  "bl_ledger_id b = bl_ledger_id s \<Longrightarrow> bl_run_id b = bl_run_id s \<Longrightarrow> bl_created_at b = bl_created_at s \<Longrightarrow>
     b\<lparr>bl_ledger_id := bl_ledger_id s, bl_run_id := bl_run_id s, bl_created_at := bl_created_at s\<rparr> = b"
  by (cases b) simp

text \<open>Writing back a changed copy of a stored ledger replaces it and leaves the other ledgers alone.\<close>

lemma budget_update_row:
  assumes u: "distinct (map bl_run_id (rd_budgets db))" and l: "l \<in> set (rd_budgets db)"
    and b: "bl_ledger_id b = bl_ledger_id l" "bl_run_id b = bl_run_id l" "bl_created_at b = bl_created_at l"
    and v: "validate_budget_ledger b = Inr b"
  shows "budget_update b db = Inr (b, db\<lparr>rd_budgets := map (\<lambda>r. if bl_run_id r = bl_run_id l then b else r) (rd_budgets db)\<rparr>)"
proof -
  let ?rows = "map (\<lambda>r. if bl_run_id r = bl_run_id l then b else r) (rd_budgets db)"
  have inj: "inj_on bl_run_id (set (rd_budgets db))" using u by (simp add: distinct_map)
  have rows: "sql_update (\<lambda>r. bl_run_id r = bl_run_id b)
      (\<lambda>r. b\<lparr>bl_ledger_id := bl_ledger_id r, bl_run_id := bl_run_id r, bl_created_at := bl_created_at r\<rparr>) (rd_budgets db) = ?rows"
    unfolding sql_update_def b(2)
  proof (rule map_cong [OF refl])
    fix r assume r: "r \<in> set (rd_budgets db)"
    show "(if bl_run_id r = bl_run_id l then b\<lparr>bl_ledger_id := bl_ledger_id r, bl_run_id := bl_run_id r, bl_created_at := bl_created_at r\<rparr> else r)
        = (if bl_run_id r = bl_run_id l then b else r)"
    proof (cases "bl_run_id r = bl_run_id l")
      case True
      then have "r = l" by (rule inj_onD [OF inj _ r l])
      then show ?thesis using same_key_row [OF b] by simp
    qed simp
  qed
  have "b \<in> set ?rows" using l by force
  from sql_first_ex [OF this, of "\<lambda>q. bl_run_id q = bl_run_id l"] b(2)
  obtain q where q: "sql_first (\<lambda>q. bl_run_id q = bl_run_id l) ?rows = Some q" "q \<in> set ?rows" "bl_run_id q = bl_run_id l"
    by auto
  then have "q = b" by auto
  then have "budget_get_by_run (bl_run_id l) (db\<lparr>rd_budgets := ?rows\<rparr>) = Inr (Some b)"
    using q(1) v by (simp add: budget_get_by_run_def)
  then show ?thesis unfolding budget_update_def rows by (simp add: b(2))
qed

definition charged :: "time \<Rightarrow> bool \<Rightarrow> budget_ledger \<Rightarrow> budget_ledger" where
  "charged t ig l = l\<lparr>bl_compile_count := bl_compile_count l + 1,
      bl_recompile_count := (if ig then bl_recompile_count l else bl_recompile_count l + 1), bl_updated_at := t\<rparr>"

lemma charged_fields [simp]:
  "bl_ledger_id (charged t ig l) = bl_ledger_id l" "bl_run_id (charged t ig l) = bl_run_id l"
  "bl_created_at (charged t ig l) = bl_created_at l" "bl_max_retries (charged t ig l) = bl_max_retries l"
  "bl_compile_count (charged t ig l) = bl_compile_count l + 1"
  "bl_recompile_count (charged t ig l) = (if ig then bl_recompile_count l else bl_recompile_count l + 1)"
  by (simp_all add: charged_def)

text \<open>The cards that stand against a recompilation.\<close>

definition protected_cards :: "string \<Rightarrow> string \<Rightarrow> diag_db \<Rightarrow> card_row set" where
  "protected_cards rid preset db =
     (if preset = ''commercial_game_production'' then {c \<in> set (dd_task_cards db). kd_run_id c = rid \<and> authoritative_card c} else {})"

lemma guard_cases:
  "guard_commercial_recompile_task_cards rid preset db = (if protected_cards rid preset db = {} then Inr () else Inl WorkflowError)"
  by (auto simp: guard_commercial_recompile_task_cards_def protected_cards_def rguard_def list_task_cards_for_run_def filter_empty_conv)

text \<open>The charge is granted exactly when the budget is ignored or retries remain, and no card is protected.\<close>

lemma spend_cases:
  assumes ok: "budgets_ok (dd_runs db)" and l: "l \<in> set (rd_budgets (dd_runs db))"
  shows "spend_recompile e ig (bl_run_id l) preset l db =
     (if \<not> ig \<and> bl_max_retries l \<le> bl_recompile_count l then Inl (BudgetExhaustedError (bl_run_id l) 0 (bl_max_retries l))
      else if protected_cards (bl_run_id l) preset db \<noteq> {} then Inl WorkflowError
      else Inr (charged (clock e 0) ig l,
                db\<lparr>dd_runs := (dd_runs db)\<lparr>rd_budgets :=
                     map (\<lambda>r. if bl_run_id r = bl_run_id l then charged (clock e 0) ig l else r) (rd_budgets (dd_runs db))\<rparr>\<rparr>))"
proof -
  have b: "0 \<le> bl_recompile_count l" "bl_recompile_count l \<le> bl_max_retries l" "bl_recompile_count l < bl_compile_count l"
    "validate_budget_ledger l = Inr l"
    using ok l by (auto simp: budgets_ok_def)
  have v: "validate_budget_ledger (charged (clock e 0) ig l) = Inr (charged (clock e 0) ig l)"
    if "ig \<or> bl_recompile_count l < bl_max_retries l"
    using b that by (auto simp: validate_budget_ledger_def rbind_eq_Inr charged_def)
  have u: "distinct (map bl_run_id (rd_budgets (dd_runs db)))" using ok by (simp add: budgets_ok_def)
  note w = budget_update_row [OF u l _ _ _ v, simplified]
  show ?thesis
    using w v b(1,2) unfolding spend_recompile_def charged_def [symmetric] Let_def guard_cases by (auto simp: on_runs_def)
qed

lemma spend_ok:
  assumes ok: "budgets_ok (dd_runs db)" and l: "l \<in> set (rd_budgets (dd_runs db))"
    and sp: "spend_recompile e ig (bl_run_id l) preset l db = Inr (l2, db')"
  shows "budgets_ok (dd_runs db')"
proof -
  have g: "ig \<or> bl_recompile_count l < bl_max_retries l"
    and db': "rd_budgets (dd_runs db') =
      map (\<lambda>r. if bl_run_id r = bl_run_id l then charged (clock e 0) ig l else r) (rd_budgets (dd_runs db))"
    using sp by (auto simp: spend_cases [OF ok l] split: if_splits)
  have lb: "0 \<le> bl_recompile_count l" "bl_recompile_count l \<le> bl_max_retries l" "bl_recompile_count l < bl_compile_count l"
    "validate_budget_ledger l = Inr l"
    using ok l by (auto simp: budgets_ok_def)
  then have "validate_budget_ledger (charged (clock e 0) ig l) = Inr (charged (clock e 0) ig l)"
    by (auto simp: validate_budget_ledger_def rbind_eq_Inr charged_def)
  moreover have "map bl_run_id (rd_budgets (dd_runs db')) = map bl_run_id (rd_budgets (dd_runs db))" by (simp add: db')
  then have "distinct (map bl_run_id (rd_budgets (dd_runs db')))" using ok by (simp only: budgets_ok_def)
  ultimately show ?thesis using ok lb g unfolding budgets_ok_def
    by (intro conjI) (auto simp: db')
qed

lemma budget_read:
  assumes ok: "budgets_ok db" and l: "l \<in> set (rd_budgets db)"
  shows "budget_get_by_run (bl_run_id l) db = Inr (Some l)"
proof -
  obtain q where q: "sql_first (\<lambda>b. bl_run_id b = bl_run_id l) (rd_budgets db) = Some q" "q \<in> set (rd_budgets db)" "bl_run_id q = bl_run_id l"
    using sql_first_ex [OF l, of "\<lambda>b. bl_run_id b = bl_run_id l"] by auto
  have "inj_on bl_run_id (set (rd_budgets db))" using ok by (simp add: budgets_ok_def distinct_map)
  then have "q = l" using q(2,3) l by (simp add: inj_on_def)
  then show ?thesis using q(1) ok l by (simp add: budget_get_by_run_def budgets_ok_def)
qed

lemma recompile_step_ok: "budgets_ok (dd_runs db) \<Longrightarrow> recompile_step req db = Inr db' \<Longrightarrow> budgets_ok (dd_runs db')"
proof (cases req)
  case (RecompileRequest e ig rid preset mr ts)
  assume ok: "budgets_ok (dd_runs db)" and st: "recompile_step req db = Inr db'"
  then obtain l runs l2 where en: "ensure_budget_ledger e rid preset mr ts 1 (dd_runs db) = Inr (l, runs)"
    and sp: "spend_recompile (env_from 2 e) ig rid preset l (db\<lparr>dd_runs := runs\<rparr>) = Inr (l2, db')"
    using RecompileRequest by (auto simp: recompile_ledger_def rbind_eq_Inr on_runs_def)
  note e = ensure_ledger_ok [OF ok en]
  show ?thesis using e sp by (auto intro: spend_ok [of "db\<lparr>dd_runs := runs\<rparr>" l])
qed auto

text \<open>C17: however recompilations of runs are requested, and whatever happens to the task cards, a ledger never counts more
  paid recompilations than its run's maximum and always fewer than compilations. A request on a run with a ledger raises
  the budget error, with nothing left, exactly when it is to be paid and the ledger is exhausted; otherwise the guard of
  commercial task cards refuses it exactly when the run has an authoritative card; otherwise it is granted, raising by one
  the compilations and, when paid, the recompilations, so that one retry less remains.\<close>

theorem recompile_budget_bound:
  assumes start: "rd_budgets (dd_runs db0) = []"
    and db: "db = run_events recompile_step reqs db0" and l: "l \<in> set (rd_budgets (dd_runs db))"
  shows "0 \<le> bl_recompile_count l \<and> bl_recompile_count l \<le> bl_max_retries l \<and> bl_recompile_count l < bl_compile_count l
     \<and> (if \<not> ignore_budget \<and> bl_recompile_count l = bl_max_retries l
        then recompile_ledger e ignore_budget (bl_run_id l) preset mr ts db
               = Inl (BudgetExhaustedError (bl_run_id l) 0 (bl_max_retries l))
        else if preset = ''commercial_game_production'' \<and> (\<exists>c\<in>set (dd_task_cards db). kd_run_id c = bl_run_id l \<and> authoritative_card c)
        then recompile_ledger e ignore_budget (bl_run_id l) preset mr ts db = Inl WorkflowError
        else \<exists>l' db'. recompile_ledger e ignore_budget (bl_run_id l) preset mr ts db = Inr (l', db')
               \<and> l' \<in> set (rd_budgets (dd_runs db')) \<and> bl_run_id l' = bl_run_id l \<and> bl_max_retries l' = bl_max_retries l
               \<and> bl_compile_count l' = bl_compile_count l + 1
               \<and> bl_recompile_count l' = bl_recompile_count l + (if ignore_budget then 0 else 1)
               \<and> remaining_retries (Some l') = map_option (\<lambda>n. n - (if ignore_budget then 0 else 1)) (remaining_retries (Some l)))"
proof -
  have ok: "budgets_ok (dd_runs db)"
    unfolding db using recompile_step_ok
    by (rule run_events_invariant [where I = "\<lambda>db. budgets_ok (dd_runs db)"]) (simp_all add: budgets_ok_def start)
  have b: "0 \<le> bl_recompile_count l" "bl_recompile_count l \<le> bl_max_retries l" "bl_recompile_count l < bl_compile_count l"
    using ok l by (auto simp: budgets_ok_def)
  have red: "recompile_ledger e ignore_budget (bl_run_id l) preset mr ts db
      = spend_recompile (env_from 2 e) ignore_budget (bl_run_id l) preset l db"
    by (simp add: recompile_ledger_def on_runs_def ensure_budget_ledger_def budget_read [OF ok l])
  have cards: "preset = ''commercial_game_production'' \<and> (\<exists>c\<in>set (dd_task_cards db). kd_run_id c = bl_run_id l \<and> authoritative_card c)
      \<longleftrightarrow> protected_cards (bl_run_id l) preset db \<noteq> {}"
    by (auto simp: protected_cards_def)
  have written: "charged t i l \<in> set (map (\<lambda>r. if bl_run_id r = bl_run_id l then charged t i l else r) (rd_budgets (dd_runs db)))" for t i
    using l by force
  show ?thesis
    unfolding red spend_cases [OF ok l] cards using b written [of "clock (env_from 2 e) 0" ignore_budget] by (auto simp: remaining_retries_def)
qed

definition demo_cards :: "card_row list" where
  "demo_cards = [\<lparr>kd_card_id = ''k'', kd_run_id = ''r'', kd_status = ''Active'',
                  kd_metadata = [(''generated_by'', JStr ''task_card_generation_agent'')], kd_created_at = 1\<rparr>]"

definition demo_recompile :: "recompile_request list" where
  "demo_recompile = [RecompileRequest (stamp 1 ''p'') False ''r'' ''commercial_game_production'' 2 60, WriteCards demo_cards]"

definition demo_compiled :: diag_db where
  "demo_compiled =
     \<lparr>dd_sched = empty_sched_db [''r''], dd_runs = unowned_db [demo_run] [''t''], dd_states = [],
      dd_task = (\<lambda>_. \<lparr>tr_run_id = ''r'', tr_phase_id = ''f'', tr_task_card_id = ''k'', tr_task_kind = ''k'', tr_status = tk_ready, tr_created_at = 0\<rparr>),
      dd_phases = [], dd_task_cards = [], dd_handoffs = [], dd_packets = [], dd_evidence = [], dd_verdicts = [], dd_snapshots = [],
      dd_presets = (\<lambda>_. None)\<rparr>"

theorem recompile_budget_bound_witness:
  "recompile_ledger (stamp 9 ''s'') False ''r'' ''commercial_game_production'' 2 60 (run_events recompile_step demo_recompile demo_compiled)
     = Inl WorkflowError"
proof -
  let ?db = "run_events recompile_step demo_recompile demo_compiled"
  have m: "map (\<lambda>b. (bl_run_id b, bl_recompile_count b, bl_max_retries b)) (rd_budgets (dd_runs ?db)) = [(''r'', 1, 2)]"
    by code_simp
  then obtain l where l: "l \<in> set (rd_budgets (dd_runs ?db))" "bl_run_id l = ''r''" "bl_recompile_count l = 1" "bl_max_retries l = 2"
    by (auto simp: map_eq_Cons_conv)
  have card: "\<exists>c\<in>set (dd_task_cards ?db). kd_run_id c = ''r'' \<and> authoritative_card c" by code_simp
  have start: "rd_budgets (dd_runs demo_compiled) = []" by (simp add: demo_compiled_def unowned_db_def)
  show ?thesis
    using recompile_budget_bound [OF start refl l(1), of False "stamp 9 ''s''" "''commercial_game_production''" 2 60] card l(2-4) by simp
qed

end
