(* ===== verification/Patch_Engine.thy ===== *)
theory Patch_Engine
  imports Py_Path
begin

section \<open>Unified diffs\<close>

text \<open>
  The patch parser and the hunk application of \<^verbatim>\<open>packages/core_domain/repo_mutation.py\<close>. A parsed
  hunk keeps its raw lines, each with its one-character prefix; \<open>ValueError\<close> is the only exception
  raised here. The source walks the lines by an index, the model consumes the list.
\<close>

record diff_hunk =
  dh_old_start :: nat
  dh_old_count :: nat
  dh_new_start :: nat
  dh_new_count :: nat
  dh_lines :: "string list"

record file_patch =
  fp_old_path :: "string option"
  fp_new_path :: "string option"
  fp_hunks :: "diff_hunk list"

definition touched_path :: "file_patch \<Rightarrow> string" where
  "touched_path f = str_or (fp_new_path f) (str_or (fp_old_path f) [])"

definition normalize_diff_path :: "string \<Rightarrow> string option" where
  "normalize_diff_path raw =
     (let path = hd (split_at TAB (py_strip raw))
      in if path = ''/dev/null'' then None
         else Some (py_strip (if starts_with ''a/'' path \<or> starts_with ''b/'' path then drop 2 path else path)))"

definition hunk_line :: "string \<Rightarrow> bool" where
  "hunk_line l \<longleftrightarrow> l \<noteq> [] \<and> hd l \<in> {CHR '' '', CHR ''+'', CHR ''-''}"

subsection \<open>The \<open>apply_patch\<close> format\<close>

text \<open>\<open>_APPLY_PATCH_FILE_HEADER_RE\<close> on one line: the action and the path.\<close>

datatype patch_action = PatchUpdate | PatchAdd | PatchDelete

definition header_rest :: "string \<Rightarrow> string \<Rightarrow> string option" where
  "header_rest p s = (if starts_with p s \<and> drop (length p) s \<noteq> [] then Some (drop (length p) s) else None)"

definition apply_patch_file_header :: "string \<Rightarrow> (patch_action \<times> string) option" where
  "apply_patch_file_header line =
     (case header_rest ''*** Update File: '' line of
        Some p \<Rightarrow> Some (PatchUpdate, p)
      | None \<Rightarrow>
          (case header_rest ''*** Add File: '' line of
             Some p \<Rightarrow> Some (PatchAdd, p)
           | None \<Rightarrow> map_option (\<lambda>p. (PatchDelete, p)) (header_rest ''*** Delete File: '' line)))"

record block_state =
  bs_patches :: "file_patch list"
  bs_file :: "file_patch option"
  bs_hunk :: "string list"
  bs_in_patch :: bool

definition flush_hunk :: "block_state \<Rightarrow> block_state" where
  "flush_hunk s =
     (case bs_file s of
        None \<Rightarrow> s\<lparr>bs_hunk := []\<rparr>
      | Some f \<Rightarrow>
          if bs_hunk s = [] then s
          else s\<lparr>bs_file := Some (f\<lparr>fp_hunks := fp_hunks f @
                     [\<lparr>dh_old_start = 1, dh_old_count = length (filter (\<lambda>l. \<not> starts_with ''+'' l) (bs_hunk s)),
                       dh_new_start = 1, dh_new_count = length (filter (\<lambda>l. \<not> starts_with ''-'' l) (bs_hunk s)),
                       dh_lines = bs_hunk s\<rparr>]\<rparr>), bs_hunk := []\<rparr>)"

definition flush_file :: "block_state \<Rightarrow> werror + block_state" where
  "flush_file s =
     (let s' = flush_hunk s
      in case bs_file s' of
           None \<Rightarrow> Inr s'
         | Some f \<Rightarrow>
             if fp_new_path f \<noteq> None \<and> fp_hunks f = []
             then Inl (ValueError ''apply_patch file update contained no hunks'')
             else Inr (s'\<lparr>bs_patches := bs_patches s' @ [f], bs_file := None\<rparr>))"

definition block_line :: "string \<Rightarrow> block_state \<Rightarrow> werror + block_state" where
  "block_line line s =
     (if line = ''*** Begin Patch'' then Inr (s\<lparr>bs_in_patch := True\<rparr>)
      else if line = ''*** End Patch'' then rbind (flush_file s) (\<lambda>s'. Inr (s'\<lparr>bs_in_patch := False\<rparr>))
      else if \<not> bs_in_patch s then Inr s
      else case apply_patch_file_header line of
             Some (action, raw) \<Rightarrow>
               rbind (flush_file s) (\<lambda>s'.
                 let path = py_strip raw
                 in Inr (s'\<lparr>bs_file := Some \<lparr>fp_old_path = (if action = PatchAdd then None else Some path),
                                             fp_new_path = (if action = PatchDelete then None else Some path), fp_hunks = []\<rparr>\<rparr>))
           | None \<Rightarrow>
               (case bs_file s of
                  None \<Rightarrow> Inr s
                | Some f \<Rightarrow>
                    if starts_with ''*** Move to: '' line
                    then Inr (s\<lparr>bs_file := Some (f\<lparr>fp_new_path := Some (py_strip (drop 13 line))\<rparr>)\<rparr>)
                    else if starts_with ''@@'' line then Inr (flush_hunk s)
                    else if hunk_line line
                    then Inr (s\<lparr>bs_hunk := bs_hunk s @ [line]\<rparr>)
                    else Inr s))"

fun block_lines :: "string list \<Rightarrow> block_state \<Rightarrow> werror + block_state" where
  "block_lines [] s = Inr s"
| "block_lines (l # ls) s = rbind (block_line l s) (block_lines ls)"

definition parse_apply_patch_blocks :: "string \<Rightarrow> werror + file_patch list" where
  "parse_apply_patch_blocks text =
     rbind (block_lines (splitlines text) \<lparr>bs_patches = [], bs_file = None, bs_hunk = [], bs_in_patch = False\<rparr>) (\<lambda>s.
     rbind (if bs_file s \<noteq> None then flush_file s else Inr s) (\<lambda>s'.
       if bs_patches s' = [] then Inl (ValueError ''no file patches were found in the apply_patch block'')
       else Inr (bs_patches s')))"

subsection \<open>The unified format\<close>

text \<open>One number of a hunk header: digits, then an optional comma and digits (\<open>1\<close> when absent).\<close>

definition header_range :: "string \<Rightarrow> (nat \<times> nat \<times> string) option" where
  "header_range s =
     (let ds = takeWhile is_digit s; rest = dropWhile is_digit s
      in if ds = [] then None
         else let cs = takeWhile is_digit (drop 1 rest)
              in if starts_with '','' rest \<and> cs \<noteq> []
                 then Some (digits_value ds, digits_value cs, dropWhile is_digit (drop 1 rest))
                 else Some (digits_value ds, 1, rest))"

definition parse_hunk_header :: "string \<Rightarrow> (nat \<times> nat \<times> nat \<times> nat) option" where
  "parse_hunk_header line =
     (if \<not> starts_with ''@@ -'' line then None
      else case header_range (drop 4 line) of
             None \<Rightarrow> None
           | Some (os, oc, r) \<Rightarrow>
               if \<not> starts_with '' +'' r then None
               else case header_range (drop 2 r) of
                      None \<Rightarrow> None
                    | Some (ns, nc, r') \<Rightarrow> if starts_with '' @@'' r' then Some (os, oc, ns, nc) else None)"

text \<open>The body of a hunk ends at a file or hunk header and at a line without a proper prefix.\<close>

definition no_newline_marker :: string where
  "no_newline_marker = CHR 0x5C # '' No newline at end of file''"

fun take_hunk :: "string list \<Rightarrow> string list \<times> string list" where
  "take_hunk [] = ([], [])"
| "take_hunk (l # ls) =
     (if starts_with ''--- '' l \<or> starts_with ''@@ '' l then ([], l # ls)
      else if l = no_newline_marker then take_hunk ls
      else if \<not> hunk_line l then ([], l # ls)
      else (l # fst (take_hunk ls), snd (take_hunk ls)))"

lemma take_hunk_le: "length (snd (take_hunk ls)) \<le> length ls"
  by (induction ls rule: take_hunk.induct) (auto intro: le_SucI)

lemma take_hunk_shorter [termination_simp]: "(body, rest) = take_hunk ls \<Longrightarrow> length rest < Suc (length ls)"
  using take_hunk_le [of ls] by (simp add: less_Suc_eq_le eq_commute [of _ "take_hunk ls"])

text \<open>The hunks up to the next file header, and the lines from it on.\<close>

fun parse_hunks :: "string list \<Rightarrow> (werror + diff_hunk list) \<times> string list" where
  "parse_hunks [] = (Inr [], [])"
| "parse_hunks (l # ls) =
     (if starts_with ''--- '' l then (Inr [], l # ls)
      else if starts_with ''diff --git '' l \<or> starts_with ''index '' l \<or> \<not> starts_with ''@@ '' l then parse_hunks ls
      else case parse_hunk_header l of
             None \<Rightarrow> (Inl (ValueError ''invalid hunk header''), [])
           | Some (os, oc, ns, nc) \<Rightarrow>
               (case take_hunk ls of
                  (body, rest) \<Rightarrow>
                    (let (hs, rest') = parse_hunks rest
                     in (rbind hs (\<lambda>hs. Inr (\<lparr>dh_old_start = os, dh_old_count = oc, dh_new_start = ns,
                                            dh_new_count = nc, dh_lines = body\<rparr> # hs)), rest'))))"

lemma parse_hunks_le: "length (snd (parse_hunks ls)) \<le> length ls"
proof (induction ls rule: measure_induct_rule [of length])
  case (less ls)
  show ?case
  proof (cases ls)
    case (Cons l t)
    obtain body rest where t: "take_hunk t = (body, rest)" by (cases "take_hunk t")
    then have "length rest \<le> length t" using take_hunk_le [of t] by simp
    moreover have "length (snd (parse_hunks t)) \<le> length t" using less [of t] Cons by simp
    moreover have "length (snd (parse_hunks rest)) \<le> length rest" using less [of rest] Cons calculation by simp
    ultimately show ?thesis
      by (cases "parse_hunks rest") (simp add: Cons t split: option.split)
  qed simp
qed

lemma parse_hunks_shorter [termination_simp]: "(hs, rest) = parse_hunks ls \<Longrightarrow> length rest < Suc (Suc (length ls))"
  using parse_hunks_le [of ls] by (simp add: less_Suc_eq_le eq_commute [of _ "parse_hunks ls"])

fun parse_files :: "string list \<Rightarrow> werror + file_patch list" where
  "parse_files [] = Inr []"
| "parse_files [l] = (if starts_with ''--- '' l then Inl (ValueError ''unified diff is missing a `+++` header'') else Inr [])"
| "parse_files (l # m # ms) =
     (if \<not> starts_with ''--- '' l then parse_files (m # ms)
      else if \<not> starts_with ''+++ '' m then Inl (ValueError ''unified diff is missing a `+++` header'')
      else case parse_hunks ms of
             (hunks, rest) \<Rightarrow>
               (case hunks of
                  Inl e \<Rightarrow> Inl e
                | Inr hs \<Rightarrow>
                    if hs = [] then Inl (ValueError ''unified diff contained no hunks'')
                    else rbind (parse_files rest) (\<lambda>ps.
                           Inr (\<lparr>fp_old_path = normalize_diff_path (drop 4 l), fp_new_path = normalize_diff_path (drop 4 m),
                                 fp_hunks = hs\<rparr> # ps))))"

definition parse_unified_diff :: "string \<Rightarrow> werror + file_patch list" where
  "parse_unified_diff text =
     (if contains ''*** Begin Patch'' text \<and> list_ex (\<lambda>l. apply_patch_file_header l \<noteq> None) (split_at LF text)
      then parse_apply_patch_blocks text
      else rbind (parse_files (splitlines text)) (\<lambda>ps.
             if ps = [] then Inl (ValueError ''no file patches were found in the unified diff'') else Inr ps))"

subsection \<open>Applying hunks\<close>

text \<open>Does the hunk's context fit at a position; does it have any existing line at all?\<close>

fun hunk_fits :: "string list \<Rightarrow> string list \<Rightarrow> bool" where
  "hunk_fits orig [] \<longleftrightarrow> True"
| "hunk_fits orig (raw # raws) \<longleftrightarrow>
     (case raw of
        [] \<Rightarrow> False
      | p # content \<Rightarrow>
          if p = CHR ''+'' then hunk_fits orig raws
          else if p \<noteq> CHR '' '' \<and> p \<noteq> CHR ''-'' then False
          else case orig of [] \<Rightarrow> False | o1 # os \<Rightarrow> o1 = content \<and> hunk_fits os raws)"

definition has_existing_line :: "string list \<Rightarrow> bool" where
  "has_existing_line raws = list_ex (\<lambda>raw. \<not> starts_with ''+'' raw) raws"

definition hunk_matches_at :: "string list \<Rightarrow> nat \<Rightarrow> string list \<Rightarrow> bool" where
  "hunk_matches_at orig i raws \<longleftrightarrow> hunk_fits (drop i orig) raws \<and> has_existing_line raws"

definition find_hunk_context :: "string list \<Rightarrow> string list \<Rightarrow> nat \<Rightarrow> nat option" where
  "find_hunk_context orig raws start =
     List.find (\<lambda>i. hunk_matches_at orig i raws) [start..<Suc (length orig)]"

text \<open>The lines of one hunk against the original from the cursor on: the output and what is left of it.\<close>

fun apply_hunk_lines :: "string list \<Rightarrow> string list \<Rightarrow> werror + string list \<times> nat" where
  "apply_hunk_lines orig [] = Inr ([], 0)"
| "apply_hunk_lines orig (raw # raws) =
     (case raw of
        [] \<Rightarrow> Inl (ValueError ''unsupported patch prefix'')
      | p # content \<Rightarrow>
          if p = CHR '' '' then
            (case orig of
               o1 # os \<Rightarrow> if o1 = content
                          then rbind (apply_hunk_lines os raws) (\<lambda>(out, n). Inr (content # out, Suc n))
                          else Inl (ValueError ''context mismatch while applying patch'')
             | [] \<Rightarrow> Inl (ValueError ''context mismatch while applying patch''))
          else if p = CHR ''-'' then
            (case orig of
               o1 # os \<Rightarrow> if o1 = content
                          then rbind (apply_hunk_lines os raws) (\<lambda>(out, n). Inr (out, Suc n))
                          else Inl (ValueError ''remove mismatch while applying patch'')
             | [] \<Rightarrow> Inl (ValueError ''remove mismatch while applying patch''))
          else if p = CHR ''+'' then rbind (apply_hunk_lines orig raws) (\<lambda>(out, n). Inr (content # out, n))
          else Inl (ValueError ''unsupported patch prefix''))"

definition hunk_target :: "string list \<Rightarrow> nat \<Rightarrow> diff_hunk \<Rightarrow> nat" where
  "hunk_target orig cursor h =
     (let t = dh_old_start h - 1
      in if hunk_matches_at orig t (dh_lines h) then t
         else case find_hunk_context orig (dh_lines h) cursor of None \<Rightarrow> t | Some i \<Rightarrow> i)"

fun apply_hunks_from :: "string list \<Rightarrow> nat \<Rightarrow> diff_hunk list \<Rightarrow> werror + string list" where
  "apply_hunks_from orig cursor [] = Inr (drop cursor orig)"
| "apply_hunks_from orig cursor (h # hs) =
     (let t = hunk_target orig cursor h
      in rbind (rguard (t \<ge> cursor) (ValueError ''overlapping or out-of-order hunks are not supported'')) (\<lambda>_.
         rbind (apply_hunk_lines (drop t orig) (dh_lines h)) (\<lambda>(out, n).
         rbind (apply_hunks_from orig (t + n) hs) (\<lambda>rest.
           Inr (take (t - cursor) (drop cursor orig) @ out @ rest)))))"

definition apply_hunks :: "string list \<Rightarrow> diff_hunk list \<Rightarrow> werror + string list" where
  "apply_hunks orig hunks = apply_hunks_from orig 0 hunks"

end
