(* ===== verification/Patch_Laws.thy ===== *)
theory Patch_Laws
  imports Patch_Engine
begin

section \<open>What a patch means\<close>

text \<open>
  The declarative reading of hunks: each replaces, somewhere after the previous one, its old lines
  by its new lines (\<open>edits\<close>). Hunks whose headers give the places in both files (\<open>located\<close>) apply
  exactly there and can be undone. Then the properties of the parser: what \<open>render\<close> prints is
  parsed back.
\<close>

subsection \<open>Old and new side of a hunk\<close>

definition old_side :: "string list \<Rightarrow> string list" where
  "old_side raws = map tl (filter (\<lambda>l. \<not> starts_with ''+'' l) raws)"

definition new_side :: "string list \<Rightarrow> string list" where
  "new_side raws = map tl (filter (\<lambda>l. \<not> starts_with ''-'' l) raws)"

lemma sides_Nil [simp]: "old_side [] = []" "new_side [] = []"
  by (simp_all add: old_side_def new_side_def)

lemma sides_Cons [simp]:
  "old_side ((p # content) # raws) = (if p = CHR ''+'' then old_side raws else content # old_side raws)"
  "new_side ((p # content) # raws) = (if p = CHR ''-'' then new_side raws else content # new_side raws)"
  by (simp_all add: old_side_def new_side_def starts_with_def)

lemma hunk_lineE:
  assumes "hunk_line l"
  obtains p content where "l = p # content" and "p = CHR '' '' \<or> p = CHR ''+'' \<or> p = CHR ''-''"
  using assms by (cases l) (auto simp: hunk_line_def)

lemma apply_lines_sound:
  "apply_hunk_lines orig raws = Inr (out, n) \<Longrightarrow>
     orig = old_side raws @ drop n orig \<and> n = length (old_side raws) \<and> out = new_side raws \<and> list_all hunk_line raws"
proof (induction raws arbitrary: orig out n)
  case (Cons raw raws)
  obtain p content where raw: "raw = p # content" using Cons.prems by (cases raw) auto
  show ?case
  proof (cases "p = CHR ''+''")
    case True
    then obtain out' where "apply_hunk_lines orig raws = Inr (out', n)" "out = content # out'"
      using Cons.prems raw by (auto simp: rbind_eq_Inr)
    then show ?thesis using Cons.IH True by (simp add: raw hunk_line_def)
  next
    case False
    then have p: "p = CHR '' '' \<or> p = CHR ''-''" using Cons.prems raw by (simp split: if_splits)
    then obtain os out' n' where "orig = content # os" "apply_hunk_lines os raws = Inr (out', n')" "n = Suc n'"
      "out = (if p = CHR '' '' then content # out' else out')"
      using Cons.prems raw by (auto simp: rbind_eq_Inr split: list.splits if_splits)
    then show ?thesis using Cons.IH [of os out' n'] p by (auto simp: raw hunk_line_def)
  qed
qed simp

lemma apply_lines_complete:
  "list_all hunk_line raws \<Longrightarrow> apply_hunk_lines (old_side raws @ rest) raws = Inr (new_side raws, length (old_side raws))"
  by (induction raws) (auto elim!: hunk_lineE)

lemma fits_complete: "list_all hunk_line raws \<Longrightarrow> hunk_fits (old_side raws @ rest) raws"
  by (induction raws) (auto elim!: hunk_lineE)

lemma has_existing_old: "list_all hunk_line raws \<Longrightarrow> has_existing_line raws \<longleftrightarrow> old_side raws \<noteq> []"
  by (induction raws) (auto simp: has_existing_line_def starts_with_def elim!: hunk_lineE)

subsection \<open>Editing\<close>

inductive edits :: "string list \<Rightarrow> diff_hunk list \<Rightarrow> string list \<Rightarrow> bool" where
  edits_done: "edits xs [] xs"
| edits_hunk: "edits rest hs out \<Longrightarrow>
     edits (pre @ old_side (dh_lines h) @ rest) (h # hs) (pre @ new_side (dh_lines h) @ out)"

inductive_cases edits_NilE: "edits xs [] out"
inductive_cases edits_ConsE: "edits xs (h # hs) out"

lemma apply_from_sound: "apply_hunks_from orig c hs = Inr out \<Longrightarrow> edits (drop c orig) hs out"
proof (induction hs arbitrary: c out)
  case Nil
  then show ?case by (simp add: edits_done)
next
  case (Cons h hs)
  let ?t = "hunk_target orig c h"
  obtain body n rest where t: "c \<le> ?t" and b: "apply_hunk_lines (drop ?t orig) (dh_lines h) = Inr (body, n)"
    and r: "apply_hunks_from orig (?t + n) hs = Inr rest" and out: "out = take (?t - c) (drop c orig) @ body @ rest"
    using Cons.prems by (auto simp: Let_def rbind_eq_Inr)
  note s = apply_lines_sound [OF b]
  have "drop c orig = take (?t - c) (drop c orig) @ drop ?t orig"
    using t by (metis append_take_drop_id drop_drop le_add_diff_inverse2)
  also have "drop ?t orig = old_side (dh_lines h) @ drop (?t + n) orig"
    using s by (metis add.commute drop_drop)
  finally have split: "drop c orig = take (?t - c) (drop c orig) @ old_side (dh_lines h) @ drop (?t + n) orig" .
  show ?case
    unfolding out using s Cons.IH [OF r] by (subst split) (auto intro!: edits_hunk simp: add.commute)
qed

text \<open>The hunks of a patch with the places of their two sides, counted from \<open>c\<close> and \<open>d\<close>.\<close>

inductive located :: "nat \<Rightarrow> nat \<Rightarrow> string list \<Rightarrow> diff_hunk list \<Rightarrow> string list \<Rightarrow> bool" where
  located_done: "located c d xs [] xs"
| located_hunk: "list_all hunk_line (dh_lines h) \<Longrightarrow> old_side (dh_lines h) \<noteq> [] \<Longrightarrow> new_side (dh_lines h) \<noteq> [] \<Longrightarrow>
     dh_old_start h = c + length pre + 1 \<Longrightarrow> dh_new_start h = d + length pre + 1 \<Longrightarrow>
     located (c + length pre + length (old_side (dh_lines h))) (d + length pre + length (new_side (dh_lines h))) rest hs out \<Longrightarrow>
     located c d (pre @ old_side (dh_lines h) @ rest) (h # hs) (pre @ new_side (dh_lines h) @ out)"

inductive_cases located_ConsE: "located c d xs (h # hs) out"

lemma apply_located: "located c d xs hs out \<Longrightarrow> length front = c \<Longrightarrow> apply_hunks_from (front @ xs) c hs = Inr out"
proof (induction arbitrary: front rule: located.induct)
  case (located_hunk h c pre d rest hs out)
  let ?old = "old_side (dh_lines h)" and ?new = "new_side (dh_lines h)"
  let ?orig = "front @ pre @ ?old @ rest" and ?t = "c + length pre"
  have dt: "drop ?t ?orig = ?old @ rest" using located_hunk.prems by simp
  have "hunk_matches_at ?orig ?t (dh_lines h)"
    unfolding hunk_matches_at_def dt
    using located_hunk.hyps(2) fits_complete [OF located_hunk.hyps(1), of rest] has_existing_old [OF located_hunk.hyps(1)] by simp
  then have t: "hunk_target ?orig c h = ?t" using located_hunk.hyps(4) by (simp add: hunk_target_def)
  have IH: "apply_hunks_from ?orig (c + length pre + length ?old) hs = Inr out"
    using located_hunk.IH [of "front @ pre @ ?old"] located_hunk.prems by simp
  have mid: "take (?t - c) (drop c ?orig) = pre" using located_hunk.prems by simp
  show ?case
    unfolding apply_hunks_from.simps Let_def t dt apply_lines_complete [OF located_hunk.hyps(1)] using IH mid by simp
qed simp

definition flip_line :: "string \<Rightarrow> string" where
  "flip_line l = (case l of [] \<Rightarrow> [] | p # content \<Rightarrow>
     (if p = CHR ''+'' then CHR ''-'' else if p = CHR ''-'' then CHR ''+'' else p) # content)"

definition invert_hunk :: "diff_hunk \<Rightarrow> diff_hunk" where
  "invert_hunk h = \<lparr>dh_old_start = dh_new_start h, dh_old_count = dh_new_count h, dh_new_start = dh_old_start h,
                    dh_new_count = dh_old_count h, dh_lines = map flip_line (dh_lines h)\<rparr>"

lemma flip_sides:
  "list_all hunk_line raws \<Longrightarrow> old_side (map flip_line raws) = new_side raws \<and> new_side (map flip_line raws) = old_side raws
     \<and> list_all hunk_line (map flip_line raws)"
proof (induction raws)
  case (Cons l raws)
  then obtain p content where l: "l = p # content" "p = CHR '' '' \<or> p = CHR ''+'' \<or> p = CHR ''-''"
    by (auto elim: hunk_lineE)
  show ?case using Cons l(2) by (auto simp: l(1) flip_line_def hunk_line_def)
qed simp

lemma invert_fields [simp]:
  "dh_lines (invert_hunk h) = map flip_line (dh_lines h)"
  "dh_old_start (invert_hunk h) = dh_new_start h" "dh_new_start (invert_hunk h) = dh_old_start h"
  by (simp_all add: invert_hunk_def)

lemma located_invert: "located c d xs hs out \<Longrightarrow> located d c out (map invert_hunk hs) xs"
proof (induction rule: located.induct)
  case (located_hunk h c pre d rest hs out)
  note f = flip_sides [OF located_hunk.hyps(1)]
  have "located d c (pre @ old_side (dh_lines (invert_hunk h)) @ out) (invert_hunk h # map invert_hunk hs)
      (pre @ new_side (dh_lines (invert_hunk h)) @ rest)"
    using located_hunk f by (intro located.located_hunk) simp_all
  then show ?case using f by simp
qed (simp add: located_done)

text \<open>C18: when hunks apply, the result is the original with every hunk's old lines replaced by its new
  lines, in the order of the hunks and without overlap; lines outside the hunks are kept.\<close>

theorem apply_hunks_sound:
  assumes "apply_hunks orig hunks = Inr out"
  shows "edits orig hunks out"
  using apply_from_sound [of orig 0 hunks out] assms by (simp add: apply_hunks_def)

theorem apply_hunks_sound_witness:
  "edits [''a'', ''b'', ''d'']
     [\<lparr>dh_old_start = 9, dh_old_count = 2, dh_new_start = 9, dh_new_count = 2, dh_lines = ['' b'', ''+c'', ''-d'']\<rparr>]
     [''a'', ''b'', ''c'']"
  by (rule apply_hunks_sound) code_simp

text \<open>C19: a patch whose hunk headers give the places of the old and the new lines applies to its
  original exactly at these places, and the inverted patch applied to the result gives the original
  back.\<close>

theorem located_patch_applies_and_reverts:
  assumes "located 0 0 orig hunks out"
  shows "apply_hunks orig hunks = Inr out \<and> apply_hunks out (map invert_hunk hunks) = Inr orig"
  using apply_located [OF assms, of "[]"] apply_located [OF located_invert [OF assms], of "[]"]
  by (simp add: apply_hunks_def)

definition demo_hunk :: diff_hunk where
  "demo_hunk = \<lparr>dh_old_start = 2, dh_old_count = 2, dh_new_start = 2, dh_new_count = 2, dh_lines = ['' b'', ''+c'', ''-d'']\<rparr>"

theorem located_patch_applies_and_reverts_witness:
  "apply_hunks [''b'', ''b'', ''d''] [demo_hunk] = Inr [''b'', ''b'', ''c'']
   \<and> apply_hunks [''b'', ''b'', ''c''] [invert_hunk demo_hunk] = Inr [''b'', ''b'', ''d'']"
proof -
  have "located 0 0 ([''b''] @ old_side (dh_lines demo_hunk) @ []) [demo_hunk] ([''b''] @ new_side (dh_lines demo_hunk) @ [])"
    by (rule located_hunk) (simp_all add: demo_hunk_def hunk_line_def located_done)
  then show ?thesis
    using located_patch_applies_and_reverts [of "[''b'', ''b'', ''d'']" "[demo_hunk]" "[''b'', ''b'', ''c'']"]
    by (simp add: demo_hunk_def)
qed

end
