(* ===== verification/Patch_Roundtrip.thy ===== *)
theory Patch_Roundtrip
  imports Patch_Laws
begin

section \<open>Printing and parsing a unified diff\<close>

text \<open>
  \<open>render\<close> prints file patches in the unified format, as \<^verbatim>\<open>diff\<close> and \<^verbatim>\<open>git\<close> do. Parsing the text gives the
  patches back when no body line looks like a file header; a removed line that starts with \<open>-- \<close>
  does, and such a diff is not read as one.
\<close>

subsection \<open>Hunk headers\<close>

lemma take_digits: "r = [] \<or> \<not> is_digit (hd r) \<Longrightarrow> takeWhile is_digit (show_nat n @ r) = show_nat n \<and> dropWhile is_digit (show_nat n @ r) = r"
proof -
  have "takeWhile is_digit (ds @ r) = ds \<and> dropWhile is_digit (ds @ r) = r"
    if "list_all is_digit ds" "r = [] \<or> \<not> is_digit (hd r)" for ds
    using that by (induction ds) (cases r; simp)+
  then show "r = [] \<or> \<not> is_digit (hd r) \<Longrightarrow> takeWhile is_digit (show_nat n @ r) = show_nat n \<and> dropWhile is_digit (show_nat n @ r) = r"
    using show_nat_digits by blast
qed

lemma header_range_show:
  assumes "r = [] \<or> \<not> is_digit (hd r)"
  shows "header_range (show_nat a @ '','' @ show_nat b @ r) = Some (a, b, r)"
proof -
  have "\<not> is_digit (hd ('','' @ show_nat b @ r))" by (simp add: is_digit_def)
  then show ?thesis
    using take_digits [of "'','' @ show_nat b @ r" a] take_digits [OF assms, of b]
    by (simp add: header_range_def starts_with_def Let_def)
qed

subsection \<open>Printing\<close>

definition hunk_header :: "diff_hunk \<Rightarrow> string" where
  "hunk_header h =
     ''@@ -'' @ show_nat (dh_old_start h) @ '','' @ show_nat (dh_old_count h) @ '' +'' @ show_nat (dh_new_start h) @ '','' @ show_nat (dh_new_count h) @ '' @@''"

definition render_hunk :: "diff_hunk \<Rightarrow> string list" where
  "render_hunk h = hunk_header h # dh_lines h"

definition render_path :: "string \<Rightarrow> string option \<Rightarrow> string" where
  "render_path side p = (case p of None \<Rightarrow> ''/dev/null'' | Some q \<Rightarrow> side @ q)"

definition render_file :: "file_patch \<Rightarrow> string list" where
  "render_file f = (''--- '' @ render_path ''a/'' (fp_old_path f)) # (''+++ '' @ render_path ''b/'' (fp_new_path f))
                   # concat (map render_hunk (fp_hunks f))"

definition render :: "file_patch list \<Rightarrow> string" where
  "render ps = unlines (concat (map render_file ps))"

subsection \<open>Printable patches\<close>

definition printable_hunk :: "diff_hunk \<Rightarrow> bool" where
  "printable_hunk h \<longleftrightarrow> list_all (\<lambda>l. hunk_line l \<and> \<not> starts_with ''--- '' l \<and> plain_line l) (dh_lines h)"

definition printable_path :: "string \<Rightarrow> bool" where
  "printable_path p \<longleftrightarrow> p \<noteq> [] \<and> py_strip p = p \<and> TAB \<notin> set p \<and> plain_line p"

definition printable_file :: "file_patch \<Rightarrow> bool" where
  "printable_file f \<longleftrightarrow> (\<forall>p\<in>set_option (fp_old_path f). printable_path p) \<and> (\<forall>p\<in>set_option (fp_new_path f). printable_path p)
     \<and> fp_hunks f \<noteq> [] \<and> list_all printable_hunk (fp_hunks f)"

definition stops_hunk :: "string list \<Rightarrow> bool" where
  "stops_hunk rest \<longleftrightarrow> rest = [] \<or> starts_with ''--- '' (hd rest) \<or> starts_with ''@@ '' (hd rest)"

lemma take_hunk_body:
  "list_all (\<lambda>l. hunk_line l \<and> \<not> starts_with ''--- '' l \<and> plain_line l) body \<Longrightarrow> stops_hunk rest \<Longrightarrow>
     take_hunk (body @ rest) = (body, rest)"
proof (induction body)
  case Nil
  then show ?case by (cases rest) (auto simp: stops_hunk_def)
next
  case (Cons l body)
  then have "\<not> starts_with ''@@ '' l" "l \<noteq> no_newline_marker"
    by (auto simp: starts_with_def no_newline_marker_def prefix_def elim!: hunk_lineE)
  then show ?case using Cons by simp
qed

lemma parse_header_show: "parse_hunk_header (hunk_header h) = Some (dh_old_start h, dh_old_count h, dh_new_start h, dh_new_count h)"
proof -
  let ?r = "'' +'' @ show_nat (dh_new_start h) @ '','' @ show_nat (dh_new_count h) @ '' @@''"
  have d: "drop 4 (hunk_header h) = show_nat (dh_old_start h) @ '','' @ show_nat (dh_old_count h) @ ?r"
    by (simp add: hunk_header_def)
  have "header_range (drop 4 (hunk_header h)) = Some (dh_old_start h, dh_old_count h, ?r)"
    unfolding d by (rule header_range_show) (simp add: is_digit_def)
  moreover have "header_range (drop 2 ?r) = Some (dh_new_start h, dh_new_count h, '' @@'')"
    using header_range_show [of "'' @@''" "dh_new_start h" "dh_new_count h"] by (simp add: is_digit_def)
  ultimately show ?thesis
    by (simp add: parse_hunk_header_def starts_with_def hunk_header_def)
qed

lemma hunk_header_start: "starts_with ''@@ '' (hunk_header h)" "\<not> starts_with ''--- '' (hunk_header h)"
  "\<not> starts_with ''diff --git '' (hunk_header h)" "\<not> starts_with ''index '' (hunk_header h)"
  by (simp_all add: hunk_header_def starts_with_def)

lemma stops_render: "rest = [] \<or> starts_with ''--- '' (hd rest) \<Longrightarrow> stops_hunk (concat (map render_hunk hs) @ rest)"
  by (cases hs) (auto simp: stops_hunk_def render_hunk_def hunk_header_start)

lemma parse_rendered_hunks:
  "list_all printable_hunk hs \<Longrightarrow> rest = [] \<or> starts_with ''--- '' (hd rest) \<Longrightarrow>
     parse_hunks (concat (map render_hunk hs) @ rest) = (Inr hs, rest)"
proof (induction hs)
  case Nil
  then show ?case by (cases rest) auto
next
  case (Cons h hs)
  let ?more = "concat (map render_hunk hs) @ rest"
  have "take_hunk (dh_lines h @ ?more) = (dh_lines h, ?more)"
    using Cons.prems by (intro take_hunk_body stops_render) (simp_all add: printable_hunk_def)
  moreover have "parse_hunks ?more = (Inr hs, rest)" using Cons by simp
  ultimately show ?case
    by (simp add: render_hunk_def [of h] hunk_header_start parse_header_show)
qed

lemma strip_space_ends: "py_strip p = p \<Longrightarrow> p \<noteq> [] \<Longrightarrow> \<not> py_space (hd p) \<and> \<not> py_space (last p)"
proof -
  assume p: "py_strip p = p" "p \<noteq> []"
  have le: "length (py_strip p) \<le> length (dropWhile py_space p)"
    by (simp add: py_strip_def strip_both_def strip_right_def strip_left_def length_dropWhile_le)
      (metis length_dropWhile_le length_rev)
  have "\<not> py_space (hd p)"
  proof
    assume "py_space (hd p)"
    then have "length (dropWhile py_space p) < length p"
      using p(2) by (cases p) (simp_all add: le_imp_less_Suc length_dropWhile_le)
    then show False using le p(1) by simp
  qed
  moreover have "\<not> py_space (last p)"
  proof
    assume sp: "py_space (last p)"
    have "dropWhile py_space p = p" using \<open>\<not> py_space (hd p)\<close> p(2) by (cases p) simp_all
    then have "py_strip p = rev (dropWhile py_space (rev p))"
      by (simp add: py_strip_def strip_both_def strip_right_def strip_left_def)
    moreover have "length (dropWhile py_space (rev p)) < length p"
    proof -
      obtain q where "rev p = last p # q" using p(2) by (metis append_butlast_last_id rev.simps(2) rev_rev_ident rev_eq_Cons_iff)
      then show ?thesis using sp by (metis dropWhile.simps(2) le_imp_less_Suc length_Cons length_dropWhile_le length_rev)
    qed
    ultimately show False using p(1) by (metis length_rev less_irrefl)
  qed
  ultimately show ?thesis by blast
qed

lemma strip_ends: "s \<noteq> [] \<Longrightarrow> \<not> py_space (hd s) \<Longrightarrow> \<not> py_space (last s) \<Longrightarrow> py_strip s = s"
proof -
  assume s: "s \<noteq> []" "\<not> py_space (hd s)" "\<not> py_space (last s)"
  have "dropWhile py_space s = s" using s by (cases s) simp_all
  moreover have "dropWhile py_space (rev s) = rev s"
    using s(1,3) by (simp add: dropWhile_eq_self_iff hd_rev)
  ultimately show ?thesis by (simp add: py_strip_def strip_both_def strip_left_def strip_right_def)
qed

lemma normalize_rendered_path:
  assumes p: "\<forall>q\<in>set_option p. printable_path q" and side: "side = ''a/'' \<or> side = ''b/''"
  shows "normalize_diff_path (render_path side p) = p"
proof (cases p)
  case None
  then show ?thesis by (simp add: render_path_def) code_simp
next
  case (Some q)
  have q: "q \<noteq> []" "py_strip q = q" "TAB \<notin> set q" using p Some by (auto simp: printable_path_def)
  have "py_strip (side @ q) = side @ q"
    using side strip_space_ends [OF q(2,1)] q(1) by (intro strip_ends) (auto simp: py_space_def)
  moreover have "split_at TAB (side @ q) = [side @ q]" using q(3) side by (intro split_at_plain) auto
  ultimately show ?thesis
    using side q by (auto simp: Some render_path_def normalize_diff_path_def starts_with_def)
qed

lemma header_lines:
  "starts_with ''--- '' (''--- '' @ x)" "starts_with ''+++ '' (''+++ '' @ x)" "drop 4 (''--- '' @ x) = x" "drop 4 (''+++ '' @ x) = x"
  by (simp_all add: starts_with_def)

lemma parse_one_file:
  "parse_hunks ms = (Inr hs, rest) \<Longrightarrow> hs \<noteq> [] \<Longrightarrow>
     parse_files ((''--- '' @ old) # (''+++ '' @ new) # ms) = rbind (parse_files rest) (\<lambda>ps.
       Inr (\<lparr>fp_old_path = normalize_diff_path old, fp_new_path = normalize_diff_path new, fp_hunks = hs\<rparr> # ps))"
  by (simp add: starts_with_def)

lemma parse_rendered_files: "list_all printable_file ps \<Longrightarrow> parse_files (concat (map render_file ps)) = Inr ps"
proof (induction ps)
  case (Cons f ps)
  let ?rest = "concat (map render_file ps)"
  have "?rest = [] \<or> starts_with ''--- '' (hd ?rest)"
    by (cases ps) (simp_all add: render_file_def starts_with_def)
  then have "parse_hunks (concat (map render_hunk (fp_hunks f)) @ ?rest) = (Inr (fp_hunks f), ?rest)"
    using Cons.prems by (intro parse_rendered_hunks) (simp_all add: printable_file_def)
  moreover have "parse_files ?rest = Inr ps" using Cons by simp
  moreover have "normalize_diff_path (render_path ''a/'' (fp_old_path f)) = fp_old_path f"
    "normalize_diff_path (render_path ''b/'' (fp_new_path f)) = fp_new_path f"
    using Cons.prems by (simp_all add: normalize_rendered_path printable_file_def)
  moreover have "fp_hunks f \<noteq> []" using Cons.prems by (simp add: printable_file_def)
  ultimately show ?case
    unfolding list.map concat.simps render_file_def [of f] append_Cons by (simp add: starts_with_def)
qed simp

lemma plain_show: "plain_line (show_nat n)"
proof -
  have "\<not> line_break c" if "is_digit c" for c
    using that by (auto simp: line_break_def is_digit_def)
  then show ?thesis using show_nat_digits [of n] by (auto simp: plain_line_def list_all_iff)
qed

lemma plain_rendered: "list_all printable_file ps \<Longrightarrow> list_all plain_line (concat (map render_file ps))"
proof (induction ps)
  case (Cons f ps)
  have h: "list_all plain_line (concat (map render_hunk hs))" if "list_all printable_hunk hs" for hs
    using that
    by (induction hs) (auto simp: render_hunk_def hunk_header_def printable_hunk_def list_all_iff plain_show line_break_def)
  show ?case
    using Cons h [of "fp_hunks f"]
    by (auto simp: render_file_def printable_file_def render_path_def printable_path_def line_break_def split: option.splits)
qed simp

text \<open>C20: a unified diff printed from patches whose paths have no blank ends and whose body lines do not
  look like file headers is parsed back to these patches: paths, all four numbers of every hunk
  header and every line.\<close>

theorem parse_render:
  assumes "list_all printable_file patches" and "patches \<noteq> []" and "\<not> contains ''*** Begin Patch'' (render patches)"
  shows "parse_unified_diff (render patches) = Inr patches"
proof -
  have "splitlines (render patches) = concat (map render_file patches)"
    unfolding render_def by (rule splitlines_unlines) (rule plain_rendered [OF assms(1)])
  then show ?thesis using assms(2,3) by (simp add: parse_unified_diff_def parse_rendered_files [OF assms(1)])
qed

definition demo_patch :: file_patch where
  "demo_patch = \<lparr>fp_old_path = None, fp_new_path = Some ''x.py'', fp_hunks = [demo_hunk]\<rparr>"

theorem parse_render_witness: "parse_unified_diff (render [demo_patch]) = Inr [demo_patch]"
  by (rule parse_render) code_simp+

text \<open>A hunk that removes a line starting with \<open>-- \<close> (an SQL comment, say) is not parsed: its text
  \<open>--- ..\<close> is taken for the header of another file, and the diff is rejected when the next line is not
  a \<open>+++ \<close> header, whatever the paths, the header and the rest.\<close>

theorem removed_dashes_taken_for_header:
  assumes "list_all (\<lambda>l. hunk_line l \<and> \<not> starts_with ''--- '' l \<and> plain_line l) before"
    and "\<not> starts_with ''+++ '' next_line" and "parse_hunk_header header = Some (os, oc, ns, nc)"
    and "starts_with ''@@ '' header" and "\<not> starts_with ''--- '' header"
  shows "parse_files ((''--- '' @ old) # (''+++ '' @ new) # header # before @ (''--- '' @ comment) # next_line # others)
           = Inl (ValueError ''unified diff is missing a `+++` header'')"
proof -
  let ?rest = "(''--- '' @ comment) # next_line # others"
  have "take_hunk (before @ ?rest) = (before, ?rest)"
    using assms(1) by (rule take_hunk_body) (simp add: stops_hunk_def starts_with_def)
  moreover have "parse_hunks ?rest = (Inr [], ?rest)" by (simp add: starts_with_def)
  moreover have "\<not> starts_with ''diff --git '' header" "\<not> starts_with ''index '' header"
    using assms(4) by (auto simp: starts_with_def prefix_def)
  ultimately have h: "parse_hunks (header # before @ ?rest)
      = (Inr [\<lparr>dh_old_start = os, dh_old_count = oc, dh_new_start = ns, dh_new_count = nc, dh_lines = before\<rparr>], ?rest)"
    using assms(3-5) by simp
  have "parse_files ?rest = Inl (ValueError ''unified diff is missing a `+++` header'')"
    using assms(2) by (simp add: starts_with_def)
  then show ?thesis
    unfolding parse_one_file [OF h list.distinct(2)] by simp
qed

theorem removed_dashes_taken_for_header_witness:
  "parse_files [''--- a/x.sql'', ''+++ b/x.sql'', ''@@ -1,3 +1,2 @@'', '' select 1;'', ''--- old note'', '' select 2;'']
     = Inl (ValueError ''unified diff is missing a `+++` header'')"
  using removed_dashes_taken_for_header [of "['' select 1;'']" "'' select 2;''" "''@@ -1,3 +1,2 @@''" 1 3 1 2 "''a/x.sql''" "''b/x.sql''" "''old note''" "[]"]
  by (simp add: hunk_line_def starts_with_def line_break_def) code_simp

end
