(* ===== verification/Workspace.thy ===== *)
theory Workspace
  imports Patch_Engine "HOL-Library.AList"
begin

section \<open>The workspace a patch is applied to\<close>

text \<open>
  A file system without symbolic links: files by absolute path and the directories. Text is
  identified with its encoding; \<open>Binary\<close> is a file that is not UTF-8. \<open>capture_workspace_snapshot\<close>,
  \<open>restore_workspace_snapshot\<close>, \<open>extract_touched_paths\<close>, \<open>extract_deleted_paths\<close> and
  \<open>apply_unified_diff\<close> of \<^verbatim>\<open>packages/core_domain/repo_mutation.py\<close>. An operation that writes returns the
  workspace it leaves next to its result, since an \<open>OSError\<close> leaves the writes made before it.
\<close>

datatype filedata = Text string | Binary string

record workspace =
  ws_files :: "(apath \<times> filedata) list"
  ws_dirs :: "apath list"

subsection \<open>File operations\<close>

definition file_at :: "workspace \<Rightarrow> apath \<Rightarrow> filedata option" where
  "file_at ws p = map_of (ws_files ws) p"

definition is_dir :: "workspace \<Rightarrow> apath \<Rightarrow> bool" where
  "is_dir ws p \<longleftrightarrow> p = [] \<or> p \<in> set (ws_dirs ws)"

definition exists_at :: "workspace \<Rightarrow> apath \<Rightarrow> bool" where
  "exists_at ws p \<longleftrightarrow> file_at ws p \<noteq> None \<or> is_dir ws p"

text \<open>\<open>Path.read_text\<close>: a directory is not readable, invalid UTF-8 is a \<open>ValueError\<close>.\<close>

definition read_text :: "workspace \<Rightarrow> apath \<Rightarrow> werror + string" where
  "read_text ws p =
     (case file_at ws p of
        Some (Text s) \<Rightarrow> Inr (universal_newlines s)
      | Some (Binary _) \<Rightarrow> Inl (ValueError ''UnicodeDecodeError'')
      | None \<Rightarrow> Inl (OSError (if is_dir ws p then ''IsADirectoryError'' else ''FileNotFoundError'')))"

text \<open>\<open>mkdir(parents=True, exist_ok=True)\<close>: fails when a file is in the way.\<close>

definition mkdirs :: "workspace \<Rightarrow> apath \<Rightarrow> werror + workspace" where
  "mkdirs ws p =
     (if list_ex (\<lambda>n. file_at ws (take n p) \<noteq> None) [1..<Suc (length p)] then Inl (OSError ''FileExistsError'')
      else Inr (ws\<lparr>ws_dirs := ws_dirs ws @ filter (\<lambda>q. \<not> is_dir ws q) (map (\<lambda>n. take n p) [1..<Suc (length p)])\<rparr>))"

definition put_file :: "apath \<Rightarrow> filedata \<Rightarrow> workspace \<Rightarrow> workspace" where
  "put_file p f ws = ws\<lparr>ws_files := AList.update p f (ws_files ws)\<rparr>"

definition remove_file :: "apath \<Rightarrow> workspace \<Rightarrow> workspace" where
  "remove_file p ws = ws\<lparr>ws_files := AList.delete p (ws_files ws)\<rparr>"

text \<open>\<open>target.parent.mkdir(..)\<close> and \<open>target.write_text(..)\<close>, \<open>target.unlink()\<close>.\<close>

definition write_file :: "apath \<Rightarrow> filedata \<Rightarrow> workspace \<Rightarrow> workspace \<times> (werror + unit)" where
  "write_file p f ws =
     (case mkdirs ws (butlast p) of
        Inl e \<Rightarrow> (ws, Inl e)
      | Inr ws' \<Rightarrow> if is_dir ws' p then (ws', Inl (OSError ''IsADirectoryError'')) else (put_file p f ws', Inr ()))"

definition unlink_file :: "apath \<Rightarrow> workspace \<Rightarrow> workspace \<times> (werror + unit)" where
  "unlink_file p ws =
     (if file_at ws p \<noteq> None then (remove_file p ws, Inr ()) else (ws, Inl (OSError ''unlink'')))"

definition unlink_existing :: "apath \<Rightarrow> workspace \<Rightarrow> workspace \<times> (werror + unit)" where
  "unlink_existing p ws = (if exists_at ws p then unlink_file p ws else (ws, Inr ()))"

text \<open>One effect after another, up to the first that fails.\<close>

fun run_effects :: "('a \<Rightarrow> workspace \<Rightarrow> workspace \<times> (werror + unit)) \<Rightarrow> 'a list \<Rightarrow> workspace \<Rightarrow> workspace \<times> (werror + unit)" where
  "run_effects f [] ws = (ws, Inr ())"
| "run_effects f (x # xs) ws =
     (case f x ws of
        (ws', Inl e) \<Rightarrow> (ws', Inl e)
      | (ws', Inr _) \<Rightarrow> run_effects f xs ws')"

subsection \<open>Applying a patch\<close>

type_synonym planned_write = "apath \<times> string option"

definition patched_text :: "string list \<Rightarrow> string" where
  "patched_text ls = join [LF] ls @ (if ls = [] then [] else [LF])"

definition plan_file ::
  "apath \<Rightarrow> apath list \<Rightarrow> string list \<Rightarrow> workspace \<Rightarrow> file_patch \<Rightarrow> werror + string \<times> planned_write" where
  "plan_file root ext allowed ws f =
     (if touched_path f = [] then Inl (ValueError ''patch is missing a target path'')
      else rbind (normalize_rel_path root ext (touched_path f)) (\<lambda>rel.
           rbind (rguard (is_path_allowed rel allowed) (ValueError ''patch attempted to modify out-of-scope path'')) (\<lambda>_.
           let target = absolute_for_normalized_path root rel
           in if fp_new_path f = None then Inr (rel, target, None)
              else if fp_old_path f = None \<and> exists_at ws target
              then Inl (ValueError ''new-file patch target already exists'')
              else rbind (if fp_old_path f = None \<or> \<not> exists_at ws target then Inr [] else read_text ws target) (\<lambda>original.
                   rbind (apply_hunks (splitlines original) (fp_hunks f)) (\<lambda>updated.
                     Inr (rel, target, Some (patched_text updated)))))))"

definition perform_write :: "planned_write \<Rightarrow> workspace \<Rightarrow> workspace \<times> (werror + unit)" where
  "perform_write w ws =
     (case w of
        (target, None) \<Rightarrow> unlink_existing target ws
      | (target, Some text) \<Rightarrow> write_file target (Text text) ws)"

definition plan_patch ::
  "apath \<Rightarrow> apath list \<Rightarrow> string list \<Rightarrow> workspace \<Rightarrow> string \<Rightarrow> werror + (string \<times> planned_write) list" where
  "plan_patch root ext allowed ws text = rbind (parse_unified_diff text) (rmap (plan_file root ext allowed ws))"

definition apply_unified_diff ::
  "apath \<Rightarrow> apath list \<Rightarrow> string list \<Rightarrow> string \<Rightarrow> workspace \<Rightarrow> workspace \<times> (werror + string list)" where
  "apply_unified_diff root ext allowed text ws =
     (case plan_patch root ext allowed ws text of
        Inl e \<Rightarrow> (ws, Inl e)
      | Inr plan \<Rightarrow>
          (case run_effects perform_write (map snd plan) ws of
             (ws', Inl e) \<Rightarrow> (ws', Inl e)
           | (ws', Inr _) \<Rightarrow> (ws', Inr (sorted_list_of_set (set (map fst plan))))))"

definition extract_touched_paths :: "apath \<Rightarrow> apath list \<Rightarrow> string \<Rightarrow> werror + string list" where
  "extract_touched_paths root ext text =
     rbind (parse_unified_diff text) (\<lambda>ps.
       rmap (\<lambda>f. normalize_rel_path root ext (touched_path f)) (filter (\<lambda>f. touched_path f \<noteq> []) ps))"

definition extract_deleted_paths :: "apath \<Rightarrow> apath list \<Rightarrow> string \<Rightarrow> werror + string list" where
  "extract_deleted_paths root ext text =
     rbind (parse_unified_diff text) (\<lambda>ps.
       rmap (\<lambda>f. normalize_rel_path root ext (touched_path f))
         (filter (\<lambda>f. touched_path f \<noteq> [] \<and> fp_new_path f = None) ps))"

subsection \<open>Snapshots\<close>

text \<open>A snapshot maps normalised paths to what was there; \<open>None\<close> records that nothing was.\<close>

type_synonym snapshot = "(string \<times> filedata option) list"

definition rel_name :: "apath \<Rightarrow> apath \<Rightarrow> string" where
  "rel_name root p = (if path_is_under p root then posix_rel (drop (length root) p) else posix_abs p)"

definition files_below :: "workspace \<Rightarrow> apath \<Rightarrow> apath list" where
  "files_below ws d = filter (\<lambda>p. strict_prefix d p) (map fst (ws_files ws))"

text \<open>
  A glob entry of the write set: the fixed directories before the first component with a marker, then
  \<open>Path.glob\<close>: \<open>**\<close> stands for any number of directories, at the end for everything below, any other
  component is matched by \<open>fnmatch\<close>.
\<close>

fun glob_parts :: "string list \<Rightarrow> string list \<Rightarrow> bool" where
  "glob_parts [] ps \<longleftrightarrow> ps = []"
| "glob_parts (g # gs) [] \<longleftrightarrow> False"
| "glob_parts (g # gs) (p # ps) \<longleftrightarrow>
     (if g = ''**'' then gs = [] \<or> glob_parts gs (p # ps) \<or> glob_parts (g # gs) ps
      else fnmatchcase p g \<and> glob_parts gs ps)"

definition existing_glob_files :: "apath \<Rightarrow> apath list \<Rightarrow> workspace \<Rightarrow> string \<Rightarrow> apath list" where
  "existing_glob_files root ext ws raw =
     (let parts = path_parts raw;
          fixed = takeWhile (\<lambda>p. \<not> has_glob_marker p) parts;
          pat = dropWhile (\<lambda>p. \<not> has_glob_marker p) parts;
          base = foldl resolve_step (if is_absolute raw then [] else root) fixed
      in if pat = [] then []
         else if \<not> path_is_under base root \<and> \<not> list_ex (path_is_under base) ext then []
         else if \<not> is_dir ws base then []
         else sort_key posix_abs
                (filter (\<lambda>p. strict_prefix base p \<and>
                   (pat = [''**''] \<or> pat = [''**'', ''*''] \<or> glob_parts pat (drop (length base) p)))
                   (map fst (ws_files ws))))"

definition snapshot_files :: "apath \<Rightarrow> workspace \<Rightarrow> apath list \<Rightarrow> snapshot \<Rightarrow> snapshot" where
  "snapshot_files root ws ps snap = foldl (\<lambda>s p. AList.update (rel_name root p) (file_at ws p) s) snap ps"

fun capture_from :: "apath \<Rightarrow> apath list \<Rightarrow> workspace \<Rightarrow> string list \<Rightarrow> snapshot \<Rightarrow> werror + snapshot" where
  "capture_from root ext ws [] snap = Inr snap"
| "capture_from root ext ws (raw # raws) snap =
     rbind (normalize_rel_path root ext raw) (\<lambda>rel.
       let absolute = absolute_for_normalized_path root rel
       in capture_from root ext ws raws
            (if has_glob_marker raw then snapshot_files root ws (existing_glob_files root ext ws raw) snap
             else if is_dir ws absolute then snapshot_files root ws (files_below ws absolute) snap
             else AList.update rel (file_at ws absolute) snap))"

definition capture_workspace_snapshot :: "apath \<Rightarrow> apath list \<Rightarrow> workspace \<Rightarrow> string list \<Rightarrow> werror + snapshot" where
  "capture_workspace_snapshot root ext ws write_set = capture_from root ext ws write_set []"

definition restore_entry :: "apath \<Rightarrow> string \<times> filedata option \<Rightarrow> workspace \<Rightarrow> workspace \<times> (werror + unit)" where
  "restore_entry root entry ws =
     (let absolute = absolute_for_normalized_path root (fst entry)
      in case snd entry of
           Some f \<Rightarrow> write_file absolute f ws
         | None \<Rightarrow> unlink_existing absolute ws)"

definition restore_extra :: "apath \<Rightarrow> apath list \<Rightarrow> string list \<Rightarrow> string \<Rightarrow> workspace \<Rightarrow> workspace \<times> (werror + unit)" where
  "restore_extra root ext restored raw ws =
     (case normalize_rel_path root ext raw of
        Inl e \<Rightarrow> (ws, Inl e)
      | Inr rel \<Rightarrow>
          if rel \<in> set restored then (ws, Inr ())
          else unlink_existing (absolute_for_normalized_path root rel) ws)"

definition restore_workspace_snapshot ::
  "apath \<Rightarrow> apath list \<Rightarrow> snapshot \<Rightarrow> string list \<Rightarrow> workspace \<Rightarrow> workspace \<times> (werror + unit)" where
  "restore_workspace_snapshot root ext snap extra ws =
     (case run_effects (restore_entry root) snap ws of
        (ws', Inl e) \<Rightarrow> (ws', Inl e)
      | (ws', Inr _) \<Rightarrow> run_effects (restore_extra root ext (map fst snap)) extra ws')"

end
