(* ===== verification/Workspace_Laws.thy ===== *)
theory Workspace_Laws
  imports Workspace Patch_Laws
begin

section \<open>What a patch does to a workspace\<close>

text \<open>
  Frame lemmas of the file operations, then the properties of \<open>apply_unified_diff\<close> and of taking a
  snapshot and restoring it.
\<close>

subsection \<open>Frames\<close>

lemma file_at_put [simp]: "file_at (put_file p f ws) q = (if q = p then Some f else file_at ws q)"
  by (simp add: file_at_def put_file_def update_conv)

lemma file_at_remove [simp]: "file_at (remove_file p ws) q = (if q = p then None else file_at ws q)"
  by (simp add: file_at_def remove_file_def delete_conv)

lemma file_at_mkdirs: "mkdirs ws p = Inr ws' \<Longrightarrow> file_at ws' q = file_at ws q"
  by (auto simp: mkdirs_def file_at_def split: if_splits)

lemma write_file_effect:
  "write_file p f ws = (ws', r) \<Longrightarrow> file_at ws' q = (if q = p \<and> r = Inr () then Some f else file_at ws q)"
  by (auto simp: write_file_def file_at_mkdirs split: sum.splits if_splits)

lemma unlink_existing_effect:
  "unlink_existing p ws = (ws', r) \<Longrightarrow> file_at ws' q = (if q = p \<and> r = Inr () then None else file_at ws q)"
  by (auto simp: unlink_existing_def unlink_file_def exists_at_def split: if_splits)

lemma write_file_error: "write_file p f ws = (ws', Inl e) \<Longrightarrow> \<exists>m. e = OSError m"
  by (auto simp: write_file_def mkdirs_def split: sum.splits if_splits)

lemma unlink_error: "unlink_existing p ws = (ws', Inl e) \<Longrightarrow> \<exists>m. e = OSError m"
  by (auto simp: unlink_existing_def unlink_file_def split: if_splits)

text \<open>An effect that leaves alone every path but its own, run over a list.\<close>

lemma run_effects_frame:
  assumes f: "\<And>x ws ws' r q. f x ws = (ws', r) \<Longrightarrow> q \<noteq> at x \<Longrightarrow> file_at ws' q = file_at ws q"
    and run: "run_effects f xs ws = (ws', r)" and q: "q \<notin> at ` set xs"
  shows "file_at ws' q = file_at ws q"
  using run q
proof (induction xs arbitrary: ws)
  case (Cons x xs)
  obtain w1 r1 where one: "f x ws = (w1, r1)" by (cases "f x ws")
  have same: "file_at w1 q = file_at ws q" using f [OF one] Cons.prems(2) by simp
  then show ?case using Cons one by (cases r1) auto
qed simp

lemma run_effects_error:
  assumes f: "\<And>x ws ws' e. f x ws = (ws', Inl e) \<Longrightarrow> \<exists>m. e = OSError m"
  shows "run_effects f xs ws = (ws', Inl e) \<Longrightarrow> \<exists>m. e = OSError m"
proof (induction xs arbitrary: ws)
  case (Cons x xs)
  obtain w1 r1 where "f x ws = (w1, r1)" by (cases "f x ws")
  then show ?case using Cons f by (cases r1) auto
qed simp

lemma run_effects_append:
  "run_effects f (xs @ ys) ws =
     (case run_effects f xs ws of (ws', Inl e) \<Rightarrow> (ws', Inl e) | (ws', Inr _) \<Rightarrow> run_effects f ys ws')"
  by (induction xs arbitrary: ws) (auto split: prod.splits sum.splits)

subsection \<open>Applying\<close>

lemma perform_write_frame: "perform_write w ws = (ws', r) \<Longrightarrow> q \<noteq> fst w \<Longrightarrow> file_at ws' q = file_at ws q"
  by (auto simp: perform_write_def write_file_effect unlink_existing_effect split: prod.splits option.splits)

lemma perform_write_effect:
  "perform_write w ws = (ws', Inr u) \<Longrightarrow> file_at ws' (fst w) = map_option Text (snd w)"
  by (auto simp: perform_write_def write_file_effect unlink_existing_effect split: prod.splits option.splits)

lemma perform_write_error: "perform_write w ws = (ws', Inl e) \<Longrightarrow> \<exists>m. e = OSError m"
  by (auto simp: perform_write_def dest: write_file_error unlink_error split: prod.splits option.splits)

lemma plan_fileD:
  assumes "plan_file root ext allowed ws f = Inr (rel, target, w)"
  shows "is_path_allowed rel allowed" and "normalize_rel_path root ext (touched_path f) = Inr rel"
    and "target = absolute_for_normalized_path root rel" and "touched_path f \<noteq> []" and "w = None \<longleftrightarrow> fp_new_path f = None"
  using assms by (auto simp: plan_file_def Let_def rbind_eq_Inr split: if_splits)

lemma rmap_mem: "rmap f xs = Inr ys \<Longrightarrow> y \<in> set ys \<Longrightarrow> \<exists>x\<in>set xs. f x = Inr y"
  by (induction xs arbitrary: ys) (auto simp: rbind_eq_Inr)

lemma plan_mem:
  "plan_patch root ext allowed ws text = Inr plan \<Longrightarrow> e \<in> set plan \<Longrightarrow> \<exists>f. plan_file root ext allowed ws f = Inr e"
  by (auto simp: plan_patch_def rbind_eq_Inr dest!: rmap_mem)

lemma apply_cases:
  assumes "apply_unified_diff root ext allowed text ws = (ws', res)"
  obtains (rejected) e where "plan_patch root ext allowed ws text = Inl e" "res = Inl e" "ws' = ws"
    | (written) plan where "plan_patch root ext allowed ws text = Inr plan"
        "run_effects perform_write (map snd plan) ws = (ws', Inr ())" "res = Inr (sorted_list_of_set (set (map fst plan)))"
    | (failed) plan m where "plan_patch root ext allowed ws text = Inr plan"
        "run_effects perform_write (map snd plan) ws = (ws', Inl (OSError m))" "res = Inl (OSError m)"
proof (cases "plan_patch root ext allowed ws text")
  case (Inl e)
  have "res = Inl e" "ws' = ws" using assms by (simp_all add: apply_unified_diff_def Inl)
  then show ?thesis by (rule rejected [OF Inl])
next
  case (Inr plan)
  note pl = this
  obtain w r where run: "run_effects perform_write (map snd plan) ws = (w, r)" by (cases "run_effects perform_write (map snd plan) ws")
  show ?thesis
  proof (cases r)
    case (Inl e)
    obtain m where m: "e = OSError m"
      using run_effects_error [of perform_write "map snd plan" ws w e] perform_write_error run Inl by blast
    have e: "run_effects perform_write (map snd plan) ws = (w, Inl (OSError m))" using run Inl m by simp
    have "ws' = w" "res = Inl (OSError m)" using assms by (simp_all add: apply_unified_diff_def pl e)
    then show ?thesis using failed [OF pl] e by blast
  next
    case (Inr u)
    then have e: "run_effects perform_write (map snd plan) ws = (w, Inr ())" using run by simp
    have "ws' = w" "res = Inr (sorted_list_of_set (set (map fst plan)))"
      using assms by (simp_all add: apply_unified_diff_def pl e)
    then show ?thesis using written [OF pl] e by blast
  qed
qed

lemma plan_frame:
  assumes "run_effects perform_write (map snd plan) ws = (ws', r)" and "q \<notin> (fst \<circ> snd) ` set plan"
  shows "file_at ws' q = file_at ws q"
  using run_effects_frame [of perform_write fst "map snd plan" ws ws' r q] assms
  by (auto dest: perform_write_frame)

text \<open>A normalised path is the name of the place it denotes.\<close>

lemma normalize_name:
  assumes root: "clean root" and n: "normalize_rel_path root ext raw = Inr rel"
  shows "rel = rel_name root (absolute_for_normalized_path root rel)"
  using normalize_absolute(1) [OF root n] n by (auto simp: rel_name_def normalize_rel_path_def Let_def split: if_splits)

lemma absolute_rel_name:
  assumes root: "clean root" and p: "clean p"
  shows "absolute_for_normalized_path root (rel_name root p) = p"
proof (cases "path_is_under p root")
  case True
  then obtain q where q: "p = root @ q" by (auto simp: path_is_under_def prefix_def)
  then show ?thesis using p True by (simp add: rel_name_def absolute_for_normalized_path_def resolve_posix_rel clean_def)
next
  case False
  then show ?thesis using p by (simp add: rel_name_def absolute_for_normalized_path_def resolve_posix_abs)
qed

text \<open>C21: applying a patch changes files only at paths that the write set allows and that lie under the
  workspace root or an external root, whatever the patch says and even when it fails; and a patch
  that is rejected for its contents (any \<open>ValueError\<close>) changes nothing.\<close>

theorem apply_stays_in_scope:
  assumes root: "clean root" and run: "apply_unified_diff root ext allowed text ws = (ws', res)"
  shows "{p. file_at ws' p \<noteq> file_at ws p}
           \<subseteq> {p. is_path_allowed (rel_name root p) allowed \<and> (path_is_under p root \<or> list_ex (path_is_under p) ext)}
     \<and> (ws' = ws \<or> (\<forall>m. res \<noteq> Inl (ValueError m)))"
proof -
  have scope: "is_path_allowed (rel_name root p) allowed \<and> (path_is_under p root \<or> list_ex (path_is_under p) ext)"
    if plan: "plan_patch root ext allowed ws text = Inr plan" and w: "run_effects perform_write (map snd plan) ws = (ws', r)"
      and p: "file_at ws' p \<noteq> file_at ws p" for plan r p
  proof -
    have "p \<in> (fst \<circ> snd) ` set plan" using plan_frame [OF w, of p] p by blast
    then obtain e where e: "e \<in> set plan" "p = fst (snd e)" by auto
    obtain f where "plan_file root ext allowed ws f = Inr (fst e, fst (snd e), snd (snd e))"
      using plan_mem [OF plan e(1)] by auto
    note d = plan_fileD [OF this]
    then show ?thesis using e(2) normalize_absolute [OF root d(2)] normalize_name [OF root d(2)] by auto
  qed
  show ?thesis
    using run
  proof (cases rule: apply_cases)
    case rejected
    then show ?thesis by simp
  next
    case (written plan)
    then show ?thesis using scope by auto
  next
    case (failed plan m)
    then show ?thesis using scope by auto
  qed
qed

definition demo_ws :: workspace where
  "demo_ws = \<lparr>ws_files = [([''w'', ''src'', ''x.py''], Text (unlines [''b'', ''b'', ''d'']))], ws_dirs = [[''w''], [''w'', ''src'']]\<rparr>"

definition demo_diff :: string where
  "demo_diff = unlines [''--- a/src/x.py'', ''+++ b/src/x.py'', ''@@ -2,2 +2,2 @@'', '' b'', ''+c'', ''-d'']"

theorem apply_stays_in_scope_witness:
  "{p. file_at (fst (apply_unified_diff [''w''] [] [''src''] demo_diff demo_ws)) p \<noteq> file_at demo_ws p}
     \<subseteq> {p. is_path_allowed (rel_name [''w''] p) [''src''] \<and> (path_is_under p [''w''] \<or> list_ex (path_is_under p) [])}"
proof -
  have c: "clean [''w'']" by code_simp
  show ?thesis using apply_stays_in_scope [OF c prod.collapse [symmetric], of "[]" "[''src'']" demo_diff demo_ws] by blast
qed

lemma rmap_split:
  "rmap f (xs @ x # ys) = Inr zs \<Longrightarrow> \<exists>as a bs. zs = as @ a # bs \<and> f x = Inr a \<and> rmap f ys = Inr bs \<and> rmap f xs = Inr as"
proof (induction xs arbitrary: zs)
  case (Cons y xs)
  then obtain b bs where "f y = Inr b" "rmap f (xs @ x # ys) = Inr bs" "zs = b # bs" by (auto simp: rbind_eq_Inr)
  then show ?case using Cons.IH [of bs] by (metis (no_types, lifting) append_Cons rbind_simps(2) rmap.simps(2))
qed (auto simp: rbind_eq_Inr)

text \<open>After a successful application a patched file holds its original text, as it was before the whole
  patch, edited by the hunks of the last section of the patch that names it; earlier sections for the
  same file are lost.\<close>

theorem apply_result_is_last_section:
  assumes root: "clean root" and ps: "parse_unified_diff text = Inr (before @ f # others)"
    and run: "apply_unified_diff root ext allowed text ws = (ws', Inr touched)"
    and new: "fp_old_path f \<noteq> None" "fp_new_path f \<noteq> None"
    and target: "p = resolve_onto root (touched_path f)" "file_at ws p = Some (Text original)"
    and last: "\<forall>g\<in>set others. resolve_onto root (touched_path g) \<noteq> p"
  shows "\<exists>updated. apply_hunks (splitlines (universal_newlines original)) (fp_hunks f) = Inr updated
           \<and> edits (splitlines (universal_newlines original)) (fp_hunks f) updated
           \<and> file_at ws' p = Some (Text (patched_text updated))"
  using run
proof (cases rule: apply_cases)
  case (written plan)
  have "rmap (plan_file root ext allowed ws) (before @ f # others) = Inr plan"
    using written(1) by (simp add: plan_patch_def ps)
  then obtain as a bs where plan: "plan = as @ a # bs" and a: "plan_file root ext allowed ws f = Inr a"
    and bs: "rmap (plan_file root ext allowed ws) others = Inr bs"
    using rmap_split by metis
  obtain rel t w where a3: "a = (rel, t, w)" by (cases a)
  note d = plan_fileD [OF a [unfolded a3]]
  have t: "t = p" using normalize_absolute(1) [OF root d(2)] d(3) target(1) by simp
  have ex: "exists_at ws p" and rd: "read_text ws p = Inr (universal_newlines original)"
    using target(2) by (simp_all add: exists_at_def read_text_def)
  obtain updated where u: "apply_hunks (splitlines (universal_newlines original)) (fp_hunks f) = Inr updated"
    and w: "w = Some (patched_text updated)"
    using a new ex rd t d(3) by (auto simp: a3 plan_file_def Let_def rbind_eq_Inr split: if_splits)
  have others: "p \<notin> (fst \<circ> snd) ` set bs"
  proof
    assume "p \<in> (fst \<circ> snd) ` set bs"
    then obtain b where b: "b \<in> set bs" "p = fst (snd b)" by auto
    obtain g where g: "g \<in> set others" "plan_file root ext allowed ws g = Inr (fst b, fst (snd b), snd (snd b))"
      using rmap_mem [OF bs b(1)] by auto
    note dg = plan_fileD [OF g(2)]
    have "resolve_onto root (touched_path g) = p" using normalize_absolute(1) [OF root dg(2)] dg(3) b(2) by simp
    then show False using last g(1) by blast
  qed
  obtain w1 w2 where w12: "run_effects perform_write (map snd as) ws = (w1, Inr ())" "perform_write (t, w) w1 = (w2, Inr ())"
    "run_effects perform_write (map snd bs) w2 = (ws', Inr ())"
    using written(2) by (auto simp: plan a3 run_effects_append split: prod.splits sum.splits)
  have "file_at ws' p = file_at w2 p" using plan_frame [OF w12(3) others] .
  also have "\<dots> = Some (Text (patched_text updated))" using perform_write_effect [OF w12(2)] by (simp add: t w)
  finally show ?thesis using u apply_hunks_sound [OF u] by blast
qed auto

text \<open>Two sections of one patch edit the two lines of a file; only the second edit survives.\<close>

definition demo_twice :: string where
  "demo_twice = unlines
     [''--- a/src/x.py'', ''+++ b/src/x.py'', ''@@ -1,1 +1,1 @@'', ''-b'', ''+first'',
      ''--- a/src/x.py'', ''+++ b/src/x.py'', ''@@ -3,1 +3,1 @@'', ''-d'', ''+second'']"

theorem apply_result_is_last_section_witness:
  "file_at (fst (apply_unified_diff [''w''] [] [''src''] demo_twice demo_ws)) [''w'', ''src'', ''x.py'']
     = Some (Text (unlines [''b'', ''b'', ''second'']))"
proof -
  let ?h1 = "\<lparr>dh_old_start = 1, dh_old_count = 1, dh_new_start = 1, dh_new_count = 1, dh_lines = [''-b'', ''+first'']\<rparr>"
  let ?h2 = "\<lparr>dh_old_start = 3, dh_old_count = 1, dh_new_start = 3, dh_new_count = 1, dh_lines = [''-d'', ''+second'']\<rparr>"
  let ?f = "\<lambda>h. \<lparr>fp_old_path = Some ''src/x.py'', fp_new_path = Some ''src/x.py'', fp_hunks = [h]\<rparr>"
  have c: "clean [''w'']"
    and ps: "parse_unified_diff demo_twice = Inr ([?f ?h1] @ ?f ?h2 # [])"
    and ok: "snd (apply_unified_diff [''w''] [] [''src''] demo_twice demo_ws) = Inr [''src/x.py'']"
    and t: "[''w'', ''src'', ''x.py''] = resolve_onto [''w''] (touched_path (?f ?h2))"
    and at: "file_at demo_ws [''w'', ''src'', ''x.py''] = Some (Text (unlines [''b'', ''b'', ''d'']))"
    and hs: "apply_hunks (splitlines (universal_newlines (unlines [''b'', ''b'', ''d'']))) [?h2] = Inr [''b'', ''b'', ''second'']"
    and pt: "patched_text [''b'', ''b'', ''second''] = unlines [''b'', ''b'', ''second'']"
    by code_simp+
  have run: "apply_unified_diff [''w''] [] [''src''] demo_twice demo_ws
      = (fst (apply_unified_diff [''w''] [] [''src''] demo_twice demo_ws), Inr [''src/x.py''])"
    using ok by (metis prod.collapse)
  show ?thesis
    using apply_result_is_last_section [OF c ps run _ _ t at] hs pt by auto
qed

end
