(* ===== verification/Repo_Mutation.thy ===== *)
theory Repo_Mutation
  imports Workspace_Laws
begin

section \<open>Guarded repository mutation\<close>

text \<open>
  \<open>execute_repo_mutation\<close> of \<^verbatim>\<open>packages/core_domain/service_repo_mutation.py\<close>: ask the adapter for a patch,
  map its paths into the write set, check scope and deletions, apply, run the tests, and on failure
  restore the snapshot and try again. The adapter's launch (with the preparation of its packet) and
  the run of the test commands are other programs: functions of the model's argument
  \<open>mutation_env\<close>, which may change the workspace. The text of the feedback handed to the next
  launch is kept as the values it is formatted from, the hash of a patch as the patch.
\<close>

subsection \<open>Mapping diff paths into the write set\<close>

text \<open>\<open>s.split()\<close>.\<close>

function split_ws :: "string \<Rightarrow> string list" where
  "split_ws s =
     (let t = dropWhile py_space s
      in if t = [] then [] else takeWhile (\<lambda>c. \<not> py_space c) t # split_ws (dropWhile (\<lambda>c. \<not> py_space c) t))"
  by pat_completeness auto
termination
proof (relation "measure length", simp, unfold in_measure)
  fix s t assume t: "t = dropWhile py_space s" "t \<noteq> []"
  have "length t \<le> length s" using t(1) by (simp add: length_dropWhile_le)
  moreover obtain c cs where c: "t = c # cs" using t(2) by (cases t) auto
  moreover have "\<not> py_space (hd t)" using hd_dropWhile [of py_space s] t(2) unfolding t(1) .
  ultimately show "length (dropWhile (\<lambda>c. \<not> py_space c) t) < length s"
    using length_dropWhile_le [of "\<lambda>c. \<not> py_space c" cs] by (simp add: c)
qed

definition allowed_path_match_base :: "string \<Rightarrow> string" where
  "allowed_path_match_base allowed =
     (let parts = split_at (CHR ''/'') allowed
      in if list_ex has_glob_marker parts then join ''/'' (takeWhile (\<lambda>p. \<not> has_glob_marker p) parts) else allowed)"

fun scope_candidate :: "string \<Rightarrow> string \<Rightarrow> string list \<Rightarrow> nat list \<Rightarrow> string option" where
  "scope_candidate path allowed parts [] = None"
| "scope_candidate path allowed parts (i # is) =
     (let suff = join ''/'' (drop i parts); pre = join ''/'' (take i parts)
      in if suff = path then Some allowed
         else if starts_with (strip_right (\<lambda>c. c = CHR ''/'') suff @ ''/'') path
         then Some (if pre \<noteq> [] then pre @ ''/'' @ path else path)
         else scope_candidate path allowed parts is)"

fun add_scope_matches :: "string \<Rightarrow> string list \<Rightarrow> string list \<Rightarrow> string list \<Rightarrow> string list" where
  "add_scope_matches path allowed_paths [] matches = matches"
| "add_scope_matches path allowed_paths (raw # raws) matches =
     (let allowed = allowed_path_match_base (slashed raw); parts = split_at (CHR ''/'') allowed
      in add_scope_matches path allowed_paths raws
           (case scope_candidate path allowed parts [0..<length parts] of
              None \<Rightarrow> matches
            | Some c \<Rightarrow> if is_path_allowed c allowed_paths \<and> c \<notin> set matches then matches @ [c] else matches))"

definition allowed_scope_matches :: "string \<Rightarrow> string list \<Rightarrow> string list" where
  "allowed_scope_matches path allowed_paths = add_scope_matches path allowed_paths allowed_paths []"

definition rewrite_diff_path_token :: "string list \<Rightarrow> string \<Rightarrow> string" where
  "rewrite_diff_path_token allowed raw =
     (if raw = ''/dev/null'' \<or> raw = ''dev/null'' then raw
      else let side = starts_with ''a/'' raw \<or> starts_with ''b/'' raw;
               pre = (if side then take 2 raw else []);
               normalized = slashed (if side then drop 2 raw else raw)
           in if is_path_allowed normalized allowed then pre @ normalized
              else case allowed_scope_matches normalized allowed of
                     [m] \<Rightarrow> pre @ m
                   | _ \<Rightarrow> raw)"

definition rewrite_header :: "string list \<Rightarrow> string \<Rightarrow> string" where
  "rewrite_header allowed line =
     (let raw = drop 4 line;
          path = takeWhile (\<lambda>c. c \<noteq> TAB) raw;
          suff = dropWhile (\<lambda>c. c \<noteq> TAB) raw
      in take 4 line @ rewrite_diff_path_token allowed path @ suff)"

definition rewrite_line :: "string list \<Rightarrow> string \<Rightarrow> string" where
  "rewrite_line allowed line =
     (if starts_with ''diff --git '' line \<and> length (split_ws line) \<ge> 4
      then (let parts = split_ws line
            in join '' '' (parts[2 := rewrite_diff_path_token allowed (parts ! 2),
                                 3 := rewrite_diff_path_token allowed (parts ! 3)]))
      else if starts_with ''--- '' line \<or> starts_with ''+++ '' line then rewrite_header allowed line
      else line)"

definition rewrite_patch_paths_to_allowed_scope :: "string \<Rightarrow> string list \<Rightarrow> string" where
  "rewrite_patch_paths_to_allowed_scope text allowed =
     join [LF] (map (rewrite_line allowed) (splitlines text)) @ (if ends_with [LF] text then [LF] else [])"

subsection \<open>One attempt\<close>

datatype mutation_status = ms_patch_generation_failed | ms_patch_parse_failed | ms_patch_delete_rejected
  | ms_patch_rejected | ms_patch_apply_failed | ms_failed | ms_passed | ms_not_requested

record command_attempt =
  ca_command :: string
  ca_return_code :: int
  ca_stdout :: string
  ca_stderr :: string
  ca_passed :: bool

datatype mutation_feedback = FbLaunch string | FbParse werror | FbDelete "string list" | FbScope "string list"
  | FbApply string "string list" | FbTests "command_attempt list"

record launch_result =
  lr_return_code :: int
  lr_stdout :: string
  lr_stderr :: string
  lr_patch :: string \<comment> \<open>the text of the first artifact, empty when there is none\<close>

record mutation_env =
  me_patch_mode :: bool \<comment> \<open>a contract with mode \<open>patch_apply\<close>\<close>
  me_supported :: bool
  me_root :: apath
  me_ext :: "apath list"
  me_write_set :: "string list"
  me_max_fix_iterations :: int
  me_allow_deletes :: bool
  me_has_tests :: bool
  me_direct :: "workspace \<Rightarrow> workspace \<times> (werror + launch_result)"
  me_launch :: "nat \<Rightarrow> mutation_feedback option \<Rightarrow> workspace \<Rightarrow> workspace \<times> (werror + launch_result)"
  me_tests :: "workspace \<Rightarrow> workspace \<times> command_attempt list"

record mutation_state =
  mu_feedback :: "mutation_feedback option"
  mu_tests :: "(nat \<times> command_attempt) list"
  mu_rejections :: "string list"
  mu_patch :: "string option"
  mu_touched :: "string list"
  mu_status :: mutation_status
  mu_code :: int \<comment> \<open>return code of the last launch\<close>

text \<open>\<open>execution_result.stderr or execution_result.stdout or ..\<close>.\<close>

definition launch_failure_text :: "launch_result \<Rightarrow> string" where
  "launch_failure_text l =
     (if lr_stderr l \<noteq> [] then lr_stderr l else if lr_stdout l \<noteq> [] then lr_stdout l else ''patch generation failed'')"

datatype patch_check = PatchBad mutation_status mutation_feedback "string list" | PatchGood "string list"

definition check_patch :: "mutation_env \<Rightarrow> string list \<Rightarrow> string \<Rightarrow> patch_check" where
  "check_patch m allowed text =
     (case rbind (extract_touched_paths (me_root m) (me_ext m) text) (\<lambda>t.
             rbind (extract_deleted_paths (me_root m) (me_ext m) text) (\<lambda>d. Inr (t, d))) of
        Inl e \<Rightarrow> PatchBad ms_patch_parse_failed (FbParse e) []
      | Inr (touched, deleted) \<Rightarrow>
          if deleted \<noteq> [] \<and> \<not> me_allow_deletes m then PatchBad ms_patch_delete_rejected (FbDelete deleted) []
          else let rejected = filter (\<lambda>p. \<not> is_path_allowed p allowed) touched
               in if rejected \<noteq> [] then PatchBad ms_patch_rejected (FbScope rejected) rejected else PatchGood touched)"

text \<open>An attempt ends with an exception or with its state and whether it succeeded; \<open>final\<close> marks the last one.\<close>

type_synonym attempt_result = "workspace \<times> (werror + mutation_state \<times> bool)"

definition restore_then :: "mutation_env \<Rightarrow> snapshot \<Rightarrow> string list \<Rightarrow> workspace \<Rightarrow> (workspace \<Rightarrow> attempt_result) \<Rightarrow> attempt_result" where
  "restore_then m base touched ws k =
     (case restore_workspace_snapshot (me_root m) (me_ext m) base touched ws of
        (ws', Inl e) \<Rightarrow> (ws', Inl e)
      | (ws', Inr _) \<Rightarrow> k ws')"

definition mutation_tests :: "mutation_env \<Rightarrow> snapshot \<Rightarrow> nat \<Rightarrow> bool \<Rightarrow> mutation_state \<Rightarrow> workspace \<Rightarrow> attempt_result" where
  "mutation_tests m base i final s ws =
     (if \<not> me_has_tests m then (ws, Inr (s\<lparr>mu_status := ms_not_requested\<rparr>, True))
      else case me_tests m ws of
             (ws1, attempts) \<Rightarrow>
               (let s1 = s\<lparr>mu_tests := mu_tests s @ map (\<lambda>a. (i, a)) attempts\<rparr>
                in if list_ex (\<lambda>a. \<not> ca_passed a) attempts
                   then (let s2 = s1\<lparr>mu_status := ms_failed, mu_feedback := Some (FbTests attempts)\<rparr>
                         in if final then restore_then m base (mu_touched s2) ws1 (\<lambda>ws2. (ws2, Inr (s2, False)))
                            else (ws1, Inr (s2, False)))
                   else (ws1, Inr (s1\<lparr>mu_status := ms_passed\<rparr>, True))))"

definition mutation_patch ::
  "mutation_env \<Rightarrow> string list \<Rightarrow> snapshot \<Rightarrow> nat \<Rightarrow> bool \<Rightarrow> string \<Rightarrow> mutation_state \<Rightarrow> workspace \<Rightarrow> attempt_result" where
  "mutation_patch m allowed base i final text s ws =
     (case check_patch m allowed text of
        PatchBad status fb rejected \<Rightarrow>
          if status = ms_patch_rejected \<and> final
          then (ws, Inl (RepoMutationScopeError ''patch attempted to modify files outside the allowed write_set''))
          else (ws, Inr (s\<lparr>mu_status := status, mu_feedback := Some fb, mu_rejections := mu_rejections s @ rejected\<rparr>, False))
      | PatchGood touched \<Rightarrow>
          (let s1 = s\<lparr>mu_patch := Some text\<rparr>
           in case apply_unified_diff (me_root m) (me_ext m) allowed text ws of
                (ws1, Inl (ValueError msg)) \<Rightarrow>
                  restore_then m base (mu_touched s1) ws1 (\<lambda>ws2.
                    (ws2, Inr (s1\<lparr>mu_touched := [], mu_feedback := Some (FbApply msg touched), mu_status := ms_patch_apply_failed\<rparr>, False)))
              | (ws1, Inl e) \<Rightarrow> (ws1, Inl e)
              | (ws1, Inr t) \<Rightarrow> mutation_tests m base i final (s1\<lparr>mu_touched := t\<rparr>) ws1))"

definition mutation_launch ::
  "mutation_env \<Rightarrow> string list \<Rightarrow> snapshot \<Rightarrow> nat \<Rightarrow> bool \<Rightarrow> mutation_state \<Rightarrow> workspace \<Rightarrow> attempt_result" where
  "mutation_launch m allowed base i final s ws =
     (case me_launch m i (mu_feedback s) ws of
        (ws1, Inl e) \<Rightarrow> (ws1, Inl e)
      | (ws1, Inr l) \<Rightarrow>
          (let s1 = s\<lparr>mu_code := lr_return_code l\<rparr>
           in if lr_return_code l \<noteq> 0 \<and> py_strip (lr_patch l) = []
              then (ws1, Inr (s1\<lparr>mu_feedback := Some (FbLaunch (launch_failure_text l)), mu_status := ms_patch_generation_failed\<rparr>, False))
              else mutation_patch m allowed base i final (rewrite_patch_paths_to_allowed_scope (lr_patch l) allowed) s1 ws1))"

definition mutation_attempt ::
  "mutation_env \<Rightarrow> string list \<Rightarrow> snapshot \<Rightarrow> nat \<Rightarrow> bool \<Rightarrow> mutation_state \<Rightarrow> workspace \<Rightarrow> attempt_result" where
  "mutation_attempt m allowed base i final s ws =
     (if i > 0
      then restore_then m base (mu_touched s) ws (\<lambda>ws1. mutation_launch m allowed base i final (s\<lparr>mu_touched := []\<rparr>) ws1)
      else mutation_launch m allowed base i final s ws)"

text \<open>The loop over the attempts \<open>i, .., i + n\<close>, the last of them final.\<close>

fun mutation_loop ::
  "mutation_env \<Rightarrow> string list \<Rightarrow> snapshot \<Rightarrow> nat \<Rightarrow> nat \<Rightarrow> mutation_state \<Rightarrow> workspace
   \<Rightarrow> workspace \<times> (werror + nat \<times> mutation_state \<times> bool)" where
  "mutation_loop m allowed base i n s ws =
     (case mutation_attempt m allowed base i (n = 0) s ws of
        (ws', Inl e) \<Rightarrow> (ws', Inl e)
      | (ws', Inr (s', True)) \<Rightarrow> (ws', Inr (i, s', True))
      | (ws', Inr (s', False)) \<Rightarrow>
          (case n of 0 \<Rightarrow> (ws', Inr (i, s', False)) | Suc k \<Rightarrow> mutation_loop m allowed base (Suc i) k s' ws'))"

declare mutation_loop.simps [simp del]

record mutation_result =
  mr_return_code :: int
  mr_changed_files :: "string list"
  mr_applied_patch :: "string option"
  mr_out_of_scope_rejections :: "string list"
  mr_test_attempts :: "(nat \<times> command_attempt) list"
  mr_fix_iteration_count :: nat
  mr_final_test_status :: mutation_status
  mr_failure_reason :: "mutation_feedback option"

datatype execution_outcome = Delegated launch_result | Mutated mutation_result

definition mutation_outcome :: "nat \<Rightarrow> mutation_state \<Rightarrow> bool \<Rightarrow> mutation_result" where
  "mutation_outcome i s success =
     \<lparr>mr_return_code = (if success then 0 else if mu_code s \<noteq> 0 then mu_code s else 1),
      mr_changed_files = (if success then sorted_list_of_set (set (mu_touched s)) else []),
      mr_applied_patch = mu_patch s,
      mr_out_of_scope_rejections = sorted_list_of_set (set (mu_rejections s)),
      mr_test_attempts = mu_tests s,
      mr_fix_iteration_count = i,
      mr_final_test_status = mu_status s,
      mr_failure_reason = (if success then None else mu_feedback s)\<rparr>"

definition initial_mutation_state :: mutation_state where
  "initial_mutation_state =
     \<lparr>mu_feedback = None, mu_tests = [], mu_rejections = [], mu_patch = None, mu_touched = [],
      mu_status = ms_patch_generation_failed, mu_code = 0\<rparr>"

definition execute_repo_mutation :: "mutation_env \<Rightarrow> workspace \<Rightarrow> workspace \<times> (werror + execution_outcome)" where
  "execute_repo_mutation m ws =
     (if \<not> me_patch_mode m
      then (case me_direct m ws of
              (ws', Inl e) \<Rightarrow> (ws', Inl e)
            | (ws', Inr l) \<Rightarrow> (ws', Inr (Delegated l)))
      else if \<not> me_supported m
      then (ws, Inl (MutationContractError ''repo mutation execution requires a patch-capable adapter''))
      else case rbind (normalize_allowed_paths (me_root m) (me_ext m) (me_write_set m)) (\<lambda>allowed.
                  rbind (capture_workspace_snapshot (me_root m) (me_ext m) ws (me_write_set m)) (\<lambda>base. Inr (allowed, base))) of
             Inl e \<Rightarrow> (ws, Inl e)
           | Inr (allowed, base) \<Rightarrow>
               (case mutation_loop m allowed base 0 (nat (max (me_max_fix_iterations m) 0)) initial_mutation_state ws of
                  (ws', Inl e) \<Rightarrow> (ws', Inl e)
                | (ws', Inr (i, s, success)) \<Rightarrow> (ws', Inr (Mutated (mutation_outcome i s success)))))"

end
