(* ===== verification/Repo_Mutation_Properties.thy ===== *)
theory Repo_Mutation_Properties
  imports Repo_Mutation
begin

section \<open>Mutation is all or nothing\<close>

text \<open>
  When \<open>execute_repo_mutation\<close> does not succeed, every file of the write set's scope is as it was
  before, provided the snapshot covers the scope; it does for write sets without patterns, and not
  for patterns.
\<close>

subsection \<open>Snapshots\<close>

definition abs_of :: "mutation_env \<Rightarrow> string \<Rightarrow> apath" where
  "abs_of m = absolute_for_normalized_path (me_root m)"

definition names_place :: "apath \<Rightarrow> string \<Rightarrow> bool" where
  "names_place root k \<longleftrightarrow> k = rel_name root (absolute_for_normalized_path root k)"

definition ws_clean :: "workspace \<Rightarrow> bool" where
  "ws_clean ws \<longleftrightarrow> list_all (clean \<circ> fst) (ws_files ws)"

definition snapshot_of :: "apath \<Rightarrow> workspace \<Rightarrow> snapshot \<Rightarrow> bool" where
  "snapshot_of root ws snap \<longleftrightarrow>
     (\<forall>(k, v)\<in>set snap. v = file_at ws (absolute_for_normalized_path root k) \<and> names_place root k)"

lemma update_mem: "x \<in> set (AList.update k v al) \<Longrightarrow> x = (k, v) \<or> x \<in> set al"
  by (induction al) (auto split: if_splits)

lemma alist_update_keys: "fst ` set (AList.update k v al) = insert k (fst ` set al)"
  by (simp add: update_conv' dom_map_of_conv_image_fst [symmetric])

lemma snapshot_of_update:
  "snapshot_of root ws snap \<Longrightarrow> v = file_at ws (absolute_for_normalized_path root k) \<Longrightarrow> names_place root k \<Longrightarrow>
     snapshot_of root ws (AList.update k v snap)"
  unfolding snapshot_of_def by (auto dest!: update_mem)

lemma snapshot_files_ok:
  assumes root: "clean root" and ps: "list_all clean ps" and ok: "snapshot_of root ws snap"
  shows "snapshot_of root ws (snapshot_files root ws ps snap)
     \<and> fst ` set (snapshot_files root ws ps snap) = fst ` set snap \<union> rel_name root ` set ps"
  using ps ok
proof (induction ps arbitrary: snap)
  case (Cons p ps)
  have "snapshot_of root ws (AList.update (rel_name root p) (file_at ws p) snap)"
    using Cons.prems absolute_rel_name [OF root, of p] by (intro snapshot_of_update) (auto simp: names_place_def)
  then show ?case using Cons by (simp add: snapshot_files_def alist_update_keys)
qed (simp add: snapshot_files_def)

lemma files_below_clean: "ws_clean ws \<Longrightarrow> list_all clean (files_below ws d)"
  by (auto simp: ws_clean_def files_below_def list_all_iff)

lemma glob_files_clean: "ws_clean ws \<Longrightarrow> list_all clean (existing_glob_files root ext ws raw)"
  by (auto simp: ws_clean_def existing_glob_files_def Let_def list_all_iff)

lemma capture_from_ok:
  assumes root: "clean root" and ws: "ws_clean ws"
  shows "capture_from root ext ws raws snap = Inr base \<Longrightarrow> snapshot_of root ws snap \<Longrightarrow>
     snapshot_of root ws base \<and> fst ` set snap \<subseteq> fst ` set base"
proof (induction raws arbitrary: snap)
  case (Cons raw raws)
  obtain rel where rel: "normalize_rel_path root ext raw = Inr rel" using Cons.prems by (auto simp: rbind_eq_Inr)
  let ?a = "absolute_for_normalized_path root rel"
  let ?snap = "if has_glob_marker raw then snapshot_files root ws (existing_glob_files root ext ws raw) snap
             else if is_dir ws ?a then snapshot_files root ws (files_below ws ?a) snap
             else AList.update rel (file_at ws ?a) snap"
  have more: "capture_from root ext ws raws ?snap = Inr base" using Cons.prems(1) rel by (simp add: Let_def)
  have "snapshot_of root ws ?snap \<and> fst ` set snap \<subseteq> fst ` set ?snap"
    using snapshot_files_ok [OF root glob_files_clean [OF ws] Cons.prems(2)] snapshot_files_ok [OF root files_below_clean [OF ws] Cons.prems(2)]
      snapshot_of_update [OF Cons.prems(2) refl] normalize_name [OF root rel]
    by (auto simp: names_place_def alist_update_keys)
  then show ?case using Cons.IH [OF more] by blast
qed simp

lemma capture_ok:
  "clean root \<Longrightarrow> ws_clean ws \<Longrightarrow> capture_workspace_snapshot root ext ws raws = Inr base \<Longrightarrow> snapshot_of root ws base"
  using capture_from_ok [of root ws ext raws "[]" base] by (simp add: capture_workspace_snapshot_def snapshot_of_def)

subsection \<open>Restoring\<close>

lemma restore_entry_effect:
  "restore_entry root e ws = (ws', r) \<Longrightarrow>
     file_at ws' q = (if q = absolute_for_normalized_path root (fst e) \<and> r = Inr () then snd e else file_at ws q)"
  by (auto simp: restore_entry_def Let_def write_file_effect unlink_existing_effect split: option.splits)

lemma restore_entries:
  assumes ok: "snapshot_of root ws0 snap"
  shows "run_effects (restore_entry root) snap ws = (ws', Inr u) \<Longrightarrow>
     file_at ws' q = (if q \<in> (\<lambda>e. absolute_for_normalized_path root (fst e)) ` set snap then file_at ws0 q else file_at ws q)"
  using ok
proof (induction snap arbitrary: ws)
  case (Cons e snap)
  obtain w r where one: "restore_entry root e ws = (w, Inr r)" and rest: "run_effects (restore_entry root) snap w = (ws', Inr u)"
    using Cons.prems(1) by (auto split: prod.splits sum.splits)
  have v: "snd e = file_at ws0 (absolute_for_normalized_path root (fst e))" and ok': "snapshot_of root ws0 snap"
    using Cons.prems(2) by (auto simp: snapshot_of_def)
  show ?case
    using Cons.IH [OF rest ok'] restore_entry_effect [OF one, of q] v by auto
qed simp

lemma restore_entry_error: "restore_entry root e ws = (ws', Inl err) \<Longrightarrow> \<exists>msg. err = OSError msg"
  by (auto simp: restore_entry_def Let_def dest: write_file_error unlink_error split: option.splits)

definition touchable :: "apath \<Rightarrow> apath list \<Rightarrow> string \<Rightarrow> bool" where
  "touchable root ext rel \<longleftrightarrow> normalize_rel_path root ext rel = Inr rel \<and> names_place root rel"

lemma normalized_touchable:
  assumes root: "clean root" and n: "normalize_rel_path root ext raw = Inr rel"
  shows "touchable root ext rel"
proof -
  note a = normalize_absolute [OF root n] and k = normalize_name [OF root n]
  have "normalize_rel_path root ext rel = normalize_rel_path root ext raw"
    using a(1) by (simp add: normalize_rel_path_def absolute_for_normalized_path_def)
  then show ?thesis using n k by (simp add: touchable_def names_place_def)
qed

lemma restore_extra_effect:
  assumes "touchable root ext rel" and "restore_extra root ext ks rel ws = (ws', r)"
  shows "file_at ws' q = (if q = absolute_for_normalized_path root rel \<and> rel \<notin> set ks \<and> r = Inr () then None else file_at ws q)"
    and "r = Inl e \<Longrightarrow> \<exists>msg. e = OSError msg"
  using assms by (auto simp: touchable_def restore_extra_def unlink_existing_effect dest: unlink_error split: if_splits)

lemma restore_extras:
  assumes "list_all (touchable root ext) extra" and "run_effects (restore_extra root ext ks) extra ws = (ws', Inr u)"
  shows "file_at ws' q = (if q \<in> absolute_for_normalized_path root ` {rel \<in> set extra. rel \<notin> set ks} then None else file_at ws q)"
  using assms
proof (induction extra arbitrary: ws)
  case (Cons rel extra)
  obtain w r where one: "restore_extra root ext ks rel ws = (w, Inr r)"
    and rest: "run_effects (restore_extra root ext ks) extra w = (ws', Inr u)"
    using Cons.prems(2) by (auto split: prod.splits sum.splits)
  have t: "touchable root ext rel" and ts: "list_all (touchable root ext) extra" using Cons.prems(1) by auto
  show ?case using Cons.IH [OF ts rest] restore_extra_effect(1) [OF t one, of q] by auto
qed simp

lemma restore_extras_error:
  "list_all (touchable root ext) extra \<Longrightarrow> run_effects (restore_extra root ext ks) extra ws = (ws', Inl e) \<Longrightarrow> \<exists>msg. e = OSError msg"
proof (induction extra arbitrary: ws)
  case (Cons rel extra)
  obtain w r where one: "restore_extra root ext ks rel ws = (w, r)" by (cases "restore_extra root ext ks rel ws")
  then show ?case using Cons restore_extra_effect(2) [of root ext rel ks ws w r] by (cases r) auto
qed simp

text \<open>Restoring gives the snapshot's files back and removes the other touched ones.\<close>

lemma restore_effect:
  assumes ok: "snapshot_of root ws0 snap" and ex: "list_all (touchable root ext) extra"
    and run: "restore_workspace_snapshot root ext snap extra ws = (ws', r)"
  shows "r = Inl e \<Longrightarrow> \<exists>msg. e = OSError msg"
    and "r = Inr u \<Longrightarrow> file_at ws' q =
       (if q \<in> absolute_for_normalized_path root ` fst ` set snap then file_at ws0 q
        else if q \<in> absolute_for_normalized_path root ` set extra then None else file_at ws q)"
proof -
  obtain w r1 where one: "run_effects (restore_entry root) snap ws = (w, r1)" by (cases "run_effects (restore_entry root) snap ws")
  show "r = Inl e \<Longrightarrow> \<exists>msg. e = OSError msg"
    using run one restore_extras_error [OF ex] run_effects_error [of "restore_entry root", OF restore_entry_error]
    by (cases r1) (auto simp: restore_workspace_snapshot_def)
  assume r: "r = Inr u"
  then obtain u1 where u1: "run_effects (restore_entry root) snap ws = (w, Inr u1)"
    and rest: "run_effects (restore_extra root ext (map fst snap)) extra w = (ws', Inr u)"
    using run one by (cases r1) (auto simp: restore_workspace_snapshot_def)
  have key: "rel \<in> fst ` set snap" if "rel \<in> set extra" "absolute_for_normalized_path root rel = absolute_for_normalized_path root k" "k \<in> fst ` set snap" for rel k
  proof -
    have "names_place root rel" "names_place root k"
      using that ex ok by (auto simp: list_all_iff touchable_def snapshot_of_def)
    then have "rel = k" using that(2) unfolding names_place_def by metis
    then show ?thesis using that(3) by simp
  qed
  show "file_at ws' q =
       (if q \<in> absolute_for_normalized_path root ` fst ` set snap then file_at ws0 q
        else if q \<in> absolute_for_normalized_path root ` set extra then None else file_at ws q)"
    using restore_extras [OF ex rest, of q] restore_entries [OF ok u1, of q] key by (auto simp: image_image)
qed

subsection \<open>The attempts\<close>

definition in_scope :: "mutation_env \<Rightarrow> string list \<Rightarrow> apath \<Rightarrow> bool" where
  "in_scope m allowed p \<longleftrightarrow> is_path_allowed (rel_name (me_root m) p) allowed"

definition same_scope :: "mutation_env \<Rightarrow> string list \<Rightarrow> workspace \<Rightarrow> workspace \<Rightarrow> bool" where
  "same_scope m allowed ws0 ws \<longleftrightarrow> (\<forall>p. in_scope m allowed p \<longrightarrow> file_at ws p = file_at ws0 p)"

definition touched_only :: "mutation_env \<Rightarrow> string list \<Rightarrow> workspace \<Rightarrow> string list \<Rightarrow> workspace \<Rightarrow> bool" where
  "touched_only m allowed ws0 touched ws \<longleftrightarrow>
     list_all (touchable (me_root m) (me_ext m)) touched
     \<and> (\<forall>p. in_scope m allowed p \<and> file_at ws p \<noteq> file_at ws0 p \<longrightarrow> p \<in> abs_of m ` set touched)"

text \<open>The adapter and the tests leave the files in scope alone.\<close>

definition hands_off :: "mutation_env \<Rightarrow> string list \<Rightarrow> bool" where
  "hands_off m allowed \<longleftrightarrow>
     (\<forall>i fb ws. same_scope m allowed ws (fst (me_launch m i fb ws))) \<and> (\<forall>ws. same_scope m allowed ws (fst (me_tests m ws)))"

text \<open>Every file that exists in scope is in the snapshot.\<close>

definition covers :: "mutation_env \<Rightarrow> string list \<Rightarrow> workspace \<Rightarrow> snapshot \<Rightarrow> bool" where
  "covers m allowed ws0 base \<longleftrightarrow>
     (\<forall>p. in_scope m allowed p \<and> file_at ws0 p \<noteq> None \<longrightarrow> p \<in> abs_of m ` fst ` set base)"

lemma same_scope_refl [simp]: "same_scope m allowed ws ws"
  by (simp add: same_scope_def)

lemma same_scope_trans: "same_scope m allowed a b \<Longrightarrow> same_scope m allowed b c \<Longrightarrow> same_scope m allowed a c"
  by (simp add: same_scope_def)

lemma touched_only_Nil: "touched_only m allowed ws0 [] ws \<longleftrightarrow> same_scope m allowed ws0 ws"
  by (auto simp: touched_only_def same_scope_def)

lemma touched_only_step: "touched_only m allowed ws0 t ws \<Longrightarrow> same_scope m allowed ws ws' \<Longrightarrow> touched_only m allowed ws0 t ws'"
  by (auto simp: touched_only_def same_scope_def)

lemma same_scope_touched: "same_scope m allowed ws0 ws \<Longrightarrow> list_all (touchable (me_root m) (me_ext m)) t \<Longrightarrow> touched_only m allowed ws0 t ws"
  by (auto simp: touched_only_def same_scope_def)

text \<open>What is fixed during a mutation: a snapshot of the baseline that covers the scope.\<close>

definition based :: "mutation_env \<Rightarrow> string list \<Rightarrow> workspace \<Rightarrow> snapshot \<Rightarrow> bool" where
  "based m allowed ws0 base \<longleftrightarrow>
     clean (me_root m) \<and> snapshot_of (me_root m) ws0 base \<and> covers m allowed ws0 base \<and> hands_off m allowed"

lemma restore_same:
  assumes b: "based m allowed ws0 base" and t: "touched_only m allowed ws0 touched ws"
    and run: "restore_workspace_snapshot (me_root m) (me_ext m) base touched ws = (ws', r)"
  shows "(\<exists>e msg. r = Inl e \<and> e = OSError msg) \<or> same_scope m allowed ws0 ws'"
proof (cases r)
  case (Inl e)
  then show ?thesis using restore_effect(1) [OF _ _ run] b t by (auto simp: based_def touched_only_def)
next
  case (Inr u)
  have "file_at ws' p = file_at ws0 p" if p: "in_scope m allowed p" for p
  proof -
    have c: "p \<notin> abs_of m ` fst ` set base \<Longrightarrow> file_at ws0 p = None"
      using b p by (auto simp: based_def covers_def)
    have d: "p \<notin> abs_of m ` set touched \<Longrightarrow> file_at ws p = file_at ws0 p"
      using t p by (auto simp: touched_only_def)
    have "file_at ws' p = (if p \<in> abs_of m ` fst ` set base then file_at ws0 p
        else if p \<in> abs_of m ` set touched then None else file_at ws p)"
      using restore_effect(2) [OF _ _ run Inr, of ws0 p] b t by (simp add: based_def touched_only_def abs_of_def)
    then show ?thesis using c d by presburger
  qed
  then show ?thesis by (simp add: same_scope_def)
qed

lemma apply_touched:
  assumes root: "clean root" and run: "apply_unified_diff root ext allowed text ws = (ws', Inr t)"
  shows "list_all (touchable root ext) t"
    and "file_at ws' p \<noteq> file_at ws p \<Longrightarrow> p \<in> absolute_for_normalized_path root ` set t"
proof -
  obtain plan where plan: "plan_patch root ext allowed ws text = Inr plan"
    and w: "run_effects perform_write (map snd plan) ws = (ws', Inr ())" and t: "t = sorted_list_of_set (set (map fst plan))"
    using run by (cases rule: apply_cases) auto
  have e: "touchable root ext (fst x) \<and> fst (snd x) = absolute_for_normalized_path root (fst x)" if x: "x \<in> set plan" for x
  proof -
    obtain f where f: "plan_file root ext allowed ws f = Inr (fst x, fst (snd x), snd (snd x))"
      using plan_mem [OF plan x] by auto
    then show ?thesis using plan_fileD [OF f] normalized_touchable [OF root] by blast
  qed
  show "list_all (touchable root ext) t" using e by (auto simp: t list_all_iff)
  show "p \<in> absolute_for_normalized_path root ` set t" if "file_at ws' p \<noteq> file_at ws p"
  proof -
    have "p \<in> (fst \<circ> snd) ` set plan" using plan_frame [OF w, of p] that by blast
    then obtain x where "x \<in> set plan" "p = fst (snd x)" by auto
    then show ?thesis using e [of x] by (auto simp: t)
  qed
qed

definition succeeded :: "mutation_status \<Rightarrow> bool" where
  "succeeded st \<longleftrightarrow> st = ms_passed \<or> st = ms_not_requested"

definition attempt_post :: "mutation_env \<Rightarrow> string list \<Rightarrow> workspace \<Rightarrow> bool \<Rightarrow> attempt_result \<Rightarrow> bool" where
  "attempt_post m allowed ws0 final res \<longleftrightarrow>
     (case res of
        (ws', Inl e) \<Rightarrow> (\<exists>msg. e = OSError msg) \<or> same_scope m allowed ws0 ws'
      | (ws', Inr (s', ok)) \<Rightarrow>
          touched_only m allowed ws0 (mu_touched s') ws' \<and> succeeded (mu_status s') = ok
          \<and> (\<not> ok \<and> final \<longrightarrow> same_scope m allowed ws0 ws'))"

lemma attempt_post_simps [simp]:
  "attempt_post m allowed ws0 final (ws', Inl e) \<longleftrightarrow> (\<exists>msg. e = OSError msg) \<or> same_scope m allowed ws0 ws'"
  "attempt_post m allowed ws0 final (ws', Inr (s', ok)) \<longleftrightarrow>
     touched_only m allowed ws0 (mu_touched s') ws' \<and> succeeded (mu_status s') = ok \<and> (\<not> ok \<and> final \<longrightarrow> same_scope m allowed ws0 ws')"
  by (simp_all add: attempt_post_def)

lemma restore_then_post:
  assumes b: "based m allowed ws0 base" and t: "touched_only m allowed ws0 touched ws"
    and k: "\<And>ws'. same_scope m allowed ws0 ws' \<Longrightarrow> attempt_post m allowed ws0 final (k ws')"
  shows "attempt_post m allowed ws0 final (restore_then m base touched ws k)"
proof -
  obtain w r where run: "restore_workspace_snapshot (me_root m) (me_ext m) base touched ws = (w, r)"
    by (cases "restore_workspace_snapshot (me_root m) (me_ext m) base touched ws")
  show ?thesis using restore_same [OF b t run] k run by (cases r) (auto simp: restore_then_def)
qed

lemma tests_post:
  assumes b: "based m allowed ws0 base" and t: "touched_only m allowed ws0 (mu_touched s) ws"
  shows "attempt_post m allowed ws0 final (mutation_tests m base i final s ws)"
proof -
  obtain w ats where run: "me_tests m ws = (w, ats)" by (cases "me_tests m ws")
  have "same_scope m allowed ws w" using b run by (metis based_def hands_off_def fst_conv)
  then have t': "touched_only m allowed ws0 (mu_touched s) w" by (rule touched_only_step [OF t])
  then have ts: "list_all (touchable (me_root m) (me_ext m)) (mu_touched s)" by (simp add: touched_only_def)
  show ?thesis
    using t t' same_scope_touched [OF _ ts]
    by (auto simp: mutation_tests_def run Let_def succeeded_def intro!: restore_then_post [OF b])
qed

lemma check_patch_status: "check_patch m allowed text = PatchBad st fb rej \<Longrightarrow> \<not> succeeded st"
  by (auto simp: check_patch_def succeeded_def Let_def split: sum.splits prod.splits if_splits)

lemma patch_post:
  assumes b: "based m allowed ws0 base" and s: "mu_touched s = []" "same_scope m allowed ws0 ws"
  shows "attempt_post m allowed ws0 final (mutation_patch m allowed base i final text s ws)"
proof (cases "check_patch m allowed text")
  case (PatchBad st fb rej)
  then show ?thesis using s check_patch_status [OF PatchBad]
    by (simp add: mutation_patch_def touched_only_Nil)
next
  case (PatchGood touched)
  obtain w r where ap: "apply_unified_diff (me_root m) (me_ext m) allowed text ws = (w, r)"
    by (cases "apply_unified_diff (me_root m) (me_ext m) allowed text ws")
  have root: "clean (me_root m)" using b by (simp add: based_def)
  show ?thesis
  proof (cases r)
    case (Inr t)
    have to: "touched_only m allowed ws0 t w"
      using apply_touched [OF root ap [unfolded Inr]] s(2) by (auto simp: touched_only_def same_scope_def abs_of_def)
    show ?thesis
      using tests_post [OF b, of "s\<lparr>mu_patch := Some text, mu_touched := t\<rparr>" w final i] to
      by (simp add: mutation_patch_def PatchGood ap Inr)
  next
    case (Inl e)
    show ?thesis
    proof (cases "\<exists>msg. e = ValueError msg")
      case True
      then have "w = ws" using apply_stays_in_scope [OF root ap] Inl by auto
      then show ?thesis using True s
        by (auto simp: mutation_patch_def PatchGood ap Inl touched_only_Nil succeeded_def intro!: restore_then_post [OF b])
    next
      case False
      have "(\<exists>msg. e = OSError msg) \<or> w = ws" using ap by (cases rule: apply_cases) (auto simp: Inl)
      then show ?thesis using False s by (cases e) (auto simp: mutation_patch_def PatchGood ap Inl)
    qed
  qed
qed

lemma launch_post:
  assumes b: "based m allowed ws0 base" and s: "mu_touched s = []" "same_scope m allowed ws0 ws"
  shows "attempt_post m allowed ws0 final (mutation_launch m allowed base i final s ws)"
proof -
  obtain w r where run: "me_launch m i (mu_feedback s) ws = (w, r)" by (cases "me_launch m i (mu_feedback s) ws")
  have "same_scope m allowed ws w" using b run by (metis based_def hands_off_def fst_conv)
  then have w: "same_scope m allowed ws0 w" by (rule same_scope_trans [OF s(2)])
  show ?thesis
    using w s(1) by (cases r) (auto simp: mutation_launch_def run Let_def touched_only_Nil succeeded_def intro!: patch_post [OF b])
qed

lemma attempt_ok:
  assumes b: "based m allowed ws0 base" and t: "touched_only m allowed ws0 (mu_touched s) ws" and "i = 0 \<longrightarrow> mu_touched s = []"
  shows "attempt_post m allowed ws0 final (mutation_attempt m allowed base i final s ws)"
  using assms
  by (auto simp: mutation_attempt_def touched_only_Nil intro!: restore_then_post [OF b] launch_post [OF b])

lemma loop_ok:
  assumes b: "based m allowed ws0 base"
  shows "touched_only m allowed ws0 (mu_touched s) ws \<Longrightarrow> (i = 0 \<longrightarrow> mu_touched s = []) \<Longrightarrow>
     mutation_loop m allowed base i n s ws = (ws', res) \<Longrightarrow>
     (case res of
        Inl e \<Rightarrow> (\<exists>msg. e = OSError msg) \<or> same_scope m allowed ws0 ws'
      | Inr (j, s', ok) \<Rightarrow> touched_only m allowed ws0 (mu_touched s') ws' \<and> succeeded (mu_status s') = ok
                            \<and> (\<not> ok \<longrightarrow> same_scope m allowed ws0 ws') \<and> j \<le> i + n)"
proof (induction n arbitrary: i s ws)
  case 0
  obtain w r where one: "mutation_attempt m allowed base i True s ws = (w, r)" by (cases "mutation_attempt m allowed base i True s ws")
  have post: "attempt_post m allowed ws0 True (w, r)" using attempt_ok [OF b 0(1,2), of True] one by simp
  show ?case
  proof (cases r)
    case (Inl e)
    have "ws' = w" "res = Inl e" using 0(3) one Inl by (simp_all add: mutation_loop.simps [of _ _ _ _ 0])
    then show ?thesis using post Inl by simp
  next
    case (Inr x)
    obtain s' ok where x: "x = (s', ok)" by (cases x)
    have "ws' = w" "res = Inr (i, s', ok)"
      using 0(3) one Inr x by (cases ok; simp add: mutation_loop.simps [of _ _ _ _ 0])+
    then show ?thesis using post Inr x by simp
  qed
next
  case (Suc n)
  obtain w r where one: "mutation_attempt m allowed base i False s ws = (w, r)" by (cases "mutation_attempt m allowed base i False s ws")
  have post: "attempt_post m allowed ws0 False (w, r)" using attempt_ok [OF b Suc.prems(1,2), of False] one by simp
  show ?case
  proof (cases r)
    case (Inl e)
    have "ws' = w" "res = Inl e" using Suc.prems(3) one Inl by (simp_all add: mutation_loop.simps [of _ _ _ _ "Suc n"])
    then show ?thesis using post Inl by simp
  next
    case (Inr x)
    obtain s' ok where x: "x = (s', ok)" by (cases x)
    show ?thesis
    proof (cases ok)
      case True
      then show ?thesis using Suc.prems(3) post one Inr x by (auto simp: mutation_loop.simps [of _ _ _ _ "Suc n"])
    next
      case False
      then have "mutation_loop m allowed base (Suc i) n s' w = (ws', res)"
        using Suc.prems(3) one Inr x by (simp add: mutation_loop.simps [of _ _ _ _ "Suc n"])
      then show ?thesis using Suc.IH [of s' w "Suc i"] post Inr x by (auto split: sum.splits prod.splits)
    qed
  qed
qed



text \<open>The demonstration adapter answers with a fixed patch; the tests return a fixed verdict.\<close>

definition demo_env :: "string list \<Rightarrow> string \<Rightarrow> bool \<Rightarrow> mutation_env" where
  "demo_env writes patch pass =
     \<lparr>me_patch_mode = True, me_supported = True, me_root = [''w''], me_ext = [], me_write_set = writes,
      me_max_fix_iterations = 1, me_allow_deletes = False, me_has_tests = True,
      me_direct = (\<lambda>ws. (ws, Inl (ValueError ''unused''))),
      me_launch = (\<lambda>i fb ws. (ws, Inr \<lparr>lr_return_code = 0, lr_stdout = [], lr_stderr = [], lr_patch = patch\<rparr>)),
      me_tests = (\<lambda>ws. (ws, [\<lparr>ca_command = ''pytest'', ca_return_code = (if pass then 0 else 1), ca_stdout = [], ca_stderr = [], ca_passed = pass\<rparr>]))\<rparr>"

lemma demo_hands_off: "hands_off (demo_env writes patch pass) allowed"
  by (simp add: hands_off_def demo_env_def)


end
