(* ===== verification/Snapshot_Coverage.thy ===== *)
theory Snapshot_Coverage
  imports Repo_Mutation_Properties
begin

section \<open>What the snapshot of a write set covers\<close>

text \<open>
  A write set of plain paths is covered by its snapshot: every file the scope test lets a patch change
  can be restored. A write set with a pattern is not: the scope test matches \<open>*\<close> across directories
  (\<open>fnmatch\<close>), the snapshot does not (\<open>Path.glob\<close>), and restoring deletes what is in between.
\<close>

subsection \<open>Names without markers\<close>

definition plain_name :: "string \<Rightarrow> bool" where
  "plain_name s \<longleftrightarrow> \<not> has_glob_marker s \<and> CHR 0x5C \<notin> set s"

lemma split_at_append: "split_at c (a @ c # b) = split_at c a @ split_at c b"
  by (induction a) (auto split: list.splits)

lemma split_at_mem: "x \<in> set p \<Longrightarrow> p \<in> set (split_at c s) \<Longrightarrow> x \<in> set s"
proof (induction s arbitrary: p)
  case (Cons y ys)
  obtain a as where "split_at c ys = a # as" by (cases "split_at c ys") auto
  then show ?case using Cons.prems Cons.IH [of a] Cons.IH [of p] by (auto split: if_splits)
qed simp

lemma split_at_chars: "p \<in> set (split_at c s) \<Longrightarrow> set p \<subseteq> set s"
  using split_at_mem by fast

lemma join_chars: "x \<in> set (join [c] ps) \<Longrightarrow> x = c \<or> (\<exists>p\<in>set ps. x \<in> set p)"
  by (induction "[c]" ps rule: join.induct) auto

lemma plain_parts: "plain_name s \<Longrightarrow> list_all plain_name (path_parts s)"
  using split_at_chars [of _ "CHR ''/''" s] by (fastforce simp: list_all_iff plain_name_def has_glob_marker_def path_parts_def)

lemma plain_join: "list_all plain_name ps \<Longrightarrow> plain_name (join ''/'' ps)"
  by (auto simp: plain_name_def has_glob_marker_def list_all_iff dest!: join_chars)

lemma plain_fold: "list_all plain_name base \<Longrightarrow> list_all plain_name ps \<Longrightarrow> list_all plain_name (foldl resolve_step base ps)"
proof (induction ps arbitrary: base)
  case (Cons p ps)
  have "list_all plain_name (resolve_step base p)" using Cons.prems by (auto simp: list_all_iff dest: in_set_butlastD)
  then show ?case using Cons by simp
qed simp

lemma plain_resolve: "list_all plain_name root \<Longrightarrow> plain_name s \<Longrightarrow> list_all plain_name (resolve_onto root s)"
  using plain_fold [of "if is_absolute s then [] else root"] plain_parts by (simp add: resolve_onto_def)

lemma clean_join_ends:
  assumes "clean ps" "ps \<noteq> []"
  shows "join ''/'' ps \<noteq> []" and "hd (join ''/'' ps) \<noteq> CHR ''/''" and "last (join ''/'' ps) \<noteq> CHR ''/''"
proof -
  have "join ''/'' ps \<noteq> [] \<and> hd (join ''/'' ps) \<noteq> CHR ''/'' \<and> last (join ''/'' ps) \<noteq> CHR ''/''"
    using assms
  proof (induction "''/''" ps rule: join.induct)
    case (2 p)
    then have p: "p \<noteq> []" "CHR ''/'' \<notin> set p" by (auto simp: clean_def component_def)
    have "hd p \<noteq> CHR ''/''" using p hd_in_set [of p] by metis
    moreover have "last p \<noteq> CHR ''/''" using p last_in_set [of p] by metis
    ultimately show ?case using p by simp
  next
    case (3 p q ps)
    then have p: "p \<noteq> []" "CHR ''/'' \<notin> set p" by (auto simp: clean_def component_def)
    have "hd p \<noteq> CHR ''/''" using p hd_in_set [of p] by metis
    then show ?case using 3 p by (auto simp: clean_def hd_append)
  qed simp
  then show "join ''/'' ps \<noteq> []" "hd (join ''/'' ps) \<noteq> CHR ''/''" "last (join ''/'' ps) \<noteq> CHR ''/''" by auto
qed

lemma strip_right_plain: "s \<noteq> [] \<Longrightarrow> \<not> p (last s) \<Longrightarrow> strip_right p s = s"
  by (cases s rule: rev_cases) (simp_all add: strip_right_def)

lemma slashed_plain:
  assumes "s \<noteq> []" "hd s \<noteq> CHR ''/''" "last s \<noteq> CHR ''/''" "plain_name s"
  shows "slashed s = s"
proof -
  have l: "strip_left (\<lambda>c. c = CHR ''/'') s = s" using assms(1,2) by (cases s) (simp_all add: strip_left_def)
  have "strip_both (\<lambda>c. c = CHR ''/'') s = s" using assms(1,3) by (simp add: strip_both_def l strip_right_plain)
  then show ?thesis using assms(4) by (auto simp: slashed_def replace_char_def plain_name_def intro: map_idI)
qed

lemma posix_rel_slashed:
  assumes "clean ps" "list_all plain_name ps"
  shows "slashed (posix_rel ps) = posix_rel ps" and "\<not> has_glob_marker (posix_rel ps)"
    and "strip_right (\<lambda>c. c = CHR ''/'') (posix_rel ps) = posix_rel ps"
  using slashed_plain [of "join ''/'' ps"] strip_right_plain [of "join ''/'' ps"] clean_join_ends [OF assms(1)] plain_join [OF assms(2)]
  by (cases "ps = []"; simp add: posix_rel_def plain_name_def; code_simp)+

text \<open>A plain scope entry permits exactly what lies at or below it.\<close>

lemma plain_scope:
  assumes r: "clean r" "list_all plain_name r" and q: "clean q" "list_all plain_name q" "q \<noteq> []"
    and a: "allowed_by (slashed (posix_rel q)) (slashed (posix_rel r))"
  shows "r \<noteq> [] \<and> prefix r q"
proof -
  have name: "split_at (CHR ''/'') (posix_rel q) = q"
    using split_join [of q "CHR ''/''"] q by (auto simp: posix_rel_def clean_def component_def list_all_iff)
  have "under_path (posix_rel r) (posix_rel q)"
    using a by (simp add: allowed_by_def posix_rel_slashed [OF r] posix_rel_slashed [OF q(1,2)])
  then consider "posix_rel q = posix_rel r" | t where "posix_rel q = posix_rel r @ CHR ''/'' # t"
    unfolding under_path_def posix_rel_slashed(3) [OF r] starts_with_def prefix_def by auto
  then obtain t where t: "q = split_at (CHR ''/'') (posix_rel r) @ t"
    using name by (metis append_Nil2 split_at_append)
  have "r \<noteq> []"
  proof
    assume "r = []"
    then have "''.'' \<in> set q" using t by (simp add: posix_rel_def)
    then show False using q(1) by (auto simp: clean_def component_def list_all_iff)
  qed
  moreover then have "split_at (CHR ''/'') (posix_rel r) = r"
    using split_join [of r "CHR ''/''"] r by (auto simp: posix_rel_def clean_def component_def list_all_iff)
  ultimately show ?thesis using t by simp
qed

subsection \<open>Plain write sets\<close>

lemma normalize_plain:
  assumes root: "clean root" "list_all plain_name root" and raw: "plain_name raw"
    and n: "normalize_rel_path root [] raw = Inr rel"
  obtains r where "resolve_onto root raw = root @ r" "rel = posix_rel r" "clean r" "list_all plain_name r"
proof -
  have u: "path_is_under (resolve_onto root raw) root" using n by (simp add: normalize_rel_path_def Let_def split: if_splits)
  then obtain r where r: "resolve_onto root raw = root @ r" by (auto simp: path_is_under_def prefix_def)
  have "rel = posix_rel r" using n u r by (simp add: normalize_rel_path_def)
  moreover have "clean r" using resolve_clean [OF root(1), of raw] r by (simp add: clean_def)
  moreover have "list_all plain_name r" using plain_resolve [OF root(2) raw] r by simp
  ultimately show thesis using that r by blast
qed

lemma add_normalized_mem:
  "add_normalized root ext raws acc = Inr allowed \<Longrightarrow> a \<in> set allowed \<Longrightarrow>
     a \<in> set acc \<or> (\<exists>raw\<in>set raws. normalize_rel_path root ext raw = Inr a)"
proof (induction raws arbitrary: acc)
  case (Cons raw raws)
  obtain rel where "normalize_rel_path root ext raw = Inr rel"
    and "add_normalized root ext raws (if rel \<in> set acc then acc else acc @ [rel]) = Inr allowed"
    using Cons.prems(1) by (auto simp: rbind_eq_Inr)
  then show ?case using Cons.IH [OF _ Cons.prems(2)] by (fastforce split: if_splits)
qed simp

lemma capture_from_has:
  assumes root: "clean root" and ws: "ws_clean ws"
  shows "capture_from root ext ws raws snap = Inr base \<Longrightarrow> snapshot_of root ws snap \<Longrightarrow> raw \<in> set raws \<Longrightarrow>
     normalize_rel_path root ext raw = Inr rel \<Longrightarrow> \<not> has_glob_marker raw \<Longrightarrow>
     (if is_dir ws (absolute_for_normalized_path root rel)
      then rel_name root ` set (files_below ws (absolute_for_normalized_path root rel)) \<subseteq> fst ` set base
      else rel \<in> fst ` set base)"
proof (induction raws arbitrary: snap)
  case (Cons raw' raws)
  obtain rel' where rel: "normalize_rel_path root ext raw' = Inr rel'" using Cons.prems by (auto simp: rbind_eq_Inr)
  let ?a = "absolute_for_normalized_path root rel'"
  let ?snap = "if has_glob_marker raw' then snapshot_files root ws (existing_glob_files root ext ws raw') snap
             else if is_dir ws ?a then snapshot_files root ws (files_below ws ?a) snap
             else AList.update rel' (file_at ws ?a) snap"
  have rest: "capture_from root ext ws raws ?snap = Inr base" using Cons.prems(1) rel by (simp add: Let_def)
  note f = snapshot_files_ok [OF root files_below_clean [OF ws] Cons.prems(2)]
  have ok: "snapshot_of root ws ?snap"
    using f snapshot_files_ok [OF root glob_files_clean [OF ws] Cons.prems(2)]
      snapshot_of_update [OF Cons.prems(2) refl] normalize_name [OF root rel]
    by (auto simp: names_place_def)
  have keys: "fst ` set ?snap \<subseteq> fst ` set base" using capture_from_ok [OF root ws rest ok] by simp
  show ?case
  proof (cases "raw = raw'")
    case True
    then show ?thesis using keys f rel Cons.prems(4,5) by (auto simp: alist_update_keys split: if_splits)
  next
    case False
    then show ?thesis using Cons.IH [OF rest ok] Cons.prems by simp
  qed
qed simp

text \<open>A repository: clean and plain names below the root, and every file lies in directories.\<close>

definition plain_tree :: "apath \<Rightarrow> workspace \<Rightarrow> bool" where
  "plain_tree root ws \<longleftrightarrow>
     list_all (\<lambda>(p, f). clean p \<and> list_all plain_name p \<and> strict_prefix root p \<and> \<not> is_dir ws p
                \<and> list_all (\<lambda>n. is_dir ws (take n p)) [0..<length p]) (ws_files ws)"

lemma plain_treeD:
  assumes "plain_tree root ws" "file_at ws p \<noteq> None"
  shows "clean p" "list_all plain_name p" "strict_prefix root p" "\<not> is_dir ws p" "strict_prefix d p \<Longrightarrow> is_dir ws d"
    "p \<in> set (map fst (ws_files ws))"
proof -
  obtain f where f: "(p, f) \<in> set (ws_files ws)" using assms(2) by (auto simp: file_at_def dest: map_of_SomeD)
  note t = assms(1) [unfolded plain_tree_def list_all_iff, rule_format, OF f, simplified]
  show "clean p" "list_all plain_name p" "strict_prefix root p" "\<not> is_dir ws p" using t by (simp_all add: list_all_iff)
  show "is_dir ws d" if d: "strict_prefix d p"
  proof -
    obtain x xs where "p = d @ x # xs" using d by (auto elim: strict_prefixE')
    then have "length d < length p" "take (length d) p = d" by simp_all
    then show ?thesis using t by (metis atLeastLessThan_iff le0)
  qed
  show "p \<in> set (map fst (ws_files ws))" using f by force
qed

text \<open>C23: for a write set of plain paths, no globs, the snapshot taken before the mutation covers the scope:
  each existing file a patch may change is in it. With C27, a failed mutation is undone completely.\<close>

theorem plain_write_set_is_covered:
  assumes root: "clean (me_root m)" "list_all plain_name (me_root m)" and ext: "me_ext m = []"
    and writes: "list_all plain_name (me_write_set m)" and tree: "plain_tree (me_root m) ws"
    and allowed: "normalize_allowed_paths (me_root m) (me_ext m) (me_write_set m) = Inr allowed"
    and base: "capture_workspace_snapshot (me_root m) (me_ext m) ws (me_write_set m) = Inr base"
  shows "covers m allowed ws base"
proof -
  have wsc: "ws_clean ws" using tree by (auto simp: ws_clean_def plain_tree_def list_all_iff)
  have "p \<in> abs_of m ` fst ` set base" if scope: "in_scope m allowed p" and f: "file_at ws p \<noteq> None" for p
  proof -
    note t = plain_treeD [OF tree f]
    obtain q where q: "p = me_root m @ q" "q \<noteq> []" using t(3) by (auto simp: strict_prefix_def prefix_def)
    have qs: "clean q" "list_all plain_name q" using t(1,2) q by (simp_all add: clean_def)
    have name: "rel_name (me_root m) p = posix_rel q" by (simp add: rel_name_def path_is_under_def q)
    obtain rel where rel: "rel \<in> set allowed" "allowed_by (slashed (posix_rel q)) (slashed rel)"
      using scope name by (auto simp: in_scope_def is_path_allowed_def list_ex_iff)
    obtain raw where raw: "raw \<in> set (me_write_set m)" "normalize_rel_path (me_root m) [] raw = Inr rel"
      using add_normalized_mem [OF allowed [unfolded normalize_allowed_paths_def] rel(1)] ext by auto
    have "plain_name raw" using raw(1) writes by (simp add: list_all_iff)
    then obtain r where r: "resolve_onto (me_root m) raw = me_root m @ r" "rel = posix_rel r" "clean r" "list_all plain_name r"
      and nm: "\<not> has_glob_marker raw"
      using normalize_plain [OF root _ raw(2)] by (metis plain_name_def)
    have pre: "prefix r q" using plain_scope [OF r(3,4) qs q(2)] rel(2) r(2) by simp
    have a: "absolute_for_normalized_path (me_root m) rel = me_root m @ r"
      using normalize_absolute(1) [OF root(1) raw(2)] r(1) by simp
    note has = capture_from_has [OF root(1) wsc base [unfolded capture_workspace_snapshot_def ext] _ raw nm, unfolded a]
    show ?thesis
    proof (cases "r = q")
      case True
      then have "rel \<in> fst ` set base" "abs_of m rel = p" using has t(4) a by (simp_all add: q snapshot_of_def abs_of_def)
      then show ?thesis by blast
    next
      case False
      then have below: "strict_prefix (me_root m @ r) p" using pre by (auto simp: q strict_prefix_def)
      then have "p \<in> set (files_below ws (me_root m @ r))" using t(6) by (auto simp: files_below_def)
      then have "rel_name (me_root m) p \<in> fst ` set base" using has t(5) [OF below] by (auto simp: snapshot_of_def)
      moreover have "abs_of m (rel_name (me_root m) p) = p" using absolute_rel_name [OF root(1) t(1)] by (simp add: abs_of_def)
      ultimately show ?thesis by (metis imageI)
    qed
  qed
  then show ?thesis by (simp add: covers_def)
qed

theorem plain_write_set_is_covered_witness:
  "covers (demo_env [''src'', ''doc/new.md''] demo_diff False) [''src'', ''doc/new.md''] demo_ws
     [(''src/x.py'', Some (Text (unlines [''b'', ''b'', ''d'']))), (''doc/new.md'', None)]"
  by (rule plain_write_set_is_covered; code_simp)

text \<open>A file one directory deeper than the pattern's.\<close>

definition nested_ws :: workspace where
  "nested_ws = \<lparr>ws_files = [([''w'', ''src'', ''a'', ''b.py''], Text (unlines [''b'', ''b'', ''d'']))],
                ws_dirs = [[''w''], [''w'', ''src''], [''w'', ''src'', ''a'']]\<rparr>"

definition nested_diff :: string where
  "nested_diff = unlines [''--- a/src/a/b.py'', ''+++ b/src/a/b.py'', ''@@ -2,2 +2,2 @@'', '' b'', ''+c'', ''-d'']"

text \<open>With the write set \<open>src/*.py\<close> the patch of a file \<open>src/a/b.py\<close> is in scope, since \<open>*\<close> of \<open>fnmatch\<close> matches a
  slash, but the snapshot misses the file, since \<open>*\<close> of \<open>Path.glob\<close> does not; when the tests fail, the
  file is deleted instead of restored.\<close>

theorem failed_mutation_deletes_uncaptured_file:
  "is_path_allowed ''src/a/b.py'' [''src/*.py'']
   \<and> capture_workspace_snapshot [''w''] [] nested_ws [''src/*.py''] = Inr []
   \<and> file_at nested_ws [''w'', ''src'', ''a'', ''b.py''] = Some (Text (unlines [''b'', ''b'', ''d'']))
   \<and> file_at (fst (execute_repo_mutation (demo_env [''src/*.py''] nested_diff False) nested_ws)) [''w'', ''src'', ''a'', ''b.py''] = None"
  by (intro conjI; code_simp)

end
