(* ===== verification/Operator_Guard.thy ===== *)
theory Operator_Guard
  imports Py_Json
begin

section \<open>Operator action receipts\<close>

text \<open>
  \<open>OperatorActionGuard\<close> of \<^verbatim>\<open>packages/core_domain/service_operator_action_guard.py\<close> over
  \<open>OperatorActionReceiptRepository\<close> of \<^verbatim>\<open>repositories.py\<close>: a receipt is issued for an action and a scope and
  consumed once by the action. The hash function is an argument of the operations. Consuming reads
  the receipt and marks it in two statements on two connections; \<open>guard_step\<close> interleaves the
  statements of several consumers.
\<close>

subsection \<open>Receipts and their table\<close>

record receipt =
  or_receipt_id :: string
  or_action_type :: string
  or_workspace_root :: string
  or_risk_level :: string
  or_operator_id :: string
  or_requested_write_set :: "string list"
  or_scope_hash :: "string option"
  or_scope_payload :: "(string \<times> json) list"
  or_nonce :: string
  or_status :: string
  or_expires_at :: time
  or_consumed_at :: "time option"
  or_audit_timestamp :: time
  or_metadata :: "(string \<times> json) list"
  or_created_at :: time

definition receipt_create :: "receipt \<Rightarrow> receipt list \<Rightarrow> werror + receipt list" where
  "receipt_create r rows =
     sql_insert ''operator_action_receipts''
       (or_receipt_id r \<notin> or_receipt_id ` set rows \<and> or_nonce r \<notin> or_nonce ` set rows) r rows"

definition receipt_get :: "string \<Rightarrow> receipt list \<Rightarrow> receipt option" where
  "receipt_get rid rows = sql_first (\<lambda>r. or_receipt_id r = rid) rows"

definition set_consumed :: "time \<Rightarrow> receipt \<Rightarrow> receipt" where
  "set_consumed at r = r\<lparr>or_status := ''consumed'', or_consumed_at := Some at\<rparr>"

definition receipt_mark :: "string \<Rightarrow> time \<Rightarrow> receipt list \<Rightarrow> receipt list" where
  "receipt_mark rid at rows = sql_update (\<lambda>r. or_receipt_id r = rid \<and> or_status r = ''issued'') (set_consumed at) rows"

definition mark_consumed :: "string \<Rightarrow> time \<Rightarrow> receipt list \<Rightarrow> receipt option \<times> receipt list" where
  "mark_consumed rid at rows = (let rows' = receipt_mark rid at rows in (receipt_get rid rows', rows'))"

interpretation receipt_table: mutable_repository or_receipt_id receipt_create receipt_get
  set_consumed "\<lambda>r. or_status r = ''issued''" receipt_mark
  by unfold_locales (auto simp: receipt_create_def receipt_get_def receipt_mark_def set_consumed_def)

subsection \<open>The guard\<close>

record guard =
  gd_cwd :: apath
  gd_root :: apath \<comment> \<open>\<open>workspace_root\<close>, resolved\<close>
  gd_ttl :: int
  gd_hash :: "string \<Rightarrow> string" \<comment> \<open>\<open>sha256(..).hexdigest()\<close>\<close>

definition high_risk_actions :: "string list" where
  "high_risk_actions =
     [''resume_run'', ''approve_run'', ''reject_run'', ''cancel_run'', ''batch_resume_runs'', ''confirm_chat_action'',
      ''launch_execute'', ''reconcile_apply'', ''watchdog_auto_apply'']"

text \<open>The text that is hashed, and \<open>operator_action_scope_hash\<close>.\<close>

definition scope_text :: "guard \<Rightarrow> (string \<times> pyvalue) list \<Rightarrow> string" where
  "scope_text g scope = json_text (JObj (canonicalize_operator_action_scope (gd_cwd g) scope))"

definition operator_action_scope_hash :: "guard \<Rightarrow> (string \<times> pyvalue) list \<Rightarrow> string" where
  "operator_action_scope_hash g scope = gd_hash g (scope_text g scope)"

definition issued_scope :: "guard \<Rightarrow> string list \<Rightarrow> (string \<times> pyvalue) list \<Rightarrow> (string \<times> json) list" where
  "issued_scope g write_set scope =
     (let canonical = canonicalize_operator_action_scope (gd_cwd g) scope
      in if write_set \<noteq> [] \<and> ''requested_write_set'' \<notin> fst ` set canonical
         then canonical @ [(''requested_write_set'', JList (map JStr (sort write_set)))]
         else canonical)"

definition issue_receipt ::
  "guard \<Rightarrow> env \<Rightarrow> string \<Rightarrow> string \<Rightarrow> string \<Rightarrow> string list \<Rightarrow> (string \<times> pyvalue) list \<Rightarrow> int option
   \<Rightarrow> (string \<times> json) list \<Rightarrow> receipt list \<Rightarrow> werror + receipt \<times> receipt list" where
  "issue_receipt g e action risk operator write_set scope ttl metadata rows =
     (let now = clock e 0;
          payload = issued_scope g write_set scope;
          r = \<lparr>or_receipt_id = new_id ''opreceipt'' (hex12 e 0), or_action_type = action,
               or_workspace_root = posix_abs (gd_root g), or_risk_level = risk, or_operator_id = operator,
               or_requested_write_set = write_set,
               or_scope_hash = Some (operator_action_scope_hash g (map (\<lambda>(k, v). (k, of_json v)) payload)),
               or_scope_payload = payload, or_nonce = new_id ''nonce'' (hex12 e 1), or_status = ''issued'',
               or_expires_at = now + seconds (case ttl of Some t \<Rightarrow> if t \<noteq> 0 then t else gd_ttl g | None \<Rightarrow> gd_ttl g),
               or_consumed_at = None, or_audit_timestamp = now, or_metadata = metadata, or_created_at = clock e 1\<rparr>
      in rbind (receipt_create r rows) (\<lambda>rows'. Inr (r, rows')))"

text \<open>\<open>Path(workspace_root or self.workspace_root).resolve()\<close>.\<close>

definition expected_root :: "guard \<Rightarrow> string option \<Rightarrow> apath" where
  "expected_root g root =
     (case root of
        Some s \<Rightarrow> if s \<noteq> [] then resolve_onto (gd_cwd g) s else gd_root g
      | None \<Rightarrow> gd_root g)"

text \<open>\<open>consume_receipt\<close> up to the update: the checks on the row that was read.\<close>

definition check_receipt ::
  "guard \<Rightarrow> time \<Rightarrow> string option \<Rightarrow> string \<Rightarrow> string option \<Rightarrow> (string \<times> pyvalue) list \<Rightarrow> receipt list \<Rightarrow> werror + receipt" where
  "check_receipt g now rid action root scope rows =
     (case rid of
        None \<Rightarrow> Inl (OperatorActionReceiptError ''operator action receipt is required'')
      | Some k \<Rightarrow>
          if k = [] then Inl (OperatorActionReceiptError ''operator action receipt is required'')
          else case receipt_get k rows of
            None \<Rightarrow> Inl (EntityNotFoundError ''operator_action_receipt'' k)
          | Some r \<Rightarrow>
              if or_action_type r \<noteq> action
              then Inl (OperatorActionReceiptError ''operator action receipt action_type mismatch'')
              else if resolve_onto (gd_cwd g) (or_workspace_root r) \<noteq> expected_root g root
              then Inl (OperatorActionReceiptError ''operator action receipt workspace_root mismatch'')
              else if or_status r \<noteq> ''issued''
              then Inl (OperatorActionReceiptError ''operator action receipt is not issued'')
              else if action \<in> set high_risk_actions \<and> (or_scope_hash r = None \<or> or_scope_hash r = Some [])
              then Inl (OperatorActionReceiptError ''operator action receipt is missing scope_hash'')
              else if action \<in> set high_risk_actions \<and> or_scope_hash r \<noteq> Some (operator_action_scope_hash g scope)
              then Inl (OperatorActionReceiptError ''operator action receipt scope_hash mismatch'')
              else if or_expires_at r \<le> now
              then Inl (OperatorActionReceiptError ''operator action receipt expired'')
              else Inr r)"

definition finish_consume :: "receipt \<Rightarrow> time \<Rightarrow> receipt list \<Rightarrow> werror + receipt \<times> receipt list" where
  "finish_consume r now rows =
     (case mark_consumed (or_receipt_id r) now rows of
        (None, _) \<Rightarrow> Inl (OperatorActionReceiptError ''operator action receipt could not be consumed'')
      | (Some r', rows') \<Rightarrow> Inr (r', rows'))"

definition consume_receipt ::
  "guard \<Rightarrow> env \<Rightarrow> string option \<Rightarrow> string \<Rightarrow> string option \<Rightarrow> (string \<times> pyvalue) list \<Rightarrow> receipt list
   \<Rightarrow> werror + receipt \<times> receipt list" where
  "consume_receipt g e rid action root scope rows =
     rbind (check_receipt g (clock e 0) rid action root scope rows) (\<lambda>r. finish_consume r (clock e 0) rows)"

subsection \<open>Consumers that interleave\<close>

record request =
  rq_receipt_id :: "string option"
  rq_action :: string
  rq_root :: "string option"
  rq_scope :: "(string \<times> pyvalue) list"
  rq_now :: time

datatype phase = Waiting request | Checked receipt time | Consumed receipt

definition check_request :: "guard \<Rightarrow> request \<Rightarrow> receipt list \<Rightarrow> werror + receipt" where
  "check_request g q rows = check_receipt g (rq_now q) (rq_receipt_id q) (rq_action q) (rq_root q) (rq_scope q) rows"

record guard_state =
  gs_rows :: "receipt list"
  gs_phase :: "nat \<Rightarrow> phase"

inductive guard_step :: "guard \<Rightarrow> guard_state \<Rightarrow> guard_state \<Rightarrow> bool" for g :: guard where
  read: "gs_phase s i = Waiting q \<Longrightarrow> check_request g q (gs_rows s) = Inr r \<Longrightarrow>
    guard_step g s (s\<lparr>gs_phase := (gs_phase s)(i := Checked r (rq_now q))\<rparr>)"
| mark: "gs_phase s i = Checked r now \<Longrightarrow> finish_consume r now (gs_rows s) = Inr (r', rows') \<Longrightarrow>
    guard_step g s (s\<lparr>gs_rows := rows', gs_phase := (gs_phase s)(i := Consumed r')\<rparr>)"

inductive_cases guard_stepE: "guard_step g s s'"

subsection \<open>Lemmas\<close>

lemma check_receiptD:
  assumes "check_receipt g now rid action root scope rows = Inr r"
  obtains k where "rid = Some k" "k \<noteq> []" "receipt_get k rows = Some r" "or_receipt_id r = k" "r \<in> set rows"
    "or_action_type r = action" "resolve_onto (gd_cwd g) (or_workspace_root r) = expected_root g root"
    "or_status r = ''issued''" "now < or_expires_at r"
    "action \<in> set high_risk_actions \<Longrightarrow> or_scope_hash r = Some (operator_action_scope_hash g scope)"
proof -
  obtain k where k: "rid = Some k" "receipt_get k rows = Some r"
    using assms by (auto simp: check_receipt_def split: option.splits if_splits)
  moreover have "or_receipt_id r = k \<and> r \<in> set rows" using k(2) by (auto simp: receipt_get_def dest: sql_first_Some)
  ultimately show thesis using that [of k] assms by (auto simp: check_receipt_def split: if_splits)
qed

text \<open>Marking: the row read first under an id becomes consumed, its other fields stay.\<close>

lemma get_mark:
  "receipt_get rid rows = Some r \<Longrightarrow> receipt_get rid (receipt_mark rid at rows) = Some (if or_status r = ''issued'' then set_consumed at r else r)"
  by (induction rows) (auto simp: receipt_get_def receipt_mark_def sql_first_def sql_update_def set_consumed_def split: if_splits)

lemma get_mark_other:
  "rid \<noteq> rid' \<Longrightarrow> receipt_get rid (receipt_mark rid' at rows) = receipt_get rid rows"
  by (induction rows) (auto simp: receipt_get_def receipt_mark_def sql_first_def sql_update_def set_consumed_def)

lemma set_consumed_simps [simp]:
  "or_status (set_consumed at r) = ''consumed''" "or_receipt_id (set_consumed at r) = or_receipt_id r"
  "or_action_type (set_consumed at r) = or_action_type r" "or_scope_hash (set_consumed at r) = or_scope_hash r"
  by (simp_all add: set_consumed_def)

lemma finish_consumeD:
  assumes "finish_consume r now rows = Inr (r', rows')"
  shows "rows' = receipt_mark (or_receipt_id r) now rows" "receipt_get (or_receipt_id r) rows' = Some r'"
  using assms by (auto simp: finish_consume_def mark_consumed_def Let_def split: option.splits)

lemma finish_consume_present:
  "receipt_get (or_receipt_id r) rows = Some q \<Longrightarrow>
     finish_consume r now rows = Inr (if or_status q = ''issued'' then set_consumed now q else q, receipt_mark (or_receipt_id r) now rows)"
  by (simp add: finish_consume_def mark_consumed_def get_mark)

text \<open>A receipt that is not issued stays so, whatever is created or consumed.\<close>

definition spent :: "string \<Rightarrow> receipt list \<Rightarrow> bool" where
  "spent rid rows \<longleftrightarrow> (\<exists>r. receipt_get rid rows = Some r \<and> or_status r \<noteq> ''issued'')"

lemma spent_mark: "spent rid rows \<Longrightarrow> spent rid (receipt_mark rid' at rows)"
  by (cases "rid = rid'") (auto simp: spent_def get_mark get_mark_other)

lemma spent_create: "spent rid rows \<Longrightarrow> receipt_create r rows = Inr rows' \<Longrightarrow> spent rid rows'"
  by (auto simp: spent_def receipt_get_def receipt_create_def sql_first_append)

lemma spent_refused: "spent rid rows \<Longrightarrow> check_receipt g now (Some rid) action root scope rows \<noteq> Inr r"
  by (auto simp: spent_def elim!: check_receiptD)

lemma consumed_spent: "finish_consume r now rows = Inr (r', rows') \<Longrightarrow> receipt_get (or_receipt_id r) rows = Some q \<Longrightarrow> spent (or_receipt_id r) rows'"
  by (auto simp: finish_consume_present spent_def get_mark)

end
