(* ===== verification/Guard_Properties.thy ===== *)
theory Guard_Properties
  imports Operator_Guard "HOL-Library.Multiset"
begin

section \<open>What a receipt opens\<close>

text \<open>
  A fresh receipt lets exactly its action through, once, when the consumers come one after another;
  consumers that interleave between the check and the mark all get through.
\<close>

subsection \<open>One consumer after the other\<close>

lemma issue_receiptD:
  assumes "issue_receipt g e action risk operator writes scope ttl metadata rows = Inr (r, rows')"
  shows "rows' = rows @ [r]" "or_receipt_id r \<notin> or_receipt_id ` set rows" "or_receipt_id r = new_id ''opreceipt'' (hex12 e 0)"
    "or_action_type r = action" "or_workspace_root r = posix_abs (gd_root g)" "or_status r = ''issued''"
    "or_scope_hash r = Some (operator_action_scope_hash g (map (\<lambda>(k, v). (k, of_json v)) (issued_scope g writes scope)))"
  using assms by (auto simp: issue_receipt_def Let_def rbind_eq_Inr receipt_create_def)

text \<open>Two values of a scope are the same up to the order of the keys of a dictionary, at any depth, and up to the order of a list
  under a key that the guard lists as unordered.\<close>

inductive same_value :: "string option \<Rightarrow> pyvalue \<Rightarrow> pyvalue \<Rightarrow> bool" where
  same_refl: "same_value key v v"
| same_trans: "same_value key u v \<Longrightarrow> same_value key v w \<Longrightarrow> same_value key u w"
| unordered: "k \<in> set order_insensitive_scope_lists \<Longrightarrow> mset xs = mset ys \<Longrightarrow> same_value (Some k) (PySeq xs) (PySeq ys)"
| items: "list_all2 (same_value None) xs ys \<Longrightarrow> same_value key (PySeq xs) (PySeq ys)"
| keys: "distinct (map fst kvs) \<Longrightarrow> mset kvs = mset kvs' \<Longrightarrow> same_value key (PyDict kvs) (PyDict kvs')"
| entries: "list_all2 (\<lambda>p q. fst p = fst q \<and> same_value (Some (fst p)) (snd p) (snd q)) kvs kvs' \<Longrightarrow> same_value key (PyDict kvs) (PyDict kvs')"

lemma sort_of_mset: "mset xs = mset ys \<Longrightarrow> sort xs = sort ys"
  by (metis mset_sort properties_for_sort sorted_sort)

lemma sort_keys_of_mset:
  assumes "mset xs = mset ys" and "distinct (map fst xs)"
  shows "sort_key fst xs = sort_key fst ys"
  by (rule sort_key_inj_key_eq) (use assms in \<open>simp_all add: distinct_map\<close>)

text \<open>The canonical form does not tell them apart.\<close>

lemma same_value_normalizes: "same_value key v w \<Longrightarrow> normalize_scope_value cwd key v = normalize_scope_value cwd key w"
proof (induction rule: same_value.induct)
  case (unordered k xs ys)
  then have "sort (map (py_str \<circ> normalize_scope_value cwd None) xs) = sort (map (py_str \<circ> normalize_scope_value cwd None) ys)"
    by (intro sort_of_mset) simp
  then show ?case using unordered(1) by (simp add: Let_def)
next
  case (items xs ys key)
  then have "map (normalize_scope_value cwd None) xs = map (normalize_scope_value cwd None) ys"
    by (induction rule: list_all2_induct) auto
  then show ?case by (simp add: Let_def)
next
  case (keys kvs kvs' key)
  let ?n = "\<lambda>(k, v). (k, normalize_scope_value cwd (Some k) v)"
  have "sort_key fst (map ?n kvs) = sort_key fst (map ?n kvs')"
    by (rule sort_keys_of_mset) (use keys in \<open>simp_all add: comp_def case_prod_unfold\<close>)
  then show ?case by simp
next
  case (entries kvs kvs' key)
  let ?n = "\<lambda>(k, v). (k, normalize_scope_value cwd (Some k) v)"
  have "map ?n kvs = map ?n kvs'" using entries by (induction rule: list_all2_induct) auto
  then show ?case by simp
qed simp_all

text \<open>What a receipt is issued for: the scope, with the write set unless the scope has one.\<close>

definition receipt_scope :: "string list \<Rightarrow> (string \<times> pyvalue) list \<Rightarrow> (string \<times> pyvalue) list" where
  "receipt_scope writes scope =
     (if writes \<noteq> [] \<and> ''requested_write_set'' \<notin> fst ` set scope
      then scope @ [(''requested_write_set'', PySeq (map PyStr writes))] else scope)"

lemma canonical_keys: "fst ` set (canonicalize_operator_action_scope cwd scope) = fst ` set scope"
  by (force simp: canonicalize_operator_action_scope_def)

lemma canonical_json_fixed:
  "map (\<lambda>(k, v). (k, normalize_scope_value cwd (Some k) (of_json v))) (canonicalize_operator_action_scope cwd kvs)
     = canonicalize_operator_action_scope cwd kvs"
  by (rule map_idI) (auto simp: canonicalize_operator_action_scope_def normalize_idem)

lemma hash_of_issued_scope:
  assumes dict: "distinct (map fst scope)"
  shows "operator_action_scope_hash g (map (\<lambda>(k, v). (k, of_json v)) (issued_scope g writes scope))
     = operator_action_scope_hash g (receipt_scope writes scope)"
proof (cases "writes \<noteq> [] \<and> ''requested_write_set'' \<notin> fst ` set scope")
  case False
  then show ?thesis
    by (auto simp: operator_action_scope_hash_def scope_text_def issued_scope_def receipt_scope_def Let_def canonical_scope_idem canonical_keys)
next
  case True
  let ?c = "canonicalize_operator_action_scope (gd_cwd g)" and ?w = "(''requested_write_set'', JList (map JStr (sort writes)))"
  let ?n = "\<lambda>(k, v). (k, normalize_scope_value (gd_cwd g) (Some k) v)"
  have sorted: "normalize_scope_value (gd_cwd g) (Some ''requested_write_set'') (PySeq (map PyStr ws)) = JList (map JStr (sort ws))" for ws
    by (simp add: Let_def comp_def order_insensitive_scope_lists_def)
  then have again: "normalize_scope_value (gd_cwd g) (Some ''requested_write_set'') (PySeq (map PyStr (sort writes))) = JList (map JStr (sort writes))"
    by (simp only: sort_key_idem)
  have "?c (map (\<lambda>(k, v). (k, of_json v)) (?c scope @ [?w])) = sort_key fst (?c scope @ [?w])"
    unfolding canonicalize_operator_action_scope_def [of _ "map _ _"]
    using canonical_json_fixed [of "gd_cwd g" scope] again
    by (simp add: comp_def case_prod_unfold del: normalize_scope_value.simps)
  also have "\<dots> = sort_key fst (map ?n scope @ [?w])"
  proof (rule sort_keys_of_mset)
    have "mset (?c scope) = mset (map ?n scope)" by (simp add: canonicalize_operator_action_scope_def)
    then show "mset (?c scope @ [?w]) = mset (map ?n scope @ [?w])" by simp
    have "mset (map fst (?c scope)) = mset (map fst scope)"
      by (simp add: canonicalize_operator_action_scope_def case_prod_unfold multiset.map_comp comp_def)
    then have "distinct (map fst (?c scope))" using dict by (metis mset_eq_imp_distinct_iff)
    then show "distinct (map fst (?c scope @ [?w]))" using True canonical_keys [of "gd_cwd g" scope] by simp
  qed
  also have "\<dots> = ?c (receipt_scope writes scope)"
    using True sorted [of writes] by (simp add: receipt_scope_def canonicalize_operator_action_scope_def)
  finally show ?thesis
    using True by (simp add: operator_action_scope_hash_def scope_text_def issued_scope_def Let_def canonical_keys)
qed

text \<open>Receipts are issued and consumed one after the other, by whatever guards.\<close>

datatype guard_op =
    Issue guard env string string string "string list" "(string \<times> pyvalue) list" "int option" "(string \<times> json) list"
  | Consume guard env "string option" string "string option" "(string \<times> pyvalue) list"

fun guard_op_step :: "guard_op \<Rightarrow> receipt list \<Rightarrow> werror + receipt list" where
  "guard_op_step (Issue g e action risk operator writes scope ttl metadata) rows =
     rbind (issue_receipt g e action risk operator writes scope ttl metadata rows) (\<lambda>(_, rows'). Inr rows')"
| "guard_op_step (Consume g e rid action root scope) rows =
     rbind (consume_receipt g e rid action root scope rows) (\<lambda>(_, rows'). Inr rows')"

fun consumes :: "string \<Rightarrow> guard_op \<Rightarrow> bool" where
  "consumes rid (Consume g e r action root scope) \<longleftrightarrow> r = Some rid"
| "consumes rid (Issue _ _ _ _ _ _ _ _ _) \<longleftrightarrow> False"

lemma issue_keeps:
  assumes "issue_receipt g e action risk operator writes scope ttl metadata rows = Inr (r, rows')" and "receipt_get k rows = Some q"
  shows "receipt_get k rows' = Some q"
  using assms by (auto simp: issue_receiptD(1) [OF assms(1)] receipt_get_def sql_first_append)

lemma consume_keeps:
  assumes "consume_receipt g e rid action root scope rows = Inr (r, rows')" and "rid \<noteq> Some k"
  shows "receipt_get k rows' = receipt_get k rows"
proof -
  obtain c where c: "check_receipt g (clock e 0) rid action root scope rows = Inr c" "finish_consume c (clock e 0) rows = Inr (r, rows')"
    using assms(1) by (auto simp: consume_receipt_def rbind_eq_Inr)
  from c(1) have "or_receipt_id c \<noteq> k" by (rule check_receiptD) (use assms(2) in auto)
  then show ?thesis using finish_consumeD(1) [OF c(2)] get_mark_other [of k "or_receipt_id c"] by simp
qed

lemma ops_keep_receipt:
  assumes "receipt_get k rows = Some q" and "\<not> list_ex (consumes k) ops"
  shows "receipt_get k (run_events guard_op_step ops rows) = Some q"
  using assms
proof (induction ops arbitrary: rows)
  case (Cons op ops)
  have "receipt_get k rows' = Some q" if "guard_op_step op rows = Inr rows'" for rows'
    using that Cons.prems by (cases op) (auto simp: rbind_eq_Inr issue_keeps consume_keeps)
  then show ?case using Cons by (auto split: sum.split)
qed simp

lemma step_keeps_spent: "spent k rows \<Longrightarrow> guard_op_step op rows = Inr rows' \<Longrightarrow> spent k rows'"
  by (cases op) (auto simp: rbind_eq_Inr issue_receipt_def consume_receipt_def Let_def dest!: finish_consumeD(1) intro: spent_mark spent_create)

text \<open>C24: A receipt issued for an action, a scope and a write set lets that action through, whatever else is issued or consumed
  before, until it expires: with the write set in the scope, in any order of the keys of its dictionaries and of the lists that
  the guard treats as unordered. After that no consumer of any kind gets it again, at any later time, whatever is issued
  or consumed in between. The consumers come one after the other, a scope has no key twice, the workspace root is a
  resolved path and no digest is empty.\<close>

theorem receipt_opens_once:
  assumes issue: "issue_receipt g e action risk operator writes scope ttl metadata rows = Inr (r, rows0)"
    and dict: "distinct (map fst scope)" and path: "clean (gd_root g)" and digest: "\<forall>t. gd_hash g t \<noteq> []"
    and between: "\<not> list_ex (consumes (or_receipt_id r)) ops" and time: "clock e1 0 < or_expires_at r"
    and root: "expected_root g root1 = gd_root g"
    and same: "same_value None (PyDict (receipt_scope writes scope)) (PyDict scope1)"
  shows "\<exists>rows2. consume_receipt g e1 (Some (or_receipt_id r)) action root1 scope1 (run_events guard_op_step ops rows0)
             = Inr (set_consumed (clock e1 0) r, rows2)
     \<and> (\<forall>later g' e' action' root' scope'.
          \<exists>err. consume_receipt g' e' (Some (or_receipt_id r)) action' root' scope' (run_events guard_op_step later rows2) = Inl err)"
proof -
  let ?rid = "or_receipt_id r" and ?rows = "run_events guard_op_step ops rows0"
  note i = issue_receiptD [OF issue]
  have "sql_first (\<lambda>q. or_receipt_id q = ?rid) rows = None" using i(2) by (force simp: image_iff)
  then have "receipt_get ?rid rows0 = Some r" by (simp del: sql_first_None add: receipt_get_def i(1) sql_first_append)
  then have get: "receipt_get ?rid ?rows = Some r" using between by (rule ops_keep_receipt)
  have "canonicalize_operator_action_scope (gd_cwd g) scope1 = canonicalize_operator_action_scope (gd_cwd g) (receipt_scope writes scope)"
    using same_value_normalizes [OF same, of "gd_cwd g"] by (simp add: canonicalize_operator_action_scope_def)
  then have "or_scope_hash r = Some (operator_action_scope_hash g scope1)"
    using i(7) hash_of_issued_scope [OF dict] by (simp add: operator_action_scope_hash_def scope_text_def)
  moreover have "operator_action_scope_hash g scope1 \<noteq> []" using digest by (simp add: operator_action_scope_hash_def)
  moreover have "?rid \<noteq> []" by (simp add: i(3) new_id_def)
  moreover have "resolve_onto (gd_cwd g) (or_workspace_root r) = gd_root g" by (simp add: i(5) resolve_posix_abs [OF path])
  ultimately have "check_receipt g (clock e1 0) (Some ?rid) action root1 scope1 ?rows = Inr r"
    using get i(4,6) time root by (simp add: check_receipt_def)
  moreover have fin: "finish_consume r (clock e1 0) ?rows = Inr (set_consumed (clock e1 0) r, receipt_mark ?rid (clock e1 0) ?rows)"
    using finish_consume_present [OF get] i(6) by simp
  ultimately have "consume_receipt g e1 (Some ?rid) action root1 scope1 ?rows = Inr (set_consumed (clock e1 0) r, receipt_mark ?rid (clock e1 0) ?rows)"
    by (simp add: consume_receipt_def)
  moreover have "\<exists>err. consume_receipt g' e' (Some ?rid) action' root' scope'
      (run_events guard_op_step later (receipt_mark ?rid (clock e1 0) ?rows)) = Inl err" for later g' e' action' root' scope'
  proof -
    have sp: "spent ?rid (run_events guard_op_step later (receipt_mark ?rid (clock e1 0) ?rows))"
      using step_keeps_spent consumed_spent [OF fin get] by (rule run_events_invariant)
    show ?thesis
      using spent_refused [OF sp]
      by (cases "check_receipt g' (clock e' 0) (Some ?rid) action' root' scope'
            (run_events guard_op_step later (receipt_mark ?rid (clock e1 0) ?rows))") (auto simp: consume_receipt_def)
  qed
  ultimately show ?thesis by blast
qed

definition demo_guard :: guard where
  "demo_guard = \<lparr>gd_cwd = [''w''], gd_root = [''w''], gd_ttl = 300, gd_hash = (\<lambda>t. CHR ''#'' # t)\<rparr>"

definition demo_clock :: "time \<Rightarrow> env" where
  "demo_clock t = \<lparr>clock = (\<lambda>k. t), hex12 = (\<lambda>k. show_nat k)\<rparr>"

definition demo_scope :: "(string \<times> pyvalue) list" where
  "demo_scope = [(''run_ids'', PySeq [PyStr ''r2'', PyStr ''r1'']), (''goal'', PyStr ''x'')]"

definition demo_issued :: "receipt \<times> receipt list" where
  "demo_issued =
     (case issue_receipt demo_guard (demo_clock 0) ''batch_resume_runs'' ''high'' ''op'' [] demo_scope None [] [] of
        Inr x \<Rightarrow> x)"

lemma demo_issue:
  "issue_receipt demo_guard (demo_clock 0) ''batch_resume_runs'' ''high'' ''op'' [] demo_scope None [] []
     = Inr (fst demo_issued, snd demo_issued)"
  by code_simp

text \<open>A receipt with a write set, consumed after another one was issued, with everything in another order.\<close>

definition demo_written :: "receipt \<times> receipt list" where
  "demo_written =
     (case issue_receipt demo_guard (demo_clock 0) ''batch_resume_runs'' ''high'' ''op'' [''b'', ''a''] demo_scope None [] [] of
        Inr x \<Rightarrow> x)"

definition demo_other :: guard_op where
  "demo_other = Issue demo_guard \<lparr>clock = (\<lambda>k. 1), hex12 = (\<lambda>k. ''o'' @ show_nat k)\<rparr> ''cancel_run'' ''high'' ''op'' [] [] None []"

definition demo_shuffled :: "(string \<times> pyvalue) list" where
  "demo_shuffled =
     [(''requested_write_set'', PySeq [PyStr ''a'', PyStr ''b'']), (''goal'', PyStr ''x''), (''run_ids'', PySeq [PyStr ''r1'', PyStr ''r2''])]"

lemma demo_same: "same_value None (PyDict (receipt_scope [''b'', ''a''] demo_scope)) (PyDict demo_shuffled)"
proof -
  have un: "same_value (Some k) (PySeq [PyStr u, PyStr v]) (PySeq [PyStr v, PyStr u])" if "k \<in> {''run_ids'', ''requested_write_set''}" for k u v
    by (rule unordered) (use that in \<open>auto simp: order_insensitive_scope_lists_def\<close>)
  let ?mid = "[(''run_ids'', PySeq [PyStr ''r1'', PyStr ''r2'']), (''goal'', PyStr ''x''),
      (''requested_write_set'', PySeq [PyStr ''a'', PyStr ''b''])]"
  have "same_value None (PyDict (receipt_scope [''b'', ''a''] demo_scope)) (PyDict ?mid)"
    by (rule entries) (use un same_refl in \<open>simp add: receipt_scope_def demo_scope_def\<close>)
  moreover have "same_value None (PyDict ?mid) (PyDict demo_shuffled)"
    by (rule keys) (simp_all add: demo_shuffled_def)
  ultimately show ?thesis by (rule same_trans)
qed

theorem receipt_opens_once_witness:
  "\<exists>rows2. consume_receipt demo_guard (demo_clock (seconds 299)) (Some ''opreceipt_0'') ''batch_resume_runs'' None demo_shuffled
         (run_events guard_op_step [demo_other] (snd demo_written)) = Inr (set_consumed (seconds 299) (fst demo_written), rows2)"
proof -
  have issue: "issue_receipt demo_guard (demo_clock 0) ''batch_resume_runs'' ''high'' ''op'' [''b'', ''a''] demo_scope None [] []
      = Inr (fst demo_written, snd demo_written)"
    by code_simp
  have h: "distinct (map fst demo_scope)" "clean (gd_root demo_guard)" "\<not> list_ex (consumes (or_receipt_id (fst demo_written))) [demo_other]"
    "clock (demo_clock (seconds 299)) 0 < or_expires_at (fst demo_written)" "expected_root demo_guard None = gd_root demo_guard"
    "or_receipt_id (fst demo_written) = ''opreceipt_0''"
    by code_simp+
  have digest: "\<forall>t. gd_hash demo_guard t \<noteq> []" by (simp add: demo_guard_def)
  show ?thesis
    using receipt_opens_once [OF issue h(1,2) digest h(3,4,5) demo_same] by (auto simp: h(6) demo_clock_def)
qed

text \<open>C25: an action is only let through by an issued, unexpired receipt of the same action and workspace, and a
  high-risk action only with a scope whose canonical text has the hash stored in the receipt;
  the receipt is consumed and every other receipt is left as it was.\<close>

theorem consumption_is_justified:
  assumes run: "consume_receipt g e rid action root scope rows = Inr (r', rows')"
  shows "\<exists>r. rid = Some (or_receipt_id r) \<and> receipt_get (or_receipt_id r) rows = Some r
     \<and> or_action_type r = action \<and> or_status r = ''issued'' \<and> clock e 0 < or_expires_at r
     \<and> resolve_onto (gd_cwd g) (or_workspace_root r) = expected_root g root
     \<and> (action \<in> set high_risk_actions \<longrightarrow> or_scope_hash r = Some (gd_hash g (scope_text g scope)))
     \<and> r' = set_consumed (clock e 0) r
     \<and> (\<forall>k. receipt_get k rows' = (if rid = Some k then Some r' else receipt_get k rows))"
proof -
  obtain r where c: "check_receipt g (clock e 0) rid action root scope rows = Inr r"
    and f: "finish_consume r (clock e 0) rows = Inr (r', rows')"
    using run by (auto simp: consume_receipt_def rbind_eq_Inr)
  from c obtain k where k: "rid = Some k" "receipt_get k rows = Some r" "or_receipt_id r = k" "or_action_type r = action"
    "resolve_onto (gd_cwd g) (or_workspace_root r) = expected_root g root" "or_status r = ''issued''" "clock e 0 < or_expires_at r"
    "action \<in> set high_risk_actions \<longrightarrow> or_scope_hash r = Some (operator_action_scope_hash g scope)"
    by (rule check_receiptD) auto
  note d = finish_consumeD [OF f]
  have r': "r' = set_consumed (clock e 0) r" using d get_mark [OF k(2)] k(3,6) by simp
  have frame: "receipt_get q rows' = (if rid = Some q then Some r' else receipt_get q rows)" for q
    using d get_mark_other [of q k] k(1,3) by (auto simp: d(1))
  show ?thesis using k r' frame by (auto simp: operator_action_scope_hash_def)
qed

theorem consumption_is_justified_witness:
  "case consume_receipt demo_guard (demo_clock (seconds 299)) (Some ''opreceipt_0'') ''batch_resume_runs'' None demo_scope (snd demo_issued) of
     Inl _ \<Rightarrow> False
   | Inr (r', rows') \<Rightarrow> or_status r' = ''consumed'' \<and> receipt_get ''opreceipt_0'' rows' = Some r'"
proof (cases "consume_receipt demo_guard (demo_clock (seconds 299)) (Some ''opreceipt_0'') ''batch_resume_runs'' None demo_scope (snd demo_issued)")
  case (Inl err)
  have "\<not> (case consume_receipt demo_guard (demo_clock (seconds 299)) (Some ''opreceipt_0'') ''batch_resume_runs'' None demo_scope (snd demo_issued) of
      Inl _ \<Rightarrow> True | Inr _ \<Rightarrow> False)" by code_simp
  then show ?thesis using Inl by simp
next
  case (Inr x)
  obtain r' rows' where x: "x = (r', rows')" by (cases x)
  show ?thesis using consumption_is_justified [OF Inr [unfolded x]] Inr x by auto
qed

subsection \<open>Consumers that interleave\<close>

definition guard_inv :: "guard_state \<Rightarrow> bool" where
  "guard_inv s \<longleftrightarrow>
     (\<forall>i r now. gs_phase s i = Checked r now \<longrightarrow> receipt_get (or_receipt_id r) (gs_rows s) \<noteq> None)
     \<and> (\<forall>i r. gs_phase s i = Consumed r \<longrightarrow> spent (or_receipt_id r) (gs_rows s))"

lemma mark_keeps_present: "receipt_get k rows \<noteq> None \<Longrightarrow> receipt_get k (receipt_mark k' at rows) \<noteq> None"
  by (cases "k = k'") (auto simp: get_mark get_mark_other)

lemma guard_step_inv: "guard_step g s s' \<Longrightarrow> guard_inv s \<Longrightarrow> guard_inv s'"
proof (induction rule: guard_step.induct)
  case (read s i q r)
  from read(2) obtain k where "receipt_get (or_receipt_id r) (gs_rows s) = Some r"
    unfolding check_request_def by (rule check_receiptD) auto
  then show ?case using read(3) by (auto simp: guard_inv_def)
next
  case (mark s i r now r' rows')
  have "receipt_get (or_receipt_id r) (gs_rows s) \<noteq> None" using mark(1,3) unfolding guard_inv_def by blast
  then obtain q where q: "receipt_get (or_receipt_id r) (gs_rows s) = Some q" by blast
  note d = finish_consumeD [OF mark(2)]
  have id: "or_receipt_id r' = or_receipt_id r" using d(2) by (auto simp: receipt_get_def dest: sql_first_Some)
  have sp: "spent (or_receipt_id r') rows'" using consumed_spent [OF mark(2) q] id by simp
  show ?case
    using mark(3) sp mark_keeps_present spent_mark by (fastforce simp: guard_inv_def d(1))
qed

lemma guard_reach_inv: "(guard_step g)\<^sup>*\<^sup>* s s' \<Longrightarrow> guard_inv s \<Longrightarrow> guard_inv s'"
  by (induction rule: rtranclp_induct) (auto intro: guard_step_inv)

text \<open>C26: however the statements of the consumers interleave, once one of them has consumed a receipt, none that has not read it
  yet gets through with it: a waiting consumer of that receipt cannot pass the check in any later state.\<close>

theorem no_late_consumer:
  assumes start: "\<forall>i. \<exists>q. gs_phase s0 i = Waiting q" and reach: "(guard_step g)\<^sup>*\<^sup>* s0 s" "(guard_step g)\<^sup>*\<^sup>* s s'"
    and won: "gs_phase s i = Consumed r" and waits: "gs_phase s j = Waiting q" "rq_receipt_id q = Some (or_receipt_id r)"
  shows "gs_phase s' j = Waiting q"
  using reach(2)
proof (induction rule: rtranclp_induct)
  case (step y z)
  have inv: "guard_inv s0" using start by (auto simp: guard_inv_def) (metis phase.distinct)+
  have keeps: "gs_phase y i = Consumed r"
    using step(1) won by (induction rule: rtranclp_induct) (auto elim!: guard_stepE)
  have "guard_inv y" using guard_reach_inv [OF reach(1) inv] guard_reach_inv step(1) by blast
  then have sp: "spent (or_receipt_id r) (gs_rows y)" using keeps by (auto simp: guard_inv_def)
  show ?case using step(2)
  proof cases
    case (read k q' r')
    then have "k \<noteq> j" using spent_refused [OF sp] step(3) waits(2) by (auto simp: check_request_def)
    then show ?thesis using read step(3) by simp
  next
    case (mark k r' now)
    then show ?thesis using step(3) by auto
  qed
qed (rule waits(1))

text \<open>The check and the mark are two statements, and the second does not report whether it changed the row, so two
  consumers that both pass the check before either marks the receipt are both let through.\<close>

theorem racing_consumers_both_pass:
  assumes ij: "i \<noteq> j" and waits: "gs_phase s i = Waiting q" "gs_phase s j = Waiting q'"
    and checks: "check_request g q (gs_rows s) = Inr r" "check_request g q' (gs_rows s) = Inr r"
  shows "\<exists>s' ri rj. (guard_step g)\<^sup>*\<^sup>* s s' \<and> gs_phase s' i = Consumed ri \<and> gs_phase s' j = Consumed rj
     \<and> or_receipt_id ri = or_receipt_id r \<and> or_receipt_id rj = or_receipt_id r"
proof -
  from checks(1) obtain k where get: "receipt_get (or_receipt_id r) (gs_rows s) = Some r" and st: "or_status r = ''issued''"
    unfolding check_request_def by (rule check_receiptD) auto
  define s1 where "s1 = s\<lparr>gs_phase := (gs_phase s)(i := Checked r (rq_now q))\<rparr>"
  have s1: "guard_step g s s1" unfolding s1_def by (rule guard_step.read [OF waits(1) checks(1)])
  define s2 where "s2 = s1\<lparr>gs_phase := (gs_phase s1)(j := Checked r (rq_now q'))\<rparr>"
  have s2: "guard_step g s1 s2" unfolding s2_def by (rule guard_step.read) (use ij waits checks in \<open>simp_all add: s1_def\<close>)
  let ?rows1 = "receipt_mark (or_receipt_id r) (rq_now q) (gs_rows s)"
  have f1: "finish_consume r (rq_now q) (gs_rows s2) = Inr (set_consumed (rq_now q) r, ?rows1)"
    using finish_consume_present [OF get] st by (simp add: s2_def s1_def)
  define s3 where "s3 = s2\<lparr>gs_rows := ?rows1, gs_phase := (gs_phase s2)(i := Consumed (set_consumed (rq_now q) r))\<rparr>"
  have s3: "guard_step g s2 s3" unfolding s3_def by (rule guard_step.mark [OF _ f1]) (use ij in \<open>simp add: s2_def s1_def\<close>)
  have get1: "receipt_get (or_receipt_id r) ?rows1 = Some (set_consumed (rq_now q) r)" using get_mark [OF get] st by simp
  have f2: "finish_consume r (rq_now q') (gs_rows s3) = Inr (set_consumed (rq_now q) r, receipt_mark (or_receipt_id r) (rq_now q') ?rows1)"
    using finish_consume_present [OF get1] by (simp add: s3_def)
  define s4 where "s4 = s3\<lparr>gs_rows := receipt_mark (or_receipt_id r) (rq_now q') ?rows1,
     gs_phase := (gs_phase s3)(j := Consumed (set_consumed (rq_now q) r))\<rparr>"
  have s4: "guard_step g s3 s4" unfolding s4_def by (rule guard_step.mark [OF _ f2]) (use ij in \<open>simp add: s3_def s2_def\<close>)
  have "(guard_step g)\<^sup>*\<^sup>* s s4" using s1 s2 s3 s4 by (meson rtranclp.rtrancl_into_rtrancl rtranclp.rtrancl_refl)
  then show ?thesis using ij by (intro exI [of _ s4]) (simp add: s4_def s3_def)
qed

definition demo_race :: guard_state where
  "demo_race = \<lparr>gs_rows = snd demo_issued,
     gs_phase = (\<lambda>i. Waiting \<lparr>rq_receipt_id = Some ''opreceipt_0'', rq_action = ''batch_resume_runs'', rq_root = None,
                               rq_scope = demo_scope, rq_now = int i\<rparr>)\<rparr>"

lemma demo_check: "check_request demo_guard (case gs_phase demo_race i of Waiting q \<Rightarrow> q) (gs_rows demo_race) = Inr (fst demo_issued)" if "i \<in> {0, 1}"
  using that by (elim insertE emptyE) (simp_all only:, code_simp+)

theorem racing_consumers_both_pass_witness:
  "\<exists>s ri rj. (guard_step demo_guard)\<^sup>*\<^sup>* demo_race s \<and> gs_phase s 0 = Consumed ri \<and> gs_phase s 1 = Consumed rj"
proof -
  have "\<exists>s' ri rj. (guard_step demo_guard)\<^sup>*\<^sup>* demo_race s' \<and> gs_phase s' 0 = Consumed ri \<and> gs_phase s' 1 = Consumed rj
     \<and> or_receipt_id ri = or_receipt_id (fst demo_issued) \<and> or_receipt_id rj = or_receipt_id (fst demo_issued)"
    by (rule racing_consumers_both_pass [where q = "case gs_phase demo_race 0 of Waiting q \<Rightarrow> q" and q' = "case gs_phase demo_race 1 of Waiting q \<Rightarrow> q"])
      (use demo_check [of 0] demo_check [of 1] in \<open>simp_all add: demo_race_def\<close>)
  then show ?thesis by blast
qed

theorem no_late_consumer_witness:
  "\<exists>s r. (guard_step demo_guard)\<^sup>*\<^sup>* demo_race s \<and> gs_phase s 0 = Consumed r
     \<and> (\<forall>s'. (guard_step demo_guard)\<^sup>*\<^sup>* s s' \<longrightarrow> gs_phase s' 5 = gs_phase demo_race 5)"
proof -
  let ?r = "fst demo_issued"
  let ?q = "case gs_phase demo_race 0 of Waiting q \<Rightarrow> q"
  have w: "gs_phase demo_race 0 = Waiting ?q" by (simp add: demo_race_def)
  have c: "check_request demo_guard ?q (gs_rows demo_race) = Inr ?r" using demo_check [of 0] by simp
  from c have get: "receipt_get (or_receipt_id ?r) (gs_rows demo_race) = Some ?r" and st: "or_status ?r = ''issued''"
    unfolding check_request_def by (auto elim!: check_receiptD)
  let ?s1 = "demo_race\<lparr>gs_phase := (gs_phase demo_race)(0 := Checked ?r (rq_now ?q))\<rparr>"
  have 1: "guard_step demo_guard demo_race ?s1" by (rule guard_step.read [OF w c])
  let ?rows = "receipt_mark (or_receipt_id ?r) (rq_now ?q) (gs_rows demo_race)"
  let ?s2 = "?s1\<lparr>gs_rows := ?rows, gs_phase := (gs_phase ?s1)(0 := Consumed (set_consumed (rq_now ?q) ?r))\<rparr>"
  have 2: "guard_step demo_guard ?s1 ?s2"
    by (rule guard_step.mark [where r = ?r and now = "rq_now ?q"]) (use finish_consume_present [OF get] st in simp_all)
  have reach: "(guard_step demo_guard)\<^sup>*\<^sup>* demo_race ?s2" using 1 2 by (meson rtranclp.rtrancl_into_rtrancl rtranclp.rtrancl_refl)
  have id: "or_receipt_id ?r = ''opreceipt_0''" by code_simp
  have "gs_phase s' 5 = gs_phase demo_race 5" if "(guard_step demo_guard)\<^sup>*\<^sup>* ?s2 s'" for s'
    using no_late_consumer [OF _ reach that, of 0 "set_consumed (rq_now ?q) ?r" 5] id by (simp add: demo_race_def)
  then show ?thesis using reach by (intro exI [of _ ?s2]) auto
qed

end
