(* ===== verification/Parallel_Batch.thy ===== *)
theory Parallel_Batch
  imports Py_Text "HOL-Library.AList"
begin

section \<open>Plans for parallel batches\<close>

text \<open>
  \<^verbatim>\<open>packages/core_domain/parallel_execution_contract.py\<close>: whether the runs of a batch may execute in parallel, decided on
  their normalised write sets, and the plan for resuming the runs that failed. A contract is its run
  id and the texts of its write set; dictionaries are association lists.
\<close>

record run_contract =
  bc_run_id :: "string option"
  bc_write_set :: "string list"

subsection \<open>Paths\<close>

fun drop_dot_slash :: "string \<Rightarrow> string" where
  "drop_dot_slash (a # b # s) = (if a = CHR ''.'' \<and> b = CHR ''/'' then drop_dot_slash s else a # b # s)"
| "drop_dot_slash s = s"

text \<open>\<open>s.replace("//", "/")\<close>, once and until nothing changes.\<close>

fun replace_double :: "string \<Rightarrow> string" where
  "replace_double (a # b # s) =
     (if a = CHR ''/'' \<and> b = CHR ''/'' then CHR ''/'' # replace_double s else a # replace_double (b # s))"
| "replace_double s = s"

lemma replace_double_le: "length (replace_double s) \<le> length s"
  by (induction s rule: replace_double.induct) auto

lemma replace_double_less: "contains ''//'' s \<Longrightarrow> length (replace_double s) < length s"
proof (induction s rule: replace_double.induct)
  case (1 a b s)
  show ?case
  proof (cases "a = CHR ''/'' \<and> b = CHR ''/''")
    case True
    then show ?thesis using replace_double_le [of s] by simp
  next
    case False
    then have "contains ''//'' (b # s)" using 1(3) by (auto simp: starts_with_def)
    then show ?thesis using 1(2) False by auto
  qed
qed (auto simp: starts_with_def)

function collapse_slashes :: "string \<Rightarrow> string" where
  "collapse_slashes s = (if contains ''//'' s then collapse_slashes (replace_double s) else s)"
  by pat_completeness auto
termination by (relation "measure length") (auto simp: replace_double_less)

declare collapse_slashes.simps [simp del]

definition normalize_path :: "string \<Rightarrow> string" where
  "normalize_path s =
     lower (strip_right (\<lambda>c. c = CHR ''/'') (collapse_slashes (drop_dot_slash (replace_char (CHR 0x5C) (CHR ''/'') (py_strip s)))))"

definition run_write_set :: "run_contract \<Rightarrow> string list" where
  "run_write_set c = sorted_list_of_set (set (map normalize_path (filter (\<lambda>s. py_strip s \<noteq> []) (bc_write_set c))))"

subsection \<open>The plan\<close>

datatype batch_mode = SerialSingleMember | SerialDegraded | SerialRequested | Parallel
datatype degraded_reason = WriteSetConflict | DirtyWriteSet | SqliteLockDetected

definition run_key :: "run_contract \<Rightarrow> string" where
  "run_key c = str_or (bc_run_id c) []"

definition append_run :: "string \<Rightarrow> string \<Rightarrow> (string \<times> string list) list \<Rightarrow> (string \<times> string list) list" where
  "append_run rid path by_path = AList.update path ((case map_of by_path path of None \<Rightarrow> [] | Some ids \<Rightarrow> ids) @ [rid]) by_path"

definition write_set_by_path :: "run_contract list \<Rightarrow> (string \<times> string list) list" where
  "write_set_by_path cs = foldl (\<lambda>m c. foldl (\<lambda>m path. append_run (run_key c) path m) m (run_write_set c)) [] cs"

definition write_set_by_run :: "run_contract list \<Rightarrow> (string \<times> string list) list" where
  "write_set_by_run cs = foldl (\<lambda>m c. AList.update (run_key c) (run_write_set c) m) [] cs"

definition write_set_conflicts :: "run_contract list \<Rightarrow> (string \<times> string list) list" where
  "write_set_conflicts cs =
     map (\<lambda>(path, ids). (path, sorted_list_of_set (set ids)))
       (filter (\<lambda>(path, ids). length (remdups ids) > 1) (sort_key fst (write_set_by_path cs)))"

definition dirty_write_set_paths :: "run_contract list \<Rightarrow> string list \<Rightarrow> string list" where
  "dirty_write_set_paths cs dirty =
     filter (\<lambda>path. path \<in> fst ` set (write_set_by_path cs))
       (sorted_list_of_set (set (map normalize_path (filter (\<lambda>s. py_strip s \<noteq> []) dirty))))"

record batch_plan =
  bp_member_count :: nat
  bp_effective_max_workers :: nat
  bp_execution_mode :: batch_mode
  bp_barrier_enabled :: bool
  bp_degraded_to_serial :: bool
  bp_degraded_reasons :: "degraded_reason list"
  bp_write_set_by_run :: "(string \<times> string list) list"
  bp_write_set_conflicts :: "(string \<times> string list) list"
  bp_dirty_write_set_paths :: "string list"

text \<open>\<open>max(1, int(requested_max_workers or member_count))\<close>.\<close>

definition requested_workers :: "int option \<Rightarrow> nat \<Rightarrow> nat" where
  "requested_workers requested n =
     nat (max 1 (case requested of Some r \<Rightarrow> if r \<noteq> 0 then r else int n | None \<Rightarrow> int n))"

definition build_parallel_batch_plan :: "run_contract list \<Rightarrow> int option \<Rightarrow> string list \<Rightarrow> bool \<Rightarrow> batch_plan" where
  "build_parallel_batch_plan cs requested dirty sqlite_ready =
     (let n = length cs;
          effective = (if n = 0 then 0 else min (requested_workers requested n) n);
          conflicts = write_set_conflicts cs;
          dirty_paths = dirty_write_set_paths cs dirty;
          reasons = (if conflicts \<noteq> [] then [WriteSetConflict] else [])
                    @ (if dirty_paths \<noteq> [] then [DirtyWriteSet] else [])
                    @ (if sqlite_ready then [] else [SqliteLockDetected]);
          (mode, barrier, workers) =
            (if n \<le> 1 then (SerialSingleMember, False, n)
             else if reasons \<noteq> [] then (SerialDegraded, False, 1)
             else if effective \<le> 1 then (SerialRequested, False, effective)
             else (Parallel, True, effective))
      in \<lparr>bp_member_count = n, bp_effective_max_workers = workers, bp_execution_mode = mode,
          bp_barrier_enabled = barrier, bp_degraded_to_serial = (mode = SerialDegraded),
          bp_degraded_reasons = reasons, bp_write_set_by_run = write_set_by_run cs,
          bp_write_set_conflicts = conflicts, bp_dirty_write_set_paths = dirty_paths\<rparr>)"

record resume_plan =
  rp_enabled :: bool
  rp_failed_run_ids :: "string list"
  rp_completed_run_ids :: "string list"
  rp_recommended_max_workers :: nat
  rp_resume_command :: "string option"

text \<open>Of an error only its run id is read.\<close>

definition build_partial_failure_resume :: "string list \<Rightarrow> string option list \<Rightarrow> int option \<Rightarrow> resume_plan" where
  "build_partial_failure_resume run_ids errors requested =
     (let failed = sorted_list_of_set (set (filter (\<lambda>s. s \<noteq> []) (List.map_filter (\<lambda>e. e) errors)));
          workers = min (requested_workers requested (length failed)) (length failed)
      in if failed = []
         then \<lparr>rp_enabled = False, rp_failed_run_ids = [], rp_completed_run_ids = [], rp_recommended_max_workers = 0,
               rp_resume_command = None\<rparr>
         else \<lparr>rp_enabled = True, rp_failed_run_ids = failed,
               rp_completed_run_ids = sorted_list_of_set (set run_ids - set failed),
               rp_recommended_max_workers = workers,
               rp_resume_command = Some (''workflowctl run batch-resume '' @ join '' '' failed
                                           @ '' --max-workers '' @ show_nat workers)\<rparr>)"

end
