(* ===== verification/Batch_Properties.thy ===== *)
theory Batch_Properties
  imports Parallel_Batch
begin

section \<open>When a batch runs in parallel\<close>

text \<open>
  The two dictionaries of the plan are replaced by what they stand for: a batch is parallel exactly
  when no normalised path is written by two different runs, none is dirty, and the database is free.
\<close>

lemma sorted_set_empty: "sorted_list_of_set (set xs) = [] \<longleftrightarrow> xs = []"
  by (simp add: sorted_list_of_set_eq_Nil_iff)

lemma set_run_write_set:
  "set (run_write_set c) = {normalize_path s | s. s \<in> set (bc_write_set c) \<and> py_strip s \<noteq> []}"
  by (auto simp: run_write_set_def)

lemma map_of_append_run:
  "map_of (append_run rid path m) q =
     (if q = path then Some ((case map_of m path of None \<Rightarrow> [] | Some ids \<Rightarrow> ids) @ [rid]) else map_of m q)"
  by (simp add: append_run_def update_conv)

text \<open>The entry of a path holds the runs that write it.\<close>

definition runs_of :: "(string \<times> string list) list \<Rightarrow> string \<Rightarrow> string set" where
  "runs_of m path = (case map_of m path of None \<Rightarrow> {} | Some ids \<Rightarrow> set ids)"

definition by_path_ok :: "(string \<times> string list) list \<Rightarrow> bool" where
  "by_path_ok m \<longleftrightarrow> distinct (map fst m) \<and> (\<forall>(path, ids)\<in>set m. ids \<noteq> [])"

lemma append_run_ok: "by_path_ok m \<Longrightarrow> by_path_ok (append_run rid path m)"
proof -
  have "(p, ids) \<in> set (AList.update k v al) \<Longrightarrow> (p, ids) = (k, v) \<or> (p, ids) \<in> set al" for p ids k v and al :: "(string \<times> string list) list"
    by (induction al) (auto split: if_splits)
  then show "by_path_ok m \<Longrightarrow> by_path_ok (append_run rid path m)"
    by (fastforce simp: by_path_ok_def append_run_def distinct_update)
qed

lemma runs_of_append: "runs_of (append_run rid path m) q = (if q = path then insert rid (runs_of m path) else runs_of m q)"
  by (auto simp: runs_of_def map_of_append_run split: option.splits)

lemma fold_paths:
  "by_path_ok m \<Longrightarrow> by_path_ok (foldl (\<lambda>m path. append_run rid path m) m paths)
     \<and> runs_of (foldl (\<lambda>m path. append_run rid path m) m paths) q = runs_of m q \<union> {r. r = rid \<and> q \<in> set paths}"
  by (induction paths arbitrary: m) (auto simp: append_run_ok runs_of_append)

lemma fold_contracts:
  "by_path_ok m \<Longrightarrow>
     by_path_ok (foldl (\<lambda>m c. foldl (\<lambda>m path. append_run (run_key c) path m) m (run_write_set c)) m cs)
     \<and> runs_of (foldl (\<lambda>m c. foldl (\<lambda>m path. append_run (run_key c) path m) m (run_write_set c)) m cs) q
         = runs_of m q \<union> {run_key c | c. c \<in> set cs \<and> q \<in> set (run_write_set c)}"
proof (induction cs arbitrary: m)
  case (Cons c cs)
  note f = fold_paths [OF Cons.prems, of "run_key c" "run_write_set c"]
  show ?case using Cons.IH [OF f [THEN conjunct1]] f by auto
qed simp

lemma write_set_by_path_runs:
  "by_path_ok (write_set_by_path cs)"
  "runs_of (write_set_by_path cs) q = {run_key c | c. c \<in> set cs \<and> q \<in> set (run_write_set c)}"
  using fold_contracts [of "[]" cs q] by (auto simp: write_set_by_path_def by_path_ok_def runs_of_def)

lemma by_path_mem: "by_path_ok m \<Longrightarrow> (q, ids) \<in> set m \<Longrightarrow> set ids = runs_of m q \<and> ids \<noteq> []"
  by (auto simp: by_path_ok_def runs_of_def)

lemma by_path_key: "by_path_ok m \<Longrightarrow> q \<in> fst ` set m \<longleftrightarrow> runs_of m q \<noteq> {}"
proof -
  assume ok: "by_path_ok m"
  show ?thesis
  proof (cases "map_of m q")
    case None
    then have "q \<notin> fst ` set m" by (simp add: map_of_eq_None_iff)
    then show ?thesis using None by (simp add: runs_of_def)
  next
    case (Some ids)
    then show ?thesis using by_path_mem [OF ok map_of_SomeD [OF Some]] by (force simp: runs_of_def dest: map_of_SomeD)
  qed
qed

lemma two_remdups: "length (remdups ids) > 1 \<longleftrightarrow> (\<exists>a\<in>set ids. \<exists>b\<in>set ids. a \<noteq> b)"
proof -
  have "length (remdups ids) > 1 \<longleftrightarrow> \<not> card (set ids) \<le> Suc 0" by (simp add: length_remdups_card_conv not_le)
  also have "\<dots> \<longleftrightarrow> \<not> (\<forall>x\<in>set ids. \<forall>y\<in>set ids. x = y)" using card_le_Suc0_iff_eq [of "set ids"] by simp
  finally show ?thesis by blast
qed

definition shared_path :: "run_contract list \<Rightarrow> string \<Rightarrow> bool" where
  "shared_path cs path \<longleftrightarrow>
     (\<exists>c\<in>set cs. \<exists>d\<in>set cs. run_key c \<noteq> run_key d \<and> path \<in> set (run_write_set c) \<and> path \<in> set (run_write_set d))"

lemma conflict_paths: "fst ` set (write_set_conflicts cs) = {path. shared_path cs path}"
proof -
  note ok = write_set_by_path_runs
  have mem: "length (remdups ids) > 1 \<longleftrightarrow> shared_path cs q" if "(q, ids) \<in> set (write_set_by_path cs)" for q ids
  proof -
    have "set ids = {run_key c | c. c \<in> set cs \<and> q \<in> set (run_write_set c)}"
      using by_path_mem [OF ok(1) that] ok(2) [of cs q] by simp
    then show ?thesis unfolding two_remdups shared_path_def by auto
  qed
  have ex: "\<exists>ids. (q, ids) \<in> set (write_set_by_path cs)" if "shared_path cs q" for q
  proof -
    have "q \<in> fst ` set (write_set_by_path cs)"
      using that by_path_key [OF ok(1) [of cs], of q] ok(2) [of cs q] by (auto simp: shared_path_def)
    then show ?thesis by auto
  qed
  show ?thesis using mem ex by (fastforce simp: write_set_conflicts_def image_iff)
qed

lemma dirty_paths:
  "set (dirty_write_set_paths cs dirty) =
     {normalize_path s | s. s \<in> set dirty \<and> py_strip s \<noteq> []} \<inter> (\<Union>c\<in>set cs. set (run_write_set c))"
proof -
  have "q \<in> fst ` set (write_set_by_path cs) \<longleftrightarrow> (\<exists>c\<in>set cs. q \<in> set (run_write_set c))" for q
    using by_path_key [OF write_set_by_path_runs(1) [of cs], of q] write_set_by_path_runs(2) [of cs q] by auto
  then show ?thesis by (auto simp: dirty_write_set_paths_def)
qed

text \<open>C27: a batch gets more than one worker exactly when it has several members, more than one worker was asked for, no
  normalised path is in the write sets of two different runs, no path of a write set is dirty, and the
  database is ready; then the mode is parallel with the barrier on, otherwise serial. The workers never
  outnumber the members, and the reported conflicts are exactly the shared paths.\<close>

theorem parallel_exactly_when_independent:
  fixes cs requested dirty ready
  defines "plan \<equiv> build_parallel_batch_plan cs requested dirty ready"
  shows "(bp_execution_mode plan = Parallel \<longleftrightarrow>
            2 \<le> length cs \<and> 2 \<le> requested_workers requested (length cs) \<and> ready \<and> (\<nexists>path. shared_path cs path)
            \<and> {normalize_path s | s. s \<in> set dirty \<and> py_strip s \<noteq> []} \<inter> (\<Union>c\<in>set cs. set (run_write_set c)) = {})
     \<and> (bp_effective_max_workers plan > 1 \<longleftrightarrow> bp_execution_mode plan = Parallel)
     \<and> bp_barrier_enabled plan = (bp_execution_mode plan = Parallel)
     \<and> bp_effective_max_workers plan \<le> length cs
     \<and> fst ` set (bp_write_set_conflicts plan) = {path. shared_path cs path}"
proof -
  have c: "write_set_conflicts cs = [] \<longleftrightarrow> (\<nexists>path. shared_path cs path)" using conflict_paths [of cs] by auto
  have d: "dirty_write_set_paths cs dirty = [] \<longleftrightarrow>
      {normalize_path s | s. s \<in> set dirty \<and> py_strip s \<noteq> []} \<inter> (\<Union>c\<in>set cs. set (run_write_set c)) = {}"
    using dirty_paths [of cs dirty] by (metis set_empty)
  have "fst ` set (bp_write_set_conflicts plan) = {path. shared_path cs path}"
    unfolding conflict_paths [symmetric] by (simp add: plan_def build_parallel_batch_plan_def Let_def split: prod.split)
  moreover have "(bp_execution_mode plan = Parallel \<longleftrightarrow>
            2 \<le> length cs \<and> 2 \<le> requested_workers requested (length cs) \<and> ready \<and> write_set_conflicts cs = []
            \<and> dirty_write_set_paths cs dirty = [])
     \<and> (bp_effective_max_workers plan > 1 \<longleftrightarrow> bp_execution_mode plan = Parallel)
     \<and> bp_barrier_enabled plan = (bp_execution_mode plan = Parallel)
     \<and> bp_effective_max_workers plan \<le> length cs"
    by (auto simp: plan_def build_parallel_batch_plan_def Let_def split: if_splits)
  ultimately show ?thesis unfolding c d by blast
qed

definition nested_batch :: "run_contract list" where
  "nested_batch =
     [\<lparr>bc_run_id = Some ''r1'', bc_write_set = [''src/app'']\<rparr>, \<lparr>bc_run_id = Some ''r2'', bc_write_set = [''./src/app/main.py'']\<rparr>]"

text \<open>The comparison is by equality of normalised paths, not by containment: two runs of which one may write a
  directory and the other a file in it are planned in parallel.\<close>

lemma nested_write_sets_run_in_parallel:
  "bp_execution_mode (build_parallel_batch_plan nested_batch None [] True) = Parallel
   \<and> bp_write_set_by_run (build_parallel_batch_plan nested_batch None [] True) = [(''r1'', [''src/app'']), (''r2'', [''src/app/main.py''])]"
  by (intro conjI; code_simp)

text \<open>The plan for resuming names each failed run once, partitions the runs of the batch into failed and completed ones, and
  recommends between one worker and as many as there are failed runs; it is enabled exactly when a run failed.\<close>

theorem resume_partitions_runs:
  fixes run_ids errors requested
  defines "plan \<equiv> build_partial_failure_resume run_ids errors requested"
  defines "failed \<equiv> {r. Some r \<in> set errors \<and> r \<noteq> []}"
  shows "set (rp_failed_run_ids plan) = failed \<and> sorted (rp_failed_run_ids plan) \<and> distinct (rp_failed_run_ids plan)
     \<and> rp_enabled plan = (failed \<noteq> {})
     \<and> (rp_enabled plan \<longrightarrow>
          set (rp_completed_run_ids plan) = set run_ids - failed
          \<and> 1 \<le> rp_recommended_max_workers plan \<and> rp_recommended_max_workers plan \<le> card failed)"
proof -
  have f: "set (filter (\<lambda>s. s \<noteq> []) (List.map_filter (\<lambda>e. e) errors)) = failed"
    by (force simp: failed_def List.map_filter_def image_iff)
  then have fin: "finite failed" by (metis finite_set)
  have len: "length (sorted_list_of_set failed) = card failed" by simp
  have e: "sorted_list_of_set failed = [] \<longleftrightarrow> failed = {}" using fin by simp
  have w: "1 \<le> requested_workers requested n" for n by (simp add: requested_workers_def split: option.split)
  show ?thesis
  proof (cases "failed = {}")
    case True
    then show ?thesis unfolding plan_def build_partial_failure_resume_def f Let_def by simp
  next
    case False
    then have "0 < card failed" using fin by (simp add: card_gt_0_iff)
    then show ?thesis using False fin w [of "card failed"]
      unfolding plan_def build_partial_failure_resume_def f Let_def by simp
  qed
qed

theorem resume_partitions_runs_witness:
  "rp_completed_run_ids (build_partial_failure_resume [''r1'', ''r2'', ''r3''] [Some ''r2'', None] (Some 8)) = [''r1'', ''r3'']
   \<and> set (rp_completed_run_ids (build_partial_failure_resume [''r1'', ''r2'', ''r3''] [Some ''r2'', None] (Some 8))) = {''r1'', ''r2'', ''r3''} - {''r2''}"
proof -
  have e: "rp_enabled (build_partial_failure_resume [''r1'', ''r2'', ''r3''] [Some ''r2'', None] (Some 8))" by code_simp
  have f: "{r. Some r \<in> set [Some ''r2'', None] \<and> r \<noteq> []} = {''r2''}" by auto
  have "set (rp_completed_run_ids (build_partial_failure_resume [''r1'', ''r2'', ''r3''] [Some ''r2'', None] (Some 8)))
      = set [''r1'', ''r2'', ''r3''] - {r. Some r \<in> set [Some ''r2'', None] \<and> r \<noteq> []}"
    using resume_partitions_runs [where errors = "[Some ''r2'', None]" and run_ids = "[''r1'', ''r2'', ''r3'']" and requested = "Some 8"] e by blast
  moreover have "rp_completed_run_ids (build_partial_failure_resume [''r1'', ''r2'', ''r3''] [Some ''r2'', None] (Some 8)) = [''r1'', ''r3'']"
    by code_simp
  ultimately show ?thesis unfolding f by simp
qed

end
