(* ===== verification/Agent_Profiles.thy ===== *)
theory Agent_Profiles
  imports WF_Prelude
begin

section \<open>The registered agent profiles\<close>

text \<open>
  \<open>AgentRoleType\<close> and \<open>build_default_agent_profile_registry\<close> of
  \<^verbatim>\<open>packages/core_domain/interaction_catalog.py\<close>. The termination rule and the rubric of a profile are its
  fields, the confidence is in hundredths, generated identifiers and times are left out.
\<close>

datatype agent_role = planner | coder | researcher | reviewer | operator

fun role_name :: "agent_role \<Rightarrow> string" where
  "role_name planner = ''planner''"
| "role_name coder = ''coder''"
| "role_name researcher = ''researcher''"
| "role_name reviewer = ''reviewer''"
| "role_name operator = ''operator''"

datatype profile_visibility = visibility_public | visibility_internal | visibility_ephemeral

record agent_profile =
  ap_profile_id :: string
  ap_name :: string
  ap_description :: string
  ap_public_role :: agent_role
  ap_role_label :: string
  ap_capability_tags :: "string list"
  ap_capability_scope_tags :: "string list"
  ap_visibility :: profile_visibility
  ap_cluster_only :: bool
  ap_system_brief :: string
  ap_max_turns :: "nat option"
  ap_max_runtime_minutes :: "nat option"
  ap_completion_signals :: "string list"
  ap_escalate_on :: "string list"
  ap_criteria :: "string list"
  ap_required_artifacts :: "string list"
  ap_minimum_confidence :: nat
  ap_adapter_name :: "string option"

definition profile_planner_architect :: agent_profile where
  "profile_planner_architect =
     \<lparr>ap_profile_id = ''planner_architect'',
      ap_name = ''Planner Architect'',
      ap_description = ''Decomposes broad goals into bounded workstreams and integration checkpoints.'',
      ap_public_role = planner,
      ap_role_label = ''architect'',
      ap_capability_tags = [''planning'', ''decomposition'', ''integration''],
      ap_capability_scope_tags = [''plan_graph'', ''task_cards'', ''coordination''],
      ap_visibility = visibility_public,
      ap_cluster_only = False,
      ap_system_brief = ''Prefer clear decomposition, explicit assumptions, and narrow handoffs.'',
      ap_max_turns = Some 8,
      ap_max_runtime_minutes = None,
      ap_completion_signals = [''work breakdown accepted'', ''handoff graph published''],
      ap_escalate_on = [''unbounded scope'', ''missing execution owner''],
      ap_criteria = [''goal is decomposed into bounded workstreams'', ''handoff order is explicit'', ''risks and dependencies are surfaced early''],
      ap_required_artifacts = [''plan_graph'', ''task_card_pack''],
      ap_minimum_confidence = 75,
      ap_adapter_name = Some ''agent''\<rparr>"

definition profile_coder_implementer :: agent_profile where
  "profile_coder_implementer =
     \<lparr>ap_profile_id = ''coder_implementer'',
      ap_name = ''Coder Implementer'',
      ap_description = ''Owns the primary implementation slice and controlled repo mutation path.'',
      ap_public_role = coder,
      ap_role_label = ''implementer'',
      ap_capability_tags = [''implementation'', ''repo_mutation'', ''tests''],
      ap_capability_scope_tags = [''feature_delivery'', ''patch_apply''],
      ap_visibility = visibility_public,
      ap_cluster_only = False,
      ap_system_brief = ''Prefer minimal diffs, preserve user changes, and validate with targeted tests.'',
      ap_max_turns = Some 12,
      ap_max_runtime_minutes = Some 45,
      ap_completion_signals = [''targeted tests pass'', ''artifact updated''],
      ap_escalate_on = [''write-scope conflict'', ''failing regression''],
      ap_criteria = [''writes stay inside declared scope'', ''targeted tests cover the changed behavior'', ''mutation result is reviewable''],
      ap_required_artifacts = [''code_diff'', ''test_result''],
      ap_minimum_confidence = 80,
      ap_adapter_name = Some ''codex''\<rparr>"

definition profile_researcher_multimodal_evidence :: agent_profile where
  "profile_researcher_multimodal_evidence =
     \<lparr>ap_profile_id = ''researcher_multimodal_evidence'',
      ap_name = ''Multimodal Evidence Researcher'',
      ap_description = ''Uses MMX/Vertex-style artifact evidence to extract facts from PDFs, screenshots, and design inputs.'',
      ap_public_role = researcher,
      ap_role_label = ''multimodal_evidence'',
      ap_capability_tags = [''multimodal'', ''pdf'', ''image'', ''research'', ''evidence''],
      ap_capability_scope_tags = [''multimodal_extract'', ''research_brief'', ''source_trace''],
      ap_visibility = visibility_internal,
      ap_cluster_only = True,
      ap_system_brief = ''Prefer source-grounded extraction, explicit uncertainty, and evidence files that planner can consume.'',
      ap_max_turns = Some 6,
      ap_max_runtime_minutes = None,
      ap_completion_signals = [''multimodal evidence artifact produced'', ''source trace recorded''],
      ap_escalate_on = [''missing input path'', ''unclear source ownership''],
      ap_criteria = [''important facts are extracted from referenced media'', ''source paths and confidence are visible'', ''planner handoff stays concise''],
      ap_required_artifacts = [''multimodal_extract'', ''research_brief'', ''source_trace''],
      ap_minimum_confidence = 72,
      ap_adapter_name = Some ''mmx_multimodal''\<rparr>"

definition profile_planner_phase_designer :: agent_profile where
  "profile_planner_phase_designer =
     \<lparr>ap_profile_id = ''planner_phase_designer'',
      ap_name = ''Planner Phase Designer'',
      ap_description = ''Turns research and architecture notes into phase plans and active task cards.'',
      ap_public_role = planner,
      ap_role_label = ''phase_designer'',
      ap_capability_tags = [''planning'', ''phase_breakdown'', ''task_cards''],
      ap_capability_scope_tags = [''phase_plan'', ''task_cards'', ''handoff''],
      ap_visibility = visibility_internal,
      ap_cluster_only = True,
      ap_system_brief = ''Prefer bounded phases, narrow task cards, explicit tests, and Chinese operator-facing notes.'',
      ap_max_turns = Some 8,
      ap_max_runtime_minutes = None,
      ap_completion_signals = [''phase plan published'', ''active task cards ready''],
      ap_escalate_on = [''architecture conflict'', ''unbounded active phase''],
      ap_criteria = [''phase boundaries are clear'', ''active task cards declare write scope and tests'', ''handoff to worker is executable''],
      ap_required_artifacts = [''phase_plan'', ''task_card_pack''],
      ap_minimum_confidence = 78,
      ap_adapter_name = Some ''agent''\<rparr>"

definition profile_claude_architect_gate :: agent_profile where
  "profile_claude_architect_gate =
     \<lparr>ap_profile_id = ''claude_architect_gate'',
      ap_name = ''Claude Architect Gate'',
      ap_description = ''Uses the scarce Claude Code slot once to challenge module boundaries and architecture skeletons.'',
      ap_public_role = planner,
      ap_role_label = ''claude_architect_gate'',
      ap_capability_tags = [''architecture'', ''boundary_review'', ''risk_register''],
      ap_capability_scope_tags = [''architecture_skeleton'', ''module_boundaries'', ''do_not_touch''],
      ap_visibility = visibility_internal,
      ap_cluster_only = True,
      ap_system_brief = ''Read only. Produce architecture skeleton, interfaces, risks, do-not-touch notes, and planner handoff.'',
      ap_max_turns = Some 1,
      ap_max_runtime_minutes = None,
      ap_completion_signals = [''architecture skeleton delivered''],
      ap_escalate_on = [''repo mutation requested'', ''second claude call requested''],
      ap_criteria = [''module boundaries are concrete'', ''interfaces and do-not-touch areas are explicit'', ''risks are useful to planner before implementation''],
      ap_required_artifacts = [''architecture_skeleton'', ''risk_register'', ''handoff_to_planner''],
      ap_minimum_confidence = 80,
      ap_adapter_name = Some ''claude_architect''\<rparr>"

definition profile_researcher_risk_mapper :: agent_profile where
  "profile_researcher_risk_mapper =
     \<lparr>ap_profile_id = ''researcher_risk_mapper'',
      ap_name = ''Research Risk Mapper'',
      ap_description = ''Builds supporting evidence, risk notes, and open-question coverage alongside delivery work.'',
      ap_public_role = researcher,
      ap_role_label = ''risk_mapper'',
      ap_capability_tags = [''research'', ''risk_assessment'', ''evidence''],
      ap_capability_scope_tags = [''research_spike'', ''references''],
      ap_visibility = visibility_public,
      ap_cluster_only = False,
      ap_system_brief = ''Prefer concise evidence, explicit unknowns, and actionable risk framing.'',
      ap_max_turns = Some 10,
      ap_max_runtime_minutes = None,
      ap_completion_signals = [''risk brief produced'', ''open questions enumerated''],
      ap_escalate_on = [''missing evidence'', ''contradictory findings''],
      ap_criteria = [''major risks are explicitly listed'', ''supporting references or rationale are attached'', ''unknowns are clearly separated from facts''],
      ap_required_artifacts = [''risk_brief''],
      ap_minimum_confidence = 70,
      ap_adapter_name = Some ''agent''\<rparr>"

definition profile_doc_curator_chinese_closeout :: agent_profile where
  "profile_doc_curator_chinese_closeout =
     \<lparr>ap_profile_id = ''doc_curator_chinese_closeout'',
      ap_name = ''Chinese Doc Curator'',
      ap_description = ''Closes phases by absorbing useful decisions into current Chinese docs and pruning temporary detail.'',
      ap_public_role = reviewer,
      ap_role_label = ''doc_curator'',
      ap_capability_tags = [''documentation'', ''chinese'', ''closeout''],
      ap_capability_scope_tags = [''current_docs'', ''milestone_history'', ''tech_debt''],
      ap_visibility = visibility_internal,
      ap_cluster_only = True,
      ap_system_brief = ''Prefer concise Chinese current-state docs over historical document piles.'',
      ap_max_turns = Some 6,
      ap_max_runtime_minutes = None,
      ap_completion_signals = [''current docs updated'', ''temporary docs pruned''],
      ap_escalate_on = [''stale English public docs'', ''lost current workflow rule''],
      ap_criteria = [''Chinese current docs reflect the shipped behavior'', ''milestone and tech debt notes are compact'', ''temporary phase/task detail is not kept unnecessarily''],
      ap_required_artifacts = [''doc_closeout_summary''],
      ap_minimum_confidence = 76,
      ap_adapter_name = Some ''agent''\<rparr>"

definition profile_reviewer_quality_gate :: agent_profile where
  "profile_reviewer_quality_gate =
     \<lparr>ap_profile_id = ''reviewer_quality_gate'',
      ap_name = ''Reviewer Quality Gate'',
      ap_description = ''Checks completeness, regression risk, and release readiness across cluster outputs.'',
      ap_public_role = reviewer,
      ap_role_label = ''quality_gate'',
      ap_capability_tags = [''review'', ''regression'', ''readiness''],
      ap_capability_scope_tags = [''review'', ''governance''],
      ap_visibility = visibility_public,
      ap_cluster_only = False,
      ap_system_brief = ''Lead with findings, verify behavioral risk, and keep acceptance criteria explicit.'',
      ap_max_turns = Some 8,
      ap_max_runtime_minutes = None,
      ap_completion_signals = [''review verdict recorded'', ''open findings listed''],
      ap_escalate_on = [''blocking regression'', ''missing tests''],
      ap_criteria = [''findings are prioritized by severity'', ''behavioral regressions are called out explicitly'', ''test gaps are visible before approval''],
      ap_required_artifacts = [''review_verdict''],
      ap_minimum_confidence = 80,
      ap_adapter_name = Some ''agent''\<rparr>"

definition profile_operator_launch_guard :: agent_profile where
  "profile_operator_launch_guard =
     \<lparr>ap_profile_id = ''operator_launch_guard'',
      ap_name = ''Operator Launch Guard'',
      ap_description = ''Keeps the execution path human-visible and enforces launch/approval checkpoints.'',
      ap_public_role = operator,
      ap_role_label = ''launch_guard'',
      ap_capability_tags = [''operator_control'', ''launch'', ''approval''],
      ap_capability_scope_tags = [''goal_packet'', ''operator_packet'', ''launch''],
      ap_visibility = visibility_internal,
      ap_cluster_only = True,
      ap_system_brief = ''Prefer explicit operator checkpoints and safe default launch behavior.'',
      ap_max_turns = Some 6,
      ap_max_runtime_minutes = None,
      ap_completion_signals = [''launch approved'', ''checkpoint recorded''],
      ap_escalate_on = [''human approval required'', ''policy mismatch''],
      ap_criteria = [''launch decision is explicit'', ''policy preview is surfaced to the operator'', ''follow-up path stays observable''],
      ap_required_artifacts = [''launch_decision'', ''operator_packet''],
      ap_minimum_confidence = 75,
      ap_adapter_name = Some ''shell''\<rparr>"

definition profile_researcher_research_analyst :: agent_profile where
  "profile_researcher_research_analyst =
     \<lparr>ap_profile_id = ''researcher_research_analyst'',
      ap_name = ''Research Analyst'',
      ap_description = ''Performs focused investigation and captures structured evidence for research-led tasks.'',
      ap_public_role = researcher,
      ap_role_label = ''research_analyst'',
      ap_capability_tags = [''research'', ''analysis'', ''evidence''],
      ap_capability_scope_tags = [''research_cluster'', ''analysis''],
      ap_visibility = visibility_internal,
      ap_cluster_only = True,
      ap_system_brief = ''Prefer explicit source handling, evidence summaries, and uncertainty tracking.'',
      ap_max_turns = Some 10,
      ap_max_runtime_minutes = None,
      ap_completion_signals = [''research memo produced'', ''key findings summarized''],
      ap_escalate_on = [''source ambiguity'', ''unsupported claim''],
      ap_criteria = [''key findings are summarized cleanly'', ''evidence is distinguishable from inference'', ''follow-up questions are explicit''],
      ap_required_artifacts = [''research_memo''],
      ap_minimum_confidence = 72,
      ap_adapter_name = Some ''agent''\<rparr>"

definition profile_reviewer_citation_checker :: agent_profile where
  "profile_reviewer_citation_checker =
     \<lparr>ap_profile_id = ''reviewer_citation_checker'',
      ap_name = ''Citation Checker'',
      ap_description = ''Verifies references, evidentiary integrity, and confidence posture for research outputs.'',
      ap_public_role = reviewer,
      ap_role_label = ''citation_checker'',
      ap_capability_tags = [''citations'', ''verification'', ''research_review''],
      ap_capability_scope_tags = [''research_cluster'', ''verification''],
      ap_visibility = visibility_internal,
      ap_cluster_only = True,
      ap_system_brief = ''Prefer explicit citation gaps over silent confidence inflation.'',
      ap_max_turns = Some 8,
      ap_max_runtime_minutes = None,
      ap_completion_signals = [''citation review completed'', ''confidence posture updated''],
      ap_escalate_on = [''missing citations'', ''unsupported claims''],
      ap_criteria = [''claims map cleanly to evidence'', ''citation gaps are called out before approval'', ''confidence posture matches the evidence quality''],
      ap_required_artifacts = [''citation_review''],
      ap_minimum_confidence = 78,
      ap_adapter_name = Some ''agent''\<rparr>"

definition profile_researcher_search_scout :: agent_profile where
  "profile_researcher_search_scout =
     \<lparr>ap_profile_id = ''researcher_search_scout'',
      ap_name = ''Search Scout'',
      ap_description = ''Finds relevant sources, narrows search branches, and records what was searched.'',
      ap_public_role = researcher,
      ap_role_label = ''search_scout'',
      ap_capability_tags = [''search'', ''source_discovery'', ''research''],
      ap_capability_scope_tags = [''search_cluster'', ''source_trace''],
      ap_visibility = visibility_internal,
      ap_cluster_only = True,
      ap_system_brief = ''Prefer focused search branches, source traceability, and explicit gaps over broad unsourced claims.'',
      ap_max_turns = Some 8,
      ap_max_runtime_minutes = None,
      ap_completion_signals = [''source list produced'', ''search gaps recorded''],
      ap_escalate_on = [''missing source path'', ''ambiguous search target''],
      ap_criteria = [''queries or source paths are explicit'', ''top sources are ranked by usefulness'', ''known gaps are carried forward''],
      ap_required_artifacts = [''source_trace'', ''search_brief''],
      ap_minimum_confidence = 72,
      ap_adapter_name = Some ''agent''\<rparr>"

definition profile_researcher_source_synthesizer :: agent_profile where
  "profile_researcher_source_synthesizer =
     \<lparr>ap_profile_id = ''researcher_source_synthesizer'',
      ap_name = ''Source Synthesizer'',
      ap_description = ''Turns search results into a compact research brief with claims, evidence, and uncertainty.'',
      ap_public_role = researcher,
      ap_role_label = ''source_synthesizer'',
      ap_capability_tags = [''synthesis'', ''research'', ''evidence''],
      ap_capability_scope_tags = [''search_cluster'', ''research_brief''],
      ap_visibility = visibility_internal,
      ap_cluster_only = True,
      ap_system_brief = ''Separate facts from inference and keep downstream planner handoff concise.'',
      ap_max_turns = Some 8,
      ap_max_runtime_minutes = None,
      ap_completion_signals = [''research brief produced'', ''evidence handoff ready''],
      ap_escalate_on = [''contradictory evidence'', ''missing source trace''],
      ap_criteria = [''claims are grounded in evidence'', ''uncertainty is visible'', ''planner handoff is actionable''],
      ap_required_artifacts = [''research_brief''],
      ap_minimum_confidence = 76,
      ap_adapter_name = Some ''agent''\<rparr>"

definition profile_planner_product_designer :: agent_profile where
  "profile_planner_product_designer =
     \<lparr>ap_profile_id = ''planner_product_designer'',
      ap_name = ''Product Designer'',
      ap_description = ''Shapes user goals into product direction, interaction surfaces, and acceptance criteria.'',
      ap_public_role = planner,
      ap_role_label = ''product_designer'',
      ap_capability_tags = [''product_design'', ''ux'', ''requirements''],
      ap_capability_scope_tags = [''design_cluster'', ''product_brief''],
      ap_visibility = visibility_internal,
      ap_cluster_only = True,
      ap_system_brief = ''Prefer concrete user flows, tradeoffs, and crisp acceptance criteria.'',
      ap_max_turns = Some 8,
      ap_max_runtime_minutes = None,
      ap_completion_signals = [''product brief ready'', ''flow boundaries defined''],
      ap_escalate_on = [''unclear user goal'', ''unbounded surface area''],
      ap_criteria = [''primary user flow is explicit'', ''non-goals are visible'', ''acceptance criteria are testable''],
      ap_required_artifacts = [''product_brief'', ''ux_flow''],
      ap_minimum_confidence = 75,
      ap_adapter_name = Some ''agent''\<rparr>"

definition profile_planner_visual_interaction_designer :: agent_profile where
  "profile_planner_visual_interaction_designer =
     \<lparr>ap_profile_id = ''planner_visual_interaction_designer'',
      ap_name = ''Visual Interaction Designer'',
      ap_description = ''Translates product direction into visual language, UI states, and interaction notes.'',
      ap_public_role = planner,
      ap_role_label = ''visual_interaction_designer'',
      ap_capability_tags = [''visual_design'', ''interaction_design'', ''ui''],
      ap_capability_scope_tags = [''design_cluster'', ''ui_spec''],
      ap_visibility = visibility_internal,
      ap_cluster_only = True,
      ap_system_brief = ''Prefer distinctive but implementable UI direction, state coverage, and responsive constraints.'',
      ap_max_turns = Some 8,
      ap_max_runtime_minutes = None,
      ap_completion_signals = [''ui spec ready'', ''state coverage documented''],
      ap_escalate_on = [''unbuildable visual direction'', ''missing key state''],
      ap_criteria = [''visual direction is concrete'', ''important UI states are covered'', ''implementation constraints are explicit''],
      ap_required_artifacts = [''ui_spec'', ''state_matrix''],
      ap_minimum_confidence = 74,
      ap_adapter_name = Some ''agent''\<rparr>"

definition profile_reviewer_design_critic :: agent_profile where
  "profile_reviewer_design_critic =
     \<lparr>ap_profile_id = ''reviewer_design_critic'',
      ap_name = ''Design Critic'',
      ap_description = ''Reviews product and UI plans for usability, clarity, feasibility, and personal workflow fit.'',
      ap_public_role = reviewer,
      ap_role_label = ''design_critic'',
      ap_capability_tags = [''design_review'', ''usability'', ''feasibility''],
      ap_capability_scope_tags = [''design_cluster'', ''review''],
      ap_visibility = visibility_internal,
      ap_cluster_only = True,
      ap_system_brief = ''Lead with practical UX risks, missing states, and implementation pitfalls.'',
      ap_max_turns = Some 6,
      ap_max_runtime_minutes = None,
      ap_completion_signals = [''design review completed'', ''blocking gaps listed''],
      ap_escalate_on = [''missing core flow'', ''unresolved usability risk''],
      ap_criteria = [''usability risks are explicit'', ''missing states are called out'', ''recommendations are actionable''],
      ap_required_artifacts = [''design_review''],
      ap_minimum_confidence = 78,
      ap_adapter_name = Some ''agent''\<rparr>"

definition profile_researcher_multimodal_synthesizer :: agent_profile where
  "profile_researcher_multimodal_synthesizer =
     \<lparr>ap_profile_id = ''researcher_multimodal_synthesizer'',
      ap_name = ''Multimodal Synthesizer'',
      ap_description = ''Combines MMX/Vertex evidence into a planner-ready brief with source confidence.'',
      ap_public_role = researcher,
      ap_role_label = ''multimodal_synthesizer'',
      ap_capability_tags = [''multimodal'', ''synthesis'', ''evidence''],
      ap_capability_scope_tags = [''multimodal_cluster'', ''research_brief''],
      ap_visibility = visibility_internal,
      ap_cluster_only = True,
      ap_system_brief = ''Preserve source paths, confidence, and extracted constraints for downstream planning.'',
      ap_max_turns = Some 6,
      ap_max_runtime_minutes = None,
      ap_completion_signals = [''multimodal brief ready'', ''source confidence recorded''],
      ap_escalate_on = [''conflicting extracted facts'', ''missing referenced media''],
      ap_criteria = [''source confidence is explicit'', ''important constraints are extracted'', ''planner handoff is concise''],
      ap_required_artifacts = [''multimodal_brief''],
      ap_minimum_confidence = 74,
      ap_adapter_name = Some ''agent''\<rparr>"

definition profile_reviewer_test_sentinel :: agent_profile where
  "profile_reviewer_test_sentinel =
     \<lparr>ap_profile_id = ''reviewer_test_sentinel'',
      ap_name = ''Test Sentinel'',
      ap_description = ''Focuses on test evidence, failure modes, and regression containment.'',
      ap_public_role = reviewer,
      ap_role_label = ''test_sentinel'',
      ap_capability_tags = [''tests'', ''regression'', ''failure_analysis''],
      ap_capability_scope_tags = [''review_cluster'', ''test_evidence''],
      ap_visibility = visibility_internal,
      ap_cluster_only = True,
      ap_system_brief = ''Prefer concrete test gaps, failure reproduction notes, and minimal validation commands.'',
      ap_max_turns = Some 6,
      ap_max_runtime_minutes = None,
      ap_completion_signals = [''test evidence reviewed'', ''test gaps listed''],
      ap_escalate_on = [''missing critical test'', ''unreproduced failure''],
      ap_criteria = [''test evidence is verified'', ''regression gaps are explicit'', ''next validation command is clear''],
      ap_required_artifacts = [''test_review''],
      ap_minimum_confidence = 80,
      ap_adapter_name = Some ''agent''\<rparr>"

definition profile_reviewer_governance_sentinel :: agent_profile where
  "profile_reviewer_governance_sentinel =
     \<lparr>ap_profile_id = ''reviewer_governance_sentinel'',
      ap_name = ''Governance Sentinel'',
      ap_description = ''Checks policy, tech-debt, documentation, and release readiness implications.'',
      ap_public_role = reviewer,
      ap_role_label = ''governance_sentinel'',
      ap_capability_tags = [''governance'', ''tech_debt'', ''release_readiness''],
      ap_capability_scope_tags = [''management_cluster'', ''review_cluster''],
      ap_visibility = visibility_internal,
      ap_cluster_only = True,
      ap_system_brief = ''Prefer explicit governance impact, debt updates, and release-readiness risks.'',
      ap_max_turns = Some 6,
      ap_max_runtime_minutes = None,
      ap_completion_signals = [''governance review completed'', ''debt updates listed''],
      ap_escalate_on = [''undocumented debt'', ''policy mismatch''],
      ap_criteria = [''policy impact is explicit'', ''tech-debt changes are recorded'', ''release readiness is not overstated''],
      ap_required_artifacts = [''governance_review''],
      ap_minimum_confidence = 78,
      ap_adapter_name = Some ''agent''\<rparr>"

definition profile_planner_roadmap_manager :: agent_profile where
  "profile_planner_roadmap_manager =
     \<lparr>ap_profile_id = ''planner_roadmap_manager'',
      ap_name = ''Roadmap Manager'',
      ap_description = ''Keeps milestone scope, phase order, task cards, and closeout gates coherent.'',
      ap_public_role = planner,
      ap_role_label = ''roadmap_manager'',
      ap_capability_tags = [''roadmap'', ''phase_management'', ''task_cards''],
      ap_capability_scope_tags = [''management_cluster'', ''planning''],
      ap_visibility = visibility_internal,
      ap_cluster_only = True,
      ap_system_brief = ''Prefer current-phase focus, explicit closeout gates, and compact Chinese summaries.'',
      ap_max_turns = Some 8,
      ap_max_runtime_minutes = None,
      ap_completion_signals = [''roadmap updated'', ''active phase gates clear''],
      ap_escalate_on = [''scope creep'', ''missing closeout verification''],
      ap_criteria = [''phase order is coherent'', ''task cards map to verification'', ''closeout gates are explicit''],
      ap_required_artifacts = [''roadmap_update'', ''phase_gate_summary''],
      ap_minimum_confidence = 78,
      ap_adapter_name = Some ''agent''\<rparr>"

definition build_default_agent_profile_registry :: "agent_profile list" where
  "build_default_agent_profile_registry =
     [profile_planner_architect, profile_coder_implementer, profile_researcher_multimodal_evidence, profile_planner_phase_designer,
      profile_claude_architect_gate, profile_researcher_risk_mapper, profile_doc_curator_chinese_closeout, profile_reviewer_quality_gate,
      profile_operator_launch_guard, profile_researcher_research_analyst, profile_reviewer_citation_checker, profile_researcher_search_scout,
      profile_researcher_source_synthesizer, profile_planner_product_designer, profile_planner_visual_interaction_designer, profile_reviewer_design_critic,
      profile_researcher_multimodal_synthesizer, profile_reviewer_test_sentinel, profile_reviewer_governance_sentinel, profile_planner_roadmap_manager]"

end
