(* ===== verification/Cluster_Templates.thy ===== *)
theory Cluster_Templates
  imports Agent_Profiles
begin

section \<open>The execution cluster templates\<close>

text \<open>
  \<open>ClusterMemberSpec\<close>, \<open>ExecutionClusterTemplate\<close> and \<open>list_default_cluster_templates\<close> of
  \<^verbatim>\<open>packages/core_domain/interaction_catalog.py\<close>. The review rubric of a template is its last fields.
\<close>

datatype cluster_execution_mode = mode_sequential | mode_parallel | mode_mixed

record cluster_member =
  cm_member_id :: string
  cm_public_role :: agent_role
  cm_agent_profile_id :: "string option"
  cm_role_label :: string
  cm_responsibilities :: "string list"
  cm_parallel_group :: "string option"
  cm_adapter_name :: "string option"

record cluster_template =
  xt_template_id :: string
  xt_name :: string
  xt_description :: string
  xt_domain_tags :: "string list"
  xt_primary_public_role :: agent_role
  xt_default_review_policy :: review_policy
  xt_execution_mode :: cluster_execution_mode
  xt_member_specs :: "cluster_member list"
  xt_rubric_name :: string
  xt_criteria :: "string list"
  xt_required_artifacts :: "string list"
  xt_escalation_conditions :: "string list"
  xt_quality_bar :: string

definition template_dev_cluster :: cluster_template where
  "template_dev_cluster =
     \<lparr>xt_template_id = ''dev_cluster'',
      xt_name = ''DevCluster'',
      xt_description = ''Planner-led software delivery cluster with parallel implementation and risk mapping lanes.'',
      xt_domain_tags = [''software_delivery'', ''project_delivery'', ''orchestration''],
      xt_primary_public_role = operator,
      xt_default_review_policy = recommended,
      xt_execution_mode = mode_parallel,
      xt_member_specs = 
        [\<lparr>cm_member_id = ''dev_cluster_architect'',
          cm_public_role = planner,
          cm_agent_profile_id = Some ''planner_architect'',
          cm_role_label = ''architect'',
          cm_responsibilities = [''decompose scope'', ''publish work breakdown'', ''define handoff edges''],
          cm_parallel_group = None,
          cm_adapter_name = Some ''agent''\<rparr>,
         \<lparr>cm_member_id = ''dev_cluster_implementer'',
          cm_public_role = coder,
          cm_agent_profile_id = Some ''coder_implementer'',
          cm_role_label = ''implementer'',
          cm_responsibilities = [''apply bounded repo changes'', ''run targeted tests''],
          cm_parallel_group = Some ''delivery_parallel'',
          cm_adapter_name = Some ''codex''\<rparr>,
         \<lparr>cm_member_id = ''dev_cluster_risk_mapper'',
          cm_public_role = researcher,
          cm_agent_profile_id = Some ''researcher_risk_mapper'',
          cm_role_label = ''risk_mapper'',
          cm_responsibilities = [''capture risks'', ''surface supporting evidence'', ''list unknowns''],
          cm_parallel_group = Some ''delivery_parallel'',
          cm_adapter_name = Some ''agent''\<rparr>,
         \<lparr>cm_member_id = ''dev_cluster_quality_gate'',
          cm_public_role = reviewer,
          cm_agent_profile_id = Some ''reviewer_quality_gate'',
          cm_role_label = ''quality_gate'',
          cm_responsibilities = [''review combined output'', ''call out regressions'', ''gate approval''],
          cm_parallel_group = None,
          cm_adapter_name = Some ''agent''\<rparr>,
         \<lparr>cm_member_id = ''dev_cluster_launch_guard'',
          cm_public_role = operator,
          cm_agent_profile_id = Some ''operator_launch_guard'',
          cm_role_label = ''launch_guard'',
          cm_responsibilities = [''keep launch human-visible'', ''record checkpoints'', ''own follow-up path''],
          cm_parallel_group = None,
          cm_adapter_name = Some ''shell''\<rparr>],
      xt_rubric_name = ''DevCluster Review Rubric'',
      xt_criteria = [''implementation, risk mapping, and review are all represented'', ''repo mutation stays bounded and test-backed'', ''launch visibility remains intact''],
      xt_required_artifacts = [''plan_graph'', ''code_diff'', ''review_verdict''],
      xt_escalation_conditions = [''missing review evidence'', ''failing targeted tests'', ''write-scope conflict''],
      xt_quality_bar = ''delivery_ready''\<rparr>"

definition template_research_cluster :: cluster_template where
  "template_research_cluster =
     \<lparr>xt_template_id = ''research_cluster'',
      xt_name = ''ResearchCluster'',
      xt_description = ''Research-led cluster for investigation, citation checking, and guarded operator handoff.'',
      xt_domain_tags = [''research'', ''analysis'', ''evidence''],
      xt_primary_public_role = researcher,
      xt_default_review_policy = human_required,
      xt_execution_mode = mode_sequential,
      xt_member_specs = 
        [\<lparr>cm_member_id = ''research_cluster_analyst'',
          cm_public_role = researcher,
          cm_agent_profile_id = Some ''researcher_research_analyst'',
          cm_role_label = ''research_analyst'',
          cm_responsibilities = [''investigate the question'', ''produce findings'', ''record open questions''],
          cm_parallel_group = None,
          cm_adapter_name = Some ''agent''\<rparr>,
         \<lparr>cm_member_id = ''research_cluster_citation_checker'',
          cm_public_role = reviewer,
          cm_agent_profile_id = Some ''reviewer_citation_checker'',
          cm_role_label = ''citation_checker'',
          cm_responsibilities = [''verify claims'', ''check citations'', ''adjust confidence posture''],
          cm_parallel_group = None,
          cm_adapter_name = Some ''agent''\<rparr>,
         \<lparr>cm_member_id = ''research_cluster_launch_guard'',
          cm_public_role = operator,
          cm_agent_profile_id = Some ''operator_launch_guard'',
          cm_role_label = ''launch_guard'',
          cm_responsibilities = [''hold the launch gate'', ''keep operator follow-up explicit''],
          cm_parallel_group = None,
          cm_adapter_name = Some ''shell''\<rparr>],
      xt_rubric_name = ''ResearchCluster Review Rubric'',
      xt_criteria = [''research findings are explicit'', ''unsupported claims are blocked before launch'', ''operator follow-up remains visible''],
      xt_required_artifacts = [''research_memo'', ''citation_review''],
      xt_escalation_conditions = [''missing citations'', ''contradictory evidence'', ''confidence mismatch''],
      xt_quality_bar = ''evidence_ready''\<rparr>"

definition template_architecture_delivery_cluster :: cluster_template where
  "template_architecture_delivery_cluster =
     \<lparr>xt_template_id = ''architecture_delivery_cluster'',
      xt_name = ''ArchitectureDeliveryCluster'',
      xt_description = ''Strong-model dogfood delivery chain: evidence, planner design, one-shot Claude architecture gate, phase/task breakdown, bounded implementation, review, and Chinese documentation closeout.'',
      xt_domain_tags = [''architecture'', ''dogfood'', ''multimodal'', ''project_delivery'', ''workflow_development''],
      xt_primary_public_role = operator,
      xt_default_review_policy = human_required,
      xt_execution_mode = mode_sequential,
      xt_member_specs = 
        [\<lparr>cm_member_id = ''architecture_delivery_multimodal_evidence'',
          cm_public_role = researcher,
          cm_agent_profile_id = Some ''researcher_multimodal_evidence'',
          cm_role_label = ''multimodal_evidence'',
          cm_responsibilities = [''extract evidence from referenced PDF/image paths'', ''publish source trace''],
          cm_parallel_group = None,
          cm_adapter_name = Some ''mmx_multimodal''\<rparr>,
         \<lparr>cm_member_id = ''architecture_delivery_design_planner'',
          cm_public_role = planner,
          cm_agent_profile_id = Some ''planner_architect'',
          cm_role_label = ''planner_design'',
          cm_responsibilities = [''turn evidence into a design draft'', ''list constraints and open risks''],
          cm_parallel_group = None,
          cm_adapter_name = Some ''agent''\<rparr>,
         \<lparr>cm_member_id = ''architecture_delivery_claude_gate'',
          cm_public_role = planner,
          cm_agent_profile_id = Some ''claude_architect_gate'',
          cm_role_label = ''claude_architect_gate'',
          cm_responsibilities = [''produce architecture skeleton once'', ''challenge boundaries'', ''record do-not-touch zones''],
          cm_parallel_group = None,
          cm_adapter_name = Some ''claude_architect''\<rparr>,
         \<lparr>cm_member_id = ''architecture_delivery_phase_planner'',
          cm_public_role = planner,
          cm_agent_profile_id = Some ''planner_phase_designer'',
          cm_role_label = ''phase_designer'',
          cm_responsibilities = [''absorb Claude skeleton'', ''split phases'', ''write active task cards''],
          cm_parallel_group = None,
          cm_adapter_name = Some ''agent''\<rparr>,
         \<lparr>cm_member_id = ''architecture_delivery_worker'',
          cm_public_role = coder,
          cm_agent_profile_id = Some ''coder_implementer'',
          cm_role_label = ''implementer'',
          cm_responsibilities = [''execute only active task card write scope'', ''run targeted tests''],
          cm_parallel_group = None,
          cm_adapter_name = Some ''codex''\<rparr>,
         \<lparr>cm_member_id = ''architecture_delivery_quality_gate'',
          cm_public_role = reviewer,
          cm_agent_profile_id = Some ''reviewer_quality_gate'',
          cm_role_label = ''quality_gate'',
          cm_responsibilities = [''review behavior and regressions'', ''block unsafe merge-ready claims''],
          cm_parallel_group = None,
          cm_adapter_name = Some ''agent''\<rparr>,
         \<lparr>cm_member_id = ''architecture_delivery_doc_curator'',
          cm_public_role = reviewer,
          cm_agent_profile_id = Some ''doc_curator_chinese_closeout'',
          cm_role_label = ''doc_curator'',
          cm_responsibilities = [''update active Chinese docs'', ''summarize history and tech debt''],
          cm_parallel_group = None,
          cm_adapter_name = Some ''agent''\<rparr>,
         \<lparr>cm_member_id = ''architecture_delivery_launch_guard'',
          cm_public_role = operator,
          cm_agent_profile_id = Some ''operator_launch_guard'',
          cm_role_label = ''launch_guard'',
          cm_responsibilities = [''keep confirmation checkpoints visible'', ''record human takeover points''],
          cm_parallel_group = None,
          cm_adapter_name = Some ''shell''\<rparr>],
      xt_rubric_name = ''ArchitectureDeliveryCluster Review Rubric'',
      xt_criteria = [''multimodal evidence and source trace exist when input paths are provided'', ''Claude architect gate is at most once and artifact-only'', ''planner converts architecture into bounded phase/task work'', ''worker declares write scope and targeted tests'', ''review and Chinese doc closeout are represented''],
      xt_required_artifacts = [''multimodal_extract'', ''architecture_skeleton'', ''task_card_pack'', ''test_result'', ''review_verdict'', ''doc_closeout_summary''],
      xt_escalation_conditions = [''second Claude call requested'', ''repo mutation outside worker scope'', ''missing evidence for referenced media'', ''failing targeted tests''],
      xt_quality_bar = ''dogfood_delivery_ready''\<rparr>"

definition template_search_cluster :: cluster_template where
  "template_search_cluster =
     \<lparr>xt_template_id = ''search_cluster'',
      xt_name = ''SearchCluster'',
      xt_description = ''Source discovery and synthesis cluster for search-led tasks.'',
      xt_domain_tags = [''search'', ''research'', ''source_discovery'', ''evidence''],
      xt_primary_public_role = researcher,
      xt_default_review_policy = human_required,
      xt_execution_mode = mode_sequential,
      xt_member_specs = 
        [\<lparr>cm_member_id = ''search_cluster_scout'',
          cm_public_role = researcher,
          cm_agent_profile_id = Some ''researcher_search_scout'',
          cm_role_label = ''search_scout'',
          cm_responsibilities = [''discover useful sources'', ''record search branches'', ''surface source gaps''],
          cm_parallel_group = None,
          cm_adapter_name = Some ''agent''\<rparr>,
         \<lparr>cm_member_id = ''search_cluster_synthesizer'',
          cm_public_role = researcher,
          cm_agent_profile_id = Some ''researcher_source_synthesizer'',
          cm_role_label = ''source_synthesizer'',
          cm_responsibilities = [''synthesize source findings'', ''separate facts from inference''],
          cm_parallel_group = None,
          cm_adapter_name = Some ''agent''\<rparr>,
         \<lparr>cm_member_id = ''search_cluster_citation_checker'',
          cm_public_role = reviewer,
          cm_agent_profile_id = Some ''reviewer_citation_checker'',
          cm_role_label = ''citation_checker'',
          cm_responsibilities = [''verify claims'', ''flag weak evidence'', ''adjust confidence''],
          cm_parallel_group = None,
          cm_adapter_name = Some ''agent''\<rparr>,
         \<lparr>cm_member_id = ''search_cluster_launch_guard'',
          cm_public_role = operator,
          cm_agent_profile_id = Some ''operator_launch_guard'',
          cm_role_label = ''launch_guard'',
          cm_responsibilities = [''keep follow-up visible'', ''record human takeover points''],
          cm_parallel_group = None,
          cm_adapter_name = Some ''shell''\<rparr>],
      xt_rubric_name = ''SearchCluster Review Rubric'',
      xt_criteria = [''source trace is explicit'', ''facts and inference are separated'', ''citation confidence is visible''],
      xt_required_artifacts = [''source_trace'', ''research_brief'', ''citation_review''],
      xt_escalation_conditions = [''unsupported claim'', ''missing source trace'', ''contradictory evidence''],
      xt_quality_bar = ''source_ready''\<rparr>"

definition template_design_cluster :: cluster_template where
  "template_design_cluster =
     \<lparr>xt_template_id = ''design_cluster'',
      xt_name = ''DesignCluster'',
      xt_description = ''Product and interaction design cluster for UI, UX, and artifact direction.'',
      xt_domain_tags = [''design'', ''ux'', ''ui'', ''product'', ''visual''],
      xt_primary_public_role = planner,
      xt_default_review_policy = recommended,
      xt_execution_mode = mode_sequential,
      xt_member_specs = 
        [\<lparr>cm_member_id = ''design_cluster_product_designer'',
          cm_public_role = planner,
          cm_agent_profile_id = Some ''planner_product_designer'',
          cm_role_label = ''product_designer'',
          cm_responsibilities = [''define product direction'', ''map primary user flow'', ''write acceptance criteria''],
          cm_parallel_group = None,
          cm_adapter_name = Some ''agent''\<rparr>,
         \<lparr>cm_member_id = ''design_cluster_visual_interaction_designer'',
          cm_public_role = planner,
          cm_agent_profile_id = Some ''planner_visual_interaction_designer'',
          cm_role_label = ''visual_interaction_designer'',
          cm_responsibilities = [''define UI states'', ''set visual direction'', ''capture responsive constraints''],
          cm_parallel_group = None,
          cm_adapter_name = Some ''agent''\<rparr>,
         \<lparr>cm_member_id = ''design_cluster_design_critic'',
          cm_public_role = reviewer,
          cm_agent_profile_id = Some ''reviewer_design_critic'',
          cm_role_label = ''design_critic'',
          cm_responsibilities = [''review usability'', ''call out missing states'', ''check feasibility''],
          cm_parallel_group = None,
          cm_adapter_name = Some ''agent''\<rparr>,
         \<lparr>cm_member_id = ''design_cluster_launch_guard'',
          cm_public_role = operator,
          cm_agent_profile_id = Some ''operator_launch_guard'',
          cm_role_label = ''launch_guard'',
          cm_responsibilities = [''record design decision'', ''keep implementation handoff explicit''],
          cm_parallel_group = None,
          cm_adapter_name = Some ''shell''\<rparr>],
      xt_rubric_name = ''DesignCluster Review Rubric'',
      xt_criteria = [''primary flow and non-goals are explicit'', ''UI state coverage is sufficient'', ''design risks are reviewed before implementation''],
      xt_required_artifacts = [''product_brief'', ''ui_spec'', ''design_review''],
      xt_escalation_conditions = [''missing core flow'', ''unbuildable design direction'', ''unresolved usability risk''],
      xt_quality_bar = ''design_ready''\<rparr>"

definition template_multimodal_cluster :: cluster_template where
  "template_multimodal_cluster =
     \<lparr>xt_template_id = ''multimodal_cluster'',
      xt_name = ''MultimodalCluster'',
      xt_description = ''PDF/image/screenshot evidence cluster with MMX primary extraction and synthesis fallback.'',
      xt_domain_tags = [''multimodal'', ''pdf'', ''image'', ''screenshot'', ''mmx'', ''vertex''],
      xt_primary_public_role = researcher,
      xt_default_review_policy = human_required,
      xt_execution_mode = mode_sequential,
      xt_member_specs = 
        [\<lparr>cm_member_id = ''multimodal_cluster_mmx_evidence'',
          cm_public_role = researcher,
          cm_agent_profile_id = Some ''researcher_multimodal_evidence'',
          cm_role_label = ''multimodal_evidence'',
          cm_responsibilities = [''extract PDF/image evidence'', ''publish source trace''],
          cm_parallel_group = None,
          cm_adapter_name = Some ''mmx_multimodal''\<rparr>,
         \<lparr>cm_member_id = ''multimodal_cluster_synthesizer'',
          cm_public_role = researcher,
          cm_agent_profile_id = Some ''researcher_multimodal_synthesizer'',
          cm_role_label = ''multimodal_synthesizer'',
          cm_responsibilities = [''synthesize extracted facts'', ''record confidence'', ''prepare planner handoff''],
          cm_parallel_group = None,
          cm_adapter_name = Some ''agent''\<rparr>,
         \<lparr>cm_member_id = ''multimodal_cluster_citation_checker'',
          cm_public_role = reviewer,
          cm_agent_profile_id = Some ''reviewer_citation_checker'',
          cm_role_label = ''citation_checker'',
          cm_responsibilities = [''verify extracted claims'', ''flag missing or ambiguous media evidence''],
          cm_parallel_group = None,
          cm_adapter_name = Some ''agent''\<rparr>,
         \<lparr>cm_member_id = ''multimodal_cluster_launch_guard'',
          cm_public_role = operator,
          cm_agent_profile_id = Some ''operator_launch_guard'',
          cm_role_label = ''launch_guard'',
          cm_responsibilities = [''keep referenced media and follow-up visible''],
          cm_parallel_group = None,
          cm_adapter_name = Some ''shell''\<rparr>],
      xt_rubric_name = ''MultimodalCluster Review Rubric'',
      xt_criteria = [''referenced media paths are visible'', ''extracted facts include confidence'', ''ambiguous evidence is not overclaimed''],
      xt_required_artifacts = [''multimodal_extract'', ''multimodal_brief'', ''citation_review''],
      xt_escalation_conditions = [''missing media path'', ''failed extraction without fallback'', ''unsupported extracted claim''],
      xt_quality_bar = ''multimodal_evidence_ready''\<rparr>"

definition template_review_cluster :: cluster_template where
  "template_review_cluster =
     \<lparr>xt_template_id = ''review_cluster'',
      xt_name = ''ReviewCluster'',
      xt_description = ''Quality, test, governance, and documentation review cluster for high-risk changes.'',
      xt_domain_tags = [''review'', ''quality'', ''tests'', ''governance'', ''release_readiness''],
      xt_primary_public_role = reviewer,
      xt_default_review_policy = human_required,
      xt_execution_mode = mode_parallel,
      xt_member_specs = 
        [\<lparr>cm_member_id = ''review_cluster_quality_gate'',
          cm_public_role = reviewer,
          cm_agent_profile_id = Some ''reviewer_quality_gate'',
          cm_role_label = ''quality_gate'',
          cm_responsibilities = [''review behavior'', ''find regressions'', ''gate readiness''],
          cm_parallel_group = Some ''review_parallel'',
          cm_adapter_name = Some ''agent''\<rparr>,
         \<lparr>cm_member_id = ''review_cluster_test_sentinel'',
          cm_public_role = reviewer,
          cm_agent_profile_id = Some ''reviewer_test_sentinel'',
          cm_role_label = ''test_sentinel'',
          cm_responsibilities = [''inspect test evidence'', ''surface missing tests'', ''suggest targeted validation''],
          cm_parallel_group = Some ''review_parallel'',
          cm_adapter_name = Some ''agent''\<rparr>,
         \<lparr>cm_member_id = ''review_cluster_governance_sentinel'',
          cm_public_role = reviewer,
          cm_agent_profile_id = Some ''reviewer_governance_sentinel'',
          cm_role_label = ''governance_sentinel'',
          cm_responsibilities = [''check policy impact'', ''record debt changes'', ''verify release-readiness claims''],
          cm_parallel_group = Some ''review_parallel'',
          cm_adapter_name = Some ''agent''\<rparr>,
         \<lparr>cm_member_id = ''review_cluster_doc_curator'',
          cm_public_role = reviewer,
          cm_agent_profile_id = Some ''doc_curator_chinese_closeout'',
          cm_role_label = ''doc_curator'',
          cm_responsibilities = [''close Chinese docs'', ''summarize review outcome''],
          cm_parallel_group = None,
          cm_adapter_name = Some ''agent''\<rparr>,
         \<lparr>cm_member_id = ''review_cluster_launch_guard'',
          cm_public_role = operator,
          cm_agent_profile_id = Some ''operator_launch_guard'',
          cm_role_label = ''launch_guard'',
          cm_responsibilities = [''hold final human-visible gate'', ''record follow-up actions''],
          cm_parallel_group = None,
          cm_adapter_name = Some ''shell''\<rparr>],
      xt_rubric_name = ''ReviewCluster Review Rubric'',
      xt_criteria = [''quality findings are prioritized'', ''test gaps are explicit'', ''governance and documentation impacts are recorded''],
      xt_required_artifacts = [''review_verdict'', ''test_review'', ''governance_review'', ''doc_closeout_summary''],
      xt_escalation_conditions = [''blocking regression'', ''missing critical test'', ''unrecorded tech debt''],
      xt_quality_bar = ''review_ready''\<rparr>"

definition template_management_cluster :: cluster_template where
  "template_management_cluster =
     \<lparr>xt_template_id = ''management_cluster'',
      xt_name = ''ManagementCluster'',
      xt_description = ''Roadmap, phase/task, governance, and closeout management cluster for long-running personal work.'',
      xt_domain_tags = [''management'', ''roadmap'', ''phase'', ''task_cards'', ''closeout''],
      xt_primary_public_role = operator,
      xt_default_review_policy = human_required,
      xt_execution_mode = mode_sequential,
      xt_member_specs = 
        [\<lparr>cm_member_id = ''management_cluster_roadmap_manager'',
          cm_public_role = planner,
          cm_agent_profile_id = Some ''planner_roadmap_manager'',
          cm_role_label = ''roadmap_manager'',
          cm_responsibilities = [''set phase order'', ''keep active task cards scoped'', ''define closeout gates''],
          cm_parallel_group = None,
          cm_adapter_name = Some ''agent''\<rparr>,
         \<lparr>cm_member_id = ''management_cluster_phase_designer'',
          cm_public_role = planner,
          cm_agent_profile_id = Some ''planner_phase_designer'',
          cm_role_label = ''phase_designer'',
          cm_responsibilities = [''write current phase plan'', ''produce executable task cards''],
          cm_parallel_group = None,
          cm_adapter_name = Some ''agent''\<rparr>,
         \<lparr>cm_member_id = ''management_cluster_governance_sentinel'',
          cm_public_role = reviewer,
          cm_agent_profile_id = Some ''reviewer_governance_sentinel'',
          cm_role_label = ''governance_sentinel'',
          cm_responsibilities = [''check policy and debt updates'', ''verify closeout scope''],
          cm_parallel_group = None,
          cm_adapter_name = Some ''agent''\<rparr>,
         \<lparr>cm_member_id = ''management_cluster_doc_curator'',
          cm_public_role = reviewer,
          cm_agent_profile_id = Some ''doc_curator_chinese_closeout'',
          cm_role_label = ''doc_curator'',
          cm_responsibilities = [''absorb conclusions into Chinese docs'', ''avoid historical doc piles''],
          cm_parallel_group = None,
          cm_adapter_name = Some ''agent''\<rparr>,
         \<lparr>cm_member_id = ''management_cluster_launch_guard'',
          cm_public_role = operator,
          cm_agent_profile_id = Some ''operator_launch_guard'',
          cm_role_label = ''launch_guard'',
          cm_responsibilities = [''record owner decision'', ''surface next phase or stop condition''],
          cm_parallel_group = None,
          cm_adapter_name = Some ''shell''\<rparr>],
      xt_rubric_name = ''ManagementCluster Review Rubric'',
      xt_criteria = [''phase/task scope is coherent'', ''closeout gates are explicit'', ''current docs and debt registry stay aligned''],
      xt_required_artifacts = [''roadmap_update'', ''task_card_pack'', ''governance_review'', ''doc_closeout_summary''],
      xt_escalation_conditions = [''scope creep'', ''missing closeout validation'', ''doc/debt mismatch''],
      xt_quality_bar = ''management_ready''\<rparr>"

definition list_default_cluster_templates :: "cluster_template list" where
  "list_default_cluster_templates =
     [template_dev_cluster, template_research_cluster, template_architecture_delivery_cluster, template_search_cluster,
      template_design_cluster, template_multimodal_cluster, template_review_cluster, template_management_cluster]"

end
