(* ===== verification/Orch_Plan.thy ===== *)
theory Orch_Plan
  imports Cluster_Templates Py_Text
begin

section \<open>Orchestration plans\<close>

text \<open>
  The catalogue functions of \<^verbatim>\<open>interaction_catalog.py\<close>, \<open>ClusterRouter\<close> of \<^verbatim>\<open>cluster_router.py\<close> and the plan
  building of \<open>OrchestrationExecutionService\<close> in \<^verbatim>\<open>service_orchestration.py\<close> (all in \<^verbatim>\<open>packages/core_domain\<close>).
  The facade's lookup of a preset and its resolution of an execution profile are functions of the
  record \<open>plan_facade\<close>; a resolved profile is its adapter and its dump.
\<close>

subsection \<open>The catalogue\<close>

definition lookup_or :: "'a \<Rightarrow> (string \<times> 'a) list \<Rightarrow> string \<Rightarrow> 'a" where
  "lookup_or d m k = (case map_of m k of None \<Rightarrow> d | Some v \<Rightarrow> v)"

definition cluster_template_ids_for_preset :: "string option \<Rightarrow> string list" where
  "cluster_template_ids_for_preset preset =
     lookup_or []
       [(''project_delivery'', [''dev_cluster'']), (''guarded_project_delivery'', [''dev_cluster'']),
        (''architecture_delivery'', [''architecture_delivery_cluster'']),
        (''dogfood_delivery'', [''architecture_delivery_cluster'']),
        (''research_spike'', [''research_cluster'']), (''research_spike_reviewable'', [''research_cluster''])]
       (str_or preset [])"

definition default_preset_id_for_cluster_template :: "string \<Rightarrow> string option" where
  "default_preset_id_for_cluster_template tid =
     map_of
       [(''dev_cluster'', ''project_delivery''), (''research_cluster'', ''research_spike_reviewable''),
        (''architecture_delivery_cluster'', ''project_delivery''), (''search_cluster'', ''research_spike_reviewable''),
        (''design_cluster'', ''advisory_delivery''), (''multimodal_cluster'', ''research_spike_reviewable''),
        (''review_cluster'', ''advisory_delivery''), (''management_cluster'', ''project_delivery'')] tid"

definition sequence_no_for_cluster_member :: "string \<Rightarrow> string \<Rightarrow> agent_role \<Rightarrow> nat" where
  "sequence_no_for_cluster_member tid label role =
    (if tid = ''dev_cluster'' then
       lookup_or 4
         [(''architect'', 1), (''implementer'', 2), (''risk_mapper'', 2), (''quality_gate'', 3),
          (''launch_guard'', 4)] label
     else if tid = ''research_cluster'' then
       lookup_or 3
         [(''research_analyst'', 1), (''citation_checker'', 2), (''launch_guard'', 3)] label
     else if tid = ''architecture_delivery_cluster'' then
       lookup_or 8
         [(''multimodal_evidence'', 1), (''planner_design'', 2), (''claude_architect_gate'', 3),
          (''phase_designer'', 4), (''implementer'', 5), (''quality_gate'', 6), (''doc_curator'', 7),
          (''launch_guard'', 8)] label
     else if tid = ''search_cluster'' then
       lookup_or 4
         [(''search_scout'', 1), (''source_synthesizer'', 2), (''citation_checker'', 3),
          (''launch_guard'', 4)] label
     else if tid = ''design_cluster'' then
       lookup_or 4
         [(''product_designer'', 1), (''visual_interaction_designer'', 2), (''design_critic'', 3),
          (''launch_guard'', 4)] label
     else if tid = ''multimodal_cluster'' then
       lookup_or 4
         [(''multimodal_evidence'', 1), (''multimodal_synthesizer'', 2), (''citation_checker'', 3),
          (''launch_guard'', 4)] label
     else if tid = ''review_cluster'' then
       lookup_or 3
         [(''quality_gate'', 1), (''test_sentinel'', 1), (''governance_sentinel'', 1),
          (''doc_curator'', 2), (''launch_guard'', 3)] label
     else if tid = ''management_cluster'' then
       lookup_or 5
         [(''roadmap_manager'', 1), (''phase_designer'', 2), (''governance_sentinel'', 3),
          (''doc_curator'', 4), (''launch_guard'', 5)] label
     else (case role of planner \<Rightarrow> 1 | coder \<Rightarrow> 2 | researcher \<Rightarrow> 2 | reviewer \<Rightarrow> 3 | operator \<Rightarrow> 4))"

definition member_preset_id :: "string \<Rightarrow> string \<Rightarrow> agent_role \<Rightarrow> string" where
  "member_preset_id tid label role =
    (if tid = ''dev_cluster'' then
       lookup_or ''optional_delivery''
         [(''architect'', ''optional_delivery''), (''implementer'', ''feature_delivery''),
          (''risk_mapper'', ''optional_delivery''), (''quality_gate'', ''advisory_delivery''),
          (''launch_guard'', ''guarded_delivery'')] label
     else if tid = ''research_cluster'' then
       lookup_or ''research_spike_reviewable''
         [(''research_analyst'', ''research_spike_reviewable''),
          (''citation_checker'', ''advisory_delivery''), (''launch_guard'', ''guarded_delivery'')] label
     else if tid = ''architecture_delivery_cluster'' then
       lookup_or ''optional_delivery''
         [(''multimodal_evidence'', ''research_spike_reviewable''),
          (''planner_design'', ''advisory_delivery''),
          (''claude_architect_gate'', ''advisory_delivery''),
          (''phase_designer'', ''optional_delivery''), (''implementer'', ''feature_delivery''),
          (''quality_gate'', ''advisory_delivery''), (''doc_curator'', ''advisory_delivery''),
          (''launch_guard'', ''guarded_delivery'')] label
     else if tid = ''search_cluster'' then
       lookup_or ''research_spike_reviewable''
         [(''search_scout'', ''research_spike_reviewable''),
          (''source_synthesizer'', ''research_spike_reviewable''),
          (''citation_checker'', ''advisory_delivery''), (''launch_guard'', ''guarded_delivery'')] label
     else if tid = ''design_cluster'' then
       lookup_or ''advisory_delivery''
         [(''product_designer'', ''advisory_delivery''),
          (''visual_interaction_designer'', ''advisory_delivery''),
          (''design_critic'', ''advisory_delivery''), (''launch_guard'', ''guarded_delivery'')] label
     else if tid = ''multimodal_cluster'' then
       lookup_or ''research_spike_reviewable''
         [(''multimodal_evidence'', ''research_spike_reviewable''),
          (''multimodal_synthesizer'', ''research_spike_reviewable''),
          (''citation_checker'', ''advisory_delivery''), (''launch_guard'', ''guarded_delivery'')] label
     else if tid = ''review_cluster'' then
       lookup_or ''advisory_delivery''
         [(''quality_gate'', ''advisory_delivery''), (''test_sentinel'', ''advisory_delivery''),
          (''governance_sentinel'', ''advisory_delivery''), (''doc_curator'', ''advisory_delivery''),
          (''launch_guard'', ''guarded_delivery'')] label
     else if tid = ''management_cluster'' then
       lookup_or ''optional_delivery''
         [(''roadmap_manager'', ''advisory_delivery''), (''phase_designer'', ''optional_delivery''),
          (''governance_sentinel'', ''advisory_delivery''), (''doc_curator'', ''advisory_delivery''),
          (''launch_guard'', ''guarded_delivery'')] label
     else (case role of coder \<Rightarrow> ''feature_delivery'' | reviewer \<Rightarrow> ''advisory_delivery''
             | operator \<Rightarrow> ''guarded_delivery'' | _ \<Rightarrow> ''optional_delivery''))"

definition preferred_adapter_for_cluster_member :: "agent_role \<Rightarrow> string option" where
  "preferred_adapter_for_cluster_member role =
     (case role of coder \<Rightarrow> Some ''codex'' | operator \<Rightarrow> None | _ \<Rightarrow> Some ''agent'')"

definition fallback_adapter_for_cluster_member :: "agent_role \<Rightarrow> string option" where
  "fallback_adapter_for_cluster_member role = (case role of operator \<Rightarrow> None | _ \<Rightarrow> Some ''shell'')"

subsection \<open>Routing a goal to templates\<close>

text \<open>The marker catalogue is read from a data file; \<open>cr_dynamic\<close> is \<open>_dynamic_routing_enabled()\<close>.\<close>

record cluster_router =
  cr_templates :: "cluster_template list"
  cr_markers :: "(string \<times> string list) list"
  cr_dynamic :: bool

text \<open>\<open>{template.template_id: template for ..}\<close>: the last template with an id wins.\<close>

definition get_template :: "cluster_router \<Rightarrow> string \<Rightarrow> cluster_template option" where
  "get_template r tid = sql_first (\<lambda>t. xt_template_id t = tid) (rev (cr_templates r))"

definition default_dynamic_cluster_order :: "string list" where
  "default_dynamic_cluster_order =
     [''multimodal_cluster'', ''search_cluster'', ''design_cluster'', ''architecture_delivery_cluster'', ''dev_cluster'',
      ''review_cluster'', ''management_cluster'']"

definition default_static_cluster_order :: "string list" where
  "default_static_cluster_order =
     [''architecture_delivery_cluster'', ''multimodal_cluster'', ''search_cluster'', ''design_cluster'', ''review_cluster'',
      ''management_cluster'', ''research_cluster'', ''dev_cluster'']"

definition matching_template_ids :: "cluster_router \<Rightarrow> string \<Rightarrow> string list \<Rightarrow> string list" where
  "matching_template_ids r goal order =
     foldl (\<lambda>acc tid. if tid \<in> set acc then acc else acc @ [tid]) []
       (filter (\<lambda>tid. get_template r tid \<noteq> None \<and> list_ex (\<lambda>m. contains m goal) (lookup_or [] (cr_markers r) tid)) order)"

definition suggest_template_ids :: "cluster_router \<Rightarrow> string \<Rightarrow> string option \<Rightarrow> string list \<Rightarrow> string list" where
  "suggest_template_ids r goal preset preferred =
     (let requested = filter (\<lambda>tid. get_template r tid \<noteq> None) preferred;
          mapped = filter (\<lambda>tid. get_template r tid \<noteq> None) (cluster_template_ids_for_preset preset);
          normalized = lower goal;
          first = matching_template_ids r normalized default_dynamic_cluster_order;
          dynamic = (if first = [] \<and> get_template r ''research_cluster'' \<noteq> None
                     then matching_template_ids r normalized [''research_cluster''] else first)
      in if requested \<noteq> [] then requested
         else if mapped \<noteq> [] then mapped
         else if cr_dynamic r \<and> dynamic \<noteq> [] then dynamic
         else take 1 (matching_template_ids r normalized default_static_cluster_order))"

subsection \<open>Plans\<close>

record orch_step =
  os_step_id :: string
  os_role :: agent_role
  os_title :: string
  os_run_id :: "string option"
  os_preset_id :: string
  os_agent_profile_id :: "string option"
  os_cluster_template_id :: "string option"
  os_cluster_member_id :: "string option"
  os_role_label :: "string option"
  os_preferred_adapter :: "string option"
  os_fallback_adapter :: "string option"
  os_barrier_id :: "string option"
  os_sequence_no :: int
  os_status :: string
  os_execution_profile :: "json option"

record orch_barrier =
  ob_barrier_id :: string
  ob_label :: string
  ob_role_ids :: "agent_role list"
  ob_status :: string
  ob_member_count :: nat

record role_assignment =
  ro_role :: agent_role
  ro_preset_id :: string
  ro_agent_profile_id :: "string option"
  ro_cluster_template_id :: string
  ro_cluster_member_id :: string
  ro_role_label :: string
  ro_preferred_adapter :: "string option"
  ro_fallback_adapter :: "string option"
  ro_review_policy :: review_policy
  ro_execution_profile :: json

record orch_plan =
  op_orchestration_id :: string
  op_run_id :: "string option"
  op_preset_id :: string
  op_review_policy :: review_policy
  op_cluster_template_ids :: "string list"
  op_roles :: "role_assignment list"
  op_steps :: "orch_step list"
  op_barriers :: "orch_barrier list"
  op_execution_mode :: string

record plan_facade =
  pf_preset_known :: "string \<Rightarrow> bool"
  pf_resolve :: "string \<Rightarrow> cluster_template \<Rightarrow> cluster_member \<Rightarrow> werror + string option \<times> json"

definition plan_review_policy :: "cluster_template \<Rightarrow> string option \<Rightarrow> review_policy" where
  "plan_review_policy t selected =
     (if xt_template_id t = ''dev_cluster'' \<and> selected = Some ''guarded_project_delivery'' then mandatory
      else xt_default_review_policy t)"

definition plan_member_preset_id :: "cluster_template \<Rightarrow> string \<Rightarrow> agent_role \<Rightarrow> string option \<Rightarrow> string" where
  "plan_member_preset_id t label role selected =
     (if xt_template_id t = ''dev_cluster'' \<and> selected = Some ''guarded_project_delivery'' \<and> label = ''quality_gate''
      then ''guarded_delivery''
      else member_preset_id (xt_template_id t) label role)"

definition executable :: "bool \<Rightarrow> cluster_member \<Rightarrow> bool" where
  "executable include_operator m \<longleftrightarrow> include_operator \<or> cm_public_role m \<noteq> operator"

definition group_members :: "bool \<Rightarrow> cluster_template \<Rightarrow> string \<Rightarrow> cluster_member list" where
  "group_members incl t g =
     filter (executable incl) (filter (\<lambda>m. cm_parallel_group m = Some g) (xt_member_specs t))"

definition plan_barrier_id :: "cluster_template \<Rightarrow> string \<Rightarrow> string" where
  "plan_barrier_id t g = xt_template_id t @ ''_'' @ g"

text \<open>The loop over the members that creates the barriers; a barrier's label is its group.\<close>

fun plan_barriers :: "bool \<Rightarrow> cluster_template \<Rightarrow> cluster_member list \<Rightarrow> orch_barrier list \<Rightarrow> orch_barrier list" where
  "plan_barriers incl t [] acc = acc"
| "plan_barriers incl t (m # ms) acc =
     plan_barriers incl t ms
       (case cm_parallel_group m of
          None \<Rightarrow> acc
        | Some g \<Rightarrow>
            if g \<noteq> [] \<and> g \<notin> ob_label ` set acc \<and> length (group_members incl t g) > 1
            then acc @ [\<lparr>ob_barrier_id = plan_barrier_id t g, ob_label = g,
                         ob_role_ids = map cm_public_role (group_members incl t g), ob_status = ''pending'',
                         ob_member_count = length (group_members incl t g)\<rparr>]
            else acc)"

text \<open>\<open>barrier_id_by_group.get(member.parallel_group or "")\<close>.\<close>

definition barrier_for_group :: "orch_barrier list \<Rightarrow> string option \<Rightarrow> string option" where
  "barrier_for_group bs g = map_option ob_barrier_id (sql_first (\<lambda>b. ob_label b = str_or g []) bs)"

definition is_letter :: "char \<Rightarrow> bool" where
  "is_letter c \<longleftrightarrow> (let n = (of_char c :: nat) in (65 \<le> n \<and> n \<le> 90) \<or> (97 \<le> n \<and> n \<le> 122))"

definition upper_char :: "char \<Rightarrow> char" where
  "upper_char c = (let n = (of_char c :: nat) in if 97 \<le> n \<and> n \<le> 122 then char_of (n - 32) else c)"

text \<open>\<open>str.title\<close> on ASCII text.\<close>

fun title_case :: "bool \<Rightarrow> string \<Rightarrow> string" where
  "title_case word [] = []"
| "title_case word (c # cs) = (if word then lower_char c else upper_char c) # title_case (is_letter c) cs"

definition member_adapter :: "string option \<Rightarrow> cluster_member \<Rightarrow> string option" where
  "member_adapter resolved m =
     (case resolved of
        Some a \<Rightarrow> if a \<noteq> [] then Some a else preferred_adapter_for_cluster_member (cm_public_role m)
      | None \<Rightarrow> preferred_adapter_for_cluster_member (cm_public_role m))"

text \<open>The step of a member, with the profile resolved for it.\<close>

definition member_step :: "cluster_template \<Rightarrow> string option \<Rightarrow> orch_barrier list \<Rightarrow> cluster_member \<Rightarrow> string option \<times> json \<Rightarrow> orch_step" where
  "member_step t selected bs m resolved =
     \<lparr>os_step_id = xt_template_id t @ ''_'' @ cm_member_id m, os_role = cm_public_role m,
      os_title = title_case False (replace_char (CHR ''_'') (CHR '' '') (cm_role_label m)) @ '' lane'',
      os_run_id = None,
      os_preset_id = plan_member_preset_id t (cm_role_label m) (cm_public_role m) selected,
      os_agent_profile_id = cm_agent_profile_id m, os_cluster_template_id = Some (xt_template_id t),
      os_cluster_member_id = Some (cm_member_id m), os_role_label = Some (cm_role_label m),
      os_preferred_adapter = member_adapter (fst resolved) m,
      os_fallback_adapter = fallback_adapter_for_cluster_member (cm_public_role m),
      os_barrier_id = barrier_for_group bs (cm_parallel_group m),
      os_sequence_no = int (sequence_no_for_cluster_member (xt_template_id t) (cm_role_label m) (cm_public_role m)),
      os_status = ''pending'', os_execution_profile = Some (snd resolved)\<rparr>"

definition member_role :: "cluster_template \<Rightarrow> string option \<Rightarrow> review_policy \<Rightarrow> cluster_member \<Rightarrow> string option \<times> json \<Rightarrow> role_assignment" where
  "member_role t selected policy m resolved =
     \<lparr>ro_role = cm_public_role m, ro_preset_id = plan_member_preset_id t (cm_role_label m) (cm_public_role m) selected,
      ro_agent_profile_id = cm_agent_profile_id m, ro_cluster_template_id = xt_template_id t,
      ro_cluster_member_id = cm_member_id m, ro_role_label = cm_role_label m,
      ro_preferred_adapter = member_adapter (fst resolved) m,
      ro_fallback_adapter = fallback_adapter_for_cluster_member (cm_public_role m), ro_review_policy = policy,
      ro_execution_profile = snd resolved\<rparr>"

definition resolve_member :: "plan_facade \<Rightarrow> cluster_template \<Rightarrow> string option \<Rightarrow> cluster_member
    \<Rightarrow> werror + cluster_member \<times> string option \<times> json" where
  "resolve_member f t selected m =
     (let preset = plan_member_preset_id t (cm_role_label m) (cm_public_role m) selected
      in rbind (rguard (pf_preset_known f preset) (ValueError ''preset is not available for orchestration member'')) (\<lambda>_.
         rbind (pf_resolve f preset t m) (\<lambda>r. Inr (m, r))))"

fun mode_name :: "cluster_execution_mode \<Rightarrow> string" where
  "mode_name mode_sequential = ''sequential''"
| "mode_name mode_parallel = ''parallel''"
| "mode_name mode_mixed = ''mixed''"

definition build_cluster_orchestration_plan ::
  "plan_facade \<Rightarrow> cluster_template \<Rightarrow> string option \<Rightarrow> string option \<Rightarrow> bool \<Rightarrow> werror + orch_plan" where
  "build_cluster_orchestration_plan f t selected run incl =
     (let preset = str_or selected (str_or (default_preset_id_for_cluster_template (xt_template_id t)) (xt_template_id t));
          policy = plan_review_policy t selected;
          bs = plan_barriers incl t (xt_member_specs t) []
      in rbind (rmap (resolve_member f t selected) (xt_member_specs t)) (\<lambda>resolved.
         Inr \<lparr>op_orchestration_id = xt_template_id t @ ''_'' @ str_or run preset @ ''_orchestration'', op_run_id = run,
              op_preset_id = preset, op_review_policy = policy, op_cluster_template_ids = [xt_template_id t],
              op_roles = map (\<lambda>(m, r). member_role t selected policy m r) resolved,
              op_steps = map (\<lambda>(m, r). member_step t selected bs m r) (filter (\<lambda>(m, _). executable incl m) resolved),
              op_barriers = bs, op_execution_mode = ''cluster_'' @ mode_name (xt_execution_mode t)\<rparr>))"

definition supported_preset_defaults :: "string list" where
  "supported_preset_defaults = [''project_delivery'', ''guarded_project_delivery'']"

definition template_for_preset :: "cluster_router \<Rightarrow> string \<Rightarrow> cluster_template option" where
  "template_for_preset r preset =
     (if preset \<notin> set supported_preset_defaults then None
      else case cluster_template_ids_for_preset (Some preset) of
             [] \<Rightarrow> None
           | tid # _ \<Rightarrow> get_template r tid)"

definition default_orchestration_plan_for_preset ::
  "plan_facade \<Rightarrow> cluster_router \<Rightarrow> string \<Rightarrow> string \<Rightarrow> string list \<Rightarrow> werror + orch_plan option" where
  "default_orchestration_plan_for_preset f r preset run preferred =
     (let suggested = (if preferred = [] then [] else suggest_template_ids r [] (Some preset) preferred);
          t0 = (case suggested of [] \<Rightarrow> None | tid # _ \<Rightarrow> get_template r tid);
          t = (case t0 of None \<Rightarrow> template_for_preset r preset | Some t \<Rightarrow> Some t)
      in case t of
           None \<Rightarrow> Inr None
         | Some t \<Rightarrow> rbind (build_cluster_orchestration_plan f t (Some preset) (Some run) False) (\<lambda>p. Inr (Some p)))"

subsection \<open>The order of execution\<close>

definition step_key :: "orch_step \<Rightarrow> int \<times> string \<times> string" where
  "step_key s = (os_sequence_no s, role_name (os_role s), os_step_id s)"

definition sorted_steps :: "orch_plan \<Rightarrow> orch_step list" where
  "sorted_steps p = sort_key step_key (op_steps p)"

text \<open>\<open>_group_steps\<close>: the dictionary from sequence numbers to steps, read in the order of its sorted keys.\<close>

definition group_steps :: "orch_plan \<Rightarrow> orch_step list list" where
  "group_steps p =
     map (\<lambda>n. filter (\<lambda>s. os_sequence_no s = n) (sorted_steps p)) (sorted_list_of_set (os_sequence_no ` set (op_steps p)))"

subsection \<open>A plan of the delivery cluster\<close>

definition demo_facade :: plan_facade where
  "demo_facade = \<lparr>pf_preset_known = (\<lambda>_. True), pf_resolve = (\<lambda>_ _ m. Inr (cm_adapter_name m, JNull))\<rparr>"

definition demo_plan :: orch_plan where
  "demo_plan =
     (case build_cluster_orchestration_plan demo_facade template_dev_cluster None (Some ''r'') False of
        Inr p \<Rightarrow> p)"

lemma demo_plan_built: "build_cluster_orchestration_plan demo_facade template_dev_cluster None (Some ''r'') False = Inr demo_plan"
  by code_simp

end
