(* ===== verification/Orch_Graph.thy ===== *)
theory Orch_Graph
  imports Orch_Plan
begin

section \<open>Plan graphs\<close>

text \<open>
  \<open>OrchestrationEngine\<close> of \<^verbatim>\<open>packages/core_domain/orchestration_engine.py\<close>: a plan becomes a graph whose nodes are
  its steps in the order of execution and whose edges are the sequence dependencies. The callables the
  engine is given, the goal of a role and the side-effect level of an adapter, are arguments; the
  identifiers of nodes, edges, retry policy and graph are the draws of \<open>env\<close> in this order.
\<close>

record graph_node =
  gn_node_id :: string
  gn_role :: agent_role
  gn_goal :: string
  gn_agent_profile_id :: "string option"
  gn_cluster_template_id :: "string option"
  gn_cluster_member_id :: "string option"
  gn_role_label :: "string option"
  gn_required_capabilities :: "string list"
  gn_dependencies :: "string list"
  gn_barrier_id :: "string option"
  gn_review_gate :: string
  gn_side_effect_level :: string
  gn_fallback_path :: "string list"
  gn_preset_id :: "string option"
  gn_preferred_adapter :: "string option"
  gn_execution_profile :: "json option"

record edge_spec =
  eg_edge_id :: string
  eg_from :: string
  eg_to :: string
  eg_type :: string
  eg_description :: "string option"

record barrier_spec =
  bs_barrier_id :: string
  bs_label :: string
  bs_member_node_ids :: "string list"
  bs_release_condition :: string
  bs_status :: string

record retry_policy =
  rt_policy_id :: string
  rt_target_node_ids :: "string list"
  rt_max_attempts :: nat

record plan_graph =
  pg_plan_graph_id :: string
  pg_run_id :: "string option"
  pg_preset_id :: string
  pg_goal :: string
  pg_cluster_template_ids :: "string list"
  pg_execution_mode :: string
  pg_summary :: "string option"
  pg_risk_summary :: "string list"
  pg_nodes :: "graph_node list"
  pg_edges :: "edge_spec list"
  pg_barriers :: "barrier_spec list"
  pg_retry_policies :: "retry_policy list"
  pg_recommended_preset_id :: "string option"

subsection \<open>Validation\<close>

definition validate_graph :: "plan_graph \<Rightarrow> werror + plan_graph" where
  "validate_graph g =
     (let ids = map gn_node_id (pg_nodes g)
      in if \<not> distinct ids then Inl (ValueError ''orchestration graph contains duplicate node ids'')
         else if list_ex (\<lambda>e. eg_from e \<notin> set ids \<or> eg_to e \<notin> set ids) (pg_edges g)
         then Inl (ValueError ''orchestration graph edge references an unknown node'')
         else if list_ex (\<lambda>b. list_ex (\<lambda>i. i \<notin> set ids) (bs_member_node_ids b)) (pg_barriers g)
         then Inl (ValueError ''orchestration graph barrier references an unknown node'')
         else if list_ex (\<lambda>p. list_ex (\<lambda>i. i \<notin> set ids) (rt_target_node_ids p)) (pg_retry_policies g)
         then Inl (ValueError ''orchestration graph retry policy references an unknown node'')
         else Inr g)"

definition build_single_path_graph ::
  "env \<Rightarrow> string option \<Rightarrow> string \<Rightarrow> string \<Rightarrow> string \<Rightarrow> graph_node \<Rightarrow> string list \<Rightarrow> string option \<Rightarrow> werror + plan_graph" where
  "build_single_path_graph e run preset goal summary node risks recommended_preset =
     validate_graph
       \<lparr>pg_plan_graph_id = new_id ''plangraph'' (hex12 e 1), pg_run_id = run, pg_preset_id = preset, pg_goal = goal,
        pg_cluster_template_ids = [], pg_execution_mode = ''single_path'', pg_summary = Some summary,
        pg_risk_summary = risks, pg_nodes = [node], pg_edges = [], pg_barriers = [],
        pg_retry_policies = [\<lparr>rt_policy_id = new_id ''retry'' (hex12 e 0), rt_target_node_ids = [gn_node_id node], rt_max_attempts = 1\<rparr>],
        pg_recommended_preset_id = Some (str_or recommended_preset preset)\<rparr>"

subsection \<open>From a plan to its graph\<close>

definition plan_node ::
  "(string \<Rightarrow> agent_role \<Rightarrow> string) \<Rightarrow> (string option \<Rightarrow> string) \<Rightarrow> string \<Rightarrow> string \<Rightarrow> string list \<Rightarrow> orch_step \<Rightarrow> graph_node" where
  "plan_node role_goal side_effect goal nid deps s =
     \<lparr>gn_node_id = nid, gn_role = os_role s, gn_goal = role_goal goal (os_role s),
      gn_agent_profile_id = os_agent_profile_id s, gn_cluster_template_id = os_cluster_template_id s,
      gn_cluster_member_id = os_cluster_member_id s, gn_role_label = os_role_label s,
      gn_required_capabilities =
        os_preset_id s # (case os_preferred_adapter s of Some a \<Rightarrow> if a \<noteq> [] then [a] else [] | None \<Rightarrow> []),
      gn_dependencies = deps, gn_barrier_id = os_barrier_id s,
      gn_review_gate = (if os_role s = reviewer then ''advisory_review'' else ''none''),
      gn_side_effect_level = side_effect (os_preferred_adapter s),
      gn_fallback_path = List.map_filter (\<lambda>a. a) [os_preferred_adapter s, os_fallback_adapter s],
      gn_preset_id = Some (os_preset_id s), gn_preferred_adapter = os_preferred_adapter s,
      gn_execution_profile = os_execution_profile s\<rparr>"

text \<open>The loop over the sorted steps; \<open>placed\<close> is \<open>sequence_to_node_ids\<close> as pairs in the order of insertion.\<close>

fun plan_nodes ::
  "env \<Rightarrow> (string \<Rightarrow> agent_role \<Rightarrow> string) \<Rightarrow> (string option \<Rightarrow> string) \<Rightarrow> string \<Rightarrow> nat \<Rightarrow> (int \<times> string) list \<Rightarrow> orch_step list
   \<Rightarrow> graph_node list" where
  "plan_nodes e role_goal side_effect goal k placed [] = []"
| "plan_nodes e role_goal side_effect goal k placed (s # ss) =
     (let nid = new_id ''graphnode'' (hex12 e k);
          deps = map snd (filter (\<lambda>(n, _). n = os_sequence_no s - 1) placed)
      in plan_node role_goal side_effect goal nid deps s
         # plan_nodes e role_goal side_effect goal (Suc k) (placed @ [(os_sequence_no s, nid)]) ss)"

definition graph_barrier :: "graph_node list \<Rightarrow> orch_barrier \<Rightarrow> barrier_spec" where
  "graph_barrier nodes b =
     \<lparr>bs_barrier_id = ob_barrier_id b, bs_label = ob_label b,
      bs_member_node_ids = map gn_node_id (filter (\<lambda>n. gn_barrier_id n = Some (ob_barrier_id b)) nodes),
      bs_release_condition = ''all_success'', bs_status = ob_status b\<rparr>"

definition node_edges :: "graph_node list \<Rightarrow> (string \<times> string) list" where
  "node_edges nodes = concat (map (\<lambda>n. map (\<lambda>d. (d, gn_node_id n)) (gn_dependencies n)) nodes)"

definition graph_edges :: "env \<Rightarrow> nat \<Rightarrow> (string \<times> string) list \<Rightarrow> edge_spec list" where
  "graph_edges e k pairs =
     map (\<lambda>(j, a, b). \<lparr>eg_edge_id = new_id ''graphedge'' (hex12 e (k + j)), eg_from = a, eg_to = b, eg_type = ''depends_on'',
                        eg_description = Some ''sequence_dependency''\<rparr>) (enumerate 0 pairs)"

definition default_graph_summary :: string where
  "default_graph_summary = ''Planner decomposes the goal, child roles execute, and review closes the loop.''"

definition build_graph_from_plan ::
  "env \<Rightarrow> string option \<Rightarrow> string \<Rightarrow> string \<Rightarrow> orch_plan \<Rightarrow> (string \<Rightarrow> agent_role \<Rightarrow> string) \<Rightarrow> (string option \<Rightarrow> string)
   \<Rightarrow> string option \<Rightarrow> string option \<Rightarrow> string list \<Rightarrow> werror + plan_graph" where
  "build_graph_from_plan e run preset goal plan role_goal side_effect recommended_preset summary risks =
     (let nodes = plan_nodes e role_goal side_effect goal 0 [] (sorted_steps plan);
          pairs = node_edges nodes;
          k = length nodes
      in validate_graph
           \<lparr>pg_plan_graph_id = new_id ''plangraph'' (hex12 e (k + length pairs + 1)), pg_run_id = run, pg_preset_id = preset,
            pg_goal = goal, pg_cluster_template_ids = op_cluster_template_ids plan,
            pg_execution_mode = ''planner_generated_graph_with_parallel_children'',
            pg_summary = Some (str_or summary default_graph_summary), pg_risk_summary = risks, pg_nodes = nodes,
            pg_edges = graph_edges e k pairs, pg_barriers = map (graph_barrier nodes) (op_barriers plan),
            pg_retry_policies = [\<lparr>rt_policy_id = new_id ''retry'' (hex12 e (k + length pairs)),
                                  rt_target_node_ids = map gn_node_id nodes, rt_max_attempts = 2\<rparr>],
            pg_recommended_preset_id = Some (str_or recommended_preset preset)\<rparr>)"

subsection \<open>Nodes and edges\<close>

lemma length_plan_nodes [simp]: "length (plan_nodes e rg se goal k placed ss) = length ss"
  by (induction ss arbitrary: k placed) (simp_all add: Let_def)

lemma plan_nodes_nth:
  "i < length ss \<Longrightarrow> plan_nodes e rg se goal k placed ss ! i =
     plan_node rg se goal (new_id ''graphnode'' (hex12 e (k + i)))
       (map snd (filter (\<lambda>(n, _). n = os_sequence_no (ss ! i) - 1)
          (placed @ map (\<lambda>j. (os_sequence_no (ss ! j), new_id ''graphnode'' (hex12 e (k + j)))) [0..<i]))) (ss ! i)"
proof (induction ss arbitrary: k placed i)
  case (Cons s ss)
  show ?case
  proof (cases i)
    case (Suc j)
    have "map (\<lambda>j. (os_sequence_no ((s # ss) ! j), new_id ''graphnode'' (hex12 e (k + j)))) [0..<Suc j]
        = (os_sequence_no s, new_id ''graphnode'' (hex12 e k))
          # map (\<lambda>j. (os_sequence_no (ss ! j), new_id ''graphnode'' (hex12 e (Suc k + j)))) [0..<j]"
      by (simp add: upt_conv_Cons map_Suc_upt [symmetric] comp_def del: upt_Suc)
    then show ?thesis using Cons Suc by (simp add: Let_def del: upt_Suc)
  qed (simp add: Let_def)
qed simp

lemma edge_pairs: "map (\<lambda>g. (eg_from g, eg_to g)) (graph_edges e k pairs) = pairs"
  by (auto simp: graph_edges_def comp_def case_prod_beta map_snd_enumerate intro!: nth_equalityI)

end
