(* ===== verification/Orch_Properties.thy ===== *)
theory Orch_Properties
  imports Orch_Graph
begin

section \<open>Plans of the default templates and their graphs\<close>

text \<open>
  What the catalogue guarantees of every plan built from one of its templates, and what the engine
  guarantees of the graph of any plan.
\<close>

subsection \<open>Plans from templates\<close>

lemma resolved_members:
  "rmap (resolve_member f t selected) ms = Inr rs \<Longrightarrow> map fst rs = ms"
proof (induction ms arbitrary: rs)
  case (Cons m ms)
  then show ?case by (auto simp: rbind_eq_Inr resolve_member_def Let_def)
qed simp

lemma plan_steps:
  assumes "build_cluster_orchestration_plan f t selected run incl = Inr p"
  shows "\<exists>rs. op_steps p = map (\<lambda>(m, r). member_step t selected (plan_barriers incl t (xt_member_specs t) []) m r) rs
           \<and> map fst rs = filter (executable incl) (xt_member_specs t)"
    and "op_barriers p = plan_barriers incl t (xt_member_specs t) []"
proof -
  obtain rs where rs: "rmap (resolve_member f t selected) (xt_member_specs t) = Inr rs"
    and p: "op_steps p = map (\<lambda>(m, r). member_step t selected (plan_barriers incl t (xt_member_specs t) []) m r)
              (filter (\<lambda>(m, _). executable incl m) rs)"
      "op_barriers p = plan_barriers incl t (xt_member_specs t) []"
    using assms by (auto simp: build_cluster_orchestration_plan_def Let_def rbind_eq_Inr)
  have "map fst (filter (\<lambda>(m, _). executable incl m) rs) = filter (executable incl) (map fst rs)"
    by (induction rs) auto
  then show "\<exists>rs. op_steps p = map (\<lambda>(m, r). member_step t selected (plan_barriers incl t (xt_member_specs t) []) m r) rs
           \<and> map fst rs = filter (executable incl) (xt_member_specs t)"
    using p(1) resolved_members [OF rs] by metis
  show "op_barriers p = plan_barriers incl t (xt_member_specs t) []" by (rule p(2))
qed

text \<open>A check of a template, on its executable members.\<close>

definition member_sequence :: "cluster_template \<Rightarrow> cluster_member \<Rightarrow> nat" where
  "member_sequence t m = sequence_no_for_cluster_member (xt_template_id t) (cm_role_label m) (cm_public_role m)"

definition member_barrier :: "cluster_template \<Rightarrow> cluster_member \<Rightarrow> string option" where
  "member_barrier t m = barrier_for_group (plan_barriers False t (xt_member_specs t) []) (cm_parallel_group m)"

definition profile_registered :: "cluster_member \<Rightarrow> bool" where
  "profile_registered m \<longleftrightarrow>
     list_ex (\<lambda>p. cm_agent_profile_id m = Some (ap_profile_id p) \<and> ap_public_role p = cm_public_role m
                  \<and> ap_adapter_name p = cm_adapter_name m)
       build_default_agent_profile_registry"

definition template_ok :: "cluster_template \<Rightarrow> bool" where
  "template_ok t \<longleftrightarrow>
     (let ms = filter (executable False) (xt_member_specs t); ns = map (member_sequence t) ms
      in list_all profile_registered (xt_member_specs t)
         \<and> distinct (map cm_member_id (xt_member_specs t))
         \<and> list_all (\<lambda>n. 1 \<le> n \<and> (n = 1 \<or> n - 1 \<in> set ns)) ns
         \<and> list_all (\<lambda>b. ob_member_count b \<ge> 2
                \<and> length (filter (\<lambda>m. member_barrier t m = Some (ob_barrier_id b)) ms) = ob_member_count b)
              (plan_barriers False t (xt_member_specs t) [])
         \<and> list_all (\<lambda>m. list_all (\<lambda>m'. member_barrier t m \<noteq> None \<and> member_barrier t m = member_barrier t m'
                \<longrightarrow> member_sequence t m = member_sequence t m') ms) ms)"

lemma default_templates_ok: "list_all template_ok list_default_cluster_templates"
  by code_simp

lemma executable_False: "executable False m \<longleftrightarrow> cm_public_role m \<noteq> operator"
  by (simp add: executable_def)

text \<open>The steps of a plan and the executable members of its template stand for each other.\<close>

lemma plan_step_member:
  assumes "build_cluster_orchestration_plan f t selected run False = Inr p" and "s \<in> set (op_steps p)"
  obtains m where "m \<in> set (filter (executable False) (xt_member_specs t))" and "os_sequence_no s = int (member_sequence t m)"
    and "os_barrier_id s = member_barrier t m" and "os_agent_profile_id s = cm_agent_profile_id m" and "os_role s = cm_public_role m"
proof -
  obtain rs where rs: "op_steps p = map (\<lambda>(m, r). member_step t selected (plan_barriers False t (xt_member_specs t) []) m r) rs"
      "map fst rs = filter (executable False) (xt_member_specs t)"
    using plan_steps(1) [OF assms(1)] by blast
  obtain m r where m: "(m, r) \<in> set rs" "s = member_step t selected (plan_barriers False t (xt_member_specs t) []) m r"
    using assms(2) rs(1) by auto
  have "m \<in> set (filter (executable False) (xt_member_specs t))" using m(1) rs(2) by (metis fst_conv image_eqI list.set_map)
  then show ?thesis by (rule that) (simp_all add: m(2) member_step_def member_sequence_def member_barrier_def)
qed

lemma plan_member_step:
  assumes "build_cluster_orchestration_plan f t selected run False = Inr p" and "m \<in> set (filter (executable False) (xt_member_specs t))"
  shows "\<exists>s\<in>set (op_steps p). os_sequence_no s = int (member_sequence t m)"
proof -
  obtain rs where rs: "op_steps p = map (\<lambda>(m, r). member_step t selected (plan_barriers False t (xt_member_specs t) []) m r) rs"
      "map fst rs = filter (executable False) (xt_member_specs t)"
    using plan_steps(1) [OF assms(1)] by blast
  obtain r where "(m, r) \<in> set rs" using assms(2) unfolding rs(2) [symmetric] by auto
  then show ?thesis by (force simp: rs(1) member_step_def member_sequence_def)
qed

lemma plan_step_ids:
  assumes "build_cluster_orchestration_plan f t selected run False = Inr p" and "distinct (map cm_member_id (xt_member_specs t))"
  shows "distinct (map os_step_id (op_steps p))"
proof -
  let ?ms = "filter (executable False) (xt_member_specs t)"
  obtain rs where rs: "op_steps p = map (\<lambda>(m, r). member_step t selected (plan_barriers False t (xt_member_specs t) []) m r) rs" "map fst rs = ?ms"
    using plan_steps(1) [OF assms(1)] by blast
  have "map os_step_id (op_steps p) = map (\<lambda>m. xt_template_id t @ ''_'' @ cm_member_id m) (map fst rs)"
    by (auto simp: rs(1) member_step_def)
  also have "\<dots> = map (\<lambda>i. xt_template_id t @ ''_'' @ i) (map cm_member_id ?ms)" by (simp add: rs(2))
  finally have e: "map os_step_id (op_steps p) = map (\<lambda>i. xt_template_id t @ ''_'' @ i) (map cm_member_id ?ms)" .
  have "distinct (map cm_member_id ?ms)" using assms(2) by (simp add: distinct_map_filter)
  then show ?thesis unfolding e distinct_map by (simp add: inj_on_def)
qed

lemma plan_barrier_members:
  assumes "build_cluster_orchestration_plan f t selected run False = Inr p"
  shows "length (filter (\<lambda>s. os_barrier_id s = Some b) (op_steps p))
    = length (filter (\<lambda>m. member_barrier t m = Some b) (filter (executable False) (xt_member_specs t)))"
proof -
  obtain rs where rs: "op_steps p = map (\<lambda>(m, r). member_step t selected (plan_barriers False t (xt_member_specs t) []) m r) rs"
      "map fst rs = filter (executable False) (xt_member_specs t)"
    using plan_steps(1) [OF assms] by blast
  show ?thesis unfolding rs(2) [symmetric]
    by (simp add: rs(1) filter_map comp_def case_prod_beta member_step_def member_barrier_def)
qed

text \<open>What the check of the template says, member by member.\<close>

lemma template_okD:
  assumes "template_ok t"
  shows "distinct (map cm_member_id (xt_member_specs t))"
    and "m \<in> set (xt_member_specs t) \<Longrightarrow> profile_registered m"
    and "m \<in> set (filter (executable False) (xt_member_specs t)) \<Longrightarrow>
      1 \<le> member_sequence t m \<and> (member_sequence t m = 1
        \<or> member_sequence t m - 1 \<in> member_sequence t ` set (filter (executable False) (xt_member_specs t)))"
    and "b \<in> set (plan_barriers False t (xt_member_specs t) []) \<Longrightarrow> ob_member_count b \<ge> 2
      \<and> length (filter (\<lambda>m. member_barrier t m = Some (ob_barrier_id b)) (filter (executable False) (xt_member_specs t))) = ob_member_count b"
    and "m \<in> set (filter (executable False) (xt_member_specs t)) \<Longrightarrow> m' \<in> set (filter (executable False) (xt_member_specs t)) \<Longrightarrow>
      member_barrier t m \<noteq> None \<Longrightarrow> member_barrier t m = member_barrier t m' \<Longrightarrow> member_sequence t m = member_sequence t m'"
proof -
  note ok = assms [unfolded template_ok_def Let_def list_all_iff set_map ball_simps]
  show "distinct (map cm_member_id (xt_member_specs t))" using ok by blast
  show "m \<in> set (xt_member_specs t) \<Longrightarrow> profile_registered m" using ok by blast
  show "m \<in> set (filter (executable False) (xt_member_specs t)) \<Longrightarrow>
      1 \<le> member_sequence t m \<and> (member_sequence t m = 1
        \<or> member_sequence t m - 1 \<in> member_sequence t ` set (filter (executable False) (xt_member_specs t)))"
    using ok by blast
  show "b \<in> set (plan_barriers False t (xt_member_specs t) []) \<Longrightarrow> ob_member_count b \<ge> 2
      \<and> length (filter (\<lambda>m. member_barrier t m = Some (ob_barrier_id b)) (filter (executable False) (xt_member_specs t))) = ob_member_count b"
    using ok by blast
  show "m \<in> set (filter (executable False) (xt_member_specs t)) \<Longrightarrow> m' \<in> set (filter (executable False) (xt_member_specs t)) \<Longrightarrow>
      member_barrier t m \<noteq> None \<Longrightarrow> member_barrier t m = member_barrier t m' \<Longrightarrow> member_sequence t m = member_sequence t m'"
    using ok by blast
qed

text \<open>C28: every plan built from a default template starts with the sequence number 1 and leaves no gap, its step ids are distinct, each
  barrier has at least two steps, as many as it counts, all with the same sequence number, and every step
  has a registered agent profile of its role.\<close>

theorem default_plans_well_formed:
  assumes t: "t \<in> set list_default_cluster_templates"
    and p: "build_cluster_orchestration_plan f t selected run False = Inr p"
  shows "(\<forall>s\<in>set (op_steps p). 1 \<le> os_sequence_no s
            \<and> (os_sequence_no s = 1 \<or> (\<exists>s'\<in>set (op_steps p). os_sequence_no s' = os_sequence_no s - 1)))
     \<and> distinct (map os_step_id (op_steps p))
     \<and> (\<forall>b\<in>set (op_barriers p). 2 \<le> ob_member_count b
            \<and> length (filter (\<lambda>s. os_barrier_id s = Some (ob_barrier_id b)) (op_steps p)) = ob_member_count b)
     \<and> (\<forall>s\<in>set (op_steps p). \<forall>s'\<in>set (op_steps p).
            os_barrier_id s \<noteq> None \<and> os_barrier_id s = os_barrier_id s' \<longrightarrow> os_sequence_no s = os_sequence_no s')
     \<and> (\<forall>s\<in>set (op_steps p). \<exists>a\<in>set build_default_agent_profile_registry.
            os_agent_profile_id s = Some (ap_profile_id a) \<and> ap_public_role a = os_role s)"
proof (intro conjI ballI impI)
  have ok: "template_ok t" using default_templates_ok t by (simp add: list_all_iff)
  note built = plan_step_member [OF p]
  show "distinct (map os_step_id (op_steps p))" by (rule plan_step_ids [OF p template_okD(1) [OF ok]])
  show "2 \<le> ob_member_count b" "length (filter (\<lambda>s. os_barrier_id s = Some (ob_barrier_id b)) (op_steps p)) = ob_member_count b"
    if "b \<in> set (op_barriers p)" for b
    using template_okD(4) [OF ok that [unfolded plan_steps(2) [OF p]]] by (simp_all add: plan_barrier_members [OF p])
  fix s assume s: "s \<in> set (op_steps p)"
  obtain m where m: "m \<in> set (filter (executable False) (xt_member_specs t))" "os_sequence_no s = int (member_sequence t m)"
      "os_barrier_id s = member_barrier t m" "os_agent_profile_id s = cm_agent_profile_id m" "os_role s = cm_public_role m"
    by (rule built [OF s])
  note seq = template_okD(3) [OF ok m(1)]
  show "1 \<le> os_sequence_no s" using seq by (simp add: m(2))
  show "os_sequence_no s = 1 \<or> (\<exists>s'\<in>set (op_steps p). os_sequence_no s' = os_sequence_no s - 1)"
  proof (cases "member_sequence t m = 1")
    case False
    then obtain m' where m': "m' \<in> set (filter (executable False) (xt_member_specs t))" "member_sequence t m' = member_sequence t m - 1"
      using seq by (metis imageE)
    then show ?thesis using plan_member_step [OF p m'(1)] seq by (simp add: m(2) of_nat_diff)
  qed (simp add: m(2))
  show "\<exists>a\<in>set build_default_agent_profile_registry. os_agent_profile_id s = Some (ap_profile_id a) \<and> ap_public_role a = os_role s"
    using template_okD(2) [OF ok, of m] m(1,4,5) by (auto simp: profile_registered_def list_ex_iff)
  fix s' assume s': "s' \<in> set (op_steps p)" and b: "os_barrier_id s \<noteq> None \<and> os_barrier_id s = os_barrier_id s'"
  obtain m' where m': "m' \<in> set (filter (executable False) (xt_member_specs t))" "os_sequence_no s' = int (member_sequence t m')"
      "os_barrier_id s' = member_barrier t m'"
    by (rule built [OF s'])
  show "os_sequence_no s = os_sequence_no s'"
    using template_okD(5) [OF ok m(1) m'(1)] b m(2,3) m'(2,3) by metis
qed

theorem default_plans_well_formed_witness:
  "distinct (map os_step_id (op_steps demo_plan)) \<and> map os_sequence_no (sorted_steps demo_plan) = [1, 2, 2, 3]"
proof -
  have "template_dev_cluster \<in> set list_default_cluster_templates" by (simp add: list_default_cluster_templates_def)
  from default_plans_well_formed [OF this demo_plan_built] have "distinct (map os_step_id (op_steps demo_plan))" by blast
  moreover have "map os_sequence_no (sorted_steps demo_plan) = [1, 2, 2, 3]" by code_simp
  ultimately show ?thesis by blast
qed

end
