(* ===== verification/Graph_Properties.thy ===== *)
theory Graph_Properties
  imports Orch_Graph
begin

section \<open>The graph of a plan\<close>

text \<open>
  With distinct node identifiers the engine accepts every plan: the nodes are the steps in the order of
  execution, the edges join exactly the steps with consecutive sequence numbers, and the graph is
  acyclic. A gap in the sequence numbers leaves the steps after it without dependencies.
\<close>

definition step_node_id :: "env \<Rightarrow> nat \<Rightarrow> string" where
  "step_node_id e i = new_id ''graphnode'' (hex12 e i)"

lemma sorted_steps_length [simp]: "length (sorted_steps p) = length (op_steps p)"
  by (simp add: sorted_steps_def)

lemma sorted_steps_set [simp]: "set (sorted_steps p) = set (op_steps p)"
  by (simp add: sorted_steps_def)

lemma sorted_steps_mono:
  assumes "i \<le> j" "j < length (op_steps p)"
  shows "os_sequence_no (sorted_steps p ! i) \<le> os_sequence_no (sorted_steps p ! j)"
proof -
  have "sorted (map step_key (sorted_steps p))" by (simp add: sorted_steps_def)
  then have "step_key (sorted_steps p ! i) \<le> step_key (sorted_steps p ! j)"
    using assms sorted_nth_mono [of "map step_key (sorted_steps p)" i j] by simp
  then show ?thesis by (auto simp: step_key_def less_eq_prod_def)
qed

lemma node_at:
  assumes "i < length ss"
  shows "plan_nodes e rg se goal 0 [] ss ! i =
     plan_node rg se goal (step_node_id e i)
       (map (step_node_id e) (filter (\<lambda>j. os_sequence_no (ss ! j) = os_sequence_no (ss ! i) - 1) [0..<i])) (ss ! i)"
  using plan_nodes_nth [OF assms, of e rg se goal 0 "[]"]
  by (simp add: step_node_id_def [abs_def] filter_map comp_def)

lemma node_ids: "map gn_node_id (plan_nodes e rg se goal 0 [] ss) = map (step_node_id e) [0..<length ss]"
  by (rule nth_equalityI) (simp_all add: node_at plan_node_def)

lemma edges_of_nodes:
  "set (node_edges (plan_nodes e rg se goal 0 [] ss)) =
     {(step_node_id e i, step_node_id e j) | i j. i < j \<and> j < length ss \<and> os_sequence_no (ss ! j) = os_sequence_no (ss ! i) + 1}"
proof -
  have "set (node_edges (plan_nodes e rg se goal 0 [] ss))
      = (\<Union>j<length ss. (\<lambda>d. (d, step_node_id e j)) ` set (gn_dependencies (plan_nodes e rg se goal 0 [] ss ! j)))"
  proof -
    have ns: "set (plan_nodes e rg se goal 0 [] ss) = (\<lambda>j. plan_nodes e rg se goal 0 [] ss ! j) ` {..<length ss}"
      by (auto simp: set_conv_nth)
    have id: "gn_node_id (plan_nodes e rg se goal 0 [] ss ! j) = step_node_id e j" if "j < length ss" for j
      using that by (simp add: node_at plan_node_def)
    have "set (node_edges (plan_nodes e rg se goal 0 [] ss))
        = (\<Union>n\<in>set (plan_nodes e rg se goal 0 [] ss). (\<lambda>d. (d, gn_node_id n)) ` set (gn_dependencies n))"
      by (auto simp: node_edges_def)
    then show ?thesis unfolding ns using id by simp
  qed
  also have "\<dots> = {(step_node_id e i, step_node_id e j) | i j. i < j \<and> j < length ss \<and> os_sequence_no (ss ! j) = os_sequence_no (ss ! i) + 1}"
    (is "?L = ?R")
  proof (rule set_eqI)
    fix x
    have "x \<in> ?L \<longleftrightarrow> (\<exists>j<length ss. \<exists>i<j. os_sequence_no (ss ! i) = os_sequence_no (ss ! j) - 1 \<and> x = (step_node_id e i, step_node_id e j))"
      by (auto simp: node_at plan_node_def)
    also have "\<dots> \<longleftrightarrow> x \<in> ?R" by (force simp: algebra_simps)
    finally show "x \<in> ?L \<longleftrightarrow> x \<in> ?R" .
  qed
  finally show ?thesis .
qed

lemma validate_graphI:
  assumes "distinct (map gn_node_id (pg_nodes g))"
    and "\<And>x. x \<in> set (pg_edges g) \<Longrightarrow> eg_from x \<in> gn_node_id ` set (pg_nodes g) \<and> eg_to x \<in> gn_node_id ` set (pg_nodes g)"
    and "\<And>b i. b \<in> set (pg_barriers g) \<Longrightarrow> i \<in> set (bs_member_node_ids b) \<Longrightarrow> i \<in> gn_node_id ` set (pg_nodes g)"
    and "\<And>p i. p \<in> set (pg_retry_policies g) \<Longrightarrow> i \<in> set (rt_target_node_ids p) \<Longrightarrow> i \<in> gn_node_id ` set (pg_nodes g)"
  shows "validate_graph g = Inr g"
  using assms by (auto simp: validate_graph_def Let_def list_ex_iff)

definition edge_pairs_of :: "plan_graph \<Rightarrow> (string \<times> string) set" where
  "edge_pairs_of g = (\<lambda>x. (eg_from x, eg_to x)) ` set (pg_edges g)"

lemma acyclic_by_index:
  fixes f :: "nat \<Rightarrow> 'a"
  assumes inj: "inj_on f {..<n}" and r: "\<And>a b. (a, b) \<in> r \<Longrightarrow> \<exists>i j. i < j \<and> j < n \<and> a = f i \<and> b = f j"
  shows "acyclic r"
proof -
  have "r \<subseteq> inv_image less_than (inv_into {..<n} f)"
  proof (rule subrelI)
    fix a b assume "(a, b) \<in> r"
    then obtain i j where ij: "i < j" "j < n" "a = f i" "b = f j" using r by blast
    then have "inv_into {..<n} f a = i" "inv_into {..<n} f b = j" using inj by (simp_all add: inv_into_f_f)
    then show "(a, b) \<in> inv_image less_than (inv_into {..<n} f)" using ij by simp
  qed
  then have "wf r" by (rule wf_subset [OF wf_inv_image [OF wf_less_than]])
  then show ?thesis by (rule wf_acyclic)
qed

text \<open>The steps are sorted, so an edge always leads to a later node.\<close>

lemma consecutive_later:
  assumes "i < length (op_steps plan)" "j < length (op_steps plan)"
    and "os_sequence_no (sorted_steps plan ! j) = os_sequence_no (sorted_steps plan ! i) + 1"
  shows "i < j"
  using sorted_steps_mono [of j i plan] assms by (cases "i < j") auto

lemma length_sorted_steps: "length (sorted_steps plan) = length (op_steps plan)"
  by (simp add: sorted_steps_def)

lemma plan_node_edges:
  fixes plan
  defines "ss \<equiv> sorted_steps plan" and "n \<equiv> length (op_steps plan)"
  shows "set (node_edges (plan_nodes e rg se goal 0 [] ss)) =
     {(step_node_id e i, step_node_id e j) | i j. i < n \<and> j < n \<and> os_sequence_no (ss ! j) = os_sequence_no (ss ! i) + 1}"
proof -
  have later: "i < j" if "i < n" "j < n" "os_sequence_no (ss ! j) = os_sequence_no (ss ! i) + 1" for i j
    using consecutive_later that unfolding ss_def n_def by blast
  show ?thesis
    unfolding edges_of_nodes using later by (metis (no_types, opaque_lifting) length_sorted_steps n_def order.strict_trans ss_def)
qed

lemma barrier_node_ids:
  "bs_member_node_ids (graph_barrier (plan_nodes e rg se goal 0 [] ss) b) =
     map (step_node_id e) (filter (\<lambda>i. os_barrier_id (ss ! i) = Some (ob_barrier_id b)) [0..<length ss])"
proof -
  let ?nodes = "plan_nodes e rg se goal 0 [] ss"
  have nodes: "?nodes = map (\<lambda>i. ?nodes ! i) [0..<length ss]" by (metis length_plan_nodes map_nth)
  have "filter (\<lambda>x. gn_barrier_id x = Some (ob_barrier_id b)) ?nodes
      = map (\<lambda>i. ?nodes ! i) (filter (\<lambda>i. gn_barrier_id (?nodes ! i) = Some (ob_barrier_id b)) [0..<length ss])"
    by (subst nodes) (simp add: filter_map comp_def)
  then show ?thesis by (auto simp: graph_barrier_def node_at plan_node_def intro!: map_cong filter_cong)
qed

lemma graph_edge_pairs: "(\<lambda>x. (eg_from x, eg_to x)) ` set (graph_edges e k pairs) = set pairs"
  using arg_cong [OF edge_pairs [of e k pairs], of set] by simp

text \<open>What is built passes the validation when the node identifiers are distinct.\<close>

lemma build_graph_succeeds:
  fixes plan e role_goal side_effect goal
  defines "nodes \<equiv> plan_nodes e role_goal side_effect goal 0 [] (sorted_steps plan)"
  assumes inj: "inj_on (step_node_id e) {..<length (op_steps plan)}"
  shows "\<exists>g. build_graph_from_plan e run preset goal plan role_goal side_effect recommended_preset summary risks = Inr g
     \<and> pg_nodes g = nodes \<and> pg_barriers g = map (graph_barrier nodes) (op_barriers plan)
     \<and> edge_pairs_of g = set (node_edges nodes)"
proof -
  have ids: "map gn_node_id nodes = map (step_node_id e) [0..<length (op_steps plan)]"
    using node_ids length_sorted_steps by (simp add: nodes_def)
  have set_ids: "gn_node_id ` set nodes = step_node_id e ` {..<length (op_steps plan)}"
    using arg_cong [OF ids, of set] by (simp add: atLeast0LessThan)
  have dist: "distinct (map gn_node_id nodes)" unfolding ids using inj by (simp add: distinct_map atLeast0LessThan)
  have edges: "eg_from x \<in> gn_node_id ` set nodes \<and> eg_to x \<in> gn_node_id ` set nodes"
    if x: "x \<in> set (graph_edges e k (node_edges nodes))" for x k
  proof -
    have "(eg_from x, eg_to x) \<in> set (node_edges nodes)" using graph_edge_pairs [of e k "node_edges nodes"] x by blast
    then show ?thesis unfolding nodes_def plan_node_edges set_ids [unfolded nodes_def] by auto
  qed
  have members: "i \<in> gn_node_id ` set nodes" if "i \<in> set (bs_member_node_ids (graph_barrier nodes b))" for i b
    using that unfolding nodes_def barrier_node_ids set_ids [unfolded nodes_def] by (auto simp: length_sorted_steps)
  show ?thesis
    unfolding build_graph_from_plan_def Let_def nodes_def [symmetric]
    by (subst validate_graphI) (use dist edges members in \<open>auto simp: edge_pairs_of_def graph_edge_pairs set_ids\<close>)
qed

text \<open>C29: provided the drawn identifiers of the nodes are distinct, building the graph of any plan succeeds; the nodes are the steps in
  the order of execution, an edge joins two of them exactly when their sequence numbers are consecutive,
  the members of a barrier are the nodes of the steps that name it, and the graph is acyclic.\<close>

theorem plan_graph_faithful:
  fixes plan e
  defines "ss \<equiv> sorted_steps plan" and "n \<equiv> length (op_steps plan)"
  assumes inj: "inj_on (hex12 e) {..<n}"
  shows "\<exists>g. build_graph_from_plan e run preset goal plan role_goal side_effect recommended_preset summary risks = Inr g
     \<and> map gn_node_id (pg_nodes g) = map (step_node_id e) [0..<n]
     \<and> (\<forall>i<n. gn_role (pg_nodes g ! i) = os_role (ss ! i) \<and> gn_goal (pg_nodes g ! i) = role_goal goal (os_role (ss ! i))
             \<and> gn_preset_id (pg_nodes g ! i) = Some (os_preset_id (ss ! i)))
     \<and> edge_pairs_of g = {(step_node_id e i, step_node_id e j) | i j. i < n \<and> j < n \<and> os_sequence_no (ss ! j) = os_sequence_no (ss ! i) + 1}
     \<and> acyclic (edge_pairs_of g)
     \<and> map bs_member_node_ids (pg_barriers g)
         = map (\<lambda>b. map (step_node_id e) (filter (\<lambda>i. os_barrier_id (ss ! i) = Some (ob_barrier_id b)) [0..<n])) (op_barriers plan)"
proof -
  have inj': "inj_on (step_node_id e) {..<n}" using inj by (auto simp: inj_on_def step_node_id_def)
  have len: "length ss = n" by (simp add: ss_def n_def length_sorted_steps)
  obtain g where g: "build_graph_from_plan e run preset goal plan role_goal side_effect recommended_preset summary risks = Inr g"
      "pg_nodes g = plan_nodes e role_goal side_effect goal 0 [] ss"
      "pg_barriers g = map (graph_barrier (plan_nodes e role_goal side_effect goal 0 [] ss)) (op_barriers plan)"
      "edge_pairs_of g = set (node_edges (plan_nodes e role_goal side_effect goal 0 [] ss))"
    using build_graph_succeeds [OF inj' [unfolded n_def]] unfolding ss_def by blast
  have edges: "edge_pairs_of g = {(step_node_id e i, step_node_id e j) | i j. i < n \<and> j < n \<and> os_sequence_no (ss ! j) = os_sequence_no (ss ! i) + 1}"
    unfolding g(4) ss_def n_def by (rule plan_node_edges)
  have "acyclic (edge_pairs_of g)"
  proof (rule acyclic_by_index [OF inj'])
    fix a b assume "(a, b) \<in> edge_pairs_of g"
    then obtain i j where ij: "a = step_node_id e i" "b = step_node_id e j" "i < n" "j < n" "os_sequence_no (ss ! j) = os_sequence_no (ss ! i) + 1"
      unfolding edges by blast
    then have "i < j" using consecutive_later unfolding ss_def n_def by blast
    then show "\<exists>i j. i < j \<and> j < n \<and> a = step_node_id e i \<and> b = step_node_id e j" using ij by blast
  qed
  then show ?thesis using g(1) edges len
    by (intro exI [of _ g]) (simp add: g(2,3) node_ids barrier_node_ids node_at plan_node_def)
qed

definition demo_ids :: env where
  "demo_ids = \<lparr>clock = (\<lambda>_. 0), hex12 = show_nat\<rparr>"

lemma demo_ids_inj: "inj_on (hex12 demo_ids) A"
  by (rule inj_on_inverseI [of _ digits_value]) (simp add: demo_ids_def)

theorem plan_graph_faithful_witness:
  "\<exists>g. build_graph_from_plan demo_ids None ''project_delivery'' ''ship it'' demo_plan (\<lambda>goal role. goal) (\<lambda>a. ''artifact_only'') None None [] = Inr g
     \<and> acyclic (edge_pairs_of g) \<and> length (pg_nodes g) = 4
     \<and> (''graphnode_1'', ''graphnode_3'') \<in> edge_pairs_of g \<and> (''graphnode_0'', ''graphnode_3'') \<notin> edge_pairs_of g"
proof -
  let ?b = "build_graph_from_plan demo_ids None ''project_delivery'' ''ship it'' demo_plan (\<lambda>goal role. goal) (\<lambda>a. ''artifact_only'') None None []"
  obtain g where g: "?b = Inr g" "acyclic (edge_pairs_of g)"
    using plan_graph_faithful [where plan = demo_plan, OF demo_ids_inj] by blast
  have "case ?b of Inl _ \<Rightarrow> False | Inr g \<Rightarrow> length (pg_nodes g) = 4
      \<and> (''graphnode_1'', ''graphnode_3'') \<in> edge_pairs_of g \<and> (''graphnode_0'', ''graphnode_3'') \<notin> edge_pairs_of g"
    by code_simp
  then show ?thesis using g by auto
qed

end
