(* ===== verification/Orch_Execution.thy ===== *)
theory Orch_Execution
  imports Orch_Plan "HOL-Library.AList"
begin

section \<open>Executing an orchestration plan\<close>

text \<open>
  \<open>OrchestrationExecutionService.execute_orchestration_packet\<close> of
  \<^verbatim>\<open>packages/core_domain/service_orchestration.py\<close> with \<open>compile_child_run_with_fallback\<close> and
  \<open>finalize_child_run_if_waiting\<close>. The calls on the facade (create, compile, resume, review a run) are
  the functions of the record \<open>facade\<close> over an arbitrary state; a call that raises leaves the state it
  reached, and the exception ends the execution.
\<close>

subsection \<open>The facade\<close>

record mutation_contract =
  mc_patch_apply :: bool \<comment> \<open>\<open>mutation_mode == MutationMode.patch_apply\<close>\<close>
  mc_payload :: json

text \<open>The arguments of \<open>compile_run\<close>: without a contract those of the contract are absent.\<close>

record compile_request =
  cq_run_id :: string
  cq_adapter_name :: "string option"
  cq_contract :: "mutation_contract option"
  cq_agent_profile_id :: "string option"
  cq_cluster_template_id :: "string option"
  cq_cluster_member_id :: "string option"
  cq_public_role :: "string option"
  cq_role_label :: "string option"

record compiled =
  cp_runtime_task_id :: string
  cp_mutation_contract :: "json option"

record 's facade =
  fa_plan :: plan_facade
  fa_router :: cluster_router
  fa_supports_patch :: "string \<Rightarrow> bool"
  fa_default_patch_adapter :: "string option"
  fa_create_run :: "string \<Rightarrow> string \<Rightarrow> ('s, string) call"
  fa_compile_run :: "compile_request \<Rightarrow> ('s, compiled) call"
  fa_resume_run :: "string \<Rightarrow> string option \<Rightarrow> ('s, unit) call"
  fa_resume_runs_parallel :: "string list \<Rightarrow> nat \<Rightarrow> string option \<Rightarrow> ('s, json list) call"
  fa_run_status :: "string \<Rightarrow> ('s, string) call"
  fa_latest_decision :: "string \<Rightarrow> ('s, string option) call"
  fa_latest_return_code :: "string \<Rightarrow> ('s, int option) call"
  fa_approve :: "string \<Rightarrow> string option \<Rightarrow> ('s, string) call"
  fa_reject :: "string \<Rightarrow> string option \<Rightarrow> ('s, string) call"
  fa_mutation_report :: "string \<Rightarrow> ('s, json option) call"
  fa_write_artifact :: "string \<Rightarrow> orch_plan \<Rightarrow> ('s, string list) call"

subsection \<open>Compiling a child run\<close>

definition is_patch :: "mutation_contract option \<Rightarrow> bool" where
  "is_patch c = (case c of Some c \<Rightarrow> mc_patch_apply c | None \<Rightarrow> False)"

definition adapter_can_satisfy :: "'s facade \<Rightarrow> string option \<Rightarrow> mutation_contract option \<Rightarrow> bool" where
  "adapter_can_satisfy f a c \<longleftrightarrow> \<not> is_patch c \<or> (case a of None \<Rightarrow> True | Some n \<Rightarrow> fa_supports_patch f n)"

text \<open>The exceptions after which the next adapter is tried.\<close>

fun tries_next_adapter :: "werror \<Rightarrow> bool" where
  "tries_next_adapter (CapabilityAdapterNotFoundError _ _ _) = True"
| "tries_next_adapter (ExecutionLaneNotAllowedError _ _ _) = True"
| "tries_next_adapter (TaskKindNotAllowedError _ _ _) = True"
| "tries_next_adapter (UnsupportedTaskKindError _ _) = True"
| "tries_next_adapter _ = False"

record child_scope =
  cs_agent_profile_id :: "string option"
  cs_cluster_template_id :: "string option"
  cs_cluster_member_id :: "string option"
  cs_public_role :: string
  cs_role_label :: "string option"

definition compile_request_for :: "string \<Rightarrow> child_scope \<Rightarrow> string option \<Rightarrow> mutation_contract option \<Rightarrow> compile_request" where
  "compile_request_for rid sc a c =
     \<lparr>cq_run_id = rid, cq_adapter_name = a, cq_contract = c, cq_agent_profile_id = cs_agent_profile_id sc,
      cq_cluster_template_id = cs_cluster_template_id sc, cq_cluster_member_id = cs_cluster_member_id sc,
      cq_public_role = Some (cs_public_role sc), cq_role_label = cs_role_label sc\<rparr>"

text \<open>The loop over the candidates, then the two last resorts.\<close>

fun try_adapters ::
  "'s facade \<Rightarrow> string \<Rightarrow> child_scope \<Rightarrow> mutation_contract option \<Rightarrow> string option list \<Rightarrow> string option list \<Rightarrow> ('s, compiled) call" where
  "try_adapters f rid sc c [] seen =
     (if is_patch c then fa_compile_run f (compile_request_for rid sc (fa_default_patch_adapter f) c)
      else fa_compile_run f (compile_request_for rid sc None None))"
| "try_adapters f rid sc c (a # as) seen =
     (if a \<in> set seen then try_adapters f rid sc c as seen
      else if \<not> adapter_can_satisfy f a c then try_adapters f rid sc c as (a # seen)
      else (\<lambda>s. case fa_compile_run f (compile_request_for rid sc a c) s of
                  (s', Inr p) \<Rightarrow> (s', Inr p)
                | (s', Inl e) \<Rightarrow> if tries_next_adapter e then try_adapters f rid sc c as (a # seen) s' else (s', Inl e)))"

definition compile_child_run_with_fallback ::
  "'s facade \<Rightarrow> string \<Rightarrow> string option \<Rightarrow> string option \<Rightarrow> mutation_contract option \<Rightarrow> child_scope \<Rightarrow> ('s, compiled) call" where
  "compile_child_run_with_fallback f rid preferred fallback c sc = try_adapters f rid sc c [preferred, fallback, None] []"

subsection \<open>Reviewing a child run\<close>

definition finalize_child_run_if_waiting :: "'s facade \<Rightarrow> string \<Rightarrow> ('s, string) call" where
  "finalize_child_run_if_waiting f rid =
     ebind (fa_run_status f rid) (\<lambda>status.
       if status \<noteq> ''awaiting_review'' then eret status
       else ebind (fa_latest_decision f rid) (\<lambda>decision.
         if decision = Some ''pass'' then fa_approve f rid None
         else ebind (fa_latest_return_code f rid) (\<lambda>code.
           if decision = None \<and> code = Some 0
           then fa_approve f rid (Some ''orchestration child completed successfully'')
           else eret status)))"

subsection \<open>The goal of a step\<close>

definition goal_for_step :: "string \<Rightarrow> orch_step \<Rightarrow> string list \<Rightarrow> string" where
  "goal_for_step goal st prior =
     (let line = join '', '' prior; label = str_or (os_role_label st) []
      in if label = ''architect'' then ''Design the work breakdown and integration handoffs for: '' @ goal
         else if label = ''implementer'' then ''Implement the primary delivery slice for: '' @ goal
         else if label = ''risk_mapper'' then ''Research risks, supporting evidence, and open questions for: '' @ goal
         else if label = ''quality_gate'' then
           (if line \<noteq> [] then ''Review orchestration evidence for this project goal: '' @ goal @ ''. Parallel child runs: '' @ line
            else ''Review the implementation and supporting evidence for: '' @ goal)
         else if label = ''launch_guard'' then ''Prepare the operator-facing launch and follow-up checkpoint for: '' @ goal
         else if label = ''research_analyst'' then ''Investigate and summarize findings for: '' @ goal
         else if label = ''citation_checker'' then
           (if line \<noteq> []
            then ''Verify citations, claims, confidence posture, and the prior run evidence for: '' @ goal @ ''. Prior child runs: '' @ line
            else ''Verify citations, claims, and confidence posture for: '' @ goal)
         else case os_role st of
                planner \<Rightarrow> ''Plan the work for: '' @ goal
              | coder \<Rightarrow> ''Implement the requested change for: '' @ goal
              | researcher \<Rightarrow> ''Research and summarize evidence for: '' @ goal
              | reviewer \<Rightarrow>
                  (if line \<noteq> [] then ''Review orchestration evidence for this project goal: '' @ goal @ ''. Parallel child runs: '' @ line
                   else ''Review the output for: '' @ goal)
              | operator \<Rightarrow> ''Keep operator control visible for: '' @ goal)"

subsection \<open>The execution\<close>

record child_run =
  ch_step_id :: string
  ch_role :: string
  ch_role_label :: "string option"
  ch_run_id :: string
  ch_status :: string
  ch_runtime_task_id :: string
  ch_barrier_id :: "string option"
  ch_mutation_contract :: "json option"
  ch_fallback_blocked :: "string option" \<comment> \<open>\<open>fallback_adapter\<close> when its status is \<open>fallback_provider_unavailable\<close>\<close>
  ch_mutation_report :: "json option"

record role_progress =
  rp_status :: string
  rp_run_id :: "string option"
  rp_barrier_id :: "string option"
  rp_role_label :: "string option"
  rp_mutation_report :: "json option"

record parallel_batch =
  pb_barrier_id :: "string option"
  pb_member_count :: nat
  pb_status :: string
  pb_results :: "json list"

record exec_state =
  ex_children :: "child_run list"
  ex_progress :: "(string \<times> role_progress) list"
  ex_prior :: "string list"
  ex_contracts :: "(string \<times> mutation_contract option) list"
  ex_batches :: "parallel_batch list"
  ex_barriers :: "orch_barrier list"
  ex_steps :: "orch_step list" \<comment> \<open>the executed steps as they were left\<close>

record packet =
  pk_plan :: "orch_plan option" \<comment> \<open>\<open>WORKFLOW_ORCHESTRATION_PLAN\<close>, parsed\<close>
  pk_preset_id :: "string option"
  pk_run_id :: string
  pk_goal :: string
  pk_contract :: "mutation_contract option"
  pk_receipt :: "string option"

definition step_scope :: "orch_step \<Rightarrow> child_scope" where
  "step_scope st =
     \<lparr>cs_agent_profile_id = os_agent_profile_id st, cs_cluster_template_id = os_cluster_template_id st,
      cs_cluster_member_id = os_cluster_member_id st, cs_public_role = role_name (os_role st),
      cs_role_label = os_role_label st\<rparr>"

definition step_contract :: "packet \<Rightarrow> orch_step \<Rightarrow> mutation_contract option" where
  "step_contract pk st = (if os_role st = coder \<and> is_patch (pk_contract pk) then pk_contract pk else None)"

definition prepare_step ::
  "'s facade \<Rightarrow> packet \<Rightarrow> orch_step \<Rightarrow> orch_step list \<times> exec_state \<Rightarrow> ('s, orch_step list \<times> exec_state) call" where
  "prepare_step f pk st = (\<lambda>(done_steps, x).
     let c = step_contract pk st
     in ebind (fa_create_run f (goal_for_step (pk_goal pk) st (ex_prior x)) (os_preset_id st)) (\<lambda>rid.
        ebind (compile_child_run_with_fallback f rid (os_preferred_adapter st) (os_fallback_adapter st) c (step_scope st)) (\<lambda>p.
          eret (done_steps @ [st\<lparr>os_run_id := Some rid, os_status := ''prepared''\<rparr>],
                x\<lparr>ex_contracts := AList.update (os_step_id st) c (ex_contracts x),
                  ex_children := ex_children x @
                    [\<lparr>ch_step_id = os_step_id st, ch_role = role_name (os_role st), ch_role_label = os_role_label st,
                      ch_run_id = rid, ch_status = ''prepared'', ch_runtime_task_id = cp_runtime_task_id p,
                      ch_barrier_id = os_barrier_id st, ch_mutation_contract = cp_mutation_contract p,
                      ch_fallback_blocked = None, ch_mutation_report = None\<rparr>]\<rparr>))))"

definition update_children :: "string \<Rightarrow> (child_run \<Rightarrow> child_run) \<Rightarrow> exec_state \<Rightarrow> exec_state" where
  "update_children sid g x = x\<lparr>ex_children := map (\<lambda>c. if ch_step_id c = sid then g c else c) (ex_children x)\<rparr>"

definition wants_fallback :: "orch_step \<Rightarrow> string \<Rightarrow> bool" where
  "wants_fallback st status \<longleftrightarrow>
     status \<noteq> ''completed'' \<and> os_fallback_adapter st \<noteq> None \<and> os_fallback_adapter st \<noteq> Some []
     \<and> os_fallback_adapter st \<noteq> os_preferred_adapter st"

text \<open>A run that did not complete is rejected when its review failed, and the step is run again on its fallback adapter.\<close>

definition recover_step ::
  "'s facade \<Rightarrow> packet \<Rightarrow> orch_step \<Rightarrow> string \<Rightarrow> string \<Rightarrow> mutation_contract option \<Rightarrow> exec_state
   \<Rightarrow> ('s, string \<times> string \<times> exec_state) call" where
  "recover_step f pk st rid status c x =
     ebind (fa_latest_decision f rid) (\<lambda>decision.
     ebind (fa_latest_return_code f rid) (\<lambda>code.
     ebind (if status = ''awaiting_review''
               \<and> (decision = Some ''fail'' \<or> (decision = None \<and> code \<noteq> None \<and> code \<noteq> Some 0))
            then fa_reject f rid (Some ''orchestration child failed auto-review before fallback'') else eret status) (\<lambda>_.
     ebind (fa_create_run f (goal_for_step (pk_goal pk) st (ex_prior x)) (os_preset_id st)) (\<lambda>rid2.
     ebind (compile_child_run_with_fallback f rid2 (os_fallback_adapter st) None c (step_scope st)) (\<lambda>p.
     ebind (fa_resume_run f rid2 (pk_receipt pk)) (\<lambda>_.
     ebind (finalize_child_run_if_waiting f rid2) (\<lambda>status2.
       eret (rid2, status2,
             update_children (os_step_id st) (\<lambda>ch. ch\<lparr>ch_run_id := rid2, ch_runtime_task_id := cp_runtime_task_id p\<rparr>) x))))))))"

definition finalize_step ::
  "'s facade \<Rightarrow> packet \<Rightarrow> orch_step \<Rightarrow> exec_state \<Rightarrow> ('s, exec_state) call" where
  "finalize_step f pk st x =
     (let rid = str_or (os_run_id st) [];
          c = (case map_of (ex_contracts x) (os_step_id st) of None \<Rightarrow> None | Some c \<Rightarrow> c)
      in ebind (finalize_child_run_if_waiting f rid) (\<lambda>status.
         ebind (if \<not> wants_fallback st status then eret (rid, status, x)
                else if \<not> adapter_can_satisfy f (os_fallback_adapter st) c
                then eret (rid, status, update_children (os_step_id st) (\<lambda>ch. ch\<lparr>ch_fallback_blocked := os_fallback_adapter st\<rparr>) x)
                else recover_step f pk st rid status c x) (\<lambda>(rid', status', x').
         ebind (if os_role st = coder then fa_mutation_report f rid' else eret None) (\<lambda>report.
           eret ((update_children (os_step_id st)
                    (\<lambda>ch. ch\<lparr>ch_status := status',
                             ch_mutation_report := (case report of None \<Rightarrow> ch_mutation_report ch | Some r \<Rightarrow> Some r)\<rparr>) x')
                 \<lparr>ex_progress :=
                    AList.update (role_name (os_role st))
                      \<lparr>rp_status = status', rp_run_id = Some rid', rp_barrier_id = os_barrier_id st,
                       rp_role_label = os_role_label st, rp_mutation_report = report\<rparr> (ex_progress x'),
                  ex_prior := (if rid' \<noteq> [] then ex_prior x' @ [rid'] else ex_prior x'),
                  ex_steps := ex_steps x' @ [st\<lparr>os_run_id := Some rid', os_status := status'\<rparr>]\<rparr>)))))"

definition resume_group :: "'s facade \<Rightarrow> packet \<Rightarrow> string list \<Rightarrow> ('s, json list) call" where
  "resume_group f pk rids =
     (case rids of
        [] \<Rightarrow> eret []
      | [rid] \<Rightarrow> ebind (fa_resume_run f rid (pk_receipt pk)) (\<lambda>_. eret [])
      | _ \<Rightarrow> fa_resume_runs_parallel f rids (length rids) (pk_receipt pk))"

text \<open>\<open>{step.barrier_id for step in group if step.barrier_id}\<close>.\<close>

definition named_barriers :: "orch_step list \<Rightarrow> string list" where
  "named_barriers grp =
     List.map_filter (\<lambda>st. case os_barrier_id st of Some b \<Rightarrow> if b \<noteq> [] then Some b else None | None \<Rightarrow> None) grp"

definition release_barriers :: "orch_step list \<Rightarrow> string list \<Rightarrow> json list \<Rightarrow> exec_state \<Rightarrow> exec_state" where
  "release_barriers grp rids results x =
     (let ids = named_barriers grp;
          status = (if rids \<noteq> [] then ''released'' else ''skipped'');
          hit = filter (\<lambda>b. ob_barrier_id b \<in> set ids) (ex_barriers x)
      in x\<lparr>ex_barriers := map (\<lambda>b. if ob_barrier_id b \<in> set ids then b\<lparr>ob_status := status\<rparr> else b) (ex_barriers x),
           ex_batches := ex_batches x @
             map (\<lambda>b. \<lparr>pb_barrier_id = Some (ob_barrier_id b), pb_member_count = ob_member_count b, pb_status = status,
                       pb_results = results\<rparr>) hit\<rparr>)"

definition execute_group :: "'s facade \<Rightarrow> packet \<Rightarrow> orch_step list \<Rightarrow> exec_state \<Rightarrow> ('s, exec_state) call" where
  "execute_group f pk grp x =
     ebind (efold (prepare_step f pk) grp ([], x)) (\<lambda>(steps, x1).
       let rids = map (\<lambda>st. str_or (os_run_id st) []) steps
       in ebind (resume_group f pk rids) (\<lambda>results.
          ebind (efold (finalize_step f pk) steps x1) (\<lambda>x2.
            eret (release_barriers grp rids results x2))))"

record orch_result =
  or_return_code :: int
  or_stderr :: string
  or_children :: "child_run list"
  or_parallel_batch :: parallel_batch
  or_parallel_batches :: "parallel_batch list"
  or_role_progress :: "(string \<times> role_progress) list"
  or_steps :: "orch_step list"
  or_barriers :: "orch_barrier list"
  or_artifact_paths :: "string list"

definition summary_content :: "string \<Rightarrow> orch_plan \<Rightarrow> child_run list \<Rightarrow> string" where
  "summary_content goal plan children =
     join [LF]
       ([''# Orchestration Execution Summary'', [], ''goal: '' @ goal, ''orchestration_id: '' @ op_orchestration_id plan,
         ''preset_id: '' @ op_preset_id plan, ''roles:'']
        @ map (\<lambda>c. ''- '' @ ch_role c
                   @ (case ch_role_label c of Some l \<Rightarrow> if l \<noteq> [] then '' ('' @ l @ '')'' else [] | None \<Rightarrow> [])
                   @ '': '' @ ch_run_id c @ '' status='' @ ch_status c) children) @ [LF]"

definition initial_exec_state :: "orch_plan \<Rightarrow> exec_state" where
  "initial_exec_state plan =
     \<lparr>ex_children = [], ex_progress = [], ex_prior = [], ex_contracts = [], ex_batches = [],
      ex_barriers = op_barriers plan, ex_steps = []\<rparr>"

definition execute_plan :: "'s facade \<Rightarrow> packet \<Rightarrow> orch_plan \<Rightarrow> ('s, orch_result) call" where
  "execute_plan f pk plan =
     ebind (efold (execute_group f pk) (group_steps plan) (initial_exec_state plan)) (\<lambda>x.
     ebind (fa_write_artifact f (summary_content (pk_goal pk) plan (ex_children x)) plan) (\<lambda>paths.
       let ok = list_all (\<lambda>c. ch_status c = ''completed'') (ex_children x)
       in eret \<lparr>or_return_code = (if ok then 0 else 1),
                or_stderr = (if ok then [] else ''one or more orchestration child runs did not complete successfully''),
                or_children = ex_children x,
                or_parallel_batch =
                  (case ex_batches x of
                     b # _ \<Rightarrow> b
                   | [] \<Rightarrow> \<lparr>pb_barrier_id = None, pb_member_count = 0, pb_status = ''skipped'', pb_results = []\<rparr>),
                or_parallel_batches = ex_batches x, or_role_progress = ex_progress x, or_steps = ex_steps x,
                or_barriers = ex_barriers x, or_artifact_paths = paths\<rparr>))"

text \<open>The plan of the packet, or the default plan of its preset, or that of \<open>project_delivery\<close>.\<close>

definition plan_for_packet :: "'s facade \<Rightarrow> packet \<Rightarrow> werror + orch_plan option" where
  "plan_for_packet f pk =
     (case pk_plan pk of
        Some p \<Rightarrow> Inr (Some p)
      | None \<Rightarrow>
          rbind (default_orchestration_plan_for_preset (fa_plan f) (fa_router f) (str_or (pk_preset_id pk) ''project_delivery'') (pk_run_id pk) [])
            (\<lambda>p. case p of
                   Some p \<Rightarrow> Inr (Some p)
                 | None \<Rightarrow> default_orchestration_plan_for_preset (fa_plan f) (fa_router f) ''project_delivery'' (pk_run_id pk) []))"

definition execute_orchestration_packet :: "'s facade \<Rightarrow> packet \<Rightarrow> ('s, orch_result) call" where
  "execute_orchestration_packet f pk s =
     (case plan_for_packet f pk of
        Inl e \<Rightarrow> (s, Inl e)
      | Inr None \<Rightarrow> (s, Inl (ValueError ''orchestration plan was not available for execution''))
      | Inr (Some plan) \<Rightarrow> execute_plan f pk plan s)"

end
