(* ===== verification/Execution_Trace.thy ===== *)
theory Execution_Trace
  imports Orch_Execution
begin

section \<open>The calls an execution makes\<close>

text \<open>
  A facade that writes down the runs it creates, compiles, resumes, reads and reviews: an execution over
  it does what the execution over the plain facade does, and what it writes down is described step by
  step and group by group.
\<close>

subsection \<open>A facade with a record of its calls\<close>

datatype facade_call =
    Created "string" string \<comment> \<open>preset, run\<close>
  | Compiled string "mutation_contract option"
  | Resumed string "string option"
  | ResumedTogether "string list" nat "string option"
  | Answered string string \<comment> \<open>the status read\<close>
  | Approved string string
  | Rejected string

definition written :: "('a \<Rightarrow> facade_call) \<Rightarrow> ('s, 'a) call \<Rightarrow> ('s \<times> facade_call list, 'a) call" where
  "written k c = (\<lambda>(s, l). case c s of (s', Inl e) \<Rightarrow> ((s', l), Inl e) | (s', Inr r) \<Rightarrow> ((s', l @ [k r]), Inr r))"

definition unwritten :: "('s, 'a) call \<Rightarrow> ('s \<times> facade_call list, 'a) call" where
  "unwritten c = (\<lambda>(s, l). case c s of (s', r) \<Rightarrow> ((s', l), r))"

definition traced :: "'s facade \<Rightarrow> ('s \<times> facade_call list) facade" where
  "traced f =
     \<lparr>fa_plan = fa_plan f, fa_router = fa_router f, fa_supports_patch = fa_supports_patch f,
      fa_default_patch_adapter = fa_default_patch_adapter f,
      fa_create_run = (\<lambda>goal preset. written (Created preset) (fa_create_run f goal preset)),
      fa_compile_run = (\<lambda>q. written (\<lambda>_. Compiled (cq_run_id q) (cq_contract q)) (fa_compile_run f q)),
      fa_resume_run = (\<lambda>rid receipt. written (\<lambda>_. Resumed rid receipt) (fa_resume_run f rid receipt)),
      fa_resume_runs_parallel = (\<lambda>rids n receipt. written (\<lambda>_. ResumedTogether rids n receipt) (fa_resume_runs_parallel f rids n receipt)),
      fa_run_status = (\<lambda>rid. written (Answered rid) (fa_run_status f rid)),
      fa_latest_decision = (\<lambda>rid. unwritten (fa_latest_decision f rid)),
      fa_latest_return_code = (\<lambda>rid. unwritten (fa_latest_return_code f rid)),
      fa_approve = (\<lambda>rid why. written (Approved rid) (fa_approve f rid why)),
      fa_reject = (\<lambda>rid why. written (\<lambda>_. Rejected rid) (fa_reject f rid why)),
      fa_mutation_report = (\<lambda>rid. unwritten (fa_mutation_report f rid)),
      fa_write_artifact = (\<lambda>text plan. unwritten (fa_write_artifact f text plan))\<rparr>"

subsection \<open>Writing down changes nothing\<close>

definition follows :: "('s \<times> facade_call list, 'a) call \<Rightarrow> ('s, 'a) call \<Rightarrow> bool" where
  "follows g c \<longleftrightarrow> (\<forall>s l. \<exists>l'. g (s, l) = ((fst (c s), l'), snd (c s)))"

named_theorems follow_intros

lemma follows_eret [follow_intros]: "follows (eret x) (eret x)"
  by (simp add: follows_def eret_def)

lemma follows_ebind [follow_intros]:
  assumes "follows g c" and "\<And>x. follows (h x) (k x)"
  shows "follows (ebind g h) (ebind c k)"
  unfolding follows_def
proof (intro allI)
  fix s l
  obtain s' r where c: "c s = (s', r)" by (cases "c s")
  obtain l' where g: "g (s, l) = ((s', l'), r)" using assms(1) c unfolding follows_def by (metis fst_conv snd_conv)
  show "\<exists>l'. ebind g h (s, l) = ((fst (ebind c k s), l'), snd (ebind c k s))"
    using g c assms(2) by (cases r) (auto simp: ebind_def follows_def)
qed

lemma follows_if [follow_intros]: "follows g c \<Longrightarrow> follows h d \<Longrightarrow> follows (if b then g else h) (if b then c else d)"
  by simp

lemma follows_efold [follow_intros]: "(\<And>x a. follows (g x a) (c x a)) \<Longrightarrow> follows (efold g xs a) (efold c xs a)"
  by (induction xs arbitrary: a) (auto intro: follow_intros)

lemma follows_written [follow_intros]: "follows (written k c) c"
  by (auto simp: follows_def written_def split: prod.splits sum.splits)

lemma follows_unwritten [follow_intros]: "follows (unwritten c) c"
  by (auto simp: follows_def unwritten_def split: prod.splits)

lemma follows_traced [follow_intros]:
  "follows (fa_create_run (traced f) goal preset) (fa_create_run f goal preset)"
  "follows (fa_compile_run (traced f) q) (fa_compile_run f q)"
  "follows (fa_resume_run (traced f) rid receipt) (fa_resume_run f rid receipt)"
  "follows (fa_resume_runs_parallel (traced f) rids n receipt) (fa_resume_runs_parallel f rids n receipt)"
  "follows (fa_run_status (traced f) rid) (fa_run_status f rid)"
  "follows (fa_latest_decision (traced f) rid) (fa_latest_decision f rid)"
  "follows (fa_latest_return_code (traced f) rid) (fa_latest_return_code f rid)"
  "follows (fa_approve (traced f) rid why) (fa_approve f rid why)"
  "follows (fa_reject (traced f) rid why) (fa_reject f rid why)"
  "follows (fa_mutation_report (traced f) rid) (fa_mutation_report f rid)"
  "follows (fa_write_artifact (traced f) content plan) (fa_write_artifact f content plan)"
  by (simp_all add: traced_def follow_intros)

lemma traced_plain [simp]:
  "fa_supports_patch (traced f) = fa_supports_patch f" "fa_default_patch_adapter (traced f) = fa_default_patch_adapter f"
  "adapter_can_satisfy (traced f) a c = adapter_can_satisfy f a c"
  by (simp_all add: traced_def adapter_can_satisfy_def split: option.split)

lemma follows_catch:
  assumes "follows g c" and "\<And>e. P e \<Longrightarrow> follows h k"
  shows "follows (\<lambda>s. case g s of (s', Inr p) \<Rightarrow> (s', Inr p) | (s', Inl e) \<Rightarrow> if P e then h s' else (s', Inl e))
                 (\<lambda>s. case c s of (s', Inr p) \<Rightarrow> (s', Inr p) | (s', Inl e) \<Rightarrow> if P e then k s' else (s', Inl e))"
  unfolding follows_def
proof (intro allI)
  fix s l
  obtain s' r where c: "c s = (s', r)" by (cases "c s")
  obtain l' where g: "g (s, l) = ((s', l'), r)" using assms(1) c unfolding follows_def by (metis fst_conv snd_conv)
  show "\<exists>l'. (case g (s, l) of (s', Inr p) \<Rightarrow> (s', Inr p) | (s', Inl e) \<Rightarrow> if P e then h s' else (s', Inl e))
      = ((fst (case c s of (s', Inr p) \<Rightarrow> (s', Inr p) | (s', Inl e) \<Rightarrow> if P e then k s' else (s', Inl e)), l'),
         snd (case c s of (s', Inr p) \<Rightarrow> (s', Inr p) | (s', Inl e) \<Rightarrow> if P e then k s' else (s', Inl e)))"
    using g c assms(2) by (cases r) (auto simp: follows_def)
qed

lemma follows_try_adapters [follow_intros]: "follows (try_adapters (traced f) rid sc c as seen) (try_adapters f rid sc c as seen)"
proof (induction as arbitrary: seen)
  case (Cons a as)
  have "follows (fa_compile_run (traced f) (compile_request_for rid sc a c)) (fa_compile_run f (compile_request_for rid sc a c))"
    by (rule follow_intros)
  then show ?case using Cons.IH by (simp add: follows_catch)
qed (simp add: follow_intros)

lemma follows_compile [follow_intros]:
  "follows (compile_child_run_with_fallback (traced f) rid a b c sc) (compile_child_run_with_fallback f rid a b c sc)"
  unfolding compile_child_run_with_fallback_def by (rule follow_intros)

lemma follows_finalize_child [follow_intros]: "follows (finalize_child_run_if_waiting (traced f) rid) (finalize_child_run_if_waiting f rid)"
  unfolding finalize_child_run_if_waiting_def by (intro follow_intros)

lemma follows_prepare [follow_intros]: "follows (prepare_step (traced f) pk st b) (prepare_step f pk st b)"
  unfolding prepare_step_def Let_def by (cases b) (simp, intro follow_intros)

lemma follows_recover [follow_intros]: "follows (recover_step (traced f) pk st rid status c x) (recover_step f pk st rid status c x)"
  unfolding recover_step_def by (intro follow_intros)

lemma follows_finalize [follow_intros]: "follows (finalize_step (traced f) pk st x) (finalize_step f pk st x)"
  unfolding finalize_step_def Let_def traced_plain by (intro follow_intros allI) (auto split: prod.splits intro!: follow_intros)

lemma follows_resume_group [follow_intros]: "follows (resume_group (traced f) pk rids) (resume_group f pk rids)"
  unfolding resume_group_def by (auto split: list.splits intro!: follow_intros)

lemma follows_group [follow_intros]: "follows (execute_group (traced f) pk grp x) (execute_group f pk grp x)"
  unfolding execute_group_def Let_def by (intro follow_intros) (auto split: prod.splits intro!: follow_intros)

lemma follows_execute_plan: "follows (execute_plan (traced f) pk plan) (execute_plan f pk plan)"
  unfolding execute_plan_def Let_def by (intro follow_intros)

lemma traced_execution:
  assumes "execute_plan f pk plan s = (s', r)"
  shows "\<exists>log. execute_plan (traced f) pk plan (s, []) = ((s', log), r)"
  using follows_execute_plan [of f pk plan] assms unfolding follows_def by (metis fst_conv snd_conv)

subsection \<open>What a call writes down\<close>

text \<open>A call that returns \<open>x\<close> has written down some \<open>d\<close> with \<open>P x d\<close>.\<close>

definition writes :: "('s \<times> facade_call list, 'a) call \<Rightarrow> ('a \<Rightarrow> facade_call list \<Rightarrow> bool) \<Rightarrow> bool" where
  "writes g P \<longleftrightarrow> (\<forall>s l s' l' x. g (s, l) = ((s', l'), Inr x) \<longrightarrow> (\<exists>d. l' = l @ d \<and> P x d))"

lemma writesI: "(\<And>s l s' l' x. g (s, l) = ((s', l'), Inr x) \<Longrightarrow> \<exists>d. l' = l @ d \<and> P x d) \<Longrightarrow> writes g P"
  unfolding writes_def by blast

lemma writesD: "writes g P \<Longrightarrow> g (s, l) = ((s', l'), Inr x) \<Longrightarrow> \<exists>d. l' = l @ d \<and> P x d"
  unfolding writes_def by blast

lemma writes_mono: "writes g P \<Longrightarrow> (\<And>x d. P x d \<Longrightarrow> Q x d) \<Longrightarrow> writes g Q"
  unfolding writes_def by blast

lemma writes_eret: "P x [] \<Longrightarrow> writes (eret x) P"
  by (simp add: writes_def)

lemma writes_ebind:
  assumes g: "writes g P" and h: "\<And>x d. P x d \<Longrightarrow> writes (h x) (\<lambda>y e. Q y (d @ e))"
  shows "writes (ebind g h) Q"
proof (rule writesI)
  fix s l s' l' y
  assume "ebind g h (s, l) = ((s', l'), Inr y)"
  then obtain x s1 l1 where 1: "g (s, l) = ((s1, l1), Inr x)" and 2: "h x (s1, l1) = ((s', l'), Inr y)" by (auto simp: ebind_Inr)
  obtain d where d: "l1 = l @ d" "P x d" using writesD [OF g 1] by blast
  obtain e where "l' = l1 @ e" "Q y (d @ e)" using writesD [OF h [OF d(2)] 2] by blast
  then show "\<exists>d. l' = l @ d \<and> Q y d" using d(1) by auto
qed

lemma writes_written: "writes (written k c) (\<lambda>x d. d = [k x])"
  by (auto simp: writes_def written_def split: prod.splits sum.splits)

lemma writes_unwritten: "writes (unwritten c) (\<lambda>x d. d = [])"
  by (auto simp: writes_def unwritten_def split: prod.splits sum.splits)

lemma writes_traced:
  "writes (fa_create_run (traced f) goal preset) (\<lambda>rid d. d = [Created preset rid])"
  "writes (fa_compile_run (traced f) q) (\<lambda>p d. d = [Compiled (cq_run_id q) (cq_contract q)])"
  "writes (fa_resume_run (traced f) rid receipt) (\<lambda>u d. d = [Resumed rid receipt])"
  "writes (fa_resume_runs_parallel (traced f) rids n receipt) (\<lambda>u d. d = [ResumedTogether rids n receipt])"
  "writes (fa_run_status (traced f) rid) (\<lambda>status d. d = [Answered rid status])"
  "writes (fa_latest_decision (traced f) rid) (\<lambda>x d. d = [])"
  "writes (fa_latest_return_code (traced f) rid) (\<lambda>y d. d = [])"
  "writes (fa_approve (traced f) rid why) (\<lambda>status d. d = [Approved rid status])"
  "writes (fa_reject (traced f) rid why) (\<lambda>status d. d = [Rejected rid])"
  "writes (fa_mutation_report (traced f) rid) (\<lambda>z d. d = [])"
  by (simp_all add: traced_def writes_written writes_unwritten)

lemma writes_try_adapters:
  assumes c: "is_patch c \<or> c = None"
  shows "writes (try_adapters (traced f) rid sc c as seen) (\<lambda>p d. d = [Compiled rid c])"
proof (induction as arbitrary: seen)
  case Nil
  show ?case using c writes_traced(2) [of f "compile_request_for rid sc (fa_default_patch_adapter f) c"]
      writes_traced(2) [of f "compile_request_for rid sc None None"]
    by (auto simp: compile_request_for_def is_patch_def)
next
  case (Cons a as)
  show ?case
  proof (cases "a \<in> set seen \<or> \<not> adapter_can_satisfy f a c")
    case False
    let ?g = "fa_compile_run (traced f) (compile_request_for rid sc a c)"
    have g: "writes ?g (\<lambda>p d. d = [Compiled rid c])"
      using writes_traced(2) [of f "compile_request_for rid sc a c"] by (simp add: compile_request_for_def)
    have quiet: "\<exists>s'. ?g (s, l) = ((s', l), Inl e)" if "?g (s, l) = (t, Inl e)" for s l t e
      using that by (auto simp: traced_def written_def split: prod.splits sum.splits)
    show ?thesis
    proof (rule writesI)
      fix s l s' l' p
      assume run: "try_adapters (traced f) rid sc c (a # as) seen (s, l) = ((s', l'), Inr p)"
      show "\<exists>d. l' = l @ d \<and> d = [Compiled rid c]"
      proof (cases "snd (?g (s, l))")
        case (Inr q)
        then have "?g (s, l) = ((s', l'), Inr p)" using run False by (auto split: prod.splits)
        then show ?thesis by (rule writesD [OF g])
      next
        case (Inl e)
        then obtain t where t: "?g (s, l) = ((t, l), Inl e)" using quiet [of s l] by (metis prod.collapse)
        then have "try_adapters (traced f) rid sc c as (a # seen) (t, l) = ((s', l'), Inr p)" using run False by (auto split: if_splits)
        then show ?thesis by (rule writesD [OF Cons.IH])
      qed
    qed
  qed (use Cons.IH in auto)
qed

lemma writes_compile:
  "writes (compile_child_run_with_fallback (traced f) rid a b (step_contract pk st) sc) (\<lambda>p d. d = [Compiled rid (step_contract pk st)])"
  unfolding compile_child_run_with_fallback_def by (rule writes_try_adapters) (simp add: step_contract_def)

subsection \<open>One step\<close>

text \<open>The status a run is left with: the one read, or that of its approval when it awaited a review.\<close>

definition reviewed :: "string \<Rightarrow> string \<Rightarrow> facade_call list \<Rightarrow> bool" where
  "reviewed rid status d \<longleftrightarrow>
     d = [Answered rid status] \<or> d = [Answered rid ''awaiting_review'', Approved rid status]"

lemma writes_reviewed: "writes (finalize_child_run_if_waiting (traced f) rid) (\<lambda>status d. reviewed rid status d)"
proof -
  have tail: "writes (if decision = Some ''pass'' then fa_approve (traced f) rid None
         else ebind (fa_latest_return_code (traced f) rid) (\<lambda>code.
           if decision = None \<and> code = Some 0
           then fa_approve (traced f) rid (Some ''orchestration child completed successfully'')
           else eret status)) (\<lambda>x d. d = [Approved rid x] \<or> d = [] \<and> x = status)" for decision status
    by (cases "decision = Some ''pass''")
      (auto intro!: writes_ebind [OF writes_traced(7)] writes_eret intro: writes_mono [OF writes_traced(8)])
  show ?thesis
    unfolding finalize_child_run_if_waiting_def
    by (rule writes_ebind [OF writes_traced(5)])
      (auto simp: reviewed_def intro!: writes_eret writes_ebind [OF writes_traced(6)] intro: writes_mono [OF tail])
qed

definition falls_back :: "'s facade \<Rightarrow> packet \<Rightarrow> orch_step \<Rightarrow> string \<Rightarrow> bool" where
  "falls_back f pk st status \<longleftrightarrow> wants_fallback st status \<and> adapter_can_satisfy f (os_fallback_adapter st) (step_contract pk st)"

text \<open>
  After the run of a step was resumed: it is read and reviewed, and that is all unless the step falls
  back; then a second run is created, compiled, resumed and reviewed, and it is the one reported.
\<close>

inductive step_run :: "'s facade \<Rightarrow> packet \<Rightarrow> orch_step \<Rightarrow> string \<Rightarrow> facade_call list \<Rightarrow> string \<Rightarrow> string \<Rightarrow> bool"
  for f pk st rid where
  kept: "reviewed rid status d \<Longrightarrow> \<not> falls_back f pk st status \<Longrightarrow> step_run f pk st rid d rid status"
| again: "reviewed rid status d \<Longrightarrow> falls_back f pk st status \<Longrightarrow>
     rej = [] \<or> rej = [Rejected rid] \<and> status = ''awaiting_review'' \<Longrightarrow> reviewed rid2 status2 e \<Longrightarrow>
     step_run f pk st rid
       (d @ rej @ [Created (os_preset_id st) rid2, Compiled rid2 (step_contract pk st), Resumed rid2 (pk_receipt pk)] @ e) rid2 status2"

lemma writes_recover:
  "writes (recover_step (traced f) pk st rid status (step_contract pk st) x)
     (\<lambda>(rid2, status2, x') d. ex_steps x' = ex_steps x \<and> ex_contracts x' = ex_contracts x
        \<and> (\<exists>rej e. (rej = [] \<or> rej = [Rejected rid] \<and> status = ''awaiting_review'') \<and> reviewed rid2 status2 e
             \<and> d = rej @ [Created (os_preset_id st) rid2, Compiled rid2 (step_contract pk st), Resumed rid2 (pk_receipt pk)] @ e))"
proof -
  have rej: "writes (if b then fa_reject (traced f) rid why else eret status)
      (\<lambda>_ d. d = [] \<or> d = [Rejected rid] \<and> b)" for b why
    by (auto intro: writes_eret writes_mono [OF writes_traced(9)])
  show ?thesis
    unfolding recover_step_def
    apply (rule writes_ebind [OF writes_traced(6)])
    apply (rule writes_ebind [OF writes_traced(7)])
    apply (rule writes_ebind [OF rej])
    apply (rule writes_ebind [OF writes_traced(1)])
    apply (rule writes_ebind [OF writes_compile])
    apply (rule writes_ebind [OF writes_traced(3)])
    apply (rule writes_ebind [OF writes_reviewed])
    apply (rule writes_eret)
    apply (auto simp: update_children_def)
    done
qed

lemma falls_back_update [simp]: "falls_back f pk (st\<lparr>os_run_id := r, os_status := z\<rparr>) = falls_back f pk st"
  by (rule ext) (simp add: falls_back_def wants_fallback_def step_contract_def)

lemma step_contract_update [simp]: "step_contract pk (st\<lparr>os_run_id := r, os_status := z\<rparr>) = step_contract pk st"
  by (simp add: step_contract_def)

lemma step_run_update:
  assumes "step_run f pk (st\<lparr>os_run_id := r, os_status := z\<rparr>) rid d rid2 status2"
  shows "step_run f pk st rid d rid2 status2"
  using assms
proof cases
  case kept
  then show ?thesis by (auto intro: step_run.kept)
next
  case (again status d rej e)
  then show ?thesis using step_run.again [of rid status d f pk st rej rid2 status2 e] by simp
qed

lemma str_or_Some: "str_or (Some r) [] = r"
  by (simp add: str_or_def)

lemma writes_finalize:
  assumes c: "map_of (ex_contracts x) (os_step_id st) = Some (step_contract pk st)" and rid: "os_run_id st = Some rid"
  shows "writes (finalize_step (traced f) pk st x)
     (\<lambda>x' d. ex_contracts x' = ex_contracts x
        \<and> (\<exists>rid2 status2. ex_steps x' = ex_steps x @ [st\<lparr>os_run_id := Some rid2, os_status := status2\<rparr>] \<and> step_run f pk st rid d rid2 status2))"
proof -
  have mid: "writes (if \<not> wants_fallback st status then eret (rid, status, x)
                else if \<not> adapter_can_satisfy f (os_fallback_adapter st) (step_contract pk st)
                then eret (rid, status, update_children (os_step_id st) (\<lambda>ch. ch\<lparr>ch_fallback_blocked := os_fallback_adapter st\<rparr>) x)
                else recover_step (traced f) pk st rid status (step_contract pk st) x)
       (\<lambda>(rid2, status2, x') e. ex_steps x' = ex_steps x \<and> ex_contracts x' = ex_contracts x \<and> step_run f pk st rid (d @ e) rid2 status2)"
    if "reviewed rid status d" for status d
    using that by (cases "falls_back f pk st status")
      (auto simp: falls_back_def update_children_def intro!: writes_eret step_run.intros writes_mono [OF writes_recover])
  have report: "writes (if os_role st = coder then fa_mutation_report (traced f) r else eret None) (\<lambda>_ d. d = [])" for r
    by (auto intro: writes_eret writes_traced)
  show ?thesis
    unfolding finalize_step_def Let_def traced_plain c rid str_or_Some option.case
    apply (rule writes_ebind [OF writes_reviewed])
    apply (rule writes_ebind [OF mid], assumption)
    subgoal for status d y e
      apply (cases y rule: prod_cases3)
      apply (simp only: prod.case)
      apply (rule writes_ebind [OF report])
      apply (rule writes_eret)
      apply (auto simp: update_children_def)
      done
    done
qed

subsection \<open>One group\<close>

definition create_calls :: "packet \<Rightarrow> orch_step list \<Rightarrow> string list \<Rightarrow> facade_call list" where
  "create_calls pk grp rids = concat (map2 (\<lambda>st rid. [Created (os_preset_id st) rid, Compiled rid (step_contract pk st)]) grp rids)"

definition resume_calls :: "packet \<Rightarrow> string list \<Rightarrow> facade_call list" where
  "resume_calls pk rids =
     (case rids of [] \<Rightarrow> [] | [rid] \<Rightarrow> [Resumed rid (pk_receipt pk)] | _ \<Rightarrow> [ResumedTogether rids (length rids) (pk_receipt pk)])"

inductive steps_run :: "'s facade \<Rightarrow> packet \<Rightarrow> orch_step list \<Rightarrow> string list \<Rightarrow> facade_call list \<Rightarrow> (string option \<times> string) list \<Rightarrow> bool"
  for f pk where
  no_step: "steps_run f pk [] [] [] []"
| next_step: "step_run f pk st rid d rid2 status2 \<Longrightarrow> steps_run f pk sts rids e out \<Longrightarrow>
     steps_run f pk (st # sts) (rid # rids) (d @ e) ((Some rid2, status2) # out)"

text \<open>
  A group: its runs are created and compiled in the order of its steps, then resumed, one run alone or
  all of them in one call, and then reviewed in the same order.
\<close>

inductive groups_run :: "'s facade \<Rightarrow> packet \<Rightarrow> orch_step list list \<Rightarrow> facade_call list \<Rightarrow> (string option \<times> string) list \<Rightarrow> bool"
  for f pk where
  no_group: "groups_run f pk [] [] []"
| next_group: "length rids = length grp \<Longrightarrow> steps_run f pk grp rids e out \<Longrightarrow> groups_run f pk gs d outs \<Longrightarrow>
     groups_run f pk (grp # gs) (create_calls pk grp rids @ resume_calls pk rids @ e @ d) (out @ outs)"

abbreviation with_run :: "orch_step \<Rightarrow> string \<Rightarrow> orch_step" where
  "with_run st rid \<equiv> st\<lparr>os_run_id := Some rid, os_status := ''prepared''\<rparr>"

lemma writes_prepare:
  "writes (prepare_step (traced f) pk st (ds, x))
     (\<lambda>(ds', x') d. \<exists>rid. ds' = ds @ [with_run st rid] \<and> d = [Created (os_preset_id st) rid, Compiled rid (step_contract pk st)]
        \<and> ex_contracts x' = AList.update (os_step_id st) (step_contract pk st) (ex_contracts x) \<and> ex_steps x' = ex_steps x)"
  unfolding prepare_step_def Let_def
  apply simp
  apply (rule writes_ebind [OF writes_traced(1)])
  apply (rule writes_ebind [OF writes_compile])
  apply (rule writes_eret)
  apply auto
  done

lemma writes_prepare_group:
  "distinct (map os_step_id grp) \<Longrightarrow> writes (efold (prepare_step (traced f) pk) grp (ds, x))
     (\<lambda>(ds', x') d. \<exists>rids. length rids = length grp \<and> ds' = ds @ map2 with_run grp rids \<and> d = create_calls pk grp rids
        \<and> (\<forall>st\<in>set grp. map_of (ex_contracts x') (os_step_id st) = Some (step_contract pk st))
        \<and> (\<forall>i. i \<notin> os_step_id ` set grp \<longrightarrow> map_of (ex_contracts x') i = map_of (ex_contracts x) i)
        \<and> ex_steps x' = ex_steps x)"
proof (induction grp arbitrary: ds x)
  case (Cons st grp)
  let ?Q = "\<lambda>(ds', x') d. \<exists>rids. length rids = length (st # grp) \<and> ds' = ds @ map2 with_run (st # grp) rids \<and> d = create_calls pk (st # grp) rids
          \<and> (\<forall>st\<in>set (st # grp). map_of (ex_contracts x') (os_step_id st) = Some (step_contract pk st))
          \<and> (\<forall>i. i \<notin> os_step_id ` set (st # grp) \<longrightarrow> map_of (ex_contracts x') i = map_of (ex_contracts x) i)
          \<and> ex_steps x' = ex_steps x"
  show ?case
    unfolding efold.simps
  proof (rule writes_ebind [OF writes_prepare], clarify)
    fix x1 :: exec_state and rid
    assume x1: "ex_contracts x1 = AList.update (os_step_id st) (step_contract pk st) (ex_contracts x)" "ex_steps x1 = ex_steps x"
    have "distinct (map os_step_id grp)" "os_step_id st \<notin> os_step_id ` set grp" using Cons.prems by simp_all
    note IH = Cons.IH [OF this(1), of "ds @ [with_run st rid]" x1] and fresh = this(2)
    show "writes (efold (prepare_step (traced f) pk) grp (ds @ [with_run st rid], x1))
       (\<lambda>y e. ?Q y ([Created (os_preset_id st) rid, Compiled rid (step_contract pk st)] @ e))"
    proof (rule writes_mono [OF IH], clarify)
      fix x2 :: exec_state and rids :: "string list"
      assume len: "length rids = length grp"
        and c: "\<forall>st\<in>set grp. map_of (ex_contracts x2) (os_step_id st) = Some (step_contract pk st)"
        and o: "\<forall>i. i \<notin> os_step_id ` set grp \<longrightarrow> map_of (ex_contracts x2) i = map_of (ex_contracts x1) i"
        and s: "ex_steps x2 = ex_steps x1"
      have "map_of (ex_contracts x2) (os_step_id st) = Some (step_contract pk st)" using o fresh x1(1) by (simp add: update_conv)
      then show "\<exists>rids'. length rids' = length (st # grp) \<and> (ds @ [with_run st rid]) @ map2 with_run grp rids = ds @ map2 with_run (st # grp) rids'
          \<and> [Created (os_preset_id st) rid, Compiled rid (step_contract pk st)] @ create_calls pk grp rids = create_calls pk (st # grp) rids'
          \<and> (\<forall>st\<in>set (st # grp). map_of (ex_contracts x2) (os_step_id st) = Some (step_contract pk st))
          \<and> (\<forall>i. i \<notin> os_step_id ` set (st # grp) \<longrightarrow> map_of (ex_contracts x2) i = map_of (ex_contracts x) i)
          \<and> ex_steps x2 = ex_steps x"
        using len c o s x1 by (intro exI [of _ "rid # rids"]) (simp add: create_calls_def update_conv)
    qed
  qed
qed (auto simp: create_calls_def intro!: writes_eret)

lemma writes_finalize_group:
  "length rids = length sts \<Longrightarrow> (\<forall>st\<in>set sts. map_of (ex_contracts x) (os_step_id st) = Some (step_contract pk st)) \<Longrightarrow>
   writes (efold (finalize_step (traced f) pk) (map2 with_run sts rids) x)
     (\<lambda>x' d. \<exists>out. map (\<lambda>st. (os_run_id st, os_status st)) (ex_steps x') = map (\<lambda>st. (os_run_id st, os_status st)) (ex_steps x) @ out
        \<and> steps_run f pk sts rids d out)"
proof (induction rids sts arbitrary: x rule: list_induct2)
  case (Cons rid rids st sts)
  have c: "map_of (ex_contracts x) (os_step_id (with_run st rid)) = Some (step_contract pk (with_run st rid))"
    using Cons.prems by simp
  have r: "os_run_id (with_run st rid) = Some rid" by simp
  show ?case
    unfolding list.map zip_Cons_Cons prod.case efold.simps
  proof (rule writes_ebind [OF writes_finalize [OF c r]], elim conjE exE)
    fix x1 :: exec_state and d rid2 status2
    assume x1: "ex_contracts x1 = ex_contracts x" "ex_steps x1 = ex_steps x @ [(with_run st rid)\<lparr>os_run_id := Some rid2, os_status := status2\<rparr>]"
      and one: "step_run f pk (with_run st rid) rid d rid2 status2"
    have "\<forall>st\<in>set sts. map_of (ex_contracts x1) (os_step_id st) = Some (step_contract pk st)" using Cons.prems x1 by simp
    from Cons.IH [OF this] show "writes (efold (finalize_step (traced f) pk) (map2 with_run sts rids) x1)
      (\<lambda>y e. \<exists>out. map (\<lambda>st. (os_run_id st, os_status st)) (ex_steps y) = map (\<lambda>st. (os_run_id st, os_status st)) (ex_steps x) @ out
        \<and> steps_run f pk (st # sts) (rid # rids) (d @ e) out)"
    proof (rule writes_mono, elim exE conjE)
      fix y e out
      assume out: "map (\<lambda>st. (os_run_id st, os_status st)) (ex_steps y) = map (\<lambda>st. (os_run_id st, os_status st)) (ex_steps x1) @ out"
        and more: "steps_run f pk sts rids e out"
      show "\<exists>out. map (\<lambda>st. (os_run_id st, os_status st)) (ex_steps y) = map (\<lambda>st. (os_run_id st, os_status st)) (ex_steps x) @ out
        \<and> steps_run f pk (st # sts) (rid # rids) (d @ e) out"
        using out x1(2) next_step [OF step_run_update [OF one] more] by (intro exI [of _ "(Some rid2, status2) # out"]) simp
    qed
  qed
qed (auto intro!: writes_eret steps_run.intros)

lemma writes_resume: "writes (resume_group (traced f) pk rids) (\<lambda>_ d. d = resume_calls pk rids)"
  unfolding resume_group_def resume_calls_def
  by (auto split: list.splits intro!: writes_eret writes_ebind [OF writes_traced(3)] intro: writes_traced)

text \<open>The run and the status each executed step was left with.\<close>

abbreviation outcomes :: "orch_step list \<Rightarrow> (string option \<times> string) list" where
  "outcomes \<equiv> map (\<lambda>st. (os_run_id st, os_status st))"

lemma writes_group:
  assumes d: "distinct (map os_step_id grp)"
  shows "writes (execute_group (traced f) pk grp x)
    (\<lambda>x' d. \<exists>rids e out. length rids = length grp \<and> steps_run f pk grp rids e out \<and> d = create_calls pk grp rids @ resume_calls pk rids @ e
       \<and> outcomes (ex_steps x') = outcomes (ex_steps x) @ out)"
  unfolding execute_group_def Let_def
proof (rule writes_ebind [OF writes_prepare_group [OF d]], clarify)
  fix x1 :: exec_state and rids :: "string list"
  assume len: "length rids = length grp" and steps: "ex_steps x1 = ex_steps x"
    and c: "\<forall>st\<in>set grp. map_of (ex_contracts x1) (os_step_id st) = Some (step_contract pk st)"
  have ids: "map (\<lambda>st. str_or (os_run_id st) []) (map2 with_run grp rids) = rids"
    using len by (induction rids grp rule: list_induct2) (simp_all add: str_or_Some)
  show "writes (ebind (resume_group (traced f) pk (map (\<lambda>st. str_or (os_run_id st) []) ([] @ map2 with_run grp rids)))
          (\<lambda>results. ebind (efold (finalize_step (traced f) pk) ([] @ map2 with_run grp rids) x1)
             (\<lambda>x2. eret (release_barriers grp (map (\<lambda>st. str_or (os_run_id st) []) ([] @ map2 with_run grp rids)) results x2))))
      (\<lambda>x' d. \<exists>rids' e out. length rids' = length grp \<and> steps_run f pk grp rids' e out
          \<and> create_calls pk grp rids @ d = create_calls pk grp rids' @ resume_calls pk rids' @ e \<and> outcomes (ex_steps x') = outcomes (ex_steps x) @ out)"
    unfolding append_Nil ids
    apply (rule writes_ebind [OF writes_resume])
    apply (rule writes_ebind [OF writes_finalize_group [OF len c]])
    apply (rule writes_eret)
    using len steps by (auto simp: release_barriers_def Let_def)
qed

lemma writes_groups:
  "distinct (map os_step_id (concat gs)) \<Longrightarrow> writes (efold (execute_group (traced f) pk) gs x)
     (\<lambda>x' d. \<exists>out. groups_run f pk gs d out \<and> outcomes (ex_steps x') = outcomes (ex_steps x) @ out)"
proof (induction gs arbitrary: x)
  case Nil
  show ?case by (auto intro!: writes_eret groups_run.intros)
next
  case (Cons grp gs)
  have d: "distinct (map os_step_id grp)" "distinct (map os_step_id (concat gs))" using Cons.prems by auto
  show ?case
    unfolding efold.simps
  proof (rule writes_ebind [OF writes_group [OF d(1)]], elim exE conjE, hypsubst)
    fix x1 :: exec_state and rids e out
    assume len: "length rids = length grp" and one: "steps_run f pk grp rids e out"
      and o: "outcomes (ex_steps x1) = outcomes (ex_steps x) @ out"
    show "writes (efold (execute_group (traced f) pk) gs x1)
      (\<lambda>x' d. \<exists>out'. groups_run f pk (grp # gs) ((create_calls pk grp rids @ resume_calls pk rids @ e) @ d) out'
         \<and> outcomes (ex_steps x') = outcomes (ex_steps x) @ out')"
    proof (rule writes_mono [OF Cons.IH [OF d(2), of x1]], elim exE conjE)
      fix x' d out'
      assume more: "groups_run f pk gs d out'" and o': "outcomes (ex_steps x') = outcomes (ex_steps x1) @ out'"
      show "\<exists>out''. groups_run f pk (grp # gs) ((create_calls pk grp rids @ resume_calls pk rids @ e) @ d) out''
         \<and> outcomes (ex_steps x') = outcomes (ex_steps x) @ out''"
        using next_group [OF len one more] o o' by (intro exI [of _ "out @ out'"]) simp
    qed
  qed
qed

text \<open>The whole execution: what it wrote down, over the groups of the plan.\<close>

lemma execution_trace:
  assumes d: "distinct (map os_step_id (concat (group_steps plan)))" and run: "execute_plan f pk plan s = (s', Inr r)"
  shows "\<exists>log. execute_plan (traced f) pk plan (s, []) = ((s', log), Inr r)
     \<and> groups_run f pk (group_steps plan) log (outcomes (or_steps r))"
proof -
  obtain log where log: "execute_plan (traced f) pk plan (s, []) = ((s', log), Inr r)" using traced_execution [OF run] by blast
  have artifact: "writes (fa_write_artifact (traced f) content plan) (\<lambda>_ d. d = [])" for content by (simp add: traced_def writes_unwritten)
  have "writes (execute_plan (traced f) pk plan) (\<lambda>r d. groups_run f pk (group_steps plan) d (outcomes (or_steps r)))"
    unfolding execute_plan_def Let_def
    apply (rule writes_ebind [OF writes_groups [OF d]])
    apply (rule writes_ebind [OF artifact])
    apply (rule writes_eret)
    by (simp add: initial_exec_state_def)
  from writesD [OF this log] show ?thesis using log by auto
qed

end
