(* ===== verification/Execution_Properties.thy ===== *)
theory Execution_Properties
  imports Execution_Trace
begin

section \<open>What an execution reports\<close>

text \<open>
  An execution of a plan that returns has gone through its groups in the order of the sequence numbers:
  the runs of a group are created and compiled, resumed, and reviewed, a step that did not complete is
  run a second time on its fallback adapter; the report names each step with its last run and status.
\<close>

subsection \<open>The groups are the steps in order\<close>

lemma insort_set_Min:
  fixes S :: "'a::linorder set"
  assumes "finite S" "\<forall>y\<in>S. x \<le> y"
  shows "sorted_list_of_set (insert x S) = x # sorted_list_of_set (S - {x})"
  using assms by (simp add: sorted_list_of_set_nonempty Min_insert2 insert_Diff_if)

lemma groups_of_sorted:
  "sorted (map f xs) \<Longrightarrow> concat (map (\<lambda>n. filter (\<lambda>x. f x = n) xs) (sorted_list_of_set (f ` set xs))) = xs"
  for f :: "'a \<Rightarrow> 'b::linorder"
proof (induction xs)
  case (Cons x xs)
  have min: "\<forall>y\<in>f ` set xs. f x \<le> y" and sorted: "sorted (map f xs)" using Cons.prems by auto
  let ?rest = "sorted_list_of_set (f ` set xs - {f x})"
  have rest: "map (\<lambda>n. filter (\<lambda>y. f y = n) (x # xs)) ?rest = map (\<lambda>n. filter (\<lambda>y. f y = n) xs) ?rest"
    by (rule map_cong) auto
  have "concat (map (\<lambda>n. filter (\<lambda>y. f y = n) xs) (sorted_list_of_set (f ` set xs)))
      = filter (\<lambda>y. f y = f x) xs @ concat (map (\<lambda>n. filter (\<lambda>y. f y = n) xs) ?rest)"
  proof (cases "f x \<in> f ` set xs")
    case True
    then have "insert (f x) (f ` set xs) = f ` set xs" by auto
    then show ?thesis using insort_set_Min [OF _ min] by simp
  next
    case False
    then have "\<forall>y\<in>set xs. f y \<noteq> f x" by (metis imageI)
    then have "filter (\<lambda>y. f y = f x) xs = []" by (simp add: filter_empty_conv)
    then show ?thesis using False by simp
  qed
  then have all: "filter (\<lambda>y. f y = f x) xs @ concat (map (\<lambda>n. filter (\<lambda>y. f y = n) xs) ?rest) = xs"
    using Cons.IH [OF sorted] by simp
  have "sorted_list_of_set (f ` set (x # xs)) = f x # ?rest" using insort_set_Min [OF _ min] by simp
  then have "concat (map (\<lambda>n. filter (\<lambda>y. f y = n) (x # xs)) (sorted_list_of_set (f ` set (x # xs))))
      = filter (\<lambda>y. f y = f x) (x # xs) @ concat (map (\<lambda>n. filter (\<lambda>y. f y = n) (x # xs)) ?rest)"
    by (simp only: list.map concat.simps)
  then show ?case using all unfolding rest by simp
qed simp

lemma group_steps_concat: "concat (group_steps p) = sorted_steps p"
proof -
  have "sorted (map step_key (sorted_steps p))" by (simp add: sorted_steps_def)
  then have "sorted (map fst (map step_key (sorted_steps p)))"
    by (auto simp: sorted_wrt_map less_eq_prod_def sorted_map elim!: sorted_wrt_mono_rel [rotated])
  then have "sorted (map os_sequence_no (sorted_steps p))" by (simp add: comp_def step_key_def)
  then show ?thesis using groups_of_sorted [of os_sequence_no "sorted_steps p"] by (simp add: group_steps_def sorted_steps_def)
qed

subsection \<open>One group\<close>

text \<open>What of a step the execution leaves alone.\<close>

definition step_core :: "orch_step \<Rightarrow> orch_step" where
  "step_core st = st\<lparr>os_run_id := None, os_status := []\<rparr>"

lemma step_core_update [simp]: "step_core (st\<lparr>os_run_id := r, os_status := x\<rparr>) = step_core st"
  by (simp add: step_core_def)

lemma core_fields:
  "map step_core xs = map step_core ys \<Longrightarrow> map os_step_id xs = map os_step_id ys \<and> map os_barrier_id xs = map os_barrier_id ys
     \<and> map os_role xs = map os_role ys"
proof (induction xs arbitrary: ys)
  case (Cons x xs)
  then obtain y ys' where y: "ys = y # ys'" "step_core x = step_core y" "map step_core xs = map step_core ys'" by auto
  have "os_step_id x = os_step_id y \<and> os_barrier_id x = os_barrier_id y \<and> os_role x = os_role y"
    using y(2) by (cases x; cases y) (simp add: step_core_def)
  then show ?case using Cons.IH [OF y(3)] y(1) by simp
qed simp

text \<open>A child entry and the step it reports agree on the run and the status.\<close>

definition reports :: "child_run list \<Rightarrow> orch_step \<Rightarrow> bool" where
  "reports cs st \<longleftrightarrow> (\<forall>c\<in>set cs. ch_step_id c = os_step_id st \<longrightarrow> os_run_id st = Some (ch_run_id c) \<and> ch_status c = os_status st)"

lemma reports_update:
  "reports (ex_children x) st \<Longrightarrow> os_step_id st \<noteq> sid \<Longrightarrow> (\<And>c. ch_step_id (g c) = ch_step_id c) \<Longrightarrow>
     reports (ex_children (update_children sid g x)) st"
  by (auto simp: reports_def update_children_def)

lemma update_children_ids: "(\<And>c. ch_step_id (g c) = ch_step_id c) \<Longrightarrow>
    map ch_step_id (ex_children (update_children sid g x)) = map ch_step_id (ex_children x)"
  by (simp add: update_children_def)

lemma update_children_frame [simp]:
  "ex_steps (update_children sid g x) = ex_steps x" "ex_barriers (update_children sid g x) = ex_barriers x"
  "ex_batches (update_children sid g x) = ex_batches x" "ex_prior (update_children sid g x) = ex_prior x"
  "ex_progress (update_children sid g x) = ex_progress x" "ex_contracts (update_children sid g x) = ex_contracts x"
  by (simp_all add: update_children_def)

lemma prepare_stepD:
  assumes "prepare_step f pk st (done_steps, x) s = (s', Inr (done', x'))"
  shows "\<exists>rid c. done' = done_steps @ [st\<lparr>os_run_id := Some rid, os_status := ''prepared''\<rparr>]
     \<and> ex_children x' = ex_children x @ [c] \<and> ch_step_id c = os_step_id st \<and> ch_run_id c = rid \<and> ch_status c = ''prepared''
     \<and> ex_steps x' = ex_steps x \<and> ex_barriers x' = ex_barriers x \<and> ex_progress x' = ex_progress x"
  using assms by (auto simp: prepare_step_def Let_def ebind_Inr)

lemma recover_stepD:
  assumes "recover_step f pk st rid status c x s = (s', Inr (rid', status', x'))"
  shows "\<exists>t. x' = update_children (os_step_id st) (\<lambda>ch. ch\<lparr>ch_run_id := rid', ch_runtime_task_id := t\<rparr>) x"
  using assms by (auto simp: recover_step_def ebind_Inr)

lemma finalize_stepD:
  assumes run: "finalize_step f pk st x s = (s', Inr x')" and rid: "os_run_id st = Some r0" and rep: "reports (ex_children x) st"
  shows "\<exists>rid status. ex_steps x' = ex_steps x @ [st\<lparr>os_run_id := Some rid, os_status := status\<rparr>]
     \<and> map ch_step_id (ex_children x') = map ch_step_id (ex_children x)
     \<and> reports (ex_children x') (st\<lparr>os_run_id := Some rid, os_status := status\<rparr>)
     \<and> (\<forall>st'. os_step_id st' \<noteq> os_step_id st \<longrightarrow> reports (ex_children x) st' \<longrightarrow> reports (ex_children x') st')
     \<and> ex_barriers x' = ex_barriers x
     \<and> (\<exists>report. ex_progress x' = AList.update (role_name (os_role st))
          \<lparr>rp_status = status, rp_run_id = Some rid, rp_barrier_id = os_barrier_id st, rp_role_label = os_role_label st,
           rp_mutation_report = report\<rparr> (ex_progress x))"
proof -
  let ?c = "case map_of (ex_contracts x) (os_step_id st) of None \<Rightarrow> None | Some c \<Rightarrow> c"
  obtain status s1 rid' status' x1 s2 report s3 where
    mid: "(if \<not> wants_fallback st status then eret (r0, status, x)
           else if \<not> adapter_can_satisfy f (os_fallback_adapter st) ?c
           then eret (r0, status, update_children (os_step_id st) (\<lambda>ch. ch\<lparr>ch_fallback_blocked := os_fallback_adapter st\<rparr>) x)
           else recover_step f pk st r0 status ?c x) s1 = (s2, Inr (rid', status', x1))"
    and x': "x' = (update_children (os_step_id st)
                    (\<lambda>ch. ch\<lparr>ch_status := status',
                             ch_mutation_report := (case report of None \<Rightarrow> ch_mutation_report ch | Some r \<Rightarrow> Some r)\<rparr>) x1)
                 \<lparr>ex_progress :=
                    AList.update (role_name (os_role st))
                      \<lparr>rp_status = status', rp_run_id = Some rid', rp_barrier_id = os_barrier_id st,
                       rp_role_label = os_role_label st, rp_mutation_report = report\<rparr> (ex_progress x1),
                  ex_prior := (if rid' \<noteq> [] then ex_prior x1 @ [rid'] else ex_prior x1),
                  ex_steps := ex_steps x1 @ [st\<lparr>os_run_id := Some rid', os_status := status'\<rparr>]\<rparr>"
    using run by (auto simp: finalize_step_def Let_def ebind_Inr rid str_or_Some split del: if_split)
  obtain g where x1: "x1 = update_children (os_step_id st) g x" and g: "\<And>c. ch_step_id (g c) = ch_step_id c"
    and gr: "\<forall>c\<in>set (ex_children x). ch_step_id c = os_step_id st \<longrightarrow> ch_run_id (g c) = rid'"
  proof -
    have id: "x = update_children (os_step_id st) (\<lambda>c. c) x" by (simp add: update_children_def)
    have r0: "\<forall>c\<in>set (ex_children x). ch_step_id c = os_step_id st \<longrightarrow> ch_run_id c = r0" using rep rid by (auto simp: reports_def)
    consider "x1 = x" "rid' = r0"
      | "x1 = update_children (os_step_id st) (\<lambda>ch. ch\<lparr>ch_fallback_blocked := os_fallback_adapter st\<rparr>) x" "rid' = r0"
      | t where "x1 = update_children (os_step_id st) (\<lambda>ch. ch\<lparr>ch_run_id := rid', ch_runtime_task_id := t\<rparr>) x"
      using mid recover_stepD [of f pk st r0 status ?c x s1 s2 rid' status' x1] by (auto split: if_splits)
    then show thesis
    proof cases
      case 1
      then show thesis using that [of "\<lambda>c. c"] id r0 by simp
    next
      case 2
      then show thesis using that [of "\<lambda>ch. ch\<lparr>ch_fallback_blocked := os_fallback_adapter st\<rparr>"] r0 by simp
    next
      case 3
      then show thesis using that [of "\<lambda>ch. ch\<lparr>ch_run_id := rid', ch_runtime_task_id := t\<rparr>"] by simp
    qed
  qed
  let ?h = "\<lambda>ch. ch\<lparr>ch_status := status', ch_mutation_report := (case report of None \<Rightarrow> ch_mutation_report ch | Some r \<Rightarrow> Some r)\<rparr>"
  have kids: "ex_children x' = map (\<lambda>c. if ch_step_id c = os_step_id st then ?h (g c) else c) (ex_children x)"
    using g by (auto simp: x' x1 update_children_def)
  have new: "reports (ex_children x') (st\<lparr>os_run_id := Some rid', os_status := status'\<rparr>)"
    using gr g by (auto simp: kids reports_def)
  have others: "os_step_id st' \<noteq> os_step_id st \<Longrightarrow> reports (ex_children x) st' \<Longrightarrow> reports (ex_children x') st'" for st'
    using g by (auto simp: kids reports_def)
  have ids: "map ch_step_id (ex_children x') = map ch_step_id (ex_children x)" using g by (auto simp: kids)
  show ?thesis using new others ids by (intro exI [of _ rid'] exI [of _ status']) (auto simp: x' x1)
qed

definition matches :: "orch_step \<Rightarrow> child_run \<Rightarrow> bool" where
  "matches st c \<longleftrightarrow> ch_step_id c = os_step_id st \<and> os_run_id st = Some (ch_run_id c) \<and> ch_status c = os_status st"

lemma prepare_group:
  assumes "efold (prepare_step f pk) grp ([], x) s = (s', Inr (ds, y))"
  shows "map step_core ds = map step_core grp
     \<and> (\<exists>new. ex_children y = ex_children x @ new \<and> list_all2 matches ds new)
     \<and> ex_steps y = ex_steps x \<and> ex_barriers y = ex_barriers x \<and> ex_progress y = ex_progress x"
proof -
  let ?Q = "\<lambda>ys (d, y). map step_core d = map step_core ys
     \<and> (\<exists>new. ex_children y = ex_children x @ new \<and> list_all2 matches d new)
     \<and> ex_steps y = ex_steps x \<and> ex_barriers y = ex_barriers x \<and> ex_progress y = ex_progress x"
  have "?Q grp (ds, y)"
  proof (rule efold_rule [OF assms, where Q = ?Q])
    fix ys st zs b t t' b'
    assume q: "?Q ys b" and one: "prepare_step f pk st b t = (t', Inr b')"
    obtain d z where b: "b = (d, z)" by (cases b)
    obtain d' z' where b': "b' = (d', z')" by (cases b')
    obtain rid c where p: "d' = d @ [st\<lparr>os_run_id := Some rid, os_status := ''prepared''\<rparr>]"
      "ex_children z' = ex_children z @ [c]" "ch_step_id c = os_step_id st" "ch_run_id c = rid" "ch_status c = ''prepared''"
      "ex_steps z' = ex_steps z" "ex_barriers z' = ex_barriers z" "ex_progress z' = ex_progress z"
      using prepare_stepD [OF one [unfolded b b']] by blast
    obtain new where new: "ex_children z = ex_children x @ new" "list_all2 matches d new" using q b by auto
    have "list_all2 matches d' (new @ [c])" using new(2) p by (auto simp: matches_def intro!: list_all2_appendI)
    then show "?Q (ys @ [st]) b'" using q p new(1) b b' by auto
  qed simp
  then show ?thesis by simp
qed

lemma matches_reports:
  assumes "list_all2 matches ds new" and "distinct (map os_step_id ds)" and "st \<in> set ds"
    and "\<forall>c\<in>set old. ch_step_id c \<noteq> os_step_id st"
  shows "reports (old @ new) st"
proof -
  have "\<forall>c\<in>set new. ch_step_id c = os_step_id st \<longrightarrow> os_run_id st = Some (ch_run_id c) \<and> ch_status c = os_status st"
    using assms(1-3)
  proof (induction ds new rule: list_all2_induct)
    case (Cons d ds c cs)
    have ids: "map ch_step_id cs = map os_step_id ds"
      using Cons.hyps(2) by (induction rule: list_all2_induct) (simp_all add: matches_def)
    show ?case
    proof (cases "st = d")
      case True
      then have "os_step_id st \<notin> ch_step_id ` set cs" using Cons.prems(1) arg_cong [OF ids, of set] by simp
      then show ?thesis using True Cons.hyps(1) by (auto simp: matches_def image_iff)
    next
      case False
      then have "st \<in> set ds" using Cons.prems(2) by simp
      moreover have "ch_step_id c \<noteq> os_step_id st"
      proof -
        have "os_step_id st \<in> os_step_id ` set ds" using \<open>st \<in> set ds\<close> by (rule imageI)
        then show ?thesis using Cons.prems(1) Cons.hyps(1) by (auto simp: matches_def)
      qed
      ultimately show ?thesis using Cons.IH Cons.prems(1) by simp
    qed
  qed simp
  then show ?thesis using assms(4) by (auto simp: reports_def)
qed

text \<open>Progress is kept per role: that of the last step with the role.\<close>

definition progress_ok :: "exec_state \<Rightarrow> bool" where
  "progress_ok x \<longleftrightarrow>
     (\<forall>r. map_option (\<lambda>p. (rp_status p, rp_run_id p)) (map_of (ex_progress x) (role_name r))
          = map_option (\<lambda>st. (os_status st, os_run_id st)) (sql_first (\<lambda>st. os_role st = r) (rev (ex_steps x))))"

lemma role_name_inj [simp]: "role_name a = role_name b \<longleftrightarrow> a = b"
  by (cases a; cases b) simp_all

lemma progress_step:
  assumes "progress_ok x" and "ex_steps x' = ex_steps x @ [st']" and "os_role st' = os_role st"
    and "ex_progress x' = AList.update (role_name (os_role st)) p (ex_progress x)"
    and "rp_status p = os_status st'" and "rp_run_id p = os_run_id st'"
  shows "progress_ok x'"
  using assms by (auto simp: progress_ok_def update_conv sql_first_def)

lemma finalize_group:
  assumes run: "efold (finalize_step f pk) ds y s = (s', Inr z)"
    and d: "distinct (map os_step_id (ex_steps y @ ds))" and rid: "\<forall>st\<in>set ds. os_run_id st \<noteq> None"
    and rep: "\<forall>st\<in>set (ex_steps y @ ds). reports (ex_children y) st" and prog: "progress_ok y"
  shows "map step_core (ex_steps z) = map step_core (ex_steps y @ ds) \<and> map ch_step_id (ex_children z) = map ch_step_id (ex_children y)
     \<and> (\<forall>st\<in>set (ex_steps z). reports (ex_children z) st) \<and> ex_barriers z = ex_barriers y \<and> progress_ok z"
proof -
  let ?Q = "\<lambda>ys z. map step_core (ex_steps z) = map step_core (ex_steps y @ ys) \<and> map ch_step_id (ex_children z) = map ch_step_id (ex_children y)
     \<and> (\<forall>st\<in>set (ex_steps z). reports (ex_children z) st)
     \<and> (\<forall>st\<in>set ds. os_step_id st \<notin> set (map os_step_id ys) \<longrightarrow> reports (ex_children z) st)
     \<and> ex_barriers z = ex_barriers y \<and> progress_ok z"
  have "?Q ds z"
  proof (rule efold_rule [OF run, where Q = ?Q])
    show "?Q [] y" using rep prog by simp
    fix ys st zs b t t' b'
    assume ds: "ds = ys @ st # zs" and q: "?Q ys b" and one: "finalize_step f pk st b t = (t', Inr b')"
    have st: "os_step_id st \<notin> set (map os_step_id ys)" "os_step_id st \<notin> set (map os_step_id (ex_steps y))" using d ds by auto
    obtain r0 where r0: "os_run_id st = Some r0" using rid ds by auto
    have "reports (ex_children b) st" using q st(1) ds by simp
    then obtain rid' status report where f: "ex_steps b' = ex_steps b @ [st\<lparr>os_run_id := Some rid', os_status := status\<rparr>]"
      "map ch_step_id (ex_children b') = map ch_step_id (ex_children b)"
      "reports (ex_children b') (st\<lparr>os_run_id := Some rid', os_status := status\<rparr>)"
      "\<forall>st'. os_step_id st' \<noteq> os_step_id st \<longrightarrow> reports (ex_children b) st' \<longrightarrow> reports (ex_children b') st'"
      "ex_barriers b' = ex_barriers b"
      "ex_progress b' = AList.update (role_name (os_role st))
          \<lparr>rp_status = status, rp_run_id = Some rid', rp_barrier_id = os_barrier_id st, rp_role_label = os_role_label st,
           rp_mutation_report = report\<rparr> (ex_progress b)"
      using finalize_stepD [OF one r0] by blast
    have "map os_step_id (ex_steps b) = map os_step_id (ex_steps y @ ys)" using core_fields q by blast
    then have "os_step_id st \<notin> os_step_id ` set (ex_steps b)" using st by (metis Un_iff list.set_map map_append set_append)
    then have "\<forall>st'\<in>set (ex_steps b). reports (ex_children b') st'" using q f(4) by (metis imageI)
    moreover have "progress_ok b'" by (rule progress_step [OF _ f(1) _ f(6)]) (use q in simp_all)
    ultimately show "?Q (ys @ [st]) b'" using q f by auto
  qed
  then show ?thesis by blast
qed

subsection \<open>All groups\<close>

definition exec_inv :: "orch_plan \<Rightarrow> orch_step list \<Rightarrow> exec_state \<Rightarrow> bool" where
  "exec_inv plan ss x \<longleftrightarrow>
     map step_core (ex_steps x) = map step_core ss \<and> map ch_step_id (ex_children x) = map os_step_id ss
     \<and> (\<forall>st\<in>set (ex_steps x). reports (ex_children x) st) \<and> progress_ok x
     \<and> map ob_barrier_id (ex_barriers x) = map ob_barrier_id (op_barriers plan)
     \<and> (\<forall>b\<in>set (ex_barriers x). (\<exists>st\<in>set ss. os_barrier_id st = Some (ob_barrier_id b)) \<and> ob_barrier_id b \<noteq> []
           \<longrightarrow> ob_status b = ''released'')"

lemma barriers_frame [simp]:
  "ex_steps (release_barriers grp rids res x) = ex_steps x" "ex_children (release_barriers grp rids res x) = ex_children x"
  "ex_progress (release_barriers grp rids res x) = ex_progress x"
  by (simp_all add: release_barriers_def Let_def)

lemma map_filter_mem: "y \<in> set (List.map_filter g xs) \<longleftrightarrow> (\<exists>x\<in>set xs. g x = Some y)"
  by (force simp: List.map_filter_def)

lemma release_barriers_released:
  assumes "rids \<noteq> []" and b: "b \<in> set (ex_barriers (release_barriers grp rids res x))"
  shows "(\<exists>b0\<in>set (ex_barriers x). ob_barrier_id b = ob_barrier_id b0
           \<and> (if (\<exists>st\<in>set grp. os_barrier_id st = Some (ob_barrier_id b)) \<and> ob_barrier_id b \<noteq> []
              then ob_status b = ''released'' else b = b0))"
proof -
  have pt: "(case o1 of Some b \<Rightarrow> if b \<noteq> [] then Some b else None | None \<Rightarrow> None) = Some i \<longleftrightarrow> o1 = Some i \<and> i \<noteq> []" for o1 and i :: string
    by (cases o1) auto
  have named: "i \<in> set (named_barriers grp) \<longleftrightarrow> (\<exists>st\<in>set grp. os_barrier_id st = Some i) \<and> i \<noteq> []" for i
    unfolding named_barriers_def map_filter_mem pt by blast
  have "ex_barriers (release_barriers grp rids res x)
      = map (\<lambda>b. if ob_barrier_id b \<in> set (named_barriers grp) then b\<lparr>ob_status := ''released''\<rparr> else b) (ex_barriers x)"
    using assms(1) by (simp add: release_barriers_def Let_def)
  then obtain b0 where b0: "b0 \<in> set (ex_barriers x)"
    "b = (if ob_barrier_id b0 \<in> set (named_barriers grp) then b0\<lparr>ob_status := ''released''\<rparr> else b0)"
    using b by auto
  have id: "ob_barrier_id b = ob_barrier_id b0" using b0(2) by simp
  have "if ob_barrier_id b \<in> set (named_barriers grp) then ob_status b = ''released'' else b = b0" using b0(2) by simp
  then show ?thesis using b0(1) id unfolding named by blast
qed

lemma execute_group_inv:
  assumes inv: "exec_inv plan ss x" and run: "execute_group f pk grp x s = (s', Inr x')"
    and ne: "grp \<noteq> []" and d: "distinct (map os_step_id (ss @ grp))"
  shows "exec_inv plan (ss @ grp) x'"
proof -
  obtain ds y s1 res s2 z where prep: "efold (prepare_step f pk) grp ([], x) s = (s1, Inr (ds, y))"
    and fin: "efold (finalize_step f pk) ds y s2 = (s', Inr z)"
    and x': "x' = release_barriers grp (map (\<lambda>st. str_or (os_run_id st) []) ds) res z"
    using run by (auto simp: execute_group_def ebind_Inr Let_def)
  obtain new where new: "ex_children y = ex_children x @ new" "list_all2 matches ds new" and core: "map step_core ds = map step_core grp"
    and frame: "ex_steps y = ex_steps x" "ex_barriers y = ex_barriers x" "ex_progress y = ex_progress x"
    using prepare_group [OF prep] by blast
  have ids: "map os_step_id ds = map os_step_id grp" "map os_step_id (ex_steps x) = map os_step_id ss"
    using core_fields core inv unfolding exec_inv_def by blast+
  have new_ids: "map ch_step_id new = map os_step_id ds"
    using new(2) by (induction rule: list_all2_induct) (simp_all add: matches_def)
  have dd: "distinct (map os_step_id (ex_steps y @ ds))" using d ids frame by simp
  have some: "\<forall>st\<in>set ds. os_run_id st \<noteq> None" using new(2) by (induction rule: list_all2_induct) (auto simp: matches_def)
  have old: "set (map ch_step_id (ex_children x)) = set (map os_step_id ss)" using inv unfolding exec_inv_def by metis
  have rep: "\<forall>st\<in>set (ex_steps y @ ds). reports (ex_children y) st"
  proof
    fix st assume st: "st \<in> set (ex_steps y @ ds)"
    show "reports (ex_children y) st"
    proof (cases "st \<in> set ds")
      case True
      then have "os_step_id st \<in> set (map os_step_id grp)" using ids(1) by (metis image_eqI list.set_map)
      then have "os_step_id st \<notin> set (map ch_step_id (ex_children x))" unfolding old using d by auto
      then have "\<forall>c\<in>set (ex_children x). ch_step_id c \<noteq> os_step_id st" by force
      then show ?thesis unfolding new(1) using matches_reports [OF new(2) _ True] dd by simp
    next
      case False
      then have m: "st \<in> set (ex_steps x)" using st frame by simp
      then have "os_step_id st \<in> set (map os_step_id ss)" using ids(2) by (metis image_eqI list.set_map)
      then have "os_step_id st \<notin> set (map os_step_id grp)" using d by auto
      then have "os_step_id st \<notin> set (map ch_step_id new)" unfolding new_ids ids(1) .
      moreover have "reports (ex_children x) st" using inv m by (simp add: exec_inv_def)
      moreover have "\<forall>c\<in>set new. ch_step_id c \<noteq> os_step_id st" using calculation(1) by force
      ultimately show ?thesis by (auto simp: reports_def new(1))
    qed
  qed
  have prog: "progress_ok y" using inv frame by (simp add: exec_inv_def progress_ok_def)
  have z: "map step_core (ex_steps z) = map step_core (ex_steps y @ ds)" "map ch_step_id (ex_children z) = map ch_step_id (ex_children y)"
    "\<forall>st\<in>set (ex_steps z). reports (ex_children z) st" "ex_barriers z = ex_barriers y" "progress_ok z"
    using finalize_group [OF fin dd some rep prog] by blast+
  have rids: "map (\<lambda>st. str_or (os_run_id st) []) ds \<noteq> []" using ne ids(1) by (cases ds) auto
  have barriers: "ob_status b = ''released''"
    if b: "b \<in> set (ex_barriers x')" and named: "\<exists>st\<in>set (ss @ grp). os_barrier_id st = Some (ob_barrier_id b)" "ob_barrier_id b \<noteq> []" for b
  proof -
    obtain b0 where b0: "b0 \<in> set (ex_barriers x)" "ob_barrier_id b = ob_barrier_id b0"
      "if (\<exists>st\<in>set grp. os_barrier_id st = Some (ob_barrier_id b)) \<and> ob_barrier_id b \<noteq> [] then ob_status b = ''released'' else b = b0"
      using release_barriers_released [OF rids b [unfolded x']] z(4) frame(2) by metis
    show ?thesis
    proof (cases "\<exists>st\<in>set grp. os_barrier_id st = Some (ob_barrier_id b)")
      case True
      then show ?thesis using b0(3) named(2) by simp
    next
      case False
      then have "b = b0" "\<exists>st\<in>set ss. os_barrier_id st = Some (ob_barrier_id b)" using b0(3) named(1) by auto
      then show ?thesis using inv b0(1) named(2) by (simp add: exec_inv_def)
    qed
  qed
  have bids: "map ob_barrier_id (ex_barriers x') = map ob_barrier_id (op_barriers plan)"
  proof -
    have "map ob_barrier_id (ex_barriers x') = map ob_barrier_id (ex_barriers z)" by (simp add: x' release_barriers_def Let_def comp_def if_distrib cong: if_cong)
    then show ?thesis using z(4) frame(2) inv by (simp add: exec_inv_def)
  qed
  have kids: "map ch_step_id (ex_children x') = map os_step_id (ss @ grp)"
    using z(2) new(1) new_ids ids(1) inv by (simp add: x' exec_inv_def)
  have steps: "map step_core (ex_steps x') = map step_core (ss @ grp)"
    using z(1) frame(1) core inv by (simp add: x' exec_inv_def)
  have "progress_ok x'" using z(5) by (simp add: x' progress_ok_def)
  then show ?thesis using kids steps bids barriers z(3) unfolding exec_inv_def by (simp add: x')
qed

lemma exec_inv_initial: "exec_inv plan [] (initial_exec_state plan)"
  by (simp add: exec_inv_def initial_exec_state_def progress_ok_def)

lemma group_nonempty: "grp \<in> set (group_steps p) \<Longrightarrow> grp \<noteq> []"
  by (auto simp: group_steps_def sorted_steps_def filter_empty_conv)

lemma execute_groups_inv:
  assumes d: "distinct (map os_step_id (op_steps plan))"
    and run: "efold (execute_group f pk) (group_steps plan) (initial_exec_state plan) s = (s', Inr x)"
  shows "exec_inv plan (sorted_steps plan) x"
proof -
  have ds: "distinct (map os_step_id (sorted_steps plan))"
    using d by (simp add: distinct_map sorted_steps_def)
  have "exec_inv plan (concat (group_steps plan)) x"
  proof (rule efold_rule [OF run, where Q = "\<lambda>gs x. exec_inv plan (concat gs) x"])
    fix ys grp zs b t t' b'
    assume split: "group_steps plan = ys @ grp # zs" and inv: "exec_inv plan (concat ys) b"
      and one: "execute_group f pk grp b t = (t', Inr b')"
    have "sorted_steps plan = (concat ys @ grp) @ concat zs"
      using arg_cong [OF split, of concat] by (simp add: group_steps_concat)
    then have "distinct (map os_step_id (concat ys @ grp))" using ds by (metis distinct_append map_append)
    moreover have "grp \<noteq> []" using split group_nonempty [of grp plan] by simp
    ultimately have "exec_inv plan (concat ys @ grp) b'" using execute_group_inv [OF inv one] by blast
    then show "exec_inv plan (concat (ys @ [grp])) b'" by simp
  qed (simp add: exec_inv_initial)
  then show ?thesis by (simp add: group_steps_concat)
qed

lemma reports_all:
  assumes "distinct (map os_step_id ss)" and "map ch_step_id cs = map os_step_id ss" and "\<forall>st\<in>set ss. reports cs st"
  shows "list_all2 matches ss cs"
proof (rule list_all2_all_nthI)
  show len: "length ss = length cs" using assms(2) by (metis length_map)
  fix i assume i: "i < length ss"
  then have id: "ch_step_id (cs ! i) = os_step_id (ss ! i)" using assms(2) len by (metis nth_map)
  have "reports cs (ss ! i)" using assms(3) i by simp
  then show "matches (ss ! i) (cs ! i)" using id i len by (auto simp: reports_def matches_def)
qed

subsection \<open>The report\<close>

text \<open>C30: an execution that returns has made, for each group of the plan in the order of the sequence numbers, exactly these calls
  on the facade (\<open>groups_run\<close>): it created and compiled one run per step in the order of the steps, the contract going only to
  coders, resumed these runs, a single one alone and several in one call, and then read the status of each, approving a run only
  if it awaited a review; exactly the steps that did not complete and have another adapter that can take them were run a second
  time, created, compiled, resumed and reviewed. The report has one child entry per step with the run and the status that its last
  review gave, the return code is 0 exactly when every step was left completed, and the progress of a role is that of its last
  step. The calls are those written down by the traced facade, over which the execution does the same.\<close>

theorem execution_reports_every_step:
  assumes d: "distinct (map os_step_id (op_steps plan))" and run: "execute_plan f pk plan s = (s', Inr r)"
  shows "(\<exists>log. execute_plan (traced f) pk plan (s, []) = ((s', log), Inr r)
          \<and> groups_run f pk (group_steps plan) log (outcomes (or_steps r)))
     \<and> map step_core (or_steps r) = map step_core (sorted_steps plan)
     \<and> list_all2 matches (or_steps r) (or_children r)
     \<and> (or_return_code r = 0 \<longleftrightarrow> (\<forall>st\<in>set (or_steps r). os_status st = ''completed''))
     \<and> (\<forall>role. map_option (\<lambda>p. (rp_status p, rp_run_id p)) (map_of (or_role_progress r) (role_name role))
          = map_option (\<lambda>st. (os_status st, os_run_id st)) (sql_first (\<lambda>st. os_role st = role) (rev (or_steps r))))"
proof -
  obtain x s1 where x: "efold (execute_group f pk) (group_steps plan) (initial_exec_state plan) s = (s1, Inr x)"
    and r: "or_children r = ex_children x" "or_steps r = ex_steps x" "or_role_progress r = ex_progress x"
      "or_return_code r = (if list_all (\<lambda>c. ch_status c = ''completed'') (ex_children x) then 0 else 1)"
    using run by (auto simp: execute_plan_def ebind_Inr Let_def)
  note inv = execute_groups_inv [OF d x, unfolded exec_inv_def]
  have ids: "map os_step_id (ex_steps x) = map os_step_id (sorted_steps plan)" using core_fields inv by blast
  have "distinct (map os_step_id (ex_steps x))" using d by (simp add: ids distinct_map sorted_steps_def)
  then have m: "list_all2 matches (ex_steps x) (ex_children x)" using reports_all ids inv by metis
  then have "list_all (\<lambda>c. ch_status c = ''completed'') (ex_children x) \<longleftrightarrow> (\<forall>st\<in>set (ex_steps x). os_status st = ''completed'')"
    by (induction rule: list_all2_induct) (auto simp: matches_def)
  moreover have "distinct (map os_step_id (concat (group_steps plan)))"
    using d by (simp add: group_steps_concat distinct_map sorted_steps_def)
  note execution_trace [OF this run]
  ultimately show ?thesis using inv m by (auto simp: r progress_ok_def)
qed

text \<open>A barrier of the plan is reported released once the steps that name it have run, whatever became of them, although the
  plan graph states \<open>all_success\<close> as its release condition; the groups after it are executed all the same.\<close>

theorem barriers_released_regardless:
  assumes d: "distinct (map os_step_id (op_steps plan))" and run: "execute_plan f pk plan s = (s', Inr r)"
  shows "map ob_barrier_id (or_barriers r) = map ob_barrier_id (op_barriers plan)
     \<and> (\<forall>b\<in>set (or_barriers r). ob_barrier_id b \<noteq> [] \<and> (\<exists>st\<in>set (op_steps plan). os_barrier_id st = Some (ob_barrier_id b))
          \<longrightarrow> ob_status b = ''released'')
     \<and> length (or_steps r) = length (op_steps plan)"
proof -
  obtain x s1 where x: "efold (execute_group f pk) (group_steps plan) (initial_exec_state plan) s = (s1, Inr x)"
    and r: "or_barriers r = ex_barriers x" "or_steps r = ex_steps x"
    using run by (auto simp: execute_plan_def ebind_Inr Let_def)
  note inv = execute_groups_inv [OF d x, unfolded exec_inv_def]
  have "set (sorted_steps plan) = set (op_steps plan)" "length (sorted_steps plan) = length (op_steps plan)"
    by (simp_all add: sorted_steps_def)
  moreover have "length (ex_steps x) = length (sorted_steps plan)" using inv by (metis length_map)
  ultimately show ?thesis using inv by (auto simp: r)
qed

subsection \<open>A demonstration facade\<close>

text \<open>The state counts the runs created; the runs of a list end as failed, all others as completed.\<close>

definition demo_calls :: "string list \<Rightarrow> nat facade" where
  "demo_calls failing =
     \<lparr>fa_plan = demo_facade, fa_router = \<lparr>cr_templates = list_default_cluster_templates, cr_markers = [], cr_dynamic = False\<rparr>,
      fa_supports_patch = (\<lambda>a. a = ''codex''), fa_default_patch_adapter = Some ''codex'',
      fa_create_run = (\<lambda>goal preset n. (Suc n, Inr (''run_'' @ show_nat n))),
      fa_compile_run = (\<lambda>q n. (n, Inr \<lparr>cp_runtime_task_id = ''task_'' @ cq_run_id q, cp_mutation_contract = None\<rparr>)),
      fa_resume_run = (\<lambda>rid receipt n. (n, Inr ())), fa_resume_runs_parallel = (\<lambda>rids k receipt n. (n, Inr [])),
      fa_run_status = (\<lambda>rid n. (n, Inr (if rid \<in> set failing then ''failed'' else ''completed''))),
      fa_latest_decision = (\<lambda>rid n. (n, Inr None)), fa_latest_return_code = (\<lambda>rid n. (n, Inr None)),
      fa_approve = (\<lambda>rid why n. (n, Inr ''completed'')), fa_reject = (\<lambda>rid why n. (n, Inr ''failed'')),
      fa_mutation_report = (\<lambda>rid n. (n, Inr None)), fa_write_artifact = (\<lambda>text plan n. (n, Inr []))\<rparr>"

definition demo_packet :: packet where
  "demo_packet =
     \<lparr>pk_plan = Some demo_plan, pk_preset_id = None, pk_run_id = ''r'', pk_goal = ''ship it'', pk_contract = None, pk_receipt = None\<rparr>"

text \<open>The implementer's run and its fallback run fail: the barrier is released and the reviewer runs.\<close>

definition demo_result :: "nat \<times> (werror + orch_result)" where
  "demo_result = execute_plan (demo_calls [''run_1'', ''run_3'', ''run_4'']) demo_packet demo_plan 0"

lemma demo_steps_distinct: "distinct (map os_step_id (op_steps demo_plan))"
  by code_simp

lemma demo_result_facts:
  "case demo_result of
     (n, Inr r) \<Rightarrow> n = 6 \<and> or_return_code r = 1 \<and> map ch_run_id (or_children r) = [''run_0'', ''run_3'', ''run_2'', ''run_5'']
        \<and> map ch_status (or_children r) = [''completed'', ''failed'', ''completed'', ''completed'']
        \<and> map ob_status (or_barriers r) = [''released'']
   | _ \<Rightarrow> False"
  by code_simp

lemma demo_result_returns:
  obtains n r where "execute_plan (demo_calls [''run_1'', ''run_3'', ''run_4'']) demo_packet demo_plan 0 = (n, Inr r)"
    and "or_return_code r = 1" and "map ob_status (or_barriers r) = [''released'']"
    and "map ch_status (or_children r) = [''completed'', ''failed'', ''completed'', ''completed'']"
  using demo_result_facts unfolding demo_result_def by (auto split: prod.splits sum.splits)

text \<open>The theorems at the demonstration: one of four steps fails, the barrier is released, the return code is 1.\<close>

definition demo_log :: "facade_call list" where
  "demo_log =
     [Created ''optional_delivery'' ''run_0'', Compiled ''run_0'' None, Resumed ''run_0'' None, Answered ''run_0'' ''completed'',
      Created ''feature_delivery'' ''run_1'', Compiled ''run_1'' None, Created ''optional_delivery'' ''run_2'', Compiled ''run_2'' None,
      ResumedTogether [''run_1'', ''run_2''] 2 None,
      Answered ''run_1'' ''failed'', Created ''feature_delivery'' ''run_3'', Compiled ''run_3'' None, Resumed ''run_3'' None,
      Answered ''run_3'' ''failed'', Answered ''run_2'' ''completed'',
      Created ''advisory_delivery'' ''run_4'', Compiled ''run_4'' None, Resumed ''run_4'' None, Answered ''run_4'' ''failed'',
      Created ''advisory_delivery'' ''run_5'', Compiled ''run_5'' None, Resumed ''run_5'' None, Answered ''run_5'' ''completed'']"

lemma demo_log_written:
  "snd (fst (execute_plan (traced (demo_calls [''run_1'', ''run_3'', ''run_4''])) demo_packet demo_plan (0, []))) = demo_log"
  by code_simp

theorem execution_reports_every_step_witness:
  "\<exists>n r. execute_plan (demo_calls [''run_1'', ''run_3'', ''run_4'']) demo_packet demo_plan 0 = (n, Inr r)
     \<and> groups_run (demo_calls [''run_1'', ''run_3'', ''run_4'']) demo_packet (group_steps demo_plan) demo_log (outcomes (or_steps r))
     \<and> map step_core (or_steps r) = map step_core (sorted_steps demo_plan) \<and> list_all2 matches (or_steps r) (or_children r)
     \<and> \<not> (\<forall>st\<in>set (or_steps r). os_status st = ''completed'')"
proof -
  obtain n r where run: "execute_plan (demo_calls [''run_1'', ''run_3'', ''run_4'']) demo_packet demo_plan 0 = (n, Inr r)"
    and code: "or_return_code r = 1"
    by (rule demo_result_returns)
  show ?thesis using execution_reports_every_step [OF demo_steps_distinct run] run code demo_log_written by auto
qed

theorem barriers_released_regardless_witness:
  "\<exists>n r. execute_plan (demo_calls [''run_1'', ''run_3'', ''run_4'']) demo_packet demo_plan 0 = (n, Inr r)
     \<and> or_return_code r = 1 \<and> map ob_barrier_id (or_barriers r) = map ob_barrier_id (op_barriers demo_plan)
     \<and> map ob_status (or_barriers r) = [''released''] \<and> length (or_steps r) = length (op_steps demo_plan)"
proof -
  obtain n r where run: "execute_plan (demo_calls [''run_1'', ''run_3'', ''run_4'']) demo_packet demo_plan 0 = (n, Inr r)"
    and code: "or_return_code r = 1" and released: "map ob_status (or_barriers r) = [''released'']"
    by (rule demo_result_returns)
  show ?thesis using barriers_released_regardless [OF demo_steps_distinct run] run code released by auto
qed

end
