(* ===== verification/Callback_Properties.thy ===== *)
theory Callback_Properties
  imports Worker_Callbacks Sched_Properties
begin

section \<open>Callbacks take effect once and are fenced\<close>

text \<open>
  \<open>known_callbacks\<close> abstracts the store to the set of callback ids a task has seen. Every transaction keeps
  the set of each task or adds the id of the callback it accepts, so a callback id takes effect at most once;
  an accepted callback names the task's active committed lease.
\<close>

subsection \<open>Dictionaries\<close>

lemma jget_update [simp]: "jget k (AList.update k' v d) = (if k = k' then Some v else jget k d)"
  by (simp add: jget_def update_conv')

lemma jget_merge_other: "k \<notin> fst ` set b \<Longrightarrow> jget k (dict_merge a b) = jget k a"
proof (induction b rule: rev_induct)
  case (snoc x b)
  then show ?case by (cases x) (simp add: dict_merge_def)
qed (simp add: dict_merge_def)

lemma dict_get_merge_other: "k \<notin> fst ` set b \<Longrightarrow> dict_get k (JObj (dict_merge a b)) = dict_get k (JObj a)"
  by (simp add: dict_get_def jget_merge_other)

lemma dict_get_merge_Cons:
  "k \<notin> fst ` set b \<Longrightarrow> dict_get k (JObj (dict_merge a ((k, v) # b))) = v"
proof (induction b rule: rev_induct)
  case (snoc x b)
  then show ?case by (cases x) (simp add: dict_merge_def dict_get_def)
qed (simp add: dict_merge_def dict_get_def)

subsection \<open>The registry and the state row\<close>

lemma registry_round_trip: "string_list (JList (map JStr xs)) = xs"
  by (simp add: string_list_def comp_def py_str_def)

lemma state_with_payload_updatesD:
  "state_with_payload_updates s u = Inr s' \<Longrightarrow>
     s' = s\<lparr>st_state_payload := dict_merge (st_state_payload s) u\<rparr> \<and> validate_state_ref s' = Inr s'"
  by (auto simp: state_with_payload_updates_def validate_state_ref_def rbind_eq_Inr)

lemma registry_of_updates:
  "''worker_callbacks'' \<notin> fst ` set u \<Longrightarrow>
     worker_callback_registry (dict_merge pl u) = worker_callback_registry pl"
  by (simp add: worker_callback_registry_def dict_get_merge_other)

lemma append_worker_callbackD:
  assumes "append_worker_callback s kind c pl = Inr s'"
  shows "st_runtime_task_id s' = st_runtime_task_id s" and "validate_state_ref s' = Inr s'"
    and "worker_callback_registry (st_state_payload s') = add_callback kind c (worker_callback_registry (st_state_payload s))"
    and "\<exists>old. py_list (dict_get ''worker_callback_history'' (JObj (st_state_payload s))) = Inr old
           \<and> dict_get ''worker_callback_history'' (JObj (st_state_payload s'))
               = JList (last_20 (old @ [JObj (dict_merge [(''type'', JStr (callback_kind_name kind)), (''callback_id'', JStr c)] pl)]))"
    and "lease_renewals_for s' = lease_renewals_for s"
proof -
  obtain old where old: "py_list (dict_get ''worker_callback_history'' (JObj (st_state_payload s))) = Inr old"
    and s': "state_with_payload_updates s
         [(''worker_callbacks'', registry_json (add_callback kind c (worker_callback_registry (st_state_payload s)))),
          (''worker_callback_history'', JList (last_20 (old @
             [JObj (dict_merge [(''type'', JStr (callback_kind_name kind)), (''callback_id'', JStr c)] pl)])))] = Inr s'"
    using assms by (auto simp: append_worker_callback_def rbind_eq_Inr)
  note u = state_with_payload_updatesD [OF s', THEN conjunct1]
  show "validate_state_ref s' = Inr s'" by (rule state_with_payload_updatesD [OF s', THEN conjunct2])
  show "st_runtime_task_id s' = st_runtime_task_id s" using u by simp
  show "worker_callback_registry (st_state_payload s') = add_callback kind c (worker_callback_registry (st_state_payload s))"
    using u by (simp add: worker_callback_registry_def [of "dict_merge _ _"] dict_get_merge_Cons registry_json_def)
      (simp add: dict_get_def jget_def registry_round_trip)
  show "\<exists>old. py_list (dict_get ''worker_callback_history'' (JObj (st_state_payload s))) = Inr old
           \<and> dict_get ''worker_callback_history'' (JObj (st_state_payload s'))
               = JList (last_20 (old @ [JObj (dict_merge [(''type'', JStr (callback_kind_name kind)), (''callback_id'', JStr c)] pl)]))"
    using u old by (auto simp: dict_merge_def dict_get_def)
  show "lease_renewals_for s' = lease_renewals_for s" using u by (simp add: lease_renewals_for_def dict_get_merge_other)
qed

lemma sql_first_update_other:
  "(\<And>r. q r \<Longrightarrow> \<not> p r) \<Longrightarrow> (\<And>r. p r \<Longrightarrow> p (f r)) \<Longrightarrow> (\<And>r. p r \<Longrightarrow> \<not> q (f r)) \<Longrightarrow>
     sql_first q (sql_update p f rows) = sql_first q rows"
  by (induction rows) (auto simp: sql_first_def sql_update_def)

lemma sql_first_update_same:
  "(\<And>r. p r \<Longrightarrow> p (f r)) \<Longrightarrow> sql_first p (sql_update p f rows) = map_option f (sql_first p rows)"
  by (induction rows) (auto simp: sql_first_def sql_update_def)

lemma state_upsertD:
  assumes "state_upsert s db rows = Inr (stored, rows')"
  shows "state_get_by_task (st_runtime_task_id s) rows' = Inr (Some stored)"
    and "st_state_payload stored = st_state_payload s"
    and "task \<noteq> st_runtime_task_id s \<Longrightarrow> state_get_by_task task rows' = state_get_by_task task rows"
proof -
  let ?known = "st_runtime_task_id s \<in> st_runtime_task_id ` set rows"
  let ?R = "if ?known then sql_update (\<lambda>r. st_runtime_task_id r = st_runtime_task_id s) (overwrite_state s) rows else rows @ [s]"
  obtain st where st: "state_get_by_task (st_runtime_task_id s) ?R = Inr st"
    and out: "(case st of None \<Rightarrow> Inl AssertionError | Some s' \<Rightarrow> Inr (s', ?R)) = Inr (stored, rows')"
    using assms unfolding state_upsert_def Let_def rbind_eq_Inr by blast
  have rows': "rows' = ?R" using out by (cases st) simp_all
  have stored: "state_get_by_task (st_runtime_task_id s) rows' = Inr (Some stored)"
    using out st unfolding rows' by (cases st) simp_all
  show "state_get_by_task (st_runtime_task_id s) rows' = Inr (Some stored)" by (rule stored)
  have "sql_first (\<lambda>r. st_runtime_task_id r = st_runtime_task_id s) rows' = Some stored"
    using stored by (auto simp: state_get_by_task_def roption_eq_Inr validate_state_ref_def rbind_eq_Inr)
  moreover have "sql_first (\<lambda>r. st_runtime_task_id r = st_runtime_task_id s) rows = None" if "\<not> ?known"
    using that by (auto simp: image_iff)
  ultimately show "st_state_payload stored = st_state_payload s"
    by (auto simp: rows' sql_first_update_same overwrite_state_def sql_first_append split: if_splits simp del: sql_first_None)
  show "state_get_by_task task rows' = state_get_by_task task rows" if "task \<noteq> st_runtime_task_id s"
  proof -
    have "sql_first (\<lambda>r. st_runtime_task_id r = task)
            (sql_update (\<lambda>r. st_runtime_task_id r = st_runtime_task_id s) (overwrite_state s) rows)
        = sql_first (\<lambda>r. st_runtime_task_id r = task) rows"
      by (rule sql_first_update_other) (use that in \<open>auto simp: overwrite_state_def\<close>)
    moreover have "sql_first (\<lambda>r. st_runtime_task_id r = task) (rows @ [s]) = sql_first (\<lambda>r. st_runtime_task_id r = task) rows"
      using that by (simp add: sql_first_append split: option.split del: sql_first_None)
    ultimately have "sql_first (\<lambda>r. st_runtime_task_id r = task) rows' = sql_first (\<lambda>r. st_runtime_task_id r = task) rows"
      unfolding rows' by (simp split: if_split)
    then show ?thesis by (simp add: state_get_by_task_def)
  qed
qed

subsection \<open>What an accepted callback does\<close>

definition accepted_into :: "callback_kind \<Rightarrow> string \<Rightarrow> string \<Rightarrow> callback_db \<Rightarrow> callback_db \<Rightarrow> bool" where
  "accepted_into kind task c db db' \<longleftrightarrow>
     cb_sched db' = cb_sched db
     \<and> (\<exists>s stored. state_get_by_task task (cb_states db) = Inr (Some s)
          \<and> c \<notin> set (registered_ids kind (worker_callback_registry (st_state_payload s)))
          \<and> state_get_by_task task (cb_states db') = Inr (Some stored)
          \<and> worker_callback_registry (st_state_payload stored) = add_callback kind c (worker_callback_registry (st_state_payload s)))
     \<and> (\<forall>t. t \<noteq> task \<longrightarrow> state_get_by_task t (cb_states db') = state_get_by_task t (cb_states db))"

definition known_callbacks :: "callback_kind \<Rightarrow> string \<Rightarrow> callback_db \<Rightarrow> string set" where
  "known_callbacks kind task db =
     (case state_get_by_task task (cb_states db) of
        Inr (Some s) \<Rightarrow> set (registered_ids kind (worker_callback_registry (st_state_payload s)))
      | _ \<Rightarrow> {})"

lemma add_callback_ids:
  "set (registered_ids kind (add_callback kind' c r)) = set (registered_ids kind r) \<union> (if kind = kind' then {c} else {})"
  by (cases kind; cases kind') auto

lemma accepted_known:
  "accepted_into kind task c db db' \<Longrightarrow>
     known_callbacks kind' task' db' = known_callbacks kind' task' db \<union> (if kind' = kind \<and> task' = task then {c} else {})"
  by (cases "task' = task") (auto simp: accepted_into_def known_callbacks_def add_callback_ids)

lemma store_callbackD:
  assumes "store_callback e s2 ok run typ obj oid summary db = Inr db'"
    and s: "state_get_by_task (st_runtime_task_id s2) (cb_states db) = Inr (Some s)"
      "c \<notin> set (registered_ids kind (worker_callback_registry (st_state_payload s)))"
      "worker_callback_registry (st_state_payload s2) = add_callback kind c (worker_callback_registry (st_state_payload s))"
  shows "accepted_into kind (st_runtime_task_id s2) c db db'" and "ok"
proof -
  obtain stored states runs where up: "state_upsert s2 (cb_runs db) (cb_states db) = Inr (stored, states)"
    and ok and db': "db' = db\<lparr>cb_runs := runs, cb_states := states\<rparr>"
    using assms(1) by (auto simp: store_callback_def rbind_eq_Inr)
  show "accepted_into kind (st_runtime_task_id s2) c db db'"
    using s state_upsertD [OF up] by (auto simp: accepted_into_def db')
  show ok by (rule \<open>ok\<close>)
qed

lemma state_get_by_taskD: "state_get_by_task task rows = Inr (Some s) \<Longrightarrow> st_runtime_task_id s = task"
  by (auto simp: state_get_by_task_def roption_eq_Inr validate_state_ref_def rbind_eq_Inr dest: sql_first_Some)

lemma accepted_payload:
  assumes s: "state_get_by_task task (cb_states db) = Inr (Some s)"
      "c \<notin> set (registered_ids kind (worker_callback_registry (st_state_payload s)))"
    and s1: "state_with_payload_updates s u = Inr s1" and u: "''worker_callbacks'' \<notin> fst ` set u"
    and s2: "append_worker_callback s1 kind c pl = Inr s2"
    and st: "store_callback e s2 ok run typ obj oid summary db = Inr db'"
  shows "accepted_into kind task c db db'" and "ok"
proof -
  have task: "st_runtime_task_id s2 = task"
    using append_worker_callbackD(1) [OF s2] state_with_payload_updatesD [OF s1] state_get_by_taskD [OF s(1)] by simp
  have reg: "worker_callback_registry (st_state_payload s2) = add_callback kind c (worker_callback_registry (st_state_payload s))"
    using append_worker_callbackD(3) [OF s2] state_with_payload_updatesD [OF s1] registry_of_updates [OF u] by simp
  show "accepted_into kind task c db db'" "ok"
    using store_callbackD [OF st _ s(2) reg] s(1) by (simp_all add: task)
qed

lemma heartbeat_acceptedE:
  assumes "record_worker_heartbeat p e h db = Inr (r, db')"
    and "state_get_by_task (hc_runtime_task_id h) (cb_states db) = Inr (Some s)"
    and "hc_callback_id h \<notin> set (reg_heartbeat (worker_callback_registry (st_state_payload s)))"
  obtains l lease runs renewals s1 s2 where
    "validate_callback_scheduler_context (pl_control_plane_id p) (clock e 0)
       (hc_runtime_task_id h) (callback_target_of (hc_execution_target h)) (cb_sched db) = Inr l"
    and "state_with_payload_updates s (heartbeat_updates p h l renewals) = Inr s1"
    and "append_worker_callback s1 Heartbeat (hc_callback_id h)
           [(''dispatch_id'', JStr (hc_dispatch_id h)), (''lease_id'', JStr (hc_lease_id h)),
            (''heartbeat_at'', JStr (ts_text (hc_heartbeat_at h))),
            (''lease_expires_at'', JStr (ts_text (hc_lease_expires_at h)))] = Inr s2"
    and "store_callback e s2 True (hc_run_id h) ''worker_heartbeat_received'' ''worker_lease'' (hc_lease_id h)
           ''Worker heartbeat received'' (db\<lparr>cb_runs := runs\<rparr>) = Inr db'"
    and "r = \<lparr>cy_duplicate = False, cy_callback_id = hc_callback_id h\<rparr>"
    and "touch_lease h (cb_runs db) = Inr (Some lease, runs)"
    and "ts_time (hc_heartbeat_at h) \<noteq> None" and "ts_time (hc_lease_expires_at h) \<noteq> None"
  using assms
  by (simp add: record_worker_heartbeat_def)
    (auto simp: rbind_eq_Inr Let_def from_iso_def split: prod.splits if_splits option.splits)

lemma heartbeatD:
  assumes "record_worker_heartbeat p e h db = Inr (r, db')"
  shows "cy_callback_id r = hc_callback_id h"
    and "cy_duplicate r \<longleftrightarrow> hc_callback_id h \<in> known_callbacks Heartbeat (hc_runtime_task_id h) db"
    and "cy_duplicate r \<Longrightarrow> db' = db"
    and "\<not> cy_duplicate r \<Longrightarrow> accepted_into Heartbeat (hc_runtime_task_id h) (hc_callback_id h) db db'"
    and "\<not> cy_duplicate r \<Longrightarrow> \<exists>l. validate_callback_scheduler_context (pl_control_plane_id p) (clock e 0) (hc_runtime_task_id h)
           (callback_target_of (hc_execution_target h)) (cb_sched db) = Inr l"
proof -
  let ?c = "hc_callback_id h"
  obtain s where s: "state_get_by_task (hc_runtime_task_id h) (cb_states db) = Inr (Some s)"
    using assms by (auto simp: record_worker_heartbeat_def rbind_eq_Inr split: option.splits)
  let ?known = "?c \<in> set (reg_heartbeat (worker_callback_registry (st_state_payload s)))"
  have kn: "?c \<in> known_callbacks Heartbeat (hc_runtime_task_id h) db \<longleftrightarrow> ?known" by (simp add: known_callbacks_def s)
  have dup: "r = \<lparr>cy_duplicate = True, cy_callback_id = ?c\<rparr> \<and> db' = db" if ?known
    using assms that by (simp add: record_worker_heartbeat_def s)
  have new: "r = \<lparr>cy_duplicate = False, cy_callback_id = ?c\<rparr> \<and> accepted_into Heartbeat (hc_runtime_task_id h) ?c db db'
      \<and> (\<exists>l. validate_callback_scheduler_context (pl_control_plane_id p) (clock e 0) (hc_runtime_task_id h)
           (callback_target_of (hc_execution_target h)) (cb_sched db) = Inr l)" if fresh: "\<not> ?known"
  proof -
    obtain l runs renewals s1 s2 pl where l: "validate_callback_scheduler_context (pl_control_plane_id p) (clock e 0)
           (hc_runtime_task_id h) (callback_target_of (hc_execution_target h)) (cb_sched db) = Inr l"
      and s1: "state_with_payload_updates s (heartbeat_updates p h l renewals) = Inr s1"
      and s2: "append_worker_callback s1 Heartbeat ?c pl = Inr s2"
      and st: "store_callback e s2 True (hc_run_id h) ''worker_heartbeat_received'' ''worker_lease'' (hc_lease_id h)
                 ''Worker heartbeat received'' (db\<lparr>cb_runs := runs\<rparr>) = Inr db'"
      and r: "r = \<lparr>cy_duplicate = False, cy_callback_id = ?c\<rparr>"
      by (rule heartbeat_acceptedE [OF assms s fresh])
    have "accepted_into Heartbeat (hc_runtime_task_id h) ?c (db\<lparr>cb_runs := runs\<rparr>) db'"
      by (rule accepted_payload [OF _ _ s1 _ s2 st]) (use s fresh in \<open>auto simp: heartbeat_updates_def split: option.split\<close>)
    then show ?thesis using l r by (auto simp: accepted_into_def)
  qed
  show "cy_callback_id r = ?c" "cy_duplicate r \<longleftrightarrow> ?c \<in> known_callbacks Heartbeat (hc_runtime_task_id h) db"
    using dup new kn by (cases ?known; force)+
  show "cy_duplicate r \<Longrightarrow> db' = db"
    "\<not> cy_duplicate r \<Longrightarrow> accepted_into Heartbeat (hc_runtime_task_id h) ?c db db'"
    "\<not> cy_duplicate r \<Longrightarrow> \<exists>l. validate_callback_scheduler_context (pl_control_plane_id p) (clock e 0) (hc_runtime_task_id h)
           (callback_target_of (hc_execution_target h)) (cb_sched db) = Inr l"
    using dup new by (cases ?known; force)+
qed

lemma completionD:
  assumes "record_worker_completion p e k db = Inr (r, db')"
  shows "cy_callback_id r = kc_callback_id k"
    and "cy_duplicate r \<longleftrightarrow> kc_callback_id k \<in> known_callbacks Completion (kc_runtime_task_id k) db"
    and "cy_duplicate r \<Longrightarrow> db' = db"
    and "\<not> cy_duplicate r \<Longrightarrow> accepted_into Completion (kc_runtime_task_id k) (kc_callback_id k) db db'"
    and "\<not> cy_duplicate r \<Longrightarrow> \<exists>l. validate_callback_scheduler_context (pl_control_plane_id p) (clock e 0) (kc_runtime_task_id k)
           (callback_target_of (Some (kc_execution_target k))) (cb_sched db) = Inr l"
    and "\<not> cy_duplicate r \<Longrightarrow> valid_int p (return_code_of (kc_execution_result k))"
proof -
  let ?c = "kc_callback_id k"
  obtain s where s: "state_get_by_task (kc_runtime_task_id k) (cb_states db) = Inr (Some s)"
    using assms by (auto simp: record_worker_completion_def rbind_eq_Inr split: option.splits)
  let ?known = "?c \<in> set (reg_completion (worker_callback_registry (st_state_payload s)))"
  have kn: "?c \<in> known_callbacks Completion (kc_runtime_task_id k) db \<longleftrightarrow> ?known" by (simp add: known_callbacks_def s)
  have dup: "r = \<lparr>cy_duplicate = True, cy_callback_id = ?c\<rparr> \<and> db' = db" if ?known
    using assms that by (simp add: record_worker_completion_def s)
  have new: "r = \<lparr>cy_duplicate = False, cy_callback_id = ?c\<rparr> \<and> accepted_into Completion (kc_runtime_task_id k) ?c db db'
      \<and> (\<exists>l. validate_callback_scheduler_context (pl_control_plane_id p) (clock e 0) (kc_runtime_task_id k)
           (callback_target_of (Some (kc_execution_target k))) (cb_sched db) = Inr l)
      \<and> valid_int p (return_code_of (kc_execution_result k))" if fresh: "\<not> ?known"
  proof -
    obtain l merged s1 s2 pl where l: "validate_callback_scheduler_context (pl_control_plane_id p) (clock e 0)
           (kc_runtime_task_id k) (callback_target_of (Some (kc_execution_target k))) (cb_sched db) = Inr l"
      and s1: "state_with_payload_updates s (completion_updates p e k l merged) = Inr s1"
      and s2: "append_worker_callback s1 Completion ?c pl = Inr s2"
      and st: "store_callback e s2 (valid_int p (return_code_of (kc_execution_result k))) (kc_run_id k)
                 ''worker_completion_recorded'' ''runtime_task'' (kc_runtime_task_id k)
                 ''Worker completion callback recorded'' db = Inr db'"
      and r: "r = \<lparr>cy_duplicate = False, cy_callback_id = ?c\<rparr>"
      using assms fresh by (simp add: record_worker_completion_def s) (auto simp: rbind_eq_Inr Let_def split: prod.splits if_splits)
    have "''worker_callbacks'' \<notin> fst ` set (completion_updates p e k l merged)"
      by (auto simp: completion_updates_def split: option.splits)
    then show ?thesis using accepted_payload [OF s _ s1 _ s2 st] fresh l r by auto
  qed
  show "cy_callback_id r = ?c" "cy_duplicate r \<longleftrightarrow> ?c \<in> known_callbacks Completion (kc_runtime_task_id k) db"
    using dup new kn by (cases ?known; force)+
  show "cy_duplicate r \<Longrightarrow> db' = db"
    "\<not> cy_duplicate r \<Longrightarrow> accepted_into Completion (kc_runtime_task_id k) ?c db db'"
    "\<not> cy_duplicate r \<Longrightarrow> \<exists>l. validate_callback_scheduler_context (pl_control_plane_id p) (clock e 0) (kc_runtime_task_id k)
           (callback_target_of (Some (kc_execution_target k))) (cb_sched db) = Inr l"
    "\<not> cy_duplicate r \<Longrightarrow> valid_int p (return_code_of (kc_execution_result k))"
    using dup new by (cases ?known; force)+
qed

text \<open>A known id is answered without a transaction.\<close>

lemma known_is_duplicate:
  "hc_callback_id h \<in> known_callbacks Heartbeat (hc_runtime_task_id h) db \<Longrightarrow>
     record_worker_heartbeat p e h db = Inr (\<lparr>cy_duplicate = True, cy_callback_id = hc_callback_id h\<rparr>, db)"
  "kc_callback_id k \<in> known_callbacks Completion (kc_runtime_task_id k) db \<Longrightarrow>
     record_worker_completion p e k db = Inr (\<lparr>cy_duplicate = True, cy_callback_id = kc_callback_id k\<rparr>, db)"
  by (auto simp: known_callbacks_def record_worker_heartbeat_def record_worker_completion_def split: sum.splits option.splits)

lemma reply_known:
  "record_worker_heartbeat p e h db = Inr (r, db') \<Longrightarrow> hc_callback_id h \<in> known_callbacks Heartbeat (hc_runtime_task_id h) db'"
  "record_worker_completion p e k db = Inr (r, db') \<Longrightarrow> kc_callback_id k \<in> known_callbacks Completion (kc_runtime_task_id k) db'"
proof -
  show "hc_callback_id h \<in> known_callbacks Heartbeat (hc_runtime_task_id h) db'" if "record_worker_heartbeat p e h db = Inr (r, db')"
    using heartbeatD [OF that] by (cases "cy_duplicate r") (simp_all add: accepted_known)
  show "kc_callback_id k \<in> known_callbacks Completion (kc_runtime_task_id k) db'" if "record_worker_completion p e k db = Inr (r, db')"
    using completionD [OF that] by (cases "cy_duplicate r") (simp_all add: accepted_known)
qed

subsection \<open>Any sequence of transactions\<close>

lemma callback_step_cases:
  assumes "callback_step ev db = Inr db'"
  obtains (kept) "db' = db"
    | (accepted) kind task c where "accepted_into kind task c db db'"
    | (scheduled) sev where "sched_step sev (cb_sched db) = Inr (cb_sched db')" "cb_states db' = cb_states db"
proof (cases ev)
  case (EvHeartbeatCallback p e h)
  then obtain r where "record_worker_heartbeat p e h db = Inr (r, db')" using assms by (auto simp: rbind_eq_Inr)
  then show thesis using heartbeatD kept accepted by metis
next
  case (EvCompletionCallback p e k)
  then obtain r where "record_worker_completion p e k db = Inr (r, db')" using assms by (auto simp: rbind_eq_Inr)
  then show thesis using completionD kept accepted by metis
next
  case (EvScheduler sev)
  then show thesis using assms scheduled by (auto simp: rbind_eq_Inr)
qed

lemma callback_step_known:
  assumes "callback_step ev db = Inr db'"
  shows "known_callbacks kind task db \<subseteq> known_callbacks kind task db'"
  using assms
proof (cases rule: callback_step_cases)
  case (scheduled sev)
  then show ?thesis by (simp add: known_callbacks_def)
qed (simp_all add: accepted_known)

lemma callback_run_known: "c \<in> known_callbacks kind task db \<Longrightarrow> c \<in> known_callbacks kind task (callback_run evs db)"
  unfolding callback_run_def
  by (rule run_events_invariant [where I = "\<lambda>db. c \<in> known_callbacks kind task db"]) (use callback_step_known in blast)+

lemma callback_run_retired:
  assumes "ledger_ok (sd_leases (cb_sched db))" and "token_retired tk (sd_leases (cb_sched db))"
  shows "token_retired tk (sd_leases (cb_sched (callback_run evs db)))"
proof -
  have "ledger_ok (sd_leases (cb_sched (callback_run evs db))) \<and> token_retired tk (sd_leases (cb_sched (callback_run evs db)))"
    unfolding callback_run_def
  proof (rule run_events_invariant [where I = "\<lambda>db. ledger_ok (sd_leases (cb_sched db)) \<and> token_retired tk (sd_leases (cb_sched db))"])
    show "ledger_ok (sd_leases (cb_sched db)) \<and> token_retired tk (sd_leases (cb_sched db))" using assms by simp
    fix ev db db' assume "ledger_ok (sd_leases (cb_sched db)) \<and> token_retired tk (sd_leases (cb_sched db))"
      and "callback_step ev db = Inr db'"
    from this(2,1) show "ledger_ok (sd_leases (cb_sched db')) \<and> token_retired tk (sd_leases (cb_sched db'))"
    proof (cases rule: callback_step_cases)
      case (scheduled sev)
      then show ?thesis using sched_step_retired \<open>ledger_ok (sd_leases (cb_sched db)) \<and> _\<close> by blast
    qed (simp_all add: accepted_into_def)
  qed
  then show ?thesis ..
qed

subsection \<open>The properties\<close>

text \<open>C31: a callback id takes effect at most once: after a heartbeat or completion was answered, whatever callbacks
  and scheduler transactions follow, a further one of the same kind, task and id is answered as a duplicate and
  changes nothing.\<close>

theorem callback_takes_effect_once:
  "(record_worker_heartbeat p e h db = Inr (r, db1)
      \<and> hc_callback_id h' = hc_callback_id h \<and> hc_runtime_task_id h' = hc_runtime_task_id h
      \<longrightarrow> record_worker_heartbeat p' e' h' (callback_run evs db1)
            = Inr (\<lparr>cy_duplicate = True, cy_callback_id = hc_callback_id h\<rparr>, callback_run evs db1))
   \<and> (record_worker_completion p e k db = Inr (r, db1)
      \<and> kc_callback_id k' = kc_callback_id k \<and> kc_runtime_task_id k' = kc_runtime_task_id k
      \<longrightarrow> record_worker_completion p' e' k' (callback_run evs db1)
            = Inr (\<lparr>cy_duplicate = True, cy_callback_id = kc_callback_id k\<rparr>, callback_run evs db1))"
  using callback_run_known reply_known known_is_duplicate by metis

text \<open>C32: once a fencing token is retired, no callback that sends it is accepted, whatever happens later: it raises or is
  the duplicate of a callback that was accepted before, and the store stays as it is.\<close>

theorem retired_callbacks_change_nothing:
  assumes sched: "cb_sched db = sched_run evs0 (empty_sched_db runs)" and ret: "token_retired tk (sd_leases (cb_sched db))"
    and tk: "tk \<noteq> []" "dict_get ''fencing_token'' (JObj target) = JStr tk"
  shows "(hc_execution_target h = Some target \<and> record_worker_heartbeat p e h (callback_run evs db) = Inr (r, db')
            \<longrightarrow> cy_duplicate r \<and> db' = callback_run evs db)
       \<and> (kc_execution_target k = target \<and> record_worker_completion p e k (callback_run evs db) = Inr (r, db')
            \<longrightarrow> cy_duplicate r \<and> db' = callback_run evs db)"
proof -
  let ?db = "callback_run evs db"
  have "ledger_ok (sd_leases (cb_sched db))" unfolding sched by (rule sched_run_ledger) (simp add: empty_sched_db_def)
  then have retired: "token_retired tk (sd_leases (cb_sched ?db))" using callback_run_retired ret by blast
  have sent: "target_text ''fencing_token'' target = Some tk" using tk by (simp add: target_text_def py_str_def)
  have no: "validate_callback_scheduler_context cp now task (callback_target_of (Some target)) (cb_sched ?db) \<noteq> Inr l" for cp now task l
  proof
    assume "validate_callback_scheduler_context cp now task (callback_target_of (Some target)) (cb_sched ?db) = Inr l"
    then have act: "active_committed_lease_for_domain ''runtime_task'' task now (cb_sched ?db) = Some l" and "cl_fencing_token l = tk"
      using tk(1) sent by (auto simp: validate_callback_accepts_iff mismatches_def callback_target_of_def)
    then show False using active_SomeD [OF act] retired by (auto simp: token_retired_def live_at_def)
  qed
  show ?thesis using heartbeatD [of p e h ?db r db'] completionD [of p e k ?db r db'] no by metis
qed

lemma touch_leaseD:
  assumes "touch_lease h db = Inr (Some lease, runs)"
    and "ts_time (hc_heartbeat_at h) = Some at" and "ts_time (hc_lease_expires_at h) = Some expires"
  shows "runs = db\<lparr>rd_worker_leases := sql_update (\<lambda>l. wl_lease_id l = hc_lease_id h \<and> wl_status l = ws_active)
             (\<lambda>l. l\<lparr>wl_heartbeat_at := at, wl_lease_expires_at := expires\<rparr>) (rd_worker_leases db)\<rparr>"
    and "\<exists>l\<in>set (rd_worker_leases db). wl_lease_id l = hc_lease_id h"
proof -
  show runs: "runs = db\<lparr>rd_worker_leases := sql_update (\<lambda>l. wl_lease_id l = hc_lease_id h \<and> wl_status l = ws_active)
             (\<lambda>l. l\<lparr>wl_heartbeat_at := at, wl_lease_expires_at := expires\<rparr>) (rd_worker_leases db)\<rparr>"
    using assms by (auto simp: touch_lease_def worker_lease_touch_def Let_def rbind_eq_Inr)
  obtain q where "sql_first (\<lambda>l. wl_lease_id l = hc_lease_id h) (rd_worker_leases runs) = Some q"
    using assms by (auto simp: touch_lease_def worker_lease_touch_def worker_lease_get_def Let_def rbind_eq_Inr roption_eq_Inr)
  then have "q \<in> set (rd_worker_leases runs)" "wl_lease_id q = hc_lease_id h" by (auto dest: sql_first_Some)
  then show "\<exists>l\<in>set (rd_worker_leases db). wl_lease_id l = hc_lease_id h"
    by (auto simp: runs sql_update_def split: if_splits)
qed

lemma store_callback_runs:
  "store_callback e s ok run typ obj oid summary db = Inr db' \<Longrightarrow> rd_worker_leases (cb_runs db') = rd_worker_leases (cb_runs db)"
  by (auto simp: store_callback_def rbind_eq_Inr dest: event_append_frame)

lemma last_20_length: "length (last_20 xs) \<le> 20"
  by (simp add: last_20_def)

lemma last_20_filter: "length (filter P (last_20 xs)) \<le> 20"
  by (rule le_trans [OF length_filter_le last_20_length])

definition heartbeat_entry :: "heartbeat_callback \<Rightarrow> (string \<times> json) list" where
  "heartbeat_entry h =
     [(''dispatch_id'', JStr (hc_dispatch_id h)), (''lease_id'', JStr (hc_lease_id h)),
      (''heartbeat_at'', JStr (ts_text (hc_heartbeat_at h))), (''lease_expires_at'', JStr (ts_text (hc_lease_expires_at h)))]"

text \<open>The state row a heartbeat leaves.\<close>

lemma heartbeat_row:
  assumes s: "state_get_by_task (hc_runtime_task_id h) (cb_states db) = Inr (Some s)"
    and s1: "state_with_payload_updates s (heartbeat_updates p h l renewals) = Inr s1"
    and s2: "append_worker_callback s1 Heartbeat (hc_callback_id h) (heartbeat_entry h) = Inr s2"
    and st: "store_callback e s2 ok run typ obj oid summary (db\<lparr>cb_runs := runs\<rparr>) = Inr db'"
  obtains s' old where "state_get_by_task (hc_runtime_task_id h) (cb_states db') = Inr (Some s')"
    and "py_list (dict_get ''worker_callback_history'' (JObj (st_state_payload s))) = Inr old"
    and "dict_get ''worker_callback_history'' (JObj (st_state_payload s'))
           = JList (last_20 (old @ [JObj (dict_merge [(''type'', JStr ''heartbeat''), (''callback_id'', JStr (hc_callback_id h))] (heartbeat_entry h))]))"
    and "length (lease_renewals_for s') \<le> 20"
proof -
  note pl1 = state_with_payload_updatesD [OF s1, THEN conjunct1]
  have task: "st_runtime_task_id s2 = hc_runtime_task_id h"
    using append_worker_callbackD(1) [OF s2] state_get_by_taskD [OF s] by (simp add: pl1)
  obtain s' where up: "state_upsert s2 runs (cb_states db) = Inr (s', cb_states db')"
    using st by (auto simp: store_callback_def rbind_eq_Inr)
  note row = state_upsertD(1,2) [OF up, unfolded task]
  have history: "dict_get ''worker_callback_history'' (JObj (st_state_payload s1)) = dict_get ''worker_callback_history'' (JObj (st_state_payload s))"
    unfolding pl1 by (simp, rule dict_get_merge_other) (auto simp: heartbeat_updates_def split: option.split)
  have "lease_renewals_for s1 = filter is_dict (last_20 renewals)"
    unfolding pl1 lease_renewals_for_def heartbeat_updates_def by (simp add: dict_get_merge_Cons split: option.split)
  moreover have "lease_renewals_for s' = lease_renewals_for s1"
    using append_worker_callbackD(5) [OF s2] row(2) by (simp add: lease_renewals_for_def)
  ultimately have "length (lease_renewals_for s') \<le> 20" by (simp add: last_20_filter)
  then show ?thesis using that row append_worker_callbackD(4) [OF s2] unfolding history by auto
qed

text \<open>An accepted heartbeat renews the active worker leases with its lease id and no other row, adds its id to the
  registry and one entry to the history of its task, of which the last twenty are kept as of the renewals, and
  leaves the states of other tasks alone.\<close>

theorem accepted_heartbeat_effect:
  assumes acc: "record_worker_heartbeat p e h db = Inr (r, db')" and new: "\<not> cy_duplicate r"
  shows "\<exists>s s' old at expires.
       state_get_by_task (hc_runtime_task_id h) (cb_states db) = Inr (Some s)
     \<and> state_get_by_task (hc_runtime_task_id h) (cb_states db') = Inr (Some s')
     \<and> ts_time (hc_heartbeat_at h) = Some at \<and> ts_time (hc_lease_expires_at h) = Some expires
     \<and> rd_worker_leases (cb_runs db')
         = sql_update (\<lambda>l. wl_lease_id l = hc_lease_id h \<and> wl_status l = ws_active)
             (\<lambda>l. l\<lparr>wl_heartbeat_at := at, wl_lease_expires_at := expires\<rparr>) (rd_worker_leases (cb_runs db))
     \<and> known_callbacks Heartbeat (hc_runtime_task_id h) db' = insert (hc_callback_id h) (known_callbacks Heartbeat (hc_runtime_task_id h) db)
     \<and> py_list (dict_get ''worker_callback_history'' (JObj (st_state_payload s))) = Inr old
     \<and> dict_get ''worker_callback_history'' (JObj (st_state_payload s'))
         = JList (last_20 (old @
             [JObj [(''type'', JStr ''heartbeat''), (''callback_id'', JStr (hc_callback_id h)), (''dispatch_id'', JStr (hc_dispatch_id h)),
                    (''lease_id'', JStr (hc_lease_id h)), (''heartbeat_at'', JStr (ts_text (hc_heartbeat_at h))),
                    (''lease_expires_at'', JStr (ts_text (hc_lease_expires_at h)))]]))
     \<and> length (lease_renewals_for s') \<le> 20
     \<and> (\<forall>t. t \<noteq> hc_runtime_task_id h \<longrightarrow> state_get_by_task t (cb_states db') = state_get_by_task t (cb_states db))"
proof -
  let ?task = "hc_runtime_task_id h" and ?c = "hc_callback_id h"
  note into = heartbeatD(4) [OF acc new]
  then obtain s where s: "state_get_by_task ?task (cb_states db) = Inr (Some s)"
    and fresh: "?c \<notin> set (reg_heartbeat (worker_callback_registry (st_state_payload s)))"
    by (auto simp: accepted_into_def)
  obtain l lease runs renewals s1 s2 where s1: "state_with_payload_updates s (heartbeat_updates p h l renewals) = Inr s1"
    and s2: "append_worker_callback s1 Heartbeat ?c (heartbeat_entry h) = Inr s2"
    and st: "store_callback e s2 True (hc_run_id h) ''worker_heartbeat_received'' ''worker_lease'' (hc_lease_id h)
           ''Worker heartbeat received'' (db\<lparr>cb_runs := runs\<rparr>) = Inr db'"
    and touched: "touch_lease h (cb_runs db) = Inr (Some lease, runs)"
    and "ts_time (hc_heartbeat_at h) \<noteq> None" "ts_time (hc_lease_expires_at h) \<noteq> None"
    unfolding heartbeat_entry_def by (rule heartbeat_acceptedE [OF acc s fresh])
  then obtain at expires where stamps: "ts_time (hc_heartbeat_at h) = Some at" "ts_time (hc_lease_expires_at h) = Some expires" by auto
  have leases: "rd_worker_leases (cb_runs db') = sql_update (\<lambda>l. wl_lease_id l = hc_lease_id h \<and> wl_status l = ws_active)
             (\<lambda>l. l\<lparr>wl_heartbeat_at := at, wl_lease_expires_at := expires\<rparr>) (rd_worker_leases (cb_runs db))"
    using store_callback_runs [OF st] touch_leaseD(1) [OF touched stamps] by simp
  show ?thesis
    by (rule heartbeat_row [OF s s1 s2 st])
      (use s stamps leases into accepted_known [OF into] in \<open>auto simp: accepted_into_def dict_merge_def heartbeat_entry_def\<close>)
qed

subsection \<open>A demonstration\<close>

text \<open>The plane holds the committed lease of the task; the worker's own lease has the given status.\<close>

definition demo_plane :: callback_plane where
  "demo_plane = \<lparr>pl_control_plane_id = ''a'', pl_isoformat = show_int, pl_json_time = show_int, pl_reads_int = (\<lambda>_. False)\<rparr>"

definition demo_worker_lease :: "worker_lease_status \<Rightarrow> worker_lease" where
  "demo_worker_lease st =
     \<lparr>wl_lease_id = ''wl'', wl_run_id = ''r'', wl_runtime_task_id = ''t'', wl_worker_name = ''w'', wl_worker_kind = ak_worker,
      wl_worker_id = ''w'', wl_domain_kind = dk_runtime_task, wl_domain_key = Some ''t'', wl_claim_id = None, wl_attempt_id = None,
      wl_adapter_name = ''shell'', wl_status = st, wl_heartbeat_at = 1, wl_lease_expires_at = 2,
      wl_released_at = (if st = ws_active then None else Some 3),
      wl_release_reason = (if st = ws_active then None else Some ''done''), wl_created_at = 0\<rparr>"

definition demo_workers :: "sched_event list \<Rightarrow> worker_lease_status \<Rightarrow> (string \<times> json) list \<Rightarrow> callback_db" where
  "demo_workers evs st payload =
     \<lparr>cb_sched = sched_run evs (empty_sched_db [''r'']),
      cb_runs = \<lparr>rd_runs = [\<lparr>ru_run_id = ''r'', ru_goal = ''g'', ru_preset_id = ''p'', ru_status = running, ru_updated_at = 0, ru_created_at = 0\<rparr>],
                 rd_tasks = [''t''], rd_claims = [], rd_worker_leases = [demo_worker_lease st], rd_attempts = [], rd_budgets = [], rd_events = []\<rparr>,
      cb_states = [\<lparr>st_state_ref_id = ''s'', st_run_id = ''r'', st_runtime_task_id = ''t'', st_graph_step = gs_resuming,
                    st_state_payload = payload, st_is_terminal = False, st_updated_at = 0, st_created_at = 0\<rparr>]\<rparr>"

definition demo_target :: "(string \<times> json) list" where
  "demo_target = [(''fencing_token'', JStr (new_id ''fence'' ''pxxxxx''))]"

definition demo_heartbeat :: "string \<Rightarrow> heartbeat_callback" where
  "demo_heartbeat cid =
     \<lparr>hc_callback_id = cid, hc_dispatch_id = ''d'', hc_run_id = ''r'', hc_runtime_task_id = ''t'', hc_lease_id = ''wl'',
      hc_worker_pool_id = ''pool'', hc_heartbeat_at = \<lparr>ts_text = ''9'', ts_time = Some 9\<rparr>,
      hc_lease_expires_at = \<lparr>ts_text = ''99'', ts_time = Some 99\<rparr>, hc_execution_target = Some demo_target\<rparr>"

definition demo_completion :: "string \<Rightarrow> (string \<times> json) list option \<Rightarrow> completion_callback" where
  "demo_completion cid result =
     \<lparr>kc_callback_id = cid, kc_dispatch_id = ''d'', kc_run_id = ''r'', kc_runtime_task_id = ''t'', kc_lease_id = ''wl'',
      kc_worker_pool_id = ''pool'', kc_execution_target = demo_target, kc_lease_renewals = None, kc_execution_result = result\<rparr>"

definition heartbeat_outcome :: "worker_lease_status \<Rightarrow> werror + callback_reply \<times> callback_db" where
  "heartbeat_outcome st = record_worker_heartbeat demo_plane (demo_env 9 ''h'') (demo_heartbeat ''c1'') (demo_workers demo_take st [])"

text \<open>Only the first call of a sequence is evaluated before its result is known.\<close>

lemma rbind_weak_cong: "m = m' \<Longrightarrow> rbind m f = rbind m' f" by simp

lemma demo_validates:
  "\<exists>l. validate_callback_scheduler_context ''a'' 9 ''t'' (callback_target_of (Some demo_target)) (sched_run demo_take (empty_sched_db [''r''])) = Inr l"
proof -
  have "\<not> isl (validate_callback_scheduler_context ''a'' 9 ''t'' (callback_target_of (Some demo_target)) (sched_run demo_take (empty_sched_db [''r''])))"
    by code_simp
  then show ?thesis by (auto simp: isl_def) (metis sum.exhaust)
qed

lemmas callback_eval = record_worker_heartbeat_def state_get_by_task_def validate_state_ref_def is_terminal_runtime_graph_step_def
  worker_callback_registry_def dict_get_def jget_def string_list_def touch_lease_def worker_lease_touch_def worker_lease_get_def
  validate_worker_lease_def sql_update_def from_iso_def lease_renewals_for_def state_with_payload_updates_def heartbeat_updates_def
  dict_merge_def last_20_def append_worker_callback_def registry_json_def store_callback_def state_upsert_def overwrite_state_def event_append_def
  known_run_def new_id_def sql_insert_def opt_json_def py_str_def renewal_json_def demo_heartbeat_def demo_workers_def demo_worker_lease_def demo_plane_def demo_env_def
  sql_first_def truthy_def Let_def

lemma heartbeat_outcome_active:
  "\<exists>db. heartbeat_outcome ws_active = Inr (\<lparr>cy_duplicate = False, cy_callback_id = ''c1''\<rparr>, db)
     \<and> map wl_lease_expires_at (rd_worker_leases (cb_runs db)) = [99]
     \<and> map re_event_type (rd_events (cb_runs db)) = [''worker_heartbeat_received'']"
proof -
  obtain l where l: "validate_callback_scheduler_context ''a'' 9 ''t'' (callback_target_of (Some demo_target)) (sched_run demo_take (empty_sched_db [''r''])) = Inr l"
    using demo_validates by blast
  show ?thesis unfolding heartbeat_outcome_def
    by (simp add: callback_eval l cong: rbind_weak_cong)
qed
text \<open>
  The \<open>UPDATE\<close> of \<open>touch\<close> skips a lease that is not active, but the handler only tests that the lease exists: the
  heartbeat of a released lease is accepted and recorded as a renewal. A completion without a result, which the
  signature allows, never passes the validation of its event.
\<close>

lemma released_lease_heartbeat_accepted:
  "\<exists>db. heartbeat_outcome ws_released = Inr (\<lparr>cy_duplicate = False, cy_callback_id = ''c1''\<rparr>, db)
     \<and> map wl_lease_expires_at (rd_worker_leases (cb_runs db)) = [2]
     \<and> map (\<lambda>s. map (dict_get ''status'') (lease_renewals_for s)) (cb_states db) = [[JStr ''renewed'']]"
proof -
  obtain l where l: "validate_callback_scheduler_context ''a'' 9 ''t'' (callback_target_of (Some demo_target)) (sched_run demo_take (empty_sched_db [''r''])) = Inr l"
    using demo_validates by blast
  show ?thesis unfolding heartbeat_outcome_def
    by (simp add: callback_eval l cong: rbind_weak_cong)
qed

lemma completion_without_result_refused:
  assumes "kc_execution_result k = None" and "kc_callback_id k \<notin> known_callbacks Completion (kc_runtime_task_id k) db"
  shows "\<exists>err. record_worker_completion p e k db = Inl err"
proof (cases "record_worker_completion p e k db")
  case (Inr x)
  then obtain r db' where "record_worker_completion p e k db = Inr (r, db')" by (cases x) auto
  then show ?thesis using completionD(2,6) [of p e k db r db'] assms by (simp add: valid_int_def return_code_of_def)
qed simp

lemma demo_outcome:
  obtains r db where "heartbeat_outcome ws_active = Inr (r, db)" and "\<not> cy_duplicate r"
  using heartbeat_outcome_active by auto

theorem callback_takes_effect_once_witness:
  "\<exists>r db. heartbeat_outcome ws_active = Inr (r, db) \<and> \<not> cy_duplicate r
     \<and> record_worker_heartbeat demo_plane (demo_env 10 ''i'') (demo_heartbeat ''c1'')
          (callback_run [EvCompletionCallback demo_plane (demo_env 9 ''k'') (demo_completion ''c1'' (Some [(''return_code'', JNum 0)])),
                         EvScheduler (EvRelease (LocalArbiter demo_cfg) (demo_env 9 ''z'') ''lease_p'' ''done'')] db)
        = Inr (\<lparr>cy_duplicate = True, cy_callback_id = ''c1''\<rparr>,
               callback_run [EvCompletionCallback demo_plane (demo_env 9 ''k'') (demo_completion ''c1'' (Some [(''return_code'', JNum 0)])),
                             EvScheduler (EvRelease (LocalArbiter demo_cfg) (demo_env 9 ''z'') ''lease_p'' ''done'')] db)"
proof -
  obtain r db where one: "heartbeat_outcome ws_active = Inr (r, db)" "\<not> cy_duplicate r" by (rule demo_outcome)
  have id: "hc_callback_id (demo_heartbeat ''c1'') = ''c1''" by (simp add: demo_heartbeat_def)
  show ?thesis
    using callback_takes_effect_once [THEN conjunct1, rule_format, OF conjI, OF one(1) [unfolded heartbeat_outcome_def] conjI, OF refl refl]
      one unfolding id by blast
qed

text \<open>A heartbeat accepted earlier is repeated after its token is retired, and a new one is tried.\<close>

definition demo_seen :: "(string \<times> json) list" where
  "demo_seen = [(''worker_callbacks'', JObj [(''heartbeat'', JList [JStr ''c1''])])]"

theorem retired_callbacks_change_nothing_witness:
  "(\<exists>r db. record_worker_heartbeat demo_plane (demo_env 400000009 ''h'') (demo_heartbeat ''c1'')
              (callback_run [] (demo_workers demo_local ws_active demo_seen)) = Inr (r, db)
          \<and> cy_duplicate r \<and> db = callback_run [] (demo_workers demo_local ws_active demo_seen))
   \<and> (\<exists>err. record_worker_heartbeat demo_plane (demo_env 400000009 ''h'') (demo_heartbeat ''c2'')
              (demo_workers demo_local ws_active demo_seen) = Inl err)"
proof -
  let ?db = "demo_workers demo_local ws_active demo_seen"
  have ret: "token_retired (new_id ''fence'' ''pxxxxx'') (sd_leases (cb_sched ?db))" by code_simp
  have known: "''c1'' \<in> known_callbacks Heartbeat ''t'' (callback_run [] ?db)" by code_simp
  have fresh: "''c2'' \<notin> known_callbacks Heartbeat ''t'' (callback_run [] ?db)" by code_simp
  have "hc_callback_id (demo_heartbeat ''c1'') \<in> known_callbacks Heartbeat (hc_runtime_task_id (demo_heartbeat ''c1'')) (callback_run [] ?db)"
    using known by (simp add: demo_heartbeat_def)
  from known_is_duplicate(1) [OF this, of demo_plane "demo_env 400000009 ''h''"]
  obtain r db where acc: "record_worker_heartbeat demo_plane (demo_env 400000009 ''h'') (demo_heartbeat ''c1'') (callback_run [] ?db) = Inr (r, db)"
    by blast
  have token: "dict_get ''fencing_token'' (JObj demo_target) = JStr (new_id ''fence'' ''pxxxxx'')" by code_simp
  have sched: "cb_sched ?db = sched_run demo_local (empty_sched_db [''r''])" by (simp add: demo_workers_def)
  have unchanged: "cy_duplicate r \<and> db = callback_run [] ?db"
    if "record_worker_heartbeat demo_plane (demo_env 400000009 ''h'') (demo_heartbeat c) (callback_run [] ?db) = Inr (r, db)" for c r db
  proof -
    have "hc_execution_target (demo_heartbeat c) = Some demo_target" "new_id ''fence'' ''pxxxxx'' \<noteq> []"
      by (simp_all add: demo_heartbeat_def new_id_def)
    then show ?thesis using retired_callbacks_change_nothing [OF sched ret _ token, THEN conjunct1] that by blast
  qed
  have refused: "record_worker_heartbeat demo_plane (demo_env 400000009 ''h'') (demo_heartbeat ''c2'') (callback_run [] ?db) \<noteq> Inr (r, db)" for r db
    using unchanged [of "''c2''" r db] heartbeatD(2) [of demo_plane "demo_env 400000009 ''h''" "demo_heartbeat ''c2''" "callback_run [] ?db" r db] fresh
    by (auto simp: demo_heartbeat_def)
  have "\<exists>err. record_worker_heartbeat demo_plane (demo_env 400000009 ''h'') (demo_heartbeat ''c2'') (callback_run [] ?db) = Inl err"
    using refused by (metis prod.exhaust sum.exhaust)
  then show ?thesis using acc unchanged [OF acc] by (auto simp: callback_run_def)
qed

theorem accepted_heartbeat_effect_witness:
  "\<exists>r db. heartbeat_outcome ws_active = Inr (r, db) \<and> known_callbacks Heartbeat ''t'' db = insert ''c1'' (known_callbacks Heartbeat ''t'' (demo_workers demo_take ws_active []))"
proof -
  obtain r db where one: "heartbeat_outcome ws_active = Inr (r, db)" "\<not> cy_duplicate r" by (rule demo_outcome)
  have ids: "hc_callback_id (demo_heartbeat ''c1'') = ''c1''" "hc_runtime_task_id (demo_heartbeat ''c1'') = ''t''" by (simp_all add: demo_heartbeat_def)
  show ?thesis using accepted_heartbeat_effect [OF one(1) [unfolded heartbeat_outcome_def] one(2)] one(1) unfolding ids by blast
qed

end
