(* ===== verification/Safe_Command.thy ===== *)
theory Safe_Command
  imports Py_Text "HOL-Library.AList"
begin

section \<open>Running commands safely\<close>

text \<open>
  \<^verbatim>\<open>packages/runtime_security/safe_command_runner.py\<close>: the parsing of a command, the checks on it, the environment of
  the child process, the redaction and truncation of its output, and the loop over commands. Starting a
  process is a function \<open>spawn\<close> of the arguments, the environment and the time limit over a state that is threaded
  through. Environment names are ASCII; durations are left out. \<open>os.environ\<close> is an association list; the order in which
  Python iterates over the set of secret values is a function argument.
\<close>

subsection \<open>The tables\<close>

definition secret_words :: "string list" where
  "secret_words = [''token'', ''key'', ''secret'', ''password'', ''credential'', ''auth'', ''cookie'']"

text \<open>\<open>_SECRET_ENV_NAME_RE.search\<close>, ignoring case.\<close>

definition is_secret_env_name :: "string \<Rightarrow> bool" where
  "is_secret_env_name name \<longleftrightarrow> list_ex (\<lambda>w. contains w (lower name)) secret_words"

definition env_allowlist :: "string list" where
  "env_allowlist =
     [''appdata'', ''comspec'', ''home'', ''homedrive'', ''homepath'', ''lang'', ''lc_all'', ''localappdata'', ''path'', ''pathext'',
      ''programdata'', ''programfiles'', ''programfiles(x86)'', ''systemroot'', ''temp'', ''term'', ''tmp'', ''tz'', ''user'',
      ''username'', ''userprofile'', ''virtual_env'', ''windir'']"

definition env_allowlist_prefixes :: "string list" where
  "env_allowlist_prefixes = [''conda'', ''pip_'', ''pytest_'', ''python'', ''uv_'']"

text \<open>The names of the tables are compared in upper case by the code and in lower case here.\<close>

definition env_name_allowed :: "string \<Rightarrow> bool" where
  "env_name_allowed name \<longleftrightarrow>
     lower name \<in> set env_allowlist \<or> list_ex (\<lambda>p. starts_with p (lower name)) env_allowlist_prefixes"

definition dangerous_programs :: "string list" where
  "dangerous_programs =
     [''bash'', ''cmd'', ''curl'', ''del'', ''erase'', ''nc'', ''netcat'', ''powershell'', ''pwsh'', ''rd'', ''rmdir'', ''rm'', ''scp'',
      ''sftp'', ''sh'', ''ssh'', ''telnet'', ''wget'']"

definition safe_command_blocked_exit_code :: int where "safe_command_blocked_exit_code = 126"
definition safe_command_not_found_exit_code :: int where "safe_command_not_found_exit_code = 127"
definition safe_command_timeout_exit_code :: int where "safe_command_timeout_exit_code = 124"

datatype command = Text string | Argv "string list"

record command_spec =
  sp_command :: command
  sp_timeout_seconds :: int
  sp_output_limit_bytes :: int
  sp_env :: "(string \<times> string) list option"

subsection \<open>Parsing\<close>

definition command_display :: "command \<Rightarrow> string" where
  "command_display c = (case c of Text s \<Rightarrow> s | Argv ps \<Rightarrow> join '' '' ps)"

text \<open>\<open>_SHELL_METACHAR_RE.search\<close>.\<close>

definition metachar :: "char \<Rightarrow> bool" where
  "metachar c \<longleftrightarrow> c \<in> {CR, LF, CHR ''|'', CHR ''&'', CHR '';'', CHR ''<'', CHR ''>'', CHR 0x60}"

definition has_shell_metachar :: "string \<Rightarrow> bool" where
  "has_shell_metachar s \<longleftrightarrow> list_ex metachar s \<or> contains ''$('' s \<or> contains [CHR ''$'', CHR 0x7B] s"

text \<open>\<open>shlex.split(s, posix=False)\<close>: between words, in a word, or in a word opened by a quote; \<open>tok\<close> is the word so far.\<close>

datatype lexer = Between | Word | Quoted char

definition lex_space :: "char \<Rightarrow> bool" where
  "lex_space c \<longleftrightarrow> c \<in> {CHR '' '', TAB, CR, LF}"

definition lex_quote :: "char \<Rightarrow> bool" where
  "lex_quote c \<longleftrightarrow> c = CHR 0x27 \<or> c = CHR 0x22"

fun shlex :: "lexer \<Rightarrow> string \<Rightarrow> string \<Rightarrow> werror + string list" where
  "shlex Between tok [] = Inr []"
| "shlex Between tok (c # cs) =
     (if lex_space c then shlex Between [] cs
      else if lex_quote c then shlex (Quoted c) [c] cs
      else shlex Word [c] cs)"
| "shlex Word tok [] = Inr [tok]"
| "shlex Word tok (c # cs) =
     (if lex_space c then rbind (shlex Between [] cs) (\<lambda>ts. Inr (tok # ts)) else shlex Word (tok @ [c]) cs)"
| "shlex (Quoted q) tok [] = Inl (ValueError ''command could not be parsed safely: No closing quotation'')"
| "shlex (Quoted q) tok (c # cs) =
     (if c = q then rbind (shlex Between [] cs) (\<lambda>ts. Inr ((tok @ [c]) # ts)) else shlex (Quoted q) (tok @ [c]) cs)"

definition strip_wrapping_quotes :: "string \<Rightarrow> string" where
  "strip_wrapping_quotes s =
     (if length s \<ge> 2 \<and> hd s = last s \<and> lex_quote (hd s) then butlast (tl s) else s)"

definition program_suffixes :: "string list" where
  "program_suffixes = [''.exe'', ''.cmd'', ''.bat'', ''.ps1'']"

text \<open>The first suffix of the list that fits is removed.\<close>

fun drop_first_suffix :: "string list \<Rightarrow> string \<Rightarrow> string" where
  "drop_first_suffix [] s = s"
| "drop_first_suffix (x # xs) s = (if ends_with x s then take (length s - length x) s else drop_first_suffix xs s)"

definition program_name :: "string \<Rightarrow> string" where
  "program_name arg = drop_first_suffix program_suffixes (lower (last (split_at (CHR ''/'') (replace_char (CHR 0x5C) (CHR ''/'') arg))))"

definition raw_argv :: "command \<Rightarrow> werror + string list" where
  "raw_argv c =
     (case c of
        Argv ps \<Rightarrow> Inr ps
      | Text s \<Rightarrow>
          if has_shell_metachar s then Inl (ValueError ''shell metacharacters are not allowed in commands'')
          else rbind (shlex Between [] s) (\<lambda>ps. Inr (map strip_wrapping_quotes ps)))"

definition parse_safe_command :: "command \<Rightarrow> werror + string list" where
  "parse_safe_command c =
     rbind (raw_argv c) (\<lambda>ps.
       case filter (\<lambda>p. p \<noteq> []) ps of
         [] \<Rightarrow> Inl (ValueError ''command is empty'')
       | a # as \<Rightarrow>
           if program_name a \<in> set dangerous_programs
           then Inl (ValueError (''command program `'' @ program_name a @ ''` requires manual review''))
           else Inr (a # as))"

subsection \<open>Secrets\<close>

definition redacted :: string where
  "redacted = ''[REDACTED]''"

definition secret_values_from_env :: "(string list \<Rightarrow> string list) \<Rightarrow> (string \<times> string) list \<Rightarrow> string list" where
  "secret_values_from_env iteration environ =
     sort_key (\<lambda>v. - int (length v))
       (iteration (remdups (map snd (filter (\<lambda>(n, v). length v \<ge> 4 \<and> is_secret_env_name n) environ))))"

definition redact_text :: "string list \<Rightarrow> string option \<Rightarrow> string" where
  "redact_text secrets value = foldl (\<lambda>t v. replace_all v redacted t) (case value of None \<Rightarrow> [] | Some t \<Rightarrow> t) secrets"

definition truncation_marker :: string where
  "truncation_marker = LF # ''...[truncated]''"

definition truncate_output :: "string list \<Rightarrow> string option \<Rightarrow> int \<Rightarrow> string \<times> bool" where
  "truncate_output secrets value limit =
     (let text = redact_text secrets value
      in if int (length text) \<le> limit then (text, False)
         else (take (nat (max (limit - int (length truncation_marker)) 0)) text @ truncation_marker, True))"

definition build_safe_command_env :: "(string \<times> string) list \<Rightarrow> (string \<times> string) list option \<Rightarrow> (string \<times> string) list" where
  "build_safe_command_env environ extra =
     foldl (\<lambda>d (k, v). AList.update k v d)
       (filter (\<lambda>(n, _). \<not> is_secret_env_name n \<and> env_name_allowed n) environ)
       (filter (\<lambda>(n, _). \<not> is_secret_env_name n) (case extra of None \<Rightarrow> [] | Some kvs \<Rightarrow> kvs))"

subsection \<open>Running\<close>

record attempt =
  ap_command :: string
  ap_argv :: "string list"
  ap_return_code :: int
  ap_stdout :: string
  ap_stderr :: string
  ap_status :: string
  ap_stdout_truncated :: bool
  ap_stderr_truncated :: bool
  ap_output_limit_bytes :: int
  ap_timeout_seconds :: int
  ap_blocked_reason :: "string option"

definition passed :: "attempt \<Rightarrow> bool" where
  "passed a \<longleftrightarrow> ap_return_code a = 0"

definition attempt_payload ::
  "string list \<Rightarrow> command_spec \<Rightarrow> string list \<Rightarrow> int \<Rightarrow> string option \<Rightarrow> string option \<Rightarrow> string \<Rightarrow> string option \<Rightarrow> attempt" where
  "attempt_payload secrets spec argv code out err status blocked =
     (let (out', out_cut) = truncate_output secrets out (sp_output_limit_bytes spec);
          (err', err_cut) = truncate_output secrets err (sp_output_limit_bytes spec)
      in \<lparr>ap_command = command_display (sp_command spec), ap_argv = argv, ap_return_code = code, ap_stdout = out', ap_stderr = err',
          ap_status = status, ap_stdout_truncated = out_cut, ap_stderr_truncated = err_cut,
          ap_output_limit_bytes = sp_output_limit_bytes spec, ap_timeout_seconds = sp_timeout_seconds spec, ap_blocked_reason = blocked\<rparr>)"

text \<open>How \<open>subprocess.run\<close> ends; any other exception goes through.\<close>

datatype spawned =
    Completed int string string
  | TimedOut "string option" "string option"
  | NotFound
  | Raised werror

type_synonym 's spawner = "string list \<Rightarrow> (string \<times> string) list \<Rightarrow> int \<Rightarrow> 's \<Rightarrow> 's \<times> spawned"

text \<open>The text \<open>stderr.rstrip()\<close>, the message of the time-out, stripped.\<close>

definition timeout_stderr :: "string list \<Rightarrow> int \<Rightarrow> string option \<Rightarrow> string" where
  "timeout_stderr secrets limit err =
     (let text = redact_text secrets err;
          message = ''command timed out after '' @ show_int limit @ ''s''
      in if text \<noteq> [] then py_strip (strip_right py_space text @ [LF] @ message) else message)"

definition spawned_attempt :: "string list \<Rightarrow> command_spec \<Rightarrow> string list \<Rightarrow> spawned \<Rightarrow> werror + attempt" where
  "spawned_attempt secrets spec argv res =
     (case res of
        Completed code out err \<Rightarrow>
          Inr (attempt_payload secrets spec argv code (Some out) (Some err) (if code = 0 then ''passed'' else ''failed'') None)
      | TimedOut out err \<Rightarrow>
          Inr (attempt_payload secrets spec argv safe_command_timeout_exit_code out
                 (Some (timeout_stderr secrets (sp_timeout_seconds spec) err)) ''timeout'' None)
      | NotFound \<Rightarrow>
          Inr (attempt_payload secrets spec argv safe_command_not_found_exit_code (Some [])
                 (Some (''command not found: '' @ hd argv)) ''not_found'' None)
      | Raised e \<Rightarrow> Inl e)"

fun error_text :: "werror \<Rightarrow> string" where
  "error_text (ValueError s) = s"
| "error_text _ = []"

fun run_safe_commands ::
  "'s spawner \<Rightarrow> string list \<Rightarrow> (string \<times> string) list \<Rightarrow> command_spec list \<Rightarrow> 's \<Rightarrow> 's \<times> (werror + attempt list)" where
  "run_safe_commands spawn secrets environ [] s = (s, Inr [])"
| "run_safe_commands spawn secrets environ (spec # specs) s =
     (case parse_safe_command (sp_command spec) of
        Inl e \<Rightarrow>
          (s, Inr [attempt_payload secrets spec [] safe_command_blocked_exit_code (Some []) (Some (error_text e)) ''blocked'' (Some (error_text e))])
      | Inr argv \<Rightarrow>
          (case spawn argv (build_safe_command_env environ (sp_env spec)) (sp_timeout_seconds spec) s of
             (s1, res) \<Rightarrow>
               (case spawned_attempt secrets spec argv res of
                  Inl e \<Rightarrow> (s1, Inl e)
                | Inr a \<Rightarrow>
                    if \<not> passed a then (s1, Inr [a])
                    else (case run_safe_commands spawn secrets environ specs s1 of
                            (s2, Inl e) \<Rightarrow> (s2, Inl e)
                          | (s2, Inr as) \<Rightarrow> (s2, Inr (a # as))))))"

text \<open>\<open>run_safe_command\<close>: one command, its only attempt.\<close>

definition run_safe_command ::
  "'s spawner \<Rightarrow> string list \<Rightarrow> (string \<times> string) list \<Rightarrow> command_spec \<Rightarrow> 's \<Rightarrow> 's \<times> (werror + attempt)" where
  "run_safe_command spawn secrets environ spec s =
     (case run_safe_commands spawn secrets environ [spec] s of
        (s', Inl e) \<Rightarrow> (s', Inl e)
      | (s', Inr []) \<Rightarrow> (s', Inl (ValueError ''list index out of range''))
      | (s', Inr (a # _)) \<Rightarrow> (s', Inr a))"

end
