(* ===== verification/Command_Properties.thy ===== *)
theory Command_Properties
  imports Safe_Command
begin

section \<open>What the command runner guarantees\<close>

text \<open>
  Only commands that pass the checks are started, in an environment without secret names; the attempts are a prefix of the
  commands that ends at the first failure; and a secret of the environment does not occur in the output that is reported.
\<close>

subsection \<open>Only checked commands are started\<close>

text \<open>What the checks promise of a command and the arguments it is started with: a text is free of shell syntax and its
  arguments are made of its characters, in their order; a list keeps its words; and the program is not a dangerous one.\<close>

definition shell_free :: "string \<Rightarrow> bool" where
  "shell_free s \<longleftrightarrow>
     set s \<inter> {CR, LF, CHR ''|'', CHR ''&'', CHR '';'', CHR ''<'', CHR ''>'', CHR 0x60} = {}
     \<and> \<not> sublist ''$('' s \<and> \<not> sublist [CHR ''$'', CHR 0x7B] s"

definition vetted :: "command \<Rightarrow> string list \<Rightarrow> bool" where
  "vetted c argv \<longleftrightarrow>
     argv \<noteq> [] \<and> [] \<notin> set argv \<and> program_name (hd argv) \<notin> set dangerous_programs
     \<and> (case c of Text s \<Rightarrow> shell_free s \<and> subseq (concat argv) s | Argv ps \<Rightarrow> argv = filter (\<lambda>p. p \<noteq> []) ps)"

text \<open>No name of a child's environment is secret, and every variable is given by the caller or an allowed one of the parent.\<close>

definition vetted_env :: "(string \<times> string) list \<Rightarrow> (string \<times> string) list option \<Rightarrow> (string \<times> string) list \<Rightarrow> bool" where
  "vetted_env environ extra env \<longleftrightarrow>
     (\<forall>(n, v)\<in>set env. \<not> is_secret_env_name n
        \<and> ((n, v) \<in> set environ \<and> env_name_allowed n \<or> (\<exists>kvs. extra = Some kvs \<and> (n, v) \<in> set kvs)))"

lemma contains_sublist: "contains p s \<longleftrightarrow> sublist p s"
  by (induction s) (simp_all add: sublist_Cons_right)

lemma metachar_free: "\<not> has_shell_metachar s \<Longrightarrow> shell_free s"
  by (auto simp: has_shell_metachar_def shell_free_def contains_sublist list_ex_iff metachar_def)

lemma shlex_subseq:
  "shlex mode tok s = Inr ts \<Longrightarrow> subseq (concat ts) (if mode = Between then s else tok @ s)"
proof (induction mode tok s arbitrary: ts rule: shlex.induct)
  case (2 tok c cs)
  then show ?case by (auto split: if_splits)
next
  case (4 tok c cs)
  show ?case
  proof (cases "lex_space c")
    case True
    then obtain us where us: "shlex Between [] cs = Inr us" "ts = tok # us" using 4(3) by (auto simp: rbind_eq_Inr)
    then have "subseq (concat us) (c # cs)" using 4(1) [OF True us(1)] by auto
    then show ?thesis by (simp add: us(2) subseq_append')
  qed (use 4 in auto)
next
  case (6 q tok c cs)
  show ?case
  proof (cases "c = q")
    case True
    then obtain us where us: "shlex Between [] cs = Inr us" "ts = (tok @ [c]) # us" using 6(3) by (auto simp: rbind_eq_Inr)
    then have "subseq (concat us) cs" using 6(1) [OF True us(1)] by simp
    then show ?thesis by (simp add: us(2) True subseq_append')
  qed (use 6 in auto)
qed auto

lemma strip_quotes_subseq: "subseq (strip_wrapping_quotes s) s"
proof -
  have "sublist (butlast (tl s)) s"
    by (rule sublist_order.order_trans [of _ "tl s"]) (simp_all add: sublist_butlast sublist_tl)
  then show ?thesis by (simp add: strip_wrapping_quotes_def sublist_imp_subseq)
qed

lemma raw_argv_vetted:
  assumes "raw_argv c = Inr ps" and "filter (\<lambda>p. p \<noteq> []) ps = argv"
  shows "case c of Text s \<Rightarrow> shell_free s \<and> subseq (concat argv) s | Argv qs \<Rightarrow> argv = filter (\<lambda>p. p \<noteq> []) qs"
proof (cases c)
  case (Text s)
  then have meta: "\<not> has_shell_metachar s" using assms(1) by (simp add: raw_argv_def split: if_splits)
  then obtain ts where ts: "shlex Between [] s = Inr ts" "ps = map strip_wrapping_quotes ts"
    using assms(1) Text by (auto simp: raw_argv_def rbind_eq_Inr)
  have "subseq (concat (map strip_wrapping_quotes us)) (concat us)" for us
    by (induction us) (auto intro: list_emb_append_mono strip_quotes_subseq)
  moreover have "concat argv = concat ps" unfolding assms(2) [symmetric] by (induction ps) auto
  ultimately have "subseq (concat argv) s" using shlex_subseq [OF ts(1)] subseq_order.trans by (force simp: ts(2))
  then show ?thesis using metachar_free [OF meta] by (simp add: Text)
next
  case (Argv qs)
  then show ?thesis using assms by (simp add: raw_argv_def)
qed

lemma parse_vetted: "parse_safe_command c = Inr argv \<Longrightarrow> vetted c argv"
proof -
  assume "parse_safe_command c = Inr argv"
  then obtain ps where raw: "raw_argv c = Inr ps" and ps: "(case filter (\<lambda>p. p \<noteq> []) ps of
         [] \<Rightarrow> Inl (ValueError ''command is empty'')
       | a # as \<Rightarrow>
           if program_name a \<in> set dangerous_programs
           then Inl (ValueError (''command program `'' @ program_name a @ ''` requires manual review''))
           else Inr (a # as)) = Inr argv"
    unfolding parse_safe_command_def rbind_eq_Inr by blast
  show "vetted c argv"
  proof (cases "filter (\<lambda>p. p \<noteq> []) ps")
    case (Cons a as)
    then have "argv = a # as" "program_name a \<notin> set dangerous_programs" using ps by (simp_all only: list.case split: if_splits) simp_all
    moreover have "[] \<notin> set (filter (\<lambda>p. p \<noteq> []) ps)" by simp
    ultimately show ?thesis using raw_argv_vetted [OF raw] by (simp add: vetted_def Cons)
  qed (use ps in simp)
qed

lemma update_subset: "set (AList.update k v d) \<subseteq> insert (k, v) (set d)"
  by (induction d) auto

lemma foldl_update_subset: "set (foldl (\<lambda>d (k, v). AList.update k v d) d ys) \<subseteq> set d \<union> set ys"
proof (induction ys arbitrary: d)
  case (Cons y ys)
  obtain k v where y: "y = (k, v)" by (cases y)
  show ?case using Cons.IH [of "AList.update k v d"] update_subset [of k v d] by (auto simp: y)
qed simp

lemma child_env_vetted: "vetted_env environ extra (build_safe_command_env environ extra)"
proof -
  have "set (build_safe_command_env environ extra)
      \<subseteq> {(n, v) \<in> set environ. \<not> is_secret_env_name n \<and> env_name_allowed n}
       \<union> {(n, v) \<in> set (case extra of None \<Rightarrow> [] | Some kvs \<Rightarrow> kvs). \<not> is_secret_env_name n}"
    unfolding build_safe_command_env_def by (rule subset_trans [OF foldl_update_subset]) auto
  then show ?thesis by (auto simp: vetted_env_def split: option.splits)
qed

text \<open>C33: every process that is started belongs to one of the commands and was vetted: two ways of starting processes that agree
  on the vetted arguments of each command, in vetted environments and with the command's time limit, cannot be told apart.\<close>

theorem only_safe_commands_started:
  assumes "\<And>spec argv env s. spec \<in> set specs \<Longrightarrow> vetted (sp_command spec) argv \<Longrightarrow> vetted_env environ (sp_env spec) env \<Longrightarrow>
             spawn argv env (sp_timeout_seconds spec) s = spawn' argv env (sp_timeout_seconds spec) s"
  shows "run_safe_commands spawn secrets environ specs s = run_safe_commands spawn' secrets environ specs s"
  using assms
proof (induction specs arbitrary: s)
  case (Cons spec specs)
  have "spawn argv (build_safe_command_env environ (sp_env spec)) (sp_timeout_seconds spec) s
      = spawn' argv (build_safe_command_env environ (sp_env spec)) (sp_timeout_seconds spec) s"
    if "parse_safe_command (sp_command spec) = Inr argv" for argv s
    using Cons.prems [OF _ parse_vetted [OF that] child_env_vetted] by simp
  moreover have "run_safe_commands spawn secrets environ specs = run_safe_commands spawn' secrets environ specs"
    by (rule ext) (rule Cons.IH, rule Cons.prems, auto)
  ultimately show ?case by (simp split: sum.split prod.split)
qed simp

subsection \<open>The attempts\<close>

definition reported :: "command_spec \<Rightarrow> attempt \<Rightarrow> bool" where
  "reported spec a \<longleftrightarrow>
     ap_command a = command_display (sp_command spec)
     \<and> (case parse_safe_command (sp_command spec) of
          Inl _ \<Rightarrow> ap_status a = ''blocked'' \<and> ap_return_code a = 126 \<and> ap_argv a = []
        | Inr argv \<Rightarrow> ap_argv a = argv)"

lemma spawned_reported:
  "parse_safe_command (sp_command spec) = Inr argv \<Longrightarrow> spawned_attempt secrets spec argv res = Inr a \<Longrightarrow> reported spec a"
  by (auto simp: reported_def spawned_attempt_def attempt_payload_def split: spawned.splits prod.splits)

lemma blocked_reported:
  "parse_safe_command (sp_command spec) = Inl e \<Longrightarrow>
     reported spec (attempt_payload secrets spec [] safe_command_blocked_exit_code out err ''blocked'' why)
     \<and> \<not> passed (attempt_payload secrets spec [] safe_command_blocked_exit_code out err ''blocked'' why)"
  by (simp add: reported_def passed_def attempt_payload_def safe_command_blocked_exit_code_def split: prod.split)

text \<open>The attempts stand for the commands from the first on, all but the last of them passed, and a command is only
  left out when the one before it failed; a blocked command is reported with its own exit code and no arguments.\<close>

theorem attempts_stop_at_first_failure:
  assumes "run_safe_commands spawn secrets environ specs s = (s', Inr as)"
  shows "list_all2 reported (take (length as) specs) as \<and> length as \<le> length specs
     \<and> (\<forall>a\<in>set (butlast as). passed a)
     \<and> (length as < length specs \<longrightarrow> as \<noteq> [] \<and> \<not> passed (last as))"
  using assms
proof (induction specs arbitrary: s as)
  case (Cons spec specs)
  show ?case
  proof (cases "parse_safe_command (sp_command spec)")
    case (Inl e)
    then show ?thesis using Cons.prems blocked_reported [OF Inl] by auto
  next
    case (Inr argv)
    obtain s1 res where sp: "spawn argv (build_safe_command_env environ (sp_env spec)) (sp_timeout_seconds spec) s = (s1, res)" by fastforce
    obtain a where a: "spawned_attempt secrets spec argv res = Inr a" using Cons.prems by (auto simp: Inr sp split: sum.splits)
    note rep = spawned_reported [OF Inr a]
    show ?thesis
    proof (cases "passed a")
      case False
      then show ?thesis using Cons.prems rep by (auto simp: Inr sp a)
    next
      case True
      obtain bs where bs: "run_safe_commands spawn secrets environ specs s1 = (s', Inr bs)" "as = a # bs"
        using Cons.prems True by (auto simp: Inr sp a split: sum.splits prod.splits)
      show ?thesis using Cons.IH [OF bs(1)] rep True by (auto simp: bs(2))
    qed
  qed
qed simp

subsection \<open>No secret is reported\<close>

lemma sublist_split_char:
  assumes "c \<notin> set v"
  shows "sublist v (xs @ c # ys) \<longleftrightarrow> sublist v xs \<or> sublist v ys"
proof
  assume "sublist v (xs @ c # ys)"
  then consider "sublist v xs" | "sublist v (c # ys)" | a b where "v = a @ b" "suffix a xs" "prefix b (c # ys)"
    unfolding sublist_append by blast
  then show "sublist v xs \<or> sublist v ys"
  proof cases
    case 2
    then consider "prefix v (c # ys)" | "sublist v ys" unfolding sublist_Cons_right by blast
    then show ?thesis
    proof cases
      case 1
      then have "v = []" using assms by (cases v) auto
      then show ?thesis by simp
    qed simp
  next
    case 3
    then have "b = []" using assms by (cases b) auto
    then show ?thesis using 3 by auto
  qed simp
next
  assume "sublist v xs \<or> sublist v ys"
  then show "sublist v (xs @ c # ys)" by (auto simp: sublist_append sublist_Cons_right)
qed

text \<open>A text without brackets does not touch the mark that replaces a secret.\<close>

definition plain_secret :: "string \<Rightarrow> bool" where
  "plain_secret v \<longleftrightarrow>
     4 \<le> length v \<and> CHR ''['' \<notin> set v \<and> CHR '']'' \<notin> set v \<and> LF \<notin> set v
     \<and> \<not> contains v ''REDACTED'' \<and> \<not> contains v ''truncated''"

lemma beside_redacted:
  assumes "plain_secret v"
  shows "sublist v (xs @ redacted @ ys) \<longleftrightarrow> sublist v xs \<or> sublist v ys"
proof -
  have open_: "CHR ''['' \<notin> set v" and close: "CHR '']'' \<notin> set v" and inner: "\<not> sublist v ''REDACTED''"
    using assms unfolding plain_secret_def contains_sublist by blast+
  have "xs @ redacted @ ys = xs @ CHR ''['' # (''REDACTED'' @ CHR '']'' # ys)" by (simp add: redacted_def)
  then have "sublist v (xs @ redacted @ ys) \<longleftrightarrow> sublist v xs \<or> sublist v (''REDACTED'' @ CHR '']'' # ys)"
    using sublist_split_char [OF open_] by metis
  also have "\<dots> \<longleftrightarrow> sublist v xs \<or> sublist v ys" using sublist_split_char [OF close] inner by metis
  finally show ?thesis .
qed

text \<open>A mark \<open>m\<close> that no occurrence of \<open>v\<close> touches.\<close>

lemma replace_creates_no_secret:
  assumes "\<And>xs ys. sublist v (xs @ m @ ys) \<longleftrightarrow> sublist v xs \<or> sublist v ys" and "sublist v (pre @ replace_all w m s)"
  shows "sublist v (pre @ s)"
  using assms
proof (induction w m s arbitrary: pre rule: replace_all.induct)
  case (2 w m c cs)
  show ?case
  proof (cases "w \<noteq> [] \<and> prefix w (c # cs)")
    case True
    then have "sublist v (pre @ m @ replace_all w m (drop (length w) (c # cs)))" using "2.prems"(2) by simp
    then have "sublist v pre \<or> sublist v (replace_all w m (drop (length w) (c # cs)))"
      unfolding "2.prems"(1) .
    then show ?thesis
    proof
      assume "sublist v (replace_all w m (drop (length w) (c # cs)))"
      then have "sublist v (drop (length w) (c # cs))" using "2.IH"(1) [OF True "2.prems"(1), of "[]"] by simp
      then have "sublist v (c # cs)" by (rule sublist_order.order_trans) (rule sublist_drop)
      then show ?thesis by (simp add: sublist_append)
    qed (simp add: sublist_append)
  next
    case False
    have "sublist v ((pre @ [c]) @ replace_all w m cs)" using "2.prems"(2) False by simp
    then have "sublist v ((pre @ [c]) @ cs)" by (rule "2.IH"(2) [OF False "2.prems"(1)])
    then show ?thesis by simp
  qed
qed simp

text \<open>No occurrence starts in \<open>pre\<close>, the part of the text that was scanned and kept.\<close>

lemma no_start_no_sublist:
  assumes "\<And>k. k < length pre \<Longrightarrow> \<not> prefix v (drop k (pre @ s))" and "v \<noteq> []"
  shows "\<not> sublist v pre"
proof
  assume "sublist v pre"
  then obtain a b where ab: "pre = a @ v @ b" by (auto simp: sublist_def)
  then have "length a < length pre" using assms(2) by simp
  moreover have "prefix v (drop (length a) (pre @ s))" by (simp add: ab)
  ultimately show False using assms(1) by blast
qed

lemma replace_removes_secret:
  assumes "\<And>xs ys. sublist v (xs @ m @ ys) \<longleftrightarrow> sublist v xs \<or> sublist v ys" and "v \<noteq> []"
    and "\<And>k. k < length pre \<Longrightarrow> \<not> prefix v (drop k (pre @ s))"
  shows "\<not> sublist v (pre @ replace_all v m s)"
  using assms
proof (induction v m s arbitrary: pre rule: replace_all.induct)
  case (1 v m)
  then show ?case using no_start_no_sublist [of pre v "[]"] by simp
next
  case (2 v m c cs)
  show ?case
  proof (cases "prefix v (c # cs)")
    case True
    then have hit: "v \<noteq> [] \<and> prefix v (c # cs)" using "2.prems"(2) by simp
    have "\<not> sublist v ([] @ replace_all v m (drop (length v) (c # cs)))"
      by (rule "2.IH"(1) [OF hit "2.prems"(1,2)]) simp
    moreover have "\<not> sublist v pre" by (rule no_start_no_sublist [OF "2.prems"(3,2)])
    ultimately have "\<not> sublist v (pre @ m @ replace_all v m (drop (length v) (c # cs)))" unfolding "2.prems"(1) by simp
    then show ?thesis using hit by simp
  next
    case False
    then have miss: "\<not> (v \<noteq> [] \<and> prefix v (c # cs))" by simp
    have "\<not> prefix v (drop k ((pre @ [c]) @ cs))" if "k < length (pre @ [c])" for k
      using that "2.prems"(3) [of k] False by (cases "k = length pre") simp_all
    then have "\<not> sublist v ((pre @ [c]) @ replace_all v m cs)" by (rule "2.IH"(2) [OF miss "2.prems"(1,2)])
    then show ?thesis using False by simp
  qed
qed

lemma redact_keeps_absence:
  assumes "plain_secret v" and "\<not> sublist v t"
  shows "\<not> sublist v (foldl (\<lambda>t w. replace_all w redacted t) t ws)"
  using assms(2)
proof (induction ws arbitrary: t)
  case (Cons w ws)
  have "\<not> sublist v (replace_all w redacted t)"
    using replace_creates_no_secret [of v redacted "[]" w t] beside_redacted [OF assms(1)] Cons.prems by auto
  then show ?case using Cons.IH by simp
qed simp

lemma redact_removes:
  assumes v: "plain_secret v" "v \<in> set secrets"
  shows "\<not> sublist v (redact_text secrets value)"
proof -
  obtain a b where ab: "secrets = a @ v # b" using v(2) by (meson split_list)
  have ne: "v \<noteq> []" using v(1) by (auto simp: plain_secret_def)
  have "\<not> sublist v ([] @ replace_all v redacted t)" for t
    by (rule replace_removes_secret [OF beside_redacted [OF v(1)] ne]) simp
  then show ?thesis using redact_keeps_absence [OF v(1)] by (simp add: redact_text_def ab)
qed

lemma truncation_adds_no_secret:
  assumes "plain_secret v"
  shows "sublist v (take n t @ truncation_marker) \<Longrightarrow> sublist v t"
proof -
  assume s: "sublist v (take n t @ truncation_marker)"
  have nl: "LF \<notin> set v" and op: "CHR ''['' \<notin> set v" and cl: "CHR '']'' \<notin> set v" and len: "4 \<le> length v"
    and inner: "\<not> sublist v ''truncated''"
    using assms unfolding plain_secret_def contains_sublist by blast+
  have marker: "truncation_marker = LF # (''...'' @ CHR ''['' # (''truncated'' @ CHR '']'' # []))"
    by (simp add: truncation_marker_def)
  have "sublist v (take n t) \<or> sublist v ''...'' \<or> sublist v []"
    using s unfolding marker sublist_split_char [OF nl] sublist_split_char [OF op] sublist_split_char [OF cl] using inner by blast
  moreover have "\<not> sublist v ''...''" using len sublist_length_le [of v "''...''"] by auto
  moreover have "\<not> sublist v []" using len by auto
  ultimately show ?thesis by (meson sublist_take sublist_order.order_trans)
qed

lemma truncated_output:
  "(int (length (fst (truncate_output secrets value limit))) \<le> max limit 15)
   \<and> (plain_secret v \<and> v \<in> set secrets \<longrightarrow> \<not> sublist v (fst (truncate_output secrets value limit)))"
proof
  show "int (length (fst (truncate_output secrets value limit))) \<le> max limit 15"
    by (auto simp: truncate_output_def Let_def truncation_marker_def)
  show "plain_secret v \<and> v \<in> set secrets \<longrightarrow> \<not> sublist v (fst (truncate_output secrets value limit))"
  proof
    assume v: "plain_secret v \<and> v \<in> set secrets"
    then have "\<not> sublist v (redact_text secrets value)" using redact_removes by blast
    then have "\<not> sublist v (redact_text secrets value) \<and> \<not> sublist v (take n (redact_text secrets value) @ truncation_marker)" for n
      using truncation_adds_no_secret v by blast
    then show "\<not> sublist v (fst (truncate_output secrets value limit))" by (simp add: truncate_output_def Let_def)
  qed
qed

lemma attempts_are_payloads:
  assumes "run_safe_commands spawn secrets environ specs s = (s', Inr as)" and "a \<in> set as"
  shows "\<exists>spec argv code out err status why. a = attempt_payload secrets spec argv code out err status why"
  using assms
proof (induction specs arbitrary: s as)
  case (Cons spec specs)
  show ?case
  proof (cases "parse_safe_command (sp_command spec)")
    case (Inl e)
    then have "a = attempt_payload secrets spec [] safe_command_blocked_exit_code (Some []) (Some (error_text e)) ''blocked'' (Some (error_text e))"
      using Cons.prems by auto
    then show ?thesis by blast
  next
    case (Inr argv)
    obtain s1 res where sp: "spawn argv (build_safe_command_env environ (sp_env spec)) (sp_timeout_seconds spec) s = (s1, res)" by fastforce
    obtain b where b: "spawned_attempt secrets spec argv res = Inr b" using Cons.prems(1) by (auto simp: Inr sp split: sum.splits)
    then have "\<exists>spec argv code out err status why. b = attempt_payload secrets spec argv code out err status why"
      unfolding spawned_attempt_def by (cases res) (simp_all, blast+)
    moreover have "a = b \<or> (\<exists>bs. run_safe_commands spawn secrets environ specs s1 = (s', Inr bs) \<and> a \<in> set bs)"
      using Cons.prems by (auto simp: Inr sp b split: sum.splits prod.splits if_splits)
    ultimately show ?thesis using Cons.IH by blast
  qed
qed simp

text \<open>C34: no output that is reported contains a secret of the environment: the value of a variable with a secret name, of at
  least four characters, without a bracket or a line feed, and not a part of the two marks; and no output is longer than the
  limit or, for a limit below it, the mark of the truncation.\<close>

theorem no_secret_is_reported:
  assumes run: "run_safe_commands spawn (secret_values_from_env iteration environ) environ specs s = (s', Inr as)" and a: "a \<in> set as"
    and order: "\<And>xs. set (iteration xs) = set xs"
  shows "int (length (ap_stdout a)) \<le> max (ap_output_limit_bytes a) 15 \<and> int (length (ap_stderr a)) \<le> max (ap_output_limit_bytes a) 15
     \<and> (\<forall>(n, v)\<in>set environ. is_secret_env_name n \<and> plain_secret v \<longrightarrow> \<not> contains v (ap_stdout a) \<and> \<not> contains v (ap_stderr a))"
proof -
  let ?secrets = "secret_values_from_env iteration environ"
  obtain spec argv code out err status why where "a = attempt_payload ?secrets spec argv code out err status why"
    using attempts_are_payloads [OF run a] by blast
  then have out: "ap_stdout a = fst (truncate_output ?secrets out (ap_output_limit_bytes a))"
    "ap_stderr a = fst (truncate_output ?secrets err (ap_output_limit_bytes a))"
    by (simp_all add: attempt_payload_def split: prod.split)
  have "v \<in> set ?secrets" if "(n, v) \<in> set environ" "is_secret_env_name n" "plain_secret v" for n v
    using that by (force simp: secret_values_from_env_def order plain_secret_def)
  then show ?thesis unfolding out contains_sublist using truncated_output by blast
qed

subsection \<open>A demonstration\<close>

text \<open>A process that prints its arguments and the token, and counts the processes started.\<close>

definition demo_spawn :: "nat spawner" where
  "demo_spawn argv env limit n = (Suc n, Completed (if argv = [''false''] then 1 else 0) (join '' '' argv @ ''; token s3cr3t!'') [])"

definition demo_environ :: "(string \<times> string) list" where
  "demo_environ = [(''PATH'', ''/bin''), (''API_TOKEN'', ''s3cr3t!'')]"

definition demo_spec :: "command \<Rightarrow> command_spec" where
  "demo_spec c = \<lparr>sp_command = c, sp_timeout_seconds = 120, sp_output_limit_bytes = 100, sp_env = None\<rparr>"

definition demo_specs :: "command_spec list" where
  "demo_specs = [demo_spec (Text ''echo \"a b\"''), demo_spec (Argv [''false'']), demo_spec (Text ''/bin/RM.exe -rf x'')]"

definition demo_spawn_checked :: "nat spawner" where
  "demo_spawn_checked argv env limit n =
     (if \<exists>spec\<in>set demo_specs. vetted (sp_command spec) argv then demo_spawn argv env limit n else (n, Raised (OSError ''unsafe process'')))"

definition demo_attempts :: "nat \<times> (werror + attempt list)" where
  "demo_attempts = run_safe_commands demo_spawn (secret_values_from_env (\<lambda>xs. xs) demo_environ) demo_environ demo_specs 0"

lemma demo_attempts_facts:
  "case demo_attempts of
     (n, Inr as) \<Rightarrow> n = 2 \<and> map ap_argv as = [[''echo'', ''a b''], [''false'']] \<and> map ap_return_code as = [0, 1]
       \<and> map ap_stdout as = [''echo a b; token [REDACTED]'', ''false; token [REDACTED]'']
   | _ \<Rightarrow> False"
  by code_simp

lemma demo_attempts_return:
  obtains as where "run_safe_commands demo_spawn (secret_values_from_env (\<lambda>xs. xs) demo_environ) demo_environ demo_specs 0 = (2, Inr as)"
    and "map ap_argv as = [[''echo'', ''a b''], [''false'']]" and "map ap_return_code as = [0, 1]"
    and "map ap_stdout as = [''echo a b; token [REDACTED]'', ''false; token [REDACTED]'']"
  using demo_attempts_facts unfolding demo_attempts_def by (auto split: prod.splits sum.splits)

theorem only_safe_commands_started_witness:
  "\<exists>as. run_safe_commands demo_spawn_checked (secret_values_from_env (\<lambda>xs. xs) demo_environ) demo_environ demo_specs 0 = (2, Inr as)
     \<and> map ap_return_code as = [0, 1]"
proof -
  obtain as where as: "run_safe_commands demo_spawn (secret_values_from_env (\<lambda>xs. xs) demo_environ) demo_environ demo_specs 0 = (2, Inr as)"
    and codes: "map ap_return_code as = [0, 1]"
    by (rule demo_attempts_return)
  have "run_safe_commands demo_spawn secrets demo_environ demo_specs 0 = run_safe_commands demo_spawn_checked secrets demo_environ demo_specs 0" for secrets
    by (rule only_safe_commands_started) (auto simp: demo_spawn_checked_def)
  then show ?thesis using as codes by simp
qed

theorem attempts_stop_at_first_failure_witness:
  "\<exists>as. run_safe_commands demo_spawn (secret_values_from_env (\<lambda>xs. xs) demo_environ) demo_environ demo_specs 0 = (2, Inr as)
     \<and> length as = 2 \<and> passed (as ! 0) \<and> \<not> passed (last as) \<and> list_all2 reported (take 2 demo_specs) as"
proof -
  obtain as where as: "run_safe_commands demo_spawn (secret_values_from_env (\<lambda>xs. xs) demo_environ) demo_environ demo_specs 0 = (2, Inr as)"
    and codes: "map ap_return_code as = [0, 1]"
    by (rule demo_attempts_return)
  have len: "length as = 2" using arg_cong [OF codes, of length] by simp
  have "passed (as ! 0)" using codes len by (cases as) (auto simp: passed_def)
  moreover have "length as < length demo_specs" by (simp add: len demo_specs_def)
  ultimately show ?thesis using attempts_stop_at_first_failure [OF as] as len by auto
qed

theorem no_secret_is_reported_witness:
  "\<exists>as. run_safe_commands demo_spawn (secret_values_from_env (\<lambda>xs. xs) demo_environ) demo_environ demo_specs 0 = (2, Inr as)
     \<and> (\<forall>a\<in>set as. \<not> contains ''s3cr3t!'' (ap_stdout a)) \<and> ap_stdout (hd as) = ''echo a b; token [REDACTED]''"
proof -
  obtain as where as: "run_safe_commands demo_spawn (secret_values_from_env (\<lambda>xs. xs) demo_environ) demo_environ demo_specs 0 = (2, Inr as)"
    and out: "map ap_stdout as = [''echo a b; token [REDACTED]'', ''false; token [REDACTED]'']"
    by (rule demo_attempts_return)
  have secret: "is_secret_env_name ''API_TOKEN''" "plain_secret ''s3cr3t!''" by code_simp+
  have "\<not> contains ''s3cr3t!'' (ap_stdout a)" if "a \<in> set as" for a
    using no_secret_is_reported [OF as that] secret by (auto simp: demo_environ_def)
  moreover have "ap_stdout (hd as) = ''echo a b; token [REDACTED]''" using out by (cases as) simp_all
  ultimately show ?thesis using as by blast
qed

end
