(* ===== verification/Automation_Lease.thy ===== *)
theory Automation_Lease
  imports Py_Path "HOL-Library.AList"
begin

section \<open>Automation leases\<close>

text \<open>
  \<^verbatim>\<open>packages/core_domain/automation_lease.py\<close>: leases that allow an unattended client a set of actions for a time and
  a number of resumes, kept in one JSON file of the workspace. A file is the association list from lease ids to
  leases, in the order of its sorted keys; every operation reads the whole file and writes it back.
\<close>

record automation_lease =
  au_lease_id :: string
  au_workspace_root :: string
  au_allowed_actions :: "string list"
  au_denied_actions :: "string list"
  au_write_set_allowlist :: "string list"
  au_expires_at :: time
  au_max_resume_count :: int
  au_max_fix_iterations :: int
  au_resume_count :: int
  au_status :: string
  au_revoked_at :: "time option"
  au_metadata :: "(string \<times> json) list"
  au_created_at :: time

type_synonym lease_file = "(string \<times> automation_lease) list"

definition default_denied_actions :: "string list" where
  "default_denied_actions = [''git_push'', ''create_pr'', ''publish'', ''secrets'', ''workspace_root_expand'']"

text \<open>\<open>Path(item).as_posix()\<close>, then \<open>lstrip("./")\<close>, which strips the two characters and not the prefix.\<close>

definition path_posix :: "string \<Rightarrow> string" where
  "path_posix s = (if is_absolute s then posix_abs (path_parts s) else posix_rel (path_parts s))"

definition normalize_write_set :: "string list \<Rightarrow> string list" where
  "normalize_write_set paths = sort (map (\<lambda>p. strip_left (\<lambda>c. c = CHR ''.'' \<or> c = CHR ''/'') (path_posix p)) paths)"

text \<open>\<open>store[lease_id] = ..\<close> and \<open>_write_store\<close>: the keys of the file are sorted.\<close>

definition put_lease :: "automation_lease \<Rightarrow> lease_file \<Rightarrow> lease_file" where
  "put_lease l file = sort_key fst (AList.update (au_lease_id l) l file)"

definition sorted_distinct :: "string list \<Rightarrow> string list" where
  "sorted_distinct xs = sort (remdups xs)"

definition create_automation_lease ::
  "env \<Rightarrow> apath \<Rightarrow> string list \<Rightarrow> string list \<Rightarrow> string list \<Rightarrow> int \<Rightarrow> int \<Rightarrow> int \<Rightarrow> (string \<times> json) list \<Rightarrow> lease_file
   \<Rightarrow> werror + automation_lease \<times> lease_file" where
  "create_automation_lease e root allowed allowlist denied ttl max_resume max_fix metadata file =
     rbind (rguard (0 \<le> max_resume \<and> 0 \<le> max_fix) (ValidationError ''AutomationLease'')) (\<lambda>_.
     let l = \<lparr>au_lease_id = new_id ''autolease'' (hex12 e 0), au_workspace_root = posix_abs root,
              au_allowed_actions = sorted_distinct allowed,
              au_denied_actions = sorted_distinct (if denied = [] then default_denied_actions else denied),
              au_write_set_allowlist = normalize_write_set allowlist, au_expires_at = clock e 0 + seconds ttl,
              au_max_resume_count = max_resume, au_max_fix_iterations = max_fix, au_resume_count = 0, au_status = ''active'',
              au_revoked_at = None, au_metadata = metadata, au_created_at = clock e 1\<rparr>
     in Inr (l, put_lease l file))"

definition list_automation_leases :: "lease_file \<Rightarrow> automation_lease list" where
  "list_automation_leases file = map snd file"

definition get_automation_lease :: "string \<Rightarrow> lease_file \<Rightarrow> automation_lease option" where
  "get_automation_lease lid file = map_of file lid"

definition lease_not_found :: werror where
  "lease_not_found = OperatorActionReceiptError ''automation lease not found''"

definition revoke_automation_lease :: "env \<Rightarrow> string \<Rightarrow> lease_file \<Rightarrow> werror + automation_lease \<times> lease_file" where
  "revoke_automation_lease e lid file =
     (case get_automation_lease lid file of
        None \<Rightarrow> Inl lease_not_found
      | Some l \<Rightarrow>
          let l' = l\<lparr>au_status := ''revoked'', au_revoked_at := Some (clock e 0)\<rparr>
          in Inr (l', sort_key fst (AList.update lid l' file)))"

definition resume_action :: "string \<Rightarrow> bool" where
  "resume_action a \<longleftrightarrow> a \<in> {''resume_run'', ''batch_resume_runs''}"

definition validate_automation_lease ::
  "apath \<Rightarrow> time \<Rightarrow> apath \<Rightarrow> string \<Rightarrow> string \<Rightarrow> string list \<Rightarrow> lease_file \<Rightarrow> werror + automation_lease" where
  "validate_automation_lease cwd now root lid action write_set file =
     (case get_automation_lease lid file of
        None \<Rightarrow> Inl lease_not_found
      | Some l \<Rightarrow>
          let requested = normalize_write_set write_set;
              allowlist = normalize_write_set (au_write_set_allowlist l)
          in if resolve_onto cwd (au_workspace_root l) \<noteq> root
             then Inl (OperatorActionReceiptError ''automation lease workspace_root mismatch'')
             else if au_status l \<noteq> ''active'' then Inl (OperatorActionReceiptError ''automation lease is not active'')
             else if au_expires_at l \<le> now then Inl (OperatorActionReceiptError ''automation lease expired'')
             else if action \<in> set (au_denied_actions l) \<or> action \<notin> set (au_allowed_actions l)
             then Inl (OperatorActionReceiptError ''automation lease does not allow action'')
             else if requested \<noteq> [] \<and> allowlist \<noteq> [] \<and> \<not> set requested \<subseteq> set allowlist
             then Inl (OperatorActionReceiptError ''automation lease write_set outside allowlist'')
             else if resume_action action \<and> au_max_resume_count l \<noteq> 0 \<and> au_max_resume_count l \<le> au_resume_count l
             then Inl (OperatorActionReceiptError ''automation lease resume count exhausted'')
             else Inr l)"

definition record_automation_lease_use :: "string \<Rightarrow> string \<Rightarrow> lease_file \<Rightarrow> werror + automation_lease \<times> lease_file" where
  "record_automation_lease_use lid action file =
     (case get_automation_lease lid file of
        None \<Rightarrow> Inl lease_not_found
      | Some l \<Rightarrow>
          let l' = (if resume_action action then l\<lparr>au_resume_count := au_resume_count l + 1\<rparr> else l)
          in Inr (l', sort_key fst (AList.update lid l' file)))"

subsection \<open>Clients\<close>

text \<open>
  \<open>resume_interrupt_with_automation_lease\<close> of \<^verbatim>\<open>packages/runtime_langgraph/interrupts.py\<close> validates a lease before
  an action and records the use. The calls of several clients follow each other.
\<close>

definition resume_interrupt_with_automation_lease ::
  "apath \<Rightarrow> time \<Rightarrow> apath \<Rightarrow> string option \<Rightarrow> string \<Rightarrow> string list \<Rightarrow> lease_file \<Rightarrow> werror + automation_lease \<times> lease_file" where
  "resume_interrupt_with_automation_lease cwd now root lease action write_set file =
     (if str_or lease [] = [] then Inl (ValueError ''automation lease id is required'')
      else rbind (validate_automation_lease cwd now root (str_or lease []) action write_set file) (\<lambda>l.
           record_automation_lease_use (au_lease_id l) action file))"

datatype lease_event =
    CreateLease env apath "string list" "string list" "string list" int int int "(string \<times> json) list"
  | RevokeLease env string
  | UseLease apath time apath "string option" string "string list"

fun lease_step :: "lease_event \<Rightarrow> lease_file \<Rightarrow> werror + lease_file" where
  "lease_step (CreateLease e root allowed allowlist denied ttl mr mf md) file =
     rbind (create_automation_lease e root allowed allowlist denied ttl mr mf md file) (\<lambda>(_, file'). Inr file')"
| "lease_step (RevokeLease e lid) file = rbind (revoke_automation_lease e lid file) (\<lambda>(_, file'). Inr file')"
| "lease_step (UseLease cwd now root lid action write_set) file =
     rbind (resume_interrupt_with_automation_lease cwd now root lid action write_set file) (\<lambda>(_, file'). Inr file')"

definition lease_run :: "lease_event list \<Rightarrow> lease_file \<Rightarrow> lease_file" where
  "lease_run = run_events lease_step"

text \<open>The accepted resumes of a lease in a sequence of events.\<close>

fun resumes_with :: "string \<Rightarrow> lease_event \<Rightarrow> bool" where
  "resumes_with lid (UseLease cwd now root l action write_set) \<longleftrightarrow> l = Some lid \<and> resume_action action"
| "resumes_with lid _ \<longleftrightarrow> False"

fun accepted_resumes :: "string \<Rightarrow> lease_event list \<Rightarrow> lease_file \<Rightarrow> nat" where
  "accepted_resumes lid [] file = 0"
| "accepted_resumes lid (ev # evs) file =
     (case lease_step ev file of
        Inl _ \<Rightarrow> accepted_resumes lid evs file
      | Inr file' \<Rightarrow> (if resumes_with lid ev then 1 else 0) + accepted_resumes lid evs file')"

text \<open>The ids that the creations of a sequence draw.\<close>

fun created_id :: "lease_event \<Rightarrow> string option" where
  "created_id (CreateLease e _ _ _ _ _ _ _ _) = Some (new_id ''autolease'' (hex12 e 0))"
| "created_id _ = None"

end
