(* ===== verification/Lease_Properties.thy ===== *)
theory Lease_Properties
  imports Automation_Lease
begin

section \<open>What an automation lease limits\<close>

text \<open>
  A lease with a maximal number of resumes is used for at most that many, and a revoked lease stays refused, in
  every sequence of calls that follow each other; the reads and writes of two calls are not protected from each other.
\<close>

subsection \<open>The file\<close>

definition file_ok :: "lease_file \<Rightarrow> bool" where
  "file_ok file \<longleftrightarrow> distinct (map fst file) \<and> (\<forall>(k, l)\<in>set file. au_lease_id l = k)"

lemma map_of_sorted: "distinct (map fst xs) \<Longrightarrow> map_of (sort_key fst xs) = map_of xs"
  by (rule map_of_inject_set [THEN iffD2]) (simp_all add: distinct_map)

lemma file_ok_put:
  assumes "file_ok file" and "au_lease_id l = k"
  shows "file_ok (sort_key fst (AList.update k l file))"
    and "get_automation_lease k' (sort_key fst (AList.update k l file)) = (if k' = k then Some l else get_automation_lease k' file)"
proof -
  have d: "distinct (map fst (AList.update k l file))" using assms(1) by (simp add: file_ok_def distinct_update)
  have keys: "au_lease_id m = j" if "(j, m) \<in> set (AList.update k l file)" for j m
  proof -
    have m: "(if j = k then Some l else map_of file j) = Some m"
      using that d by (simp add: update_conv' fun_upd_def flip: map_of_eq_Some_iff [OF d])
    show ?thesis
    proof (cases "j = k")
      case False
      then have "(j, m) \<in> set file" using m by (simp add: map_of_SomeD)
      then show ?thesis using assms(1) by (auto simp: file_ok_def)
    qed (use m assms(2) in simp)
  qed
  show "file_ok (sort_key fst (AList.update k l file))" using d keys by (auto simp: file_ok_def distinct_map)
  show "get_automation_lease k' (sort_key fst (AList.update k l file)) = (if k' = k then Some l else get_automation_lease k' file)"
    using map_of_sorted [OF d] by (simp add: get_automation_lease_def update_conv')
qed

lemma get_lease_id: "file_ok file \<Longrightarrow> get_automation_lease k file = Some l \<Longrightarrow> au_lease_id l = k"
  by (auto simp: file_ok_def get_automation_lease_def dest: map_of_SomeD)

text \<open>A step creates a lease, revokes one, or counts a use of a lease that was valid.\<close>

lemma lease_step_cases:
  assumes "lease_step ev file = Inr file'" and ok: "file_ok file"
  obtains (created) l where "created_id ev = Some (au_lease_id l)" "file' = sort_key fst (AList.update (au_lease_id l) l file)"
      "\<not> resumes_with lid ev"
    | (revoked) k l and e :: env where "get_automation_lease k file = Some l" "\<not> resumes_with lid ev"
        "file' = sort_key fst (AList.update k (l\<lparr>au_status := ''revoked'', au_revoked_at := Some (clock e 0)\<rparr>) file)"
    | (used) k l action where "get_automation_lease k file = Some l" "au_status l = ''active''"
        "resumes_with lid ev \<longleftrightarrow> k = lid \<and> resume_action action"
        "resume_action action \<Longrightarrow> au_max_resume_count l = 0 \<or> au_resume_count l < au_max_resume_count l"
        "file' = sort_key fst (AList.update k (if resume_action action then l\<lparr>au_resume_count := au_resume_count l + 1\<rparr> else l) file)"
proof (cases ev)
  case (CreateLease e root allowed allowlist denied ttl mr mf md)
  then obtain l where l: "create_automation_lease e root allowed allowlist denied ttl mr mf md file = Inr (l, file')"
    using assms(1) by (auto simp: rbind_eq_Inr)
  show thesis
    by (rule created [of l]) (use l in \<open>auto simp: CreateLease create_automation_lease_def rbind_eq_Inr Let_def put_lease_def\<close>)
next
  case (RevokeLease e k)
  then obtain l where l: "get_automation_lease k file = Some l"
    and f: "file' = sort_key fst (AList.update k (l\<lparr>au_status := ''revoked'', au_revoked_at := Some (clock e 0)\<rparr>) file)"
    using assms(1) by (auto simp: revoke_automation_lease_def rbind_eq_Inr Let_def split: option.splits)
  show thesis by (rule revoked [OF l _ f]) (simp add: RevokeLease)
next
  case (UseLease cwd now root lease action write_set)
  let ?k = "str_or lease []"
  have ne: "?k \<noteq> []"
    using assms(1) by (auto simp: UseLease resume_interrupt_with_automation_lease_def split: if_splits)
  obtain l r where l: "validate_automation_lease cwd now root ?k action write_set file = Inr l"
    and r: "record_automation_lease_use (au_lease_id l) action file = Inr (r, file')"
    using assms(1) by (auto simp: UseLease resume_interrupt_with_automation_lease_def rbind_eq_Inr split: if_splits)
  have lease: "lease = Some ?k" using ne by (auto simp: str_or_def split: option.splits if_splits)
  have v: "get_automation_lease ?k file = Some l" "au_status l = ''active''"
    "resume_action action \<Longrightarrow> au_max_resume_count l = 0 \<or> au_resume_count l < au_max_resume_count l"
    using l by (auto simp: validate_automation_lease_def Let_def split: option.splits if_splits)
  have id: "au_lease_id l = ?k" by (rule get_lease_id [OF ok v(1)])
  show thesis
  proof (rule used [OF v(1,2)])
    show "resumes_with lid ev \<longleftrightarrow> ?k = lid \<and> resume_action action" using lease by (auto simp: UseLease)
    show "resume_action action \<Longrightarrow> au_max_resume_count l = 0 \<or> au_resume_count l < au_max_resume_count l" by (rule v(3))
    show "file' = sort_key fst (AList.update ?k (if resume_action action then l\<lparr>au_resume_count := au_resume_count l + 1\<rparr> else l) file)"
      using r by (auto simp: record_automation_lease_use_def id v(1) Let_def)
  qed
qed

text \<open>What a step leaves of a lease whose id is not drawn again.\<close>

lemma lease_step_effect:
  assumes step: "lease_step ev file = Inr file'" and ok: "file_ok file" and l: "get_automation_lease lid file = Some l"
    and fresh: "created_id ev \<noteq> Some lid"
  shows "\<exists>l'. file_ok file' \<and> get_automation_lease lid file' = Some l'
     \<and> au_max_resume_count l' = au_max_resume_count l \<and> (au_status l \<noteq> ''active'' \<longrightarrow> au_status l' \<noteq> ''active'')
     \<and> au_resume_count l' = au_resume_count l + (if resumes_with lid ev then 1 else 0)
     \<and> (resumes_with lid ev \<longrightarrow> au_max_resume_count l = 0 \<or> au_resume_count l < au_max_resume_count l)"
  using step ok
proof (cases rule: lease_step_cases [where lid = lid])
  case (created m)
  then show ?thesis using file_ok_put [where l = m, OF ok refl] l fresh by auto
next
  case (revoked k m e)
  have id: "au_lease_id m = k" by (rule get_lease_id [OF ok revoked(1)])
  then show ?thesis using file_ok_put [where l = "m\<lparr>au_status := ''revoked'', au_revoked_at := Some (clock e 0)\<rparr>" and k = k, OF ok] revoked l
    by (cases "k = lid") auto
next
  case (used k m action)
  have id: "au_lease_id (if resume_action action then m\<lparr>au_resume_count := au_resume_count m + 1\<rparr> else m) = k"
    using get_lease_id [OF ok used(1)] by simp
  show ?thesis using file_ok_put [OF ok id] used l by (cases "k = lid") auto
qed

lemma lease_run_effect:
  assumes "file_ok file" and "get_automation_lease lid file = Some l" and "\<forall>ev\<in>set evs. created_id ev \<noteq> Some lid"
  shows "\<exists>l'. file_ok (lease_run evs file) \<and> get_automation_lease lid (lease_run evs file) = Some l'
     \<and> au_max_resume_count l' = au_max_resume_count l \<and> (au_status l \<noteq> ''active'' \<longrightarrow> au_status l' \<noteq> ''active'')
     \<and> au_resume_count l' = au_resume_count l + int (accepted_resumes lid evs file)
     \<and> (au_max_resume_count l \<noteq> 0 \<and> au_resume_count l \<le> au_max_resume_count l \<longrightarrow> au_resume_count l' \<le> au_max_resume_count l)"
  using assms
proof (induction evs arbitrary: "file" l)
  case Nil
  then show ?case by (simp add: lease_run_def)
next
  case (Cons ev evs)
  have run: "lease_run (ev # evs) file = (case lease_step ev file of Inl _ \<Rightarrow> lease_run evs file | Inr file' \<Rightarrow> lease_run evs file')"
    by (simp add: lease_run_def split: sum.split)
  show ?case
  proof (cases "lease_step ev file")
    case (Inl err)
    then show ?thesis using Cons.IH [OF Cons.prems(1,2)] Cons.prems(3) run by simp
  next
    case (Inr file')
    obtain l1 where l1: "file_ok file'" "get_automation_lease lid file' = Some l1" "au_max_resume_count l1 = au_max_resume_count l"
      "au_status l \<noteq> ''active'' \<longrightarrow> au_status l1 \<noteq> ''active''"
      "au_resume_count l1 = au_resume_count l + (if resumes_with lid ev then 1 else 0)"
      "resumes_with lid ev \<longrightarrow> au_max_resume_count l = 0 \<or> au_resume_count l < au_max_resume_count l"
      using lease_step_effect [OF Inr Cons.prems(1,2)] Cons.prems(3) by auto
    show ?thesis using Cons.IH [OF l1(1,2)] Cons.prems(3) l1(3-6) run by (auto simp: Inr)
  qed
qed

subsection \<open>The properties\<close>

text \<open>C35: a lease with a maximal number of resumes is used for at most the resumes it has left, in every sequence of creations,
  revocations and uses that does not draw its id again; the count of the file is exactly the number of accepted
  resumes.\<close>

theorem resumes_within_the_lease:
  assumes "file_ok file" and "get_automation_lease lid file = Some l" and "\<forall>ev\<in>set evs. created_id ev \<noteq> Some lid"
    and "0 < au_max_resume_count l" and "au_resume_count l \<le> au_max_resume_count l"
  shows "au_resume_count l + int (accepted_resumes lid evs file) \<le> au_max_resume_count l
     \<and> (\<exists>l'. get_automation_lease lid (lease_run evs file) = Some l'
          \<and> au_resume_count l' = au_resume_count l + int (accepted_resumes lid evs file))"
  using lease_run_effect [OF assms(1-3)] assms(4,5) by auto

text \<open>Once a lease is revoked, no use of it is accepted, whatever calls follow.\<close>

theorem revoked_lease_stays_refused:
  assumes "file_ok file" and "revoke_automation_lease e lid file = Inr (l, file')" and "\<forall>ev\<in>set evs. created_id ev \<noteq> Some lid"
  shows "\<exists>err. validate_automation_lease cwd now root lid action write_set (lease_run evs file') = Inl err"
proof -
  obtain m where m: "get_automation_lease lid file = Some m"
    and f: "file' = sort_key fst (AList.update lid (m\<lparr>au_status := ''revoked'', au_revoked_at := Some (clock e 0)\<rparr>) file)"
    using assms(2) by (auto simp: revoke_automation_lease_def Let_def split: option.splits)
  let ?m = "m\<lparr>au_status := ''revoked'', au_revoked_at := Some (clock e 0)\<rparr>"
  have "au_lease_id ?m = lid" using get_lease_id [OF assms(1) m] by simp
  from file_ok_put [OF assms(1) this] have "file_ok file'" "get_automation_lease lid file' = Some ?m" by (simp_all add: f)
  from lease_run_effect [OF this assms(3)]
  obtain l' where "get_automation_lease lid (lease_run evs file') = Some l'" "au_status l' \<noteq> ''active''" by auto
  then show ?thesis by (auto simp: validate_automation_lease_def Let_def)
qed

subsection \<open>A demonstration\<close>

definition demo_now :: "time \<Rightarrow> env" where
  "demo_now t = \<lparr>clock = (\<lambda>_. t), hex12 = (\<lambda>_. ''a'')\<rparr>"

definition demo_file :: lease_file where
  "demo_file = lease_run [CreateLease (demo_now 0) [''w''] [''resume_run''] [''src/x''] [] 3600 2 2 []] []"

definition demo_use :: "string list \<Rightarrow> lease_event" where
  "demo_use write_set = UseLease [''w''] 5 [''w''] (Some ''autolease_a'') ''resume_run'' write_set"

lemma demo_file_ok: "file_ok demo_file"
  by code_simp

lemma demo_lease:
  obtains l where "get_automation_lease ''autolease_a'' demo_file = Some l" and "au_max_resume_count l = 2" and "au_resume_count l = 0"
proof -
  have "map_option (\<lambda>l. (au_max_resume_count l, au_resume_count l)) (get_automation_lease ''autolease_a'' demo_file) = Some (2, 0)"
    by code_simp
  then show ?thesis using that by auto
qed

theorem resumes_within_the_lease_witness:
  "\<exists>l. get_automation_lease ''autolease_a'' demo_file = Some l
     \<and> int (accepted_resumes ''autolease_a'' (replicate 5 (demo_use [''src/x''])) demo_file) \<le> au_max_resume_count l
     \<and> accepted_resumes ''autolease_a'' (replicate 5 (demo_use [''src/x''])) demo_file = 2"
proof -
  obtain l where l: "get_automation_lease ''autolease_a'' demo_file = Some l" "au_max_resume_count l = 2" "au_resume_count l = 0"
    by (rule demo_lease)
  have "accepted_resumes ''autolease_a'' (replicate 5 (demo_use [''src/x''])) demo_file = 2" by code_simp
  moreover have "\<forall>ev\<in>set (replicate 5 (demo_use [''src/x''])). created_id ev \<noteq> Some ''autolease_a''" by (simp add: demo_use_def)
  ultimately show ?thesis using resumes_within_the_lease [OF demo_file_ok l(1)] l by auto
qed

theorem revoked_lease_stays_refused_witness:
  "\<exists>l file'. revoke_automation_lease (demo_now 1) ''autolease_a'' demo_file = Inr (l, file')
     \<and> (\<exists>err. validate_automation_lease [''w''] 5 [''w''] ''autolease_a'' ''resume_run'' [] (lease_run [demo_use []] file') = Inl err)"
proof -
  obtain l where "get_automation_lease ''autolease_a'' demo_file = Some l" by (rule demo_lease)
  then obtain l' file' where r: "revoke_automation_lease (demo_now 1) ''autolease_a'' demo_file = Inr (l', file')"
    by (auto simp: revoke_automation_lease_def Let_def)
  have "\<forall>ev\<in>set [demo_use []]. created_id ev \<noteq> Some ''autolease_a''" by (simp add: demo_use_def)
  from revoked_lease_stays_refused [OF demo_file_ok r this] show ?thesis using r by blast
qed

text \<open>
  A use that read the file before a revocation writes the active lease back. And \<open>lstrip\<close> makes a path above the
  workspace equal to one of the allowlist.
\<close>

definition reply_of :: "werror + 'a \<times> 'b \<Rightarrow> 'b option" where
  "reply_of r = (case r of Inl _ \<Rightarrow> None | Inr (_, x) \<Rightarrow> Some x)"

lemma late_use_undoes_revocation:
  "map_option (\<lambda>file. map (\<lambda>l. au_status l) (list_automation_leases file)) (reply_of (revoke_automation_lease (demo_now 1) ''autolease_a'' demo_file))
     = Some [''revoked'']
   \<and> map_option (\<lambda>file. map (\<lambda>l. au_status l) (list_automation_leases file)) (reply_of (record_automation_lease_use ''autolease_a'' ''resume_run'' demo_file))
     = Some [''active'']"
  by (intro conjI; code_simp)

lemma path_above_workspace_passes:
  "\<not> isl (validate_automation_lease [''w''] 5 [''w''] ''autolease_a'' ''resume_run'' [''../src/x''] demo_file)
   \<and> resolve_onto [''w''] ''../src/x'' = [''src'', ''x'']"
  by (intro conjI; code_simp)

end
