(* ===== verification/Exec_Profiles.thy ===== *)
theory Exec_Profiles
  imports Cluster_Templates Py_Text "HOL-Library.AList"
begin

section \<open>Execution profiles\<close>

text \<open>
  \<^verbatim>\<open>packages/core_domain/execution_profiles.py\<close> and \<^verbatim>\<open>service_execution_resolution.py\<close>: which adapter and which
  models a run is executed with, from the scopes that may set them, the strong default of the dogfood mode and
  the adaptive routing of roles. The effective configuration is a record of the settings read, an optional setting
  with its source; dictionaries are association lists in their order of insertion. The routes, the lane rules and
  the default adapters of the service are fields of the record \<open>service\<close>.
\<close>

subsection \<open>Profiles and configuration\<close>

record execution_profile =
  ef_adapter_name :: "string option"
  ef_agent_model :: "string option"
  ef_codex_model :: "string option"
  ef_codex_reasoning_effort :: "string option"
  ef_opencode_model :: "string option"
  ef_opencode_variant :: "string option"
  ef_runtime_gateway_provider :: "string option"
  ef_runtime_gateway_model :: "string option"
  ef_runtime_reasoning_effort :: "string option"
  ef_worker_pool_id :: "string option"

definition execution_profile_fields :: "string list" where
  "execution_profile_fields =
     [''adapter_name'', ''agent_model'', ''codex_model'', ''codex_reasoning_effort'', ''opencode_model'', ''opencode_variant'',
      ''runtime_gateway_provider'', ''runtime_gateway_model'', ''runtime_reasoning_effort'', ''worker_pool_id'']"

text \<open>\<open>getattr(profile, field_name, None)\<close> for the fields in this order.\<close>

definition profile_settings :: "execution_profile \<Rightarrow> string option list" where
  "profile_settings p =
     [ef_adapter_name p, ef_agent_model p, ef_codex_model p, ef_codex_reasoning_effort p, ef_opencode_model p, ef_opencode_variant p,
      ef_runtime_gateway_provider p, ef_runtime_gateway_model p, ef_runtime_reasoning_effort p, ef_worker_pool_id p]"

definition execution_profile_values :: "execution_profile option \<Rightarrow> (string \<times> string) list" where
  "execution_profile_values p =
     (case p of
        None \<Rightarrow> []
      | Some p \<Rightarrow> List.map_filter (\<lambda>(k, v). map_option (\<lambda>x. (k, x)) v) (zip execution_profile_fields (profile_settings p)))"

type_synonym setting = "string option \<times> string"

record dogfood_config =
  dg_strong_model_enabled :: bool
  dg_execution_backend :: "string option"
  dg_model :: "string option"
  dg_codex_model :: "string option"
  dg_codex_model_source :: "string option"
  dg_reasoning_effort :: "string option"

record adaptive_config =
  av_enabled :: bool
  av_coding_adapter :: "string option"
  av_complex_model :: "string option"
  av_medium_model :: "string option"
  av_simple_model :: "string option"

record effective_config =
  ec_agent_model :: setting
  ec_codex_model :: setting
  ec_codex_reasoning_effort :: setting
  ec_opencode_model :: setting
  ec_opencode_variant :: setting
  ec_gateway_provider :: setting
  ec_gateway_openai_model :: setting
  ec_gateway_openai_reasoning_effort :: setting
  ec_default_pool_id :: setting
  ec_dogfood :: dogfood_config
  ec_adaptive :: adaptive_config
  ec_langchain_provider :: "string option"
  ec_langchain_model :: "string option"

record scope_context =
  sx_preset_id :: "string option"
  sx_agent_profile_id :: "string option"
  sx_cluster_template_id :: "string option"
  sx_cluster_member_id :: "string option"
  sx_public_role :: "agent_role option"
  sx_role_label :: "string option"

definition dogfood_core_model_fields :: "string list" where
  "dogfood_core_model_fields =
     [''agent_model'', ''codex_model'', ''codex_reasoning_effort'', ''runtime_gateway_model'', ''runtime_reasoning_effort'']"

definition dogfood_codex_cluster_template_ids :: "string list" where
  "dogfood_codex_cluster_template_ids =
     [''architecture_delivery_cluster'', ''search_cluster'', ''design_cluster'', ''multimodal_cluster'', ''review_cluster'',
      ''management_cluster'']"

definition external_adapter_model_labels :: "(string \<times> string \<times> string) list" where
  "external_adapter_model_labels =
     [(''claude_architect'', ''claude-code-cli'', ''external_cli_model''), (''mmx_multimodal'', ''mmx-cli-default'', ''external_cli_model''),
      (''vertex_multimodal'', ''vertex-cli-default'', ''external_cli_model'')]"

definition adaptive_complex_markers :: "string list" where
  "adaptive_complex_markers = [''coder'', ''code'', ''implementer'', ''implementation'', ''patch'', ''mutation'', ''worker'', ''dev'']"

definition adaptive_medium_markers :: "string list" where
  "adaptive_medium_markers =
     [''planner'', ''phase_designer'', ''reviewer'', ''review'', ''quality'', ''test'', ''sentinel'', ''critic'', ''risk'']"

definition adaptive_simple_markers :: "string list" where
  "adaptive_simple_markers =
     [''research'', ''search'', ''source'', ''citation'', ''doc'', ''curator'', ''launch_guard'', ''designer'', ''management'',
      ''roadmap'', ''multimodal'']"

definition dogfood_backend :: "effective_config \<Rightarrow> string" where
  "dogfood_backend c = lower (py_strip (str_or (dg_execution_backend (ec_dogfood c)) ''codex_cli''))"

text \<open>\<open>_global_execution_profile\<close>: the profile and the sources of its fields.\<close>

definition global_execution_profile :: "effective_config \<Rightarrow> execution_profile \<times> (string \<times> string option) list" where
  "global_execution_profile c =
     (let d = ec_dogfood c; strong = dg_strong_model_enabled d; codex_cli = (dogfood_backend c = ''codex_cli'');
          model = str_or (dg_model d) ''gpt-5.5''; codex_model = str_or (dg_codex_model d) model;
          reasoning = str_or (dg_reasoning_effort d) ''xhigh''; source = Some ''derived:dogfood_strong_default'';
          codex_source = (if str_or (dg_codex_model d) [] \<noteq> [] then dg_codex_model_source d
                          else Some ''derived:dogfood_codex_cli_backend_default'');
          pick = (\<lambda>s. if strong then source else Some (snd (s :: setting)))
      in (\<lparr>ef_adapter_name = None, ef_agent_model = (if strong then Some model else fst (ec_agent_model c)),
           ef_codex_model = (if strong \<and> codex_cli then Some codex_model else if strong then Some model else fst (ec_codex_model c)),
           ef_codex_reasoning_effort = (if strong then Some reasoning else fst (ec_codex_reasoning_effort c)),
           ef_opencode_model = fst (ec_opencode_model c), ef_opencode_variant = fst (ec_opencode_variant c),
           ef_runtime_gateway_provider = fst (ec_gateway_provider c),
           ef_runtime_gateway_model = (if strong then Some model else fst (ec_gateway_openai_model c)),
           ef_runtime_reasoning_effort = (if strong then Some reasoning else fst (ec_gateway_openai_reasoning_effort c)),
           ef_worker_pool_id = fst (ec_default_pool_id c)\<rparr>,
          [(''agent_model'', pick (ec_agent_model c)),
           (''codex_model'', if strong \<and> codex_cli then codex_source else pick (ec_codex_model c)),
           (''codex_reasoning_effort'', pick (ec_codex_reasoning_effort c)),
           (''opencode_model'', Some (snd (ec_opencode_model c))), (''opencode_variant'', Some (snd (ec_opencode_variant c))),
           (''runtime_gateway_provider'', Some (snd (ec_gateway_provider c))),
           (''runtime_gateway_model'', pick (ec_gateway_openai_model c)),
           (''runtime_reasoning_effort'', pick (ec_gateway_openai_reasoning_effort c)),
           (''worker_pool_id'', Some (snd (ec_default_pool_id c)))]))"

definition build_effective_execution_defaults :: "effective_config \<Rightarrow> (string \<times> string option \<times> string option) list" where
  "build_effective_execution_defaults c =
     (let (p, sources) = global_execution_profile c; values = execution_profile_values (Some p)
      in map (\<lambda>k. (k, map_of values k, case map_of sources k of Some s \<Rightarrow> s | None \<Rightarrow> Some ''default''))
           (filter (\<lambda>k. k \<noteq> ''adapter_name'') execution_profile_fields))"

subsection \<open>The scopes\<close>

record source_entry =
  se_scope :: string
  se_source :: "string option"
  se_value :: "string option"
  se_original :: "string option option" \<comment> \<open>\<open>original_value\<close>, when the key is there\<close>

record applied_scope =
  sc_scope :: string
  sc_source :: string
  sc_values :: "(string \<times> string) list"
  sc_field_sources :: "(string \<times> string option) list"

record resolution =
  rz_values :: "(string \<times> string) list"
  rz_source_map :: "(string \<times> source_entry) list"
  rz_applied :: "applied_scope list"

type_synonym scope_entry = "string \<times> string \<times> execution_profile option \<times> (string \<times> string option) list"

definition set_field :: "string \<Rightarrow> string \<Rightarrow> (string \<times> string option) list \<Rightarrow> resolution \<Rightarrow> string \<times> string \<Rightarrow> resolution" where
  "set_field scope source sources z kv =
     (let (k, v) = kv
      in if k \<in> fst ` set (rz_values z) then z
         else z\<lparr>rz_values := rz_values z @ [(k, v)],
                rz_source_map := AList.update k
                  \<lparr>se_scope = scope, se_source = (case map_of sources k of Some s \<Rightarrow> s | None \<Rightarrow> Some source),
                   se_value = Some v, se_original = None\<rparr> (rz_source_map z)\<rparr>)"

definition apply_scope :: "resolution \<Rightarrow> scope_entry \<Rightarrow> resolution" where
  "apply_scope z entry =
     (let (scope, source, p, sources) = entry; values = execution_profile_values p
      in if values = [] then z
         else foldl (set_field scope source sources)
                (z\<lparr>rz_applied := rz_applied z @ [\<lparr>sc_scope = scope, sc_source = source, sc_values = values, sc_field_sources = sources\<rparr>]\<rparr>)
                values)"

text \<open>\<open>resolved_values[key] = ..\<close> with the entry of \<open>source_map\<close>.\<close>

definition override_field :: "string \<Rightarrow> string \<Rightarrow> string \<Rightarrow> string \<Rightarrow> string option option \<Rightarrow> resolution \<Rightarrow> resolution" where
  "override_field k v scope source original z =
     z\<lparr>rz_values := AList.update k v (rz_values z),
       rz_source_map := AList.update k \<lparr>se_scope = scope, se_source = Some source, se_value = Some v, se_original = original\<rparr> (rz_source_map z)\<rparr>"

definition adapter_of :: "resolution \<Rightarrow> string option" where
  "adapter_of z = map_of (rz_values z) ''adapter_name''"

definition scope_of :: "string \<Rightarrow> resolution \<Rightarrow> string option" where
  "scope_of k z = map_option se_scope (map_of (rz_source_map z) k)"

text \<open>The two fallbacks; the last component is \<open>compatibility_fallback\<close>.\<close>

definition adapter_fallback :: "string option \<Rightarrow> string \<Rightarrow> resolution \<times> string option \<Rightarrow> resolution \<times> string option" where
  "adapter_fallback adapter source zf =
     (case (adapter_of (fst zf), adapter) of
        (None, Some a) \<Rightarrow> (override_field ''adapter_name'' a ''compatibility_fallback'' source None (fst zf), Some source)
      | _ \<Rightarrow> zf)"

definition routes_agent_to_codex :: "effective_config \<Rightarrow> scope_context option \<Rightarrow> resolution \<Rightarrow> bool" where
  "routes_agent_to_codex c ctx z \<longleftrightarrow>
     dg_strong_model_enabled (ec_dogfood c) \<and> dogfood_backend c = ''codex_cli''
     \<and> (case ctx of None \<Rightarrow> False
        | Some x \<Rightarrow> (case sx_cluster_template_id x of None \<Rightarrow> False | Some t \<Rightarrow> t \<in> set dogfood_codex_cluster_template_ids))
     \<and> adapter_of z = Some ''agent'' \<and> scope_of ''adapter_name'' z \<noteq> Some ''explicit_invocation''"

subsection \<open>Adaptive routing\<close>

definition role_key :: "scope_context \<Rightarrow> string" where
  "role_key x =
     lower (join '' '' [str_or (sx_role_label x) [], (case sx_public_role x of Some r \<Rightarrow> role_name r | None \<Rightarrow> []),
                        str_or (sx_cluster_template_id x) [], str_or (sx_cluster_member_id x) [], str_or (sx_agent_profile_id x) []])"

definition has_marker :: "string list \<Rightarrow> string \<Rightarrow> bool" where
  "has_marker markers key \<longleftrightarrow> list_ex (\<lambda>m. contains m key) markers"

text \<open>Adapter, model field, model and tier.\<close>

definition adaptive_route_for_scope :: "adaptive_config \<Rightarrow> scope_context option \<Rightarrow> (string \<times> string \<times> string \<times> string) option" where
  "adaptive_route_for_scope a ctx =
     (if \<not> av_enabled a then None
      else case ctx of
             None \<Rightarrow> None
           | Some x \<Rightarrow>
               let coding = lower (py_strip (str_or (av_coding_adapter a) ''codex''));
                   adapter = (if coding \<in> {''codex'', ''opencode'', ''agent''} then coding else ''codex'');
                   field = (if adapter = ''codex'' then ''codex_model'' else if adapter = ''opencode'' then ''opencode_model'' else ''agent_model'')
               in if has_marker adaptive_complex_markers (role_key x)
                  then Some (adapter, field, str_or (av_complex_model a) ''gpt-5.5'', ''complex'')
                  else if has_marker adaptive_medium_markers (role_key x)
                  then Some (''agent'', ''agent_model'', str_or (av_medium_model a) ''deepseek/deepseek-v4-flash'', ''medium'')
                  else if has_marker adaptive_simple_markers (role_key x)
                  then Some (''agent'', ''agent_model'', str_or (av_simple_model a) ''minimax/MiniMax-M2.7'', ''simple'')
                  else None)"

definition can_apply_adaptive_route :: "effective_config \<Rightarrow> resolution \<Rightarrow> bool" where
  "can_apply_adaptive_route c z \<longleftrightarrow>
     av_enabled (ec_adaptive c) \<and> \<not> dg_strong_model_enabled (ec_dogfood c)
     \<and> scope_of ''adapter_name'' z \<noteq> Some ''explicit_invocation''
     \<and> (case adapter_of z of None \<Rightarrow> True | Some a \<Rightarrow> a \<notin> fst ` set external_adapter_model_labels)"

definition apply_route :: "string \<times> string \<times> string \<times> string \<Rightarrow> resolution \<Rightarrow> resolution" where
  "apply_route route z =
     (let (adapter, field, model, tier) = route
      in override_field field model ''adaptive_llm_routing'' ''derived:m44_adaptive_role_router'' None
           (override_field ''adapter_name'' adapter ''adaptive_llm_routing'' ''derived:m44_adaptive_role_router'' (Some (adapter_of z)) z))"

subsection \<open>The selected model\<close>

text \<open>The model of an adapter: model, its field, and the variant.\<close>

definition selected_model_of :: "string option \<Rightarrow> (string \<times> string) list \<Rightarrow> string option \<times> string option \<times> string option" where
  "selected_model_of adapter values =
     (case adapter of
        None \<Rightarrow> (None, None, None)
      | Some a \<Rightarrow>
          if a = ''agent'' then (map_of values ''agent_model'', Some ''agent_model'', None)
          else if a = ''codex'' then (map_of values ''codex_model'', Some ''codex_model'', None)
          else if a = ''opencode'' \<or> a = ''opencode_session''
          then (map_of values ''opencode_model'', Some ''opencode_model'', map_of values ''opencode_variant'')
          else case map_of external_adapter_model_labels a of
                 Some (m, k) \<Rightarrow> (Some m, Some k, None)
               | None \<Rightarrow> (None, None, None))"

definition source_starts :: "string list \<Rightarrow> source_entry option \<Rightarrow> bool" where
  "source_starts starts entry \<longleftrightarrow>
     (let s = (case entry of None \<Rightarrow> [] | Some x \<Rightarrow> str_or (se_source x) []) in list_ex (\<lambda>p. starts_with p s) starts)"

definition model_selection_metadata ::
  "string option \<Rightarrow> string option \<Rightarrow> (string \<times> source_entry) list \<Rightarrow> bool \<Rightarrow> string \<Rightarrow> scope_context option \<Rightarrow> string \<times> string" where
  "model_selection_metadata adapter kind sources strong backend ctx =
     (let adapter_source = map_of sources ''adapter_name''; model_source = map_of sources (str_or kind []);
          in_scope = (\<lambda>s e. map_option se_scope e = Some s)
      in if in_scope ''adaptive_llm_routing'' adapter_source \<or> in_scope ''adaptive_llm_routing'' model_source
         then (''adaptive_llm_router'', ''M44 adaptive routing selected a MiniMax/DeepSeek/OpenCode free-model lane for this role'')
         else if strong \<and> backend = ''codex_cli''
           \<and> (case ctx of None \<Rightarrow> False
              | Some x \<Rightarrow> (case sx_cluster_template_id x of None \<Rightarrow> False | Some t \<Rightarrow> t \<in> set dogfood_codex_cluster_template_ids))
           \<and> adapter = Some ''codex'' \<and> kind = Some ''codex_model''
           \<and> source_starts [''derived:dogfood_strong_default'', ''derived:dogfood_codex_cli_backend_default'',
                ''env:WORKFLOW_DOGFOOD_CODEX_MODEL'', ''toml:dogfood.codex_model''] model_source
         then (''dogfood_strong_codex_cli'', ''M41 dogfood is using Codex CLI as the strong execution backend to avoid OpenAI API dependency'')
         else if in_scope ''explicit_invocation'' model_source
           \<or> (in_scope ''explicit_invocation'' adapter_source \<and> str_or kind [] = [])
         then (''manual'', ''explicit invocation or operator request selected the adapter/model'')
         else if strong \<and> (case kind of None \<Rightarrow> False | Some k \<Rightarrow> k \<in> set dogfood_core_model_fields)
           \<and> source_starts [''derived:dogfood_strong_default'', ''derived:dogfood_codex_cli_backend_default''] model_source
         then (''dogfood_strong_default'', ''M41 dogfood is running core workflow roles on the strong default model for accuracy'')
         else if (case adapter of None \<Rightarrow> False | Some a \<Rightarrow> a \<in> fst ` set external_adapter_model_labels)
         then (''role_default'', ''external artifact-only capability uses its configured local CLI default'')
         else if in_scope ''compatibility_fallback'' adapter_source
         then (''fallback'', ''worker router compatibility fallback selected the adapter'')
         else (''role_default'', ''resolved from role, preset, cluster, or effective global defaults''))"

subsection \<open>The resolution\<close>

record resolved_profile =
  rf_adapter_name :: "string option"
  rf_execution_lane :: "string option"
  rf_selected_model :: "string option"
  rf_selected_model_kind :: "string option"
  rf_model_variant :: "string option"
  rf_model_selection :: "string \<times> string" \<comment> \<open>source and reason\<close>
  rf_dogfood_strong_model_enabled :: bool
  rf_dogfood_execution_backend :: string
  rf_adaptive_llm_routing_enabled :: bool
  rf_adaptive_route_tier :: "string option"
  rf_langchain_agent_provider :: string
  rf_langchain_agent_model :: "string option"
  rf_role_responsibilities :: "string list"
  rf_values :: "(string \<times> string) list" \<comment> \<open>the fields from \<open>agent_model\<close> to \<open>worker_pool_id\<close>\<close>
  rf_scope_context :: "scope_context option"
  rf_source_map :: "(string \<times> source_entry) list"
  rf_applied_scopes :: "applied_scope list"
  rf_compatibility_fallback :: "string option"

record profile_scopes =
  ps_explicit :: "execution_profile option"
  ps_cluster_member :: "execution_profile option"
  ps_agent :: "execution_profile option"
  ps_preset :: "execution_profile option"
  ps_cluster_template :: "execution_profile option"

definition scope_entries :: "effective_config \<Rightarrow> profile_scopes \<Rightarrow> scope_entry list" where
  "scope_entries c ps =
     [(''explicit_invocation'', ''compile_request'', ps_explicit ps, []), (''cluster_member'', ''cluster_member_spec'', ps_cluster_member ps, []),
      (''agent_profile'', ''agent_profile_definition'', ps_agent ps, []), (''preset'', ''preset_definition'', ps_preset ps, []),
      (''cluster_template_default'', ''cluster_template_definition'', ps_cluster_template ps, []),
      (''effective_global_defaults'', ''effective_config'', Some (fst (global_execution_profile c)), snd (global_execution_profile c))]"

definition merge_scopes :: "effective_config \<Rightarrow> profile_scopes \<Rightarrow> resolution" where
  "merge_scopes c ps = foldl apply_scope \<lparr>rz_values = [], rz_source_map = [], rz_applied = []\<rparr> (scope_entries c ps)"

text \<open>Everything that decides the adapter: the merged scopes, the fallbacks, the dogfood backend, the adaptive route.\<close>

definition route_adapter ::
  "effective_config \<Rightarrow> profile_scopes \<Rightarrow> string option \<Rightarrow> string option \<Rightarrow> scope_context option
   \<Rightarrow> resolution \<times> string option \<times> (string \<times> string \<times> string \<times> string) option" where
  "route_adapter c ps compatibility routing_default ctx =
     (let (z1, fallback) = adapter_fallback routing_default ''worker_router_default''
            (adapter_fallback compatibility ''legacy_adapter_resolution'' (merge_scopes c ps, None));
          z2 = (if routes_agent_to_codex c ctx z1
                then override_field ''adapter_name'' ''codex'' ''dogfood_execution_backend'' ''derived:dogfood_codex_cli_backend'' (Some (Some ''agent'')) z1
                else z1);
          route = (if can_apply_adaptive_route c z2 then adaptive_route_for_scope (ec_adaptive c) ctx else None)
      in (case route of None \<Rightarrow> z2 | Some r \<Rightarrow> apply_route r z2, fallback, route))"

definition resolve_execution_profile ::
  "effective_config \<Rightarrow> profile_scopes \<Rightarrow> string option \<Rightarrow> string option \<Rightarrow> scope_context option \<Rightarrow> resolved_profile" where
  "resolve_execution_profile c ps compatibility routing_default ctx =
     (let (z, fallback, route) = route_adapter c ps compatibility routing_default ctx;
          adapter = adapter_of z; (model, kind, variant) = selected_model_of adapter (rz_values z)
      in \<lparr>rf_adapter_name = adapter, rf_execution_lane = None, rf_selected_model = model, rf_selected_model_kind = kind,
          rf_model_variant = variant,
          rf_model_selection = model_selection_metadata adapter kind (rz_source_map z) (dg_strong_model_enabled (ec_dogfood c))
                                 (dogfood_backend c) ctx,
          rf_dogfood_strong_model_enabled = dg_strong_model_enabled (ec_dogfood c), rf_dogfood_execution_backend = dogfood_backend c,
          rf_adaptive_llm_routing_enabled = av_enabled (ec_adaptive c),
          rf_adaptive_route_tier = map_option (\<lambda>(_, _, _, tier). tier) route,
          rf_langchain_agent_provider = str_or (ec_langchain_provider c) ''auto'', rf_langchain_agent_model = ec_langchain_model c,
          rf_role_responsibilities = [], rf_values = filter (\<lambda>(k, _). k \<noteq> ''adapter_name'') (rz_values z), rf_scope_context = ctx,
          rf_source_map = rz_source_map z, rf_applied_scopes = rz_applied z, rf_compatibility_fallback = fallback\<rparr>)"

subsection \<open>Resolution for a service\<close>

record service =
  sv_config :: effective_config
  sv_agent_profiles :: "agent_profile list"
  sv_cluster_templates :: "cluster_template list"
  sv_default_adapter :: "string \<Rightarrow> string option" \<comment> \<open>\<open>_default_adapter_for_preset\<close>, by preset id\<close>
  sv_router_default :: "string option" \<comment> \<open>\<open>_router_default_adapter_for_task_kind\<close>\<close>
  sv_has_route :: "string \<Rightarrow> bool" \<comment> \<open>\<open>_capability_route_for\<close> is not \<open>None\<close>\<close>
  sv_lane :: "string option \<Rightarrow> werror + string" \<comment> \<open>\<open>_resolve_execution_lane\<close>\<close>

text \<open>The profiles of the catalogue only set the adapter.\<close>

definition adapter_profile :: "string option \<Rightarrow> execution_profile option" where
  "adapter_profile a =
     map_option (\<lambda>x. \<lparr>ef_adapter_name = Some x, ef_agent_model = None, ef_codex_model = None, ef_codex_reasoning_effort = None,
       ef_opencode_model = None, ef_opencode_variant = None, ef_runtime_gateway_provider = None, ef_runtime_gateway_model = None,
       ef_runtime_reasoning_effort = None, ef_worker_pool_id = None\<rparr>) a"

definition agent_profile_definition :: "service \<Rightarrow> string option \<Rightarrow> agent_profile option" where
  "agent_profile_definition sv pid =
     (if str_or pid [] = [] then None else sql_first (\<lambda>p. ap_profile_id p = str_or pid []) (sv_agent_profiles sv))"

definition cluster_template_definition :: "service \<Rightarrow> string option \<Rightarrow> cluster_template option" where
  "cluster_template_definition sv tid =
     (if str_or tid [] = [] then None else sql_first (\<lambda>t. xt_template_id t = str_or tid []) (sv_cluster_templates sv))"

definition cluster_member_definition :: "service \<Rightarrow> string option \<Rightarrow> string option \<Rightarrow> cluster_member option" where
  "cluster_member_definition sv tid mid =
     (case cluster_template_definition sv tid of
        None \<Rightarrow> None
      | Some t \<Rightarrow> if str_or mid [] = [] then None else sql_first (\<lambda>m. cm_member_id m = str_or mid []) (xt_member_specs t))"

record profile_request =
  pq_preset_id :: string
  pq_preset_profile :: "execution_profile option"
  pq_explicit :: "execution_profile option"
  pq_agent_profile_id :: "string option"
  pq_cluster_template_id :: "string option"
  pq_cluster_member_id :: "string option"
  pq_public_role :: "agent_role option"
  pq_role_label :: "string option"

text \<open>An adapter without a route is replaced by the router's default, unless it was asked for.\<close>

definition replace_unroutable :: "service \<Rightarrow> resolved_profile \<Rightarrow> resolved_profile" where
  "replace_unroutable sv r =
     (case rf_adapter_name r of
        None \<Rightarrow> r
      | Some a \<Rightarrow>
          if sv_has_route sv a \<or> map_option se_scope (map_of (rf_source_map r) ''adapter_name'') = Some ''explicit_invocation'' then r
          else
            let fallback = sv_router_default sv;
                (model, kind, variant) =
                  (case fallback of
                     Some f \<Rightarrow> if f \<in> {''agent'', ''codex'', ''opencode'', ''opencode_session''}
                               then selected_model_of fallback (rf_values r) else (None, None, None)
                   | None \<Rightarrow> (None, None, None))
            in r\<lparr>rf_adapter_name := fallback, rf_selected_model := model, rf_selected_model_kind := kind, rf_model_variant := variant,
                 rf_model_selection := (''fallback'', ''worker router compatibility fallback selected the available adapter''),
                 rf_compatibility_fallback := Some ''worker_router_default'',
                 rf_source_map := AList.update ''adapter_name''
                   \<lparr>se_scope = ''compatibility_fallback'', se_source = Some ''worker_router_default'', se_value = fallback, se_original = None\<rparr>
                   (rf_source_map r)\<rparr>)"

definition resolve_execution_profile_for_service :: "service \<Rightarrow> profile_request \<Rightarrow> werror + resolved_profile" where
  "resolve_execution_profile_for_service sv q =
     (let member = cluster_member_definition sv (pq_cluster_template_id q) (pq_cluster_member_id q);
          pid = (if str_or (pq_agent_profile_id q) [] \<noteq> [] then pq_agent_profile_id q
                 else case member of
                        None \<Rightarrow> None
                      | Some m \<Rightarrow> if str_or (cm_agent_profile_id m) [] \<noteq> [] then cm_agent_profile_id m else None);
          agent = agent_profile_definition sv pid;
          ctx = \<lparr>sx_preset_id = Some (pq_preset_id q), sx_agent_profile_id = pid, sx_cluster_template_id = pq_cluster_template_id q,
                 sx_cluster_member_id = pq_cluster_member_id q, sx_public_role = pq_public_role q, sx_role_label = pq_role_label q\<rparr>;
          r = replace_unroutable sv (resolve_execution_profile (sv_config sv)
                \<lparr>ps_explicit = pq_explicit q,
                 ps_cluster_member = (case member of None \<Rightarrow> None | Some m \<Rightarrow> adapter_profile (cm_adapter_name m)),
                 ps_agent = (case agent of None \<Rightarrow> None | Some p \<Rightarrow> adapter_profile (ap_adapter_name p)),
                 ps_preset = pq_preset_profile q, ps_cluster_template = None\<rparr>
                (sv_default_adapter sv (pq_preset_id q)) (sv_router_default sv) (Some ctx))
      in rbind (sv_lane sv (rf_adapter_name r)) (\<lambda>lane.
           Inr (r\<lparr>rf_execution_lane := Some lane,
                  rf_role_responsibilities := (case member of None \<Rightarrow> [] | Some m \<Rightarrow> cm_responsibilities m),
                  rf_source_map := AList.update ''execution_lane''
                    \<lparr>se_scope = ''derived_lane_rules'', se_source = Some ''execution_lane_resolution'', se_value = Some lane, se_original = None\<rparr>
                    (rf_source_map r)\<rparr>)))"

end
