(* ===== verification/Profile_Properties.thy ===== *)
theory Profile_Properties
  imports Exec_Profiles
begin

section \<open>The precedence of the scopes\<close>

text \<open>
  The loops over the scopes are the first setting of a field in their order; the adapter of an explicit
  invocation is never replaced.
\<close>

definition first_setting :: "string \<Rightarrow> execution_profile option list \<Rightarrow> string option" where
  "first_setting k ps = (case List.map_filter (\<lambda>p. map_of (execution_profile_values p) k) ps of [] \<Rightarrow> None | v # _ \<Rightarrow> Some v)"

lemma first_setting_simps [simp]:
  "first_setting k [] = None"
  "first_setting k (p # ps) = (case map_of (execution_profile_values p) k of Some v \<Rightarrow> Some v | None \<Rightarrow> first_setting k ps)"
  by (simp_all add: first_setting_def List.map_filter_def split: option.split)

lemma set_field_values:
  "map_of (rz_values (foldl (set_field scope source sources) z kvs)) k
     = (case map_of (rz_values z) k of Some v \<Rightarrow> Some v | None \<Rightarrow> map_of kvs k)"
proof (induction kvs arbitrary: z)
  case (Cons kv kvs)
  obtain k' v where kv: "kv = (k', v)" by (cases kv)
  show ?case
  proof (cases "k' \<in> fst ` set (rz_values z)")
    case True
    then have same: "set_field scope source sources z kv = z" and "map_of (rz_values z) k' \<noteq> None"
      by (simp add: kv set_field_def, simp add: map_of_eq_None_iff)
    then show ?thesis using Cons.IH [of z] by (cases "k = k'") (auto simp: kv same [unfolded kv] split: option.split)
  next
    case False
    then have "map_of (rz_values z) k' = None" by (simp add: map_of_eq_None_iff)
    moreover have "rz_values (set_field scope source sources z kv) = rz_values z @ [(k', v)]" using False by (simp add: kv set_field_def)
    ultimately show ?thesis using Cons.IH [of "set_field scope source sources z kv"]
      by (cases "k = k'") (auto simp: kv map_add_def split: option.split)
  qed
qed (simp split: option.split)

lemma set_field_source:
  "k \<in> fst ` set (rz_values z) \<Longrightarrow>
     map_of (rz_source_map (foldl (set_field scope source sources) z kvs)) k = map_of (rz_source_map z) k
     \<and> k \<in> fst ` set (rz_values (foldl (set_field scope source sources) z kvs))"
proof (induction kvs arbitrary: z)
  case (Cons kv kvs)
  show ?case using Cons.IH [of "set_field scope source sources z kv"] Cons.prems
    by (cases kv) (auto simp: set_field_def update_conv')
qed simp

lemma apply_scope_values:
  "map_of (rz_values (apply_scope z (scope, source, p, sources))) k
     = (case map_of (rz_values z) k of Some v \<Rightarrow> Some v | None \<Rightarrow> map_of (execution_profile_values p) k)"
  by (auto simp: apply_scope_def Let_def set_field_values split: option.split)

lemma apply_scope_source:
  "k \<in> fst ` set (rz_values z) \<Longrightarrow>
     map_of (rz_source_map (apply_scope z entry)) k = map_of (rz_source_map z) k
     \<and> k \<in> fst ` set (rz_values (apply_scope z entry))"
  using set_field_source by (auto simp: apply_scope_def Let_def split: prod.split)

lemma apply_scopes_values:
  "map_of (rz_values (foldl apply_scope z es)) k
     = (case map_of (rz_values z) k of Some v \<Rightarrow> Some v | None \<Rightarrow> first_setting k (map (\<lambda>(_, _, p, _). p) es))"
proof (induction es arbitrary: z)
  case (Cons e es)
  then show ?case by (cases e) (auto simp: apply_scope_values split: option.split)
qed (simp split: option.split)

lemma apply_scopes_source:
  "k \<in> fst ` set (rz_values z) \<Longrightarrow> map_of (rz_source_map (foldl apply_scope z es)) k = map_of (rz_source_map z) k"
proof (induction es arbitrary: z)
  case (Cons e es)
  then show ?case using apply_scope_source [OF Cons.prems, of e] by simp
qed simp

definition scope_profiles :: "effective_config \<Rightarrow> profile_scopes \<Rightarrow> execution_profile option list" where
  "scope_profiles c ps =
     [ps_explicit ps, ps_cluster_member ps, ps_agent ps, ps_preset ps, ps_cluster_template ps, Some (fst (global_execution_profile c))]"

lemma merge_scopes_values: "map_of (rz_values (merge_scopes c ps)) k = first_setting k (scope_profiles c ps)"
  by (simp add: merge_scopes_def scope_entries_def apply_scopes_values scope_profiles_def del: foldl.simps)

lemma explicit_adapter_source:
  assumes p: "ps_explicit ps = Some p" and a: "ef_adapter_name p = Some a"
  shows "scope_of ''adapter_name'' (merge_scopes c ps) = Some ''explicit_invocation''" and "adapter_of (merge_scopes c ps) = Some a"
proof -
  let ?z = "\<lparr>rz_values = [], rz_source_map = [], rz_applied = []\<rparr>" and ?e = "(''explicit_invocation'', ''compile_request'', ps_explicit ps, [])"
  obtain rest where vals: "execution_profile_values (Some p) = (''adapter_name'', a) # rest"
    by (simp add: execution_profile_values_def execution_profile_fields_def profile_settings_def a List.map_filter_simps)
  have first: "apply_scope ?z ?e = foldl (set_field ''explicit_invocation'' ''compile_request'' [])
      (set_field ''explicit_invocation'' ''compile_request'' [] (?z\<lparr>rz_applied := [\<lparr>sc_scope = ''explicit_invocation'', sc_source = ''compile_request'',
         sc_values = (''adapter_name'', a) # rest, sc_field_sources = []\<rparr>]\<rparr>) (''adapter_name'', a)) rest"
    by (simp add: apply_scope_def p vals)
  have known: "''adapter_name'' \<in> fst ` set (rz_values (apply_scope ?z ?e))"
    and src: "map_option se_scope (map_of (rz_source_map (apply_scope ?z ?e)) ''adapter_name'') = Some ''explicit_invocation''"
    unfolding first using set_field_source [of "''adapter_name''" "set_field ''explicit_invocation'' ''compile_request'' [] (?z\<lparr>rz_applied :=
        [\<lparr>sc_scope = ''explicit_invocation'', sc_source = ''compile_request'', sc_values = (''adapter_name'', a) # rest, sc_field_sources = []\<rparr>]\<rparr>) (''adapter_name'', a)"]
    by (auto simp: set_field_def)
  have "merge_scopes c ps = foldl apply_scope (apply_scope ?z ?e) (tl (scope_entries c ps))"
    by (simp add: merge_scopes_def scope_entries_def)
  then show "scope_of ''adapter_name'' (merge_scopes c ps) = Some ''explicit_invocation''"
    using apply_scopes_source [OF known] src by (simp add: scope_of_def)
  show "adapter_of (merge_scopes c ps) = Some a"
    by (simp add: adapter_of_def merge_scopes_values scope_profiles_def p vals)
qed

lemma override_other [simp]: "k \<noteq> k' \<Longrightarrow> map_of (rz_values (override_field k' v sc so og z)) k = map_of (rz_values z) k"
  by (simp add: override_field_def update_conv')

lemma override_same [simp]: "map_of (rz_values (override_field k v sc so og z)) k = Some v"
  by (simp add: override_field_def update_conv')

lemma adapter_fallback_other: "k \<noteq> ''adapter_name'' \<Longrightarrow> map_of (rz_values (fst (adapter_fallback a so zf))) k = map_of (rz_values (fst zf)) k"
  by (auto simp: adapter_fallback_def split: option.split)

lemma adapter_fallback_adapter:
  "adapter_of (fst (adapter_fallback a so zf)) = (case adapter_of (fst zf) of Some x \<Rightarrow> Some x | None \<Rightarrow> a)"
  by (auto simp: adapter_fallback_def adapter_of_def split: option.split)

lemma adapter_fallback_given: "adapter_of (fst zf) = Some x \<Longrightarrow> adapter_fallback a so zf = zf"
  by (simp add: adapter_fallback_def)

lemma map_of_filter_key: "map_of (filter (\<lambda>(k, _). k \<noteq> j) kvs) k = (if k = j then None else map_of kvs k)"
  by (induction kvs) auto

text \<open>The parts of the resolution the properties are about.\<close>

lemma resolve_parts:
  assumes "route_adapter c ps legacy fallback_adapter ctx = (z, fallback, route)"
  shows "rf_adapter_name (resolve_execution_profile c ps legacy fallback_adapter ctx) = adapter_of z"
    and "rf_adaptive_route_tier (resolve_execution_profile c ps legacy fallback_adapter ctx) = map_option (\<lambda>(_, _, _, tier). tier) route"
    and "k \<noteq> ''adapter_name'' \<Longrightarrow> map_of (rf_values (resolve_execution_profile c ps legacy fallback_adapter ctx)) k = map_of (rz_values z) k"
proof -
  obtain model kind variant where "selected_model_of (adapter_of z) (rz_values z) = (model, kind, variant)" by (metis prod_cases3)
  then show "rf_adapter_name (resolve_execution_profile c ps legacy fallback_adapter ctx) = adapter_of z"
    and "rf_adaptive_route_tier (resolve_execution_profile c ps legacy fallback_adapter ctx) = map_option (\<lambda>(_, _, _, tier). tier) route"
    and "k \<noteq> ''adapter_name'' \<Longrightarrow> map_of (rf_values (resolve_execution_profile c ps legacy fallback_adapter ctx)) k = map_of (rz_values z) k"
    by (simp_all add: resolve_execution_profile_def assms map_of_filter_key Let_def)
qed

lemma adaptive_route_adapters:
  "adaptive_route_for_scope a ctx = Some (adapter, field, model, tier) \<Longrightarrow>
     av_enabled a \<and> (adapter, field) \<in> {(''codex'', ''codex_model''), (''opencode'', ''opencode_model''), (''agent'', ''agent_model'')}"
  by (auto simp: adaptive_route_for_scope_def Let_def split: option.splits if_splits)

text \<open>C36: an adapter the caller asked for is used, with the setting of every field that the first scope to set it has; without
  the adaptive routing the fields are always those of the scopes, and outside the dogfood mode so is the adapter, with the
  two defaults after the scopes; the adaptive routing never touches the dogfood mode and gives one of three adapters
  its model.\<close>

theorem resolution_follows_scopes:
  defines "first k c ps \<equiv> first_setting k (scope_profiles c ps)"
    and "resolved c ps legacy fallback_adapter ctx \<equiv> resolve_execution_profile c ps legacy fallback_adapter ctx"
  shows "(ps_explicit ps = Some p \<and> ef_adapter_name p = Some a \<longrightarrow>
            rf_adapter_name (resolved c ps legacy fallback_adapter ctx) = Some a \<and> rf_adaptive_route_tier (resolved c ps legacy fallback_adapter ctx) = None)
       \<and> (rf_adaptive_route_tier (resolved c ps legacy fallback_adapter ctx) = None \<and> k \<noteq> ''adapter_name'' \<longrightarrow>
            map_of (rf_values (resolved c ps legacy fallback_adapter ctx)) k = first k c ps)
       \<and> (rf_adaptive_route_tier (resolved c ps legacy fallback_adapter ctx) = None \<and> \<not> dg_strong_model_enabled (ec_dogfood c) \<longrightarrow>
            rf_adapter_name (resolved c ps legacy fallback_adapter ctx)
              = (case first ''adapter_name'' c ps of Some x \<Rightarrow> Some x | None \<Rightarrow> (case legacy of Some x \<Rightarrow> Some x | None \<Rightarrow> fallback_adapter)))
       \<and> (rf_adaptive_route_tier (resolved c ps legacy fallback_adapter ctx) = Some t \<longrightarrow>
            \<not> dg_strong_model_enabled (ec_dogfood c)
            \<and> (\<exists>(adapter, field) \<in> {(''codex'', ''codex_model''), (''opencode'', ''opencode_model''), (''agent'', ''agent_model'')}.
                 rf_adapter_name (resolved c ps legacy fallback_adapter ctx) = Some adapter
                 \<and> (k \<noteq> field \<and> k \<noteq> ''adapter_name'' \<longrightarrow> map_of (rf_values (resolved c ps legacy fallback_adapter ctx)) k = first k c ps)))"
proof -
  obtain z fallback route where out: "route_adapter c ps legacy fallback_adapter ctx = (z, fallback, route)" by (metis prod_cases3)
  let ?zf = "adapter_fallback fallback_adapter ''worker_router_default'' (adapter_fallback legacy ''legacy_adapter_resolution'' (merge_scopes c ps, None))"
  obtain z1 fb where zf: "?zf = (z1, fb)" by (cases ?zf)
  then have z1: "z1 = fst ?zf" by simp
  define z2 where "z2 = (if routes_agent_to_codex c ctx z1
                then override_field ''adapter_name'' ''codex'' ''dogfood_execution_backend'' ''derived:dogfood_codex_cli_backend'' (Some (Some ''agent'')) z1
                else z1)"
  have route: "route = (if can_apply_adaptive_route c z2 then adaptive_route_for_scope (ec_adaptive c) ctx else None)"
    and z: "z = (case route of None \<Rightarrow> z2 | Some r \<Rightarrow> apply_route r z2)"
    using out unfolding route_adapter_def zf Let_def prod.case z2_def [symmetric] by auto
  note parts = resolve_parts [OF out, folded resolved_def]
  have fields: "map_of (rz_values z2) k = first k c ps" if "k \<noteq> ''adapter_name''" for k
    using that by (simp add: z2_def z1 adapter_fallback_other merge_scopes_values first_def)
  have adapter1: "adapter_of z1 = (case first ''adapter_name'' c ps of Some x \<Rightarrow> Some x | None \<Rightarrow> (case legacy of Some x \<Rightarrow> Some x | None \<Rightarrow> fallback_adapter))"
    by (simp add: z1 adapter_fallback_adapter first_def adapter_of_def [of "merge_scopes _ _"] merge_scopes_values split: option.split)
  have explicit: "route = None \<and> adapter_of z = Some a" if "ps_explicit ps = Some p" "ef_adapter_name p = Some a"
  proof -
    note ex = explicit_adapter_source [OF that, of c]
    have "z1 = merge_scopes c ps" using adapter_fallback_given ex(2) by (simp add: z1)
    then have "z2 = merge_scopes c ps" using ex(1) by (simp add: z2_def routes_agent_to_codex_def)
    then show ?thesis using ex by (simp add: z route can_apply_adaptive_route_def)
  qed
  have unrouted: "z2 = z1" if "\<not> dg_strong_model_enabled (ec_dogfood c)" using that by (simp add: z2_def routes_agent_to_codex_def)
  show ?thesis
  proof (cases route)
    case None
    then show ?thesis using parts fields adapter1 unrouted explicit by (simp add: z)
  next
    case (Some r)
    obtain adapter field model tier where r: "r = (adapter, field, model, tier)" by (cases r)
    have weak: "\<not> dg_strong_model_enabled (ec_dogfood c)" and how: "adaptive_route_for_scope (ec_adaptive c) ctx = Some (adapter, field, model, tier)"
      using route Some r by (auto simp: can_apply_adaptive_route_def split: if_splits)
    note af = adaptive_route_adapters [OF how, THEN conjunct2]
    have who: "adapter_of z = Some adapter" and rest: "k \<noteq> field \<Longrightarrow> k \<noteq> ''adapter_name'' \<Longrightarrow> map_of (rz_values z) k = first k c ps"
      using af fields by (auto simp: z Some r apply_route_def adapter_of_def)
    have named: "rf_adapter_name (resolved c ps legacy fallback_adapter ctx) = Some adapter"
      and tiered: "rf_adaptive_route_tier (resolved c ps legacy fallback_adapter ctx) = Some tier"
      using parts(1,2) who by (simp_all add: Some r)
    have "\<exists>(adapter, field) \<in> {(''codex'', ''codex_model''), (''opencode'', ''opencode_model''), (''agent'', ''agent_model'')}.
            rf_adapter_name (resolved c ps legacy fallback_adapter ctx) = Some adapter
            \<and> (k \<noteq> field \<and> k \<noteq> ''adapter_name'' \<longrightarrow> map_of (rf_values (resolved c ps legacy fallback_adapter ctx)) k = first k c ps)"
      by (rule bexI [OF _ af]) (use named parts(3) rest in simp)
    moreover have "\<not> (ps_explicit ps = Some p \<and> ef_adapter_name p = Some a)" using explicit Some by auto
    ultimately show ?thesis unfolding tiered using weak by blast
  qed
qed

text \<open>A demonstration configuration, with the adaptive routing on or off.\<close>

definition no_profile :: execution_profile where
  "no_profile = \<lparr>ef_adapter_name = None, ef_agent_model = None, ef_codex_model = None, ef_codex_reasoning_effort = None,
     ef_opencode_model = None, ef_opencode_variant = None, ef_runtime_gateway_provider = None, ef_runtime_gateway_model = None,
     ef_runtime_reasoning_effort = None, ef_worker_pool_id = None\<rparr>"

definition demo_config :: "bool \<Rightarrow> effective_config" where
  "demo_config adaptive =
     \<lparr>ec_agent_model = (None, ''default''), ec_codex_model = (Some ''global'', ''env''), ec_codex_reasoning_effort = (None, ''default''),
      ec_opencode_model = (None, ''default''), ec_opencode_variant = (None, ''default''), ec_gateway_provider = (None, ''default''),
      ec_gateway_openai_model = (None, ''default''), ec_gateway_openai_reasoning_effort = (None, ''default''),
      ec_default_pool_id = (None, ''default''),
      ec_dogfood = \<lparr>dg_strong_model_enabled = False, dg_execution_backend = None, dg_model = None, dg_codex_model = None,
        dg_codex_model_source = None, dg_reasoning_effort = None\<rparr>,
      ec_adaptive = \<lparr>av_enabled = adaptive, av_coding_adapter = None, av_complex_model = None, av_medium_model = None, av_simple_model = None\<rparr>,
      ec_langchain_provider = None, ec_langchain_model = None\<rparr>"

definition demo_scopes :: "execution_profile \<Rightarrow> profile_scopes" where
  "demo_scopes explicit =
     \<lparr>ps_explicit = Some explicit, ps_cluster_member = None, ps_agent = None,
      ps_preset = Some (no_profile\<lparr>ef_adapter_name := Some ''agent'', ef_codex_model := Some ''preset''\<rparr>), ps_cluster_template = None\<rparr>"

definition coder_context :: scope_context where
  "coder_context = \<lparr>sx_preset_id = None, sx_agent_profile_id = None, sx_cluster_template_id = None, sx_cluster_member_id = None,
     sx_public_role = None, sx_role_label = Some ''coder''\<rparr>"

lemma demo_tier:
  "rf_adaptive_route_tier (resolve_execution_profile (demo_config True) (demo_scopes no_profile) None None (Some coder_context)) = Some ''complex''"
  by code_simp

text \<open>A run for a coder: the adapter asked for with the preset's model, and the adaptive route otherwise.\<close>

theorem resolution_follows_scopes_witness:
  "rf_adapter_name (resolve_execution_profile (demo_config True) (demo_scopes (no_profile\<lparr>ef_adapter_name := Some ''codex''\<rparr>)) None None (Some coder_context))
     = Some ''codex''
   \<and> map_of (rf_values (resolve_execution_profile (demo_config True) (demo_scopes (no_profile\<lparr>ef_adapter_name := Some ''codex''\<rparr>)) None None
       (Some coder_context))) ''codex_model'' = Some ''preset''
   \<and> (\<exists>adapter \<in> {''codex'', ''opencode'', ''agent''}.
       rf_adapter_name (resolve_execution_profile (demo_config True) (demo_scopes no_profile) None None (Some coder_context)) = Some adapter)"
proof -
  have ex: "ps_explicit (demo_scopes (no_profile\<lparr>ef_adapter_name := Some ''codex''\<rparr>)) = Some (no_profile\<lparr>ef_adapter_name := Some ''codex''\<rparr>)"
    by (simp add: demo_scopes_def)
  have set_by: "first_setting ''codex_model'' (scope_profiles (demo_config True) (demo_scopes (no_profile\<lparr>ef_adapter_name := Some ''codex''\<rparr>))) = Some ''preset''"
    by code_simp
  show ?thesis
    using resolution_follows_scopes [of "demo_scopes (no_profile\<lparr>ef_adapter_name := Some ''codex''\<rparr>)" "no_profile\<lparr>ef_adapter_name := Some ''codex''\<rparr>"
        "''codex''" "demo_config True" None None "Some coder_context" "''codex_model''" "''complex''"]
      resolution_follows_scopes [of "demo_scopes no_profile" no_profile "''codex''" "demo_config True" None None "Some coder_context" "''codex_model''" "''complex''"]
      ex set_by demo_tier by auto
qed

text \<open>A model asked for without its adapter is replaced by the adaptive route.\<close>

lemma explicit_model_routed_away:
  "map_of (rf_values (resolve_execution_profile (demo_config True) (demo_scopes (no_profile\<lparr>ef_codex_model := Some ''asked''\<rparr>)) None None (Some coder_context)))
     ''codex_model'' = Some ''gpt-5.5''
   \<and> map_of (rf_values (resolve_execution_profile (demo_config False) (demo_scopes (no_profile\<lparr>ef_codex_model := Some ''asked''\<rparr>)) None None (Some coder_context)))
     ''codex_model'' = Some ''asked''"
  by code_simp

end
