(* ===== verification/Repair_Properties.thy ===== *)
theory Repair_Properties
  imports Run_Repair Run_Effects Callback_Properties
begin

section \<open>What an inspection reports and what a repair removes\<close>

text \<open>
  An inspection reports an action only on the ground of a row that is in the store (\<open>ground\<close>). Each repair removes
  the ground of its own action, and neither the event of the repair nor the snapshot brings it back. Cancelling a run
  removes the grounds of all of them. The repair that is chosen when none is asked for leaves an expired claim alone.
\<close>

subsection \<open>Grounds\<close>

definition current_rows :: "string \<Rightarrow> diag_db \<Rightarrow> runtime_attempt list" where
  "current_rows rid db = filter (\<lambda>a. ra_run_id a = rid \<and> ra_status a = as_current) (rd_attempts (dd_runs db))"

definition claim_rows :: "string \<Rightarrow> diag_db \<Rightarrow> runtime_claim list" where
  "claim_rows rid db = filter (\<lambda>c. rc_run_id c = rid \<and> rc_status c = cs_active) (rd_claims (dd_runs db))"

definition lease_rows :: "string \<Rightarrow> diag_db \<Rightarrow> worker_lease list" where
  "lease_rows rid db = filter (\<lambda>l. wl_run_id l = rid \<and> wl_status l = ws_active) (rd_worker_leases (dd_runs db))"

definition live_rows :: "string \<Rightarrow> diag_db \<Rightarrow> state_ref list" where
  "live_rows rid db = filter (\<lambda>s. st_run_id s = rid \<and> \<not> st_is_terminal s) (dd_states db)"

definition elsewhere :: "string set" where
  "elsewhere = {''release_scheduler_lease'', ''recompile_prepared_run''}"

text \<open>What is in the store when an inspection reports an action.\<close>

definition ground :: "string \<Rightarrow> string \<Rightarrow> diag_db \<Rightarrow> bool" where
  "ground action rid db \<longleftrightarrow>
     (action = ''create_repair_runtime_attempt'' \<and> current_rows rid db = []
        \<and> (\<exists>run. run_get rid (dd_runs db) = Some run \<and> ru_status run \<in> {prepared, running, awaiting_review}))
     \<or> (action \<in> {''interrupt_current_runtime_attempt'', ''close_current_runtime_attempt_terminal''} \<and> current_rows rid db \<noteq> [])
     \<or> (action \<in> {''align_completed_runtime_state'', ''align_cancelled_runtime_state''} \<and> live_rows rid db \<noteq> [])
     \<or> (action \<in> {''expire_runtime_claim'', ''release_runtime_claim''} \<and> claim_rows rid db \<noteq> [])
     \<or> (action \<in> {''expire_worker_lease'', ''release_worker_lease''} \<and> lease_rows rid db \<noteq> [])"

subsection \<open>Reading\<close>

lemma lease_list_read:
  "leases_ok (rd_worker_leases db) \<Longrightarrow>
     worker_lease_list_active_for_run rid db =
       Inr (sql_order (\<lambda>l. (wl_created_at l, wl_lease_id l))
              (sql_where (\<lambda>l. wl_run_id l = rid \<and> wl_status l = ws_active) (rd_worker_leases db)))"
  by (auto simp: leases_ok_def worker_lease_list_active_for_run_def intro!: rmap_id)

lemma state_listD:
  "rmap validate_state_ref rows = Inr ss \<Longrightarrow> ss = rows"
  by (induction rows arbitrary: ss) (auto simp: rbind_eq_Inr validate_state_ref_def)

lemma live_listD: "state_list_live_for_run rid (dd_states db) = Inr live \<Longrightarrow> set live = set (live_rows rid db)"
  by (auto simp: state_list_live_for_run_def live_rows_def dest!: state_listD)

lemma load_run_contextD:
  assumes ok: "own_ok (dd_runs db)" and ld: "load_run_context rid db = Inr cx"
  shows "run_get rid (dd_runs db) = Some (cx_run cx)" and "ru_run_id (cx_run cx) = rid"
    and "cx_tasks cx = list_runtime_tasks_for_run rid db"
    and "set (filter (\<lambda>a. ra_status a = as_current) (cx_attempts cx)) = set (current_rows rid db)"
    and "set (active_claims_for cx) = set (claim_rows rid db)"
    and "set (active_worker_leases_for cx) = set (lease_rows rid db)"
    and "state_list_for_run rid (dd_states db) = Inr (cx_states cx)"
proof -
  have v: "\<forall>a\<in>set (rd_attempts (dd_runs db)). validate_runtime_attempt a = Inr a"
    "\<forall>c\<in>set (rd_claims (dd_runs db)). validate_runtime_claim c = Inr c"
    "\<forall>l\<in>set (rd_worker_leases (dd_runs db)). validate_worker_lease l = Inr l"
    using ok by (simp_all add: own_ok_def attempts_ok_def claims_ok_def leases_ok_def)
  have l: "attempt_list_for_run rid (dd_runs db) = Inr (sql_order (\<lambda>a. (ra_sequence_no a, ra_created_at a, ra_attempt_id a))
          (sql_where (\<lambda>a. ra_run_id a = rid) (rd_attempts (dd_runs db))))"
    "claim_list_for_run rid (dd_runs db) = Inr (sql_order (\<lambda>c. (rc_created_at c, rc_claim_id c)) (sql_where (\<lambda>c. rc_run_id c = rid) (rd_claims (dd_runs db))))"
    "worker_lease_list_for_run rid (dd_runs db) = Inr (sql_order (\<lambda>l. (wl_created_at l, wl_lease_id l)) (sql_where (\<lambda>l. wl_run_id l = rid) (rd_worker_leases (dd_runs db))))"
    using v by (auto simp: attempt_list_for_run_def claim_list_for_run_def worker_lease_list_for_run_def intro!: rmap_id)
  obtain run where run: "get_run rid db = Inr run" "cx_run cx = run" and r: "cx_tasks cx = list_runtime_tasks_for_run rid db"
    "state_list_for_run rid (dd_states db) = Inr (cx_states cx)"
    "attempt_list_for_run rid (dd_runs db) = Inr (cx_attempts cx)" "claim_list_for_run rid (dd_runs db) = Inr (cx_claims cx)"
    "worker_lease_list_for_run rid (dd_runs db) = Inr (cx_worker_leases cx)"
    using ld by (auto simp: load_run_context_def rbind_eq_Inr Let_def)
  show "run_get rid (dd_runs db) = Some (cx_run cx)" using run by (auto simp: get_run_def split: option.splits)
  then show "ru_run_id (cx_run cx) = rid" by (auto simp: run_get_def dest: sql_first_Some)
  show "cx_tasks cx = list_runtime_tasks_for_run rid db" "state_list_for_run rid (dd_states db) = Inr (cx_states cx)" by (fact r)+
  have c: "cx_attempts cx = sql_order (\<lambda>a. (ra_sequence_no a, ra_created_at a, ra_attempt_id a))
          (sql_where (\<lambda>a. ra_run_id a = rid) (rd_attempts (dd_runs db)))"
    "cx_claims cx = sql_order (\<lambda>c. (rc_created_at c, rc_claim_id c)) (sql_where (\<lambda>c. rc_run_id c = rid) (rd_claims (dd_runs db)))"
    "cx_worker_leases cx = sql_order (\<lambda>l. (wl_created_at l, wl_lease_id l)) (sql_where (\<lambda>l. wl_run_id l = rid) (rd_worker_leases (dd_runs db)))"
    using r(3-5) l by simp_all
  show "set (filter (\<lambda>a. ra_status a = as_current) (cx_attempts cx)) = set (current_rows rid db)"
    by (auto simp: c current_rows_def)
  show "set (active_claims_for cx) = set (claim_rows rid db)" by (auto simp: c active_claims_for_def claim_rows_def)
  show "set (active_worker_leases_for cx) = set (lease_rows rid db)"
    by (auto simp: c active_worker_leases_for_def lease_rows_def)
qed

lemma current_attempt_None: "current_attempt cx = None \<longleftrightarrow> filter (\<lambda>a. ra_status a = as_current) (cx_attempts cx) = []"
  by (simp add: current_attempt_def)

lemma found_mem: "p \<in> set (found c q) \<longleftrightarrow> c \<and> p = q"
  by (auto simp: found_def)

lemma durable_actions:
  assumes "durable_problems f cx = Inr ps"
  shows "\<forall>p\<in>set ps. pb_repair_action p \<in> {None, Some ''recompile_prepared_run''}"
proof (cases "last_runtime_state cx")
  case None
  then show ?thesis using assms by (auto simp: durable_problems_def Let_def rbind_eq_Inr repairable_def)
next
  case (Some s)
  then show ?thesis
    using assms by (auto simp: durable_problems_def Let_def rbind_eq_Inr found_mem unrepairable_def split: if_splits option.splits)
qed

lemma inspect_run_stateD:
  assumes "inspect_run_state f e rid db = Inr ps"
  obtains cx live durable where "load_run_context rid db = Inr cx"
    and "state_list_live_for_run (ru_run_id (cx_run cx)) (dd_states db) = Inr live"
    and "ps = ownership_problems (clock e 0) (clock e 1) cx live @ authority_problems f (clock e 2) cx
            @ found (ru_status (cx_run cx) = prepared \<and> missing_components cx db \<noteq> [])
                (repairable ''prepared_compile_snapshot_incomplete'' ''recompile_run'' ''recompile_prepared_run'')
            @ durable"
    and "\<forall>p\<in>set durable. pb_repair_action p \<in> {None, Some ''recompile_prepared_run''}"
proof -
  obtain cx where cx: "load_run_context rid db = Inr cx" and ins: "inspect_context f e cx db = Inr ps"
    using assms by (auto simp: inspect_run_state_def rbind_eq_Inr)
  obtain live durable where live: "state_list_live_for_run (ru_run_id (cx_run cx)) (dd_states db) = Inr live"
    and du: "(if execution_lane_for_context cx db = ''durable_incremental'' then durable_problems f cx else Inr []) = Inr durable"
    and ps: "ps = ownership_problems (clock e 0) (clock e 1) cx live @ authority_problems f (clock e 2) cx
            @ found (ru_status (cx_run cx) = prepared \<and> missing_components cx db \<noteq> [])
                (repairable ''prepared_compile_snapshot_incomplete'' ''recompile_run'' ''recompile_prepared_run'')
            @ durable"
    using ins unfolding inspect_context_def rbind_eq_Inr by blast
  have "\<forall>p\<in>set durable. pb_repair_action p \<in> {None, Some ''recompile_prepared_run''}"
    using du durable_actions by (cases "execution_lane_for_context cx db = ''durable_incremental''") simp_all
  then show thesis using that cx live ps by blast
qed

text \<open>An inspection reports an action of the run's own rows only on its ground.\<close>

lemma ownership_grounds:
  assumes ok: "own_ok (dd_runs db)" and cx: "load_run_context rid db = Inr cx"
    and live: "state_list_live_for_run rid (dd_states db) = Inr live"
    and p: "p \<in> set (ownership_problems now1 now2 cx live)" and a: "pb_repair_action p = Some action"
  shows "ground action rid db"
proof -
  note d = load_run_contextD [OF ok cx]
  have cur: "current_attempt cx = None \<longleftrightarrow> current_rows rid db = []"
    using d(4) by (metis current_attempt_None set_empty)
  have cl: "expired_active_claims now1 cx \<noteq> [] \<Longrightarrow> claim_rows rid db \<noteq> []"
    "active_claims_for cx \<noteq> [] \<Longrightarrow> claim_rows rid db \<noteq> []"
    using d(5) by (auto simp: expired_active_claims_def)
  have le: "expired_active_worker_leases now2 cx \<noteq> [] \<Longrightarrow> lease_rows rid db \<noteq> []"
    "active_worker_leases_for cx \<noteq> [] \<Longrightarrow> lease_rows rid db \<noteq> []"
    using d(6) by (auto simp: expired_active_worker_leases_def)
  have lv: "live \<noteq> [] \<Longrightarrow> live_rows rid db \<noteq> []" using live_listD [OF live] by auto
  have miss: "(case current_attempt cx of None \<Rightarrow> False | Some a \<Rightarrow> ra_runtime_task_id a \<notin> set (cx_tasks cx)) \<Longrightarrow> current_rows rid db \<noteq> []"
    using cur by (simp split: option.splits)
  show ?thesis
    using p a unfolding ownership_problems_def Let_def set_append Un_iff found_mem
    by (elim disjE conjE; hypsubst) (use cur cl le lv miss d(1) in \<open>simp_all add: repairable_def unrepairable_def ground_def\<close>)
qed

lemma reported_ground:
  assumes ok: "own_ok (dd_runs db)" and ins: "inspect_run_state f e rid db = Inr ps"
    and p: "p \<in> set ps" and a: "pb_repair_action p = Some action"
  shows "action \<in> elsewhere \<or> ground action rid db"
  using ins
proof (cases rule: inspect_run_stateD)
  case (1 cx live durable)
  have live: "state_list_live_for_run rid (dd_states db) = Inr live" using 1(2) load_run_contextD(2) [OF ok 1(1)] by simp
  consider (own) "p \<in> set (ownership_problems (clock e 0) (clock e 1) cx live)" | (auth) "p \<in> set (authority_problems f (clock e 2) cx)"
    | (rest) "p \<in> set durable \<or> p = repairable ''prepared_compile_snapshot_incomplete'' ''recompile_run'' ''recompile_prepared_run''"
    using p by (auto simp: 1(3) found_mem)
  then show ?thesis
  proof cases
    case own
    then show ?thesis using ownership_grounds [OF ok 1(1) live own a] by simp
  next
    case auth
    then show ?thesis using a by (auto simp: authority_problems_def Let_def found_mem repairable_def unrepairable_def elsewhere_def)
  next
    case rest
    then show ?thesis using a 1(4) by (auto simp: repairable_def elsewhere_def)
  qed
qed

subsection \<open>Frames\<close>

definition same_rows :: "diag_db \<Rightarrow> diag_db \<Rightarrow> bool" where
  "same_rows db db' \<longleftrightarrow>
     dd_states db' = dd_states db \<and> dd_task db' = dd_task db \<and> dd_sched db' = dd_sched db \<and> dd_verdicts db' = dd_verdicts db
     \<and> rd_claims (dd_runs db') = rd_claims (dd_runs db) \<and> rd_worker_leases (dd_runs db') = rd_worker_leases (dd_runs db)
     \<and> rd_attempts (dd_runs db') = rd_attempts (dd_runs db) \<and> rd_runs (dd_runs db') = rd_runs (dd_runs db)
     \<and> rd_tasks (dd_runs db') = rd_tasks (dd_runs db)"

lemma same_rows_ground: "same_rows db db' \<Longrightarrow> ground action rid db' \<longleftrightarrow> ground action rid db"
  by (simp add: same_rows_def ground_def current_rows_def claim_rows_def lease_rows_def live_rows_def run_get_def)

lemma same_rows_own_ok: "same_rows db db' \<Longrightarrow> own_ok (dd_runs db') \<longleftrightarrow> own_ok (dd_runs db)"
  by (simp add: same_rows_def own_ok_def)

lemma append_event_same: "append_event e k rid typ obj oid summary db = Inr db' \<Longrightarrow> same_rows db db'"
  by (auto simp: append_event_def rbind_eq_Inr same_rows_def dest!: event_append_frame)

lemma append_repair_event_same: "append_repair_event e k rid action db = Inr db' \<Longrightarrow> same_rows db db'"
  by (auto simp: append_repair_event_def intro: append_event_same)

lemma capture_same: "capture_run_snapshot f e k rid stage summary task extra db = Inr (s, db') \<Longrightarrow> same_rows db db'"
  by (auto simp: capture_run_snapshot_def snapshot_create_def Let_def rbind_eq_Inr same_rows_def dest!: event_append_frame)

lemma on_runsD: "on_runs op db = Inr (x, db') \<Longrightarrow> \<exists>runs. op (dd_runs db) = Inr (x, runs) \<and> db' = db\<lparr>dd_runs := runs\<rparr>"
  by (auto simp: on_runs_def rbind_eq_Inr)

subsection \<open>Each repair removes its ground\<close>

lemma release_leases_loop_rows:
  assumes "release_leases_loop e status reason ls db = Inr (rs, db')"
  shows "(\<forall>q\<in>set (rd_worker_leases db'). if wl_lease_id q \<in> wl_lease_id ` set ls then wl_status q = status else q \<in> set (rd_worker_leases db))
     \<and> rd_runs db' = rd_runs db \<and> rd_tasks db' = rd_tasks db"
  using assms
proof (induction ls arbitrary: e db rs)
  case (Cons l ls)
  obtain r db1 rs' where one: "release_worker_lease e l status reason db = Inr (r, db1)"
    and rest: "release_leases_loop (env_from 2 e) status reason ls db1 = Inr (rs', db')"
    using Cons.prems by (auto simp: rbind_eq_Inr)
  obtain db0 where rel: "worker_lease_release (wl_lease_id l) (clock e 0) reason status db = Inr (Some r, db0)"
    and ev: "event_append e 1 (wl_run_id l) ''worker_lease_released'' ''worker_lease'' (wl_lease_id l)
               (''Worker lease '' @ worker_lease_status_name status) db0 = Inr db1"
    using one by (auto simp: release_worker_lease_def rbind_eq_Inr split: option.splits)
  have rows: "rd_worker_leases db1 = sql_update (\<lambda>q. wl_lease_id q = wl_lease_id l) (set_lease_status status (clock e 0) reason) (rd_worker_leases db)"
    "rd_runs db1 = rd_runs db" "rd_tasks db1 = rd_tasks db"
    using rel event_append_frame [OF ev] by (auto simp: worker_lease_release_def Let_def rbind_eq_Inr)
  have "if wl_lease_id q = wl_lease_id l then wl_status q = status else q \<in> set (rd_worker_leases db)" if "q \<in> set (rd_worker_leases db1)" for q
    using that unfolding rows(1) sql_update_mem by (auto simp: set_lease_status_def)
  then show ?case using Cons.IH [OF rest] rows(2,3) by (auto split: if_splits)
qed auto

lemma claims_released:
  assumes ok: "own_ok (dd_runs db)" and rd: "claim_list_active_for_run rid (dd_runs db) = Inr claims"
    and rel: "on_runs (release_claims_loop e status reason claims) db = Inr (rs, db')" and st: "status \<noteq> cs_active"
  shows "claim_rows rid db' = []" and "own_ok (dd_runs db')"
proof -
  obtain runs where runs: "release_claims_loop e status reason claims (dd_runs db) = Inr (rs, runs)" and db': "db' = db\<lparr>dd_runs := runs\<rparr>"
    using on_runsD [OF rel] by blast
  have c: "claims_ok (rd_claims (dd_runs db))" using ok by (simp add: own_ok_def)
  note d = release_claims_loopD [OF runs c]
  have ids: "set claims = {q \<in> set (rd_claims (dd_runs db)). rc_run_id q = rid \<and> rc_status q = cs_active}"
    using rd by (auto simp: claim_reads(2) [OF c])
  have "\<not> (rc_run_id q = rid \<and> rc_status q = cs_active)" if q: "q \<in> set (rd_claims runs)" for q
  proof (cases "rc_claim_id q \<in> rc_claim_id ` set claims")
    case True
    then show ?thesis using d q st by auto
  next
    case False
    then show ?thesis using d q ids by blast
  qed
  then show "claim_rows rid db' = []" by (auto simp: claim_rows_def db' filter_empty_conv)
  show "own_ok (dd_runs db')" using d ok by (simp add: own_ok_def db')
qed

lemma leases_released:
  assumes ok: "own_ok (dd_runs db)" and rd: "worker_lease_list_active_for_run rid (dd_runs db) = Inr leases"
    and rel: "on_runs (release_leases_loop e status reason leases) db = Inr (rs, db')" and st: "status \<noteq> ws_active"
  shows "lease_rows rid db' = []" and "own_ok (dd_runs db')"
proof -
  obtain runs where runs: "release_leases_loop e status reason leases (dd_runs db) = Inr (rs, runs)" and db': "db' = db\<lparr>dd_runs := runs\<rparr>"
    using on_runsD [OF rel] by blast
  have l: "leases_ok (rd_worker_leases (dd_runs db))" using ok by (simp add: own_ok_def)
  have ids: "set leases = {q \<in> set (rd_worker_leases (dd_runs db)). wl_run_id q = rid \<and> wl_status q = ws_active}"
    using rd by (auto simp: lease_list_read [OF l])
  have "\<not> (wl_run_id q = rid \<and> wl_status q = ws_active)" if q: "q \<in> set (rd_worker_leases runs)" for q
  proof (cases "wl_lease_id q \<in> wl_lease_id ` set leases")
    case True
    then show ?thesis using release_leases_loop_rows [OF runs] q st by metis
  next
    case False
    then show ?thesis using release_leases_loop_rows [OF runs] q ids by (metis (mono_tags, lifting) image_eqI mem_Collect_eq)
  qed
  then show "lease_rows rid db' = []" by (auto simp: lease_rows_def db' filter_empty_conv)
  show "own_ok (dd_runs db')" using release_leases_loopD [OF runs l] ok by (simp add: own_ok_def db')
qed

text \<open>The current attempt is the only one, so that closing it leaves none.\<close>

lemma attempt_closed:
  assumes ok: "own_ok (dd_runs db)" and rd: "attempt_current_for_run rid (dd_runs db) = Inr (Some a)"
    and cl: "on_runs (close_runtime_attempt e a status reason) db = Inr (r, db')" and st: "status \<noteq> as_current"
  shows "current_rows rid db' = []" and "own_ok (dd_runs db')"
proof -
  obtain runs where runs: "close_runtime_attempt e a status reason (dd_runs db) = Inr (r, runs)" and db': "db' = db\<lparr>dd_runs := runs\<rparr>"
    using on_runsD [OF cl] by blast
  have at: "attempts_ok (rd_attempts (dd_runs db))" using ok by (simp add: own_ok_def)
  obtain mid where up: "attempt_close (ra_attempt_id a) status (clock e 0) reason (dd_runs db) = Inr (Some r, mid)"
    and ev: "event_append e 1 (ra_run_id a) ''runtime_attempt_closed'' ''runtime_attempt'' (ra_attempt_id a)
                    (''Runtime attempt '' @ attempt_status_name status) mid = Inr runs"
    using runs by (auto simp: close_runtime_attempt_def rbind_eq_Inr split: option.splits)
  have rows: "rd_attempts runs = sql_update (\<lambda>q. ra_attempt_id q = ra_attempt_id a) (set_closed status (clock e 0) reason) (rd_attempts (dd_runs db))"
    using up event_append_frame [OF ev] by (auto simp: attempt_close_def Let_def rbind_eq_Inr)
  have a: "a \<in> set (rd_attempts (dd_runs db))" "ra_run_id a = rid" "ra_status a = as_current"
    using rd by (auto simp: attempt_reads [OF at] dest: top_by_mem)
  have sole: "q = a" if "q \<in> set (rd_attempts (dd_runs db))" "ra_run_id q = rid" "ra_status q = as_current" for q
    using at a that by (auto simp: attempts_ok_def attempts_unique_def distinct_map inj_on_def)
  have "\<not> (ra_run_id q = rid \<and> ra_status q = as_current)" if q: "q \<in> set (rd_attempts runs)" for q
  proof -
    obtain s where "s \<in> set (rd_attempts (dd_runs db))"
      "q = (if ra_attempt_id s = ra_attempt_id a then set_closed status (clock e 0) reason s else s)"
      using q unfolding rows sql_update_mem by blast
    then show ?thesis using st sole [of s] by (cases "ra_attempt_id s = ra_attempt_id a") (auto simp: set_closed_def)
  qed
  then show "current_rows rid db' = []" by (auto simp: current_rows_def db' filter_empty_conv)
  show "own_ok (dd_runs db')" using close_attemptD [OF at runs] ok by (simp add: own_ok_def db')
qed

lemma state_upsert_rows:
  assumes "state_upsert s db rows = Inr (stored, rows')"
  shows "rows' = (if st_runtime_task_id s \<in> st_runtime_task_id ` set rows
     then sql_update (\<lambda>r. st_runtime_task_id r = st_runtime_task_id s) (overwrite_state s) rows else rows @ [s])"
proof -
  let ?R = "if st_runtime_task_id s \<in> st_runtime_task_id ` set rows
     then sql_update (\<lambda>r. st_runtime_task_id r = st_runtime_task_id s) (overwrite_state s) rows else rows @ [s]"
  obtain st where "(case st of None \<Rightarrow> Inl AssertionError | Some s' \<Rightarrow> Inr (s', ?R)) = Inr (stored, rows')"
    using assms unfolding state_upsert_def Let_def rbind_eq_Inr by blast
  then show ?thesis by (cases st) simp_all
qed

lemma upsert_stateD:
  assumes "upsert_state s db = Inr db'" and "st_is_terminal s"
  shows "(\<forall>r\<in>set (dd_states db'). st_is_terminal r \<or> (r \<in> set (dd_states db) \<and> st_runtime_task_id r \<noteq> st_runtime_task_id s))
     \<and> dd_runs db' = dd_runs db \<and> dd_sched db' = dd_sched db"
proof -
  obtain stored rows where up: "state_upsert s (dd_runs db) (dd_states db) = Inr (stored, rows)" and db': "db' = db\<lparr>dd_states := rows\<rparr>"
    using assms(1) by (auto simp: upsert_state_def rbind_eq_Inr)
  note r = state_upsert_rows [OF up]
  have "st_is_terminal q \<or> (q \<in> set (dd_states db) \<and> st_runtime_task_id q \<noteq> st_runtime_task_id s)" if q: "q \<in> set rows" for q
  proof (cases "st_runtime_task_id s \<in> st_runtime_task_id ` set (dd_states db)")
    case True
    then have "q \<in> set (sql_update (\<lambda>r. st_runtime_task_id r = st_runtime_task_id s) (overwrite_state s) (dd_states db))" using q r by simp
    then obtain o' where "o' \<in> set (dd_states db)" "q = (if st_runtime_task_id o' = st_runtime_task_id s then overwrite_state s o' else o')"
      unfolding sql_update_mem by blast
    then show ?thesis using assms(2) by (cases "st_runtime_task_id o' = st_runtime_task_id s") (simp_all add: overwrite_state_def)
  next
    case False
    then have "q \<in> set (dd_states db @ [s])" using q r by simp
    then show ?thesis using assms(2) False by (cases "q = s") (auto simp: image_iff)
  qed
  then show ?thesis by (simp add: db')
qed

lemma align_statesD:
  assumes "align_states e g status entries ss db = Inr db'"
  shows "(\<forall>r\<in>set (dd_states db'). st_is_terminal r \<or> (r \<in> set (dd_states db) \<and> st_runtime_task_id r \<notin> st_runtime_task_id ` set ss))
     \<and> dd_runs db' = dd_runs db \<and> dd_sched db' = dd_sched db"
  using assms
proof (induction ss arbitrary: e db)
  case (Cons s ss)
  obtain db1 where up: "upsert_state (ended_state e g entries s) db = Inr db1"
    and rest: "align_states (env_from 1 e) g status entries ss (update_runtime_task_status (st_runtime_task_id s) status db1) = Inr db'"
    using Cons.prems by (auto simp: rbind_eq_Inr)
  show ?case
    using upsert_stateD [OF up] Cons.IH [OF rest] by (auto simp: ended_state_def update_runtime_task_status_def)
qed simp

lemma align_removes:
  assumes ok: "own_ok (dd_runs db)" and "apply_align_terminal_runtime_state e run action problem db = Inr (ts, db')"
  shows "live_rows (ru_run_id run) db' = []" and "own_ok (dd_runs db')"
proof -
  obtain live g status db1 where live: "state_list_live_for_run (ru_run_id run) (dd_states db) = Inr live"
    and al: "align_states e g status [(''repaired_action'', JStr action), (''repaired_problem'', JStr problem)] live db = Inr db1"
    and ev: "append_repair_event (env_from (length live) e) 0 (ru_run_id run) action db1 = Inr db'"
    using assms(2) by (auto simp: apply_align_terminal_runtime_state_def rbind_eq_Inr)
  note d = align_statesD [OF al] and same = append_repair_event_same [OF ev]
  have "st_is_terminal r" if r: "r \<in> set (dd_states db1)" "st_run_id r = ru_run_id run" for r
    using d live_listD [OF live] r by (auto simp: live_rows_def)
  then show "live_rows (ru_run_id run) db' = []" using same by (auto simp: live_rows_def same_rows_def filter_empty_conv)
  show "own_ok (dd_runs db')" using same_rows_own_ok [OF same] d ok by simp
qed

lemma claim_repair_removes:
  assumes ok: "own_ok (dd_runs db)" and "apply_claim_release_repair e rid action status reason db = Inr (ts, db')" and st: "status \<noteq> cs_active"
  shows "claim_rows rid db' = []" and "own_ok (dd_runs db')"
proof -
  obtain claims rs db1 where rd: "claim_list_active_for_run rid (dd_runs db) = Inr claims"
    and rel: "on_runs (release_claims_loop e status reason claims) db = Inr (rs, db1)"
    and ev: "append_repair_event (env_from (2 * length claims) e) 0 rid action db1 = Inr db'"
    using assms(2) by (auto simp: apply_claim_release_repair_def rbind_eq_Inr)
  note same = append_repair_event_same [OF ev]
  show "claim_rows rid db' = []" using claims_released(1) [OF ok rd rel st] same by (simp add: claim_rows_def same_rows_def)
  show "own_ok (dd_runs db')" using claims_released(2) [OF ok rd rel st] same_rows_own_ok [OF same] by simp
qed

lemma lease_repair_removes:
  assumes ok: "own_ok (dd_runs db)" and "apply_worker_lease_release_repair e rid action status reason db = Inr (ts, db')" and st: "status \<noteq> ws_active"
  shows "lease_rows rid db' = []" and "own_ok (dd_runs db')"
proof -
  obtain leases rs db1 where rd: "worker_lease_list_active_for_run rid (dd_runs db) = Inr leases"
    and rel: "on_runs (release_leases_loop e status reason leases) db = Inr (rs, db1)"
    and ev: "append_repair_event (env_from (2 * length leases) e) 0 rid action db1 = Inr db'"
    using assms(2) by (auto simp: apply_worker_lease_release_repair_def rbind_eq_Inr)
  note same = append_repair_event_same [OF ev]
  show "lease_rows rid db' = []" using leases_released(1) [OF ok rd rel st] same by (simp add: lease_rows_def same_rows_def)
  show "own_ok (dd_runs db')" using leases_released(2) [OF ok rd rel st] same_rows_own_ok [OF same] by simp
qed

lemma close_current_removes:
  assumes ok: "own_ok (dd_runs db)" and rd: "attempt_current_for_run rid (dd_runs db) = Inr (Some a)"
    and cl: "close_current e rid action status reason a db = Inr (ts, db')" and st: "status \<noteq> as_current"
  shows "current_rows rid db' = []" and "own_ok (dd_runs db')"
proof -
  obtain r db1 where at: "on_runs (close_runtime_attempt e a status reason) db = Inr (r, db1)"
    and ev: "append_repair_event (env_from 2 e) 0 rid action db1 = Inr db'"
    using cl by (auto simp: close_current_def rbind_eq_Inr)
  note same = append_repair_event_same [OF ev]
  show "current_rows rid db' = []" using attempt_closed(1) [OF ok rd at st] same by (simp add: current_rows_def same_rows_def)
  show "own_ok (dd_runs db')" using attempt_closed(2) [OF ok rd at st] same_rows_own_ok [OF same] by simp
qed

lemma terminal_attempt_not_current: "terminal_attempt_status s = Inr status \<Longrightarrow> status \<noteq> as_current"
  by (cases s) auto

lemma create_repairE:
  assumes "apply_create_repair_attempt e rid action db = Inr db'"
  obtains task a runs where
    "ensure_current_runtime_attempt e rid task at_repair ''repair_recreated_current_attempt'' False (dd_runs db) = Inr (a, runs)"
    and "same_rows (db\<lparr>dd_runs := runs\<rparr>) db'"
proof -
  obtain cx where cx: "load_run_context rid db = Inr cx"
    using assms by (auto simp: apply_create_repair_attempt_def rbind_eq_Inr)
  then obtain task tasks where "cx_tasks cx = task # tasks"
    using assms by (cases "cx_tasks cx") (auto simp: apply_create_repair_attempt_def)
  then obtain a db1 where en: "on_runs (ensure_current_runtime_attempt e rid task at_repair ''repair_recreated_current_attempt'' False) db = Inr (a, db1)"
    and ev: "append_repair_event (env_from 5 e) 0 rid action db1 = Inr db'"
    using assms cx by (auto simp: apply_create_repair_attempt_def rbind_eq_Inr)
  show thesis using on_runsD [OF en] append_repair_event_same [OF ev] that by blast
qed

lemma create_repair_removes:
  assumes ok: "own_ok (dd_runs db)" and cr: "apply_create_repair_attempt e rid action db = Inr db'"
  shows "current_rows rid db' \<noteq> []" and "own_ok (dd_runs db')"
proof -
  obtain task a runs where runs: "ensure_current_runtime_attempt e rid task at_repair ''repair_recreated_current_attempt'' False (dd_runs db) = Inr (a, runs)"
    and same: "same_rows (db\<lparr>dd_runs := runs\<rparr>) db'"
    using cr by (rule create_repairE)
  have at: "attempts_ok (rd_attempts (dd_runs db))" using ok by (simp add: own_ok_def)
  have "a \<in> set (rd_attempts runs) \<and> ra_status a = as_current \<and> ra_run_id a = rid \<and> own_ok runs"
    using at runs
  proof (cases rule: ensure_attemptD)
    case kept
    then show ?thesis using ok by simp
  next
    case (made current)
    then show ?thesis using advance_attemptD [OF at made(1)] ok by (simp add: own_ok_def)
  qed
  then show "current_rows rid db' \<noteq> []" "own_ok (dd_runs db')"
    using same same_rows_own_ok [OF same] by (auto simp: current_rows_def same_rows_def filter_empty_conv)
qed

lemma some_tasks_Inr: "transaction (some_tasks t) db = (db', Inr x) \<longleftrightarrow> (\<exists>ts. t db = Inr (ts, db') \<and> x = Some ts)"
  by (auto simp: transaction_Inr some_tasks_def rbind_eq_Inr)

lemma some_tasksE: "transaction (some_tasks t) db = (db', Inr x) \<Longrightarrow> \<exists>ts. t db = Inr (ts, db')"
  by (auto simp: some_tasks_Inr)

lemma dispatch_cases:
  assumes "dispatch_repair f h e run action problem db = (db', Inr ts)" and "action \<notin> elsewhere"
  obtains (align) x where "action \<in> {''align_completed_runtime_state'', ''align_cancelled_runtime_state''}"
      and "apply_align_terminal_runtime_state e run action problem db = Inr (x, db')"
    | (closing) x where "action = ''close_current_runtime_attempt_terminal''"
      and "apply_close_current_attempt_terminal e run action db = Inr (x, db')"
    | (create) "action = ''create_repair_runtime_attempt''" and "apply_create_repair_attempt e (ru_run_id run) action db = Inr db'"
    | (interrupt) x where "action = ''interrupt_current_runtime_attempt''"
      and "apply_interrupt_current_attempt e (ru_run_id run) action problem db = Inr (x, db')"
    | (claim) x status reason where "action \<in> {''release_runtime_claim'', ''expire_runtime_claim''}" and "status \<noteq> cs_active"
      and "apply_claim_release_repair e (ru_run_id run) action status reason db = Inr (x, db')"
    | (lease) x status reason where "action \<in> {''release_worker_lease'', ''expire_worker_lease''}" and "status \<noteq> ws_active"
      and "apply_worker_lease_release_repair e (ru_run_id run) action status reason db = Inr (x, db')"
proof -
  let ?rid = "ru_run_id run"
  have cr: "transaction (\<lambda>db. rbind (apply_create_repair_attempt e ?rid action db) (\<lambda>db'. Inr (None, db'))) db = (db', Inr ts)
      \<Longrightarrow> apply_create_repair_attempt e ?rid action db = Inr db'"
    by (auto simp: transaction_Inr rbind_eq_Inr)
  have n: "action \<noteq> ''release_scheduler_lease''" "action \<noteq> ''recompile_prepared_run''" using assms(2) by (auto simp: elsewhere_def)
  have st: "cs_released \<noteq> cs_active" "cs_expired \<noteq> cs_active" "ws_released \<noteq> ws_active" "ws_expired \<noteq> ws_active" by simp_all
  have m: "x = y \<Longrightarrow> x \<in> {y, z}" "x = z \<Longrightarrow> x \<in> {y, z}" for x y z :: string by simp_all
  note di = assms(1) [unfolded dispatch_repair_def Let_def, unfolded if_not_P [OF n(1)] if_not_P [OF n(2)]]
  show thesis
    using di
    apply (split if_split_asm)
    subgoal by (drule some_tasksE, erule exE, rule align; assumption)
    apply (split if_split_asm)
    subgoal by (drule some_tasksE, erule exE, rule closing; assumption)
    apply (split if_split_asm)
    subgoal by (rule that(3) [OF _ cr]; assumption)
    apply (split if_split_asm)
    subgoal by (drule some_tasksE, erule exE, rule interrupt; assumption)
    apply (split if_split_asm)
    subgoal by (drule some_tasksE, erule exE, rule claim [OF m(1) st(1)]; assumption)
    apply (split if_split_asm)
    subgoal by (drule some_tasksE, erule exE, rule claim [OF m(2) st(2)]; assumption)
    apply (split if_split_asm)
    subgoal by (drule some_tasksE, erule exE, rule lease [OF m(1) st(3)]; assumption)
    apply (split if_split_asm)
    subgoal by (drule some_tasksE, erule exE, rule lease [OF m(2) st(4)]; assumption)
    by simp
qed

lemma dispatch_removes:
  assumes ok: "own_ok (dd_runs db)" and di: "dispatch_repair f h e run action problem db = (db', Inr ts)" and a: "action \<notin> elsewhere"
  shows "\<not> ground action (ru_run_id run) db' \<and> own_ok (dd_runs db')"
proof -
  let ?rid = "ru_run_id run"
  show ?thesis
    using di a
  proof (cases rule: dispatch_cases)
    case (align x)
    then show ?thesis using align_removes [OF ok align(2)] by (auto simp: ground_def)
  next
    case (closing x)
    then obtain a status where "attempt_current_for_run ?rid (dd_runs db) = Inr (Some a)" "terminal_attempt_status (ru_status run) = Inr status"
      "close_current e ?rid action status (''reconciled_terminal_run_'' @ run_status_name (ru_status run)) a db = Inr (x, db')"
      by (auto simp: apply_close_current_attempt_terminal_def rbind_eq_Inr split: option.splits)
    then show ?thesis using close_current_removes [OF ok] terminal_attempt_not_current closing(1) by (simp add: ground_def)
  next
    case create
    then show ?thesis using create_repair_removes [OF ok create(2)] by (simp add: ground_def)
  next
    case (interrupt x)
    then obtain a where "attempt_current_for_run ?rid (dd_runs db) = Inr (Some a)"
      "close_current e ?rid action as_interrupted (''reconciled_'' @ problem) a db = Inr (x, db')"
      by (auto simp: apply_interrupt_current_attempt_def rbind_eq_Inr split: option.splits)
    then show ?thesis using close_current_removes [OF ok] interrupt(1) by (simp add: ground_def)
  next
    case (claim x status reason)
    then show ?thesis using claim_repair_removes [OF ok claim(3,2)] by (auto simp: ground_def)
  next
    case (lease x status reason)
    then show ?thesis using lease_repair_removes [OF ok lease(3,2)] by (auto simp: ground_def)
  qed
qed

lemma select_repair_problemD:
  assumes "select_repair_problem rid ps action = Inr p"
  shows "p \<in> set ps" and "pb_repairable p" and "pb_repair_action p \<noteq> None"
    and "action = Some a \<Longrightarrow> pb_repair_action p = Some a"
  using assms
  by (auto simp: select_repair_problem_def Let_def split: if_splits list.splits option.splits dest: sql_first_Some)

text \<open>The parts of a repair that went through.\<close>

lemma apply_run_repairD:
  assumes "apply_run_repair f h (e1, e2, e3, e4) rid action db = (db', Inr r)"
  obtains run p db1 s where "get_run rid db = Inr run" and "inspect_run_state f e1 rid db = Inr (rp_before r)"
    and "select_repair_problem rid (rp_before r) action = Inr p" and "rp_action r = str_or (pb_repair_action p) []"
    and "rp_problem r = pb_problem p"
    and "dispatch_repair f h e2 run (rp_action r) (rp_problem r) db = (db1, Inr (rp_repaired r))"
    and "capture_run_snapshot f e3 0 rid ss_repaired (''Repair snapshot captured: '' @ rp_action r) None
           [(''repair_action'', JStr (rp_action r)), (''problem'', JStr (rp_problem r))] db1 = Inr (s, db')"
    and "inspect_run_state f e4 rid db' = Inr (rp_after r)"
    and "get_run rid db' = Inr (rp_run r)"
  using assms unfolding apply_run_repair_def Let_def prod.case
  by (auto simp: ebind_Inr reading_def transaction_Inr)

lemma get_run_id: "get_run rid db = Inr run \<Longrightarrow> ru_run_id run = rid"
  by (auto simp: get_run_def run_get_def split: option.splits dest: sql_first_Some)

lemma released_leases_runs: "release_recorded_leases f e reason ss db = Inr (ts, db') \<Longrightarrow> dd_runs db' = dd_runs db"
proof (induction f e reason ss db arbitrary: ts db' rule: release_recorded_leases.induct)
  case (2 f e reason s ss db)
  show ?case
  proof (cases "scheduler_lease_id_from_state (Some s)")
    case None
    then show ?thesis using 2 by simp
  next
    case (Some lid)
    then obtain s' sched db1 us where 1: "release_scheduler_lease_for_state f e s (Some lid) reason (dd_sched db) = Inr (s', sched)"
      "upsert_state s' (db\<lparr>dd_sched := sched\<rparr>) = Inr db1" "release_recorded_leases f (env_from 8 e) reason ss db1 = Inr (us, db')"
      using "2.prems" by (auto simp: rbind_eq_Inr)
    have "dd_runs db' = dd_runs db1" by (rule "2.IH"(2) [OF Some 1(3)])
    then show ?thesis using 1(2) by (auto simp: upsert_state_def rbind_eq_Inr)
  qed
qed simp

lemma scheduler_repair_sound:
  assumes "own_ok (dd_runs db)" and "dispatch_repair f h e run ''release_scheduler_lease'' problem db = (db', Inr ts)"
  shows "own_ok (dd_runs db')"
proof -
  obtain us where "apply_scheduler_lease_release_repair f e (ru_run_id run) ''release_scheduler_lease'' problem db = Inr (us, db')"
    using assms(2) by (auto simp: dispatch_repair_def dest: some_tasksE)
  then show ?thesis using assms(1)
    by (auto simp: apply_scheduler_lease_release_repair_def rbind_eq_Inr same_rows_own_ok [OF append_repair_event_same]
        dest!: released_leases_runs)
qed

text \<open>C37: A repair that goes through does what an inspection asked for. All repairs but compiling the run again, which is another
  component's work, keep the ownership tables sound. After all of these but the release of a scheduler lease, the inspection no
  longer reports the repair's action; of a committed scheduler lease whose decision is missing the
  state is left as it is, and \<open>undecided_scheduler_lease_reported_again\<close> shows it reported again.\<close>

theorem repair_removes_problem:
  assumes ok: "own_ok (dd_runs db)" and ap: "apply_run_repair f h es rid action db = (db', Inr r)"
  shows "set_option action \<subseteq> {rp_action r}
     \<and> (\<exists>p\<in>set (rp_before r). pb_repairable p \<and> pb_repair_action p = Some (rp_action r) \<and> pb_problem p = rp_problem r)
     \<and> (rp_action r \<noteq> ''recompile_prepared_run'' \<longrightarrow> own_ok (dd_runs db'))
     \<and> (rp_action r \<notin> {''recompile_prepared_run'', ''release_scheduler_lease''} \<longrightarrow>
          (\<forall>p\<in>set (rp_after r). pb_repair_action p \<noteq> Some (rp_action r)))"
proof -
  obtain e1 e2 e3 e4 where es: "es = (e1, e2, e3, e4)" by (cases es)
  show ?thesis
    using ap unfolding es
  proof (cases rule: apply_run_repairD)
    case (1 run p db1 s)
    note sel = select_repair_problemD [OF 1(3)]
    have act: "pb_repair_action p = Some (rp_action r)" using sel(3) 1(4) by (auto simp: str_or_def)
    note same = capture_same [OF 1(7)]
    have di: "\<not> ground (rp_action r) rid db1 \<and> own_ok (dd_runs db1)" if "rp_action r \<notin> elsewhere"
      using dispatch_removes [OF ok 1(6)] that get_run_id [OF 1(1)] by simp
    have sound: "own_ok (dd_runs db')" if "rp_action r \<noteq> ''recompile_prepared_run''"
      using di scheduler_repair_sound [OF ok] 1(6) that same_rows_own_ok [OF same] by (cases "rp_action r \<in> elsewhere") (auto simp: elsewhere_def)
    have after: "pb_repair_action q \<noteq> Some (rp_action r)" if "q \<in> set (rp_after r)" and n: "rp_action r \<notin> elsewhere" for q
      using reported_ground [OF sound 1(8) that(1)] di [OF n] same_rows_ground [OF same] n by (auto simp: elsewhere_def)
    have "set_option action \<subseteq> {rp_action r}" using sel(4) act by (cases action) auto
    then show ?thesis using sound after sel(1,2) act 1(5) by (auto simp: elsewhere_def)
  qed
qed

subsection \<open>Cancelling\<close>

lemma durable_transitionD:
  assumes "state_ref_with_durable_transition f s reason refs metadata = Inr s'"
  shows "st_is_terminal s' = st_is_terminal s \<and> st_runtime_task_id s' = st_runtime_task_id s \<and> st_graph_step s' = st_graph_step s"
proof -
  have "Inr s = (Inr s' :: werror + state_ref) \<or> (\<exists>u. state_with_payload_updates s u = Inr s')"
    using assms unfolding state_ref_with_durable_transition_def rbind_eq_Inr Let_def by (elim exE conjE) (split if_split_asm, blast+)
  then show ?thesis by (auto dest: state_with_payload_updatesD)
qed

lemma cancel_statesD:
  assumes "cancel_states f e ss db = Inr db'"
  shows "(\<forall>r\<in>set (dd_states db'). st_is_terminal r \<or> (r \<in> set (dd_states db) \<and> st_runtime_task_id r \<notin> st_runtime_task_id ` set ss))
     \<and> dd_runs db' = dd_runs db \<and> dd_sched db' = dd_sched db"
  using assms
proof (induction ss arbitrary: e db)
  case (Cons s ss)
  obtain s' db1 where tr: "state_ref_with_durable_transition f (ended_state e gs_cancelled [(''reason'', JStr ''cancelled_by_operator'')] s)
              ''cancelled'' None [(''reason'', JStr ''cancelled_by_operator'')] = Inr s'"
    and up: "upsert_state s' db = Inr db1" and rest: "cancel_states f (env_from 1 e) ss db1 = Inr db'"
    using Cons.prems by (auto simp: rbind_eq_Inr)
  have "st_is_terminal s'" "st_runtime_task_id s' = st_runtime_task_id s"
    using durable_transitionD [OF tr] by (simp_all add: ended_state_def)
  then show ?case using upsert_stateD [OF up] Cons.IH [OF rest] by auto
qed simp

lemma on_runs_states: "on_runs op db = Inr (x, db') \<Longrightarrow> dd_states db' = dd_states db \<and> dd_sched db' = dd_sched db \<and> dd_verdicts db' = dd_verdicts db"
  by (auto dest: on_runsD)

lemma close_attempt_ofD:
  assumes ok: "own_ok (dd_runs db)" and cl: "close_attempt_of e rid status reason db = Inr db'" and st: "status \<noteq> as_current"
  shows "current_rows rid db' = []" and "own_ok (dd_runs db')"
    and "dd_states db' = dd_states db \<and> dd_sched db' = dd_sched db \<and> dd_verdicts db' = dd_verdicts db"
proof -
  have at: "attempts_ok (rd_attempts (dd_runs db))" using ok by (simp add: own_ok_def)
  obtain current where rd: "attempt_current_for_run rid (dd_runs db) = Inr current"
    using cl by (auto simp: close_attempt_of_def rbind_eq_Inr)
  have "current_rows rid db' = [] \<and> own_ok (dd_runs db') \<and> dd_states db' = dd_states db \<and> dd_sched db' = dd_sched db \<and> dd_verdicts db' = dd_verdicts db"
  proof (cases current)
    case None
    then have "current_rows rid db = []" using rd by (simp add: attempt_reads [OF at] current_rows_def filter_empty_conv)
    then show ?thesis using cl rd None ok by (simp add: close_attempt_of_def)
  next
    case (Some a)
    then obtain r where on: "on_runs (close_runtime_attempt e a status reason) db = Inr (r, db')"
      using cl rd by (auto simp: close_attempt_of_def rbind_eq_Inr)
    show ?thesis using attempt_closed [OF ok rd [unfolded Some] on st] on_runs_states [OF on] by simp
  qed
  then show "current_rows rid db' = []" "own_ok (dd_runs db')"
    "dd_states db' = dd_states db \<and> dd_sched db' = dd_sched db \<and> dd_verdicts db' = dd_verdicts db" by simp_all
qed

lemma close_attempt_of_claims:
  assumes ok: "own_ok (dd_runs db)" and cl: "close_attempt_of e rid status reason db = Inr db'"
  shows "rd_claims (dd_runs db') = rd_claims (dd_runs db)"
proof -
  have at: "attempts_ok (rd_attempts (dd_runs db))" using ok by (simp add: own_ok_def)
  show ?thesis
    using cl by (auto simp: close_attempt_of_def rbind_eq_Inr split: option.splits dest!: on_runsD close_attemptD(2) [OF at])
qed

lemma claims_run_released:
  assumes ok: "own_ok (dd_runs db)" and rel: "on_runs (release_active_claims_for_run e rid status reason) db = Inr (x, db')"
    and st: "status \<noteq> cs_active"
  shows "claim_rows rid db' = [] \<and> own_ok (dd_runs db') \<and> rd_attempts (dd_runs db') = rd_attempts (dd_runs db)
     \<and> rd_worker_leases (dd_runs db') = rd_worker_leases (dd_runs db)
     \<and> dd_states db' = dd_states db \<and> dd_sched db' = dd_sched db \<and> dd_verdicts db' = dd_verdicts db"
proof -
  obtain claims runs where rd: "claim_list_active_for_run rid (dd_runs db) = Inr claims"
    and loop: "release_claims_loop e status reason claims (dd_runs db) = Inr (x, runs)" and db': "db' = db\<lparr>dd_runs := runs\<rparr>"
    using on_runsD [OF rel] by (auto simp: release_active_claims_for_run_def rbind_eq_Inr)
  have on: "on_runs (release_claims_loop e status reason claims) db = Inr (x, db')" by (simp add: on_runs_def loop db')
  have c: "claims_ok (rd_claims (dd_runs db))" using ok by (simp add: own_ok_def)
  show ?thesis using claims_released [OF ok rd on st] release_claims_loopD [OF loop c] by (simp add: db')
qed

lemma leases_run_released:
  assumes ok: "own_ok (dd_runs db)" and rel: "on_runs (release_active_worker_leases_for_run e rid status reason) db = Inr (x, db')"
    and st: "status \<noteq> ws_active"
  shows "lease_rows rid db' = [] \<and> own_ok (dd_runs db') \<and> rd_attempts (dd_runs db') = rd_attempts (dd_runs db)
     \<and> rd_claims (dd_runs db') = rd_claims (dd_runs db)
     \<and> dd_states db' = dd_states db \<and> dd_sched db' = dd_sched db \<and> dd_verdicts db' = dd_verdicts db"
proof -
  obtain leases runs where rd: "worker_lease_list_active_for_run rid (dd_runs db) = Inr leases"
    and loop: "release_leases_loop e status reason leases (dd_runs db) = Inr (x, runs)" and db': "db' = db\<lparr>dd_runs := runs\<rparr>"
    using on_runsD [OF rel] by (auto simp: release_active_worker_leases_for_run_def rbind_eq_Inr)
  have on: "on_runs (release_leases_loop e status reason leases) db = Inr (x, db')" by (simp add: on_runs_def loop db')
  have l: "leases_ok (rd_worker_leases (dd_runs db))" using ok by (simp add: own_ok_def)
  show ?thesis using leases_released [OF ok rd on st] release_leases_loopD [OF loop l] by (simp add: db')
qed

lemma transition_stored:
  assumes "transition_run_status e run action target db = Inr (r', db')"
  shows "run_get (ru_run_id run) db' = Some r'" and "ru_status r' = target"
    and "can_transition_run_status (ru_status run) target"
proof -
  have g: "run_get (ru_run_id run) (snd (run_update_status (ru_run_id run) target (clock e 0) db)) = Some r'"
    "snd (run_update_status (ru_run_id run) target (clock e 0) db) = db'" "can_transition_run_status (ru_status run) target"
    using assms by (auto simp: transition_run_status_def run_update_status_def Let_def rbind_eq_Inr split: option.splits)
  then show "run_get (ru_run_id run) db' = Some r'" "can_transition_run_status (ru_status run) target" by simp_all
  have "rd_runs db' = sql_update (\<lambda>r. ru_run_id r = ru_run_id run) (\<lambda>r. r\<lparr>ru_status := target, ru_updated_at := clock e 0\<rparr>) (rd_runs db)"
    using g(2) by (auto simp: run_update_status_def Let_def)
  then show "ru_status r' = target"
    using g(1) unfolding g(2) by (auto simp: run_get_def sql_first_update_same)
qed

lemma cancel_transactionD:
  assumes ok: "own_ok (dd_runs db)" and tx: "cancel_transaction f es run db = Inr (updated, db')"
  shows "own_ok (dd_runs db')" and "current_rows (ru_run_id run) db' = []" and "claim_rows (ru_run_id run) db' = []"
    and "lease_rows (ru_run_id run) db' = []" and "live_rows (ru_run_id run) db' = []"
    and "run_get (ru_run_id run) (dd_runs db') = Some updated" and "ru_status updated = cancelled" and "dd_sched db' = dd_sched db"
proof -
  let ?rid = "ru_run_id run"
  obtain states db1 db2 x3 db3 x4 db4 db5 db6 s where st: "state_list_for_run ?rid (dd_states db) = Inr states"
    and t1: "cancel_states f (es 0) states db = Inr db1"
    and t2: "close_attempt_of (es 1) ?rid as_cancelled ''run_cancelled'' db1 = Inr db2"
    and t3: "on_runs (release_active_claims_for_run (es 2) ?rid cs_released ''run_cancelled'') db2 = Inr (x3, db3)"
    and t4: "on_runs (release_active_worker_leases_for_run (es 3) ?rid ws_released ''run_cancelled'') db3 = Inr (x4, db4)"
    and t5: "on_runs (transition_run_status (es 4) run ''cancel'' cancelled) db4 = Inr (updated, db5)"
    and t6: "append_event (es 5) 0 ?rid ''run_cancelled'' ''run'' ?rid ''Run cancelled'' db5 = Inr db6"
    and t7: "capture_run_snapshot f (es 5) 1 ?rid ss_cancelled ''Cancelled snapshot captured'' None [] db6 = Inr (s, db')"
    using tx by (auto simp: cancel_transaction_def Let_def rbind_eq_Inr)
  note d1 = cancel_statesD [OF t1]
  have "own_ok (dd_runs db1)" using d1 ok by simp
  note d2 = close_attempt_ofD [OF this t2, simplified]
  note d3 = claims_run_released [OF d2(2) t3, simplified] and d4 = leases_run_released [OF _ t4, simplified]
  obtain r5 where r5: "transition_run_status (es 4) run ''cancel'' cancelled (dd_runs db4) = Inr (updated, r5)" "db5 = db4\<lparr>dd_runs := r5\<rparr>"
    using on_runsD [OF t5] by blast
  note d5 = transition_frame [OF r5(1)] and g5 = transition_stored [OF r5(1)]
  note d6 = append_event_same [OF t6] and d7 = capture_same [OF t7]
  have ok4: "own_ok (dd_runs db4)" using d4 d3 by simp
  show "own_ok (dd_runs db')"
    using ok4 d5 same_rows_own_ok [OF d6] same_rows_own_ok [OF d7] r5(2) by (simp add: own_ok_def)
  have terminal: "st_is_terminal r" if r: "r \<in> set (dd_states db1)" "st_run_id r = ?rid" for r
    using d1 r st by (auto simp: state_list_for_run_def dest!: state_listD)
  show "live_rows ?rid db' = []"
    using terminal d2 d3 d4 d6 d7 r5(2) by (auto simp: live_rows_def same_rows_def filter_empty_conv)
  show "current_rows ?rid db' = []" using d2 d3 d4 d5 d6 d7 r5(2) by (simp add: current_rows_def same_rows_def)
  show "claim_rows ?rid db' = []" using d3 d4 d5 d6 d7 r5(2) by (simp add: claim_rows_def same_rows_def)
  show "lease_rows ?rid db' = []" using d3 d4 d5 d6 d7 r5(2) by (simp add: lease_rows_def same_rows_def)
  show "run_get ?rid (dd_runs db') = Some updated" using g5 d6 d7 r5(2) by (simp add: run_get_def same_rows_def)
  show "ru_status updated = cancelled" by (fact g5)
  show "dd_sched db' = dd_sched db" using d1 d2 d3 d4 d6 d7 r5(2) by (simp add: same_rows_def)
qed

text \<open>What follows a transaction, the record of a simulation, leaves the rows of the run alone.\<close>

definition keeps_run_rows :: "(diag_db, unit) call \<Rightarrow> bool" where
  "keeps_run_rows m \<longleftrightarrow> (\<forall>db. same_rows db (fst (m db)))"

text \<open>C38: A run that is cancelled is left without a current attempt, an active claim, an active worker lease and a live
  state, and an inspection of it asks for no repair of its own rows; the lease of the scheduler is not touched.\<close>

theorem cancel_leaves_clean:
  assumes ok: "own_ok (dd_runs db)" and ca: "cancel_run f h es rid db = (db', Inr r)"
    and open_run: "\<forall>run. run_get rid (dd_runs db) = Some run \<longrightarrow> ru_status run \<noteq> cancelled"
    and sim: "keeps_run_rows (hk_record_simulation h rid)"
  shows "own_ok (dd_runs db') \<and> run_get rid (dd_runs db') = Some r \<and> ru_status r = cancelled
     \<and> current_rows rid db' = [] \<and> claim_rows rid db' = [] \<and> lease_rows rid db' = [] \<and> live_rows rid db' = []
     \<and> dd_sched db' = dd_sched db
     \<and> (\<forall>g e ps. inspect_run_state g e rid db' = Inr ps \<longrightarrow>
          (\<forall>p\<in>set ps. pb_repair_action p \<in> {None, Some ''release_scheduler_lease'', Some ''recompile_prepared_run''}))"
proof -
  obtain run where run: "get_run rid db = Inr run" using ca by (auto simp: cancel_run_def ebind_Inr reading_def)
  have "ru_status run \<noteq> cancelled" using open_run run by (auto simp: get_run_def split: option.splits)
  then obtain db1 where tx: "cancel_transaction f es run db = Inr (r, db1)" and hk: "hk_record_simulation h rid db1 = (db', Inr ())"
    using ca run by (auto simp: cancel_run_def ebind_Inr reading_def transaction_Inr)
  have rid: "ru_run_id run = rid" using get_run_id [OF run] .
  note d = cancel_transactionD [OF ok tx, unfolded rid]
  have same: "same_rows db1 db'" using sim hk unfolding keeps_run_rows_def by (metis fst_conv)
  have rows: "current_rows rid db' = []" "claim_rows rid db' = []" "lease_rows rid db' = []" "live_rows rid db' = []"
    "run_get rid (dd_runs db') = Some r" "dd_sched db' = dd_sched db"
    using d same by (simp_all add: current_rows_def claim_rows_def lease_rows_def live_rows_def run_get_def same_rows_def)
  have ok': "own_ok (dd_runs db')" using d(1) same_rows_own_ok [OF same] by simp
  have none: "\<not> ground action rid db'" for action using rows d(7) by (auto simp: ground_def)
  have "pb_repair_action p \<in> {None, Some ''release_scheduler_lease'', Some ''recompile_prepared_run''}"
    if "inspect_run_state g e rid db' = Inr ps" "p \<in> set ps" for g e ps p
    using reported_ground [OF ok' that] none by (cases "pb_repair_action p") (auto simp: elsewhere_def)
  then show ?thesis using ok' rows d(7) by simp
qed

subsection \<open>Human review\<close>

lemma releaseD:
  assumes "release_scheduler_lease_for_state f e s lease_id reason db = Inr (s', db')"
  shows "st_runtime_task_id s' = st_runtime_task_id s"
proof -
  have "s' = s \<or> (\<exists>u. state_with_payload_updates s u = Inr s')"
    using assms by (auto simp: release_scheduler_lease_for_state_def rbind_eq_Inr split: if_splits option.splits)
  then show ?thesis by (auto dest: state_with_payload_updatesD)
qed

lemma reviewed_stateD:
  assumes "reviewed_state f h e d verdict s = Inr s'"
  shows "st_is_terminal s' \<and> st_runtime_task_id s' = st_runtime_task_id s"
proof -
  obtain upd traced refs meta where tr: "(case hk_export_trace h (st_run_id s) ''human_review_finalize'' of
           None \<Rightarrow> Inr (ended_state e (review_step d) ((''human_review_decision'', JStr (review_decision_name d)) # upd) s)
         | Some trace \<Rightarrow> state_with_payload_updates (ended_state e (review_step d)
             ((''human_review_decision'', JStr (review_decision_name d)) # upd) s) [(''external_trace_id'', JStr trace)]) = Inr traced"
    and du: "state_ref_with_durable_transition f traced ''human_review_terminal'' refs meta = Inr s'"
    using assms unfolding reviewed_state_def Let_def rbind_eq_Inr by blast
  have "st_is_terminal traced \<and> st_runtime_task_id traced = st_runtime_task_id s"
    using tr by (auto simp: ended_state_def split: option.splits dest: state_with_payload_updatesD)
  then show ?thesis using durable_transitionD [OF du] by simp
qed

lemma review_state_ofD:
  assumes "review_state_of f h e1 e2 d verdict task db = Inr db'"
  shows "\<forall>s\<in>set (dd_states db'). st_runtime_task_id s = task \<longrightarrow> st_is_terminal s"
    and "dd_runs db' = dd_runs db \<and> dd_verdicts db' = dd_verdicts db"
proof -
  obtain fd where fd: "state_get_by_task task (dd_states db) = Inr fd"
    using assms by (auto simp: review_state_of_def rbind_eq_Inr)
  have "(\<forall>s\<in>set (dd_states db'). st_runtime_task_id s = task \<longrightarrow> st_is_terminal s) \<and> dd_runs db' = dd_runs db \<and> dd_verdicts db' = dd_verdicts db"
  proof (cases fd)
    case None
    then have "\<forall>s\<in>set (dd_states db). st_runtime_task_id s \<noteq> task" using fd by (auto simp: state_get_by_task_def roption_eq_Inr)
    then show ?thesis using assms fd None by (auto simp: review_state_of_def)
  next
    case (Some s)
    obtain s1 sched s2 where rl: "release_scheduler_lease_for_state f e1 s (scheduler_lease_id_from_state (Some s)) ''human_review_terminal'' (dd_sched db) = Inr (s1, sched)"
      and rv: "reviewed_state f h e2 d verdict s1 = Inr s2" and up: "upsert_state s2 (db\<lparr>dd_sched := sched\<rparr>) = Inr db'"
      using assms fd Some by (auto simp: review_state_of_def rbind_eq_Inr)
    have s2: "st_is_terminal s2" "st_runtime_task_id s2 = task"
      using reviewed_stateD [OF rv] releaseD [OF rl] state_get_by_taskD fd Some by auto
    have "dd_verdicts db' = dd_verdicts db" using up by (auto simp: upsert_state_def rbind_eq_Inr)
    then show ?thesis using upsert_stateD [OF up s2(1)] s2(2) by auto
  qed
  then show "\<forall>s\<in>set (dd_states db'). st_runtime_task_id s = task \<longrightarrow> st_is_terminal s"
    "dd_runs db' = dd_runs db \<and> dd_verdicts db' = dd_verdicts db" by simp_all
qed

lemma verdict_createD:
  "verdict_create v db = Inr db' \<Longrightarrow> dd_verdicts db' = dd_verdicts db @ [v] \<and> dd_runs db' = dd_runs db"
  by (auto simp: verdict_create_def rbind_eq_Inr)

lemma review_transactionD:
  assumes ok: "own_ok (dd_runs db)" and tx: "review_transaction f h es run task ev d rationale db = Inr ((updated, v), db')"
  shows "own_ok (dd_runs db')" and "current_rows (ru_run_id run) db' = []" and "lease_rows (ru_run_id run) db' = []"
    and "claim_rows (ru_run_id run) db' = claim_rows (ru_run_id run) db"
    and "run_get (ru_run_id run) (dd_runs db') = Some updated" and "ru_status updated = (case d of rd_pass \<Rightarrow> completed | rd_fail \<Rightarrow> failed)"
    and "dd_verdicts db' = dd_verdicts db @ [v]" and "v = human_verdict (es 0) run ev d rationale"
    and "\<forall>s\<in>set (dd_states db'). st_runtime_task_id s = task \<longrightarrow> st_is_terminal s"
proof -
  let ?rid = "ru_run_id run" and ?st = "if d = rd_pass then as_completed else as_failed"
  obtain db1 db2 db3 db4 x5 db5 db6 db7 s reason kind summary stage extra where v: "v = human_verdict (es 0) run ev d rationale"
    and t1: "verdict_create v db = Inr db1"
    and t2: "append_event (es 0) 2 ?rid ''review_submitted'' ''review_verdict'' (rv_verdict_id v)
                  (''Review verdict: '' @ review_decision_name d) db1 = Inr db2"
    and t3: "review_state_of f h (es 1) (es 2) d (rv_verdict_id v) task db2 = Inr db3"
    and t4: "close_attempt_of (es 3) ?rid ?st reason db3 = Inr db4"
    and t5: "on_runs (release_active_worker_leases_for_run (es 4) ?rid ws_released ''run_terminal'') db4 = Inr (x5, db5)"
    and t6: "on_runs (transition_run_status (es 5) run ''human_review'' (case d of rd_pass \<Rightarrow> completed | rd_fail \<Rightarrow> failed)) db5 = Inr (updated, db6)"
    and t7: "append_event (es 6) 0 ?rid kind ''run'' ?rid summary db6 = Inr db7"
    and t8: "capture_run_snapshot f (es 6) 1 ?rid stage ''Human review terminal snapshot captured'' (Some task) extra db7 = Inr (s, db')"
    using tx by (auto simp: review_transaction_def Let_def rbind_eq_Inr simp del: One_nat_def)
  note d1 = verdict_createD [OF t1] and d2 = append_event_same [OF t2] and d3 = review_state_ofD [OF t3]
  have ok3: "own_ok (dd_runs db3)" using ok d1 d3 same_rows_own_ok [OF d2] by simp
  have "?st \<noteq> as_current" by simp
  note d4 = close_attempt_ofD [OF ok3 t4 this] and c4 = close_attempt_of_claims [OF ok3 t4]
  note d5 = leases_run_released [OF d4(2) t5, simplified]
  obtain r6 where r6: "transition_run_status (es 5) run ''human_review'' (case d of rd_pass \<Rightarrow> completed | rd_fail \<Rightarrow> failed) (dd_runs db5) = Inr (updated, r6)"
    "db6 = db5\<lparr>dd_runs := r6\<rparr>"
    using on_runsD [OF t6] by blast
  note d6 = transition_frame [OF r6(1)] and g6 = transition_stored [OF r6(1)]
  note d7 = append_event_same [OF t7] and d8 = capture_same [OF t8]
  show "own_ok (dd_runs db')"
    using d5 d6 r6(2) same_rows_own_ok [OF d7] same_rows_own_ok [OF d8] unfolding own_ok_def by (metis diag_db.ext_inject diag_db.surjective diag_db.update_convs(2))
  show "current_rows ?rid db' = []" using d4 d5 d6 d7 d8 r6(2) by (simp add: current_rows_def same_rows_def)
  show "lease_rows ?rid db' = []" using d5 d6 d7 d8 r6(2) by (simp add: lease_rows_def same_rows_def)
  show "claim_rows ?rid db' = claim_rows ?rid db"
    using d1 d2 d3 c4 d5 d6 d7 d8 r6(2) by (simp add: claim_rows_def same_rows_def)
  show "run_get ?rid (dd_runs db') = Some updated" using g6 d7 d8 r6(2) by (simp add: run_get_def same_rows_def)
  show "ru_status updated = (case d of rd_pass \<Rightarrow> completed | rd_fail \<Rightarrow> failed)" by (fact g6)
  show "dd_verdicts db' = dd_verdicts db @ [v]" using d1 d2 d3 d4 d5 d7 d8 r6(2) by (simp add: same_rows_def)
  show "v = human_verdict (es 0) run ev d rationale" by (fact v)
  show "\<forall>s\<in>set (dd_states db'). st_runtime_task_id s = task \<longrightarrow> st_is_terminal s"
    using d3 d4 d5 d7 d8 r6(2) by (simp add: same_rows_def)
qed

text \<open>C39: A human review that goes through finds the run awaiting it, records the verdict on the evidence of the run's
  first task, and ends the run with the status of the decision, without a current attempt, without an active
  worker lease and with a terminal state of that task.\<close>

theorem review_ends_run:
  assumes ok: "own_ok (dd_runs db)" and fin: "finalize_human_review f h es rid d rationale db = (db', Inr (run, ev, v))"
    and sim: "keeps_run_rows (hk_record_simulation h rid)"
  shows "(\<exists>old. run_get rid (dd_runs db) = Some old \<and> ru_status old = awaiting_review)
     \<and> own_ok (dd_runs db') \<and> run_get rid (dd_runs db') = Some run
     \<and> ru_status run = (case d of rd_pass \<Rightarrow> completed | rd_fail \<Rightarrow> failed)
     \<and> current_rows rid db' = [] \<and> lease_rows rid db' = [] \<and> claim_rows rid db' = claim_rows rid db
     \<and> dd_verdicts db' = dd_verdicts db @ [v]
     \<and> rv_decision v = d \<and> rv_human v \<and> rv_run_id v = rid \<and> rv_rationale v = rationale \<and> rv_evidence_id v = ev_evidence_id ev
     \<and> (\<exists>ts. list_runtime_tasks_for_run rid db = ev_runtime_task_id ev # ts)
     \<and> (\<forall>s\<in>set (dd_states db'). st_runtime_task_id s = ev_runtime_task_id ev \<longrightarrow> st_is_terminal s)"
proof -
  obtain old task ts db1 where old: "get_run rid db = Inr old" and st: "require_status old ''human_review'' [awaiting_review] = Inr ()"
    and task: "list_runtime_tasks_for_run rid db = task # ts" and ev: "evidence_get_by_task task db = Some ev"
    and tx: "review_transaction f h es old task ev d rationale db = Inr ((run, v), db1)" and hk: "hk_record_simulation h rid db1 = (db', Inr ())"
    using fin by (auto simp: finalize_human_review_def ebind_Inr reading_def transaction_Inr split: list.splits option.splits)
  have rid: "ru_run_id old = rid" using get_run_id [OF old] .
  note r = review_transactionD [OF ok tx, unfolded rid]
  have same: "same_rows db1 db'" using sim hk unfolding keeps_run_rows_def by (metis fst_conv)
  have rows: "current_rows rid db' = []" "lease_rows rid db' = []" "claim_rows rid db' = claim_rows rid db" "run_get rid (dd_runs db') = Some run"
    "dd_verdicts db' = dd_verdicts db @ [v]" "\<forall>s\<in>set (dd_states db'). st_runtime_task_id s = task \<longrightarrow> st_is_terminal s"
    using r same by (simp_all add: current_rows_def claim_rows_def lease_rows_def run_get_def same_rows_def)
  have "ru_status old = awaiting_review" using st by (auto simp: require_status_def rbind_eq_Inr)
  moreover have "run_get rid (dd_runs db) = Some old" using old by (auto simp: get_run_def split: option.splits)
  moreover have "ev_runtime_task_id ev = task" using ev by (auto simp: evidence_get_by_task_def dest: sql_first_Some)
  moreover have "own_ok (dd_runs db')" using r(1) same_rows_own_ok [OF same] by simp
  ultimately show ?thesis using rows r(6,8) task by (auto simp: human_verdict_def rid)
qed

subsection \<open>The repair chosen when none is asked for\<close>

lemma select_default:
  assumes "select_repair_problem rid (xs @ ys) None = Inr p" and "\<exists>q\<in>set xs. pb_repairable q \<and> pb_repair_action q \<noteq> None"
  shows "\<exists>q\<in>set xs. pb_repair_action p = pb_repair_action q \<and> pb_repair_action q \<noteq> None"
proof -
  let ?a = "\<lambda>ps. List.map_filter (\<lambda>p. if pb_repairable p then pb_repair_action p else None) ps"
  obtain q where "q \<in> set xs" "pb_repairable q" "pb_repair_action q \<noteq> None" using assms(2) by blast
  then have "?a xs \<noteq> []" by (induction xs) (auto simp: List.map_filter_simps split: option.splits)
  then obtain a as where a: "?a xs = a # as" by (cases "?a xs") auto
  have "?a (xs @ ys) = ?a xs @ ?a ys" by (simp add: List.map_filter_def)
  then have "available_repair_actions (xs @ ys) = a # (as @ ?a ys)" using a by (simp add: available_repair_actions_def)
  then have p: "pb_repair_action p = Some a" using assms(1) by (auto simp: select_repair_problem_def Let_def split: option.splits dest: sql_first_Some)
  have "a \<in> set (?a xs)" using a by simp
  then obtain r where "r \<in> set xs" "pb_repair_action r = Some a"
    by (auto simp: List.map_filter_def split: if_splits)
  then show ?thesis using p by (intro bexI [of _ r]) simp_all
qed

definition open_status :: "run_status \<Rightarrow> bool" where
  "open_status s \<longleftrightarrow> s = prepared \<or> s = running \<or> s = awaiting_review"

text \<open>An expired claim of an open run with tasks: the current attempt is in the way.\<close>

lemma default_choice:
  assumes ok: "own_ok (dd_runs db)" and ins: "inspect_run_state f e rid db = Inr ps" and sel: "select_repair_problem rid ps None = Inr p"
    and run: "run_get rid (dd_runs db) = Some run" and st: "open_status (ru_status run)" and ts: "list_runtime_tasks_for_run rid db \<noteq> []"
    and c: "c \<in> set (claim_rows rid db)" and ex: "rc_lease_expires_at c \<le> clock e 0"
  shows "pb_repair_action p \<in> {Some ''create_repair_runtime_attempt'', Some ''interrupt_current_runtime_attempt''}"
  using ins
proof (cases rule: inspect_run_stateD)
  case (1 cx live durable)
  note d = load_run_contextD [OF ok 1(1)]
  have cx: "cx_run cx = run" "cx_tasks cx \<noteq> []" using d(1,3) run ts by simp_all
  have ex': "expired_active_claims (clock e 0) cx \<noteq> []"
    using c ex d(5) by (auto simp: expired_active_claims_def filter_empty_conv)
  define create where "create = repairable ''missing_current_runtime_attempt'' ''create_repair_runtime_attempt'' ''create_repair_runtime_attempt''"
  define int1 where "int1 = repairable ''current_runtime_attempt_task_missing'' ''interrupt_current_runtime_attempt'' ''interrupt_current_runtime_attempt''"
  define int2 where "int2 = repairable ''current_runtime_attempt_interrupted'' ''interrupt_current_runtime_attempt'' ''interrupt_current_runtime_attempt''"
  define noev where "noev = unrepairable ''awaiting_review_missing_evidence'' ''error'' ''rebuild_or_replay_evidence''"
  let ?b1 = "ru_status (cx_run cx) \<in> {prepared, running, awaiting_review} \<and> cx_tasks cx \<noteq> [] \<and> current_attempt cx = None"
    and ?b2 = "case current_attempt cx of None \<Rightarrow> False | Some a \<Rightarrow> ra_runtime_task_id a \<notin> set (cx_tasks cx)"
    and ?b5 = "ru_status (cx_run cx) = awaiting_review \<and> \<not> list_ex (\<lambda>(_, v). v \<noteq> None) (cx_evidence cx)"
    and ?b6 = "current_attempt cx \<noteq> None \<and> (expired_active_claims (clock e 0) cx \<noteq> [] \<or> expired_active_worker_leases (clock e 1) cx \<noteq> [])"
  obtain rest where rest: "ps = found ?b1 create @ found ?b2 int1
      @ found (ru_status (cx_run cx) = completed \<and> live \<noteq> [])
           (repairable ''completed_runtime_non_terminal'' ''reconcile_runtime_state_ref'' ''align_completed_runtime_state'')
      @ found (terminal_run_status (ru_status (cx_run cx)) \<and> current_attempt cx \<noteq> None)
           (repairable ''terminal_run_has_current_runtime_attempt'' ''close_current_runtime_attempt_terminal'' ''close_current_runtime_attempt_terminal'')
      @ found ?b5 noev @ found ?b6 int2 @ rest"
    unfolding 1(3) ownership_problems_def Let_def append_assoc create_def int1_def int2_def noev_def by blast
  have "\<not> terminal_run_status (ru_status (cx_run cx))" "ru_status (cx_run cx) \<noteq> completed"
    using st cx(1) by (auto simp: open_status_def terminal_run_status_def)
  then have split: "ps = (found ?b1 create @ found ?b2 int1 @ found ?b5 noev @ found ?b6 int2) @ rest"
    using rest by (simp add: found_def)
  have some: "?b1 \<or> ?b6" using cx st ex' by (auto simp: open_status_def)
  have "\<exists>xs ys. ps = xs @ ys \<and> set xs \<subseteq> {create, int1, noev, int2} \<and> (create \<in> set xs \<or> int2 \<in> set xs)"
    by (intro exI conjI, rule split) (use some in \<open>auto simp: found_mem\<close>)
  then obtain xs ys where xs: "ps = xs @ ys" "set xs \<subseteq> {create, int1, noev, int2}" "create \<in> set xs \<or> int2 \<in> set xs" by blast
  have "\<exists>q\<in>set xs. pb_repairable q \<and> pb_repair_action q \<noteq> None"
  proof -
    have "pb_repairable q \<and> pb_repair_action q \<noteq> None" if "q \<in> {create, int2}" for q
      using that by (auto simp: create_def int2_def repairable_def)
    then show ?thesis using xs(3) by blast
  qed
  then obtain q where "q \<in> set xs" "pb_repair_action p = pb_repair_action q" "pb_repair_action q \<noteq> None"
    using select_default sel xs(1) by blast
  then show ?thesis using xs(2) by (auto simp: create_def int1_def int2_def noev_def repairable_def unrepairable_def)
qed

text \<open>What the two repairs leave alone.\<close>

definition same_claims :: "diag_db \<Rightarrow> diag_db \<Rightarrow> bool" where
  "same_claims db db' \<longleftrightarrow>
     rd_claims (dd_runs db') = rd_claims (dd_runs db) \<and> rd_runs (dd_runs db') = rd_runs (dd_runs db)
     \<and> rd_tasks (dd_runs db') = rd_tasks (dd_runs db) \<and> dd_task db' = dd_task db"

lemma same_rows_claims: "same_rows db db' \<Longrightarrow> same_claims db db'"
  by (simp add: same_rows_def same_claims_def)

lemma same_claims_refl [simp]: "same_claims db db"
  by (simp add: same_claims_def)

lemma same_claims_trans: "same_claims db db1 \<Longrightarrow> same_claims db1 db2 \<Longrightarrow> same_claims db db2"
  by (simp add: same_claims_def)

lemma close_frame:
  assumes "close_runtime_attempt e a status reason db = Inr (r, db')"
  shows "rd_claims db' = rd_claims db \<and> rd_runs db' = rd_runs db \<and> rd_tasks db' = rd_tasks db"
proof -
  obtain db1 where up: "attempt_close (ra_attempt_id a) status (clock e 0) reason db = Inr (Some r, db1)"
    and ev: "event_append e 1 (ra_run_id a) ''runtime_attempt_closed'' ''runtime_attempt'' (ra_attempt_id a)
                    (''Runtime attempt '' @ attempt_status_name status) db1 = Inr db'"
    using assms by (auto simp: close_runtime_attempt_def rbind_eq_Inr split: option.splits)
  have "rd_claims db1 = rd_claims db \<and> rd_runs db1 = rd_runs db \<and> rd_tasks db1 = rd_tasks db"
    using up by (auto simp: attempt_close_def Let_def rbind_eq_Inr)
  then show ?thesis using event_append_frame [OF ev] by simp
qed

lemma store_frame:
  "store_attempt e k a db = Inr db' \<Longrightarrow> rd_claims db' = rd_claims db \<and> rd_runs db' = rd_runs db \<and> rd_tasks db' = rd_tasks db"
  by (auto simp: store_attempt_def attempt_create_def rbind_eq_Inr dest!: event_append_frame)

lemma supersede_frame:
  assumes "supersede_runtime_attempt e k a by reason db = Inr (r, db')"
  shows "rd_claims db' = rd_claims db \<and> rd_runs db' = rd_runs db \<and> rd_tasks db' = rd_tasks db"
proof -
  obtain db1 where up: "attempt_supersede (ra_attempt_id a) by (clock e k) reason db = Inr (Some r, db1)"
    and ev: "event_append e (k + 1) (ra_run_id a) ''runtime_attempt_superseded'' ''runtime_attempt'' (ra_attempt_id a)
                    ''Runtime attempt superseded'' db1 = Inr db'"
    using assms by (auto simp: supersede_runtime_attempt_def rbind_eq_Inr split: option.splits)
  have "rd_claims db1 = rd_claims db \<and> rd_runs db1 = rd_runs db \<and> rd_tasks db1 = rd_tasks db"
    using up by (auto simp: attempt_supersede_def Let_def rbind_eq_Inr)
  then show ?thesis using event_append_frame [OF ev] by simp
qed

lemma ensure_frame:
  assumes at: "attempts_ok (rd_attempts db)" and en: "ensure_current_runtime_attempt e rid task trigger reason force db = Inr (a, db')"
  shows "rd_claims db' = rd_claims db \<and> rd_runs db' = rd_runs db \<and> rd_tasks db' = rd_tasks db"
  using at en
proof (cases rule: ensure_attemptD)
  case (made current)
  then obtain db1 where sup: "(case current of None \<Rightarrow> Inr db
          | Some c \<Rightarrow> rbind (supersede_runtime_attempt e 1 c (ra_attempt_id a) reason db) (\<lambda>(_, db1). Inr db1)) = Inr db1"
    and sto: "store_attempt e 3 a db1 = Inr db'"
    by (auto simp: advance_runtime_attempt_def rbind_eq_Inr)
  have "rd_claims db1 = rd_claims db \<and> rd_runs db1 = rd_runs db \<and> rd_tasks db1 = rd_tasks db"
  proof (cases current)
    case None
    then show ?thesis using sup by simp
  next
    case (Some c)
    then obtain r where "supersede_runtime_attempt e 1 c (ra_attempt_id a) reason db = Inr (r, db1)" using sup by (auto simp: rbind_eq_Inr)
    then show ?thesis by (rule supersede_frame)
  qed
  then show ?thesis using store_frame [OF sto] by simp
qed simp

lemma transaction_Inl: "transaction t db = (db', Inl err) \<Longrightarrow> db' = db"
  by (auto simp: transaction_def split: sum.splits)

lemma dispatch_default:
  assumes ok: "own_ok (dd_runs db)" and di: "dispatch_repair f h e run action problem db = (db', x)"
    and a: "action \<in> {''create_repair_runtime_attempt'', ''interrupt_current_runtime_attempt''}"
  shows "same_claims db db' \<and> own_ok (dd_runs db')"
proof (cases x)
  case (Inl err)
  have "\<exists>t. dispatch_repair f h e run action problem = transaction t"
    using a by (elim insertE) (simp_all add: dispatch_repair_def, blast+)
  then have "db' = db" using di Inl transaction_Inl by metis
  then show ?thesis using ok by simp
next
  case (Inr ts)
  have di': "dispatch_repair f h e run action problem db = (db', Inr ts)" using di Inr by simp
  have n: "action \<notin> elsewhere" using a by (auto simp: elsewhere_def)
  have at: "attempts_ok (rd_attempts (dd_runs db))" using ok by (simp add: own_ok_def)
  have "same_claims db db'"
    using di' n
  proof (cases rule: dispatch_cases)
    case create
    then show ?thesis
    proof (elim create_repairE)
      fix task a runs
      assume en: "ensure_current_runtime_attempt e (ru_run_id run) task at_repair ''repair_recreated_current_attempt'' False (dd_runs db) = Inr (a, runs)"
        and same: "same_rows (db\<lparr>dd_runs := runs\<rparr>) db'"
      have "same_claims db (db\<lparr>dd_runs := runs\<rparr>)" using ensure_frame [OF at en] by (simp add: same_claims_def)
      then show ?thesis using same_rows_claims [OF same] same_claims_trans by blast
    qed
  next
    case (interrupt x)
    then obtain a r db1 where cl: "on_runs (close_runtime_attempt e a as_interrupted (''reconciled_'' @ problem)) db = Inr (r, db1)"
      and ev: "append_repair_event (env_from 2 e) 0 (ru_run_id run) action db1 = Inr db'"
      by (auto simp: apply_interrupt_current_attempt_def close_current_def rbind_eq_Inr split: option.splits)
    obtain runs where "close_runtime_attempt e a as_interrupted (''reconciled_'' @ problem) (dd_runs db) = Inr (r, runs)" and db1: "db1 = db\<lparr>dd_runs := runs\<rparr>"
      using on_runsD [OF cl] by blast
    then have "same_claims db db1" using close_frame by (simp add: same_claims_def)
    then show ?thesis using same_rows_claims [OF append_repair_event_same [OF ev]] same_claims_trans by blast
  qed (use a in auto)
  then show ?thesis using dispatch_removes [OF ok di' n] by simp
qed

text \<open>Where \<open>apply_run_repair\<close> may leave the store, whether it raises or not.\<close>

lemma apply_run_repair_outcome:
  assumes "apply_run_repair f h (e1, e2, e3, e4) rid action db = (db', x)"
  shows "db' = db \<or> (\<exists>run ps p db1 y. get_run rid db = Inr run \<and> inspect_run_state f e1 rid db = Inr ps \<and> select_repair_problem rid ps action = Inr p
           \<and> dispatch_repair f h e2 run (str_or (pb_repair_action p) []) (pb_problem p) db = (db1, y) \<and> same_rows db1 db')"
proof -
  note u = apply_run_repair_def [of f h "(e1, e2, e3, e4)" rid action, unfolded Let_def prod.case]
  show ?thesis
  proof (cases "\<exists>run ps p. get_run rid db = Inr run \<and> inspect_run_state f e1 rid db = Inr ps \<and> select_repair_problem rid ps action = Inr p")
    case False
    then show ?thesis using assms unfolding u by (auto simp: ebind_def reading_def split: sum.splits)
  next
    case True
    then obtain run ps p where g: "get_run rid db = Inr run" and i: "inspect_run_state f e1 rid db = Inr ps"
      and s: "select_repair_problem rid ps action = Inr p" by blast
    obtain db1 y where di: "dispatch_repair f h e2 run (str_or (pb_repair_action p) []) (pb_problem p) db = (db1, y)" by fastforce
    have "same_rows db1 db'"
    proof (cases y)
      case (Inl err)
      then have "db' = db1" using assms unfolding u by (simp add: ebind_def reading_def g i s di)
      then show ?thesis by (simp add: same_rows_def)
    next
      case (Inr ts)
      define cap where "cap = capture_run_snapshot f e3 0 rid ss_repaired (''Repair snapshot captured: '' @ str_or (pb_repair_action p) [])
                  None [(''repair_action'', JStr (str_or (pb_repair_action p) [])), (''problem'', JStr (pb_problem p))] db1"
      show ?thesis
      proof (cases cap)
        case (Inl err)
        then have "db' = db1" using assms Inr unfolding u by (simp add: ebind_def reading_def g i s di transaction_def cap_def)
        then show ?thesis by (simp add: same_rows_def)
      next
        case c: (Inr sd)
        obtain sn d where sd: "sd = (sn, d)" by (cases sd)
        have "db' = d" using assms Inr c unfolding u
          by (auto simp: ebind_def reading_def g i s di transaction_def cap_def sd eret_def split: sum.splits)
        moreover have "same_rows db1 d" by (rule capture_same, rule trans [OF cap_def [symmetric]]) (simp add: c sd)
        ultimately show ?thesis by simp
      qed
    qed
    then show ?thesis using g i s di by blast
  qed
qed

text \<open>A caller that applies the default repair over and over, whatever comes of it.\<close>

fun default_repairs :: "orchestrator \<Rightarrow> hooks \<Rightarrow> (env \<times> env \<times> env \<times> env) list \<Rightarrow> string \<Rightarrow> diag_db \<Rightarrow> diag_db" where
  "default_repairs f h [] rid db = db"
| "default_repairs f h (es # ess) rid db = default_repairs f h ess rid (fst (apply_run_repair f h es rid None db))"

lemma same_claims_tasks: "same_claims db db' \<Longrightarrow> list_runtime_tasks_for_run rid db' = list_runtime_tasks_for_run rid db"
  by (simp add: same_claims_def list_runtime_tasks_for_run_def)

lemma default_repair_step:
  assumes ok: "own_ok (dd_runs db)" and run: "run_get rid (dd_runs db) = Some run" and st: "open_status (ru_status run)"
    and ts: "list_runtime_tasks_for_run rid db \<noteq> []" and c: "c \<in> set (claim_rows rid db)" and ex: "rc_lease_expires_at c \<le> clock (fst es) 0"
  shows "same_claims db (fst (apply_run_repair f h es rid None db)) \<and> own_ok (dd_runs (fst (apply_run_repair f h es rid None db)))"
proof -
  obtain e1 e2 e3 e4 where es: "es = (e1, e2, e3, e4)" by (cases es)
  obtain db' x where ap: "apply_run_repair f h (e1, e2, e3, e4) rid None db = (db', x)" by fastforce
  have "same_claims db db' \<and> own_ok (dd_runs db')"
    using apply_run_repair_outcome [OF ap]
  proof (elim disjE exE conjE)
    assume "db' = db"
    then show ?thesis using ok by simp
  next
    fix run' ps p db1 y
    assume i: "inspect_run_state f e1 rid db = Inr ps" and s: "select_repair_problem rid ps None = Inr p"
      and di: "dispatch_repair f h e2 run' (str_or (pb_repair_action p) []) (pb_problem p) db = (db1, y)" and same: "same_rows db1 db'"
    have "pb_repair_action p \<in> {Some ''create_repair_runtime_attempt'', Some ''interrupt_current_runtime_attempt''}"
      using default_choice [OF ok i s run st ts c] ex by (simp add: es)
    then have "str_or (pb_repair_action p) [] \<in> {''create_repair_runtime_attempt'', ''interrupt_current_runtime_attempt''}"
      by (auto simp: str_or_def)
    then have "same_claims db db1 \<and> own_ok (dd_runs db1)" using dispatch_default [OF ok di] by blast
    then show ?thesis using same_rows_claims [OF same] same_rows_own_ok [OF same] same_claims_trans by blast
  qed
  then show ?thesis by (simp add: es ap)
qed

text \<open>C40: While an active claim of an open run with tasks is expired, no number of default repairs ends it: each of them
  only interrupts the current attempt or makes a new one.\<close>

theorem default_repairs_keep_expired_claim:
  assumes "own_ok (dd_runs db)" and "run_get rid (dd_runs db) = Some run" and "open_status (ru_status run)"
    and "list_runtime_tasks_for_run rid db \<noteq> []" and "c \<in> set (claim_rows rid db)"
    and "\<forall>es\<in>set ess. rc_lease_expires_at c \<le> clock (fst es) 0"
  shows "c \<in> set (claim_rows rid (default_repairs f h ess rid db))
     \<and> rd_claims (dd_runs (default_repairs f h ess rid db)) = rd_claims (dd_runs db)"
  using assms
proof (induction ess arbitrary: db)
  case (Cons es ess)
  let ?db = "fst (apply_run_repair f h es rid None db)"
  have s: "same_claims db ?db \<and> own_ok (dd_runs ?db)"
    using default_repair_step [OF Cons.prems(1-5)] Cons.prems(6) by simp
  then have "run_get rid (dd_runs ?db) = Some run" "c \<in> set (claim_rows rid ?db)" "rd_claims (dd_runs ?db) = rd_claims (dd_runs db)"
    using Cons.prems(2,5) by (simp_all add: same_claims_def run_get_def claim_rows_def)
  then show ?case
    using Cons.IH [of ?db] s Cons.prems(3,4,6) same_claims_tasks [of db ?db] by simp
qed simp

subsection \<open>A demonstration\<close>

text \<open>A run with one task, an expired claim on it, evidence, and a state that is not terminal.\<close>

definition demo_orchestrator :: orchestrator where
  "demo_orchestrator =
     \<lparr>fc_plane = demo_plane, fc_arbiter = LocalArbiter demo_cfg, fc_enabled = JBool False, fc_mode = JNull, fc_authority_mode = JNull,
      fc_node_id = JNull, fc_bind_url = JNull, fc_from_iso = (\<lambda>_. None), fc_read_int = (\<lambda>_. None)\<rparr>"

definition demo_hooks :: hooks where
  "demo_hooks = \<lparr>hk_recompile = (\<lambda>_. eret ''t''), hk_review_decision = (\<lambda>_ _. Inr []), hk_export_trace = (\<lambda>_ _. None),
                 hk_record_simulation = (\<lambda>_. eret ())\<rparr>"

definition demo_expired_claim :: runtime_claim where
  "demo_expired_claim =
     \<lparr>rc_claim_id = ''c'', rc_run_id = ''r'', rc_runtime_task_id = ''t'', rc_owner = ''o'', rc_owner_kind = ak_worker, rc_owner_id = ''o'',
      rc_domain_kind = dk_runtime_task, rc_domain_key = Some ''t'', rc_attempt_id = None, rc_status = cs_active, rc_lease_expires_at = 5,
      rc_released_at = None, rc_release_reason = None, rc_created_at = 0\<rparr>"

definition demo_diag :: "run_status \<Rightarrow> diag_db" where
  "demo_diag status =
     \<lparr>dd_sched = empty_sched_db [''r''],
      dd_runs = \<lparr>rd_runs = [\<lparr>ru_run_id = ''r'', ru_goal = ''g'', ru_preset_id = ''p'', ru_status = status, ru_updated_at = 0, ru_created_at = 0\<rparr>],
                 rd_tasks = [''t''], rd_claims = [demo_expired_claim], rd_worker_leases = [], rd_attempts = [], rd_budgets = [], rd_events = []\<rparr>,
      dd_states = [\<lparr>st_state_ref_id = ''s'', st_run_id = ''r'', st_runtime_task_id = ''t'', st_graph_step = gs_resuming,
                    st_state_payload = [], st_is_terminal = False, st_updated_at = 0, st_created_at = 0\<rparr>],
      dd_task = (\<lambda>_. \<lparr>tr_run_id = ''r'', tr_phase_id = ''f'', tr_task_card_id = ''k'', tr_task_kind = ''k'', tr_status = tk_ready, tr_created_at = 0\<rparr>),
      dd_phases = [], dd_task_cards = [], dd_handoffs = [], dd_packets = [],
      dd_evidence = [\<lparr>ev_evidence_id = ''ev'', ev_run_id = ''r'', ev_runtime_task_id = ''t'', ev_summary = [], ev_return_code = 0, ev_metadata = [], ev_created_at = 0\<rparr>], dd_verdicts = [], dd_snapshots = [],
      dd_presets = (\<lambda>_. None)\<rparr>"

definition demo_envs :: "string \<Rightarrow> env \<times> env \<times> env \<times> env" where
  "demo_envs tag = (demo_env 9 (''a'' @ tag), demo_env 9 (''b'' @ tag), demo_env 9 (''c'' @ tag), demo_env 9 (''d'' @ tag))"

definition demo_parts :: "nat \<Rightarrow> env" where
  "demo_parts k = demo_env 9 (replicate k CHR ''e'' @ ''p'')"

lemma demo_diag_ok: "own_ok (dd_runs (demo_diag status))"
  by (simp add: demo_diag_def own_ok_def claims_ok_def claims_unique_def leases_ok_def attempts_ok_def attempts_unique_def seqs_ok_def
      current_last_def run_attempts_def demo_expired_claim_def validate_runtime_claim_def)

lemma demo_keeps: "keeps_run_rows (hk_record_simulation demo_hooks rid)"
  by (simp add: keeps_run_rows_def demo_hooks_def eret_def same_rows_def)

lemma demo_run: "run_get ''r'' (dd_runs (demo_diag status)) =
    Some \<lparr>ru_run_id = ''r'', ru_goal = ''g'', ru_preset_id = ''p'', ru_status = status, ru_updated_at = 0, ru_created_at = 0\<rparr>"
  by (simp add: demo_diag_def run_get_def sql_first_def)

lemma call_valueE:
  assumes "case snd c of Inl _ \<Rightarrow> False | Inr x \<Rightarrow> P x"
  obtains db x where "c = (db, Inr x)" and "P x"
  using assms by (cases c) (auto split: sum.splits)

theorem repair_removes_problem_witness:
  "\<exists>db r. apply_run_repair demo_orchestrator demo_hooks (demo_envs []) ''r'' (Some ''expire_runtime_claim'') (demo_diag running) = (db, Inr r)
     \<and> rp_action r = ''expire_runtime_claim'' \<and> own_ok (dd_runs db)
     \<and> (\<forall>p\<in>set (rp_after r). pb_repair_action p \<noteq> Some ''expire_runtime_claim'')"
proof -
  have "case snd (apply_run_repair demo_orchestrator demo_hooks (demo_envs []) ''r'' (Some ''expire_runtime_claim'') (demo_diag running)) of
      Inr r \<Rightarrow> rp_action r = ''expire_runtime_claim'' | Inl _ \<Rightarrow> False"
    by code_simp
  then obtain db r where ap: "apply_run_repair demo_orchestrator demo_hooks (demo_envs []) ''r'' (Some ''expire_runtime_claim'') (demo_diag running) = (db, Inr r)"
    and act: "rp_action r = ''expire_runtime_claim''"
    by (rule call_valueE)
  show ?thesis using repair_removes_problem [OF demo_diag_ok ap] ap act by auto
qed

text \<open>A state records an expired lease; the lease is committed, but no decision belongs to it.\<close>

definition demo_undecided_lease :: diag_db where
  "demo_undecided_lease = (demo_diag running)\<lparr>
     dd_sched := (empty_sched_db [''r''])\<lparr>sd_leases :=
       [\<lparr>cl_committed_lease_id = ''cl'', cl_lease_id = ''l'', cl_proposal_id = ''p'', cl_decision_id = None, cl_control_plane_id = ''cp'',
         cl_run_id = ''r'', cl_runtime_task_id = ''t'', cl_domain_kind = ''runtime_task'', cl_domain_key = ''t'', cl_term_no = 0,
         cl_commit_index = 1, cl_lease_epoch = 1, cl_fencing_token = ''f'', cl_status = ''committed'', cl_lease_expires_at = 5,
         cl_released_at = None, cl_release_reason = None, cl_created_at = 0\<rparr>]\<rparr>,
     dd_states :=
       [\<lparr>st_state_ref_id = ''s'', st_run_id = ''r'', st_runtime_task_id = ''t'', st_graph_step = gs_resuming,
         st_state_payload = [(''scheduler_authority'', JObj [(''active_decision'', JObj [(''lease_id'', JStr ''l''), (''lease_expires_at'', JStr ''5'')])])],
         st_is_terminal = False, st_updated_at = 0, st_created_at = 0\<rparr>]\<rparr>"

definition demo_iso :: orchestrator where
  "demo_iso = demo_orchestrator\<lparr>fc_from_iso := (\<lambda>t. if t = ''5'' then Some 5 else None)\<rparr>"

lemma undecided_scheduler_lease_reported_again:
  "\<exists>db r. apply_run_repair demo_iso demo_hooks (demo_envs []) ''r'' (Some ''release_scheduler_lease'') demo_undecided_lease = (db, Inr r)
     \<and> rp_action r = ''release_scheduler_lease'' \<and> rp_repaired r = Some [''t'']
     \<and> (\<exists>p\<in>set (rp_after r). pb_repair_action p = Some ''release_scheduler_lease'')"
proof -
  have "case snd (apply_run_repair demo_iso demo_hooks (demo_envs []) ''r'' (Some ''release_scheduler_lease'') demo_undecided_lease) of
      Inl _ \<Rightarrow> False
    | Inr r \<Rightarrow> rp_action r = ''release_scheduler_lease'' \<and> rp_repaired r = Some [''t'']
               \<and> (\<exists>p\<in>set (rp_after r). pb_repair_action p = Some ''release_scheduler_lease'')"
    by code_simp
  then show ?thesis by (rule call_valueE) blast
qed

theorem cancel_leaves_clean_witness:
  "\<exists>db r. cancel_run demo_orchestrator demo_hooks demo_parts ''r'' (demo_diag awaiting_review) = (db, Inr r)
     \<and> ru_status r = cancelled \<and> claim_rows ''r'' (demo_diag awaiting_review) \<noteq> [] \<and> claim_rows ''r'' db = [] \<and> live_rows ''r'' db = []"
proof -
  have "case snd (cancel_run demo_orchestrator demo_hooks demo_parts ''r'' (demo_diag awaiting_review)) of Inr r \<Rightarrow> True | Inl _ \<Rightarrow> False"
    by code_simp
  then obtain db r where ca: "cancel_run demo_orchestrator demo_hooks demo_parts ''r'' (demo_diag awaiting_review) = (db, Inr r)"
    by (rule call_valueE)
  have "claim_rows ''r'' (demo_diag awaiting_review) \<noteq> []"
    by (simp add: claim_rows_def demo_diag_def demo_expired_claim_def)
  then show ?thesis using cancel_leaves_clean [OF demo_diag_ok ca _ demo_keeps] ca by (simp add: demo_run)
qed

theorem review_ends_run_witness:
  "\<exists>db run ev v. finalize_human_review demo_orchestrator demo_hooks demo_parts ''r'' rd_fail ''no'' (demo_diag awaiting_review) = (db, Inr (run, ev, v))
     \<and> ru_status run = failed \<and> rv_decision v = rd_fail \<and> dd_verdicts db = [v] \<and> claim_rows ''r'' db \<noteq> []"
proof -
  have "case snd (finalize_human_review demo_orchestrator demo_hooks demo_parts ''r'' rd_fail ''no'' (demo_diag awaiting_review)) of
      Inr r \<Rightarrow> True | Inl _ \<Rightarrow> False"
    by code_simp
  then obtain db x where "finalize_human_review demo_orchestrator demo_hooks demo_parts ''r'' rd_fail ''no'' (demo_diag awaiting_review) = (db, Inr x)"
    by (rule call_valueE)
  then obtain run ev v where fin: "finalize_human_review demo_orchestrator demo_hooks demo_parts ''r'' rd_fail ''no'' (demo_diag awaiting_review) = (db, Inr (run, ev, v))"
    by (cases x) auto
  have "claim_rows ''r'' (demo_diag awaiting_review) \<noteq> []" "dd_verdicts (demo_diag awaiting_review) = []"
    by (simp_all add: claim_rows_def demo_diag_def demo_expired_claim_def)
  then show ?thesis using review_ends_run [OF demo_diag_ok fin demo_keeps] fin by simp
qed

theorem default_repairs_keep_expired_claim_witness:
  "demo_expired_claim \<in> set (claim_rows ''r'' (default_repairs demo_orchestrator demo_hooks (map (\<lambda>k. demo_envs (replicate k CHR ''n'')) [0..<100]) ''r'' (demo_diag running)))
   \<and> (case snd (apply_run_repair demo_orchestrator demo_hooks (demo_envs []) ''r'' None (demo_diag running)) of
        Inr r \<Rightarrow> rp_action r = ''create_repair_runtime_attempt''
               \<and> Some ''expire_runtime_claim'' \<in> pb_repair_action ` set (rp_after r) | Inl _ \<Rightarrow> False)"
proof -
  have ts: "list_runtime_tasks_for_run ''r'' (demo_diag running) \<noteq> []" by code_simp
  have c: "demo_expired_claim \<in> set (claim_rows ''r'' (demo_diag running))"
    by (simp add: claim_rows_def demo_diag_def demo_expired_claim_def)
  have ex: "\<forall>es\<in>set (map (\<lambda>k. demo_envs (replicate k CHR ''n'')) [0..<100]). rc_lease_expires_at demo_expired_claim \<le> clock (fst es) 0"
    by (auto simp: demo_envs_def demo_env_def demo_expired_claim_def)
  have "case snd (apply_run_repair demo_orchestrator demo_hooks (demo_envs []) ''r'' None (demo_diag running)) of
        Inr r \<Rightarrow> rp_action r = ''create_repair_runtime_attempt''
               \<and> Some ''expire_runtime_claim'' \<in> pb_repair_action ` set (rp_after r) | Inl _ \<Rightarrow> False"
    by code_simp
  then show ?thesis
    using default_repairs_keep_expired_claim [OF demo_diag_ok demo_run _ ts c ex] by (simp add: open_status_def)
qed

end
