(* ===== verification/Local_Heartbeat.thy ===== *)
theory Local_Heartbeat
  imports Run_Repair
begin

section \<open>The heartbeat of a local worker\<close>

text \<open>
  \<open>_start_local_worker_heartbeat\<close> and \<open>_stop_local_worker_heartbeat\<close> of \<^verbatim>\<open>packages/core_domain/service_lifecycle.py\<close>: while a
  run executes on this machine, a thread renews its worker lease, its claim and whatever lease the scheduler has
  committed for its task. A heartbeat reads the committed lease in one transaction and writes in a second one; a
  heartbeat that raises writes nothing and ends the loop, as does one whose worker lease is gone. How many heartbeats
  there are before the thread is stopped is up to the caller, who gives one \<open>env\<close> per heartbeat; lease ids in a
  payload are texts.
\<close>

text \<open>\<open>type(exc).__name__\<close>.\<close>

fun error_class :: "werror \<Rightarrow> string" where
  "error_class WorkflowError = ''WorkflowError''"
| "error_class PresetRequiredError = ''PresetRequiredError''"
| "error_class (PresetNotFoundError _) = ''PresetNotFoundError''"
| "error_class (EntityNotFoundError _ _) = ''EntityNotFoundError''"
| "error_class (InvalidStateTransitionError _ _ _ _) = ''InvalidStateTransitionError''"
| "error_class (UnsupportedTaskKindError _ _) = ''UnsupportedTaskKindError''"
| "error_class (CapabilityAdapterNotFoundError _ _ _) = ''CapabilityAdapterNotFoundError''"
| "error_class (WorkerAdapterUnavailableError _ _) = ''WorkerAdapterUnavailableError''"
| "error_class (TaskKindNotAllowedError _ _ _) = ''TaskKindNotAllowedError''"
| "error_class (ExecutionLaneNotAllowedError _ _ _) = ''ExecutionLaneNotAllowedError''"
| "error_class (UnsupportedRepairActionError _ _) = ''UnsupportedRepairActionError''"
| "error_class (RepairActionNotAvailableError _ _ _) = ''RepairActionNotAvailableError''"
| "error_class (RuntimeClaimConflictError _ _ _) = ''RuntimeClaimConflictError''"
| "error_class (ParallelBarrierBrokenError _ _) = ''ParallelBarrierBrokenError''"
| "error_class (BudgetExhaustedError _ _ _) = ''BudgetExhaustedError''"
| "error_class (MutationContractError _) = ''MutationContractError''"
| "error_class (RepoMutationScopeError _) = ''RepoMutationScopeError''"
| "error_class (PatchApplyError _) = ''PatchApplyError''"
| "error_class (OperatorActionReceiptError _) = ''OperatorActionReceiptError''"
| "error_class (CapabilityPolicyEnforcementError _) = ''CapabilityPolicyEnforcementError''"
| "error_class (SchedulerArbitrationError _) = ''SchedulerArbitrationError''"
| "error_class (RuntimeGatewayConfigurationError _) = ''RuntimeGatewayConfigurationError''"
| "error_class (RuntimeGatewayExecutionError _) = ''RuntimeGatewayExecutionError''"
| "error_class (DatabaseBusyError _ _) = ''DatabaseBusyError''"
| "error_class (ValidationError _) = ''ValidationError''"
| "error_class (ValueError _) = ''ValueError''"
| "error_class (OSError _) = ''OSError''"
| "error_class (KeyError _) = ''KeyError''"
| "error_class (TypeError _) = ''TypeError''"
| "error_class AssertionError = ''AssertionError''"
| "error_class (IntegrityError _) = ''IntegrityError''"

definition heartbeat_callback_id :: "worker_lease \<Rightarrow> nat \<Rightarrow> string" where
  "heartbeat_callback_id l n = ''localhb_'' @ wl_lease_id l @ ''_'' @ show_nat n"

text \<open>The seven keys a renewal takes from the committed lease.\<close>

definition renewal_authority :: "committed_lease option \<Rightarrow> jdict" where
  "renewal_authority c =
     [(''control_plane_id'', opt_json (\<lambda>l. JStr (cl_control_plane_id l)) c),
      (''committed_lease_id'', opt_json (\<lambda>l. JStr (cl_committed_lease_id l)) c),
      (''fencing_token'', opt_json (\<lambda>l. JStr (cl_fencing_token l)) c),
      (''term_no'', opt_json (\<lambda>l. JNum (cl_term_no l)) c), (''authority_term_no'', opt_json (\<lambda>l. JNum (cl_term_no l)) c),
      (''commit_index'', opt_json (\<lambda>l. JNum (cl_commit_index l)) c), (''decision_index'', opt_json (\<lambda>l. JNum (cl_commit_index l)) c)]"

definition local_renewal :: "callback_plane \<Rightarrow> string \<Rightarrow> worker_lease \<Rightarrow> string \<Rightarrow> time \<Rightarrow> time \<Rightarrow> committed_lease option \<Rightarrow> jdict" where
  "local_renewal p rid l cid at expires c =
     [(''renewal_id'', JStr rid), (''run_id'', JStr (wl_run_id l)), (''runtime_task_id'', JStr (wl_runtime_task_id l)),
      (''worker_pool_id'', JStr ''local_worker''), (''lease_id'', JStr (wl_lease_id l)), (''status'', JStr ''renewed''),
      (''renewed_at'', JStr (pl_json_time p at)), (''lease_expires_at'', JStr (pl_json_time p expires)),
      (''callback_id'', JStr cid), (''heartbeat_at'', JStr (pl_json_time p at)), (''source'', JStr ''local_worker_heartbeat'')]
     @ renewal_authority c"

subsection \<open>What a heartbeat writes\<close>

definition renew_claim :: "worker_lease \<Rightarrow> time \<Rightarrow> run_db \<Rightarrow> run_db" where
  "renew_claim l expires db =
     (if truthy (wl_claim_id l)
      then db\<lparr>rd_claims := sql_update (\<lambda>c. Some (rc_claim_id c) = wl_claim_id l \<and> rc_status c = cs_active)
                (\<lambda>c. c\<lparr>rc_lease_expires_at := expires\<rparr>) (rd_claims db)\<rparr>
      else db)"

text \<open>The statements select by task: whoever holds the lease of the task has it renewed.\<close>

definition renew_scheduler_rows :: "string \<Rightarrow> time \<Rightarrow> sched_db \<Rightarrow> sched_db" where
  "renew_scheduler_rows task expires db =
     db\<lparr>sd_decisions := sql_update (\<lambda>d. de_runtime_task_id d = task \<and> de_decision d = ''granted'' \<and> de_released_at d = None)
            (\<lambda>d. d\<lparr>de_lease_expires_at := expires\<rparr>) (sd_decisions db),
        sd_leases := sql_update (\<lambda>c. cl_runtime_task_id c = task \<and> cl_status c = ''active'')
            (\<lambda>c. c\<lparr>cl_lease_expires_at := expires\<rparr>) (sd_leases db)\<rparr>"

text \<open>\<open>lease_expires_at\<close> of an entry that is a dictionary.\<close>

definition put_expiry :: "json \<Rightarrow> string \<Rightarrow> jdict \<Rightarrow> jdict" where
  "put_expiry expires k d = (case dget k d of JObj v \<Rightarrow> dput k (JObj (dput ''lease_expires_at'' expires v)) d | _ \<Rightarrow> d)"

definition renewed_authority :: "json \<Rightarrow> jdict \<Rightarrow> jdict" where
  "renewed_authority expires d =
     (let d1 = put_expiry expires ''active_committed_lease'' (put_expiry expires ''active_decision'' (put_expiry expires ''latest_decision'' d));
          latest = (case dget ''latest_decision'' d1 of JObj v \<Rightarrow> dget ''lease_id'' v | _ \<Rightarrow> JNull)
      in case dget ''decision_history'' d1 of
           JList xs \<Rightarrow>
             dput ''decision_history''
               (JList (map (\<lambda>x. case x of
                              JObj v \<Rightarrow> if dget ''lease_id'' v = latest then JObj (dput ''lease_expires_at'' expires v) else x
                            | _ \<Rightarrow> x) xs)) d1
         | _ \<Rightarrow> d1)"

definition heartbeat_payload ::
  "callback_plane \<Rightarrow> worker_lease \<Rightarrow> string \<Rightarrow> time \<Rightarrow> time \<Rightarrow> committed_lease option \<Rightarrow> json list \<Rightarrow> jdict \<Rightarrow> jdict" where
  "heartbeat_payload p l cid at expires c renewals payload =
     (let expiry = JStr (pl_isoformat p expires)
      in [(''lease_renewals'', JList (last_20 renewals)),
          (''local_worker_heartbeat'', JObj
             [(''lease_id'', JStr (wl_lease_id l)), (''worker_pool_id'', JStr ''local_worker''), (''callback_id'', JStr cid),
              (''heartbeat_at'', JStr (pl_isoformat p at)), (''lease_expires_at'', expiry)])]
         @ (case dget ''scheduler_authority'' payload of JObj d \<Rightarrow> [(''scheduler_authority'', JObj (renewed_authority expiry d))] | _ \<Rightarrow> [])
         @ (case dget ''arbitration_provenance'' payload of
              JObj d \<Rightarrow> [(''arbitration_provenance'', JObj (dput ''lease_expires_at'' expiry d))] | _ \<Rightarrow> [])
         @ (case c of None \<Rightarrow> [] | Some x \<Rightarrow> [(''committed_scheduler_lease'', committed_lease_json p x)]))"

text \<open>The transaction; \<open>False\<close> when the worker lease has no row.\<close>

definition heartbeat_transaction ::
  "orchestrator \<Rightarrow> env \<Rightarrow> worker_lease \<Rightarrow> string \<Rightarrow> jdict \<Rightarrow> time \<Rightarrow> time \<Rightarrow> committed_lease option \<Rightarrow> diag_db
   \<Rightarrow> werror + bool \<times> diag_db" where
  "heartbeat_transaction f e l cid renewal at expires c db =
     rbind (worker_lease_touch (wl_lease_id l) at expires (dd_runs db)) (\<lambda>(touched, runs).
       if touched = None then Inr (False, db\<lparr>dd_runs := runs\<rparr>)
       else
         let db1 = db\<lparr>dd_runs := renew_claim l expires runs, dd_sched := renew_scheduler_rows (wl_runtime_task_id l) expires (dd_sched db)\<rparr>
         in rbind (state_get_by_task (wl_runtime_task_id l) (dd_states db1)) (\<lambda>found.
            rbind (case found of
                     None \<Rightarrow> Inr db1
                   | Some s \<Rightarrow>
                       rbind (rmap (\<lambda>r. hashed (dict_get ''callback_id'' r)) (lease_renewals_for s)) (\<lambda>seen.
                       rbind (state_with_payload_updates s
                                (heartbeat_payload (fc_plane f) l cid at expires c
                                   (lease_renewals_for s @ (if JStr cid \<in> set seen then [] else [JObj renewal])) (st_state_payload s))) (\<lambda>s1.
                         upsert_state s1 db1))) (\<lambda>db2.
            rbind (append_event e 2 (wl_run_id l) ''worker_heartbeat_received'' ''worker_lease'' (wl_lease_id l)
                     ''Local worker heartbeat received'' db2) (\<lambda>db3. Inr (True, db3)))))"

text \<open>\<open>_record_heartbeat\<close>: whether to go on, and the renewal it notes.\<close>

definition record_local_heartbeat ::
  "orchestrator \<Rightarrow> env \<Rightarrow> worker_lease \<Rightarrow> nat \<Rightarrow> diag_db \<Rightarrow> diag_db \<times> bool \<times> jdict option" where
  "record_local_heartbeat f e l n db =
     (let at = clock e 0; expires = at + seconds worker_lease_seconds; cid = heartbeat_callback_id l n;
          c = active_committed_lease_for_domain ''runtime_task'' (wl_runtime_task_id l) (clock e 1) (dd_sched db);
          renewal = local_renewal (fc_plane f) (new_id ''renewal'' (hex12 e 1)) l cid at expires c
      in case heartbeat_transaction f e l cid renewal at expires c db of
           Inr (True, db') \<Rightarrow> (db', True, Some renewal)
         | Inr (False, db') \<Rightarrow> (db', False, None)
         | Inl err \<Rightarrow>
             (db, False, Some (dict_merge renewal
                [(''status'', JStr ''heartbeat_failed''), (''failure_class'', JStr (error_class err)), (''failure_message'', JStr [])])))"

text \<open>The loop of the thread; \<open>n\<close> is the sequence number and \<open>renewals\<close> the list the thread shares with its starter.\<close>

fun local_heartbeats :: "orchestrator \<Rightarrow> worker_lease \<Rightarrow> nat \<Rightarrow> env list \<Rightarrow> json list \<Rightarrow> diag_db \<Rightarrow> diag_db \<times> json list" where
  "local_heartbeats f l n [] renewals db = (db, renewals)"
| "local_heartbeats f l n (e # es) renewals db =
     (case record_local_heartbeat f e l n db of
        (db', go_on, renewal) \<Rightarrow>
          let renewals' = (case renewal of None \<Rightarrow> renewals | Some r \<Rightarrow> last_20 (renewals @ [JObj r]))
          in if go_on then local_heartbeats f l (Suc n) es renewals' db' else (db', renewals'))"

end
