(* ===== verification/Run_Resume.thy ===== *)
theory Run_Resume
  imports Local_Heartbeat
begin

section \<open>Resuming a run\<close>

text \<open>
  \<open>resume_run\<close> of \<^verbatim>\<open>packages/core_domain/service_lifecycle.py\<close>, with the review of the evidence
  (\<^verbatim>\<open>auto_review.py\<close>), its summary (\<^verbatim>\<open>evidence_builder.py\<close>) and the policy of capabilities
  (\<open>evaluate_capability_policy\<close> of \<^verbatim>\<open>capability_control_plane.py\<close>).

  The method is one unit of work in three parts: the dispatch (\<open>dispatch_run\<close>) up to the acquisition of the worker
  lease, the execution (\<open>perform\<close>), before which the connection commits unless a loopback pool does the work, and the
  end (\<open>finish_run\<close>), which files the evidence and ends the run or asks for a review. What runs the packet, the
  gateway, the adapters and the pools belong to other components and are fields of the record \<open>executor\<close>. Row values that are
  only shown (outputs, artifacts and checks of the evidence, the receipt of a capability) are left out.
\<close>

subsection \<open>What the run is executed by\<close>

record envelope =
  en_dump :: jdict \<comment> \<open>\<open>model_dump(mode="json")\<close>\<close>
  en_mutation_mode :: "string option"
  en_write_set :: "string list"
  en_operator_receipt_id :: "string option"
  en_live_required :: bool

record worker_pool =
  wk_pool_id :: string
  wk_name :: string
  wk_remote :: bool \<comment> \<open>\<open>dispatch_mode == "remote_http"\<close>\<close>

record execution =
  xr_return_code :: int
  xr_duration_ms :: int
  xr_artifact_paths :: "string list"
  xr_adapter_name :: string
  xr_metadata :: jdict

record executor =
  ex_gateway_resume :: "packet_row \<Rightarrow> state_ref \<Rightarrow> werror + state_ref"
  ex_checkpoint :: "jdict \<Rightarrow> string \<Rightarrow> werror + jdict" \<comment> \<open>\<open>durable_runtime_pilot.checkpoint\<close>\<close>
  ex_handoff_sources :: "diag_db \<Rightarrow> string \<Rightarrow> string \<Rightarrow> handoff_sources"
  ex_db_path :: string
  ex_validate_envelope :: "jdict \<Rightarrow> werror + envelope" \<comment> \<open>\<open>CapabilityInvocationEnvelope.model_validate\<close>\<close>
  ex_live_proof :: "envelope \<Rightarrow> bool" \<comment> \<open>the last probe of its provider is verified\<close>
  ex_enforcement :: bool \<comment> \<open>the flag \<open>capability_enforcement_pilot\<close>\<close>
  ex_route :: "packet_row \<Rightarrow> werror + string" \<comment> \<open>the class of the adapter\<close>
  ex_pool :: "string option \<Rightarrow> worker_pool option"
  ex_has_plan :: "string \<Rightarrow> string \<Rightarrow> string list option \<Rightarrow> werror + bool" \<comment> \<open>\<open>_default_orchestration_plan_for_preset\<close>\<close>
  ex_orchestrate :: "packet_row \<Rightarrow> (diag_db, execution) call"
  ex_dispatch_remote :: "packet_row \<Rightarrow> worker_pool \<Rightarrow> string \<Rightarrow> jdict option \<Rightarrow> (diag_db, execution) call"
  ex_dispatch_loopback :: "packet_row \<Rightarrow> worker_pool \<Rightarrow> string \<Rightarrow> jdict option \<Rightarrow> werror + execution"
  ex_mutate :: "string \<Rightarrow> packet_row \<Rightarrow> werror + execution" \<comment> \<open>\<open>_execute_repo_mutation\<close> of the adapter\<close>
  ex_heartbeats :: "worker_lease \<Rightarrow> env list" \<comment> \<open>the heartbeats before the thread is stopped\<close>
  ex_read_artifact :: "string \<Rightarrow> werror + unit"
  ex_receipt :: "state_ref \<Rightarrow> execution \<Rightarrow> werror + jdict option"
     \<comment> \<open>\<open>_capability_execution_receipt_for_result\<close> and its row in a table of its own\<close>

text \<open>The gateway that calls no model (\<open>NullRuntimeGateway\<close> of \<^verbatim>\<open>packages/runtime_langgraph/gateway.py\<close>).\<close>

definition null_gateway_start :: "env \<Rightarrow> string \<Rightarrow> string \<Rightarrow> state_ref" where
  "null_gateway_start e rid task =
     \<lparr>st_state_ref_id = new_id ''state'' (hex12 e 0), st_run_id = rid, st_runtime_task_id = task, st_graph_step = gs_compiled,
      st_state_payload = [(''entrypoint'', JStr ''resume''), (''runtime_gateway_provider'', JStr ''null''), (''llm_enabled'', JBool False)],
      st_is_terminal = False, st_updated_at = clock e 0, st_created_at = clock e 1\<rparr>"

definition null_gateway_resume :: "env \<Rightarrow> state_ref \<Rightarrow> werror + state_ref" where
  "null_gateway_resume e s =
     validate_state_ref
       (s\<lparr>st_graph_step := gs_resuming,
          st_state_payload := dict_merge (st_state_payload s)
            [(''resumed_from'', JStr (graph_step_name (st_graph_step s))), (''runtime_gateway_provider'', JStr ''null''), (''llm_enabled'', JBool False)],
          st_updated_at := clock e 0\<rparr>)"

subsection \<open>Capability policy\<close>

record policy_decision =
  po_decision :: string
  po_receipt_status :: string
  po_reasons :: "string list"

definition evaluate_capability_policy ::
  "string option \<Rightarrow> string list \<Rightarrow> string option \<Rightarrow> bool \<Rightarrow> bool \<Rightarrow> policy_decision" where
  "evaluate_capability_policy mode write_set receipt verified require_live =
     (let patch = (mode = Some ''patch_apply''); no_writes = (patch \<and> write_set = []); unproved = (require_live \<and> \<not> verified);
          d1 = (if no_writes then ''blocked'' else ''allowed'');
          d2 = (if unproved \<and> d1 \<noteq> ''blocked'' then ''needs_live_probe'' else d1);
          base = (if no_writes then [''patch_apply_requires_write_set''] else []) @ (if unproved then [''provider_live_proof_missing''] else [])
      in if str_or receipt [] \<noteq> [] then \<lparr>po_decision = d2, po_receipt_status = ''present'', po_reasons = base\<rparr>
         else if patch
         then \<lparr>po_decision = (if d2 = ''allowed'' then ''needs_receipt'' else d2), po_receipt_status = ''missing_for_mutation'',
                po_reasons = base @ [''operator_receipt_not_attached_to_invocation'']\<rparr>
         else \<lparr>po_decision = d2, po_receipt_status = ''not_required'', po_reasons = base\<rparr>)"

definition envelope_from_state :: "executor \<Rightarrow> state_ref \<Rightarrow> werror + envelope option" where
  "envelope_from_state x s =
     (case dget ''capability_invocation_envelope'' (st_state_payload s) of
        JObj d \<Rightarrow> rbind (ex_validate_envelope x d) (\<lambda>en. Inr (Some en))
      | _ \<Rightarrow> Inr None)"

definition packet_patches :: "packet_row \<Rightarrow> bool" where
  "packet_patches p = (case pk_contract p of None \<Rightarrow> False | Some c \<Rightarrow> pc_patch_apply c)"

definition is_direct_task_card_patch_packet :: "packet_row \<Rightarrow> bool" where
  "is_direct_task_card_patch_packet p =
     (case pk_contract p of
        None \<Rightarrow> False
      | Some c \<Rightarrow> pc_patch_apply c \<and> (str_or (pc_task_card_ref c) [] \<noteq> [] \<or> str_or (pc_task_card_path c) [] \<noteq> []))"

definition capability_gate :: "executor \<Rightarrow> packet_row \<Rightarrow> envelope option \<Rightarrow> werror + unit" where
  "capability_gate x p envelope =
     (case envelope of
        None \<Rightarrow> Inr ()
      | Some en \<Rightarrow>
          if packet_patches p \<and> (ex_enforcement x \<or> str_or (en_operator_receipt_id en) [] = [])
          then rguard (po_decision (evaluate_capability_policy (en_mutation_mode en) (en_write_set en) (en_operator_receipt_id en)
                                      (ex_live_proof x en) (en_live_required en)) = ''allowed'')
                 (CapabilityPolicyEnforcementError ''capability policy denied repo mutation execution'')
          else Inr ())"

text \<open>The operator's receipt goes into an envelope that has none.\<close>

definition attach_receipt :: "string option \<Rightarrow> envelope \<Rightarrow> envelope option" where
  "attach_receipt receipt en =
     (if str_or receipt [] \<noteq> [] \<and> str_or (en_operator_receipt_id en) [] = []
      then Some (en\<lparr>en_operator_receipt_id := receipt, en_dump := dput ''operator_receipt_id'' (JStr (str_or receipt [])) (en_dump en)\<rparr>)
      else None)"

subsection \<open>Dumps of a submission\<close>

definition proposal_json :: "callback_plane \<Rightarrow> lease_proposal \<Rightarrow> json" where
  "proposal_json p r =
     JObj [(''schema_version'', JStr ''v1''), (''created_at'', JStr (pl_json_time p (pr_created_at r))),
           (''proposal_id'', JStr (pr_proposal_id r)), (''control_plane_id'', JStr (pr_control_plane_id r)), (''run_id'', JStr (pr_run_id r)),
           (''runtime_task_id'', JStr (pr_runtime_task_id r)), (''domain_kind'', JStr (pr_domain_kind r)),
           (''domain_key'', JStr (pr_domain_key r)), (''requested_lease_seconds'', JNum (pr_requested_lease_seconds r)),
           (''requested_epoch'', JNum (pr_requested_epoch r)), (''status'', JStr (pr_status r))]"

definition vote_json :: "callback_plane \<Rightarrow> vote_record \<Rightarrow> json" where
  "vote_json p v =
     JObj [(''schema_version'', JStr ''v1''), (''created_at'', JStr (pl_json_time p (vt_created_at v))), (''vote_id'', JStr (vt_vote_id v)),
           (''proposal_id'', JStr (vt_proposal_id v)), (''term_no'', JNum (vt_term_no v)), (''voter_node_id'', JStr (vt_voter_node_id v)),
           (''vote'', JStr (vt_vote v)), (''reason'', JStr (vt_reason v))]"

definition term_json :: "callback_plane \<Rightarrow> term_payload \<Rightarrow> jdict" where
  "term_json p tp =
     (let t = tp_term tp
      in [(''schema_version'', JStr ''v1''), (''created_at'', JStr (pl_json_time p (tm_created_at t))), (''term_id'', JStr (tm_term_id t)),
          (''term_no'', JNum (tm_term_no t)), (''leader_node_id'', JStr (tm_leader_node_id t)), (''quorum_size'', JNum (tm_quorum_size t)),
          (''commit_index'', JNum (tm_commit_index t)), (''status'', JStr (tm_status t)),
          (''started_at'', JStr (pl_json_time p (tm_started_at t))), (''last_heartbeat_at'', JStr (pl_json_time p (tm_last_heartbeat_at t))),
          (''closed_at'', opt_json (\<lambda>x. JStr (pl_json_time p x)) (tm_closed_at t)), (''close_reason'', opt_json JStr (tm_close_reason t)),
          (''authority_node_id'', JStr (tp_authority_node_id tp)), (''authority_term_no'', JNum (tp_authority_term_no tp)),
          (''decision_index'', JNum (tp_decision_index tp))])"

definition handoff_json :: "callback_plane \<Rightarrow> handoff_envelope \<Rightarrow> json" where
  "handoff_json p h =
     JObj [(''schema_version'', JStr ''v1''), (''created_at'', JStr (pl_json_time p (ho_created_at h))),
           (''envelope_id'', JStr (ho_envelope_id h)), (''run_id'', JStr (ho_run_id h)), (''runtime_task_id'', JStr (ho_runtime_task_id h)),
           (''from_control_plane_id'', JStr (ho_from_control_plane_id h)), (''to_control_plane_id'', JStr (ho_to_control_plane_id h)),
           (''committed_lease_id'', JStr (ho_committed_lease_id h)), (''term_no'', JNum (ho_term_no h)),
           (''commit_index'', JNum (ho_commit_index h)), (''snapshot_payload'', JObj (ho_snapshot_payload h)),
           (''review_state'', JObj (ho_review_state h)), (''durable_refs'', JObj (ho_durable_refs h)),
           (''replay_excerpt'', JObj (ho_replay_excerpt h))]"

definition conflict_json :: "callback_plane \<Rightarrow> lease_conflict \<Rightarrow> json" where
  "conflict_json p c =
     JObj [(''problem'', JStr (lc_problem c)), (''control_plane_id'', JStr (lc_control_plane_id c)),
           (''active_control_plane_id'', JStr (lc_active_control_plane_id c)), (''committed_lease_id'', JStr (lc_committed_lease_id c)),
           (''lease_id'', JStr (lc_lease_id c)), (''fencing_token'', JStr (lc_fencing_token c)), (''term_no'', JNum (lc_term_no c)),
           (''authority_term_no'', JNum (lc_authority_term_no c)), (''commit_index'', JNum (lc_commit_index c)),
           (''decision_index'', JNum (lc_decision_index c)), (''lease_epoch'', JNum (lc_lease_epoch c)),
           (''lease_expires_at'', JStr (pl_isoformat p (lc_lease_expires_at c)))]"

definition submission_arbitration :: "callback_plane \<Rightarrow> submit_result \<Rightarrow> handoff_envelope option \<Rightarrow> arbitration" where
  "submission_arbitration p r h =
     \<lparr>ar_proposal = map_option (proposal_json p) (sr_proposal r), ar_decision = sr_decision r,
      ar_committed_lease = opt_json (\<lambda>l. committed_lease_json p (lp_lease l)) (sr_committed_lease r), ar_term = Some (term_json p (sr_term r)),
      ar_votes = map (vote_json p) (sr_votes r), ar_handoff = opt_json (handoff_json p) h, ar_heartbeat = None,
      ar_cluster = Some (cluster_json p (sr_cluster r)), ar_conflict = map_option (conflict_json p) (sr_conflict r)\<rparr>"

subsection \<open>Dispatch\<close>

definition resumed_state :: "orchestrator \<Rightarrow> executor \<Rightarrow> packet_row \<Rightarrow> state_ref \<Rightarrow> werror + state_ref" where
  "resumed_state f x p s =
     rbind (ex_gateway_resume x p s) (\<lambda>s1.
       let refs = durable_refs_for_state (Some s1)
       in if refs = [] then state_ref_with_durable_transition f s1 ''resume'' None [(''phase'', JStr ''resume'')]
          else rbind (ex_checkpoint x refs ''resume'') (\<lambda>refs'.
               rbind (state_with_payload_updates s1 refs') (\<lambda>s2.
                 state_ref_with_durable_transition f s2 ''resume'' (if refs' = [] then None else Some refs') [(''phase'', JStr ''resume'')])))"

text \<open>The environment of the packet that is executed.\<close>

definition execution_env :: "executor \<Rightarrow> packet_row \<Rightarrow> state_ref \<Rightarrow> string option \<Rightarrow> (string \<times> string) list" where
  "execution_env x p s receipt =
     (let payload = st_state_payload s;
          brief = filter (\<lambda>(_, v). json_truthy v)
            [(''WORKFLOW_RUNTIME_GATEWAY_PROVIDER'', dget ''runtime_gateway_provider'' payload),
             (''WORKFLOW_RUNTIME_GATEWAY_MODEL'', dget ''llm_model'' payload),
             (''WORKFLOW_RUNTIME_REASONING_EFFORT'', dget ''llm_reasoning_effort'' payload),
             (''WORKFLOW_LLM_MODEL'', dget ''llm_model'' payload), (''WORKFLOW_RUNTIME_BRIEF'', dget ''runtime_brief'' payload)]
      in foldl (\<lambda>d (k, v). AList.update k v d) (pk_env p)
           ((''WORKFLOW_DB_PATH'', ex_db_path x) # map (\<lambda>(k, v). (k, py_str v)) brief
            @ (if str_or receipt [] \<noteq> [] then [(''WORKFLOW_OPERATOR_RECEIPT_ID'', str_or receipt [])] else [])))"

definition adapter_name_of :: "string \<Rightarrow> string" where
  "adapter_name_of cls = lower (replace_all ''Adapter'' [] cls)"

definition worker_identity :: "string \<Rightarrow> string" where
  "worker_identity adapter =
     ''worker_'' @ replace_all '' '' ''_'' (lower (py_strip (if adapter = [] then ''worker'' else adapter))) @ ''_local''"

record dispatched =
  ds_run :: run_row
  ds_preset :: preset_row
  ds_task :: string
  ds_packet :: packet_row
  ds_state :: state_ref
  ds_budget :: budget_ledger
  ds_scheduler_lease :: "string option"
  ds_context :: "jdict option"
  ds_adapter :: string
  ds_pool :: "worker_pool option"
  ds_worker_lease :: worker_lease

text \<open>Attempt, scheduler lease and claim.\<close>

definition own_dispatch ::
  "orchestrator \<Rightarrow> executor \<Rightarrow> (nat \<Rightarrow> env) \<Rightarrow> run_row \<Rightarrow> preset_row \<Rightarrow> string \<Rightarrow> diag_db
   \<Rightarrow> werror + (budget_ledger \<times> runtime_attempt \<times> runtime_claim \<times> submit_result \<times> handoff_envelope option) \<times> diag_db" where
  "own_dispatch f x es run preset task db =
     (let rid = ru_run_id run
      in rbind (on_runs (ensure_budget_ledger (es 0) rid (ru_preset_id run) (pre_max_retries preset) (pre_timeout_seconds preset) 1) db) (\<lambda>(budget, db1).
         rbind (on_runs (ensure_current_runtime_attempt (es 1) rid task at_resume ''resume'' True) db1) (\<lambda>(attempt, db2).
         rbind (ensure_committed_scheduler_lease (fc_arbiter f) (local_control_plane f) (es 2) (es 3) rid task
                  (ex_handoff_sources x db2 rid task) (dd_sched db2)) (\<lambda>((res, h), sched).
         rbind (on_runs (acquire_runtime_claim (es 4) rid task ''local_orchestrator'' ak_control_plane ''control_plane_local'' dk_runtime_task None
                  (Some (ra_attempt_id attempt))) (db2\<lparr>dd_sched := sched\<rparr>)) (\<lambda>(claim, db3).
           Inr ((budget, attempt, claim, res, h), db3))))))"

text \<open>The state, the status and the events of the resumed run; the capability envelope with the operator's receipt.\<close>

definition mark_resumed ::
  "executor \<Rightarrow> (nat \<Rightarrow> env) \<Rightarrow> run_row \<Rightarrow> string \<Rightarrow> string option \<Rightarrow> state_ref \<Rightarrow> diag_db
   \<Rightarrow> werror + (state_ref \<times> envelope option) \<times> diag_db" where
  "mark_resumed x es run task receipt s db =
     (let rid = ru_run_id run
      in rbind (upsert_state s db) (\<lambda>db1.
         rbind (on_runs (transition_run_status (es 5) run ''resume'' running) db1) (\<lambda>(_, db2).
         rbind (append_event (es 6) 0 rid ''runtime_resumed'' ''runtime_state_ref'' (st_state_ref_id s) ''Runtime resumed''
                  (update_runtime_task_status task tk_running db2)) (\<lambda>db3.
         rbind (append_event (es 6) 1 rid ''runtime_task_started'' ''runtime_task'' task ''Runtime task started'' db3) (\<lambda>db4.
         rbind (envelope_from_state x s) (\<lambda>envelope.
           case (case envelope of None \<Rightarrow> None | Some en \<Rightarrow> attach_receipt receipt en) of
             None \<Rightarrow> Inr ((s, envelope), db4)
           | Some en \<Rightarrow>
               rbind (state_with_payload_updates s [(''capability_invocation_envelope'', JObj (en_dump en))]) (\<lambda>s1.
               rbind (upsert_state s1 db4) (\<lambda>db5. Inr ((s1, Some en), db5)))))))))"

definition dispatch_run ::
  "orchestrator \<Rightarrow> executor \<Rightarrow> (nat \<Rightarrow> env) \<Rightarrow> run_row \<Rightarrow> preset_row \<Rightarrow> string \<Rightarrow> packet_row \<Rightarrow> string option \<Rightarrow> diag_db
   \<Rightarrow> werror + dispatched \<times> diag_db" where
  "dispatch_run f x es run preset task packet receipt db =
     (let rid = ru_run_id run
      in rbind (state_get_by_task task (dd_states db)) (\<lambda>stored.
         case stored of
           None \<Rightarrow> Inl (EntityNotFoundError ''runtime_state_ref'' task)
         | Some s \<Rightarrow>
             rbind (own_dispatch f x es run preset task db) (\<lambda>((budget, attempt, claim, res, h), db1).
             rbind (state_with_payload_updates s
                      (arbitration_updates f (Some s) (local_control_plane f) (submission_arbitration (fc_plane f) res h))) (\<lambda>s1.
             rbind (resumed_state f x packet s1) (\<lambda>s2.
             rbind (mark_resumed x es run task receipt s2 db1) (\<lambda>((s3, envelope), db2).
             let packet' = packet\<lparr>pk_env := execution_env x packet s2 receipt\<rparr>
             in rbind (capability_gate x packet' envelope) (\<lambda>_.
                rbind (ex_route x packet') (\<lambda>cls.
                let adapter = adapter_name_of cls;
                    pool = ex_pool x (case map_of (pk_env packet') ''WORKFLOW_WORKER_POOL_ID'' of Some (c # cs) \<Rightarrow> Some (c # cs) | _ \<Rightarrow> None)
                in rbind (on_runs (acquire_worker_lease (es 7) rid task adapter
                             (case pool of None \<Rightarrow> ''local_worker'' | Some k \<Rightarrow> if wk_name k = [] then ''local_worker'' else wk_name k) ak_worker
                             (case pool of None \<Rightarrow> worker_identity adapter | Some k \<Rightarrow> ''pool_'' @ wk_pool_id k) dk_runtime_task None
                             (Some (rc_claim_id claim)) (Some (ra_attempt_id attempt))) db2) (\<lambda>(lease, db3).
                   Inr (\<lparr>ds_run = run, ds_preset = preset, ds_task = task, ds_packet = packet', ds_state = s3, ds_budget = budget,
                         ds_scheduler_lease = map_option de_lease_id (sr_decision res),
                         ds_context = scheduler_context_for_dispatch
                           (opt_json (\<lambda>l. committed_lease_json (fc_plane f) (lp_lease l)) (sr_committed_lease res)),
                         ds_adapter = adapter, ds_pool = pool, ds_worker_lease = lease\<rparr>, db3))))))))))"

subsection \<open>Execution\<close>

definition failed_execution :: "string \<Rightarrow> werror \<Rightarrow> execution" where
  "failed_execution adapter err =
     \<lparr>xr_return_code = 1, xr_duration_ms = 0, xr_artifact_paths = [], xr_adapter_name = adapter,
      xr_metadata = [(''failure_stage'', JStr ''worker_adapter_execution''), (''exception_type'', JStr (error_class err))]\<rparr>"

text \<open>A local worker: its heartbeats come and go while the adapter runs.\<close>

definition with_heartbeats :: "orchestrator \<Rightarrow> executor \<Rightarrow> dispatched \<Rightarrow> diag_db \<Rightarrow> diag_db \<times> json list" where
  "with_heartbeats f x d db = local_heartbeats f (ds_worker_lease d) 0 (ex_heartbeats x (ds_worker_lease d)) [] db"

text \<open>A pool: the dispatch, what its callbacks left in the state row, and the event.\<close>

definition accept_dispatch :: "(nat \<Rightarrow> env) \<Rightarrow> dispatched \<Rightarrow> worker_pool \<Rightarrow> execution \<Rightarrow> (diag_db, execution) work" where
  "accept_dispatch es d k r =
     ebind (inside (\<lambda>db. rbind (if wk_remote k then state_get_by_task (ds_task d) (dd_states db) else Inr None) (\<lambda>_. Inr ((), db)))) (\<lambda>_.
     ebind (inside (\<lambda>db. rbind (append_event (es 8) 2 (ru_run_id (ds_run d)) ''worker_dispatch_accepted'' ''worker_lease''
                                (wl_lease_id (ds_worker_lease d)) ''Worker dispatch accepted'' db) (\<lambda>db'. Inr ((), db')))) (\<lambda>_. eret r))"

definition dispatch_to_pool :: "executor \<Rightarrow> (nat \<Rightarrow> env) \<Rightarrow> dispatched \<Rightarrow> worker_pool \<Rightarrow> (diag_db, execution) work" where
  "dispatch_to_pool x es d k =
     (let lease = wl_lease_id (ds_worker_lease d)
      in if packet_patches (ds_packet d)
         then (\<lambda>cw. (cw, Inl (MutationContractError ''repo mutation tasks must run against the local workspace and cannot be dispatched to worker pools'')))
         else if wk_remote k
         then ebind commit (\<lambda>_. ebind (outside (ex_dispatch_remote x (ds_packet d) k lease (ds_context d))) (accept_dispatch es d k))
         else ebind (inside (\<lambda>db. rbind (ex_dispatch_loopback x (ds_packet d) k lease (ds_context d)) (\<lambda>r. Inr (r, db)))) (accept_dispatch es d k))"

text \<open>Whether the run's preset has an orchestration plan, and who executes the packet.\<close>

definition needs_plan :: "executor \<Rightarrow> dispatched \<Rightarrow> werror + bool" where
  "needs_plan x d =
     (let env = pk_env (ds_packet d); given = (\<lambda>k. case map_of env k of Some (c # cs) \<Rightarrow> Some (c # cs) | _ \<Rightarrow> None)
      in if given ''WORKFLOW_CLUSTER_MEMBER_ID'' \<noteq> None \<or> is_direct_task_card_patch_packet (ds_packet d) then Inr False
         else ex_has_plan x (ru_preset_id (ds_run d)) (ru_run_id (ds_run d)) (map_option (\<lambda>t. [t]) (given ''WORKFLOW_CLUSTER_TEMPLATE_ID'')))"

definition execute_packet :: "executor \<Rightarrow> (nat \<Rightarrow> env) \<Rightarrow> dispatched \<Rightarrow> (diag_db, execution) work" where
  "execute_packet x es d cw =
     (case needs_plan x d of
        Inl err \<Rightarrow> (cw, Inl err)
      | Inr True \<Rightarrow> ebind commit (\<lambda>_. outside (ex_orchestrate x (ds_packet d))) cw
      | Inr False \<Rightarrow>
          (case ds_pool d of
             Some k \<Rightarrow> dispatch_to_pool x es d k cw
           | None \<Rightarrow> (cw, ex_mutate x (ds_adapter d) (ds_packet d))))"

text \<open>Only an error of the mutation's scope leaves the method; any other exception is a failed execution.\<close>

definition caught :: "dispatched \<Rightarrow> (diag_db, execution) work \<Rightarrow> (diag_db, execution) work" where
  "caught d m cw =
     (case m cw of
        (cw', Inl (RepoMutationScopeError msg)) \<Rightarrow> (cw', Inl (RepoMutationScopeError msg))
      | (cw', Inl err) \<Rightarrow> (cw', Inr (failed_execution (ds_adapter d) err))
      | (cw', Inr r) \<Rightarrow> (cw', Inr r))"

definition merge_heartbeats :: "json list \<Rightarrow> execution \<Rightarrow> execution" where
  "merge_heartbeats renewals r =
     (if renewals = [] then r
      else r\<lparr>xr_metadata := dput ''lease_renewals''
             (JList (last_20 ((case dget ''lease_renewals'' (xr_metadata r) of JList xs \<Rightarrow> xs | _ \<Rightarrow> []) @ renewals))) (xr_metadata r)\<rparr>)"

definition perform :: "orchestrator \<Rightarrow> executor \<Rightarrow> (nat \<Rightarrow> env) \<Rightarrow> dispatched \<Rightarrow> (diag_db, execution) work" where
  "perform f x es d =
     (case ds_pool d of
        Some _ \<Rightarrow> caught d (execute_packet x es d)
      | None \<Rightarrow>
          ebind commit (\<lambda>_.
          ebind (outside (\<lambda>db. case with_heartbeats f x d db of (db', renewals) \<Rightarrow> (db', Inr renewals))) (\<lambda>renewals.
          ebind (caught d (execute_packet x es d)) (\<lambda>r. eret (merge_heartbeats renewals r)))))"

subsection \<open>Evidence and review\<close>

definition mutation_result_of :: "jdict \<Rightarrow> jdict option" where
  "mutation_result_of metadata = as_dict (dget ''mutation_result'' metadata)"

definition evidence_summary :: "execution \<Rightarrow> string" where
  "evidence_summary r =
     (let ok = (xr_return_code r = 0)
      in if mutation_result_of (xr_metadata r) \<noteq> None
         then (if ok then ''Repo mutation completed successfully.'' else ''Repo mutation completed with failures.'')
         else (if ok then ''Execution completed successfully.'' else ''Execution completed with failures.''))"

text \<open>Each artifact is read for its digest.\<close>

definition build_evidence :: "executor \<Rightarrow> env \<Rightarrow> nat \<Rightarrow> string \<Rightarrow> string \<Rightarrow> execution \<Rightarrow> werror + evidence_row" where
  "build_evidence x e k rid task r =
     rbind (rmap (ex_read_artifact x) (xr_artifact_paths r)) (\<lambda>_.
       Inr \<lparr>ev_evidence_id = new_id ''evidence'' (hex12 e k), ev_run_id = rid, ev_runtime_task_id = task, ev_summary = evidence_summary r,
            ev_return_code = xr_return_code r, ev_metadata = xr_metadata r, ev_created_at = clock e k\<rparr>)"

definition evidence_create :: "evidence_row \<Rightarrow> diag_db \<Rightarrow> werror + diag_db" where
  "evidence_create v db =
     rbind (sql_insert ''evidence''
              (ev_evidence_id v \<notin> ev_evidence_id ` set (dd_evidence db) \<and> known_run (ev_run_id v) (dd_runs db)
               \<and> ev_runtime_task_id v \<in> set (rd_tasks (dd_runs db))) v (dd_evidence db))
       (\<lambda>rows. Inr (db\<lparr>dd_evidence := rows\<rparr>))"

definition mutation_tests_ok :: "jdict \<Rightarrow> werror + bool" where
  "mutation_tests_ok metadata =
     (case mutation_result_of metadata of
        None \<Rightarrow> Inr True
      | Some d \<Rightarrow> rbind (hashed (dget ''final_test_status'' d)) (\<lambda>status. Inr (status \<in> {JNull, JStr ''passed'', JStr ''not_requested''})))"

definition auto_review :: "env \<Rightarrow> evidence_row \<Rightarrow> werror + verdict_row" where
  "auto_review e v =
     rbind (mutation_tests_ok (ev_metadata v)) (\<lambda>tests_ok.
       let pass = (ev_return_code v = 0 \<and> tests_ok)
       in Inr \<lparr>rv_verdict_id = new_id ''verdict'' (hex12 e 0), rv_run_id = ev_run_id v, rv_evidence_id = ev_evidence_id v,
               rv_decision = (if pass then rd_pass else rd_fail),
               rv_rationale = (if pass then ''Return code is zero and required mutation tests passed.''
                               else ''Return code is non-zero or required mutation tests failed.''),
               rv_human = False, rv_reviewed_at = clock e 1\<rparr>)"

subsection \<open>The state after the execution\<close>

definition session_payload :: "jdict \<Rightarrow> jdict" where
  "session_payload metadata =
     filter (\<lambda>(_, v). case v of JStr t \<Rightarrow> t \<noteq> [] | _ \<Rightarrow> False)
       (map (\<lambda>k. (k, dget k metadata)) [''external_trace_id'', ''external_session_id'', ''external_session_url'', ''session_export_ref''])"

text \<open>The updates the result brings; none is made when there is nothing to write.\<close>

definition result_updates :: "jdict \<Rightarrow> jdict" where
  "result_updates metadata =
     (case dget ''execution_target'' metadata of JObj d \<Rightarrow> [(''execution_target'', JObj d)] | _ \<Rightarrow> [])
     @ (case dget ''lease_renewals'' metadata of JList xs \<Rightarrow> [(''lease_renewals'', JList xs)] | _ \<Rightarrow> [])
     @ (case mutation_result_of metadata of
          None \<Rightarrow> []
        | Some d \<Rightarrow> [(''mutation_contract'', dget ''mutation_contract'' metadata), (''mutation_result'', JObj d)])"

definition executed_state :: "executor \<Rightarrow> execution \<Rightarrow> state_ref \<Rightarrow> werror + state_ref \<times> execution" where
  "executed_state x r s =
     rbind (state_with_payload_updates s (result_updates (xr_metadata r))) (\<lambda>s1.
     rbind (ex_receipt x s1 r) (\<lambda>receipt.
     rbind (case receipt of
              None \<Rightarrow> Inr (s1, r)
            | Some d \<Rightarrow>
                rbind (state_with_payload_updates s1 [(''capability_execution_receipt'', JObj d)]) (\<lambda>s2.
                  Inr (s2, r\<lparr>xr_metadata := dput ''capability_execution_receipt'' (JObj d) (xr_metadata r)\<rparr>))) (\<lambda>(s2, r').
     rbind (state_with_payload_updates s2 (session_payload (xr_metadata r'))) (\<lambda>s3. Inr (s3, r')))))"

text \<open>The evidence of the execution and what is counted of it.\<close>

definition file_evidence ::
  "executor \<Rightarrow> (nat \<Rightarrow> env) \<Rightarrow> dispatched \<Rightarrow> execution \<Rightarrow> diag_db \<Rightarrow> werror + evidence_row \<times> diag_db" where
  "file_evidence x es d r db =
     (let rid = ru_run_id (ds_run d); task = ds_task d; b = ds_budget d
      in rbind (append_event (es 10) 0 rid ''runtime_task_completed'' ''runtime_task'' task ''Runtime task completed''
                  (update_runtime_task_status task (if xr_return_code r = 0 then tk_completed else tk_failed) db)) (\<lambda>db1.
         rbind (build_evidence x (es 10) 1 rid task r) (\<lambda>v.
         rbind (evidence_create v db1) (\<lambda>db2.
         rbind (validate_budget_ledger (b\<lparr>bl_execution_count := bl_execution_count b + 1,
                  bl_total_runtime_ms := bl_total_runtime_ms b + xr_duration_ms r, bl_last_return_code := Some (xr_return_code r),
                  bl_updated_at := clock (es 10) 2\<rparr>)) (\<lambda>b'.
         rbind (on_runs (budget_update b') db2) (\<lambda>(_, db3).
         rbind (append_event (es 10) 3 rid ''evidence_submitted'' ''evidence'' (ev_evidence_id v) (ev_summary v) db3) (\<lambda>db4.
           Inr (v, db4))))))))"

subsection \<open>Waiting for a review\<close>

text \<open>A new row in \<open>awaiting_review\<close> or a terminal step, with the refs of a new checkpoint.\<close>

definition closing_state ::
  "orchestrator \<Rightarrow> hooks \<Rightarrow> executor \<Rightarrow> env \<Rightarrow> dispatched \<Rightarrow> string \<Rightarrow> graph_step \<Rightarrow> string \<Rightarrow> jdict \<Rightarrow> jdict \<Rightarrow> state_ref \<Rightarrow> werror + state_ref" where
  "closing_state f h x e d reason g trace_name entries metadata s =
     (let refs = durable_refs_for_state (Some s)
      in rbind (if refs = [] then Inr [] else ex_checkpoint x refs reason) (\<lambda>refs'.
         let s1 = s\<lparr>st_run_id := ru_run_id (ds_run d), st_runtime_task_id := ds_task d, st_graph_step := g,
                    st_state_payload := dict_merge (dict_merge (st_state_payload s) entries) refs',
                    st_is_terminal := is_terminal_runtime_graph_step g, st_updated_at := clock e 0\<rparr>
         in rbind (case hk_export_trace h (ru_run_id (ds_run d)) trace_name of
                     None \<Rightarrow> Inr s1
                   | Some t \<Rightarrow> state_with_payload_updates s1 [(''external_trace_id'', JStr t)]) (\<lambda>s2.
              state_ref_with_durable_transition f s2 reason (Some (durable_refs_for_state (Some s2))) metadata)))"

definition release_dispatch_lease ::
  "orchestrator \<Rightarrow> env \<Rightarrow> dispatched \<Rightarrow> string \<Rightarrow> state_ref \<Rightarrow> diag_db \<Rightarrow> werror + state_ref \<times> diag_db" where
  "release_dispatch_lease f e d reason s db =
     (let lid = (if str_or (ds_scheduler_lease d) [] \<noteq> [] then ds_scheduler_lease d else scheduler_lease_id_from_state (Some s))
      in rbind (release_scheduler_lease_for_state f e s lid reason (dd_sched db)) (\<lambda>(s', sched). Inr (s', db\<lparr>dd_sched := sched\<rparr>)))"

text \<open>Both branches that ask for a review; they differ in what they note.\<close>

definition await_review ::
  "orchestrator \<Rightarrow> hooks \<Rightarrow> executor \<Rightarrow> (nat \<Rightarrow> env) \<Rightarrow> dispatched \<Rightarrow> jdict \<Rightarrow> jdict \<Rightarrow> jdict \<Rightarrow> state_ref \<Rightarrow> diag_db
   \<Rightarrow> werror + run_row \<times> diag_db" where
  "await_review f h x es d entries metadata extra s db =
     (let rid = ru_run_id (ds_run d)
      in rbind (on_runs (release_worker_lease (es 12) (ds_worker_lease d) ws_released ''awaiting_human_review'') db) (\<lambda>(_, db1).
         rbind (release_dispatch_lease f (es 13) d ''awaiting_human_review'' s db1) (\<lambda>(s1, db2).
         rbind (closing_state f h x (es 14) d ''awaiting_review'' gs_awaiting_review ''awaiting_review'' entries metadata s1) (\<lambda>s2.
         rbind (upsert_state s2 db2) (\<lambda>db3.
         rbind (on_runs (release_active_claims_for_run (es 15) rid cs_released ''awaiting_human_review'') db3) (\<lambda>(_, db4).
         rbind (on_runs (transition_run_status (es 16) ((ds_run d)\<lparr>ru_status := running\<rparr>) ''request_human_review'' awaiting_review) db4) (\<lambda>(updated, db5).
         rbind (append_event (es 17) 0 rid ''review_requested'' ''run'' rid ''Human review requested'' db5) (\<lambda>db6.
         rbind (capture_run_snapshot f (es 17) 1 rid ss_awaiting_review ''Awaiting-review snapshot captured'' (Some (ds_task d)) extra db6) (\<lambda>(_, db7).
           Inr (updated, db7))))))))))"

definition await_human_review ::
  "orchestrator \<Rightarrow> hooks \<Rightarrow> executor \<Rightarrow> (nat \<Rightarrow> env) \<Rightarrow> dispatched \<Rightarrow> execution \<Rightarrow> state_ref \<Rightarrow> diag_db \<Rightarrow> werror + run_row \<times> diag_db" where
  "await_human_review f h x es d r s db =
     (let policy = JStr (review_policy_name (pre_review_policy (ds_preset d))); code = JNum (xr_return_code r)
      in await_review f h x es d [(''review_policy'', policy), (''return_code'', code)]
           [(''review_policy'', policy), (''awaiting_review_reason'', JStr ''human_required''), (''return_code'', code)]
           [(''review_policy'', policy)] s db)"

definition await_signoff ::
  "orchestrator \<Rightarrow> hooks \<Rightarrow> executor \<Rightarrow> (nat \<Rightarrow> env) \<Rightarrow> dispatched \<Rightarrow> execution \<Rightarrow> verdict_row \<Rightarrow> state_ref \<Rightarrow> diag_db
   \<Rightarrow> werror + run_row \<times> diag_db" where
  "await_signoff f h x es d r v s db =
     (let policy = JStr (review_policy_name (pre_review_policy (ds_preset d))); code = JNum (xr_return_code r);
          decision = JStr (review_decision_name (rv_decision v));
          reason = JStr (if pre_review_policy (ds_preset d) = mandatory then ''mandatory_human_signoff'' else ''recommended_auto_review_failed'')
      in await_review f h x es d
           [(''review_policy'', policy), (''return_code'', code), (''awaiting_review_reason'', reason), (''latest_auto_review_decision'', decision)]
           [(''review_policy'', policy), (''awaiting_review_reason'', reason), (''return_code'', code), (''review_decision'', decision),
            (''verdict_id'', JStr (rv_verdict_id v))]
           [(''review_policy'', policy), (''awaiting_review_reason'', reason), (''latest_auto_review_decision'', decision)] s db)"

subsection \<open>The end of a run\<close>

text \<open>The status, the summary of the event and the reason the attempt is closed with.\<close>

definition final_status :: "review_policy \<Rightarrow> review_decision \<Rightarrow> int \<Rightarrow> run_status" where
  "final_status policy decision code =
     (if policy = optional then (if code = 0 then completed else failed)
      else if decision = rd_pass then completed else failed)"

definition close_reason :: "review_policy \<Rightarrow> run_status \<Rightarrow> string" where
  "close_reason policy status =
     (if policy = optional \<and> status = completed then ''optional_advisory_terminal''
      else if policy = optional then ''runtime_return_code_non_zero''
      else if status = completed then ''auto_review_passed'' else ''auto_review_failed'')"

definition terminal_event_of :: "review_policy \<Rightarrow> run_status \<Rightarrow> string \<times> string" where
  "terminal_event_of policy status =
     (if status = completed then (''run_completed'', ''Run completed'')
      else (''run_failed'', if policy = optional then ''Run failed during execution'' else ''Run failed review''))"

definition end_run ::
  "orchestrator \<Rightarrow> hooks \<Rightarrow> executor \<Rightarrow> (nat \<Rightarrow> env) \<Rightarrow> dispatched \<Rightarrow> execution \<Rightarrow> verdict_row \<Rightarrow> state_ref \<Rightarrow> diag_db
   \<Rightarrow> werror + run_row \<times> diag_db" where
  "end_run f h x es d r v s db =
     (let rid = ru_run_id (ds_run d); policy = pre_review_policy (ds_preset d); name = JStr (review_policy_name policy);
          status = final_status policy (rv_decision v) (xr_return_code r); code = JNum (xr_return_code r);
          decision = JStr (review_decision_name (rv_decision v)); g = (if status = completed then gs_completed else gs_failed);
          (typ, summary) = terminal_event_of policy status
      in rbind (release_dispatch_lease f (es 13) d ''run_terminal'' s db) (\<lambda>(s1, db1).
         rbind (closing_state f h x (es 14) d ''terminal'' g ''run_terminal''
                  ([(''review_policy'', name), (''return_code'', code), (''latest_auto_review_decision'', decision)]
                   @ (if policy = optional then [(''review_effect'', JStr ''advisory_only'')] else []))
                  [(''review_policy'', name), (''return_code'', code), (''review_decision'', decision), (''verdict_id'', JStr (rv_verdict_id v))] s1) (\<lambda>s2.
         rbind (upsert_state s2 db1) (\<lambda>db2.
         rbind (close_attempt_of (es 18) rid (if status = completed then as_completed else as_failed) (close_reason policy status) db2) (\<lambda>db3.
         rbind (on_runs (release_worker_lease (es 12) (ds_worker_lease d) ws_released ''run_terminal'') db3) (\<lambda>(_, db4).
         rbind (on_runs (release_active_claims_for_run (es 15) rid cs_released ''run_terminal'') db4) (\<lambda>(_, db5).
         rbind (on_runs (transition_run_status (es 16) ((ds_run d)\<lparr>ru_status := running\<rparr>) ''auto_review_finalize'' status) db5) (\<lambda>(updated, db6).
         rbind (append_event (es 17) 0 rid typ ''run'' rid summary db6) (\<lambda>db7.
         rbind (capture_run_snapshot f (es 17) 1 rid (if status = completed then ss_completed else ss_failed)
                  ''Auto terminal snapshot captured'' (Some (ds_task d)) [(''decision'', decision)] db7) (\<lambda>(_, db8).
           Inr (updated, db8)))))))))))"

record executed_run =
  bn_run :: run_row
  bn_execution :: execution
  bn_evidence :: evidence_row
  bn_verdict :: "verdict_row option"

definition review_run ::
  "orchestrator \<Rightarrow> hooks \<Rightarrow> executor \<Rightarrow> (nat \<Rightarrow> env) \<Rightarrow> dispatched \<Rightarrow> execution \<Rightarrow> evidence_row \<Rightarrow> state_ref \<Rightarrow> diag_db
   \<Rightarrow> werror + executed_run \<times> diag_db" where
  "review_run f h x es d r v s db =
     (let policy = pre_review_policy (ds_preset d)
      in if policy = human_required
         then rbind (await_human_review f h x es d r s db) (\<lambda>(run, db1).
                Inr (\<lparr>bn_run = run, bn_execution = r, bn_evidence = v, bn_verdict = None\<rparr>, db1))
         else
           rbind (auto_review (es 11) v) (\<lambda>verdict.
           rbind (verdict_create verdict db) (\<lambda>db1.
           rbind (append_event (es 11) 2 (ru_run_id (ds_run d)) ''review_submitted'' ''review_verdict'' (rv_verdict_id verdict)
                    (''Review verdict: '' @ review_decision_name (rv_decision verdict)) db1) (\<lambda>db2.
           rbind (if policy = mandatory \<or> policy = recommended \<and> rv_decision verdict = rd_fail
                  then await_signoff f h x es d r verdict s db2
                  else end_run f h x es d r verdict s db2) (\<lambda>(run, db3).
             Inr (\<lparr>bn_run = run, bn_execution = r, bn_evidence = v, bn_verdict = Some verdict\<rparr>, db3))))))"

definition finish_run ::
  "orchestrator \<Rightarrow> hooks \<Rightarrow> executor \<Rightarrow> (nat \<Rightarrow> env) \<Rightarrow> dispatched \<Rightarrow> execution \<Rightarrow> diag_db \<Rightarrow> werror + executed_run \<times> diag_db" where
  "finish_run f h x es d r db =
     rbind (state_get_by_task (ds_task d) (dd_states db)) (\<lambda>refreshed.
     rbind (executed_state x r (case refreshed of Some s \<Rightarrow> s | None \<Rightarrow> ds_state d)) (\<lambda>(s, r').
     rbind (file_evidence x es d r' db) (\<lambda>(v, db1). review_run f h x es d r' v s db1)))"

subsection \<open>The barrier of a parallel batch\<close>

text \<open>The wait is a call of the others: what they commit meanwhile, and whether the barrier was passed.\<close>

record barrier =
  ba_id :: string
  ba_size :: nat
  ba_wait :: "(diag_db, bool) call"

definition mark_batch :: "env \<Rightarrow> nat \<Rightarrow> barrier \<Rightarrow> string \<Rightarrow> string \<Rightarrow> string \<Rightarrow> dispatched \<Rightarrow> diag_db \<Rightarrow> werror + dispatched \<times> diag_db" where
  "mark_batch e k b phase typ summary d db =
     rbind (state_with_payload_updates (ds_state d)
              [(''parallel_batch'', JObj [(''barrier_id'', JStr (ba_id b)), (''member_count'', JNum (int (ba_size b))), (''state'', JStr phase)])]) (\<lambda>s.
     rbind (upsert_state s db) (\<lambda>db1.
     rbind (append_event e k (ru_run_id (ds_run d)) typ ''parallel_batch'' (ba_id b) summary db1) (\<lambda>db2.
       Inr (d\<lparr>ds_state := s\<rparr>, db2))))"

definition pass_barrier :: "(nat \<Rightarrow> env) \<Rightarrow> barrier option \<Rightarrow> dispatched \<Rightarrow> (diag_db, dispatched) work" where
  "pass_barrier es bar d =
     (case bar of
        None \<Rightarrow> eret d
      | Some b \<Rightarrow>
          ebind (inside (mark_batch (es 8) 0 b ''waiting'' ''batch_barrier_waiting'' ''Run is waiting on the batch barrier'' d)) (\<lambda>d1.
          ebind commit (\<lambda>_.
          ebind (outside (ba_wait b)) (\<lambda>passed cw.
          if \<not> passed then (cw, Inl (ParallelBarrierBrokenError (ba_id b) (ru_run_id (ds_run d))))
          else ebind (inside (mark_batch (es 8) 1 b ''released'' ''batch_barrier_released'' ''Run crossed the batch barrier'' d1)) (\<lambda>d2.
               ebind commit (\<lambda>_. eret d2)) cw))))"

subsection \<open>The method\<close>

definition resume_work ::
  "orchestrator \<Rightarrow> hooks \<Rightarrow> executor \<Rightarrow> (nat \<Rightarrow> env) \<Rightarrow> run_row \<Rightarrow> preset_row \<Rightarrow> string \<Rightarrow> packet_row \<Rightarrow> string option \<Rightarrow> barrier option
   \<Rightarrow> (diag_db, executed_run) work" where
  "resume_work f h x es run preset task packet receipt bar =
     ebind (inside (dispatch_run f x es run preset task packet receipt)) (\<lambda>d0.
     ebind (pass_barrier es bar d0) (\<lambda>d.
     ebind (perform f x es d) (\<lambda>r.
       inside (finish_run f h x es d r))))"

definition resume_run ::
  "orchestrator \<Rightarrow> hooks \<Rightarrow> executor \<Rightarrow> (nat \<Rightarrow> env) \<Rightarrow> string \<Rightarrow> string option \<Rightarrow> barrier option \<Rightarrow> (diag_db, executed_run) call" where
  "resume_run f h x es rid receipt bar =
     ebind (reading (get_run rid)) (\<lambda>run.
     ebind (reading (\<lambda>_. require_status run ''resume'' [prepared])) (\<lambda>_.
     ebind (reading (\<lambda>db. case dd_presets db (ru_preset_id run) of
                            None \<Rightarrow> Inl (PresetNotFoundError (''preset not found: '' @ ru_preset_id run)) | Some p \<Rightarrow> Inr p)) (\<lambda>preset.
     ebind (reading (\<lambda>db. case list_runtime_tasks_for_run rid db of
                            [] \<Rightarrow> Inl (EntityNotFoundError ''runtime_task'' rid) | t # _ \<Rightarrow> Inr t)) (\<lambda>task.
     ebind (reading (\<lambda>db. case get_task_packet task db of
                            None \<Rightarrow> Inl (EntityNotFoundError ''task_packet'' task) | Some p \<Rightarrow> Inr p)) (\<lambda>packet.
     ebind (unit_of_work (resume_work f h x es run preset task packet receipt bar)) (\<lambda>b.
     ebind (hk_record_simulation h rid) (\<lambda>_. eret b)))))))"

definition execute_run :: "orchestrator \<Rightarrow> hooks \<Rightarrow> executor \<Rightarrow> (nat \<Rightarrow> env) \<Rightarrow> string \<Rightarrow> (diag_db, executed_run) call" where
  "execute_run f h x es rid = resume_run f h x es rid None None"

end
