(* ===== verification/Resume_Effects.thy ===== *)
theory Resume_Effects
  imports Run_Resume Repair_Properties
begin

section \<open>Effects of resuming a run\<close>

text \<open>
  What the parts of \<open>resume_run\<close> do to the tables: the heartbeats renew expiry times and nothing else of the ownership
  rows, the dispatch leaves the run owned by one claim, one worker lease and one attempt that name each other, and the
  end of a run releases them.
\<close>

subsection \<open>Heartbeats\<close>

definition erase_claim :: "runtime_claim \<Rightarrow> runtime_claim" where
  "erase_claim c = c\<lparr>rc_lease_expires_at := 0\<rparr>"

definition erase_lease :: "worker_lease \<Rightarrow> worker_lease" where
  "erase_lease l = l\<lparr>wl_heartbeat_at := 0, wl_lease_expires_at := 0\<rparr>"

text \<open>The store up to expiry times of claims and worker leases.\<close>

definition renewed :: "diag_db \<Rightarrow> diag_db \<Rightarrow> bool" where
  "renewed db db' \<longleftrightarrow>
     rd_runs (dd_runs db') = rd_runs (dd_runs db) \<and> rd_tasks (dd_runs db') = rd_tasks (dd_runs db)
     \<and> rd_attempts (dd_runs db') = rd_attempts (dd_runs db)
     \<and> map erase_claim (rd_claims (dd_runs db')) = map erase_claim (rd_claims (dd_runs db))
     \<and> map erase_lease (rd_worker_leases (dd_runs db')) = map erase_lease (rd_worker_leases (dd_runs db))
     \<and> dd_task db' = dd_task db \<and> dd_presets db' = dd_presets db \<and> dd_packets db' = dd_packets db
     \<and> (own_ok (dd_runs db) \<longrightarrow> own_ok (dd_runs db'))"

lemma renewed_refl [simp]: "renewed db db"
  by (simp add: renewed_def)

lemma renewed_trans: "renewed db db1 \<Longrightarrow> renewed db1 db2 \<Longrightarrow> renewed db db2"
  by (simp add: renewed_def)

lemma erase_update: "(\<And>r. erase (f r) = erase r) \<Longrightarrow> map erase (sql_update p f rows) = map erase rows"
  by (simp add: sql_update_def)

lemma erase_claim_simps [simp]:
  "erase_claim (c\<lparr>rc_lease_expires_at := x\<rparr>) = erase_claim c"
  "rc_claim_id (erase_claim c) = rc_claim_id c" "rc_run_id (erase_claim c) = rc_run_id c"
  "rc_runtime_task_id (erase_claim c) = rc_runtime_task_id c" "rc_status (erase_claim c) = rc_status c"
  "rc_attempt_id (erase_claim c) = rc_attempt_id c"
  by (simp_all add: erase_claim_def)

lemma erase_lease_simps [simp]:
  "erase_lease (l\<lparr>wl_heartbeat_at := x, wl_lease_expires_at := y\<rparr>) = erase_lease l"
  "wl_lease_id (erase_lease l) = wl_lease_id l" "wl_run_id (erase_lease l) = wl_run_id l"
  "wl_status (erase_lease l) = wl_status l" "wl_claim_id (erase_lease l) = wl_claim_id l"
  "wl_attempt_id (erase_lease l) = wl_attempt_id l" "wl_runtime_task_id (erase_lease l) = wl_runtime_task_id l"
  by (simp_all add: erase_lease_def)

lemma renewed_mem:
  "map erase (rows' :: 'a list) = map erase rows \<Longrightarrow> r \<in> set rows \<Longrightarrow> \<exists>r'\<in>set rows'. erase r' = erase r"
  by (metis (no_types, lifting) imageE imageI list.set_map)

lemma claims_ok_renew:
  assumes "claims_ok rows"
  shows "claims_ok (sql_update p (\<lambda>c. c\<lparr>rc_lease_expires_at := x\<rparr>) rows)"
proof -
  let ?rows = "sql_update p (\<lambda>c. c\<lparr>rc_lease_expires_at := x\<rparr>) rows"
  have keys: "map rc_claim_id ?rows = map rc_claim_id rows" "map rc_status ?rows = map rc_status rows"
    "map rc_runtime_task_id ?rows = map rc_runtime_task_id rows"
    by (simp_all add: sql_update_map)
  have "map rc_runtime_task_id (filter (\<lambda>c. rc_status c = cs_active) ?rows) = map rc_runtime_task_id (filter (\<lambda>c. rc_status c = cs_active) rows)"
    by (induction rows) (simp_all add: sql_update_def)
  moreover have "\<forall>c\<in>set ?rows. validate_runtime_claim c = Inr c"
  proof (rule sql_update_all)
    show "validate_runtime_claim (c\<lparr>rc_lease_expires_at := x\<rparr>) = Inr (c\<lparr>rc_lease_expires_at := x\<rparr>)"
      if "validate_runtime_claim c = Inr c" for c
    proof -
      have "rc_domain_key c \<noteq> None" using validate_runtime_claimD [OF that] by simp
      then show ?thesis using that by (auto simp: validate_runtime_claim_def Let_def rbind_eq_Inr split: if_splits)
    qed
    show "\<forall>c\<in>set rows. validate_runtime_claim c = Inr c" using assms by (simp add: claims_ok_def)
  qed
  ultimately show ?thesis using assms keys by (simp add: claims_ok_def claims_unique_def)
qed

lemma rbind_InrE: "rbind m g = Inr y \<Longrightarrow> (\<And>x. m = Inr x \<Longrightarrow> g x = Inr y \<Longrightarrow> thesis) \<Longrightarrow> thesis"
  by (auto simp: rbind_eq_Inr)

lemma upsert_state_frame:
  "upsert_state s db = Inr db' \<Longrightarrow>
     dd_runs db' = dd_runs db \<and> dd_task db' = dd_task db \<and> dd_sched db' = dd_sched db \<and> dd_verdicts db' = dd_verdicts db
     \<and> dd_evidence db' = dd_evidence db \<and> dd_presets db' = dd_presets db \<and> dd_packets db' = dd_packets db"
  by (auto simp: upsert_state_def rbind_eq_Inr)

lemma append_event_frame:
  "append_event e k rid typ obj oid summary db = Inr db' \<Longrightarrow>
     dd_evidence db' = dd_evidence db \<and> dd_presets db' = dd_presets db \<and> dd_packets db' = dd_packets db
     \<and> rd_budgets (dd_runs db') = rd_budgets (dd_runs db)"
  by (auto simp: append_event_def rbind_eq_Inr dest!: event_append_frame)

lemma same_rows_renewed:
  assumes "append_event e k rid typ obj oid summary db = Inr db'"
  shows "renewed db db'"
  using append_event_same [OF assms] append_event_frame [OF assms] by (simp add: renewed_def same_rows_def own_ok_def)

lemma touch_renewed:
  assumes "worker_lease_touch lid at expires (dd_runs db) = Inr (r, runs)"
  shows "renewed db (db\<lparr>dd_runs := runs\<rparr>)"
proof -
  have runs: "runs = (dd_runs db)\<lparr>rd_worker_leases := sql_update (\<lambda>l. wl_lease_id l = lid \<and> wl_status l = ws_active)
              (\<lambda>l. l\<lparr>wl_heartbeat_at := at, wl_lease_expires_at := expires\<rparr>) (rd_worker_leases (dd_runs db))\<rparr>"
    using assms by (auto simp: worker_lease_touch_def Let_def rbind_eq_Inr)
  have "own_ok runs" if "own_ok (dd_runs db)"
    using worker_lease_updateD(2) [OF _ assms] that by (simp add: own_ok_def)
  then show ?thesis by (simp add: renewed_def runs erase_update)
qed

lemma renew_claim_renewed:
  fixes db :: diag_db and l :: worker_lease
  shows "renewed db (db\<lparr>dd_runs := renew_claim l expires (dd_runs db), dd_sched := sched\<rparr>)"
  by (simp add: renewed_def renew_claim_def own_ok_def erase_update claims_ok_renew)

lemma heartbeat_transaction_renewed:
  assumes "heartbeat_transaction f e l cid renewal at expires c db = Inr (b, db')"
  shows "renewed db db'"
proof -
  obtain touched runs where t: "worker_lease_touch (wl_lease_id l) at expires (dd_runs db) = Inr (touched, runs)"
    using assms by (auto simp: heartbeat_transaction_def rbind_eq_Inr)
  note r1 = touch_renewed [OF t]
  show ?thesis
  proof (cases touched)
    case None
    then show ?thesis using assms t r1 by (simp add: heartbeat_transaction_def)
  next
    case (Some tl)
    let ?db1 = "db\<lparr>dd_runs := renew_claim l expires runs, dd_sched := renew_scheduler_rows (wl_runtime_task_id l) expires (dd_sched db)\<rparr>"
    have r2: "renewed db ?db1"
      using renewed_trans [OF r1 renew_claim_renewed [where db = "db\<lparr>dd_runs := runs\<rparr>" and l = l and expires = expires
              and sched = "renew_scheduler_rows (wl_runtime_task_id l) expires (dd_sched db)"]]
      by simp
    obtain st db2 where up: "(case st of None \<Rightarrow> Inr ?db1
                   | Some s \<Rightarrow>
                       rbind (rmap (\<lambda>r. hashed (dict_get ''callback_id'' r)) (lease_renewals_for s)) (\<lambda>seen.
                       rbind (state_with_payload_updates s
                                (heartbeat_payload (fc_plane f) l cid at expires c
                                   (lease_renewals_for s @ (if JStr cid \<in> set seen then [] else [JObj renewal])) (st_state_payload s))) (\<lambda>s1.
                         upsert_state s1 ?db1))) = Inr db2"
      and ev: "append_event e 2 (wl_run_id l) ''worker_heartbeat_received'' ''worker_lease'' (wl_lease_id l) ''Local worker heartbeat received'' db2 = Inr db'"
      using assms t Some unfolding heartbeat_transaction_def Let_def by (auto elim!: rbind_InrE)
    have "renewed ?db1 db2"
    proof (cases st)
      case None
      then show ?thesis using up by simp
    next
      case (Some s)
      then obtain s1 where "upsert_state s1 ?db1 = Inr db2" using up by (auto simp: rbind_eq_Inr)
      from upsert_state_frame [OF this] show ?thesis by (simp add: renewed_def)
    qed
    then show ?thesis using renewed_trans [OF renewed_trans [OF r2] same_rows_renewed [OF ev]] by simp
  qed
qed

lemma record_local_heartbeat_renewed: "renewed db (fst (record_local_heartbeat f e l n db))"
  by (auto simp: record_local_heartbeat_def Let_def dest: heartbeat_transaction_renewed split: sum.splits prod.splits bool.splits)

lemma local_heartbeats_renewed: "renewed db (fst (local_heartbeats f l n es renewals db))"
proof (induction es arbitrary: n renewals db)
  case (Cons e es)
  obtain db' go_on renewal where r: "record_local_heartbeat f e l n db = (db', go_on, renewal)" by (metis prod_cases3)
  have "renewed db db'" using record_local_heartbeat_renewed [of db f e l n] r by simp
  then show ?case using Cons.IH renewed_trans by (simp add: r Let_def)
qed simp

subsection \<open>Dispatch\<close>

text \<open>The run is running and owned by one attempt, a claim and the worker lease of the dispatch, which name each other.\<close>

definition owned_by :: "string \<Rightarrow> string \<Rightarrow> string \<Rightarrow> diag_db \<Rightarrow> bool" where
  "owned_by rid task lid db \<longleftrightarrow>
     (\<exists>run a c l. run_get rid (dd_runs db) = Some run \<and> ru_status run = running
        \<and> current_rows rid db = [a] \<and> ra_runtime_task_id a = task
        \<and> c \<in> set (claim_rows rid db) \<and> rc_runtime_task_id c = task \<and> rc_attempt_id c = Some (ra_attempt_id a)
        \<and> l \<in> set (lease_rows rid db) \<and> wl_lease_id l = lid \<and> wl_claim_id l = Some (rc_claim_id c)
        \<and> wl_attempt_id l = Some (ra_attempt_id a))"

lemma current_sole:
  assumes ok: "own_ok (dd_runs db)" and a: "a \<in> set (rd_attempts (dd_runs db))" "ra_run_id a = rid" "ra_status a = as_current"
  shows "current_rows rid db = [a]"
proof -
  have d: "distinct (map ra_run_id (filter (\<lambda>a. ra_status a = as_current) (rd_attempts (dd_runs db))))"
    using ok by (simp add: own_ok_def attempts_ok_def attempts_unique_def)
  have eq: "current_rows rid db = filter (\<lambda>a. ra_run_id a = rid) (filter (\<lambda>a. ra_status a = as_current) (rd_attempts (dd_runs db)))"
    by (simp add: current_rows_def conj_commute)
  have "distinct (map ra_run_id (current_rows rid db))" unfolding eq using d by (rule distinct_map_filter)
  moreover have "\<forall>q\<in>set (current_rows rid db). ra_run_id q = rid" by (simp add: current_rows_def)
  moreover have "a \<in> set (current_rows rid db)" using a by (simp add: current_rows_def)
  ultimately show ?thesis
  proof (cases "current_rows rid db")
    case (Cons b bs)
    then show ?thesis using \<open>distinct (map ra_run_id (current_rows rid db))\<close> \<open>\<forall>q\<in>set (current_rows rid db). ra_run_id q = rid\<close>
      \<open>a \<in> set (current_rows rid db)\<close> by (cases bs) auto
  qed simp
qed

lemma acquire_lease_rows:
  assumes ok: "leases_ok (rd_worker_leases db)"
    and ac: "acquire_worker_lease e rid task ad wn wk wi dk key claim attempt db = Inr (l, db')"
  shows "rd_worker_leases db' = rd_worker_leases db @ [l]" and "rd_runs db' = rd_runs db" and "wl_run_id l = rid" and "wl_status l = ws_active"
    and "wl_claim_id l = claim" and "wl_attempt_id l = attempt" and "wl_lease_id l = new_id ''lease'' (hex12 e 0)" and "wl_runtime_task_id l = task"
proof -
  obtain r db1 where v: "validate_worker_lease r = Inr l" and cr: "worker_lease_create l db = Inr db1"
    and ev: "event_append e 3 rid ''worker_lease_acquired'' ''worker_lease'' (wl_lease_id l) ''Worker lease acquired'' db1 = Inr db'"
    and r: "wl_run_id r = rid" "wl_status r = ws_active" "wl_claim_id r = claim" "wl_attempt_id r = attempt"
      "wl_lease_id r = new_id ''lease'' (hex12 e 0)" "wl_domain_key r \<noteq> None" "wl_runtime_task_id r = task"
    using ac by (auto simp: acquire_worker_lease_def rbind_eq_Inr)
  have "l = r" using validate_lease_self v r(6) by blast
  then show "wl_run_id l = rid" "wl_status l = ws_active" "wl_claim_id l = claim" "wl_attempt_id l = attempt"
    "wl_lease_id l = new_id ''lease'' (hex12 e 0)" "wl_runtime_task_id l = task" using r by simp_all
  show "rd_worker_leases db' = rd_worker_leases db @ [l]" "rd_runs db' = rd_runs db"
    using worker_lease_create_ok [OF ok validate_lease_idem [OF v] cr] event_append_frame [OF ev] by simp_all
qed

lemma ensure_attempt_rows:
  assumes ok: "own_ok db" and en: "ensure_current_runtime_attempt e rid task trigger reason force db = Inr (a, db')"
  shows "own_ok db' \<and> a \<in> set (rd_attempts db') \<and> ra_status a = as_current \<and> ra_run_id a = rid \<and> ra_runtime_task_id a = task
     \<and> rd_worker_leases db' = rd_worker_leases db \<and> rd_claims db' = rd_claims db"
proof -
  have at: "attempts_ok (rd_attempts db)" using ok by (simp add: own_ok_def)
  show ?thesis
    using at en
  proof (cases rule: ensure_attemptD)
    case kept
    then show ?thesis using ok by simp
  next
    case (made current)
    then show ?thesis using advance_attemptD [OF at made(1)] ok by (simp add: own_ok_def)
  qed
qed

lemma own_dispatchD:
  assumes ok: "own_ok (dd_runs db)" and od: "own_dispatch f x es run preset task db = Inr ((budget, a, c, res, h), db')"
  shows "own_ok (dd_runs db') \<and> a \<in> set (rd_attempts (dd_runs db')) \<and> ra_status a = as_current \<and> ra_run_id a = ru_run_id run
     \<and> ra_runtime_task_id a = task \<and> c \<in> set (claim_rows (ru_run_id run) db') \<and> rc_runtime_task_id c = task
     \<and> rc_attempt_id c = Some (ra_attempt_id a) \<and> rd_worker_leases (dd_runs db') = rd_worker_leases (dd_runs db)
     \<and> dd_states db' = dd_states db"
proof -
  let ?rid = "ru_run_id run"
  obtain db1 db2 sched db3 where
    t1: "on_runs (ensure_budget_ledger (es 0) ?rid (ru_preset_id run) (pre_max_retries preset) (pre_timeout_seconds preset) 1) db = Inr (budget, db1)"
    and t2: "on_runs (ensure_current_runtime_attempt (es (Suc 0)) ?rid task at_resume ''resume'' True) db1 = Inr (a, db2)"
    and t3: "on_runs (acquire_runtime_claim (es 4) ?rid task ''local_orchestrator'' ak_control_plane ''control_plane_local'' dk_runtime_task None
                  (Some (ra_attempt_id a))) (db2\<lparr>dd_sched := sched\<rparr>) = Inr (c, db')"
    using od by (auto simp: own_dispatch_def Let_def elim!: rbind_InrE)
  obtain r1 where r1: "ensure_budget_ledger (es 0) ?rid (ru_preset_id run) (pre_max_retries preset) (pre_timeout_seconds preset) 1 (dd_runs db) = Inr (budget, r1)"
    "db1 = db\<lparr>dd_runs := r1\<rparr>" using on_runsD [OF t1] by blast
  obtain r2 where r2: "ensure_current_runtime_attempt (es (Suc 0)) ?rid task at_resume ''resume'' True r1 = Inr (a, r2)" "db2 = db1\<lparr>dd_runs := r2\<rparr>"
    using on_runsD [OF t2] r1(2) by auto
  obtain r3 where r3: "acquire_runtime_claim (es 4) ?rid task ''local_orchestrator'' ak_control_plane ''control_plane_local'' dk_runtime_task None
                  (Some (ra_attempt_id a)) r2 = Inr (c, r3)" "db' = db2\<lparr>dd_sched := sched, dd_runs := r3\<rparr>"
    using on_runsD [OF t3] r2(2) by auto
  have ok1: "own_ok r1" using budget_frame [OF r1(1)] ok by (simp add: own_ok_def)
  note d2 = ensure_attempt_rows [OF ok1 r2(1)]
  have c2: "claims_ok (rd_claims r2)" using d2 unfolding own_ok_def by blast
  note d3 = acquire_claimD [OF c2 r3(1)]
  have "rc_attempt_id c = Some (ra_attempt_id a)"
    using r3(1) by (auto simp: acquire_runtime_claim_def rbind_eq_Inr validate_runtime_claim_def Let_def split: option.splits)
  then show ?thesis using ok d2 d3 r1(2) r2(2) r3(2) budget_frame [OF r1(1)] by (simp add: own_ok_def claim_rows_def)
qed

lemma mark_resumedD:
  assumes mr: "mark_resumed x es run task receipt s db = Inr ((s', envelope), db')"
  shows "\<exists>r. run_get (ru_run_id run) (dd_runs db') = Some r \<and> ru_status r = running"
    and "rd_claims (dd_runs db') = rd_claims (dd_runs db) \<and> rd_worker_leases (dd_runs db') = rd_worker_leases (dd_runs db)
         \<and> rd_attempts (dd_runs db') = rd_attempts (dd_runs db)"
proof -
  let ?rid = "ru_run_id run"
  obtain db1 updated db2 db3 db4 en where t1: "upsert_state s db = Inr db1"
    and t2: "on_runs (transition_run_status (es 5) run ''resume'' running) db1 = Inr (updated, db2)"
    and t3: "append_event (es 6) 0 ?rid ''runtime_resumed'' ''runtime_state_ref'' (st_state_ref_id s) ''Runtime resumed''
                  (update_runtime_task_status task tk_running db2) = Inr db3"
    and t4: "append_event (es 6) (Suc 0) ?rid ''runtime_task_started'' ''runtime_task'' task ''Runtime task started'' db3 = Inr db4"
    and en: "(case (case en of None \<Rightarrow> None | Some en \<Rightarrow> attach_receipt receipt en) of
             None \<Rightarrow> Inr ((s, en), db4)
           | Some en \<Rightarrow>
               rbind (state_with_payload_updates s [(''capability_invocation_envelope'', JObj (en_dump en))]) (\<lambda>s1.
               rbind (upsert_state s1 db4) (\<lambda>db5. Inr ((s1, Some en), db5)))) = Inr ((s', envelope), db')"
    using mr by (auto simp: mark_resumed_def Let_def elim!: rbind_InrE)
  obtain r2 where r2: "transition_run_status (es 5) run ''resume'' running (dd_runs db1) = Inr (updated, r2)" "db2 = db1\<lparr>dd_runs := r2\<rparr>"
    using on_runsD [OF t2] by blast
  have e: "dd_runs db' = dd_runs db4"
    using en by (auto split: option.splits elim!: rbind_InrE dest: upsert_state_frame)
  have same: "same_rows (update_runtime_task_status task tk_running db2) db3" "same_rows db3 db4"
    using append_event_same [OF t3] append_event_same [OF t4] by simp_all
  note f = upsert_state_frame [OF t1] transition_frame [OF r2(1)] transition_stored [OF r2(1)] e
  show "\<exists>r. run_get ?rid (dd_runs db') = Some r \<and> ru_status r = running"
    using f same r2(2) by (auto simp: same_rows_def run_get_def update_runtime_task_status_def)
  show "rd_claims (dd_runs db') = rd_claims (dd_runs db) \<and> rd_worker_leases (dd_runs db') = rd_worker_leases (dd_runs db)
         \<and> rd_attempts (dd_runs db') = rd_attempts (dd_runs db)"
    using f same r2(2) by (auto simp: same_rows_def update_runtime_task_status_def)
qed

lemma dispatch_runD:
  assumes ok: "own_ok (dd_runs db)" and di: "dispatch_run f x es run preset task packet receipt db = Inr (d, db')"
  shows "own_ok (dd_runs db')" and "owned_by (ru_run_id run) task (wl_lease_id (ds_worker_lease d)) db'"
    and "ds_run d = run \<and> ds_task d = task \<and> ds_preset d = preset"
    and "ds_pool d = None \<or> (\<exists>k. ex_pool x k = ds_pool d)"
    and "ds_worker_lease d \<in> set (lease_rows (ru_run_id run) db')"
    and "wl_lease_id (ds_worker_lease d) = new_id ''lease'' (hex12 (es 7) 0)"
proof -
  let ?rid = "ru_run_id run"
  obtain s where "state_get_by_task task (dd_states db) = Inr (Some s)"
    using di by (auto simp: dispatch_run_def Let_def elim!: rbind_InrE split: option.split_asm)
  then obtain owned db1 s2 resumed db2 ad wn wi l where
    od: "own_dispatch f x es run preset task db = Inr (owned, db1)"
    and mr: "mark_resumed x es run task receipt s2 db1 = Inr (resumed, db2)"
    and le: "on_runs (acquire_worker_lease (es 7) ?rid task ad wn ak_worker wi dk_runtime_task None
               (Some (rc_claim_id (fst (snd (snd owned))))) (Some (ra_attempt_id (fst (snd owned))))) db2 = Inr (l, db')"
    and ds: "ds_run d = run \<and> ds_task d = task \<and> ds_preset d = preset \<and> ds_worker_lease d = l \<and> (\<exists>k. ex_pool x k = ds_pool d)"
    using di unfolding dispatch_run_def Let_def
    by (auto elim!: rbind_InrE) (rule that, assumption, assumption, simp, auto)
  obtain budget a c res h where owned: "owned = (budget, a, c, res, h)" by (metis prod_cases5)
  obtain r3 where r3: "acquire_worker_lease (es 7) ?rid task ad wn ak_worker wi dk_runtime_task None (Some (rc_claim_id c)) (Some (ra_attempt_id a)) (dd_runs db2)
        = Inr (ds_worker_lease d, r3)" "db' = db2\<lparr>dd_runs := r3\<rparr>"
    using on_runsD [OF le] ds by (auto simp: owned)
  note d1 = own_dispatchD [OF ok od [unfolded owned]]
  obtain s3 envelope where "resumed = (s3, envelope)" by (cases resumed)
  note d2 = mark_resumedD [OF mr [unfolded this]]
  have ok2: "own_ok (dd_runs db2)" using ok d1 d2(2) by (simp add: own_ok_def)
  then have l2: "leases_ok (rd_worker_leases (dd_runs db2))" by (simp add: own_ok_def)
  note d3 = acquire_lease_rows [OF l2 r3(1)] and d4 = acquire_leaseD [OF l2 r3(1)]
  show ok': "own_ok (dd_runs db')" using ok2 d4 r3(2) by (simp add: own_ok_def)
  have a: "current_rows ?rid db' = [a]" by (rule current_sole [OF ok']) (use d1 d2(2) d4 r3(2) in simp_all)
  show "wl_lease_id (ds_worker_lease d) = new_id ''lease'' (hex12 (es 7) 0)" using d3(7) .
  show l: "ds_worker_lease d \<in> set (lease_rows ?rid db')" using d3 r3(2) by (simp add: lease_rows_def)
  obtain r where r: "run_get ?rid (dd_runs db') = Some r" "ru_status r = running" using d2(1) d3(2) r3(2) by (auto simp: run_get_def)
  have "c \<in> set (claim_rows ?rid db')" using d1 d2(2) d4 r3(2) by (simp add: claim_rows_def)
  then show "owned_by ?rid task (wl_lease_id (ds_worker_lease d)) db'"
    unfolding owned_by_def using a r l d1 d3(5,6) by blast
  show "ds_run d = run \<and> ds_task d = task \<and> ds_preset d = preset" "ds_pool d = None \<or> (\<exists>k. ex_pool x k = ds_pool d)" using ds by simp_all
qed

subsection \<open>The end\<close>

text \<open>The run owns nothing that this dispatch acquired, apart from the attempt.\<close>

definition let_go :: "string \<Rightarrow> string \<Rightarrow> diag_db \<Rightarrow> bool" where
  "let_go rid lid db \<longleftrightarrow> own_ok (dd_runs db) \<and> claim_rows rid db = [] \<and> lid \<notin> wl_lease_id ` set (lease_rows rid db)"

lemma let_go_same: "same_rows db db' \<Longrightarrow> let_go rid lid db' \<longleftrightarrow> let_go rid lid db"
  by (simp add: let_go_def same_rows_own_ok) (simp add: same_rows_def claim_rows_def lease_rows_def)

lemma lease_let_go:
  assumes ok: "own_ok (dd_runs db)" and rel: "on_runs (release_worker_lease e l status reason) db = Inr (r, db')" and st: "status \<noteq> ws_active"
  shows "own_ok (dd_runs db') \<and> wl_lease_id l \<notin> wl_lease_id ` set (lease_rows rid db')
     \<and> rd_claims (dd_runs db') = rd_claims (dd_runs db) \<and> rd_attempts (dd_runs db') = rd_attempts (dd_runs db)
     \<and> dd_states db' = dd_states db \<and> dd_verdicts db' = dd_verdicts db"
proof -
  obtain runs where runs: "release_worker_lease e l status reason (dd_runs db) = Inr (r, runs)" and db': "db' = db\<lparr>dd_runs := runs\<rparr>"
    using on_runsD [OF rel] by blast
  have "release_leases_loop e status reason [l] (dd_runs db) = Inr ([r], runs)" by (simp add: runs)
  note rows = release_leases_loop_rows [OF this]
  have "leases_ok (rd_worker_leases (dd_runs db))" using ok by (simp add: own_ok_def)
  note d = release_worker_leaseD [OF this runs]
  have "wl_status q = status" if "q \<in> set (rd_worker_leases runs)" "wl_lease_id q = wl_lease_id l" for q
    using rows that by auto
  then have "wl_lease_id l \<notin> wl_lease_id ` set (lease_rows rid db')" using st by (auto simp: lease_rows_def db')
  then show ?thesis using d ok by (simp add: own_ok_def db')
qed

lemma release_dispatch_leaseD: "release_dispatch_lease f e d reason s db = Inr (s', db') \<Longrightarrow> \<exists>sched. db' = db\<lparr>dd_sched := sched\<rparr>"
  by (auto simp: release_dispatch_lease_def Let_def rbind_eq_Inr)

lemma await_reviewD:
  assumes ok: "own_ok (dd_runs db)" and aw: "await_review f h x es d entries metadata extra s db = Inr (updated, db')"
  shows "let_go (ru_run_id (ds_run d)) (wl_lease_id (ds_worker_lease d)) db'"
    and "run_get (ru_run_id (ds_run d)) (dd_runs db') = Some updated" and "ru_status updated = awaiting_review"
    and "dd_verdicts db' = dd_verdicts db"
proof -
  let ?rid = "ru_run_id (ds_run d)" and ?lid = "wl_lease_id (ds_worker_lease d)"
  obtain x1 db1 s2 db2 s3 db3 x4 db4 db5 db6 sn where
    t1: "on_runs (release_worker_lease (es 12) (ds_worker_lease d) ws_released ''awaiting_human_review'') db = Inr (x1, db1)"
    and t2: "release_dispatch_lease f (es 13) d ''awaiting_human_review'' s db1 = Inr (s2, db2)"
    and t3: "upsert_state s3 db2 = Inr db3"
    and t4: "on_runs (release_active_claims_for_run (es 15) ?rid cs_released ''awaiting_human_review'') db3 = Inr (x4, db4)"
    and t5: "on_runs (transition_run_status (es 16) ((ds_run d)\<lparr>ru_status := running\<rparr>) ''request_human_review'' awaiting_review) db4 = Inr (updated, db5)"
    and t6: "append_event (es 17) 0 ?rid ''review_requested'' ''run'' ?rid ''Human review requested'' db5 = Inr db6"
    and t7: "capture_run_snapshot f (es 17) 1 ?rid ss_awaiting_review ''Awaiting-review snapshot captured'' (Some (ds_task d)) extra db6 = Inr (sn, db')"
    using aw by (auto simp: await_review_def Let_def simp del: One_nat_def elim!: rbind_InrE)
  note d1 = lease_let_go [OF ok t1, of ?rid, simplified]
  obtain sched where d2: "db2 = db1\<lparr>dd_sched := sched\<rparr>" using release_dispatch_leaseD [OF t2] by blast
  note d3 = upsert_state_frame [OF t3]
  have "own_ok (dd_runs db3)" using d1 d2 d3 by simp
  note d4 = claims_run_released [OF this t4, simplified]
  obtain r5 where r5: "transition_run_status (es 16) ((ds_run d)\<lparr>ru_status := running\<rparr>) ''request_human_review'' awaiting_review (dd_runs db4) = Inr (updated, r5)"
    "db5 = db4\<lparr>dd_runs := r5\<rparr>"
    using on_runsD [OF t5] by blast
  note d5 = transition_frame [OF r5(1)] and g5 = transition_stored [OF r5(1), simplified]
  note d6 = append_event_same [OF t6] and d7 = capture_same [OF t7]
  have "let_go ?rid ?lid db5"
    using ok d1 d2 d3 d4 d5 r5(2) by (simp add: let_go_def own_ok_def claim_rows_def lease_rows_def)
  then show "let_go ?rid ?lid db'" using let_go_same [OF d6] let_go_same [OF d7] by simp
  show "run_get ?rid (dd_runs db') = Some updated" using g5 d6 d7 r5(2) by (simp add: run_get_def same_rows_def)
  show "ru_status updated = awaiting_review" by (fact g5(2))
  show "dd_verdicts db' = dd_verdicts db" using d1 d2 d3 d4 d6 d7 r5(2) by (simp add: same_rows_def)
qed

lemma end_runD:
  assumes ok: "own_ok (dd_runs db)" and en: "end_run f h x es d r v s db = Inr (updated, db')"
  shows "let_go (ru_run_id (ds_run d)) (wl_lease_id (ds_worker_lease d)) db'" and "current_rows (ru_run_id (ds_run d)) db' = []"
    and "run_get (ru_run_id (ds_run d)) (dd_runs db') = Some updated"
    and "ru_status updated = final_status (pre_review_policy (ds_preset d)) (rv_decision v) (xr_return_code r)"
    and "dd_verdicts db' = dd_verdicts db"
proof -
  let ?rid = "ru_run_id (ds_run d)" and ?lid = "wl_lease_id (ds_worker_lease d)"
  let ?st = "final_status (pre_review_policy (ds_preset d)) (rv_decision v) (xr_return_code r)"
  obtain s1 db1 s2 db2 db3 x4 db4 x5 db5 db6 db7 sn reason kind summary stage extra where
    t1: "release_dispatch_lease f (es 13) d ''run_terminal'' s db = Inr (s1, db1)"
    and t2: "upsert_state s2 db1 = Inr db2"
    and t3: "close_attempt_of (es 18) ?rid (if ?st = completed then as_completed else as_failed) reason db2 = Inr db3"
    and t4: "on_runs (release_worker_lease (es 12) (ds_worker_lease d) ws_released ''run_terminal'') db3 = Inr (x4, db4)"
    and t5: "on_runs (release_active_claims_for_run (es 15) ?rid cs_released ''run_terminal'') db4 = Inr (x5, db5)"
    and t6: "on_runs (transition_run_status (es 16) ((ds_run d)\<lparr>ru_status := running\<rparr>) ''auto_review_finalize'' ?st) db5 = Inr (updated, db6)"
    and t7: "append_event (es 17) 0 ?rid kind ''run'' ?rid summary db6 = Inr db7"
    and t8: "capture_run_snapshot f (es 17) 1 ?rid stage ''Auto terminal snapshot captured'' (Some (ds_task d)) extra db7 = Inr (sn, db')"
    using en by (auto simp: end_run_def Let_def split_beta simp del: One_nat_def elim!: rbind_InrE)
  obtain sched where d1: "db1 = db\<lparr>dd_sched := sched\<rparr>" using release_dispatch_leaseD [OF t1] by blast
  note d2 = upsert_state_frame [OF t2]
  have ok2: "own_ok (dd_runs db2)" using ok d1 d2 by simp
  have "(if ?st = completed then as_completed else as_failed) \<noteq> as_current" by simp
  note d3 = close_attempt_ofD [OF ok2 t3 this]
  note d4 = lease_let_go [OF d3(2) t4, of ?rid, simplified]
  note d5 = claims_run_released [OF _ t5, simplified]
  obtain r6 where r6: "transition_run_status (es 16) ((ds_run d)\<lparr>ru_status := running\<rparr>) ''auto_review_finalize'' ?st (dd_runs db5) = Inr (updated, r6)"
    "db6 = db5\<lparr>dd_runs := r6\<rparr>"
    using on_runsD [OF t6] by blast
  note d6 = transition_frame [OF r6(1)] and g6 = transition_stored [OF r6(1), simplified]
  note d7 = append_event_same [OF t7] and d8 = capture_same [OF t8]
  have "own_ok (dd_runs db4)" using d4 by simp
  note d5 = d5 [OF this]
  have "let_go ?rid ?lid db6" using d3(2) d4 d5 d6 r6(2) by (simp add: let_go_def own_ok_def claim_rows_def lease_rows_def)
  then show "let_go ?rid ?lid db'" using let_go_same [OF d7] let_go_same [OF d8] by simp
  show "current_rows ?rid db' = []" using d3 d4 d5 d6 d7 d8 r6(2) by (simp add: current_rows_def same_rows_def)
  show "run_get ?rid (dd_runs db') = Some updated" using g6 d7 d8 r6(2) by (simp add: run_get_def same_rows_def)
  show "ru_status updated = ?st" by (fact g6(2))
  show "dd_verdicts db' = dd_verdicts db" using d1 d2 d3 d4 d5 d7 d8 r6(2) by (simp add: same_rows_def)
qed

text \<open>What the policy of a preset promises for the outcome of an execution.\<close>

definition good_execution :: "execution \<Rightarrow> bool" where
  "good_execution r \<longleftrightarrow> xr_return_code r = 0 \<and> mutation_tests_ok (xr_metadata r) = Inr True"

definition promised_status :: "review_policy \<Rightarrow> execution \<Rightarrow> run_status" where
  "promised_status policy r =
     (case policy of
        human_required \<Rightarrow> awaiting_review
      | mandatory \<Rightarrow> awaiting_review
      | recommended \<Rightarrow> if good_execution r then completed else awaiting_review
      | auto_only \<Rightarrow> if good_execution r then completed else failed
      | optional \<Rightarrow> if xr_return_code r = 0 then completed else failed)"

definition promised_end :: "dispatched \<Rightarrow> executed_run \<Rightarrow> diag_db \<Rightarrow> bool" where
  "promised_end d b db \<longleftrightarrow>
     let_go (ru_run_id (ds_run d)) (wl_lease_id (ds_worker_lease d)) db
     \<and> run_get (ru_run_id (ds_run d)) (dd_runs db) = Some (bn_run b)
     \<and> ru_status (bn_run b) = promised_status (pre_review_policy (ds_preset d)) (bn_execution b)
     \<and> (ru_status (bn_run b) \<noteq> awaiting_review \<longrightarrow> current_rows (ru_run_id (ds_run d)) db = [])
     \<and> (case bn_verdict b of
          None \<Rightarrow> pre_review_policy (ds_preset d) = human_required
        | Some v \<Rightarrow> v \<in> set (dd_verdicts db) \<and> rv_evidence_id v = ev_evidence_id (bn_evidence b)
                    \<and> (rv_decision v = rd_pass \<longleftrightarrow> good_execution (bn_execution b)))"

lemma auto_reviewD:
  "auto_review e ev = Inr v \<Longrightarrow>
     rv_evidence_id v = ev_evidence_id ev \<and> (rv_decision v = rd_pass \<longleftrightarrow> ev_return_code ev = 0 \<and> mutation_tests_ok (ev_metadata ev) = Inr True)"
  by (auto simp: auto_review_def Let_def rbind_eq_Inr split: if_splits)

lemma review_runD:
  assumes ok: "own_ok (dd_runs db)" and ev: "ev_return_code v = xr_return_code r" "ev_metadata v = xr_metadata r"
    and rev: "review_run f h x es d r v s db = Inr (b, db')"
  shows "promised_end d b db' \<and> bn_execution b = r \<and> bn_evidence b = v"
proof (cases "pre_review_policy (ds_preset d) = human_required")
  case True
  then obtain entries metadata extra run where aw: "await_review f h x es d entries metadata extra s db = Inr (run, db')"
    and b: "b = \<lparr>bn_run = run, bn_execution = r, bn_evidence = v, bn_verdict = None\<rparr>"
    using rev by (auto simp: review_run_def await_human_review_def Let_def elim!: rbind_InrE)
  show ?thesis using await_reviewD [OF ok aw] True by (simp add: promised_end_def promised_status_def b)
next
  case False
  let ?policy = "pre_review_policy (ds_preset d)"
  obtain verdict db1 db2 run where t0: "auto_review (es 11) v = Inr verdict" and t1: "verdict_create verdict db = Inr db1"
    and t2: "append_event (es 11) 2 (ru_run_id (ds_run d)) ''review_submitted'' ''review_verdict'' (rv_verdict_id verdict)
                    (''Review verdict: '' @ review_decision_name (rv_decision verdict)) db1 = Inr db2"
    and t3: "(if ?policy = mandatory \<or> ?policy = recommended \<and> rv_decision verdict = rd_fail
                  then await_signoff f h x es d r verdict s db2 else end_run f h x es d r verdict s db2) = Inr (run, db')"
    and b: "b = \<lparr>bn_run = run, bn_execution = r, bn_evidence = v, bn_verdict = Some verdict\<rparr>"
    using rev False unfolding review_run_def Let_def by (auto elim!: rbind_InrE)
  have ok2: "own_ok (dd_runs db2)" using ok verdict_createD [OF t1] same_rows_own_ok [OF append_event_same [OF t2]] by simp
  have mem: "verdict \<in> set (dd_verdicts db2)" using verdict_createD [OF t1] append_event_same [OF t2] by (simp add: same_rows_def)
  have dec: "rv_decision verdict = rd_pass \<longleftrightarrow> good_execution r" using auto_reviewD [OF t0] ev by (simp add: good_execution_def)
  show ?thesis
  proof (cases "?policy = mandatory \<or> ?policy = recommended \<and> rv_decision verdict = rd_fail")
    case True
    then obtain entries metadata extra where "await_review f h x es d entries metadata extra s db2 = Inr (run, db')"
      using t3 by (auto simp: await_signoff_def Let_def)
    note d3 = await_reviewD [OF ok2 this]
    have "promised_status ?policy r = awaiting_review"
      using True dec by (cases "rv_decision verdict") (auto simp: promised_status_def)
    then show ?thesis using d3 mem dec auto_reviewD [OF t0] by (simp add: promised_end_def b)
  next
    case F: False
    then have "end_run f h x es d r verdict s db2 = Inr (run, db')" using trans [OF if_not_P [OF F, symmetric] t3] by simp
    note d3 = end_runD [OF ok2 this]
    have "final_status ?policy (rv_decision verdict) (xr_return_code r) = promised_status ?policy r"
      using F False dec by (cases ?policy; cases "rv_decision verdict") (auto simp: promised_status_def final_status_def good_execution_def)
    then show ?thesis using d3 mem dec auto_reviewD [OF t0] by (simp add: promised_end_def b)
  qed
qed

lemma file_evidenceD:
  assumes ok: "own_ok (dd_runs db)" and fi: "file_evidence x es d r db = Inr (v, db')"
  shows "own_ok (dd_runs db')" and "ev_return_code v = xr_return_code r" and "ev_metadata v = xr_metadata r"
proof -
  obtain status db1 db2 b' y db3 where
    t1: "append_event (es 10) 0 (ru_run_id (ds_run d)) ''runtime_task_completed'' ''runtime_task'' (ds_task d) ''Runtime task completed''
                  (update_runtime_task_status (ds_task d) status db) = Inr db1"
    and t2: "build_evidence x (es 10) (Suc 0) (ru_run_id (ds_run d)) (ds_task d) r = Inr v"
    and t3: "evidence_create v db1 = Inr db2"
    and t4: "on_runs (budget_update b') db2 = Inr (y, db3)"
    and t5: "append_event (es 10) 3 (ru_run_id (ds_run d)) ''evidence_submitted'' ''evidence'' (ev_evidence_id v) (ev_summary v) db3 = Inr db'"
    using fi unfolding file_evidence_def Let_def by (auto elim!: rbind_InrE)
  show "ev_return_code v = xr_return_code r" "ev_metadata v = xr_metadata r" using t2 by (auto simp: build_evidence_def rbind_eq_Inr)
  have r1: "dd_runs db2 = dd_runs db1" using t3 by (auto simp: evidence_create_def rbind_eq_Inr)
  obtain runs where "budget_update b' (dd_runs db2) = Inr (y, runs)" "db3 = db2\<lparr>dd_runs := runs\<rparr>" using on_runsD [OF t4] by blast
  then have r3: "rd_claims (dd_runs db3) = rd_claims (dd_runs db2) \<and> rd_worker_leases (dd_runs db3) = rd_worker_leases (dd_runs db2)
      \<and> rd_attempts (dd_runs db3) = rd_attempts (dd_runs db2)"
    by (auto simp: budget_update_def Let_def split: option.splits elim!: rbind_InrE)
  have "own_ok (dd_runs db1)" using ok same_rows_own_ok [OF append_event_same [OF t1]] by (simp add: update_runtime_task_status_def)
  then have "own_ok (dd_runs db3)" using r1 r3 by (simp add: own_ok_def)
  then show "own_ok (dd_runs db')" using same_rows_own_ok [OF append_event_same [OF t5]] by simp
qed

lemma finish_runD:
  assumes ok: "own_ok (dd_runs db)" and fi: "finish_run f h x es d r db = Inr (b, db')"
  shows "promised_end d b db'"
proof -
  obtain s r' v db1 where ev: "file_evidence x es d r' db = Inr (v, db1)" and rev: "review_run f h x es d r' v s db1 = Inr (b, db')"
    using fi unfolding finish_run_def by (auto elim!: rbind_InrE)
  show ?thesis using review_runD [OF file_evidenceD [OF ok ev] rev] by simp
qed

subsection \<open>What the others may do\<close>

text \<open>Whoever writes while the run executes keeps the ownership tables sound.\<close>

definition keeps_own :: "(diag_db, 'a) call \<Rightarrow> bool" where
  "keeps_own m \<longleftrightarrow> (\<forall>db. own_ok (dd_runs db) \<longrightarrow> own_ok (dd_runs (fst (m db))))"

definition others_keep :: "executor \<Rightarrow> hooks \<Rightarrow> barrier option \<Rightarrow> bool" where
  "others_keep x h bar \<longleftrightarrow>
     (\<forall>p. keeps_own (ex_orchestrate x p)) \<and> (\<forall>p k l c. keeps_own (ex_dispatch_remote x p k l c))
     \<and> (\<forall>b. bar = Some b \<longrightarrow> keeps_own (ba_wait b)) \<and> (\<forall>rid. keeps_run_rows (hk_record_simulation h rid))"

text \<open>
  Along a unit of work whose dispatch established \<open>P\<close>: the connection sees a state with \<open>P\<close>, and what is
  committed is the state before the work or has \<open>P\<close> as well. \<open>P\<close> must survive the renewal of expiry times.
\<close>

definition held :: "(diag_db \<Rightarrow> bool) \<Rightarrow> diag_db \<Rightarrow> diag_db \<times> diag_db \<Rightarrow> bool" where
  "held P db0 cw \<longleftrightarrow> (fst cw = db0 \<or> P (fst cw)) \<and> P (snd cw)"

definition stable :: "(diag_db \<Rightarrow> bool) \<Rightarrow> bool" where
  "stable P \<longleftrightarrow> (\<forall>db db'. renewed db db' \<longrightarrow> P db \<longrightarrow> P db')"

definition keeps :: "(diag_db \<Rightarrow> bool) \<Rightarrow> (diag_db, 'a) call \<Rightarrow> bool" where
  "keeps P m \<longleftrightarrow> (\<forall>db. P db \<longrightarrow> P (fst (m db)))"

definition others_let :: "(diag_db \<Rightarrow> bool) \<Rightarrow> executor \<Rightarrow> barrier option \<Rightarrow> bool" where
  "others_let P x bar \<longleftrightarrow>
     (\<forall>p. keeps P (ex_orchestrate x p)) \<and> (\<forall>p k l c. keeps P (ex_dispatch_remote x p k l c))
     \<and> (\<forall>b. bar = Some b \<longrightarrow> keeps P (ba_wait b))"

definition keeps_held :: "(diag_db \<Rightarrow> bool) \<Rightarrow> diag_db \<Rightarrow> (diag_db, 'a) work \<Rightarrow> bool" where
  "keeps_held P db0 m \<longleftrightarrow> (\<forall>cw. held P db0 cw \<longrightarrow> held P db0 (fst (m cw)))"

lemma stable_own: "stable (\<lambda>db. own_ok (dd_runs db))"
  by (simp add: stable_def renewed_def)

lemma others_keep_own: "others_keep x h bar \<Longrightarrow> others_let (\<lambda>db. own_ok (dd_runs db)) x bar"
  by (simp add: others_keep_def others_let_def keeps_own_def keeps_def)

lemma keeps_heldD: "keeps_held P db0 m \<Longrightarrow> m cw = (cw', r) \<Longrightarrow> held P db0 cw \<Longrightarrow> held P db0 cw'"
  unfolding keeps_held_def by (metis fst_conv)

lemma keeps_held_ebind: "keeps_held P db0 m \<Longrightarrow> (\<And>x. keeps_held P db0 (g x)) \<Longrightarrow> keeps_held P db0 (ebind m g)"
  by (auto simp: keeps_held_def ebind_def split: prod.splits sum.splits) (metis fst_conv)+

lemma keeps_held_inside: "(\<And>db y db'. P db \<Longrightarrow> t db = Inr (y, db') \<Longrightarrow> P db') \<Longrightarrow> keeps_held P db0 (inside t)"
  by (auto simp: keeps_held_def held_def inside_def split: prod.splits sum.splits)

lemma keeps_held_eret [simp]: "keeps_held P db0 (eret y)"
  by (simp add: keeps_held_def eret_def)

lemma keeps_held_fail [simp]: "keeps_held P db0 (\<lambda>cw. (cw, r))"
  by (simp add: keeps_held_def)

lemma keeps_held_commit: "keeps_held P db0 commit"
  by (simp add: keeps_held_def held_def commit_def)

lemma keeps_held_outside: "keeps P g \<Longrightarrow> keeps_held P db0 (ebind commit (\<lambda>_. outside g))"
  by (auto simp: keeps_held_def held_def keeps_def ebind_def commit_def outside_def split: prod.splits sum.splits)

lemma keeps_held_outside_ebind:
  assumes "keeps P g" and "\<And>y. keeps_held P db0 (k y)"
  shows "keeps_held P db0 (ebind commit (\<lambda>_. ebind (outside g) k))"
proof -
  have "ebind commit (\<lambda>_. ebind (outside g) k) = ebind (ebind commit (\<lambda>_. outside g)) k"
    by (rule ext) (simp add: ebind_def commit_def split: prod.splits sum.splits)
  then show ?thesis using keeps_held_ebind [OF keeps_held_outside [OF assms(1)] assms(2)] by simp
qed

lemma keeps_held_caught: "keeps_held P db0 m \<Longrightarrow> keeps_held P db0 (caught d m)"
  by (auto simp: keeps_held_def caught_def split: prod.splits sum.splits werror.splits) (metis fst_conv)+

lemma append_event_stable: "stable P \<Longrightarrow> P db \<Longrightarrow> append_event e k rid kind obj oid summary db = Inr db' \<Longrightarrow> P db'"
  using same_rows_renewed unfolding stable_def by blast

lemma upsert_state_stable:
  assumes "stable P" and "P db" and "upsert_state s db = Inr db'"
  shows "P db'"
proof -
  have "renewed db db'" using upsert_state_frame [OF assms(3)] by (simp add: renewed_def)
  then show ?thesis using assms(1,2) unfolding stable_def by blast
qed

lemma keeps_held_accept: "stable P \<Longrightarrow> keeps_held P db0 (accept_dispatch es d k r)"
  unfolding accept_dispatch_def
  by (intro keeps_held_ebind keeps_held_inside keeps_held_eret) (auto elim!: rbind_InrE intro: append_event_stable)

lemma keeps_held_execute:
  assumes st: "stable P" and o: "others_let P x bar"
  shows "keeps_held P db0 (execute_packet x es d)"
proof -
  have remote: "keeps P (ex_dispatch_remote x p k l c)" for p k l c using o by (simp add: others_let_def)
  have pool: "keeps_held P db0 (dispatch_to_pool x es d k)" for k
    unfolding dispatch_to_pool_def Let_def
    by (cases "packet_patches (ds_packet d)"; cases "wk_remote k")
      (auto intro!: keeps_held_outside_ebind [OF remote keeps_held_accept [OF st]] keeps_held_ebind [OF keeps_held_inside keeps_held_accept [OF st]]
        elim!: rbind_InrE)
  have orch: "keeps_held P db0 (ebind commit (\<lambda>_. outside (ex_orchestrate x (ds_packet d))))"
    using o by (simp add: others_let_def keeps_held_outside)
  show ?thesis
    using pool orch unfolding keeps_held_def execute_packet_def
    by (auto split: sum.splits bool.splits option.splits)
qed

lemma keeps_heartbeats:
  assumes "stable P"
  shows "keeps P (\<lambda>db. case with_heartbeats f x d db of (db', renewals) \<Rightarrow> (db', Inr renewals))"
  unfolding keeps_def with_heartbeats_def
proof (intro allI impI)
  fix db :: diag_db
  let ?h = "local_heartbeats f (ds_worker_lease d) 0 (ex_heartbeats x (ds_worker_lease d)) [] db"
  assume "P db"
  then have "P (fst ?h)" using local_heartbeats_renewed assms unfolding stable_def by blast
  then show "P (fst (case ?h of (db', renewals) \<Rightarrow> (db', Inr renewals)))" by (simp add: split_beta)
qed

lemma keeps_held_perform:
  assumes "stable P" and "others_let P x bar"
  shows "keeps_held P db0 (perform f x es d)"
proof (cases "ds_pool d")
  case None
  show ?thesis
    unfolding perform_def None option.case
    by (rule keeps_held_outside_ebind [OF keeps_heartbeats [OF assms(1)]])
      (rule keeps_held_ebind, rule keeps_held_caught, rule keeps_held_execute [OF assms], simp)
next
  case (Some k)
  then show ?thesis by (simp add: perform_def keeps_held_caught keeps_held_execute [OF assms])
qed

lemma mark_batchD:
  assumes "mark_batch e k b phase kind summary d db = Inr (d', db')"
  shows "stable P \<Longrightarrow> P db \<Longrightarrow> P db'" and "\<exists>s. d' = d\<lparr>ds_state := s\<rparr>"
proof -
  obtain s db1 where up: "upsert_state s db = Inr db1" and d': "d' = d\<lparr>ds_state := s\<rparr>"
    and ev: "append_event e k (ru_run_id (ds_run d)) kind ''parallel_batch'' (ba_id b) summary db1 = Inr db'"
    using assms unfolding mark_batch_def by (auto elim!: rbind_InrE)
  show "P db'" if "stable P" "P db"
    using append_event_stable [OF that(1) _ ev] upsert_state_stable [OF that up] by simp
  show "\<exists>s. d' = d\<lparr>ds_state := s\<rparr>" using d' by blast
qed

lemma keeps_held_barrier:
  assumes st: "stable P" and o: "others_let P x bar"
  shows "keeps_held P db0 (pass_barrier es bar d)"
proof (cases bar)
  case (Some b)
  have mark: "keeps_held P db0 (inside (mark_batch (es 8) k b phase kind summary d))" for k phase kind summary d
    by (rule keeps_held_inside) (rule mark_batchD(1) [OF _ st])
  let ?after = "\<lambda>d1 passed cw.
          if \<not> passed then (cw, Inl (ParallelBarrierBrokenError (ba_id b) (ru_run_id (ds_run d))))
          else ebind (inside (mark_batch (es 8) 1 b ''released'' ''batch_barrier_released'' ''Run crossed the batch barrier'' d1)) (\<lambda>d2.
               ebind commit (\<lambda>_. eret d2)) cw"
  have "keeps_held P db0 (ebind (inside (mark_batch (es 8) 1 b ''released'' ''batch_barrier_released'' ''Run crossed the batch barrier'' d1)) (\<lambda>d2.
               ebind commit (\<lambda>_. eret d2)))" for d1
    by (intro keeps_held_ebind mark keeps_held_commit keeps_held_eret)
  then have after: "keeps_held P db0 (?after d1 passed)" for d1 passed by (simp add: keeps_held_def)
  have "keeps P (ba_wait b)" using o Some by (simp add: others_let_def)
  then show ?thesis
    unfolding pass_barrier_def Some option.case
    by (intro keeps_held_ebind [OF mark] keeps_held_outside_ebind after)
qed (simp add: pass_barrier_def)

end
