(* ===== verification/Resume_Properties.thy ===== *)
theory Resume_Properties
  imports Resume_Effects
begin

section \<open>What comes of resuming a run\<close>

text \<open>
  A run whose resumption returns has the status that the policy of its preset promises for the execution and holds
  nothing any more. A resumption that raises is either undone or, once the dispatch is committed, leaves the run running
  and owned, and then no operation on the run is allowed; only the recording of the simulation raises after the end of a run.
\<close>

subsection \<open>The parts of a resumption\<close>

lemma pass_barrierD:
  assumes "pass_barrier es bar d0 cw = (cw', Inr d)"
  shows "\<exists>s. d = d0\<lparr>ds_state := s\<rparr>"
proof (cases bar)
  case None
  then show ?thesis using assms by (auto simp: pass_barrier_def intro: exI [of _ "ds_state d0"])
next
  case (Some b)
  obtain d1 cw1 passed cw2 where m1: "inside (mark_batch (es 8) 0 b ''waiting'' ''batch_barrier_waiting'' ''Run is waiting on the batch barrier'' d0) cw = (cw1, Inr d1)"
    and rest: "(if \<not> passed then (cw2, Inl (ParallelBarrierBrokenError (ba_id b) (ru_run_id (ds_run d0))))
          else ebind (inside (mark_batch (es 8) 1 b ''released'' ''batch_barrier_released'' ''Run crossed the batch barrier'' d1)) (\<lambda>d2.
               ebind commit (\<lambda>_. eret d2)) cw2) = (cw', Inr d)"
    using assms unfolding pass_barrier_def Some option.case ebind_Inr by blast
  obtain cw3 where m2: "inside (mark_batch (es 8) 1 b ''released'' ''batch_barrier_released'' ''Run crossed the batch barrier'' d1) cw2 = (cw3, Inr d)"
    using rest by (auto simp: ebind_Inr split: if_splits)
  obtain s1 s2 where "d1 = d0\<lparr>ds_state := s1\<rparr>" "d = d1\<lparr>ds_state := s2\<rparr>"
    using mark_batchD(2) [OF conjunct2 [OF m1 [unfolded inside_Inr]]] mark_batchD(2) [OF conjunct2 [OF m2 [unfolded inside_Inr]]] by blast
  then show ?thesis by (intro exI [of _ s2]) simp
qed

lemma resume_workD:
  assumes ok: "own_ok (dd_runs db)" and P: "stable P" "\<And>db. P db \<Longrightarrow> own_ok (dd_runs db)" and o: "others_let P x bar"
    and start: "\<And>d0 db1. dispatch_run f x es run preset task packet receipt db = Inr (d0, db1) \<Longrightarrow> P db1"
    and w: "unit_of_work (resume_work f h x es run preset task packet receipt bar) db = (db', Inr b)"
  obtains d where "ds_run d = run" and "ds_preset d = preset" and "wl_lease_id (ds_worker_lease d) = new_id ''lease'' (hex12 (es 7) 0)"
    and "promised_end d b db'"
proof -
  obtain d0 c1 d c2 r c3 c where di: "inside (dispatch_run f x es run preset task packet receipt) (db, db) = (c1, Inr d0)"
    and ba: "pass_barrier es bar d0 c1 = (c2, Inr d)" and pe: "perform f x es d c2 = (c3, Inr r)"
    and fi: "inside (finish_run f h x es d r) c3 = ((c, db'), Inr b)"
    using w unfolding unit_of_work_Inr resume_work_def ebind_Inr by blast
  have di': "dispatch_run f x es run preset task packet receipt db = Inr (d0, snd c1)" "fst c1 = db" using di by (simp_all add: inside_Inr)
  note d1 = dispatch_runD [OF ok di'(1)]
  have "held P db c1" using start [OF di'(1)] di'(2) by (simp add: held_def)
  then have "held P db c2" by (rule keeps_heldD [OF keeps_held_barrier [OF P(1) o] ba])
  then have "held P db c3" by (rule keeps_heldD [OF keeps_held_perform [OF P(1) o] pe])
  then have "own_ok (dd_runs (snd c3))" using P(2) by (simp add: held_def)
  then have "promised_end d b db'" using finish_runD [OF _ conjunct2 [OF fi [unfolded inside_Inr]]] by simp
  moreover have "ds_run d = run" "ds_preset d = preset" "wl_lease_id (ds_worker_lease d) = new_id ''lease'' (hex12 (es 7) 0)"
    using pass_barrierD [OF ba] d1(3,6) by auto
  ultimately show thesis using that by blast
qed

lemma resume_runD:
  assumes "resume_run f h x es rid receipt bar db = (db', Inr b)"
  obtains run preset task packet db1 where "get_run rid db = Inr run" and "ru_status run = prepared"
    and "dd_presets db (ru_preset_id run) = Some preset"
    and "unit_of_work (resume_work f h x es run preset task packet receipt bar) db = (db1, Inr b)"
    and "hk_record_simulation h rid db1 = (db', Inr ())"
proof -
  obtain run preset task packet db1 where g: "get_run rid db = Inr run" and st: "require_status run ''resume'' [prepared] = Inr ()"
    and p: "(case dd_presets db (ru_preset_id run) of
               None \<Rightarrow> Inl (PresetNotFoundError (''preset not found: '' @ ru_preset_id run)) | Some p \<Rightarrow> Inr p) = Inr preset"
    and w: "unit_of_work (resume_work f h x es run preset task packet receipt bar) db = (db1, Inr b)"
    and s: "hk_record_simulation h rid db1 = (db', Inr ())"
    using assms unfolding resume_run_def by (auto simp: ebind_Inr reading_def)
  have "ru_status run = prepared" using st by (auto simp: require_status_def)
  moreover have "dd_presets db (ru_preset_id run) = Some preset" using p by (simp split: option.splits)
  ultimately show thesis using that g w s by blast
qed

subsection \<open>A resumption that returns\<close>

text \<open>C14: Resuming a run that returns found it prepared and leaves it with the status that the review policy of its preset
  promises for the execution; the run has no active claim, the worker lease of the dispatch is not active, a terminal run has no
  current attempt, and a verdict of the automatic review is stored, refers to the evidence and passes exactly a good execution.\<close>

theorem resume_keeps_promise:
  assumes ok: "own_ok (dd_runs db)" and o: "others_keep x h bar"
    and res: "resume_run f h x es rid receipt bar db = (db', Inr b)"
  shows "\<exists>run preset. run_get rid (dd_runs db) = Some run \<and> ru_status run = prepared \<and> dd_presets db (ru_preset_id run) = Some preset
     \<and> own_ok (dd_runs db') \<and> run_get rid (dd_runs db') = Some (bn_run b)
     \<and> ru_status (bn_run b) = promised_status (pre_review_policy preset) (bn_execution b)
     \<and> claim_rows rid db' = [] \<and> new_id ''lease'' (hex12 (es 7) 0) \<notin> wl_lease_id ` set (lease_rows rid db')
     \<and> (ru_status (bn_run b) \<noteq> awaiting_review \<longrightarrow> current_rows rid db' = [])
     \<and> (case bn_verdict b of
          None \<Rightarrow> pre_review_policy preset = human_required
        | Some v \<Rightarrow> v \<in> set (dd_verdicts db') \<and> rv_evidence_id v = ev_evidence_id (bn_evidence b)
                    \<and> (rv_decision v = rd_pass \<longleftrightarrow> good_execution (bn_execution b)))"
  using res
proof (cases rule: resume_runD)
  case (1 run preset task packet db1)
  have start: "own_ok (dd_runs db2)" if "dispatch_run f x es run preset task packet receipt db = Inr (d0, db2)" for d0 db2
    using dispatch_runD(1) [OF ok that] .
  obtain d where d: "ds_run d = run" "ds_preset d = preset" "wl_lease_id (ds_worker_lease d) = new_id ''lease'' (hex12 (es 7) 0)"
    "promised_end d b db1"
    by (rule resume_workD [OF ok stable_own _ others_keep_own [OF o] _ 1(4)]) (use start in blast)+
  have same: "same_rows db1 db'" using o 1(5) unfolding others_keep_def keeps_run_rows_def by (metis fst_conv)
  have run: "run_get rid (dd_runs db) = Some run" "ru_run_id run = rid"
    using 1(1) get_run_id [OF 1(1)] by (auto simp: get_run_def split: option.splits)
  have "let_go rid (new_id ''lease'' (hex12 (es 7) 0)) db'" using d run(2) let_go_same [OF same] by (simp add: promised_end_def)
  then show ?thesis
    using d run 1(2,3) same unfolding promised_end_def let_go_def
    by (intro exI [of _ run] exI [of _ preset]) (auto simp: same_rows_def run_get_def current_rows_def split: option.splits)
qed

subsection \<open>A resumption that raises\<close>

lemma renewed_owned:
  assumes r: "renewed db db'" and o: "owned_by rid task lid db"
  shows "owned_by rid task lid db'"
proof -
  obtain run a c l where run: "run_get rid (dd_runs db) = Some run" "ru_status run = running"
    and a: "current_rows rid db = [a]" "ra_runtime_task_id a = task"
    and c: "c \<in> set (claim_rows rid db)" "rc_runtime_task_id c = task" "rc_attempt_id c = Some (ra_attempt_id a)"
    and l: "l \<in> set (lease_rows rid db)" "wl_lease_id l = lid" "wl_claim_id l = Some (rc_claim_id c)" "wl_attempt_id l = Some (ra_attempt_id a)"
    using o unfolding owned_by_def by blast
  obtain c' where c': "c' \<in> set (rd_claims (dd_runs db'))" "erase_claim c' = erase_claim c"
    using renewed_mem [of erase_claim] r c(1) unfolding renewed_def claim_rows_def by fastforce
  obtain l' where l': "l' \<in> set (rd_worker_leases (dd_runs db'))" "erase_lease l' = erase_lease l"
    using renewed_mem [of erase_lease] r l(1) unfolding renewed_def lease_rows_def by fastforce
  have ce: "rc_claim_id c' = rc_claim_id c" "rc_run_id c' = rc_run_id c" "rc_status c' = rc_status c"
    "rc_runtime_task_id c' = rc_runtime_task_id c" "rc_attempt_id c' = rc_attempt_id c"
    using c'(2) by (metis erase_claim_simps)+
  have le: "wl_lease_id l' = wl_lease_id l" "wl_run_id l' = wl_run_id l" "wl_status l' = wl_status l"
    "wl_claim_id l' = wl_claim_id l" "wl_attempt_id l' = wl_attempt_id l"
    using l'(2) by (metis erase_lease_simps)+
  have "c' \<in> set (claim_rows rid db')" "l' \<in> set (lease_rows rid db')" "current_rows rid db' = [a]" "run_get rid (dd_runs db') = Some run"
    using c c' ce l l' le a run r by (simp_all add: claim_rows_def lease_rows_def current_rows_def renewed_def run_get_def)
  then show ?thesis unfolding owned_by_def using run a c l ce le by metis
qed

definition run_owned :: "string \<Rightarrow> string \<Rightarrow> string \<Rightarrow> diag_db \<Rightarrow> bool" where
  "run_owned rid task lid db \<longleftrightarrow> own_ok (dd_runs db) \<and> owned_by rid task lid db"

lemma stable_owned: "stable (run_owned rid task lid)"
  using renewed_owned by (auto simp: stable_def run_owned_def renewed_def)

text \<open>
  Whoever writes while the run executes, an orchestration, a remote worker or the other members of a batch, leaves a run
  owned that is owned; recording the simulation, which may raise, leaves the rows of the runs alone.
\<close>

definition others_leave :: "executor \<Rightarrow> hooks \<Rightarrow> barrier option \<Rightarrow> string \<Rightarrow> bool" where
  "others_leave x h bar rid \<longleftrightarrow>
     (\<forall>task lid. others_let (run_owned rid task lid) x bar) \<and> keeps_run_rows (hk_record_simulation h rid)"

lemma reading_Inl: "reading t s = (s', Inl e) \<longleftrightarrow> s' = s \<and> t s = Inl e"
  by (auto simp: reading_def split: sum.splits)

lemma reading_Inr: "reading t s = (s', Inr x) \<longleftrightarrow> s' = s \<and> t s = Inr x"
  by (auto simp: reading_def split: sum.splits)

lemma ebind_Inl:
  "ebind m g s = (s', Inl e) \<longleftrightarrow> m s = (s', Inl e) \<or> (\<exists>x s1. m s = (s1, Inr x) \<and> g x s1 = (s', Inl e))"
  by (auto simp: ebind_def split: prod.splits sum.splits)

text \<open>A failure after the dispatch: nothing was committed yet, or the run is owned by this dispatch.\<close>

lemma resume_run_raisedD:
  assumes res: "resume_run f h x es rid receipt bar db = (db', Inl err)" and changed: "db' \<noteq> db"
  obtains run preset task packet where "get_run rid db = Inr run" and "dd_presets db (ru_preset_id run) = Some preset"
    and "unit_of_work (resume_work f h x es run preset task packet receipt bar) db = (db', Inl err)
        \<or> (\<exists>b db1. unit_of_work (resume_work f h x es run preset task packet receipt bar) db = (db1, Inr b)
             \<and> hk_record_simulation h rid db1 = (db', Inl err))"
proof (cases "get_run rid db")
  case (Inl e)
  then show thesis using res changed by (simp add: resume_run_def ebind_def reading_def)
next
  case run: (Inr run)
  show thesis
  proof (cases "require_status run ''resume'' [prepared]")
    case (Inl e)
    then show thesis using res changed run by (simp add: resume_run_def ebind_def reading_def)
  next
    case status: (Inr u)
    show thesis
    proof (cases "dd_presets db (ru_preset_id run)")
      case None
      then show thesis using res changed run status by (simp add: resume_run_def ebind_def reading_def)
    next
      case preset: (Some preset)
      show thesis
      proof (cases "list_runtime_tasks_for_run rid db")
        case Nil
        then show thesis using res changed run status preset by (simp add: resume_run_def ebind_def reading_def)
      next
        case tasks: (Cons task ts)
        show thesis
        proof (cases "get_task_packet task db")
          case None
          then show thesis using res changed run status preset tasks by (simp add: resume_run_def ebind_def reading_def)
        next
          case packet: (Some packet)
          show thesis
            using that [OF run preset, of task packet] res run status preset tasks packet unfolding resume_run_def ebind_Inl reading_Inl reading_Inr
            by (simp add: eret_def)
        qed
      qed
    qed
  qed
qed

lemma resume_work_Inl:
  assumes ok: "own_ok (dd_runs db)" and lid: "lid = new_id ''lease'' (hex12 (es 7) 0)"
    and o: "others_let (run_owned (ru_run_id run) task lid) x bar"
    and w: "unit_of_work (resume_work f h x es run preset task packet receipt bar) db = (db', Inl err)"
  shows "db' = db \<or> run_owned (ru_run_id run) task lid db'"
proof -
  let ?P = "run_owned (ru_run_id run) task lid"
  let ?rest = "\<lambda>d0. ebind (pass_barrier es bar d0) (\<lambda>d. ebind (perform f x es d) (\<lambda>r. inside (finish_run f h x es d r)))"
  obtain c where w': "ebind (inside (dispatch_run f x es run preset task packet receipt)) ?rest (db, db) = ((db', c), Inl err)"
    using w unfolding unit_of_work_Inl resume_work_def by blast
  show ?thesis
  proof (cases "dispatch_run f x es run preset task packet receipt db")
    case (Inl e)
    then show ?thesis using w' by (simp add: ebind_def inside_def)
  next
    case (Inr y)
    obtain d0 db1 where y: "y = (d0, db1)" by (cases y)
    note d1 = dispatch_runD [OF ok Inr [unfolded y]]
    have start: "held ?P db (db, db1)" using d1(1,2,6) lid by (simp add: held_def run_owned_def)
    have "ebind (inside (dispatch_run f x es run preset task packet receipt)) ?rest (db, db) = ?rest d0 (db, db1)"
      by (subst ebind_def) (simp add: inside_def Inr y)
    then have "?rest d0 (db, db1) = ((db', c), Inl err)" using w' by simp
    then consider "pass_barrier es bar d0 (db, db1) = ((db', c), Inl err)"
      | d c2 where "pass_barrier es bar d0 (db, db1) = (c2, Inr d)" "perform f x es d c2 = ((db', c), Inl err)"
      | d c2 r c3 where "pass_barrier es bar d0 (db, db1) = (c2, Inr d)" "perform f x es d c2 = (c3, Inr r)"
          "inside (finish_run f h x es d r) c3 = ((db', c), Inl err)"
      unfolding ebind_Inl by blast
    then have "held ?P db (db', c)"
    proof cases
      case 1
      then show ?thesis using keeps_heldD [OF keeps_held_barrier [OF stable_owned o] _ start] by blast
    next
      case 2
      then show ?thesis
        using keeps_heldD [OF keeps_held_perform [OF stable_owned o] _ keeps_heldD [OF keeps_held_barrier [OF stable_owned o] _ start]] by blast
    next
      case 3
      have "c3 = (db', c)" using 3(3) by (auto simp: inside_def split: sum.splits)
      then show ?thesis using 3(1,2)
          keeps_heldD [OF keeps_held_perform [OF stable_owned o] _ keeps_heldD [OF keeps_held_barrier [OF stable_owned o] _ start]] by blast
    qed
    then show ?thesis by (simp add: held_def)
  qed
qed

text \<open>No operation on a run is allowed while it is running.\<close>

lemma running_refused:
  assumes "run_get rid (dd_runs db) = Some run" and "ru_status run = running"
  shows "\<exists>e. resume_run f h x es rid receipt bar db = (db, Inl e)" and "\<exists>e. cancel_run f h es rid db = (db, Inl e)"
    and "\<exists>e. finalize_human_review f h es rid d why db = (db, Inl e)"
  using assms by (auto simp: get_run_def resume_run_def cancel_run_def finalize_human_review_def ebind_def reading_def require_status_def)

text \<open>C15: A resumption that raises and has changed anything, whoever executes the run, with or without a barrier, either
  leaves the run running, with a current attempt, an active claim and an active worker lease that name each other, and then
  resuming, cancelling and reviewing are all refused; or the run had come to its end, in the status that the policy of its preset
  promises and without an active claim or its worker lease, and it was the recording of the simulation that raised. Assumed is
  that orchestrations, remote workers and the other members of the batch leave the rows that own this run alone, and that the
  recording of the simulation leaves the rows of all runs alone (\<open>others_leave\<close>).\<close>

theorem failed_resume_strands_run:
  assumes ok: "own_ok (dd_runs db)" and o: "others_leave x h bar rid"
    and res: "resume_run f h x es rid receipt bar db = (db', Inl err)" and changed: "db' \<noteq> db"
  shows "own_ok (dd_runs db')
     \<and> ((\<exists>task. owned_by rid task (new_id ''lease'' (hex12 (es 7) 0)) db')
          \<and> (\<forall>f h x es receipt bar. \<exists>e. resume_run f h x es rid receipt bar db' = (db', Inl e))
          \<and> (\<forall>f h es. \<exists>e. cancel_run f h es rid db' = (db', Inl e))
          \<and> (\<forall>f h es d why. \<exists>e. finalize_human_review f h es rid d why db' = (db', Inl e))
        \<or> (\<exists>db1. hk_record_simulation h rid db1 = (db', Inl err))
          \<and> (\<exists>run preset (b :: executed_run). run_get rid (dd_runs db) = Some run \<and> dd_presets db (ru_preset_id run) = Some preset
               \<and> run_get rid (dd_runs db') = Some (bn_run b)
               \<and> ru_status (bn_run b) = promised_status (pre_review_policy preset) (bn_execution b)
               \<and> claim_rows rid db' = [] \<and> new_id ''lease'' (hex12 (es 7) 0) \<notin> wl_lease_id ` set (lease_rows rid db')))"
proof -
  let ?lid = "new_id ''lease'' (hex12 (es 7) 0)"
  obtain run preset task packet where g: "get_run rid db = Inr run" and preset: "dd_presets db (ru_preset_id run) = Some preset"
    and w: "unit_of_work (resume_work f h x es run preset task packet receipt bar) db = (db', Inl err)
        \<or> (\<exists>b db1. unit_of_work (resume_work f h x es run preset task packet receipt bar) db = (db1, Inr b)
             \<and> hk_record_simulation h rid db1 = (db', Inl err))"
    using resume_run_raisedD [OF res changed] by blast
  have run: "run_get rid (dd_runs db) = Some run" "ru_run_id run = rid"
    using g get_run_id [OF g] by (auto simp: get_run_def split: option.splits)
  have ow: "others_let (run_owned rid task ?lid) x bar" and sim: "keeps_run_rows (hk_record_simulation h rid)"
    using o by (simp_all add: others_leave_def)
  from w show ?thesis
  proof (elim disjE exE conjE)
    assume raised: "unit_of_work (resume_work f h x es run preset task packet receipt bar) db = (db', Inl err)"
    have st: "own_ok (dd_runs db')" "owned_by rid task ?lid db'"
      using resume_work_Inl [where lid = ?lid, OF ok refl _ raised] ow run(2) changed by (auto simp: run_owned_def)
    obtain run' where run': "run_get rid (dd_runs db') = Some run'" "ru_status run' = running" using st(2) unfolding owned_by_def by blast
    show ?thesis using st running_refused [OF run'] by blast
  next
    fix b db1
    assume "unit_of_work (resume_work f h x es run preset task packet receipt bar) db = (db1, Inr b)"
      and raised: "hk_record_simulation h rid db1 = (db', Inl err)"
    moreover have "run_owned rid task ?lid db2" if "dispatch_run f x es run preset task packet receipt db = Inr (d0, db2)" for d0 db2
      using dispatch_runD(1,2,6) [OF ok that] run(2) by (simp add: run_owned_def)
    ultimately obtain d where d: "ds_run d = run" "ds_preset d = preset" "wl_lease_id (ds_worker_lease d) = ?lid" "promised_end d b db1"
      using resume_workD [OF ok stable_owned _ ow] run_owned_def by metis
    have same: "same_rows db1 db'" using sim raised unfolding keeps_run_rows_def by (metis fst_conv)
    have ended: "let_go rid ?lid db'" using d run(2) let_go_same [OF same] by (simp add: promised_end_def)
    have "run_get rid (dd_runs db') = Some (bn_run b)"
      "ru_status (bn_run b) = promised_status (pre_review_policy preset) (bn_execution b)"
      using d run(2) same by (simp_all add: promised_end_def same_rows_def run_get_def)
    then have "\<exists>run preset (b :: executed_run). run_get rid (dd_runs db) = Some run \<and> dd_presets db (ru_preset_id run) = Some preset
               \<and> run_get rid (dd_runs db') = Some (bn_run b)
               \<and> ru_status (bn_run b) = promised_status (pre_review_policy preset) (bn_execution b)
               \<and> claim_rows rid db' = [] \<and> ?lid \<notin> wl_lease_id ` set (lease_rows rid db')"
      using ended run(1) preset unfolding let_go_def by blast
    moreover have "own_ok (dd_runs db')" using ended by (simp add: let_go_def)
    ultimately show ?thesis using raised by blast
  qed
qed

subsection \<open>A demonstration\<close>

definition demo_facade :: orchestrator where
  "demo_facade = demo_orchestrator\<lparr>fc_plane := demo_plane\<lparr>pl_isoformat := (\<lambda>_. ''i''), pl_json_time := (\<lambda>_. ''j'')\<rparr>\<rparr>"

definition demo_execution :: "int \<Rightarrow> execution" where
  "demo_execution code = \<lparr>xr_return_code = code, xr_duration_ms = 7, xr_artifact_paths = [], xr_adapter_name = ''shell'', xr_metadata = []\<rparr>"

definition demo_executor :: "bool \<Rightarrow> (werror + execution) \<Rightarrow> executor" where
  "demo_executor plan result =
     \<lparr>ex_gateway_resume = (\<lambda>_ s. null_gateway_resume (demo_env 9 ''g'') (s\<lparr>st_state_payload := []\<rparr>)), ex_checkpoint = (\<lambda>refs _. Inr refs),
      ex_handoff_sources = (\<lambda>_ _ _. \<lparr>hs_snapshot_payload = [], hs_review_state = [], hs_durable_refs = [], hs_replay_excerpt = []\<rparr>),
      ex_db_path = ''db'',
      ex_validate_envelope = (\<lambda>d. Inr \<lparr>en_dump = d, en_mutation_mode = Some ''patch_apply'', en_write_set = [''a''], en_operator_receipt_id = None,
                                         en_live_required = False\<rparr>),
      ex_live_proof = (\<lambda>_. False), ex_enforcement = False, ex_route = (\<lambda>_. Inr ''ShellAdapter''), ex_pool = (\<lambda>_. None),
      ex_has_plan = (\<lambda>_ _ _. Inr plan), ex_orchestrate = (\<lambda>_ db. (db\<lparr>dd_sched := (dd_sched db)\<lparr>sd_decisions := []\<rparr>\<rparr>, result)), ex_dispatch_remote = (\<lambda>_ _ _ _ db. (db, result)),
      ex_dispatch_loopback = (\<lambda>_ _ _ _. result), ex_mutate = (\<lambda>_ _. result),
      ex_heartbeats = (\<lambda>_. []), ex_read_artifact = (\<lambda>_. Inr ()), ex_receipt = (\<lambda>_ _. Inr None)\<rparr>"

definition demo_prepared :: "review_policy \<Rightarrow> bool \<Rightarrow> diag_db" where
  "demo_prepared policy patch =
     (demo_diag prepared)
       \<lparr>dd_runs := (dd_runs (demo_diag prepared))\<lparr>rd_claims := []\<rparr>,
        dd_states := [\<lparr>st_state_ref_id = ''s'', st_run_id = ''r'', st_runtime_task_id = ''t'', st_graph_step = gs_compiled,
                       st_state_payload = (if patch then [(''capability_invocation_envelope'', JObj [])] else []), st_is_terminal = False,
                       st_updated_at = 0, st_created_at = 0\<rparr>],
        dd_evidence := [],
        dd_packets := [\<lparr>pk_packet_id = ''q'', pk_runtime_task_id = ''t'', pk_run_id = ''r'', pk_env = [],
                        pk_contract = (if patch then Some \<lparr>pc_task_card_ref = Some ''card'', pc_task_card_path = None, pc_patch_apply = True\<rparr> else None)\<rparr>],
        dd_presets := (\<lambda>_. Some \<lparr>pre_review_policy = policy, pre_max_retries = 1, pre_timeout_seconds = 60\<rparr>)\<rparr>"

lemma demo_prepared_ok: "own_ok (dd_runs (demo_prepared policy patch))"
  by (simp add: demo_prepared_def demo_diag_def own_ok_def claims_ok_def claims_unique_def leases_ok_def attempts_ok_def attempts_unique_def
      seqs_ok_def current_last_def run_attempts_def)

lemma demo_others: "others_keep (demo_executor plan result) demo_hooks None"
  by (simp add: others_keep_def keeps_own_def demo_executor_def demo_keeps)

text \<open>The gateway of the demonstration drops what the state records of the scheduler, so that it need not be computed.\<close>

declare arbitration_updates_def [code del]

theorem resume_keeps_promise_witness:
  "\<exists>db b. resume_run demo_facade demo_hooks (demo_executor True (Inr (demo_execution 1))) demo_parts ''r'' None None (demo_prepared recommended False) = (db, Inr b)
     \<and> ru_status (bn_run b) = awaiting_review \<and> claim_rows ''r'' db = [] \<and> own_ok (dd_runs db)"
proof -
  have "case snd (resume_run demo_facade demo_hooks (demo_executor True (Inr (demo_execution 1))) demo_parts ''r'' None None (demo_prepared recommended False)) of
      Inr b \<Rightarrow> ru_status (bn_run b) = awaiting_review | Inl _ \<Rightarrow> False"
    by code_simp
  then obtain db b where res: "resume_run demo_facade demo_hooks (demo_executor True (Inr (demo_execution 1))) demo_parts ''r'' None None
      (demo_prepared recommended False) = (db, Inr b)" and st: "ru_status (bn_run b) = awaiting_review"
    by (rule call_valueE)
  show ?thesis using resume_keeps_promise [OF demo_prepared_ok demo_others res] res st by auto
qed

lemma demo_others_leave: "others_leave (demo_executor plan result) demo_hooks None rid"
  by (simp add: others_leave_def others_let_def keeps_def demo_executor_def demo_keeps run_owned_def owned_by_def current_rows_def
      claim_rows_def lease_rows_def run_get_def)

theorem failed_resume_strands_run_witness:
  "\<exists>db. resume_run demo_facade demo_hooks (demo_executor False (Inl (RepoMutationScopeError []))) demo_parts ''r'' None None (demo_prepared auto_only False)
         = (db, Inl (RepoMutationScopeError []))
     \<and> (\<exists>task. owned_by ''r'' task (new_id ''lease'' (hex12 (demo_parts 7) 0)) db)
     \<and> (\<exists>e. cancel_run demo_facade demo_hooks demo_parts ''r'' db = (db, Inl e))"
proof -
  let ?x = "demo_executor False (Inl (RepoMutationScopeError []))"
  obtain db r where res: "resume_run demo_facade demo_hooks ?x demo_parts ''r'' None None (demo_prepared auto_only False) = (db, r)" by fastforce
  have "case resume_run demo_facade demo_hooks ?x demo_parts ''r'' None None (demo_prepared auto_only False) of
      (db, r) \<Rightarrow> r = Inl (RepoMutationScopeError []) \<and> rd_claims (dd_runs db) \<noteq> []"
    by code_simp
  then have r: "r = Inl (RepoMutationScopeError [])" and ch: "rd_claims (dd_runs db) \<noteq> []" by (simp_all add: res)
  have "db \<noteq> demo_prepared auto_only False" using ch by (auto simp: demo_prepared_def)
  moreover have "\<not> (\<exists>db1. hk_record_simulation demo_hooks ''r'' db1 = (db, Inl e))" for e
    by (simp add: demo_hooks_def eret_def)
  ultimately show ?thesis
    using failed_resume_strands_run [OF demo_prepared_ok demo_others_leave res [unfolded r]] res r by blast
qed

declare arbitration_updates_def [code]

end
