(* ===== verification/Spec2Isabelle.thy ===== *)
theory Spec2Isabelle
  imports Sched_Properties Run_Budget Patch_Roundtrip Snapshot_Coverage Guard_Properties Batch_Properties Orch_Properties
    Graph_Properties Execution_Properties Callback_Properties Command_Properties Lease_Properties Profile_Properties Repair_Properties Resume_Properties
begin
text \<open>
  A verification development for the orchestration core of the workflow system under \<^verbatim>\<open>src/packages\<close>, the
  control plane that schedules runs onto workers, owns their attempts, lets agents change a workspace and keeps
  the people who operate it in control.

  \<^bold>\<open>The program and its model.\<close> The services are Python mixins over SQLite repositories; each operation opens a
  unit of work, reads and writes rows, and either commits or raises. The model has one record per row type, a
  record of lists of rows per database (in the order of their row ids), and one function per operation from the
  database to \<open>werror + result \<times> database\<close>. A raised exception is \<open>Inl\<close> with the exception's class and message;
  the transaction is rolled back because the caller keeps the old database (\<open>run_events\<close>). What the code draws from
  outside, the clock and \<open>uuid4\<close>, are the functions \<open>clock\<close> and \<open>hex12\<close> of the record \<open>env\<close>, by the order of the
  reads. Times are integers (microseconds). Everything is executable.

  \<^item> \<open>WF_Prelude\<close>, \<open>Py_Text\<close>, \<open>Py_Path\<close>, \<open>Py_Json\<close>: exceptions (\<^verbatim>\<open>errors.py\<close>), the error monad, the SQL idioms of
    \<^verbatim>\<open>repositories.py\<close>, and the string, path and JSON functions of the standard library that the code uses.
  \<^item> Scheduler leases: \<open>Sched_Store\<close> (rows and repositories), \<open>Lease_Ledger\<close> (what both arbiters do to the committed
    leases), \<open>Local_Arbiter\<close> (\<^verbatim>\<open>local_scheduler_lease_arbiter.py\<close>), \<open>Quorum_Authority\<close> and \<open>Quorum_Terms\<close>
    (\<^verbatim>\<open>scheduler_authority.py\<close> and its invariant), \<open>Sched_Service\<close> (\<^verbatim>\<open>service_scheduler.py\<close>, which relies on either
    arbiter). \<open>Lease_Contract\<close> states the contract between service and arbiter as locales; both arbiters interpret it.
    \<open>Quorum_Election\<close>: who is active and who leads after a submission, and that a submission is answered.
    \<open>Sched_Properties\<close>: at most one unreleased lease per domain, fencing by epoch, exclusion of other planes, one
    handoff per takeover, quorum decisions, terms and availability, over every sequence of transactions.
  \<^item> Runs: \<open>Run_Contracts\<close>, \<open>Run_Store\<close>, \<open>Run_Ownership\<close> (claims, worker leases, attempts, status transitions of
    \<^verbatim>\<open>services.py\<close>, \<^verbatim>\<open>service_core_helpers.py\<close>, \<^verbatim>\<open>service_lifecycle.py\<close>), \<open>Run_Laws\<close> (the invariant \<open>own_ok\<close>),
    \<open>Run_Effects\<close>, \<open>Run_Properties\<close> (exclusive ownership, and the statuses the store of runs goes through).
    \<open>Run_Budget\<close> is the part of \<open>recompile_run\<close> that is charged to a run's ledger, with the guard of its task cards.
  \<^item> Worker callbacks: \<open>Worker_Callbacks\<close> (\<^verbatim>\<open>service_worker_callbacks.py\<close>) joins the two stores; \<open>Callback_Properties\<close>
    shows that a callback takes effect once and that a retired token changes nothing.
  \<^item> Diagnosis and repair: \<open>Sched_Projection\<close> (\<^verbatim>\<open>service_scheduler_lease_projection.py\<close>: what a state row records of the
    scheduler), \<open>Run_Diagnostics\<close> (the context of a run, its snapshots and the problems of \<^verbatim>\<open>service_inspection.py\<close>),
    \<open>Run_Repair\<close> (\<^verbatim>\<open>service_repair.py\<close>, \<open>cancel_run\<close> and the human review of \<^verbatim>\<open>service_lifecycle.py\<close>).
    \<open>Repair_Properties\<close>: which repairs remove the problem they are for, a cancelled run is clean, a review ends its run.
  \<^item> Execution: \<open>Local_Heartbeat\<close> and \<open>Run_Resume\<close> (\<open>resume_run\<close> of \<^verbatim>\<open>service_lifecycle.py\<close> with \<^verbatim>\<open>auto_review.py\<close>: dispatch,
    heartbeats, execution, evidence, review). A unit of work that commits on its way is a function over the committed and
    the seen state (\<open>work\<close>). \<open>Resume_Effects\<close> and \<open>Resume_Properties\<close> follow the ownership of a run through it; what
    other writers may do meanwhile is stated as a hypothesis (\<open>others_keep\<close>, \<open>others_leave\<close>).
  \<^item> Workspace changes: \<open>Patch_Engine\<close> and \<open>Workspace\<close> (\<^verbatim>\<open>repo_mutation.py\<close>: paths, write sets, diffs, snapshots),
    \<open>Repo_Mutation\<close> (\<^verbatim>\<open>service_repo_mutation.py\<close>). \<open>Patch_Laws\<close> and \<open>Patch_Roundtrip\<close> relate the engine to a declarative
    reading of diffs; \<open>Workspace_Laws\<close>, \<open>Repo_Mutation_Properties\<close> and \<open>Snapshot_Coverage\<close> show that changes stay in
    scope and are undone when they fail.
  \<^item> Operators: \<open>Operator_Guard\<close> and \<open>Guard_Properties\<close> (\<^verbatim>\<open>service_operator_action_guard.py\<close>: receipts are consumed
    once; interleaved consumers are the steps of \<open>guard_step\<close>), \<open>Automation_Lease\<close> and \<open>Lease_Properties\<close>
    (\<^verbatim>\<open>automation_lease.py\<close> and its client in \<^verbatim>\<open>runtime_langgraph/interrupts.py\<close>).
  \<^item> Commands: \<open>Safe_Command\<close> and \<open>Command_Properties\<close> (\<^verbatim>\<open>runtime_security/safe_command_runner.py\<close>).
  \<^item> Orchestration: \<open>Agent_Profiles\<close>, \<open>Cluster_Templates\<close> (\<^verbatim>\<open>interaction_catalog.py\<close>, every registered entry),
    \<open>Orch_Plan\<close>, \<open>Orch_Graph\<close>, \<open>Orch_Execution\<close> (\<^verbatim>\<open>cluster_router.py\<close>, \<^verbatim>\<open>service_orchestration.py\<close>,
    \<^verbatim>\<open>orchestration_engine.py\<close>) with \<open>Orch_Properties\<close>, \<open>Graph_Properties\<close> and \<open>Execution_Properties\<close>,
    for which \<open>Execution_Trace\<close> writes down and describes the calls of an execution;
    \<open>Parallel_Batch\<close> and \<open>Batch_Properties\<close> (\<^verbatim>\<open>parallel_execution_contract.py\<close>); \<open>Exec_Profiles\<close> and
    \<open>Profile_Properties\<close> (\<^verbatim>\<open>execution_profiles.py\<close>, \<^verbatim>\<open>service_execution_resolution.py\<close>).

  \<^bold>\<open>What stands for code outside the model.\<close> Adapters, subprocesses, the file system beneath \<open>Workspace\<close>, the
  facade that \<open>Orch_Execution\<close> calls and the routing tables of a service are function arguments or fields of a
  record of functions over an arbitrary state; the theorems hold for all of them. Fresh identifiers are a hypothesis
  where a theorem needs them (\<open>lease_ids_fresh\<close> and its relatives): \<open>uuid4\<close> repeats with negligible probability.

  \<^bold>\<open>Recursion.\<close> No definition uses fuel. The loops of the code are structural recursion over the lists they run through, or
  over the number of attempts left; the text functions \<open>replace_all\<close>, \<open>split_ws\<close> and \<open>collapse_slashes\<close> recurse on the length
  of the remaining text.

  \<^bold>\<open>Not modelled.\<close> The command line, the HTTP interface and the screens (\<^verbatim>\<open>apps\<close>) call the services and format
  their answers. \<^verbatim>\<open>worker_adapters\<close>, \<^verbatim>\<open>role_agent_executor.py\<close>, the interaction services and most of
  \<^verbatim>\<open>runtime_langgraph\<close> drive subprocesses, HTTP and language models. \<^verbatim>\<open>contributions\<close> are game and asset pipelines on top of
  these services, most of it prompts, templates and calls of tools. \<^verbatim>\<open>service_projection.py\<close> assembles payloads for display.
  \<^verbatim>\<open>compile.py\<close> and the compilation of a run fill phases, cards and packets from presets, prompts and bundles of files.
  \<^verbatim>\<open>governance.py\<close>, the capability modules and \<^verbatim>\<open>unified_project_brief.py\<close> read documents of the repository and the
  tools of the machine; of them only the policy of a capability is modelled.
\<close>
end
